(* ===== verification/Prelude.thy ===== *)
theory Prelude
  imports Main "HOL-Library.Sublist" "HOL-Library.Char_ord"
begin

text \<open>
  What every component shares: Python strings, JSON values and dictionaries, the
  truth value of an optional string, and the collections of rules the component proofs
  use. Python's \<open>str\<close> is a list of code points; here it is \<^typ>\<open>string\<close>, whose
  characters are the code points 0 to 255 (Latin-1), and the character predicates below
  are those of \<open>str\<close> on that range. Timestamps are integers (seconds on the database
  clock). A Python dictionary is an association list in insertion order, as it is in
  CPython, with the operations that keep its keys distinct.
\<close>

named_theorems row_simps \<open>what a table holds after an operation\<close>
named_theorems step_rules \<open>which predicates on sessions the processing steps keep\<close>

section \<open>Python strings\<close>

definition code :: "char \<Rightarrow> nat" where
  "code c = of_char c"

definition is_upper :: "char \<Rightarrow> bool" where
  "is_upper c \<longleftrightarrow> CHR ''A'' \<le> c \<and> c \<le> CHR ''Z''"

definition is_lower :: "char \<Rightarrow> bool" where
  "is_lower c \<longleftrightarrow> CHR ''a'' \<le> c \<and> c \<le> CHR ''z''"

definition is_digit :: "char \<Rightarrow> bool" where
  "is_digit c \<longleftrightarrow> CHR ''0'' \<le> c \<and> c \<le> CHR ''9''"

definition is_ascii_alnum :: "char \<Rightarrow> bool" where
  "is_ascii_alnum c \<longleftrightarrow> is_upper c \<or> is_lower c \<or> is_digit c"

text \<open>\<open>str.isspace\<close> on the code points 0 to 255.\<close>

definition is_space :: "char \<Rightarrow> bool" where
  "is_space c \<longleftrightarrow> (9 \<le> code c \<and> code c \<le> 13) \<or> (28 \<le> code c \<and> code c \<le> 32)
     \<or> code c = 133 \<or> code c = 160"

text \<open>
  \<open>str.isalnum\<close> on the code points 0 to 255: the ASCII letters and digits, the Latin-1
  letters, and the superscript digits and fractions, which Python counts as numeric.
\<close>

definition is_alnum :: "char \<Rightarrow> bool" where
  "is_alnum c \<longleftrightarrow> is_ascii_alnum c
     \<or> code c \<in> {170, 178, 179, 181, 185, 186, 188, 189, 190}
     \<or> (192 \<le> code c \<and> code c \<noteq> 215 \<and> code c \<noteq> 247)"

definition lower_char :: "char \<Rightarrow> char" where
  "lower_char c = (if is_upper c \<or> (192 \<le> code c \<and> code c \<le> 222 \<and> code c \<noteq> 215)
     then char_of (code c + 32) else c)"

definition lower :: "string \<Rightarrow> string" where
  "lower s = map lower_char s"

definition strip_where :: "(char \<Rightarrow> bool) \<Rightarrow> string \<Rightarrow> string" where
  "strip_where p s = rev (dropWhile p (rev (dropWhile p s)))"

definition rstrip_where :: "(char \<Rightarrow> bool) \<Rightarrow> string \<Rightarrow> string" where
  "rstrip_where p s = rev (dropWhile p (rev s))"

definition strip :: "string \<Rightarrow> string" where
  "strip s = strip_where is_space s"

text \<open>\<open>sub in s\<close>, \<open>s.replace(old, new)\<close> (with a non-empty \<open>old\<close>) and \<open>s.split(c)\<close>.\<close>

fun contains :: "string \<Rightarrow> string \<Rightarrow> bool" where
  "contains sub [] = (sub = [])"
| "contains sub (c # s) = (prefix sub (c # s) \<or> contains sub s)"

function replace :: "string \<Rightarrow> string \<Rightarrow> string \<Rightarrow> string" where
  "replace old new s =
     (if old = [] \<or> s = [] then s
      else if prefix old s then new @ replace old new (drop (length old) s)
      else hd s # replace old new (tl s))"
  by pat_completeness auto
termination
  by (relation "measure (\<lambda>(old, new, s). length s)") auto

declare replace.simps [simp del]

fun split_on :: "char \<Rightarrow> string \<Rightarrow> string list" where
  "split_on d [] = [[]]"
| "split_on d (c # s) =
     (if c = d then [] # split_on d s
      else (case split_on d s of [] \<Rightarrow> [[c]] | x # xs \<Rightarrow> (c # x) # xs))"

fun join :: "string \<Rightarrow> string list \<Rightarrow> string" where
  "join sep [] = []"
| "join sep [x] = x"
| "join sep (x # y # ys) = x @ sep @ join sep (y # ys)"

text \<open>\<open>str(n)\<close> for integers.\<close>

fun str_of_nat :: "nat \<Rightarrow> string" where
  "str_of_nat n = (if n < 10 then [char_of (48 + n)]
     else str_of_nat (n div 10) @ [char_of (48 + n mod 10)])"

declare str_of_nat.simps [simp del]

definition str_of_int :: "int \<Rightarrow> string" where
  "str_of_int i = (if i < 0 then CHR ''-'' # str_of_nat (nat (- i)) else str_of_nat (nat i))"

text \<open>\<open>int(s)\<close>: white space around, a sign, digits with single underscores between them.\<close>

fun digits_value :: "int \<Rightarrow> bool \<Rightarrow> string \<Rightarrow> int option" where
  "digits_value n after_digit [] = (if after_digit then Some n else None)"
| "digits_value n after_digit (c # s) =
     (if is_digit c then digits_value (n * 10 + int (code c - 48)) True s
      else if c = CHR ''_'' \<and> after_digit then digits_value n False s
      else None)"

definition parse_int :: "string \<Rightarrow> int option" where
  "parse_int s = (case strip s of
     [] \<Rightarrow> None
   | c # cs \<Rightarrow> if c = CHR ''-'' then map_option uminus (digits_value 0 False cs)
       else if c = CHR ''+'' then digits_value 0 False cs else digits_value 0 False (c # cs))"

text \<open>The truth value of an optional string, and Python's \<open>a or b\<close> on such values.\<close>

fun truthy :: "string option \<Rightarrow> bool" where
  "truthy None = False"
| "truthy (Some s) = (s \<noteq> [])"

definition or_else :: "string option \<Rightarrow> string option \<Rightarrow> string option" where
  "or_else a b = (if truthy a then a else b)"

definition or_str :: "string option \<Rightarrow> string \<Rightarrow> string" where
  "or_str a b = (case a of None \<Rightarrow> b | Some s \<Rightarrow> if s = [] then b else s)"

text \<open>\<open>value.strip() or None\<close>.\<close>

definition strip_opt :: "string \<Rightarrow> string option" where
  "strip_opt s = (let t = strip s in if t = [] then None else Some t)"

section \<open>Lemmas on strings\<close>

lemma truthy_iff [simp]: "truthy a \<longleftrightarrow> a \<noteq> None \<and> a \<noteq> Some []"
  by (cases a) auto

lemma or_else_simps [simp]:
  "or_else None b = b" "or_else (Some []) b = b" "or_else (Some (c # s)) b = Some (c # s)"
  by (simp_all add: or_else_def)

lemma hd_dropWhile_not: "dropWhile p xs \<noteq> [] \<Longrightarrow> \<not> p (hd (dropWhile p xs))"
  by (rule hd_dropWhile)

lemma dropWhile_idem [simp]: "dropWhile p (dropWhile p xs) = dropWhile p xs"
  by (induction xs) auto

lemma dropWhile_id: "xs = [] \<or> \<not> p (hd xs) \<Longrightarrow> dropWhile p xs = xs"
  by (cases xs) auto

lemma set_strip_where: "set (strip_where p s) \<subseteq> set s"
proof -
  have "set (strip_where p s) \<subseteq> set (dropWhile p s)"
    unfolding strip_where_def using set_dropWhileD [of _ p "rev (dropWhile p s)"] by auto
  then show ?thesis using set_dropWhileD [of _ p s] by auto
qed

lemma set_rstrip_where: "set (rstrip_where p s) \<subseteq> set s"
  unfolding rstrip_where_def by (auto dest: set_dropWhileD)

lemma length_rstrip_where: "length (rstrip_where p s) \<le> length s"
  unfolding rstrip_where_def using length_dropWhile_le [of p "rev s"] by simp

lemma length_strip_where: "length (strip_where p s) \<le> length s"
  unfolding strip_where_def
  using length_dropWhile_le [of p "rev (dropWhile p s)"] length_dropWhile_le [of p s] by simp

lemma prefix_rstrip_where: "prefix (rstrip_where p s) s"
proof -
  have "s = rev (dropWhile p (rev s)) @ rev (takeWhile p (rev s))"
    by (metis rev_append rev_rev_ident takeWhile_dropWhile_id)
  then show ?thesis
    unfolding rstrip_where_def by (metis prefixI)
qed

lemma last_rstrip_where: "rstrip_where p s \<noteq> [] \<Longrightarrow> \<not> p (last (rstrip_where p s))"
  unfolding rstrip_where_def by (simp add: last_rev hd_dropWhile_not)

lemma rstrip_where_hd:
  "rstrip_where p s \<noteq> [] \<Longrightarrow> hd (rstrip_where p s) = hd s"
  using prefix_rstrip_where [of p s] unfolding prefix_def by (metis hd_append2)

lemma strip_where_rstrip: "strip_where p s = rstrip_where p (dropWhile p s)"
  by (simp add: strip_where_def rstrip_where_def)

lemma hd_strip_where: "strip_where p s \<noteq> [] \<Longrightarrow> \<not> p (hd (strip_where p s))"
  unfolding strip_where_rstrip
  by (metis rstrip_where_hd hd_dropWhile_not dropWhile.simps(1) rev.simps(1) rstrip_where_def)

lemma last_strip_where: "strip_where p s \<noteq> [] \<Longrightarrow> \<not> p (last (strip_where p s))"
  unfolding strip_where_rstrip by (rule last_rstrip_where)

lemma strip_where_fixed: "s = [] \<or> \<not> p (hd s) \<and> \<not> p (last s) \<Longrightarrow> strip_where p s = s"
  unfolding strip_where_def by (auto simp: dropWhile_id hd_rev)

lemma strip_where_idem [simp]: "strip_where p (strip_where p s) = strip_where p s"
  using strip_where_fixed [of "strip_where p s" p] hd_strip_where last_strip_where by blast

lemma contains_iff: "contains sub s \<longleftrightarrow> (\<exists>a b. s = a @ sub @ b)"
proof (induction s)
  case Nil
  then show ?case by auto
next
  case (Cons c s)
  show ?case
  proof
    assume "contains sub (c # s)"
    then consider "prefix sub (c # s)" | "contains sub s" by auto
    then show "\<exists>a b. c # s = a @ sub @ b"
    proof cases
      case 1
      then show ?thesis by (metis append_Nil prefix_def)
    next
      case 2
      then obtain a b where "s = a @ sub @ b" using Cons.IH by blast
      then have "c # s = (c # a) @ sub @ b" by simp
      then show ?thesis by blast
    qed
  next
    assume "\<exists>a b. c # s = a @ sub @ b"
    then obtain a b where ab: "c # s = a @ sub @ b" by blast
    show "contains sub (c # s)"
    proof (cases a)
      case Nil
      then have "prefix sub (c # s)" using ab by simp
      then show ?thesis by simp
    next
      case (Cons x a')
      then have "s = a' @ sub @ b" using ab by simp
      then have "contains sub s" using \<open>contains sub s \<longleftrightarrow> (\<exists>a b. s = a @ sub @ b)\<close> by blast
      then show ?thesis by simp
    qed
  qed
qed

lemma contains_Nil [simp]: "contains [] s"
  by (cases s) simp_all

lemma set_replace: "set (replace old new s) \<subseteq> set s \<union> set new"
proof (induction old new s rule: replace.induct)
  case (1 old new s)
  show ?case
  proof (cases "old = [] \<or> s = []")
    case True
    then show ?thesis by (subst replace.simps) auto
  next
    case False
    show ?thesis
    proof (cases "prefix old s")
      case True
      have "set (replace old new s) = set new \<union> set (replace old new (drop (length old) s))"
        using False True by (subst replace.simps) auto
      then show ?thesis
        using "1.IH"(1) [OF False True] set_drop_subset [of "length old" s] by auto
    next
      case nopre: False
      have "set (replace old new s) = insert (hd s) (set (replace old new (tl s)))"
        using False nopre by (subst replace.simps) auto
      moreover have "insert (hd s) (set (tl s)) = set s"
        using False by (cases s) auto
      ultimately show ?thesis
        using "1.IH"(2) [OF False nopre] by blast
    qed
  qed
qed

lemma split_on_nonempty [simp]: "split_on d s \<noteq> []"
  by (induction s) (auto split: list.splits)

lemma join_split_on: "join [d] (split_on d s) = s"
proof (induction s)
  case (Cons c s)
  then show ?case
    by (cases "split_on d s") (auto split: list.splits, (metis join.simps list.exhaust append_Cons)+)
qed simp

lemma split_on_no_sep: "x \<in> set (split_on d s) \<Longrightarrow> d \<notin> set x"
  by (induction s arbitrary: x) (auto split: if_splits list.splits)

lemma sort_key_Nil_iff [simp]: "sort_key f xs = [] \<longleftrightarrow> xs = []"
  by (metis length_0_conv length_sort)

end
