(* ===== verification/Json.thy ===== *)
theory Json
  imports Prelude "HOL-Library.AList"
begin

text \<open>
  The JSON values that the columns of type \<open>db.JSON\<close>, the event metadata and the request
  bodies hold. A Python dictionary is an association list in insertion order; assignment
  \<open>d[k] = v\<close> is \<^term>\<open>AList.update\<close>, which replaces in place or appends, as CPython
  does; \<open>a | b\<close> is \<open>jmerge a b\<close>. \<open>JTime t\<close> is the text of \<open>t.isoformat()\<close>, kept
  opaque because its shape depends on the database driver.
\<close>

datatype json =
    JNull
  | JBool bool
  | JInt int
  | JStr string
  | JTime int
  | JList "json list"
  | JDict "(string \<times> json) list"

type_synonym dict = "(string \<times> json) list"

section \<open>Reading and writing dictionaries\<close>

text \<open>\<open>d.get(k)\<close> (a missing key and a stored None are both None) and \<open>k in d\<close>.\<close>

definition jget :: "dict \<Rightarrow> string \<Rightarrow> json" where
  "jget d k = (case map_of d k of None \<Rightarrow> JNull | Some v \<Rightarrow> v)"

definition jhas :: "dict \<Rightarrow> string \<Rightarrow> bool" where
  "jhas d k = (map_of d k \<noteq> None)"

definition jset :: "string \<Rightarrow> json \<Rightarrow> dict \<Rightarrow> dict" where
  "jset k v d = AList.update k v d"

text \<open>\<open>a | b\<close> and \<open>{**a, **b}\<close>: the entries of \<open>b\<close> override those of \<open>a\<close>.\<close>

definition jmerge :: "dict \<Rightarrow> dict \<Rightarrow> dict" where
  "jmerge a b = fold (\<lambda>(k, v) d. jset k v d) b a"

definition jsetdefault :: "string \<Rightarrow> json \<Rightarrow> dict \<Rightarrow> dict" where
  "jsetdefault k v d = (if jhas d k then d else jset k v d)"

section \<open>Truth values and conversions\<close>

fun jtrue :: "json \<Rightarrow> bool" where
  "jtrue JNull = False"
| "jtrue (JBool b) = b"
| "jtrue (JInt i) = (i \<noteq> 0)"
| "jtrue (JStr s) = (s \<noteq> [])"
| "jtrue (JTime t) = True"
| "jtrue (JList xs) = (xs \<noteq> [])"
| "jtrue (JDict d) = (d \<noteq> [])"

fun jstr_opt :: "json \<Rightarrow> string option" where
  "jstr_opt (JStr s) = Some s"
| "jstr_opt _ = None"

fun is_dict :: "json \<Rightarrow> bool" where
  "is_dict (JDict d) = True"
| "is_dict _ = False"

fun dict_of :: "json \<Rightarrow> dict" where
  "dict_of (JDict d) = d"
| "dict_of _ = []"

definition list_of :: "json \<Rightarrow> json list" where
  "list_of v = (case v of JList xs \<Rightarrow> xs | _ \<Rightarrow> [])"

text \<open>An optional string, integer or time as the JSON value it is stored as.\<close>

definition jopt :: "string option \<Rightarrow> json" where
  "jopt a = (case a of None \<Rightarrow> JNull | Some s \<Rightarrow> JStr s)"

definition jint_opt :: "int option \<Rightarrow> json" where
  "jint_opt a = (case a of None \<Rightarrow> JNull | Some i \<Rightarrow> JInt i)"

definition jtime_opt :: "int option \<Rightarrow> json" where
  "jtime_opt a = (case a of None \<Rightarrow> JNull | Some t \<Rightarrow> JTime t)"

definition jnat :: "nat \<Rightarrow> json" where
  "jnat n = JInt (int n)"

definition jnat_opt :: "nat option \<Rightarrow> json" where
  "jnat_opt a = (case a of None \<Rightarrow> JNull | Some n \<Rightarrow> jnat n)"

text \<open>\<open>x or y\<close> on JSON values.\<close>

definition jor :: "json \<Rightarrow> json \<Rightarrow> json" where
  "jor a b = (if jtrue a then a else b)"

section \<open>Laws\<close>

lemma jget_jset [simp]: "jget (jset k v d) k' = (if k' = k then v else jget d k')"
  by (simp add: jget_def jset_def update_conv')

lemma jhas_jset [simp]: "jhas (jset k v d) k' = (k' = k \<or> jhas d k')"
  by (auto simp: jhas_def jset_def update_conv')

lemma jget_Cons [simp]: "jget ((k, v) # d) k' = (if k' = k then v else jget d k')"
  by (simp add: jget_def)

lemma jget_Nil [simp]: "jget [] k = JNull"
  by (simp add: jget_def)

lemma jhas_Cons [simp]: "jhas ((k, v) # d) k' = (k' = k \<or> jhas d k')"
  by (auto simp: jhas_def)

lemma jhas_Nil [simp]: "\<not> jhas [] k"
  by (simp add: jhas_def)

lemma jhas_iff: "jhas d k \<longleftrightarrow> k \<in> fst ` set d"
  by (simp add: jhas_def map_of_eq_None_iff)

lemma distinct_jset: "distinct (map fst d) \<Longrightarrow> distinct (map fst (jset k v d))"
  unfolding jset_def by (rule distinct_update)

lemma jmerge_Nil [simp]: "jmerge a [] = a"
  by (simp add: jmerge_def)

lemma jmerge_Cons: "jmerge a ((k, v) # b) = jmerge (jset k v a) b"
  by (simp add: jmerge_def)

lemma jhas_jmerge [simp]: "jhas (jmerge a b) k \<longleftrightarrow> jhas a k \<or> jhas b k"
  by (induction b arbitrary: a) (auto simp: jmerge_Cons)

lemma jget_jmerge:
  "distinct (map fst b) \<Longrightarrow> jget (jmerge a b) k = (if jhas b k then jget b k else jget a k)"
proof (induction b arbitrary: a)
  case (Cons x b)
  obtain k' v where x: "x = (k', v)" by (cases x)
  have "k' \<notin> fst ` set b" using Cons.prems x by auto
  then have "\<not> jhas b k'" by (simp add: jhas_iff)
  then show ?case using Cons x by (auto simp: jmerge_Cons)
qed simp

lemma distinct_jmerge: "distinct (map fst a) \<Longrightarrow> distinct (map fst (jmerge a b))"
  by (induction b arbitrary: a) (auto simp: jmerge_Cons distinct_jset)

lemma jget_jsetdefault [simp]:
  "jget (jsetdefault k v d) k' = (if k' = k \<and> \<not> jhas d k then v else jget d k')"
  by (simp add: jsetdefault_def)

end
