(* ===== verification/Status.thy ===== *)
theory Status
  imports Prelude
begin

text \<open>
  The status columns of deployments, builds and commands and the transition tables of
  \<open>models/platform_deployment.py\<close> and \<open>models/build.py\<close>. The locale \<open>status_machine\<close> is
  what the processing components rely on: every transition goes forward in a linear
  order of the statuses, so a path never comes back. It is interpreted on both tables.
\<close>

section \<open>Paths in a transition table\<close>

inductive path :: "('s \<Rightarrow> 's list) \<Rightarrow> 's \<Rightarrow> 's \<Rightarrow> bool" for succs :: "'s \<Rightarrow> 's list" where
  path_refl [intro!]: "path succs s s"
| path_step: "path succs s t \<Longrightarrow> u \<in> set (succs t) \<Longrightarrow> path succs s u"

lemma path_one: "t \<in> set (succs s) \<Longrightarrow> path succs s t"
  by (rule path_step [OF path_refl])

lemma path_append: "path succs t u \<Longrightarrow> path succs s t \<Longrightarrow> path succs s u"
  by (induction rule: path.induct) (auto intro: path_step)

lemma path_trans: "path succs s t \<Longrightarrow> path succs t u \<Longrightarrow> path succs s u"
  by (rule path_append)

lemma path_head: "path succs s t \<Longrightarrow> s = t \<or> (\<exists>u \<in> set (succs s). path succs u t)"
  by (induction rule: path.induct) (auto intro: path_step)

text \<open>A table whose transitions all go forward in a linear order.\<close>

locale status_machine =
  fixes succs :: "'s::linorder \<Rightarrow> 's list"
  assumes step_less: "t \<in> set (succs s) \<Longrightarrow> s < t"
begin

lemma path_le: "path succs s t \<Longrightarrow> s \<le> t"
  by (induction rule: path.induct) (auto dest: step_less)

lemma path_antisym: "path succs s t \<Longrightarrow> path succs t s \<Longrightarrow> s = t"
  by (meson antisym path_le)

lemma no_return: "u \<in> set (succs s) \<Longrightarrow> \<not> path succs u s"
  using path_le step_less by fastforce

lemma path_terminal: "path succs s t \<Longrightarrow> succs s = [] \<Longrightarrow> t = s"
  by (induction rule: path.induct) auto

lemma path_chain_bound:
  "sorted_wrt (\<lambda>a b. b \<in> set (succs a)) ss \<Longrightarrow> distinct ss"
  by (induction ss) (auto dest: step_less)

end

section \<open>Deployments\<close>

datatype dep_status =
    Pending | Cloning | Building | Testing | Pushing_image | Deploying | Running | Failed | Stopped

fun dep_next :: "dep_status \<Rightarrow> dep_status list" where
  "dep_next Pending = [Cloning, Failed, Stopped]"
| "dep_next Cloning = [Building, Failed, Stopped]"
| "dep_next Building = [Testing, Pushing_image, Failed, Stopped]"
| "dep_next Testing = [Pushing_image, Failed, Stopped]"
| "dep_next Pushing_image = [Deploying, Failed, Stopped]"
| "dep_next Deploying = [Running, Failed, Stopped]"
| "dep_next Running = [Failed, Stopped]"
| "dep_next Failed = [Stopped]"
| "dep_next Stopped = []"

definition dep_statuses :: "dep_status list" where
  "dep_statuses = [Pending, Cloning, Building, Testing, Pushing_image, Deploying, Running, Failed, Stopped]"

fun dep_status_name :: "dep_status \<Rightarrow> string" where
  "dep_status_name Pending = ''pending''"
| "dep_status_name Cloning = ''cloning''"
| "dep_status_name Building = ''building''"
| "dep_status_name Testing = ''testing''"
| "dep_status_name Pushing_image = ''pushing_image''"
| "dep_status_name Deploying = ''deploying''"
| "dep_status_name Running = ''running''"
| "dep_status_name Failed = ''failed''"
| "dep_status_name Stopped = ''stopped''"

definition parse_dep_status :: "string \<Rightarrow> dep_status option" where
  "parse_dep_status s = find (\<lambda>st. dep_status_name st = s) dep_statuses"

text \<open>The place of a status in the pipeline.\<close>

fun dep_rank :: "dep_status \<Rightarrow> nat" where
  "dep_rank Pending = 0" | "dep_rank Cloning = 1" | "dep_rank Building = 2"
| "dep_rank Testing = 3" | "dep_rank Pushing_image = 4" | "dep_rank Deploying = 5"
| "dep_rank Running = 6" | "dep_rank Failed = 7" | "dep_rank Stopped = 8"

instantiation dep_status :: linorder
begin

definition less_eq_dep_status :: "dep_status \<Rightarrow> dep_status \<Rightarrow> bool" where
  "less_eq_dep_status a b = (dep_rank a \<le> dep_rank b)"

definition less_dep_status :: "dep_status \<Rightarrow> dep_status \<Rightarrow> bool" where
  "less_dep_status a b = (dep_rank a < dep_rank b)"

instance
proof
  fix a b :: dep_status
  show "a = b" if "a \<le> b" and "b \<le> a"
    using that by (cases a; cases b) (simp_all add: less_eq_dep_status_def)
qed (auto simp: less_eq_dep_status_def less_dep_status_def)

end

lemma dep_statuses_all: "set dep_statuses = UNIV"
  unfolding dep_statuses_def using dep_status.exhaust by auto

lemma parse_dep_status_name: "parse_dep_status (dep_status_name st) = Some st"
  by (cases st) (simp_all add: parse_dep_status_def dep_statuses_def)

lemma parse_dep_statusD: "parse_dep_status s = Some st \<Longrightarrow> dep_status_name st = s"
  unfolding parse_dep_status_def by (auto simp: find_Some_iff)

interpretation dep_machine: status_machine dep_next
proof
  show "s < t" if "t \<in> set (dep_next s)" for s t
    using that by (cases s) (auto simp: less_dep_status_def)
qed

section \<open>Builds\<close>

datatype build_status =
    B_pending | B_cloning | B_building | B_testing | B_pushing_image
  | B_succeeded | B_failed | B_cancelled

fun build_next :: "build_status \<Rightarrow> build_status list" where
  "build_next B_pending = [B_cloning, B_failed, B_cancelled]"
| "build_next B_cloning = [B_building, B_failed, B_cancelled]"
| "build_next B_building = [B_testing, B_pushing_image, B_failed, B_cancelled]"
| "build_next B_testing = [B_pushing_image, B_failed, B_cancelled]"
| "build_next B_pushing_image = [B_succeeded, B_failed, B_cancelled]"
| "build_next B_succeeded = [B_failed]"
| "build_next B_failed = []"
| "build_next B_cancelled = []"

definition build_statuses :: "build_status list" where
  "build_statuses =
     [B_pending, B_cloning, B_building, B_testing, B_pushing_image, B_succeeded, B_failed, B_cancelled]"

fun build_status_name :: "build_status \<Rightarrow> string" where
  "build_status_name B_pending = ''pending''"
| "build_status_name B_cloning = ''cloning''"
| "build_status_name B_building = ''building''"
| "build_status_name B_testing = ''testing''"
| "build_status_name B_pushing_image = ''pushing_image''"
| "build_status_name B_succeeded = ''succeeded''"
| "build_status_name B_failed = ''failed''"
| "build_status_name B_cancelled = ''cancelled''"

definition parse_build_status :: "string \<Rightarrow> build_status option" where
  "parse_build_status s = find (\<lambda>st. build_status_name st = s) build_statuses"

fun build_rank :: "build_status \<Rightarrow> nat" where
  "build_rank B_pending = 0" | "build_rank B_cloning = 1" | "build_rank B_building = 2"
| "build_rank B_testing = 3" | "build_rank B_pushing_image = 4" | "build_rank B_succeeded = 5"
| "build_rank B_failed = 6" | "build_rank B_cancelled = 7"

instantiation build_status :: linorder
begin

definition less_eq_build_status :: "build_status \<Rightarrow> build_status \<Rightarrow> bool" where
  "less_eq_build_status a b = (build_rank a \<le> build_rank b)"

definition less_build_status :: "build_status \<Rightarrow> build_status \<Rightarrow> bool" where
  "less_build_status a b = (build_rank a < build_rank b)"

instance
proof
  fix a b :: build_status
  show "a = b" if "a \<le> b" and "b \<le> a"
    using that by (cases a; cases b) (simp_all add: less_eq_build_status_def)
qed (auto simp: less_eq_build_status_def less_build_status_def)

end

lemma build_statuses_all: "set build_statuses = UNIV"
  unfolding build_statuses_def using build_status.exhaust by auto

lemma parse_build_status_name: "parse_build_status (build_status_name st) = Some st"
  by (cases st) (simp_all add: parse_build_status_def build_statuses_def)

lemma parse_build_statusD: "parse_build_status s = Some st \<Longrightarrow> build_status_name st = s"
  unfolding parse_build_status_def by (auto simp: find_Some_iff)

interpretation build_machine: status_machine build_next
proof
  show "s < t" if "t \<in> set (build_next s)" for s t
    using that by (cases s) (auto simp: less_build_status_def)
qed

section \<open>Commands\<close>

datatype cmd_status = C_pending | C_claimed | C_succeeded | C_failed | C_skipped

fun cmd_status_name :: "cmd_status \<Rightarrow> string" where
  "cmd_status_name C_pending = ''pending''"
| "cmd_status_name C_claimed = ''claimed''"
| "cmd_status_name C_succeeded = ''succeeded''"
| "cmd_status_name C_failed = ''failed''"
| "cmd_status_name C_skipped = ''skipped''"

text \<open>\<open>ACTIVE_COMMAND_STATUSES\<close>: a command that is still to be done.\<close>

fun cmd_active :: "cmd_status \<Rightarrow> bool" where
  "cmd_active C_pending = True"
| "cmd_active C_claimed = True"
| "cmd_active _ = False"

text \<open>What the transition tables say of \<open>failed\<close>, which the error paths rely on.\<close>

lemma dep_can_fail: "st \<noteq> Failed \<Longrightarrow> st \<noteq> Stopped \<Longrightarrow> Failed \<in> set (dep_next st)"
  by (cases st) auto

lemma dep_can_stop: "st \<noteq> Stopped \<Longrightarrow> Stopped \<in> set (dep_next st)"
  by (cases st) auto

lemma build_can_fail: "st \<noteq> B_failed \<Longrightarrow> st \<noteq> B_cancelled \<Longrightarrow> B_failed \<in> set (build_next st)"
  by (cases st) auto

lemma build_can_cancel:
  "st \<notin> {B_succeeded, B_failed, B_cancelled} \<Longrightarrow> B_cancelled \<in> set (build_next st)"
  by (cases st) auto

end
