(* ===== verification/Models.thy ===== *)
theory Models
  imports Json Status
begin

text \<open>
  The rows of the database (\<open>control_plane/models\<close>), one record per table with its
  columns, and the database itself, a record of tables. A row's field carries the
  table's initial (\<open>d_\<close> deployments, \<open>b_\<close> builds, \<open>c_\<close> commands, \<open>e_\<close> events, \<open>p_\<close>
  projects, \<open>w_\<close> webhook deliveries, \<open>a_\<close> audit events); a nullable column is an
  option. The locale \<open>table\<close> is what every component uses of a table: reading a row
  after a write to the same row, and to another one.
\<close>

section \<open>Rows\<close>

record project =
  p_id :: nat
  p_name :: string
  p_repo_url :: string
  p_branch :: string
  p_git_auth_type :: string
  p_git_secret_ref :: "string option"
  p_dockerfile_path :: string
  p_build_context :: string
  p_port :: int
  p_healthcheck_path :: string
  p_env_vars :: "json list"
  p_default_test_command :: "string option"
  p_migration_command :: "string option"
  p_cpu :: "string option"
  p_memory :: "string option"
  p_trigger :: string
  p_runtime :: string
  p_created_at :: int
  p_updated_at :: int

record build =
  b_id :: nat
  b_project_id :: nat
  b_commit_sha :: string
  b_registry :: "string option"
  b_image_name :: "string option"
  b_image_tag :: "string option"
  b_image_ref :: "string option"
  b_status :: build_status
  b_registry_push_status :: "string option"
  b_test_command :: "string option"
  b_workspace_path :: "string option"
  b_build_log_path :: "string option"
  b_log_path :: "string option"
  b_last_error :: "string option"
  b_started_at :: "int option"
  b_finished_at :: "int option"
  b_created_at :: int
  b_updated_at :: int

record deployment =
  d_id :: nat
  d_project_id :: nat
  d_build_id :: nat
  d_environment :: string
  d_status :: dep_status
  d_deploy_target :: "string option"
  d_container_name :: "string option"
  d_container_id :: "string option"
  d_host_port :: "int option"
  d_healthcheck_url :: "string option"
  d_service_url :: "string option"
  d_kubernetes_deployment_mode :: "string option"
  d_kubernetes_namespace :: "string option"
  d_kubernetes_deployment_name :: "string option"
  d_kubernetes_service_name :: "string option"
  d_kubernetes_ingress_name :: "string option"
  d_helm_release_name :: "string option"
  d_helm_namespace :: "string option"
  d_helm_chart_path :: "string option"
  d_preflight_status :: "string option"
  d_preflight_summary :: "string option"
  d_preflight_metadata_json :: json
  d_spec_snapshot_json :: json
  d_preflight_completed_at :: "int option"
  d_last_error :: "string option"
  d_started_at :: "int option"
  d_finished_at :: "int option"
  d_claimed_at :: "int option"
  d_claimed_by :: "string option"
  d_origin_request_id :: "string option"
  d_created_at :: int
  d_updated_at :: int

record command =
  c_id :: nat
  c_deployment_id :: nat
  c_command_type :: string
  c_status :: cmd_status
  c_active_key :: "string option"
  c_message :: "string option"
  c_last_error :: "string option"
  c_claimed_by :: "string option"
  c_claimed_at :: "int option"
  c_origin_request_id :: "string option"
  c_requested_at :: int
  c_completed_at :: "int option"

record event =
  e_id :: nat
  e_deployment_id :: nat
  e_event_type :: string
  e_step :: "string option"
  e_level :: string
  e_status :: string
  e_message :: "string option"
  e_metadata_json :: json
  e_created_at :: int

record delivery =
  w_id :: nat
  w_delivery_id :: string
  w_event_type :: string
  w_repository_url :: "string option"
  w_branch :: "string option"
  w_commit_sha :: "string option"
  w_status :: string
  w_reason :: "string option"
  w_deployment_id :: "nat option"
  w_received_at :: int

record audit_event =
  a_id :: nat
  a_action :: string
  a_actor_role :: "string option"
  a_resource_type :: string
  a_resource_id :: "string option"
  a_status :: string
  a_request_id :: "string option"
  a_ip_address :: "string option"
  a_metadata_json :: json
  a_created_at :: int

record world =
  projects :: "project list"
  builds :: "build list"
  deployments :: "deployment list"
  commands :: "command list"
  events :: "event list"
  deliveries :: "delivery list"
  audits :: "audit_event list"

section \<open>Tables\<close>

text \<open>
  A table is a list of rows with an integer primary key: look a row up, apply a function
  to one row, and the next key of an autoincrement column.
\<close>

definition row :: "('r \<Rightarrow> nat) \<Rightarrow> nat \<Rightarrow> 'r list \<Rightarrow> 'r option" where
  "row key k xs = find (\<lambda>r. key r = k) xs"

definition alter :: "('r \<Rightarrow> nat) \<Rightarrow> nat \<Rightarrow> ('r \<Rightarrow> 'r) \<Rightarrow> 'r list \<Rightarrow> 'r list" where
  "alter key k f xs = map (\<lambda>r. if key r = k then f r else r) xs"

definition next_id :: "('r \<Rightarrow> nat) \<Rightarrow> 'r list \<Rightarrow> nat" where
  "next_id key xs = Suc (fold max (map key xs) 0)"

definition get_project :: "world \<Rightarrow> nat \<Rightarrow> project option" where
  "get_project w i = row p_id i (projects w)"

definition get_build :: "world \<Rightarrow> nat \<Rightarrow> build option" where
  "get_build w i = row b_id i (builds w)"

definition get_dep :: "world \<Rightarrow> nat \<Rightarrow> deployment option" where
  "get_dep w i = row d_id i (deployments w)"

definition get_cmd :: "world \<Rightarrow> nat \<Rightarrow> command option" where
  "get_cmd w i = row c_id i (commands w)"

definition upd_project :: "nat \<Rightarrow> (project \<Rightarrow> project) \<Rightarrow> world \<Rightarrow> world" where
  "upd_project i f w = w\<lparr>projects := alter p_id i f (projects w)\<rparr>"

definition upd_build :: "nat \<Rightarrow> (build \<Rightarrow> build) \<Rightarrow> world \<Rightarrow> world" where
  "upd_build i f w = w\<lparr>builds := alter b_id i f (builds w)\<rparr>"

definition upd_dep :: "nat \<Rightarrow> (deployment \<Rightarrow> deployment) \<Rightarrow> world \<Rightarrow> world" where
  "upd_dep i f w = w\<lparr>deployments := alter d_id i f (deployments w)\<rparr>"

definition upd_cmd :: "nat \<Rightarrow> (command \<Rightarrow> command) \<Rightarrow> world \<Rightarrow> world" where
  "upd_cmd i f w = w\<lparr>commands := alter c_id i f (commands w)\<rparr>"

lemma row_Nil [simp]: "row key k [] = None"
  by (simp add: row_def)

lemma row_Cons: "row key k (r # rs) = (if key r = k then Some r else row key k rs)"
  by (simp add: row_def)

lemma row_key: "row key k xs = Some r \<Longrightarrow> key r = k"
  unfolding row_def by (auto simp: find_Some_iff)

lemma row_in: "row key k xs = Some r \<Longrightarrow> r \<in> set xs"
  unfolding row_def by (auto simp: find_Some_iff)

lemma row_None_iff: "row key k xs = None \<longleftrightarrow> (\<forall>r \<in> set xs. key r \<noteq> k)"
  unfolding row_def by (auto simp: find_None_iff)

lemma row_append: "row key k (xs @ ys) = (case row key k xs of None \<Rightarrow> row key k ys | Some r \<Rightarrow> Some r)"
  by (induction xs) (auto simp: row_Cons)

lemma row_alter:
  assumes "\<And>r. key (f r) = key r"
  shows "row key j (alter key i f xs) = (if j = i then map_option f (row key j xs) else row key j xs)"
  by (induction xs) (auto simp: row_Cons alter_def assms)

lemma row_alter_other_key:
  "(\<And>r. key (f r) = key r) \<Longrightarrow> map key (alter key i f xs) = map key xs"
  by (simp add: alter_def)

lemma fold_max_ge_init: "(a::nat) \<le> fold max xs a"
proof (induction xs arbitrary: a)
  case (Cons y ys)
  show ?case using Cons.IH [of "max y a"] by simp
qed simp

lemma fold_max_ge: "x \<in> set xs \<Longrightarrow> (x::nat) \<le> fold max xs a"
proof (induction xs arbitrary: a)
  case (Cons y ys)
  then show ?case using fold_max_ge_init [of "max y a" ys] by auto
qed simp

lemma next_id_fresh: "r \<in> set xs \<Longrightarrow> key r < next_id key xs"
  unfolding next_id_def using fold_max_ge [of "key r" "map key xs" 0] by simp

lemma row_next_id: "row key (next_id key xs) xs = None"
  unfolding row_None_iff by (auto dest: next_id_fresh [of _ xs key])

section \<open>The interface of a table\<close>

locale table =
  fixes get :: "'w \<Rightarrow> nat \<Rightarrow> 'r option"
    and upd :: "nat \<Rightarrow> ('r \<Rightarrow> 'r) \<Rightarrow> 'w \<Rightarrow> 'w"
    and key :: "'r \<Rightarrow> nat"
  assumes get_key: "get w i = Some r \<Longrightarrow> key r = i"
    and get_upd: "(\<And>r. key (f r) = key r) \<Longrightarrow>
      get (upd i f w) j = (if j = i then map_option f (get w j) else get w j)"
begin

lemma get_upd_same: "(\<And>r. key (f r) = key r) \<Longrightarrow> get w i = Some r \<Longrightarrow> get (upd i f w) i = Some (f r)"
  by (simp add: get_upd)

lemma get_upd_other: "(\<And>r. key (f r) = key r) \<Longrightarrow> j \<noteq> i \<Longrightarrow> get (upd i f w) j = get w j"
  by (simp add: get_upd)

lemma get_upd_missing: "(\<And>r. key (f r) = key r) \<Longrightarrow> get w i = None \<Longrightarrow> get (upd i f w) j = get w j"
  by (simp add: get_upd)

lemma get_upd_upd:
  "(\<And>r. key (f r) = key r) \<Longrightarrow> (\<And>r. key (g r) = key r) \<Longrightarrow>
    get (upd i g (upd i f w)) j = get (upd i (\<lambda>r. g (f r)) w) j"
  by (simp add: get_upd option.map_comp comp_def)

end

interpretation deps: table get_dep upd_dep d_id
  by unfold_locales (auto simp: get_dep_def upd_dep_def row_alter dest: row_key)

interpretation bldt: table get_build upd_build b_id
  by unfold_locales (auto simp: get_build_def upd_build_def row_alter dest: row_key)

interpretation cmdt: table get_cmd upd_cmd c_id
  by unfold_locales (auto simp: get_cmd_def upd_cmd_def row_alter dest: row_key)

interpretation prjt: table get_project upd_project p_id
  by unfold_locales (auto simp: get_project_def upd_project_def row_alter dest: row_key)

text \<open>A write to one table leaves the others.\<close>

lemma frame_tables [row_simps, simp]:
  "get_build (upd_dep i f w) j = get_build w j"
  "get_cmd (upd_dep i f w) j = get_cmd w j"
  "get_project (upd_dep i f w) j = get_project w j"
  "get_dep (upd_build i g w) j = get_dep w j"
  "get_cmd (upd_build i g w) j = get_cmd w j"
  "get_project (upd_build i g w) j = get_project w j"
  "get_dep (upd_cmd i h w) j = get_dep w j"
  "get_build (upd_cmd i h w) j = get_build w j"
  "get_project (upd_cmd i h w) j = get_project w j"
  "events (upd_dep i f w) = events w"
  "events (upd_build i g w) = events w"
  "events (upd_cmd i h w) = events w"
  "commands (upd_dep i f w) = commands w"
  "commands (upd_build i g w) = commands w"
  "deployments (upd_build i g w) = deployments w"
  "deployments (upd_cmd i h w) = deployments w"
  "builds (upd_dep i f w) = builds w"
  "builds (upd_cmd i h w) = builds w"
  "projects (upd_dep i f w) = projects w"
  "projects (upd_build i g w) = projects w"
  "projects (upd_cmd i h w) = projects w"
  by (simp_all add: get_dep_def get_build_def get_cmd_def get_project_def
      upd_dep_def upd_build_def upd_cmd_def)

lemma frame_events [row_simps, simp]:
  "get_dep (w\<lparr>events := es\<rparr>) i = get_dep w i"
  "get_build (w\<lparr>events := es\<rparr>) i = get_build w i"
  "get_cmd (w\<lparr>events := es\<rparr>) i = get_cmd w i"
  "get_project (w\<lparr>events := es\<rparr>) i = get_project w i"
  "upd_dep i f (w\<lparr>events := es\<rparr>) = (upd_dep i f w)\<lparr>events := es\<rparr>"
  "upd_build i g (w\<lparr>events := es\<rparr>) = (upd_build i g w)\<lparr>events := es\<rparr>"
  "upd_cmd i h (w\<lparr>events := es\<rparr>) = (upd_cmd i h w)\<lparr>events := es\<rparr>"
  by (simp_all add: get_dep_def get_build_def get_cmd_def get_project_def
      upd_dep_def upd_build_def upd_cmd_def)

text \<open>With distinct primary keys, a row of the table is the row its key finds.\<close>

lemma row_of_member: "distinct (map key xs) \<Longrightarrow> r \<in> set xs \<Longrightarrow> row key (key r) xs = Some r"
  by (induction xs) (auto simp: row_Cons)

lemma row_replace_other:
  "key r' = i \<Longrightarrow> j \<noteq> i \<Longrightarrow> row key j (alter key i (\<lambda>_. r') xs) = row key j xs"
  by (induction xs) (auto simp: row_Cons alter_def)

lemma row_replace_same:
  "row key i xs = Some r \<Longrightarrow> key r' = i \<Longrightarrow> row key i (alter key i (\<lambda>_. r') xs) = Some r'"
  by (induction xs) (auto simp: row_Cons alter_def split: if_splits)

lemma row_replace:
  "row key i xs = Some r \<Longrightarrow> key r' = i \<Longrightarrow>
    row key j (alter key i (\<lambda>_. r') xs) = (if j = i then Some r' else row key j xs)"
  by (simp add: row_replace_same row_replace_other)

lemma get_dep_replace:
  "get_dep w i = Some d \<Longrightarrow> d_id d' = i \<Longrightarrow>
    get_dep (upd_dep i (\<lambda>_. d') w) j = (if j = i then Some d' else get_dep w j)"
  by (simp add: get_dep_def upd_dep_def row_replace)

lemma get_cmd_replace:
  "get_cmd w i = Some k \<Longrightarrow> c_id k' = i \<Longrightarrow>
    get_cmd (upd_cmd i (\<lambda>_. k') w) j = (if j = i then Some k' else get_cmd w j)"
  by (simp add: get_cmd_def upd_cmd_def row_replace)

section \<open>Transitions\<close>

definition can_transition_to :: "deployment \<Rightarrow> dep_status \<Rightarrow> bool" where
  "can_transition_to d st = (st = d_status d \<or> st \<in> set (dep_next (d_status d)))"

definition allowed_transitions :: "deployment \<Rightarrow> dep_status list" where
  "allowed_transitions d = dep_next (d_status d)"

definition build_can_transition_to :: "build \<Rightarrow> build_status \<Rightarrow> bool" where
  "build_can_transition_to b st = (st = b_status b \<or> st \<in> set (build_next (b_status b)))"

lemma can_transition_path: "can_transition_to d st \<Longrightarrow> path dep_next (d_status d) st"
  unfolding can_transition_to_def by (auto intro: path_one)

lemma build_can_transition_path: "build_can_transition_to b st \<Longrightarrow> path build_next (b_status b) st"
  unfolding build_can_transition_to_def by (auto intro: path_one)

text \<open>\<open>onupdate\<close>: a row that an UPDATE changes gets the current time.\<close>

definition touch_dep :: "int \<Rightarrow> (deployment \<Rightarrow> deployment) \<Rightarrow> deployment \<Rightarrow> deployment" where
  "touch_dep now f d = (let d' = f d in if d' = d then d else d'\<lparr>d_updated_at := now\<rparr>)"

definition touch_build :: "int \<Rightarrow> (build \<Rightarrow> build) \<Rightarrow> build \<Rightarrow> build" where
  "touch_build now f b = (let b' = f b in if b' = b then b else b'\<lparr>b_updated_at := now\<rparr>)"

lemma touch_dep_id [simp]: "(\<And>d. d_id (f d) = d_id d) \<Longrightarrow> d_id (touch_dep t f d) = d_id d"
  by (simp add: touch_dep_def Let_def)

lemma touch_dep_frame [simp]:
  "(\<And>d. d_status (f d) = d_status d) \<Longrightarrow> d_status (touch_dep t f d) = d_status d"
  "(\<And>d. d_build_id (f d) = d_build_id d) \<Longrightarrow> d_build_id (touch_dep t f d) = d_build_id d"
  by (simp_all add: touch_dep_def Let_def)

lemma touch_build_id [simp]: "(\<And>b. b_id (f b) = b_id b) \<Longrightarrow> b_id (touch_build t f b) = b_id b"
  by (simp add: touch_build_def Let_def)

lemma touch_dep_cases:
  "touch_dep now f d = f d \<or> touch_dep now f d = (f d)\<lparr>d_updated_at := now\<rparr>"
  by (auto simp: touch_dep_def Let_def)

lemma touch_build_cases:
  "touch_build now f b = f b \<or> touch_build now f b = (f b)\<lparr>b_updated_at := now\<rparr>"
  by (auto simp: touch_build_def Let_def)

end
