(* ===== verification/Session.thy ===== *)
theory Session
  imports Models
begin

text \<open>
  The database session of a worker and the processing steps over it. A step
  (\<open>'a proc\<close>) takes a session and returns an exception or a value, and the session after
  it. A session holds the committed database \<open>com\<close>, the database with the pending writes of
  the transaction \<open>cur\<close> (what the session's own queries see, since SQLAlchemy flushes
  before a query), and the clock. The clock stands still between two calls that leave the
  process; it is not rolled back. A statement reads the rows committed before it and the
  session's own writes. A query on a deleted row raises \<open>ObjectDeletedError\<close>.

  The locale \<open>world_invariant\<close> is what the processing components promise of every write
  they make: its clients show, once, that a step built from those writes keeps a property
  of the database, whether it returns, raises or rolls back.
\<close>

section \<open>Exceptions, results and executors\<close>

record aux_event =
  x_event_type :: string
  x_status :: string
  x_message :: "string option"
  x_step :: "string option"
  x_level :: "string option"
  x_metadata_json :: dict

text \<open>
  The exceptions the processing code tells apart: \<open>ClaimLostError\<close> (deployment, worker,
  current owner, its claim time, status), \<open>DeploymentCancellationRequested\<close> (deployment,
  command, command type), \<open>CommandClaimLostError\<close>, \<open>WorkerExecutionError\<close> (step, message,
  metadata, log path, events), and any other one (its type's name and text).
\<close>

datatype exn =
    ClaimLost nat string "string option" "int option" "dep_status option"
  | CancelRequested nat nat string
  | CommandClaimLost string
  | ExecError string string dict "string option" "aux_event list"
  | OtherExn string string

record exec_result =
  r_message :: string
  r_metadata :: dict
  r_events :: "aux_event list"
  r_log_path :: "string option"
  r_workspace_path :: "string option"
  r_command_output :: "string option"
  r_image_tag :: "string option"
  r_image_ref :: "string option"
  r_service_url :: "string option"
  r_deploy_target :: "string option"
  r_container_name :: "string option"
  r_container_id :: "string option"
  r_host_port :: "int option"
  r_healthcheck_url :: "string option"
  r_runtime_log_path :: "string option"

record preflight_result =
  f_status :: string
  f_summary :: string
  f_metadata :: dict
  f_events :: "aux_event list"
  f_log_path :: "string option"
  f_deploy_target :: "string option"

record session =
  com :: world
  cur :: world
  clock :: int

type_synonym 'a proc = "session \<Rightarrow> (exn + 'a) \<times> session"

text \<open>
  A call of an executor: it gets the deployment's id and the database and time at the
  call, and returns its outcome with the database and the time at its return. What happened
  in between is part of it: the heartbeats it ran and what other processes committed.
\<close>

type_synonym 'a call = "nat \<Rightarrow> world \<times> int \<Rightarrow> (exn + 'a) \<times> (world \<times> int)"

record identity =
  i_deployment_name :: "string option"
  i_service_name :: "string option"
  i_ingress_name :: "string option"

record executor =
  ex_deploy_target :: "string option"
  ex_deployment_mode :: "string option"
  ex_namespace :: "string option"
  ex_identity :: "(world \<Rightarrow> deployment \<Rightarrow> exn + identity) option"
  ex_clone_repo :: "exec_result call"
  ex_build_image :: "exec_result call"
  ex_run_tests :: "exec_result call"
  ex_tag_image :: "exec_result call"
  ex_push_image :: "exec_result call"
  ex_verify_image :: "exec_result call"
  ex_preflight_deploy :: "preflight_result option call"
  ex_deploy :: "exec_result call"
  ex_stop :: "exec_result call"
  ex_container_exists :: "bool call"
  ex_runtime_resource_status :: "dict call"
  ex_runtime_helm_status :: "dict option call"
  ex_runtime_pod_diagnostics :: "string \<Rightarrow> dict call"

text \<open>
  The configuration of a worker process: its name, the claim time-to-live in seconds, the
  Kubernetes defaults, the name of the configured executor, the constructors of the Docker
  and Kubernetes executors (the latter for a deployment mode and a namespace; they can
  raise), and Python's display of JSON values.
\<close>

record cfg =
  worker_id :: string
  claim_ttl :: int
  k8s_deployment_mode :: string
  k8s_namespace :: string
  executor_name :: string
  local_docker_executor :: "exn + executor"
  kubernetes_executor :: "string \<Rightarrow> string \<Rightarrow> exn + executor"
  shown :: "json \<Rightarrow> string"

section \<open>Steps\<close>

definition ret :: "'a \<Rightarrow> 'a proc" where
  "ret x s = (Inr x, s)"

definition throw :: "exn \<Rightarrow> 'a proc" where
  "throw e s = (Inl e, s)"

definition bind :: "'a proc \<Rightarrow> ('a \<Rightarrow> 'b proc) \<Rightarrow> 'b proc" where
  "bind m k s = (case m s of (Inl e, s') \<Rightarrow> (Inl e, s') | (Inr x, s') \<Rightarrow> k x s')"

definition catch :: "'a proc \<Rightarrow> (exn \<Rightarrow> 'a proc) \<Rightarrow> 'a proc" where
  "catch m h s = (case m s of (Inl e, s') \<Rightarrow> h e s' | (Inr x, s') \<Rightarrow> (Inr x, s'))"

primrec seqs :: "unit proc list \<Rightarrow> unit proc" where
  "seqs [] = ret ()"
| "seqs (m # ms) = bind m (\<lambda>_. seqs ms)"

definition whenp :: "bool \<Rightarrow> unit proc \<Rightarrow> unit proc" where
  "whenp b m = (if b then m else ret ())"

definition lift :: "exn + 'a \<Rightarrow> 'a proc" where
  "lift r s = (r, s)"

definition now :: "int proc" where
  "now s = (Inr (clock s), s)"

definition query :: "(world \<Rightarrow> 'a) \<Rightarrow> 'a proc" where
  "query f s = (Inr (f (cur s)), s)"

definition store :: "(int \<Rightarrow> world \<Rightarrow> world) \<Rightarrow> unit proc" where
  "store f s = (Inr (), s\<lparr>cur := f (clock s) (cur s)\<rparr>)"

definition commit :: "unit proc" where
  "commit s = (Inr (), s\<lparr>com := cur s\<rparr>)"

definition rollback :: "unit proc" where
  "rollback s = (Inr (), s\<lparr>cur := com s\<rparr>)"

definition run_exec :: "'a call \<Rightarrow> nat \<Rightarrow> 'a proc" where
  "run_exec f did s = (case f did (cur s, clock s) of
     (r, (w, t)) \<Rightarrow> (r, \<lparr>com = w, cur = w, clock = t\<rparr>))"

section \<open>Rows of the session\<close>

definition object_deleted :: exn where
  "object_deleted = OtherExn ''ObjectDeletedError'' ''Instance has been deleted''"

definition the_dep :: "nat \<Rightarrow> deployment proc" where
  "the_dep did s = (case get_dep (cur s) did of
     None \<Rightarrow> (Inl object_deleted, s) | Some d \<Rightarrow> (Inr d, s))"

definition the_build :: "nat \<Rightarrow> build proc" where
  "the_build did = bind (the_dep did) (\<lambda>d s. case get_build (cur s) (d_build_id d) of
     None \<Rightarrow> (Inl object_deleted, s) | Some b \<Rightarrow> (Inr b, s))"

definition the_cmd :: "nat \<Rightarrow> command proc" where
  "the_cmd cid s = (case get_cmd (cur s) cid of
     None \<Rightarrow> (Inl object_deleted, s) | Some c \<Rightarrow> (Inr c, s))"

text \<open>Assigning attributes of a deployment, of its build, and of a command.\<close>

definition set_dep :: "nat \<Rightarrow> (deployment \<Rightarrow> deployment) \<Rightarrow> unit proc" where
  "set_dep did f = bind (the_dep did) (\<lambda>_. store (\<lambda>t. upd_dep did (touch_dep t f)))"

definition set_build :: "nat \<Rightarrow> (build \<Rightarrow> build) \<Rightarrow> unit proc" where
  "set_build did f = bind (the_build did) (\<lambda>b. store (\<lambda>t. upd_build (b_id b) (touch_build t f)))"

definition set_cmd :: "nat \<Rightarrow> (command \<Rightarrow> command) \<Rightarrow> unit proc" where
  "set_cmd cid f = bind (the_cmd cid) (\<lambda>_. store (\<lambda>t. upd_cmd cid f))"

text \<open>\<open>transition_to\<close> of \<open>PlatformDeployment\<close> and of \<open>Build\<close>.\<close>

definition transition_to :: "nat \<Rightarrow> dep_status \<Rightarrow> unit proc" where
  "transition_to did st = bind (the_dep did) (\<lambda>d.
     if can_transition_to d st then set_dep did (\<lambda>d. d\<lparr>d_status := st\<rparr>)
     else throw (OtherExn ''ValueError'' (''Invalid deployment transition from ''
       @ dep_status_name (d_status d) @ '' to '' @ dep_status_name st)))"

definition build_transition_to :: "nat \<Rightarrow> build_status \<Rightarrow> unit proc" where
  "build_transition_to did st = bind (the_build did) (\<lambda>b.
     if build_can_transition_to b st then set_build did (\<lambda>b. b\<lparr>b_status := st\<rparr>)
     else throw (OtherExn ''ValueError'' (''Invalid build transition from ''
       @ build_status_name (b_status b) @ '' to '' @ build_status_name st)))"

definition add_event :: "(nat \<Rightarrow> int \<Rightarrow> event) \<Rightarrow> unit proc" where
  "add_event mk = store (\<lambda>t w. w\<lparr>events := events w @ [mk (next_id e_id (events w)) t]\<rparr>)"

section \<open>Triples\<close>

definition triple ::
    "(session \<Rightarrow> bool) \<Rightarrow> 'a proc \<Rightarrow> ('a \<Rightarrow> session \<Rightarrow> bool) \<Rightarrow> (exn \<Rightarrow> session \<Rightarrow> bool) \<Rightarrow> bool" where
  "triple P m Q E \<longleftrightarrow>
     (\<forall>s. P s \<longrightarrow> (case m s of (Inr x, s') \<Rightarrow> Q x s' | (Inl e, s') \<Rightarrow> E e s'))"

lemma tripleI:
  "(\<And>s. P s \<Longrightarrow> case m s of (Inr x, s') \<Rightarrow> Q x s' | (Inl e, s') \<Rightarrow> E e s') \<Longrightarrow> triple P m Q E"
  by (simp add: triple_def)

lemma tripleD: "triple P m Q E \<Longrightarrow> P s \<Longrightarrow> case m s of (Inr x, s') \<Rightarrow> Q x s' | (Inl e, s') \<Rightarrow> E e s'"
  by (simp add: triple_def)

lemma triple_InrD: "triple P m Q E \<Longrightarrow> P s \<Longrightarrow> m s = (Inr x, s') \<Longrightarrow> Q x s'"
  by (auto simp: triple_def split: prod.splits sum.splits)

lemma triple_InlD: "triple P m Q E \<Longrightarrow> P s \<Longrightarrow> m s = (Inl e, s') \<Longrightarrow> E e s'"
  by (auto simp: triple_def split: prod.splits sum.splits)

text \<open>What a triple without exceptions says of one run.\<close>

lemma result_returned:
  "(case r of (Inl e, s') \<Rightarrow> False | (Inr x, s') \<Rightarrow> x = y \<and> Q s') \<Longrightarrow> \<exists>s'. r = (Inr y, s') \<and> Q s'"
  by (cases r) (auto split: sum.splits)

lemma triple_ret: "(\<And>s. P s \<Longrightarrow> Q x s) \<Longrightarrow> triple P (ret x) Q E"
  by (simp add: triple_def ret_def)

lemma triple_throw: "(\<And>s. P s \<Longrightarrow> E e s) \<Longrightarrow> triple P (throw e) Q E"
  by (simp add: triple_def throw_def)

lemma triple_bind:
  "triple P m R E \<Longrightarrow> (\<And>x. triple (R x) (k x) Q E) \<Longrightarrow> triple P (bind m k) Q E"
  by (fastforce simp: triple_def bind_def split: prod.splits sum.splits)

lemma triple_catch:
  "triple P m Q R \<Longrightarrow> (\<And>e. triple (R e) (h e) Q E) \<Longrightarrow> triple P (catch m h) Q E"
  by (fastforce simp: triple_def catch_def split: prod.splits sum.splits)

lemma triple_seqs_Nil: "(\<And>s. P s \<Longrightarrow> Q () s) \<Longrightarrow> triple P (seqs []) Q E"
  by (simp add: triple_ret)

lemma triple_seqs_Cons:
  "triple P m R E \<Longrightarrow> triple (R ()) (seqs ms) Q E \<Longrightarrow> triple P (seqs (m # ms)) Q E"
  by (auto intro!: triple_bind)

lemma triple_weaken:
  "triple P m Q E \<Longrightarrow> (\<And>s. P' s \<Longrightarrow> P s) \<Longrightarrow> (\<And>x s. Q x s \<Longrightarrow> Q' x s) \<Longrightarrow>
    (\<And>e s. E e s \<Longrightarrow> E' e s) \<Longrightarrow> triple P' m Q' E'"
  by (fastforce simp: triple_def split: prod.splits sum.splits)

lemma triple_pure: "(A \<Longrightarrow> triple P m Q E) \<Longrightarrow> triple (\<lambda>s. A \<and> P s) m Q E"
  by (auto simp: triple_def)

lemma triple_when:
  "(b \<Longrightarrow> triple P m Q E) \<Longrightarrow> (\<And>s. \<not> b \<Longrightarrow> P s \<Longrightarrow> Q () s) \<Longrightarrow> triple P (whenp b m) Q E"
  by (auto simp: whenp_def triple_def ret_def)

section \<open>Invariants of the database\<close>

text \<open>
  A property of the database that a session keeps holds of what is committed and of what is
  pending; then neither a commit nor a rollback can break it.
\<close>

definition keeps :: "(world \<Rightarrow> bool) \<Rightarrow> 'a proc \<Rightarrow> bool" where
  "keeps I m \<longleftrightarrow> (\<forall>s. I (com s) \<and> I (cur s) \<longrightarrow> I (com (snd (m s))) \<and> I (cur (snd (m s))))"

lemma keepsD: "keeps I m \<Longrightarrow> I (com s) \<Longrightarrow> I (cur s) \<Longrightarrow> m s = (r, s') \<Longrightarrow> I (com s') \<and> I (cur s')"
  unfolding keeps_def by (metis snd_conv)

lemma keeps_ret [step_rules]: "keeps I (ret x)"
  by (simp add: keeps_def ret_def)

lemma keeps_throw [step_rules]: "keeps I (throw e)"
  by (simp add: keeps_def throw_def)

lemma keeps_lift [step_rules]: "keeps I (lift r)"
  by (simp add: keeps_def lift_def)

lemma keeps_now [step_rules]: "keeps I now"
  by (simp add: keeps_def now_def)

lemma keeps_query [step_rules]: "keeps I (query f)"
  by (simp add: keeps_def query_def)

lemma keeps_bind [step_rules]: "keeps I m \<Longrightarrow> (\<And>x. keeps I (k x)) \<Longrightarrow> keeps I (bind m k)"
  unfolding keeps_def bind_def by (auto split: prod.splits sum.splits)

lemma keeps_catch [step_rules]: "keeps I m \<Longrightarrow> (\<And>e. keeps I (h e)) \<Longrightarrow> keeps I (catch m h)"
  unfolding keeps_def catch_def by (auto split: prod.splits sum.splits)

lemma keeps_seqs: "(\<And>m. m \<in> set ms \<Longrightarrow> keeps I m) \<Longrightarrow> keeps I (seqs ms)"
  by (induction ms) (auto intro: keeps_ret keeps_bind)

lemma keeps_seqs_Nil [step_rules]: "keeps I (seqs [])"
  by (simp add: keeps_ret)

lemma keeps_seqs_Cons [step_rules]: "keeps I m \<Longrightarrow> keeps I (seqs ms) \<Longrightarrow> keeps I (seqs (m # ms))"
  by (simp add: keeps_bind)

lemma keeps_when [step_rules]: "(b \<Longrightarrow> keeps I m) \<Longrightarrow> keeps I (whenp b m)"
  by (simp add: whenp_def keeps_ret)

lemma keeps_commit [step_rules]: "keeps I commit"
  by (simp add: keeps_def commit_def)

lemma keeps_rollback [step_rules]: "keeps I rollback"
  by (simp add: keeps_def rollback_def)

lemma keeps_the_dep [step_rules]: "keeps I (the_dep did)"
  by (auto simp: keeps_def the_dep_def split: option.splits)

lemma keeps_the_build [step_rules]: "keeps I (the_build did)"
  unfolding the_build_def
  by (rule keeps_bind [OF keeps_the_dep]) (auto simp: keeps_def split: option.splits)

lemma keeps_the_cmd [step_rules]: "keeps I (the_cmd cid)"
  by (auto simp: keeps_def the_cmd_def split: option.splits)

lemma keeps_if [step_rules]: "(b \<Longrightarrow> keeps I m) \<Longrightarrow> (\<not> b \<Longrightarrow> keeps I n) \<Longrightarrow> keeps I (if b then m else n)"
  by simp

lemma keeps_case_option [step_rules]:
  "keeps I m \<Longrightarrow> (\<And>x. keeps I (k x)) \<Longrightarrow> keeps I (case a of None \<Rightarrow> m | Some x \<Rightarrow> k x)"
  by (cases a) auto

lemma keeps_case_prod [step_rules]:
  "(\<And>a b. keeps I (k a b)) \<Longrightarrow> keeps I (case p of (a, b) \<Rightarrow> k a b)"
  by (cases p) simp

lemma keeps_store: "(\<And>t w. I w \<Longrightarrow> I (f t w)) \<Longrightarrow> keeps I (store f)"
  by (simp add: keeps_def store_def)

text \<open>An executor, with everything that happens while it runs, keeps the property.\<close>

definition call_keeps :: "(world \<Rightarrow> bool) \<Rightarrow> 'a call \<Rightarrow> bool" where
  "call_keeps I f \<longleftrightarrow> (\<forall>did w t. I w \<longrightarrow> I (fst (snd (f did (w, t)))))"

lemma keeps_run_exec [step_rules]: "call_keeps I f \<Longrightarrow> keeps I (run_exec f did)"
  unfolding keeps_def run_exec_def call_keeps_def by (auto split: prod.splits) (metis fst_conv snd_conv)+

text \<open>
  The writes of the processing components: an assignment to a deployment leaves its
  identity, its status, its build and its specification; a status changes along the
  transition table; a command keeps its identity, and leaves the active statuses only
  together with its active key; events are added at the end.
\<close>

definition frame_dep :: "(deployment \<Rightarrow> deployment) \<Rightarrow> bool" where
  "frame_dep f \<longleftrightarrow> (\<forall>d. d_id (f d) = d_id d \<and> d_status (f d) = d_status d
     \<and> d_project_id (f d) = d_project_id d \<and> d_build_id (f d) = d_build_id d
     \<and> d_environment (f d) = d_environment d \<and> d_spec_snapshot_json (f d) = d_spec_snapshot_json d
     \<and> d_created_at (f d) = d_created_at d)"

definition frame_build :: "(build \<Rightarrow> build) \<Rightarrow> bool" where
  "frame_build f \<longleftrightarrow> (\<forall>b. b_id (f b) = b_id b \<and> b_status (f b) = b_status b
     \<and> b_project_id (f b) = b_project_id b \<and> b_commit_sha (f b) = b_commit_sha b)"

definition frame_cmd :: "(command \<Rightarrow> command) \<Rightarrow> bool" where
  "frame_cmd f \<longleftrightarrow> (\<forall>c. c_id (f c) = c_id c \<and> c_deployment_id (f c) = c_deployment_id c
     \<and> c_command_type (f c) = c_command_type c \<and> c_requested_at (f c) = c_requested_at c
     \<and> (c_status (f c) = c_status c \<and> c_active_key (f c) = c_active_key c
        \<or> \<not> cmd_active (c_status (f c)) \<and> c_active_key (f c) = None))"

lemma frame_dep_touch: "frame_dep f \<Longrightarrow> frame_dep (touch_dep t f)"
  by (simp add: frame_dep_def touch_dep_def Let_def)

lemma frame_build_touch: "frame_build f \<Longrightarrow> frame_build (touch_build t f)"
  by (simp add: frame_build_def touch_build_def Let_def)

locale world_invariant =
  fixes I :: "world \<Rightarrow> bool"
  assumes I_dep: "frame_dep f \<Longrightarrow> I w \<Longrightarrow> I (upd_dep i f w)"
    and I_dep_status: "get_dep w i = Some d \<Longrightarrow> can_transition_to d st \<Longrightarrow> I w \<Longrightarrow>
      I (upd_dep i (touch_dep t (\<lambda>d. d\<lparr>d_status := st\<rparr>)) w)"
    and I_build: "frame_build g \<Longrightarrow> I w \<Longrightarrow> I (upd_build i g w)"
    and I_build_status: "get_build w i = Some b \<Longrightarrow> build_can_transition_to b bst \<Longrightarrow> I w \<Longrightarrow>
      I (upd_build i (touch_build t (\<lambda>b. b\<lparr>b_status := bst\<rparr>)) w)"
    and I_cmd: "frame_cmd h \<Longrightarrow> I w \<Longrightarrow> I (upd_cmd i h w)"
    and I_cmd_claim: "get_cmd w i = Some c \<Longrightarrow> cmd_active (c_status c) \<Longrightarrow> I w \<Longrightarrow>
      I (upd_cmd i (\<lambda>c. c\<lparr>c_status := C_claimed, c_claimed_by := Some wk, c_claimed_at := Some t\<rparr>) w)"
    and I_event: "I w \<Longrightarrow> I (w\<lparr>events := events w @ [mk (next_id e_id (events w)) t]\<rparr>)"
begin

lemma keeps_set_dep: "frame_dep f \<Longrightarrow> keeps I (set_dep did f)"
  unfolding set_dep_def
  by (intro keeps_bind keeps_the_dep keeps_store I_dep frame_dep_touch)

lemma keeps_set_build: "frame_build f \<Longrightarrow> keeps I (set_build did f)"
  unfolding set_build_def
  by (intro keeps_bind keeps_the_build keeps_store I_build frame_build_touch)

lemma keeps_set_cmd: "frame_cmd f \<Longrightarrow> keeps I (set_cmd cid f)"
  unfolding set_cmd_def by (intro keeps_bind keeps_the_cmd keeps_store I_cmd)

lemma keeps_add_event: "keeps I (add_event mk)"
  unfolding add_event_def by (intro keeps_store I_event)

lemma keeps_transition_to: "keeps I (transition_to did st)"
  unfolding keeps_def transition_to_def bind_def the_dep_def set_dep_def store_def throw_def
  by (auto split: option.splits prod.splits sum.splits intro: I_dep_status)

lemma keeps_build_transition_to: "keeps I (build_transition_to did st)"
  unfolding keeps_def build_transition_to_def bind_def the_build_def the_dep_def set_build_def
    store_def throw_def
  by (auto split: option.splits prod.splits sum.splits)
    (metis I_build_status bldt.get_key)

lemmas keeps_writes = keeps_set_dep keeps_set_build keeps_set_cmd keeps_add_event
  keeps_transition_to keeps_build_transition_to

end

end
