(* ===== verification/Spec_Snapshot.thy ===== *)
theory Spec_Snapshot
  imports Session
begin

text \<open>
  \<open>control_plane/deployment_spec.py\<close>: the specification of a project is copied into the
  deployment when it is created, and the worker reads that copy. A specification is the
  dictionary of the fields \<open>PROJECT_SPEC_FIELDS\<close>. The lemmas state that a snapshot is
  complete, that copying it back for a retry returns it, and that a deployment with a
  snapshot does not see later edits of its project.
\<close>

definition DEPLOYMENT_SPEC_VERSION :: int where
  "DEPLOYMENT_SPEC_VERSION = 1"

definition PROJECT_SPEC_FIELDS :: "string list" where
  "PROJECT_SPEC_FIELDS = [''id'', ''name'', ''repo_url'', ''branch'', ''git_auth_type'',
     ''git_secret_ref'', ''dockerfile_path'', ''build_context'', ''port'', ''healthcheck_path'',
     ''env_vars'', ''cpu'', ''memory'', ''runtime'']"

definition project_spec :: "project \<Rightarrow> dict" where
  "project_spec p =
     [(''id'', JInt (int (p_id p))),
      (''name'', JStr (p_name p)),
      (''repo_url'', JStr (p_repo_url p)),
      (''branch'', JStr (p_branch p)),
      (''git_auth_type'', JStr (p_git_auth_type p)),
      (''git_secret_ref'', jopt (p_git_secret_ref p)),
      (''dockerfile_path'', JStr (p_dockerfile_path p)),
      (''build_context'', JStr (p_build_context p)),
      (''port'', JInt (p_port p)),
      (''healthcheck_path'', JStr (p_healthcheck_path p)),
      (''env_vars'', JList (p_env_vars p)),
      (''cpu'', jopt (p_cpu p)),
      (''memory'', jopt (p_memory p)),
      (''runtime'', JStr (p_runtime p))]"

definition create_deployment_spec_snapshot :: "project \<Rightarrow> string option \<Rightarrow> json" where
  "create_deployment_spec_snapshot p branch = JDict
     [(''version'', JInt DEPLOYMENT_SPEC_VERSION),
      (''project'', JDict (case branch of None \<Rightarrow> project_spec p
                           | Some b \<Rightarrow> jset ''branch'' (JStr b) (project_spec p)))]"

text \<open>\<open>v == n\<close> for a JSON value and an integer: in Python \<open>True == 1\<close> and \<open>False == 0\<close>.\<close>

fun eq_int :: "json \<Rightarrow> int \<Rightarrow> bool" where
  "eq_int (JInt i) n = (i = n)"
| "eq_int (JBool b) n = (n = (if b then 1 else 0))"
| "eq_int _ n = False"

definition copy_deployment_spec_snapshot :: "deployment \<Rightarrow> nat \<Rightarrow> string + json" where
  "copy_deployment_spec_snapshot d project_id = (case d_spec_snapshot_json d of
     JDict snapshot \<Rightarrow>
       if \<not> eq_int (jget snapshot ''version'') DEPLOYMENT_SPEC_VERSION
       then Inl ''Historical deployment specification is unavailable''
       else (case jget snapshot ''project'' of
         JDict spec \<Rightarrow>
           if list_ex (\<lambda>field. \<not> jhas spec field) PROJECT_SPEC_FIELDS
           then Inl ''Historical deployment specification is incomplete''
           else if \<not> eq_int (jget spec ''id'') (int project_id) \<or> d_project_id d \<noteq> project_id
           then Inl ''Historical deployment specification belongs to another project''
           else Inr (JDict snapshot)
       | _ \<Rightarrow> Inl ''Historical deployment specification is incomplete'')
   | _ \<Rightarrow> Inl ''Historical deployment specification is unavailable'')"

definition snapshot_spec :: "deployment \<Rightarrow> dict option" where
  "snapshot_spec d = (case d_spec_snapshot_json d of
     JDict snapshot \<Rightarrow>
       if eq_int (jget snapshot ''version'') DEPLOYMENT_SPEC_VERSION
       then (case jget snapshot ''project'' of JDict spec \<Rightarrow> Some spec | _ \<Rightarrow> None)
       else None
   | _ \<Rightarrow> None)"

text \<open>The foreign key makes \<open>deployment.project\<close> exist; without it there are no fields to read.\<close>

definition project_for_deployment :: "world \<Rightarrow> deployment \<Rightarrow> dict" where
  "project_for_deployment w d = (case snapshot_spec d of
     Some spec \<Rightarrow> spec
   | None \<Rightarrow> (case get_project w (d_project_id d) of None \<Rightarrow> [] | Some p \<Rightarrow> project_spec p))"

definition spec_env_vars :: "dict \<Rightarrow> json list" where
  "spec_env_vars spec = (case jget spec ''env_vars'' of JList xs \<Rightarrow> xs | _ \<Rightarrow> [])"

section \<open>Lemmas\<close>

lemma project_spec_fields: "map fst (project_spec p) = PROJECT_SPEC_FIELDS"
  by (simp add: project_spec_def PROJECT_SPEC_FIELDS_def)

lemma jhas_project_spec: "jhas (project_spec p) k \<longleftrightarrow> k \<in> set PROJECT_SPEC_FIELDS"
proof -
  have "set PROJECT_SPEC_FIELDS = fst ` set (project_spec p)"
    by (metis list.set_map project_spec_fields)
  then show ?thesis by (simp add: jhas_iff)
qed

lemma jget_project_spec [simp]:
  "jget (project_spec p) ''id'' = JInt (int (p_id p))"
  "jget (project_spec p) ''branch'' = JStr (p_branch p)"
  "jget (project_spec p) ''env_vars'' = JList (p_env_vars p)"
  "jget (project_spec p) ''name'' = JStr (p_name p)"
  by (simp_all add: project_spec_def)

lemma snapshot_spec_create:
  "d_spec_snapshot_json d = create_deployment_spec_snapshot p branch \<Longrightarrow>
    snapshot_spec d = Some (case branch of None \<Rightarrow> project_spec p
                            | Some b \<Rightarrow> jset ''branch'' (JStr b) (project_spec p))"
  by (simp add: snapshot_spec_def create_deployment_spec_snapshot_def DEPLOYMENT_SPEC_VERSION_def)

lemma copy_of_create:
  assumes "d_spec_snapshot_json d = create_deployment_spec_snapshot p branch"
    and "d_project_id d = p_id p"
  shows "copy_deployment_spec_snapshot d (p_id p) = Inr (d_spec_snapshot_json d)"
proof -
  let ?spec = "case branch of None \<Rightarrow> project_spec p
               | Some b \<Rightarrow> jset ''branch'' (JStr b) (project_spec p)"
  have "\<not> list_ex (\<lambda>field. \<not> jhas ?spec field) PROJECT_SPEC_FIELDS"
    by (auto simp: list_ex_iff jhas_project_spec split: option.splits)
  moreover have "jget ?spec ''id'' = JInt (int (p_id p))"
    by (simp split: option.splits)
  ultimately show ?thesis
    using assms by (simp add: copy_deployment_spec_snapshot_def create_deployment_spec_snapshot_def
        DEPLOYMENT_SPEC_VERSION_def)
qed

lemma copy_sound:
  assumes "copy_deployment_spec_snapshot d pid = Inr j"
  shows "j = d_spec_snapshot_json d" and "d_project_id d = pid"
    and "\<exists>spec. snapshot_spec d = Some spec \<and> (\<forall>field \<in> set PROJECT_SPEC_FIELDS. jhas spec field)"
  using assms
  by (auto simp: copy_deployment_spec_snapshot_def snapshot_spec_def list_ex_iff
      split: json.splits if_splits)

lemma project_for_deployment_frozen:
  "snapshot_spec d = Some spec \<Longrightarrow> project_for_deployment w d = spec"
  by (simp add: project_for_deployment_def)

lemma project_for_deployment_spec_eq:
  assumes "d_spec_snapshot_json d' = d_spec_snapshot_json d" "d_project_id d' = d_project_id d"
  shows "project_for_deployment w d' = project_for_deployment w d"
proof -
  have "snapshot_spec d' = snapshot_spec d" using assms(1) by (simp add: snapshot_spec_def)
  then show ?thesis using assms(2) by (simp only: project_for_deployment_def)
qed

end
