(* ===== verification/Security.thy ===== *)
theory Security
  imports Json
begin

text \<open>
  \<open>control_plane/security.py\<close>: which environment variables are secret, how they are shown,
  and how event messages and metadata are redacted before they are stored. An environment
  variable is a dictionary; a value that is not one is left alone, as the code does.
  \<open>redact_log_text\<close>, whose patterns are regular expressions, is in \<open>Log_Redaction\<close>.
\<close>

definition REDACTED :: string where
  "REDACTED = ''[REDACTED]''"

definition SENSITIVE_KEY_PARTS :: "string list" where
  "SENSITIVE_KEY_PARTS = [''authorization'', ''password'', ''token'', ''api_key'', ''private_key'']"

definition NON_SENSITIVE_SECRET_REFERENCE_KEYS :: "string list" where
  "NON_SENSITIVE_SECRET_REFERENCE_KEYS = [''git_secret_ref'', ''secret_refs_used'', ''image_pull_secret'']"

section \<open>Environment variables\<close>

fun normalize_project_env_var :: "json \<Rightarrow> json" where
  "normalize_project_env_var (JDict d) = JDict
     (if jget d ''value_source'' = JStr ''secret_key_ref'' then jset ''is_secret'' (JBool True) d
      else if jhas d ''is_secret'' then jset ''is_secret'' (JBool (jtrue (jget d ''is_secret''))) d
      else d)"
| "normalize_project_env_var v = v"

definition normalize_project_env_vars :: "json list \<Rightarrow> json list" where
  "normalize_project_env_vars env = map normalize_project_env_var env"

fun env_var_is_secret :: "json \<Rightarrow> bool" where
  "env_var_is_secret (JDict d) =
     (jget d ''value_source'' = JStr ''secret_key_ref'' \<or> jtrue (jget d ''is_secret''))"
| "env_var_is_secret _ = False"

fun serialize_project_env_var :: "json \<Rightarrow> json" where
  "serialize_project_env_var (JDict d) =
     (if env_var_is_secret (JDict d)
      then (let current = jset ''is_secret'' (JBool True) d
            in JDict (if jget current ''value'' \<noteq> JNull then jset ''value'' (JStr REDACTED) current
                      else current))
      else JDict d)"
| "serialize_project_env_var v = v"

definition serialized_project_env_vars :: "json list \<Rightarrow> json list" where
  "serialized_project_env_vars env =
     map serialize_project_env_var (normalize_project_env_vars env)"

text \<open>
  \<open>str(item["value"])\<close>. The validation of projects admits only strings as values; for the
  other JSON values \<open>str\<close> is Python's display of them, a parameter \<open>shown\<close>.
\<close>

definition str_of_json :: "(json \<Rightarrow> string) \<Rightarrow> json \<Rightarrow> string" where
  "str_of_json shown v = (case v of JStr s \<Rightarrow> s | _ \<Rightarrow> shown v)"

definition secret_value_of :: "(json \<Rightarrow> string) \<Rightarrow> json \<Rightarrow> string list" where
  "secret_value_of shown item = (case item of
     JDict d \<Rightarrow> if env_var_is_secret item \<and> jget d ''value'' \<noteq> JNull
               then [str_of_json shown (jget d ''value'')] else []
   | _ \<Rightarrow> [])"

definition secret_values_from_env_vars :: "(json \<Rightarrow> string) \<Rightarrow> json list \<Rightarrow> string list" where
  "secret_values_from_env_vars shown env =
     filter (\<lambda>v. v \<noteq> []) (concat (map (secret_value_of shown) (normalize_project_env_vars env)))"

section \<open>Redaction\<close>

definition redact_text :: "string list \<Rightarrow> string \<Rightarrow> string" where
  "redact_text secrets text =
     fold (\<lambda>v t. if v = [] then t else replace v REDACTED t) secrets text"

definition is_sensitive_key :: "string \<Rightarrow> bool" where
  "is_sensitive_key key = (let lowered = lower (strip key) in
     if lowered \<in> set NON_SENSITIVE_SECRET_REFERENCE_KEYS
        \<or> suffix ''_ref'' lowered \<or> suffix ''_refs'' lowered then False
     else list_ex (\<lambda>part. contains part lowered) SENSITIVE_KEY_PARTS)"

fun redact_sensitive_data :: "string list \<Rightarrow> json \<Rightarrow> json"
  and redact_entries :: "string list \<Rightarrow> dict \<Rightarrow> dict"
  and redact_values :: "string list \<Rightarrow> json list \<Rightarrow> json list" where
  "redact_sensitive_data sv (JDict d) = JDict (redact_entries sv d)"
| "redact_sensitive_data sv (JList xs) = JList (redact_values sv xs)"
| "redact_sensitive_data sv (JStr s) = JStr (redact_text sv s)"
| "redact_sensitive_data sv JNull = JNull"
| "redact_sensitive_data sv (JBool b) = JBool b"
| "redact_sensitive_data sv (JInt i) = JInt i"
| "redact_sensitive_data sv (JTime t) = JTime t"
| "redact_entries sv [] = []"
| "redact_entries sv ((k, v) # d) =
     (case v of
        JList xs \<Rightarrow> if k = ''env_vars'' then (k, JList (serialized_project_env_vars xs))
                    else if is_sensitive_key k then (k, JStr REDACTED)
                    else (k, redact_sensitive_data sv v)
      | _ \<Rightarrow> if is_sensitive_key k then (k, JStr REDACTED) else (k, redact_sensitive_data sv v))
     # redact_entries sv d"
| "redact_values sv [] = []"
| "redact_values sv (x # xs) = redact_sensitive_data sv x # redact_values sv xs"

section \<open>What redaction removes\<close>

text \<open>
  Replacing \<open>v\<close> by a marker leaves no occurrence of \<open>v\<close> when \<open>v\<close> has neither the first nor
  the last character of the marker and does not occur in it (\<open>avoids v marker\<close>): an
  occurrence in the result would lie between two markers, in text that was read past only
  because \<open>v\<close> does not start there.
\<close>

definition avoids :: "string \<Rightarrow> string \<Rightarrow> bool" where
  "avoids v marker \<longleftrightarrow> hd marker \<notin> set v \<and> last marker \<notin> set v \<and> \<not> contains v marker"

lemma replace_Nil [simp]: "replace v new [] = []"
  by (subst replace.simps) simp

lemma replace_match:
  "v \<noteq> [] \<Longrightarrow> prefix v s \<Longrightarrow> s \<noteq> [] \<Longrightarrow> replace v new s = new @ replace v new (drop (length v) s)"
  by (subst replace.simps) simp

lemma replace_skip:
  "v \<noteq> [] \<Longrightarrow> \<not> prefix v (c # s) \<Longrightarrow> replace v new (c # s) = c # replace v new s"
  by (subst replace.simps) simp

text \<open>A prefix of the result that avoids the new text is a prefix of the old text.\<close>

lemma replace_prefix:
  assumes "v \<noteq> []" "new \<noteq> []" "hd new \<notin> set u"
  shows "prefix u (replace v new s) \<Longrightarrow> prefix u s"
  using assms(3)
proof (induction s arbitrary: u)
  case (Cons c s)
  show ?case
  proof (cases u)
    case Nil
    then show ?thesis by simp
  next
    case u: (Cons x u')
    show ?thesis
    proof (cases "prefix v (c # s)")
      case True
      then have "prefix u (new @ replace v new (drop (length v) (c # s)))"
        using Cons.prems(1) replace_match [OF assms(1) True] by simp
      then have "x = hd new" using u assms(2) by (cases new) auto
      then show ?thesis using Cons.prems(2) u by auto
    next
      case False
      then have "prefix u (c # replace v new s)"
        using Cons.prems(1) replace_skip [OF assms(1) False] by simp
      then have "x = c" "prefix u' (replace v new s)" using u by auto
      then have "prefix u' s" using Cons.IH [of u'] Cons.prems(2) u by auto
      then show ?thesis using \<open>x = c\<close> u by simp
    qed
  qed
qed simp

lemma contains_append_avoid:
  assumes "contains v (new @ t)" "avoids v new" "v \<noteq> []" "new \<noteq> []"
  shows "contains v t"
proof -
  obtain a b where eq: "new @ t = a @ (v @ b)" using assms(1) by (auto simp: contains_iff)
  consider us where "new @ us = a" "t = us @ v @ b" | us where "new = a @ us" "us @ t = v @ b"
    using eq unfolding append_eq_append_conv2 by metis
  then show ?thesis
  proof cases
    case 1
    then show ?thesis by (auto simp: contains_iff)
  next
    case (2 us)
    consider vs where "us @ vs = v" "t = vs @ b" | vs where "us = v @ vs" "vs @ t = b"
      using 2(2) unfolding append_eq_append_conv2 by metis
    then show ?thesis
    proof cases
      case (1 vs)
      show ?thesis
      proof (cases us)
        case Nil
        then show ?thesis using 1 contains_iff [of v t] by (metis append_Nil)
      next
        case (Cons x xs)
        then have "last new \<in> set us" using 2(1) by (simp add: last_append)
        then have "last new \<in> set v" using 1(1) by auto
        then show ?thesis using assms(2) by (simp add: avoids_def)
      qed
    next
      case (2 vs)
      then have "contains v new" using \<open>new = a @ us\<close> by (auto simp: contains_iff)
      then show ?thesis using assms(2) by (simp add: avoids_def)
    qed
  qed
qed

lemma replace_removes:
  assumes "v \<noteq> []" "new \<noteq> []" "avoids v new"
  shows "\<not> contains v (replace v new s)"
proof (induction "length s" arbitrary: s rule: less_induct)
  case less
  show ?case
  proof (cases s)
    case Nil
    then show ?thesis using assms(1) by simp
  next
    case (Cons c s')
    show ?thesis
    proof (cases "prefix v s")
      case True
      have eq: "replace v new s = new @ replace v new (drop (length v) s)"
        using replace_match [OF assms(1) True] Cons by simp
      have "length (drop (length v) s) < length s"
        using assms(1) Cons by simp
      then have "\<not> contains v (replace v new (drop (length v) s))"
        using less by blast
      then show ?thesis
        using contains_append_avoid [OF _ assms(3,1,2)] unfolding eq by blast
    next
      case False
      then have eq: "replace v new s = c # replace v new s'"
        using replace_skip [OF assms(1)] Cons by simp
      have "\<not> prefix v (c # replace v new s')"
      proof
        assume "prefix v (c # replace v new s')"
        then have "prefix v (replace v new s)" by (simp add: eq)
        then have "prefix v s" using replace_prefix [OF assms(1,2)] assms(3) unfolding avoids_def by blast
        then show False using False by simp
      qed
      moreover have "\<not> contains v (replace v new s')"
        using less Cons by simp
      ultimately show ?thesis by (simp add: eq)
    qed
  qed
qed

text \<open>A later replacement does not bring an earlier secret back.\<close>

lemma contains_Cons_iff: "contains v (c # s) \<longleftrightarrow> prefix v (c # s) \<or> contains v s"
  by simp

lemma replace_keeps_absent:
  assumes "v \<noteq> []" "new \<noteq> []" "u \<noteq> []" "avoids u new"
  shows "\<not> contains u s \<Longrightarrow> \<not> contains u (replace v new s)"
proof (induction "length s" arbitrary: s rule: less_induct)
  case less
  show ?case
  proof (cases s)
    case Nil
    then show ?thesis using assms(3) by simp
  next
    case (Cons c s')
    show ?thesis
    proof (cases "prefix v s")
      case True
      have eq: "replace v new s = new @ replace v new (drop (length v) s)"
        using replace_match [OF assms(1) True] Cons by simp
      have "\<not> contains u (drop (length v) s)"
        using less.prems unfolding contains_iff
        by (metis append.assoc append_take_drop_id)
      moreover have "length (drop (length v) s) < length s"
        using assms(1) Cons by simp
      ultimately have "\<not> contains u (replace v new (drop (length v) s))"
        using less.hyps by blast
      then show ?thesis
        using contains_append_avoid [OF _ assms(4,3,2)] unfolding eq by blast
    next
      case False
      then have eq: "replace v new s = c # replace v new s'"
        using replace_skip [OF assms(1)] Cons by simp
      have "\<not> prefix u (replace v new s)"
        using replace_prefix [OF assms(1,2)] assms(4) less.prems Cons unfolding avoids_def by (metis contains.simps(2))
      moreover have "\<not> contains u (replace v new s')"
        using less Cons by simp
      ultimately show ?thesis by (simp add: eq)
    qed
  qed
qed

lemma redact_text_Cons:
  "redact_text (v # vs) t = redact_text vs (if v = [] then t else replace v REDACTED t)"
  by (simp add: redact_text_def)

lemma redact_text_Nil [simp]: "redact_text [] t = t"
  by (simp add: redact_text_def)

lemma redact_text_keeps_absent:
  assumes "u \<noteq> []" "avoids u REDACTED" "\<not> contains u t"
  shows "\<not> contains u (redact_text vs t)"
  using assms(3)
proof (induction vs arbitrary: t)
  case (Cons v vs)
  have "REDACTED \<noteq> []" by (simp add: REDACTED_def)
  then show ?case
    using Cons replace_keeps_absent [OF _ _ assms(1,2)] by (auto simp: redact_text_Cons)
qed simp

lemma redact_text_removes_secret:
  assumes "v \<in> set vs" "v \<noteq> []" "avoids v REDACTED"
  shows "\<not> contains v (redact_text vs t)"
  using assms(1)
proof (induction vs arbitrary: t)
  case (Cons u vs)
  have ne: "REDACTED \<noteq> []" by (simp add: REDACTED_def)
  show ?case
  proof (cases "u = v")
    case True
    then show ?thesis
      using replace_removes [OF assms(2) ne assms(3)] redact_text_keeps_absent [OF assms(2,3)]
        assms(2) by (simp add: redact_text_Cons)
  next
    case False
    then show ?thesis using Cons by (auto simp: redact_text_Cons)
  qed
qed simp

end
