(* ===== verification/Runtime_Metadata.thy ===== *)
theory Runtime_Metadata
  imports Session Security
begin

text \<open>
  \<open>control_plane/deployment_runtime_metadata.py\<close>: the runtime identity of a deployment, with
  the recovery of rows written before it was a column, and its persistence before the first
  side effect. The lemmas state that a persisted identity is the one that is read back, and
  that it is not changed afterwards.
\<close>

definition VALID_KUBERNETES_DEPLOYMENT_MODES :: "string list" where
  "VALID_KUBERNETES_DEPLOYMENT_MODES = [''manifest'', ''helm'']"

definition nonempty_string :: "string option \<Rightarrow> string option" where
  "nonempty_string value = (case value of None \<Rightarrow> None | Some s \<Rightarrow> strip_opt s)"

text \<open>The events of a deployment, and a value recorded in its preflight or event metadata.\<close>

definition events_of :: "world \<Rightarrow> nat \<Rightarrow> event list" where
  "events_of w did = filter (\<lambda>e. e_deployment_id e = did) (events w)"

definition metadata_value :: "string \<Rightarrow> json \<Rightarrow> string option" where
  "metadata_value key metadata = (case metadata of
     JDict d \<Rightarrow> nonempty_string (jstr_opt (jget d key)) | _ \<Rightarrow> None)"

fun first_value :: "string \<Rightarrow> json list \<Rightarrow> string option" where
  "first_value key [] = None"
| "first_value key (m # ms) =
     (case metadata_value key m of Some v \<Rightarrow> Some v | None \<Rightarrow> first_value key ms)"

definition historical_metadata_value :: "world \<Rightarrow> deployment \<Rightarrow> string \<Rightarrow> string option" where
  "historical_metadata_value w d key =
     (case metadata_value key (d_preflight_metadata_json d) of
        Some v \<Rightarrow> Some v
      | None \<Rightarrow> first_value key (map e_metadata_json (sort_key e_id (events_of w (d_id d)))))"

definition kubernetes_deployment_mode :: "world \<Rightarrow> deployment \<Rightarrow> string option" where
  "kubernetes_deployment_mode w d =
     (let persisted = nonempty_string (d_kubernetes_deployment_mode d);
          historical = historical_metadata_value w d ''deployment_mode''
      in if persisted \<in> Some ` set VALID_KUBERNETES_DEPLOYMENT_MODES then persisted
         else if truthy (d_helm_release_name d) then Some ''helm''
         else if historical \<in> Some ` set VALID_KUBERNETES_DEPLOYMENT_MODES then historical
         else if d_deploy_target d = Some ''kubernetes'' then Some ''manifest''
         else None)"

definition kubernetes_namespace :: "world \<Rightarrow> deployment \<Rightarrow> string option" where
  "kubernetes_namespace w d =
     or_else (nonempty_string (d_kubernetes_namespace d))
       (or_else (nonempty_string (d_helm_namespace d)) (historical_metadata_value w d ''namespace''))"

definition kubernetes_deployment_name :: "world \<Rightarrow> deployment \<Rightarrow> string option" where
  "kubernetes_deployment_name w d =
     or_else (nonempty_string (d_kubernetes_deployment_name d))
       (historical_metadata_value w d ''deployment_name'')"

definition kubernetes_service_name :: "world \<Rightarrow> deployment \<Rightarrow> string option" where
  "kubernetes_service_name w d =
     or_else (nonempty_string (d_kubernetes_service_name d))
       (historical_metadata_value w d ''service_name'')"

definition kubernetes_ingress_name :: "world \<Rightarrow> deployment \<Rightarrow> string option" where
  "kubernetes_ingress_name w d =
     or_else (nonempty_string (d_kubernetes_ingress_name d))
       (historical_metadata_value w d ''ingress_name'')"

section \<open>Persisting the identity\<close>

text \<open>The assignment \<open>if normalized and not current: current = normalized\<close>.\<close>

definition keep_or :: "string option \<Rightarrow> string option \<Rightarrow> string option" where
  "keep_or current new =
     (if nonempty_string new \<noteq> None \<and> nonempty_string current = None then nonempty_string new
      else current)"

definition freeze_identity :: "string \<Rightarrow> string \<Rightarrow> identity \<Rightarrow> deployment \<Rightarrow> deployment" where
  "freeze_identity mode ns ident d = d\<lparr>
     d_kubernetes_deployment_mode := keep_or (d_kubernetes_deployment_mode d) (Some mode),
     d_kubernetes_namespace := keep_or (d_kubernetes_namespace d) (Some ns),
     d_kubernetes_deployment_name := keep_or (d_kubernetes_deployment_name d) (i_deployment_name ident),
     d_kubernetes_service_name := keep_or (d_kubernetes_service_name d) (i_service_name ident),
     d_kubernetes_ingress_name := keep_or (d_kubernetes_ingress_name d) (i_ingress_name ident)\<rparr>"

definition persist_kubernetes_runtime_identity ::
    "nat \<Rightarrow> string option \<Rightarrow> string option \<Rightarrow> identity \<Rightarrow> unit proc" where
  "persist_kubernetes_runtime_identity did deployment_mode namespace ident =
     (case nonempty_string deployment_mode of
        None \<Rightarrow> throw (OtherExn ''ValueError'' ''Kubernetes deployment mode must be one of: manifest, helm'')
      | Some mode \<Rightarrow>
          if mode \<notin> set VALID_KUBERNETES_DEPLOYMENT_MODES
          then throw (OtherExn ''ValueError'' ''Kubernetes deployment mode must be one of: manifest, helm'')
          else (case nonempty_string namespace of
             None \<Rightarrow> throw (OtherExn ''ValueError'' ''Kubernetes namespace must not be empty'')
           | Some ns \<Rightarrow> set_dep did (freeze_identity mode ns ident)))"

definition helm_metadata :: "(json \<Rightarrow> string) \<Rightarrow> dict \<Rightarrow> deployment \<Rightarrow> deployment" where
  "helm_metadata show metadata d =
     (if jget metadata ''deployment_mode'' \<noteq> JStr ''helm'' \<and> \<not> jtrue (jget metadata ''helm_release_name'')
      then d
      else
        let release_name = jget metadata ''helm_release_name'';
            namespace = jget metadata ''namespace'';
            chart_path = jget metadata ''chart_path'';
            d1 = (if jtrue release_name
                  then d\<lparr>d_helm_release_name := Some (str_of_json show release_name)\<rparr> else d);
            d2 = (if jtrue namespace
                  then d1\<lparr>d_helm_namespace := Some (str_of_json show namespace),
                         d_kubernetes_namespace :=
                           (if nonempty_string (d_kubernetes_namespace d1) = None
                            then Some (str_of_json show namespace) else d_kubernetes_namespace d1)\<rparr>
                  else d1);
            d3 = (if jtrue chart_path
                  then d2\<lparr>d_helm_chart_path := Some (str_of_json show chart_path)\<rparr> else d2)
        in if nonempty_string (d_kubernetes_deployment_mode d3) = None
           then d3\<lparr>d_kubernetes_deployment_mode := Some ''helm''\<rparr> else d3)"

definition persist_helm_runtime_metadata :: "cfg \<Rightarrow> nat \<Rightarrow> dict \<Rightarrow> unit proc" where
  "persist_helm_runtime_metadata c did metadata = set_dep did (helm_metadata (shown c) metadata)"

section \<open>Lemmas\<close>

lemma strip_strip [simp]: "strip (strip s) = strip s"
proof (cases "strip s = []")
  case True
  have "strip [] = []" by (simp add: strip_def strip_where_def)
  then show ?thesis by (simp only: True)
next
  case False
  then have "\<not> is_space (hd (strip s))" "\<not> is_space (last (strip s))"
    by (auto simp: strip_def hd_strip_where last_strip_where)
  moreover have "\<not> is_space (hd (rev (strip s)))"
    using calculation(2) False by (simp add: hd_rev)
  ultimately show ?thesis
    using False by (metis (no_types, lifting) dropWhile_id rev_rev_ident strip_def strip_where_def)
qed

lemma nonempty_string_idem: "nonempty_string (nonempty_string a) = nonempty_string a"
  by (auto simp: nonempty_string_def strip_opt_def Let_def split: option.splits)

lemma nonempty_string_SomeD: "nonempty_string a = Some s \<Longrightarrow> s \<noteq> [] \<and> nonempty_string (Some s) = Some s"
  by (auto simp: nonempty_string_def strip_opt_def Let_def split: option.splits if_splits)

lemma keep_or_fixed: "nonempty_string current \<noteq> None \<Longrightarrow> keep_or current new = current"
  by (auto simp: keep_or_def)

lemma keep_or_keep_or: "nonempty_string a \<noteq> None \<Longrightarrow> keep_or (keep_or c a) b = keep_or c a"
  by (auto simp: keep_or_def nonempty_string_idem)

lemma frame_freeze [step_rules]: "frame_dep (freeze_identity mode ns ident)"
  by (simp add: frame_dep_def freeze_identity_def)

lemma frame_helm_metadata [step_rules]: "frame_dep (helm_metadata show m)"
  by (simp add: frame_dep_def helm_metadata_def Let_def)

text \<open>The identity that was persisted first is the one every later read returns.\<close>

lemma freeze_mode:
  assumes "nonempty_string (Some mode) = Some mode" "mode \<in> set VALID_KUBERNETES_DEPLOYMENT_MODES"
    and "nonempty_string (d_kubernetes_deployment_mode d) = None"
  shows "kubernetes_deployment_mode w (freeze_identity mode ns ident d) = Some mode"
  using assms by (simp add: kubernetes_deployment_mode_def freeze_identity_def keep_or_def Let_def)

lemma freeze_namespace:
  assumes "nonempty_string (Some ns) = Some ns" "nonempty_string (d_kubernetes_namespace d) = None"
  shows "kubernetes_namespace w (freeze_identity mode ns ident d) = Some ns"
  using assms nonempty_string_SomeD [of "Some ns" ns]
  by (simp add: kubernetes_namespace_def freeze_identity_def keep_or_def or_else_def)

lemma helm_metadata_keeps_identity:
  "nonempty_string (d_kubernetes_deployment_mode d) \<noteq> None \<Longrightarrow>
    d_kubernetes_deployment_mode (helm_metadata show m d) = d_kubernetes_deployment_mode d"
  "nonempty_string (d_kubernetes_namespace d) \<noteq> None \<Longrightarrow>
    d_kubernetes_namespace (helm_metadata show m d) = d_kubernetes_namespace d"
  by (auto simp: helm_metadata_def Let_def)

end
