(* ===== verification/Lease.thy ===== *)
theory Lease
  imports Prelude
begin

text \<open>
  A claim on a row, as several processes use it: a lease with a time stamp. Acquiring and
  refreshing are guarded UPDATEs; \<open>Finish\<close> is the end of a work item, whose transaction
  refreshes the claim (which locks the row) and then releases it; \<open>Release\<close> is the bare write
  of \<open>release_deployment_claim\<close>, which nothing guards, as in the acknowledgement of a stop
  and in the repairs of the reconciler. So operations of different workers interleave but
  do not overlap. The locale states the contract of the operations; its lemmas say that a
  worker that refreshes in time keeps the row whatever guarded operations the others try.
  It is interpreted on the claims of deployments and on those of commands.
\<close>

datatype lease_op =
    Acquire string int
  | Refresh string int
  | Finish string int
  | Release string

definition lease_step ::
    "('r \<Rightarrow> (string \<times> int) option) \<Rightarrow> (string \<Rightarrow> int \<Rightarrow> int \<Rightarrow> 'r \<Rightarrow> 'r option)
      \<Rightarrow> (string \<Rightarrow> int \<Rightarrow> 'r \<Rightarrow> 'r option) \<Rightarrow> ('r \<Rightarrow> 'r) \<Rightarrow> int \<Rightarrow> lease_op \<Rightarrow> 'r \<Rightarrow> 'r" where
  "lease_step holder acquire refresh release ttl op r = (case op of
     Acquire wk t \<Rightarrow> (case acquire wk (t - ttl) t r of None \<Rightarrow> r | Some r' \<Rightarrow> r')
   | Refresh wk t \<Rightarrow> (case refresh wk t r of None \<Rightarrow> r | Some r' \<Rightarrow> r')
   | Finish wk t \<Rightarrow> (case refresh wk t r of None \<Rightarrow> r | Some r' \<Rightarrow> release r')
   | Release wk \<Rightarrow> release r)"

text \<open>
  The worker \<open>wk\<close>, whose stamp is \<open>u\<close>, refreshes often enough: no attempt to acquire comes
  later than \<open>ttl\<close> after its last stamp. It does not finish, and nobody, itself or another
  process, releases the row without the check.
\<close>

fun in_time :: "string \<Rightarrow> int \<Rightarrow> int \<Rightarrow> lease_op list \<Rightarrow> bool" where
  "in_time wk ttl u [] = True"
| "in_time wk ttl u (Acquire wk' t # ops) = (t - ttl \<le> u \<and> in_time wk ttl u ops)"
| "in_time wk ttl u (Refresh wk' t # ops) = in_time wk ttl (if wk' = wk then t else u) ops"
| "in_time wk ttl u (Finish wk' t # ops) = (wk' \<noteq> wk \<and> in_time wk ttl u ops)"
| "in_time wk ttl u (Release wk' # ops) = False"

locale lease =
  fixes holder :: "'r \<Rightarrow> (string \<times> int) option"
    and acquire :: "string \<Rightarrow> int \<Rightarrow> int \<Rightarrow> 'r \<Rightarrow> 'r option"
    and refresh :: "string \<Rightarrow> int \<Rightarrow> 'r \<Rightarrow> 'r option"
    and release :: "'r \<Rightarrow> 'r"
  assumes acquire_holder: "acquire wk stale t r = Some r' \<Longrightarrow> holder r' = Some (wk, t)"
    and acquire_guard: "acquire wk stale t r = Some r' \<Longrightarrow> holder r = Some (o', u) \<Longrightarrow> u < stale"
    and refresh_guard: "refresh wk t r = Some r' \<Longrightarrow> map_option fst (holder r) = Some wk"
    and refresh_live: "holder r = Some (wk, u) \<Longrightarrow> refresh wk t r \<noteq> None"
    and refresh_holder: "refresh wk t r = Some r' \<Longrightarrow> holder r' = Some (wk, t)"
    and release_holder: "holder (release r) = None"
begin

lemma fresh_blocks_acquire: "holder r = Some (o', u) \<Longrightarrow> stale \<le> u \<Longrightarrow> acquire wk stale t r = None"
  using acquire_guard by (metis leD not_None_eq)

lemma refresh_other: "holder r = Some (o', u) \<Longrightarrow> wk \<noteq> o' \<Longrightarrow> refresh wk t r = None"
  using refresh_guard by (metis fst_conv not_None_eq option.map(2) option.inject)

text \<open>Of two workers that see the same free row, the second one's update matches no row.\<close>

lemma second_acquire_fails:
  assumes "acquire wk1 stale1 t1 r = Some r1" "stale2 \<le> t1"
  shows "acquire wk2 stale2 t2 r1 = None"
  using fresh_blocks_acquire [OF acquire_holder [OF assms(1)] assms(2)] .

lemma step_keeps_holder:
  assumes "holder r = Some (wk, u)" "in_time wk ttl u (op # ops)"
  shows "\<exists>u'. holder (lease_step holder acquire refresh release ttl op r) = Some (wk, u')
    \<and> in_time wk ttl u' ops"
proof (cases op)
  case (Acquire wk' t)
  then have "acquire wk' (t - ttl) t r = None" using assms fresh_blocks_acquire by simp
  then show ?thesis using Acquire assms by (simp add: lease_step_def)
next
  case (Refresh wk' t)
  show ?thesis
  proof (cases "wk' = wk")
    case True
    then obtain r' where "refresh wk' t r = Some r'" using refresh_live [OF assms(1)] by auto
    then show ?thesis
      using refresh_holder [of wk' t r r'] Refresh True assms by (simp add: lease_step_def)
  next
    case False
    then show ?thesis using refresh_other [OF assms(1), of wk'] Refresh assms
      by (simp add: lease_step_def)
  qed
next
  case (Finish wk' t)
  then have "refresh wk' t r = None" using refresh_other [OF assms(1), of wk'] assms(2) by simp
  then show ?thesis using Finish assms by (simp add: lease_step_def)
next
  case (Release wk')
  then show ?thesis using assms(2) by simp
qed

text \<open>A release that nothing guards takes the row from whoever holds it.\<close>

lemma bare_release: "holder (lease_step holder acquire refresh release ttl (Release wk') r) = None"
  by (simp add: lease_step_def release_holder)

lemma run_keeps_holder:
  "holder r = Some (wk, u) \<Longrightarrow> in_time wk ttl u ops \<Longrightarrow>
    \<exists>u'. holder (fold (lease_step holder acquire refresh release ttl) ops r) = Some (wk, u')"
proof (induction ops arbitrary: r u)
  case (Cons op ops)
  then show ?case using step_keeps_holder [OF Cons.prems] by fastforce
qed simp

end

end
