(* ===== verification/Claims.thy ===== *)
theory Claims
  imports Spec_Snapshot Runtime_Metadata Lease
begin

text \<open>
  \<open>worker/processing/events.py\<close> and \<open>worker/processing/claims.py\<close>: the event timeline and
  the ownership of deployments. A claim is the pair of columns \<open>claimed_by\<close>, \<open>claimed_at\<close>;
  it is taken by a guarded UPDATE on a pending row that is unclaimed or expired, checked
  again before every important write, refreshed by a second guarded UPDATE, and released
  at the end. The lemmas say which row a worker gets, that it changes nothing else, when
  the ownership check passes, and what a lost claim or a stop command leads to.
\<close>

section \<open>Events\<close>

definition deployment_secret_values :: "cfg \<Rightarrow> world \<Rightarrow> deployment \<Rightarrow> string list" where
  "deployment_secret_values c w d =
     secret_values_from_env_vars (shown c) (spec_env_vars (project_for_deployment w d))"

text \<open>\<open>DeploymentEvent(...)\<close> with its column defaults.\<close>

definition new_event ::
    "nat \<Rightarrow> string \<Rightarrow> string option \<Rightarrow> string \<Rightarrow> string \<Rightarrow> string option \<Rightarrow> json \<Rightarrow> nat \<Rightarrow> int \<Rightarrow> event" where
  "new_event did event_type step level status message metadata i t =
     \<lparr>e_id = i, e_deployment_id = did, e_event_type = event_type, e_step = step, e_level = level,
      e_status = status, e_message = message, e_metadata_json = metadata, e_created_at = t\<rparr>"

definition record_event ::
    "cfg \<Rightarrow> nat \<Rightarrow> string \<Rightarrow> string \<Rightarrow> string option \<Rightarrow> string option \<Rightarrow> string \<Rightarrow> dict \<Rightarrow> unit proc" where
  "record_event c did event_type status message step level metadata =
     bind (the_dep did) (\<lambda>d.
     bind (query (\<lambda>w. deployment_secret_values c w d)) (\<lambda>secret_values.
       let event_metadata =
             (if truthy (d_origin_request_id d)
              then jsetdefault ''origin_request_id'' (jopt (d_origin_request_id d)) metadata
              else metadata)
       in add_event (new_event did event_type step level status
            (if truthy message then map_option (redact_text secret_values) message else None)
            (redact_sensitive_data secret_values (JDict event_metadata)))))"

primrec record_auxiliary_events :: "cfg \<Rightarrow> nat \<Rightarrow> aux_event list \<Rightarrow> unit proc" where
  "record_auxiliary_events c did [] = ret ()"
| "record_auxiliary_events c did (e # es) =
     bind (record_event c did (x_event_type e) (x_status e) (x_message e) (x_step e)
             (case x_level e of None \<Rightarrow> ''info'' | Some l \<Rightarrow> l) (x_metadata_json e))
       (\<lambda>_. record_auxiliary_events c did es)"

section \<open>Ownership\<close>

definition claim_lost_metadata :: "exn \<Rightarrow> dict" where
  "claim_lost_metadata e = (case e of
     ClaimLost did wk by at st \<Rightarrow>
       [(''worker_id'', JStr wk), (''current_claimed_by'', jopt by), (''current_claimed_at'', jtime_opt at)]
   | _ \<Rightarrow> [])"

definition cancellation_metadata :: "exn \<Rightarrow> dict" where
  "cancellation_metadata e = (case e of
     CancelRequested did cid ct \<Rightarrow> [(''command_id'', JInt (int cid)), (''command_type'', JStr ct)]
   | _ \<Rightarrow> [])"

definition write_claim_event :: "cfg \<Rightarrow> nat \<Rightarrow> string \<Rightarrow> string \<Rightarrow> string \<Rightarrow> dict \<Rightarrow> unit proc" where
  "write_claim_event c did event_type message level metadata =
     bind (the_dep did) (\<lambda>d.
       record_event c did event_type (dep_status_name (d_status d)) (Some message) (Some ''claim'')
         level metadata)"

definition release_deployment_claim :: "nat \<Rightarrow> unit proc" where
  "release_deployment_claim did = set_dep did (\<lambda>d. d\<lparr>d_claimed_at := None, d_claimed_by := None\<rparr>)"

text \<open>The oldest stop command of a deployment that is still active.\<close>

definition active_stop :: "world \<Rightarrow> nat \<Rightarrow> command option" where
  "active_stop w did =
     (case sort_key c_requested_at (filter (\<lambda>k. c_deployment_id k = did \<and> c_command_type k = ''stop''
              \<and> cmd_active (c_status k) \<and> c_active_key k = Some ''active'') (commands w)) of
        [] \<Rightarrow> None | k # _ \<Rightarrow> Some k)"

definition ensure_claim_owned :: "cfg \<Rightarrow> nat \<Rightarrow> string option \<Rightarrow> int proc" where
  "ensure_claim_owned c did expected =
     bind (query (\<lambda>w. (get_dep w did, active_stop w did))) (\<lambda>(claim_state, cancellation).
       let expected_worker_id = or_str expected (worker_id c)
       in case claim_state of
            None \<Rightarrow> throw (ClaimLost did expected_worker_id None None None)
          | Some d \<Rightarrow>
              (case d_claimed_at d of
                 None \<Rightarrow> throw (ClaimLost did expected_worker_id (d_claimed_by d) None (Some (d_status d)))
               | Some current_claimed_at \<Rightarrow>
                   if d_claimed_by d \<noteq> Some expected_worker_id
                   then throw (ClaimLost did expected_worker_id (d_claimed_by d) (d_claimed_at d)
                          (Some (d_status d)))
                   else (case cancellation of
                      Some k \<Rightarrow> throw (CancelRequested did (c_id k) (c_command_type k))
                    | None \<Rightarrow> ret current_claimed_at)))"

text \<open>
  \<open>UPDATE ... SET claimed_at WHERE id AND claimed_by AND claimed_at IS NOT NULL\<close>, with the
  truth of its row count. A Core UPDATE sets the \<open>onupdate\<close> column too.
\<close>

definition refresh_update :: "string \<Rightarrow> int \<Rightarrow> deployment \<Rightarrow> deployment option" where
  "refresh_update worker t d =
     (if d_claimed_by d = Some worker \<and> d_claimed_at d \<noteq> None
      then Some (d\<lparr>d_claimed_at := Some t, d_updated_at := t\<rparr>) else None)"

definition guarded :: "('r \<Rightarrow> 'r option) \<Rightarrow> 'r \<Rightarrow> 'r" where
  "guarded g r = (case g r of None \<Rightarrow> r | Some r' \<Rightarrow> r')"

definition update_row :: "(int \<Rightarrow> deployment \<Rightarrow> deployment option) \<Rightarrow> nat \<Rightarrow> bool proc" where
  "update_row g did s = (case get_dep (cur s) did of
     None \<Rightarrow> (Inr False, s)
   | Some d \<Rightarrow>
       if g (clock s) d = None then (Inr False, s)
       else (Inr True, s\<lparr>cur := upd_dep did (guarded (g (clock s))) (cur s)\<rparr>))"

definition refresh_claim :: "cfg \<Rightarrow> nat \<Rightarrow> string option \<Rightarrow> unit proc" where
  "refresh_claim c did expected =
     bind (ensure_claim_owned c did expected) (\<lambda>_.
     bind now (\<lambda>new_claimed_at.
     bind (update_row (refresh_update (or_str expected (worker_id c))) did) (\<lambda>updated.
       if \<not> updated then throw (ClaimLost did (or_str expected (worker_id c)) None None None)
       else set_dep did (\<lambda>d. d\<lparr>d_claimed_at := Some new_claimed_at\<rparr>))))"

definition claim_heartbeat :: "cfg \<Rightarrow> nat \<Rightarrow> string option \<Rightarrow> unit proc" where
  "claim_heartbeat c did expected = seqs [refresh_claim c did expected, commit]"

definition persist_claim_loss :: "cfg \<Rightarrow> nat \<Rightarrow> exn \<Rightarrow> nat option proc" where
  "persist_claim_loss c did e =
     bind rollback (\<lambda>_.
     bind (query (\<lambda>w. get_dep w did)) (\<lambda>row. case row of
       None \<Rightarrow> ret None
     | Some _ \<Rightarrow>
         bind (seqs [write_claim_event c did ''claim_lost''
                       ''Deployment claim was lost before worker completed processing''
                       ''warning'' (claim_lost_metadata e),
                     commit])
           (\<lambda>_. ret (Some did))))"

definition persist_cancellation_acknowledgement :: "cfg \<Rightarrow> nat \<Rightarrow> exn \<Rightarrow> nat option proc" where
  "persist_cancellation_acknowledgement c did e =
     bind rollback (\<lambda>_.
     bind (query (\<lambda>w. get_dep w did)) (\<lambda>row. case row of
       None \<Rightarrow> ret None
     | Some _ \<Rightarrow>
         bind (seqs [write_claim_event c did ''deployment.cancellation_acknowledged''
                       ''Worker stopped deployment processing after observing a pending stop command''
                       ''warning'' (cancellation_metadata e),
                     release_deployment_claim did,
                     commit])
           (\<lambda>_. ret (Some did))))"

section \<open>Claiming the next deployment\<close>

definition unclaimed_or_stale :: "int \<Rightarrow> int option \<Rightarrow> bool" where
  "unclaimed_or_stale stale_before at = (case at of None \<Rightarrow> True | Some t \<Rightarrow> t < stale_before)"

definition claimable :: "int \<Rightarrow> deployment \<Rightarrow> bool" where
  "claimable stale_before d =
     (d_status d = Pending \<and> unclaimed_or_stale stale_before (d_claimed_at d))"

definition claim_update :: "string \<Rightarrow> int \<Rightarrow> int \<Rightarrow> deployment \<Rightarrow> deployment option" where
  "claim_update worker stale_before t d =
     (if claimable stale_before d
      then Some (d\<lparr>d_claimed_at := Some t, d_claimed_by := Some worker, d_updated_at := t\<rparr>)
      else None)"

fun claim_first :: "cfg \<Rightarrow> string \<Rightarrow> int \<Rightarrow> deployment list \<Rightarrow> nat option proc" where
  "claim_first c worker stale_before [] = bind rollback (\<lambda>_. ret None)"
| "claim_first c worker stale_before (d # rows) =
     bind now (\<lambda>t.
     bind (update_row (claim_update worker stale_before) (d_id d)) (\<lambda>claimed.
       if claimed
       then bind (seqs [commit,
              write_claim_event c (d_id d) ''claim_acquired'' ''Worker claimed pending deployment'' ''info''
                [(''worker_id'', JStr worker),
                 (''claimed_at'', JTime t),
                 (''previous_claimed_by'', jopt (d_claimed_by d)),
                 (''previous_claimed_at'', jtime_opt (d_claimed_at d)),
                 (''reclaimed_stale'', JBool (d_claimed_at d \<noteq> None))],
              commit])
            (\<lambda>_. ret (Some (d_id d)))
       else claim_first c worker stale_before rows))"

definition pending_rows :: "world \<Rightarrow> deployment list" where
  "pending_rows w = sort_key d_created_at (filter (\<lambda>d. d_status d = Pending) (deployments w))"

definition claim_next_pending_deployment :: "cfg \<Rightarrow> string option \<Rightarrow> int option \<Rightarrow> nat option proc" where
  "claim_next_pending_deployment c worker ttl =
     bind now (\<lambda>t.
     bind (query pending_rows) (\<lambda>rows.
       claim_first c (or_str worker (worker_id c))
         (t - (case ttl of None \<Rightarrow> claim_ttl c | Some n \<Rightarrow> n)) rows))"


section \<open>The writes keep the invariants of the database\<close>

lemma frame_set_claim [step_rules]:
  "frame_dep (\<lambda>d. d\<lparr>d_claimed_at := at\<rparr>)"
  "frame_dep (\<lambda>d. d\<lparr>d_claimed_at := at, d_claimed_by := by'\<rparr>)"
  by (simp_all add: frame_dep_def)

lemma frame_refresh_update [step_rules]: "frame_dep (guarded (refresh_update wk t))"
  by (auto simp: frame_dep_def guarded_def refresh_update_def)

lemma frame_claim_update [step_rules]: "frame_dep (guarded (claim_update wk stale t))"
  by (auto simp: frame_dep_def guarded_def claim_update_def)

lemma frame_dep_id: "frame_dep f \<Longrightarrow> d_id (f d) = d_id d"
  by (simp add: frame_dep_def)

context world_invariant
begin

lemma keeps_update_row: "(\<And>t. frame_dep (guarded (g t))) \<Longrightarrow> keeps I (update_row g did)"
  by (auto simp: keeps_def update_row_def I_dep split: option.splits)

lemma keeps_record_event: "keeps I (record_event c did et st msg step level md)"
  unfolding record_event_def Let_def by (intro step_rules keeps_add_event)

lemma keeps_record_auxiliary_events: "keeps I (record_auxiliary_events c did es)"
  by (induction es) (auto intro: step_rules keeps_record_event)

lemma keeps_write_claim_event: "keeps I (write_claim_event c did et msg level md)"
  unfolding write_claim_event_def by (intro step_rules keeps_record_event)

lemma keeps_release: "keeps I (release_deployment_claim did)"
  unfolding release_deployment_claim_def by (intro keeps_set_dep step_rules)

lemma keeps_ensure: "keeps I (ensure_claim_owned c did expected)"
  unfolding ensure_claim_owned_def Let_def by (intro step_rules)

lemma keeps_refresh: "keeps I (refresh_claim c did expected)"
  unfolding refresh_claim_def by (intro step_rules keeps_ensure keeps_update_row keeps_set_dep)

lemma keeps_heartbeat: "keeps I (claim_heartbeat c did expected)"
  unfolding claim_heartbeat_def by (intro step_rules keeps_refresh)

lemma keeps_persist_claim_loss: "keeps I (persist_claim_loss c did e)"
  unfolding persist_claim_loss_def by (intro step_rules keeps_write_claim_event)

lemma keeps_persist_cancellation: "keeps I (persist_cancellation_acknowledgement c did e)"
  unfolding persist_cancellation_acknowledgement_def
  by (intro step_rules keeps_write_claim_event keeps_release)

lemma keeps_claim_first: "keeps I (claim_first c wk stale rows)"
  by (induction rows) (auto intro!: step_rules keeps_update_row keeps_write_claim_event)

lemma keeps_claim_next: "keeps I (claim_next_pending_deployment c wk ttl)"
  unfolding claim_next_pending_deployment_def by (intro step_rules keeps_claim_first)

lemmas keeps_claims = keeps_writes keeps_record_event keeps_record_auxiliary_events
  keeps_write_claim_event keeps_release keeps_ensure keeps_refresh keeps_persist_claim_loss
  keeps_persist_cancellation keeps_claim_next

end

section \<open>What the steps compute\<close>

lemma the_dep_Some: "get_dep (cur s) did = Some d \<Longrightarrow> the_dep did s = (Inr d, s)"
  by (simp add: the_dep_def)

lemma the_dep_None: "get_dep (cur s) did = None \<Longrightarrow> the_dep did s = (Inl object_deleted, s)"
  by (simp add: the_dep_def)

lemma bind_Inr [simp]: "m s = (Inr x, s') \<Longrightarrow> bind m k s = k x s'"
  by (simp add: bind_def)

lemma seqs_run: "m s = (Inr (), s') \<Longrightarrow> seqs ms s' = r \<Longrightarrow> seqs (m # ms) s = r"
  by (simp add: bind_def)

lemma bind_query: "bind (query f) k s = k (f (cur s)) s"
  by (simp add: bind_def query_def)

lemma bind_lift: "bind (lift (Inr x)) k s = k x s"
  by (simp add: bind_def lift_def)

lemma bind_Inl [simp]: "m s = (Inl e, s') \<Longrightarrow> bind m k s = (Inl e, s')"
  by (simp add: bind_def)

lemma catch_Inl [simp]: "m s = (Inl e, s') \<Longrightarrow> catch m h s = h e s'"
  by (simp add: catch_def)

lemma catch_Inr [simp]: "m s = (Inr x, s') \<Longrightarrow> catch m h s = (Inr x, s')"
  by (simp add: catch_def)

lemma set_dep_Some:
  "get_dep (cur s) did = Some d \<Longrightarrow>
    set_dep did f s = (Inr (), s\<lparr>cur := upd_dep did (touch_dep (clock s) f) (cur s)\<rparr>)"
  by (simp add: set_dep_def the_dep_Some store_def)

lemma the_build_Some:
  "get_dep (cur s) did = Some d \<Longrightarrow> get_build (cur s) (d_build_id d) = Some b \<Longrightarrow>
    the_build did s = (Inr b, s)"
  by (simp add: the_build_def the_dep_Some)

lemma set_build_Some:
  "get_dep (cur s) did = Some d \<Longrightarrow> get_build (cur s) (d_build_id d) = Some b \<Longrightarrow>
    set_build did g s = (Inr (), s\<lparr>cur := upd_build (d_build_id d) (touch_build (clock s) g) (cur s)\<rparr>)"
  using bldt.get_key [of "cur s" "d_build_id d" b]
  by (simp add: set_build_def the_build_Some store_def)

text \<open>The event that \<open>record_event\<close> adds for a deployment row.\<close>

definition event_for ::
    "cfg \<Rightarrow> world \<Rightarrow> deployment \<Rightarrow> int \<Rightarrow> string \<Rightarrow> string \<Rightarrow> string option \<Rightarrow> string option \<Rightarrow> string
      \<Rightarrow> dict \<Rightarrow> event" where
  "event_for c w d t event_type status message step level metadata =
     new_event (d_id d) event_type step level status
       (if truthy message then map_option (redact_text (deployment_secret_values c w d)) message else None)
       (redact_sensitive_data (deployment_secret_values c w d) (JDict
          (if truthy (d_origin_request_id d)
           then jsetdefault ''origin_request_id'' (jopt (d_origin_request_id d)) metadata
           else metadata)))
       (next_id e_id (events w)) t"

lemma record_event_Some:
  assumes "get_dep (cur s) did = Some d"
  shows "record_event c did et st msg step level md s =
    (Inr (), s\<lparr>cur := (cur s)\<lparr>events := events (cur s) @
       [event_for c (cur s) d (clock s) et st msg step level md]\<rparr>\<rparr>)"
proof -
  have "d_id d = did" using assms by (rule deps.get_key)
  then show ?thesis
    using assms by (simp add: record_event_def the_dep_Some query_def add_event_def store_def
        event_for_def Let_def)
qed

lemma write_claim_event_Some:
  assumes "get_dep (cur s) did = Some d"
  shows "write_claim_event c did et msg level md s =
    (Inr (), s\<lparr>cur := (cur s)\<lparr>events := events (cur s) @
       [event_for c (cur s) d (clock s) et (dep_status_name (d_status d)) (Some msg) (Some ''claim'')
          level md]\<rparr>\<rparr>)"
  using assms by (simp add: write_claim_event_def the_dep_Some record_event_Some)

section \<open>Claiming picks the oldest claimable row\<close>

definition wf_deps :: "world \<Rightarrow> bool" where
  "wf_deps w \<longleftrightarrow> distinct (map d_id (deployments w))"

lemma get_dep_member: "wf_deps w \<Longrightarrow> d \<in> set (deployments w) \<Longrightarrow> get_dep w (d_id d) = Some d"
  unfolding wf_deps_def get_dep_def by (rule row_of_member)

lemma claim_first_run:
  assumes "\<forall>d \<in> set rows. get_dep (cur s) (d_id d) = Some d"
  shows "claim_first c wk stale rows s = (case find (claimable stale) rows of
      None \<Rightarrow> (Inr None, s\<lparr>cur := com s\<rparr>)
    | Some d \<Rightarrow>
        let d' = d\<lparr>d_claimed_at := Some (clock s), d_claimed_by := Some wk, d_updated_at := clock s\<rparr>;
            w = upd_dep (d_id d) (guarded (claim_update wk stale (clock s))) (cur s);
            e = event_for c w d' (clock s) ''claim_acquired'' (dep_status_name (d_status d))
                  (Some ''Worker claimed pending deployment'') (Some ''claim'') ''info''
                  [(''worker_id'', JStr wk), (''claimed_at'', JTime (clock s)),
                   (''previous_claimed_by'', jopt (d_claimed_by d)),
                   (''previous_claimed_at'', jtime_opt (d_claimed_at d)),
                   (''reclaimed_stale'', JBool (d_claimed_at d \<noteq> None))];
            w' = w\<lparr>events := events w @ [e]\<rparr>
        in (Inr (Some (d_id d)), s\<lparr>com := w', cur := w'\<rparr>))"
  using assms
proof (induction rows)
  case Nil
  then show ?case by (simp add: rollback_def bind_def ret_def)
next
  case (Cons d rows)
  then have d: "get_dep (cur s) (d_id d) = Some d" by simp
  show ?case
  proof (cases "claimable stale d")
    case False
    then have "update_row (claim_update wk stale) (d_id d) s = (Inr False, s)"
      using d by (simp add: update_row_def claim_update_def)
    then show ?thesis using Cons False by (simp add: now_def)
  next
    case True
    let ?d' = "d\<lparr>d_claimed_at := Some (clock s), d_claimed_by := Some wk, d_updated_at := clock s\<rparr>"
    let ?w = "upd_dep (d_id d) (guarded (claim_update wk stale (clock s))) (cur s)"
    have upd: "update_row (claim_update wk stale) (d_id d) s = (Inr True, s\<lparr>cur := ?w\<rparr>)"
      using d True by (simp add: update_row_def claim_update_def)
    have get: "get_dep ?w (d_id d) = Some ?d'"
      using d True by (simp add: deps.get_upd frame_claim_update frame_dep_id)
        (simp add: guarded_def claim_update_def)
    show ?thesis
      using True upd get
      by (simp add: now_def commit_def ret_def Let_def
          write_claim_event_Some [where s = "s\<lparr>cur := ?w, com := ?w\<rparr>" and d = "?d'"])
  qed
qed

lemma pending_rows_find:
  assumes "find (claimable stale) (pending_rows w) = Some d"
  shows "d \<in> set (deployments w)" "claimable stale d"
    and "\<forall>d' \<in> set (deployments w). claimable stale d' \<longrightarrow> d_created_at d \<le> d_created_at d'"
proof -
  obtain i where i: "i < length (pending_rows w)" "pending_rows w ! i = d" "claimable stale d"
      "\<forall>j < i. \<not> claimable stale (pending_rows w ! j)"
    using assms by (auto simp: find_Some_iff)
  have sorted: "sorted (map d_created_at (pending_rows w))"
    by (simp add: pending_rows_def)
  show "claimable stale d" by (rule i(3))
  show "d \<in> set (deployments w)"
    using i(1,2) nth_mem [OF i(1)] by (auto simp: pending_rows_def)
  show "\<forall>d' \<in> set (deployments w). claimable stale d' \<longrightarrow> d_created_at d \<le> d_created_at d'"
  proof (intro ballI impI)
    fix d' assume d': "d' \<in> set (deployments w)" "claimable stale d'"
    then have "d' \<in> set (pending_rows w)" by (simp add: pending_rows_def claimable_def)
    then obtain j where j: "j < length (pending_rows w)" "pending_rows w ! j = d'"
      by (auto simp: in_set_conv_nth)
    then have "i \<le> j" using i(4) d'(2) by (metis not_le)
    then show "d_created_at d \<le> d_created_at d'"
      using sorted_nth_mono [OF sorted, of i j] i(1,2) j by simp
  qed
qed

lemma pending_rows_find_None:
  "find (claimable stale) (pending_rows w) = None \<longleftrightarrow> (\<forall>d \<in> set (deployments w). \<not> claimable stale d)"
  by (auto simp: find_None_iff pending_rows_def claimable_def)

lemma claim_next_run:
  assumes "wf_deps (cur s)"
  shows "claim_next_pending_deployment c worker ttl s =
    claim_first c (or_str worker (worker_id c))
      (clock s - (case ttl of None \<Rightarrow> claim_ttl c | Some n \<Rightarrow> n)) (pending_rows (cur s)) s"
  by (simp add: claim_next_pending_deployment_def now_def query_def)

section \<open>The ownership check\<close>

definition owned :: "cfg \<Rightarrow> world \<Rightarrow> nat \<Rightarrow> bool" where
  "owned c w did \<longleftrightarrow> (\<exists>d. get_dep w did = Some d \<and> d_claimed_by d = Some (worker_id c)
     \<and> d_claimed_at d \<noteq> None)"

lemma ensure_ok_iff:
  "(\<exists>t. ensure_claim_owned c did None s = (Inr t, s)) \<longleftrightarrow>
    owned c (cur s) did \<and> active_stop (cur s) did = None"
  unfolding ensure_claim_owned_def owned_def
  by (auto simp: query_def or_str_def throw_def ret_def Let_def split: option.splits if_splits)

lemma ensure_session: "snd (ensure_claim_owned c did expected s) = s"
  by (auto simp: ensure_claim_owned_def query_def throw_def ret_def Let_def bind_def
      split: option.splits)

lemma ensure_lost:
  assumes "\<not> owned c (cur s) did"
  shows "\<exists>e. ensure_claim_owned c did None s = (Inl e, s) \<and> (\<exists>by at st. e = ClaimLost did (worker_id c) by at st)"
  using assms unfolding ensure_claim_owned_def owned_def
  by (auto simp: query_def or_str_def throw_def ret_def Let_def split: option.splits if_splits)

lemma ensure_cancelled:
  assumes "owned c (cur s) did" "active_stop (cur s) did = Some k"
  shows "ensure_claim_owned c did None s = (Inl (CancelRequested did (c_id k) (c_command_type k)), s)"
  using assms unfolding ensure_claim_owned_def owned_def
  by (auto simp: query_def or_str_def throw_def ret_def Let_def split: option.splits if_splits)

lemma ensure_owned:
  assumes "owned c (cur s) did" "active_stop (cur s) did = None"
  shows "\<exists>t. ensure_claim_owned c did None s = (Inr t, s)"
  using assms ensure_ok_iff by blast

lemma active_stop_iff:
  "active_stop w did = None \<longleftrightarrow> (\<forall>k \<in> set (commands w). \<not> (c_deployment_id k = did
     \<and> c_command_type k = ''stop'' \<and> cmd_active (c_status k) \<and> c_active_key k = Some ''active''))"
proof -
  have "active_stop w did = None \<longleftrightarrow>
      filter (\<lambda>k. c_deployment_id k = did \<and> c_command_type k = ''stop''
        \<and> cmd_active (c_status k) \<and> c_active_key k = Some ''active'') (commands w) = []"
    unfolding active_stop_def by (subst sort_key_Nil_iff [symmetric, of _ c_requested_at]) (auto split: list.split)
  then show ?thesis by (simp only: filter_empty_conv)
qed

section \<open>The claim of a deployment is a lease\<close>

text \<open>Who holds a deployment, and the release of a row; a run of claim operations on one row.\<close>

definition claim_holder :: "deployment \<Rightarrow> (string \<times> int) option" where
  "claim_holder d = (case d_claimed_by d of
     None \<Rightarrow> None | Some wk \<Rightarrow> map_option (Pair wk) (d_claimed_at d))"

definition drop_claim :: "deployment \<Rightarrow> deployment" where
  "drop_claim d = d\<lparr>d_claimed_at := None, d_claimed_by := None\<rparr>"

lemma release_deployment_claim_eq: "release_deployment_claim did = set_dep did drop_claim"
  by (simp add: release_deployment_claim_def drop_claim_def [abs_def])

definition claim_run :: "int \<Rightarrow> lease_op list \<Rightarrow> deployment \<Rightarrow> deployment" where
  "claim_run ttl = fold (lease_step claim_holder claim_update refresh_update drop_claim ttl)"

interpretation dlease: lease claim_holder claim_update refresh_update drop_claim
  by unfold_locales
    (auto simp: claim_holder_def claim_update_def refresh_update_def drop_claim_def claimable_def
      unclaimed_or_stale_def split: option.splits if_splits)

end
