(* ===== verification/Lifecycle.thy ===== *)
theory Lifecycle
  imports Claims
begin

text \<open>
  \<open>worker/processing/lifecycle.py\<close>: the steps that keep the deployment, its build and the
  timeline aligned while the pipeline runs. The lemmas at the end give, for a worker that
  owns the claim, what each step leaves in the rows.
\<close>

definition build_status_by_deployment_status :: "dep_status \<Rightarrow> build_status option" where
  "build_status_by_deployment_status st = (case st of
     Cloning \<Rightarrow> Some B_cloning
   | Building \<Rightarrow> Some B_building
   | Testing \<Rightarrow> Some B_testing
   | Pushing_image \<Rightarrow> Some B_pushing_image
   | _ \<Rightarrow> None)"

section \<open>Event metadata\<close>

fun json_strings :: "json \<Rightarrow> string list" where
  "json_strings (JList xs) = map (\<lambda>x. case x of JStr s \<Rightarrow> s | _ \<Rightarrow> []) xs"
| "json_strings _ = []"

definition causes :: "string list \<Rightarrow> dict" where
  "causes cs = [(''possible_causes'', JList (map JStr cs))]"

definition push_error_hint :: "cfg \<Rightarrow> string \<Rightarrow> dict \<Rightarrow> dict" where
  "push_error_hint c message metadata =
     (let summary = (if jtrue (jget metadata ''summary'')
                     then str_of_json (shown c) (jget metadata ''summary'') else []);
          output_tail = join '' '' (json_strings (jget metadata ''output_tail''));
          haystack = lower (join '' '' (filter (\<lambda>part. part \<noteq> []) [message, summary, output_tail]))
      in if contains ''denied: requested access to the resource is denied'' haystack
            \<or> contains ''denied:'' haystack
         then causes [''registry authentication or token scope issue'',
                      ''repository permission or namespace access issue'',
                      ''registry plan or private repository limit'']
         else if contains ''unauthorized'' haystack \<or> contains ''insufficient scopes'' haystack
            \<or> contains ''insufficient_scope'' haystack
         then causes [''registry authentication failed'',
                      ''registry token does not have push permission'']
         else if contains ''manifest unknown'' haystack \<or> contains ''no such manifest'' haystack
         then causes [''registry image tag was not published'',
                      ''registry push may have partially succeeded without a retrievable image manifest'']
         else if contains ''repository does not exist'' haystack
         then causes [''target repository does not exist'',
                      ''authenticated user does not have permission to create or push to the repository'']
         else [])"

definition push_event_metadata :: "cfg \<Rightarrow> dict \<Rightarrow> string option \<Rightarrow> string \<Rightarrow> string \<Rightarrow> dict" where
  "push_event_metadata c result_metadata result_log_path message status =
     (let metadata = jmerge result_metadata
            [(''step'', JStr ''image.push''),
             (''success'', JBool (status = ''succeeded'')),
             (''push_log_available'', JBool (truthy result_log_path)),
             (''push_log_path'', jopt result_log_path),
             (''push_output_tail'', jget result_metadata ''output_tail''),
             (''push_summary'', jor (jget result_metadata ''summary'') (JStr message)),
             (''push_duration'', jget result_metadata ''duration_seconds''),
             (''push_attempts'', jget result_metadata ''attempt''),
             (''push_total_attempts'', jget result_metadata ''total_attempts'')]
      in if status = ''failed''
         then (let failed = jset ''error_message'' (JStr message) metadata
               in jmerge failed (push_error_hint c message failed))
         else metadata)"

section \<open>Applying results\<close>

definition build_result :: "exec_result \<Rightarrow> build \<Rightarrow> build" where
  "build_result r b = b\<lparr>
     b_workspace_path := or_else (r_workspace_path r) (b_workspace_path b),
     b_log_path := or_else (r_log_path r) (b_log_path b),
     b_image_tag := or_else (r_image_tag r) (b_image_tag b),
     b_image_ref := or_else (r_image_ref r) (b_image_ref b)\<rparr>"

definition dep_result :: "exec_result \<Rightarrow> deployment \<Rightarrow> deployment" where
  "dep_result r d = d\<lparr>
     d_deploy_target := or_else (r_deploy_target r) (d_deploy_target d),
     d_container_name := or_else (r_container_name r) (d_container_name d),
     d_container_id := or_else (r_container_id r) (d_container_id d),
     d_host_port := (case r_host_port r of None \<Rightarrow> d_host_port d | Some p \<Rightarrow> Some p),
     d_healthcheck_url := or_else (r_healthcheck_url r) (d_healthcheck_url d),
     d_service_url := or_else (r_service_url r) (d_service_url d)\<rparr>"

definition apply_execution_result :: "cfg \<Rightarrow> nat \<Rightarrow> exec_result \<Rightarrow> unit proc" where
  "apply_execution_result c did r =
     seqs [set_build did (build_result r),
           set_dep did (dep_result r),
           persist_helm_runtime_metadata c did (r_metadata r)]"

definition clear_preflight_state :: "nat \<Rightarrow> unit proc" where
  "clear_preflight_state did = set_dep did (\<lambda>d. d\<lparr>
     d_preflight_status := None,
     d_preflight_summary := None,
     d_preflight_metadata_json := JNull,
     d_preflight_completed_at := None\<rparr>)"

definition preflight_fields ::
    "string list \<Rightarrow> string \<Rightarrow> string \<Rightarrow> dict \<Rightarrow> int \<Rightarrow> deployment \<Rightarrow> deployment" where
  "preflight_fields secret_values status summary metadata t d = d\<lparr>
     d_preflight_status := Some status,
     d_preflight_summary := Some (redact_text secret_values summary),
     d_preflight_metadata_json := redact_sensitive_data secret_values (JDict metadata),
     d_preflight_completed_at := Some t\<rparr>"

definition secrets_of :: "cfg \<Rightarrow> nat \<Rightarrow> string list proc" where
  "secrets_of c did = bind (the_dep did) (\<lambda>d. query (\<lambda>w. deployment_secret_values c w d))"

definition persist_preflight_result :: "cfg \<Rightarrow> nat \<Rightarrow> preflight_result option \<Rightarrow> unit proc" where
  "persist_preflight_result c did result = (case result of
     None \<Rightarrow> ret ()
   | Some r \<Rightarrow>
       bind (secrets_of c did) (\<lambda>secret_values. bind now (\<lambda>t.
         set_dep did (preflight_fields secret_values (f_status r) (f_summary r)
           (jmerge (f_metadata r)
              [(''log_path'', jopt (f_log_path r)),
               (''deploy_target'', jopt (f_deploy_target r)),
               (''summary'', JStr (f_summary r)),
               (''status'', JStr (f_status r))]) t))))"

definition persist_preflight_failure ::
    "cfg \<Rightarrow> nat \<Rightarrow> string \<Rightarrow> string \<Rightarrow> dict \<Rightarrow> string option \<Rightarrow> unit proc" where
  "persist_preflight_failure c did step message metadata log_path =
     (if \<not> contains ''preflight'' step then ret ()
      else bind (secrets_of c did) (\<lambda>secret_values. bind now (\<lambda>t.
        set_dep did (preflight_fields secret_values ''failed'' message
          (jmerge metadata
             [(''log_path'', jopt log_path),
              (''summary'', JStr message),
              (''status'', JStr ''failed'')]) t))))"

section \<open>Steps of the pipeline\<close>

definition set_deployment_status ::
    "cfg \<Rightarrow> nat \<Rightarrow> dep_status \<Rightarrow> string \<Rightarrow> string \<Rightarrow> unit proc" where
  "set_deployment_status c did status event_type message =
     bind (the_dep did) (\<lambda>d. bind (the_build did) (\<lambda>b. bind now (\<lambda>t.
       seqs [
         whenp (d_started_at d = None \<and> status \<noteq> Pending)
           (set_dep did (\<lambda>d. d\<lparr>d_started_at := Some t\<rparr>)),
         whenp (b_started_at b = None \<and> build_status_by_deployment_status status \<noteq> None)
           (set_build did (\<lambda>b. b\<lparr>b_started_at := Some t\<rparr>)),
         transition_to did status,
         (case build_status_by_deployment_status status of
            None \<Rightarrow> ret () | Some build_status \<Rightarrow> build_transition_to did build_status),
         record_event c did event_type (dep_status_name status) (Some message)
           (Some (dep_status_name status)) ''info'' []])))"

definition begin_step :: "cfg \<Rightarrow> nat \<Rightarrow> dep_status \<Rightarrow> string \<Rightarrow> string \<Rightarrow> unit proc" where
  "begin_step c did status event_type message =
     bind (ensure_claim_owned c did None) (\<lambda>_.
       seqs [refresh_claim c did None,
             set_deployment_status c did status event_type message,
             commit])"

definition commit_step_result ::
    "cfg \<Rightarrow> nat \<Rightarrow> string \<Rightarrow> string \<Rightarrow> string \<Rightarrow> string \<Rightarrow> dict \<Rightarrow> aux_event list \<Rightarrow> unit proc" where
  "commit_step_result c did event_type status message step metadata extra_events =
     bind (ensure_claim_owned c did None) (\<lambda>_.
       seqs [refresh_claim c did None,
             record_auxiliary_events c did extra_events,
             record_event c did event_type status (Some message) (Some step) ''info'' metadata,
             commit])"

definition failure_metadata :: "cfg \<Rightarrow> string \<Rightarrow> string \<Rightarrow> dict \<Rightarrow> string option \<Rightarrow> dict" where
  "failure_metadata c step message metadata log_path =
     (let with_summary = jmerge [(''summary'', JStr message)] metadata
      in if step = ''image.push'' then push_event_metadata c with_summary log_path message ''failed''
         else with_summary)"

definition mark_failed :: "cfg \<Rightarrow> nat \<Rightarrow> string \<Rightarrow> string \<Rightarrow> dict \<Rightarrow> nat option proc" where
  "mark_failed c did step message metadata =
     bind (the_build did) (\<lambda>b.
     bind (ensure_claim_owned c did None) (\<lambda>_.
     bind (refresh_claim c did None) (\<lambda>_.
     bind (secrets_of c did) (\<lambda>secret_values. bind now (\<lambda>t.
       let sanitized_message = redact_text secret_values message;
           sanitized_metadata = dict_of (redact_sensitive_data secret_values
             (JDict (failure_metadata c step message metadata (b_log_path b))));
           event_metadata = jmerge [(''log_path'', jopt (b_log_path b))] sanitized_metadata
       in bind (seqs [
            transition_to did Failed,
            set_dep did (\<lambda>d. d\<lparr>d_finished_at := Some t, d_last_error := Some sanitized_message\<rparr>),
            build_transition_to did B_failed,
            set_build did (\<lambda>b. b\<lparr>b_finished_at := Some t, b_last_error := Some sanitized_message\<rparr>),
            record_event c did (step @ ''.failed'') ''failed'' (Some sanitized_message) (Some step)
              ''error'' event_metadata,
            record_event c did ''deployment.failed'' ''failed'' (Some sanitized_message)
              (Some ''deployment'') ''error'' event_metadata,
            write_claim_event c did ''claim_cleared'' ''Worker cleared deployment claim after failure''
              ''info'' [(''worker_id'', JStr (worker_id c))],
            release_deployment_claim did,
            commit])
          (\<lambda>_. ret (Some did)))))))"

section \<open>The steps keep the invariants of the database\<close>

lemma frame_lifecycle [step_rules]:
  "frame_dep (dep_result r)"
  "frame_dep (preflight_fields sv st su md t)"
  "frame_dep (\<lambda>d. d\<lparr>d_preflight_status := a, d_preflight_summary := b,
     d_preflight_metadata_json := j, d_preflight_completed_at := n\<rparr>)"
  "frame_dep (\<lambda>d. d\<lparr>d_started_at := n\<rparr>)"
  "frame_dep (\<lambda>d. d\<lparr>d_finished_at := n\<rparr>)"
  "frame_dep (\<lambda>d. d\<lparr>d_last_error := a\<rparr>)"
  "frame_dep (\<lambda>d. d\<lparr>d_deploy_target := a\<rparr>)"
  "frame_dep (\<lambda>d. d\<lparr>d_finished_at := n, d_last_error := a\<rparr>)"
  "frame_build (build_result r)"
  "frame_build (\<lambda>b. b\<lparr>b_started_at := n\<rparr>)"
  "frame_build (\<lambda>b. b\<lparr>b_finished_at := n\<rparr>)"
  "frame_build (\<lambda>b. b\<lparr>b_last_error := a\<rparr>)"
  "frame_build (\<lambda>b. b\<lparr>b_finished_at := n, b_last_error := a\<rparr>)"
  "frame_build (\<lambda>b. b\<lparr>b_log_path := a\<rparr>)"
  "frame_build (\<lambda>b. b\<lparr>b_build_log_path := a\<rparr>)"
  "frame_build (\<lambda>b. b\<lparr>b_registry_push_status := a\<rparr>)"
  by (simp_all add: frame_dep_def frame_build_def dep_result_def preflight_fields_def build_result_def)

context world_invariant
begin

lemma keeps_apply_execution_result: "keeps I (apply_execution_result c did r)"
  unfolding apply_execution_result_def persist_helm_runtime_metadata_def
  by (intro step_rules keeps_claims)

lemma keeps_clear_preflight_state: "keeps I (clear_preflight_state did)"
  unfolding clear_preflight_state_def by (intro step_rules keeps_claims)

lemma keeps_secrets_of: "keeps I (secrets_of c did)"
  unfolding secrets_of_def by (intro step_rules)

lemma keeps_persist_preflight_result: "keeps I (persist_preflight_result c did r)"
  unfolding persist_preflight_result_def by (intro step_rules keeps_claims keeps_secrets_of)

lemma keeps_persist_preflight_failure: "keeps I (persist_preflight_failure c did st msg md lp)"
  unfolding persist_preflight_failure_def by (intro step_rules keeps_claims keeps_secrets_of)

lemma keeps_set_deployment_status: "keeps I (set_deployment_status c did st et msg)"
  unfolding set_deployment_status_def by (intro step_rules keeps_claims)

lemma keeps_begin_step: "keeps I (begin_step c did st et msg)"
  unfolding begin_step_def by (intro step_rules keeps_claims keeps_set_deployment_status)

lemma keeps_commit_step_result: "keeps I (commit_step_result c did et st msg step md es)"
  unfolding commit_step_result_def by (intro step_rules keeps_claims)

lemma keeps_mark_failed: "keeps I (mark_failed c did step msg md)"
  unfolding mark_failed_def Let_def by (intro step_rules keeps_claims keeps_secrets_of)

lemmas keeps_lifecycle = keeps_claims keeps_apply_execution_result keeps_clear_preflight_state
  keeps_persist_preflight_result keeps_persist_preflight_failure keeps_begin_step
  keeps_commit_step_result keeps_mark_failed

end

end
