(* ===== verification/Execution.thy ===== *)
theory Execution
  imports Spec_Snapshot Runtime_Metadata
begin

text \<open>
  \<open>worker/workload_environment.py\<close>, \<open>worker/kubernetes_workload.py\<close>, the fake executor of
  \<open>worker/executors/fake.py\<close> and the factory of \<open>worker/execution/factory.py\<close>. The factory gets
  the Docker and Kubernetes executors as parameters of the configuration; \<open>Docker_Executor\<close>
  and \<open>Kubernetes_Executor\<close> define them. The lemmas state that reserved environment names are owned by the
  platform, that the fake executor only reads the database, and which executor a
  deployment gets.
\<close>

section \<open>The environment of a workload\<close>

definition RESERVED_WORKLOAD_ENVIRONMENT_NAMES :: "string list" where
  "RESERVED_WORKLOAD_ENVIRONMENT_NAMES = [''APP_COMMIT_SHA'', ''APP_VERSION'']"

fun env_name :: "json \<Rightarrow> json" where
  "env_name (JDict d) = jget d ''name''"
| "env_name _ = JNull"

definition env_literal :: "string \<Rightarrow> string \<Rightarrow> json" where
  "env_literal name value = JDict
     [(''name'', JStr name), (''value_source'', JStr ''literal''), (''value'', JStr value)]"

definition resolved_workload_environment :: "world \<Rightarrow> deployment \<Rightarrow> build \<Rightarrow> json list" where
  "resolved_workload_environment w d b =
     filter (\<lambda>item. env_name item \<notin> JStr ` set RESERVED_WORKLOAD_ENVIRONMENT_NAMES)
       (spec_env_vars (project_for_deployment w d))
     @ [env_literal ''APP_COMMIT_SHA'' (b_commit_sha b),
        env_literal ''APP_VERSION'' (or_str (b_image_tag b) [])]"

section \<open>Resources and probes of a Kubernetes workload\<close>

definition clean_json :: "(json \<Rightarrow> string) \<Rightarrow> json \<Rightarrow> string option" where
  "clean_json show v = (if v = JNull then None else strip_opt (str_of_json show v))"

definition resource_requests :: "(json \<Rightarrow> string) \<Rightarrow> dict \<Rightarrow> dict" where
  "resource_requests show spec =
     (let cpu = clean_json show (jget spec ''cpu'');
          memory = clean_json show (jget spec ''memory'');
          requests = (case cpu of None \<Rightarrow> [] | Some v \<Rightarrow> [(''cpu'', JStr v)])
                   @ (case memory of None \<Rightarrow> [] | Some v \<Rightarrow> [(''memory'', JStr v)])
      in if requests = [] then [] else [(''requests'', JDict requests)])"

definition probe :: "string \<Rightarrow> int \<Rightarrow> int \<Rightarrow> dict" where
  "probe url delay period =
     [(''enabled'', JBool True),
      (''httpGet'', JDict [(''path'', JStr url), (''port'', JStr ''http'')]),
      (''initialDelaySeconds'', JInt delay),
      (''periodSeconds'', JInt period)]"

definition health_probes :: "(json \<Rightarrow> string) \<Rightarrow> dict \<Rightarrow> dict" where
  "health_probes show spec =
     (let url = or_str (clean_json show (jget spec ''healthcheck_path'')) ''/''
      in [(''readiness'', JDict (probe url 5 10)),
          (''liveness'', JDict (probe url 15 20)),
          (''startup'', JDict [(''enabled'', JBool False)])])"

definition enabled_probe :: "json \<Rightarrow> json" where
  "enabled_probe p = JDict (filter (\<lambda>(k, v). k \<noteq> ''enabled'') (dict_of p))"

definition manifest_health_probes :: "(json \<Rightarrow> string) \<Rightarrow> dict \<Rightarrow> dict" where
  "manifest_health_probes show spec =
     (let probes = health_probes show spec
      in [(''readinessProbe'', enabled_probe (jget probes ''readiness'')),
          (''livenessProbe'', enabled_probe (jget probes ''liveness''))])"

section \<open>The fake executor\<close>

definition result0 :: "string \<Rightarrow> dict \<Rightarrow> exec_result" where
  "result0 message metadata =
     \<lparr>r_message = message, r_metadata = metadata, r_events = [], r_log_path = None,
      r_workspace_path = None, r_command_output = None, r_image_tag = None, r_image_ref = None,
      r_service_url = None, r_deploy_target = None, r_container_name = None,
      r_container_id = None, r_host_port = None, r_healthcheck_url = None,
      r_runtime_log_path = None\<rparr>"

text \<open>A call that reads the rows of the deployment and nothing else.\<close>

definition reading :: "(world \<Rightarrow> deployment \<Rightarrow> build \<Rightarrow> 'a) \<Rightarrow> 'a call" where
  "reading g did = (\<lambda>(w, t). (case get_dep w did of
      None \<Rightarrow> Inl object_deleted
    | Some d \<Rightarrow> (case get_build w (d_build_id d) of
         None \<Rightarrow> Inl object_deleted
       | Some b \<Rightarrow> Inr (g w d b)), (w, t)))"

definition fake_meta :: dict where
  "fake_meta = [(''executor'', JStr ''fake'')]"

definition fake_skipped :: dict where
  "fake_skipped = fake_meta @ [(''skipped'', JBool True)]"

definition spec_text :: "cfg \<Rightarrow> dict \<Rightarrow> string \<Rightarrow> string" where
  "spec_text c spec key = str_of_json (shown c) (jget spec key)"

definition fake_clone_repo :: "exec_result call" where
  "fake_clone_repo = reading (\<lambda>w d b. (result0 ''Repository cloned'' fake_meta)\<lparr>
     r_workspace_path := Some (''/tmp/paas-workspaces/fake/deployment-'' @ str_of_nat (d_id d))\<rparr>)"

definition fake_build_image :: "cfg \<Rightarrow> exec_result call" where
  "fake_build_image c = reading (\<lambda>w d b.
     let image_tag = or_str (b_image_tag b) (take 12 (b_commit_sha b));
         image_name = or_str (b_image_name b) (spec_text c (project_for_deployment w d) ''name'');
         image_ref = or_str (b_image_ref b) (''local/'' @ image_name @ '':'' @ image_tag)
     in (result0 ''Docker image built'' fake_meta)\<lparr>r_image_tag := Some image_tag, r_image_ref := Some image_ref\<rparr>)"

definition fake_run_tests :: "exec_result call" where
  "fake_run_tests = reading (\<lambda>w d b. result0 ''Test command completed'' fake_meta)"

definition fake_tag_image :: "cfg \<Rightarrow> exec_result call" where
  "fake_tag_image c = reading (\<lambda>w d b.
     let name = spec_text c (project_for_deployment w d) ''name'' @ '':'' @ str_of_nat (d_id d)
     in (result0 ''Image tag skipped for fake executor'' fake_skipped)\<lparr>
          r_image_tag := Some (or_str (b_image_tag b) name),
          r_image_ref := Some (or_str (b_image_ref b) name)\<rparr>)"

definition fake_push_image :: "exec_result call" where
  "fake_push_image = reading (\<lambda>w d b. (result0 ''Image push skipped for fake executor'' fake_skipped)\<lparr>
     r_image_tag := b_image_tag b, r_image_ref := or_else (b_image_ref b) (b_image_tag b)\<rparr>)"

definition fake_verify_image :: "exec_result call" where
  "fake_verify_image = reading (\<lambda>w d b. (result0 ''Image verification skipped for fake executor'' fake_skipped)\<lparr>
     r_image_tag := b_image_tag b, r_image_ref := or_else (b_image_ref b) (b_image_tag b)\<rparr>)"

definition fake_preflight_deploy :: "preflight_result option call" where
  "fake_preflight_deploy = reading (\<lambda>w d b. Some
     \<lparr>f_status = ''skipped'', f_summary = ''Deployment preflight skipped for fake executor'',
      f_metadata = fake_skipped, f_events = [], f_log_path = None, f_deploy_target = Some ''fake''\<rparr>)"

definition fake_deploy :: "cfg \<Rightarrow> exec_result call" where
  "fake_deploy c = reading (\<lambda>w d b.
     (result0 ''Deployment marked as running'' (fake_meta @
        [(''platform_environment_names'',
          JList (map env_name (resolved_workload_environment w d b)))]))\<lparr>
       r_service_url := Some (or_str (d_service_url d)
         (''https://'' @ spec_text c (project_for_deployment w d) ''name'' @ ''.local'')),
       r_deploy_target := Some ''fake''\<rparr>)"

definition fake_stop :: "exec_result call" where
  "fake_stop = reading (\<lambda>w d b.
     (result0 ''Deployment marked as stopped'' (fake_meta @ [(''stopped'', JBool True)]))\<lparr>
       r_deploy_target := Some ''fake'',
       r_container_name := d_container_name d,
       r_container_id := d_container_id d\<rparr>)"

text \<open>The methods that the fake executor inherits from \<open>DeploymentExecutor\<close>.\<close>

definition fake_executor :: "cfg \<Rightarrow> executor" where
  "fake_executor c =
     \<lparr>ex_deploy_target = Some ''fake'', ex_deployment_mode = None, ex_namespace = None,
      ex_identity = None,
      ex_clone_repo = fake_clone_repo,
      ex_build_image = fake_build_image c,
      ex_run_tests = fake_run_tests,
      ex_tag_image = fake_tag_image c,
      ex_push_image = fake_push_image,
      ex_verify_image = fake_verify_image,
      ex_preflight_deploy = fake_preflight_deploy,
      ex_deploy = fake_deploy c,
      ex_stop = fake_stop,
      ex_container_exists = (\<lambda>did s. (Inr False, s)),
      ex_runtime_resource_status = (\<lambda>did s. (Inr [], s)),
      ex_runtime_helm_status = (\<lambda>did s. (Inr None, s)),
      ex_runtime_pod_diagnostics = (\<lambda>prefix did s. (Inr [], s))\<rparr>"

section \<open>The factory\<close>

definition create_executor_for_name :: "cfg \<Rightarrow> string \<Rightarrow> exn + executor" where
  "create_executor_for_name c name =
     (let normalized = lower (strip name)
      in if normalized = ''local-docker'' then local_docker_executor c
         else if normalized = ''kubernetes''
         then kubernetes_executor c (k8s_deployment_mode c) (k8s_namespace c)
         else if normalized = ''fake'' then Inr (fake_executor c)
         else Inl (OtherExn ''RuntimeError'' (''Unsupported executor '' @ [CHR 0x27] @ normalized @ [CHR 0x27])))"

definition create_executor :: "cfg \<Rightarrow> exn + executor" where
  "create_executor c = create_executor_for_name c (executor_name c)"

definition create_executor_for_deployment :: "cfg \<Rightarrow> world \<Rightarrow> deployment \<Rightarrow> exn + executor" where
  "create_executor_for_deployment c w d =
     (let name = or_str (d_deploy_target d) (executor_name c)
      in if lower (strip name) = ''kubernetes''
         then kubernetes_executor c
           (or_str (kubernetes_deployment_mode w d) (k8s_deployment_mode c))
           (or_str (kubernetes_namespace w d) (k8s_namespace c))
         else create_executor_for_name c name)"

section \<open>Lemmas\<close>

text \<open>The project cannot set a reserved name: the platform's values are the only ones.\<close>

lemma reserved_only_platform:
  assumes "item \<in> set (resolved_workload_environment w d b)"
    and "env_name item \<in> JStr ` set RESERVED_WORKLOAD_ENVIRONMENT_NAMES"
  shows "item = env_literal ''APP_COMMIT_SHA'' (b_commit_sha b)
    \<or> item = env_literal ''APP_VERSION'' (or_str (b_image_tag b) [])"
  using assms by (auto simp: resolved_workload_environment_def)

lemma reading_world: "snd (reading g did s) = s"
  by (simp add: reading_def split: prod.splits)

lemma reading_result:
  "get_dep w did = Some d \<Longrightarrow> get_build w (d_build_id d) = Some b \<Longrightarrow>
    reading g did (w, t) = (Inr (g w d b), (w, t))"
  by (simp add: reading_def)

lemma fake_calls_read:
  "\<exists>g. ex_clone_repo (fake_executor c) = reading g" "\<exists>g. ex_build_image (fake_executor c) = reading g"
  "\<exists>g. ex_run_tests (fake_executor c) = reading g" "\<exists>g. ex_tag_image (fake_executor c) = reading g"
  "\<exists>g. ex_push_image (fake_executor c) = reading g" "\<exists>g. ex_verify_image (fake_executor c) = reading g"
  "\<exists>g. ex_preflight_deploy (fake_executor c) = reading g" "\<exists>g. ex_deploy (fake_executor c) = reading g"
  "\<exists>g. ex_stop (fake_executor c) = reading g"
  by (auto simp: fake_executor_def fake_clone_repo_def fake_build_image_def fake_run_tests_def
      fake_tag_image_def fake_push_image_def fake_verify_image_def fake_preflight_deploy_def
      fake_deploy_def fake_stop_def)

lemma call_keeps_reading [step_rules]: "call_keeps I (reading g)"
  by (auto simp: call_keeps_def reading_def)

end
