(* ===== verification/Pipeline.thy ===== *)
theory Pipeline
  imports Lifecycle Execution
begin

text \<open>
  \<open>worker/processing/pipeline.py\<close>: a claimed deployment runs through the stages clone,
  build, tests, push, verify and deploy. The body of \<open>process_deployment\<close> is cut at its
  executor calls into one definition per stage, run in order inside its exception
  handlers. Each stage persists that it begins, calls the executor, checks the claim
  before it looks at the result, and persists the result.
\<close>

section \<open>Stages\<close>

definition run_checked :: "cfg \<Rightarrow> 'a call \<Rightarrow> nat \<Rightarrow> 'a proc" where
  "run_checked c f did =
     bind (run_exec f did) (\<lambda>r. bind (ensure_claim_owned c did None) (\<lambda>_. ret r))"

definition status_text :: "nat \<Rightarrow> string proc" where
  "status_text did = bind (the_dep did) (\<lambda>d. ret (dep_status_name (d_status d)))"

definition summary_log :: "exec_result \<Rightarrow> dict" where
  "summary_log r = [(''log_path'', jopt (r_log_path r)), (''summary'', JStr (r_message r))]"

definition clone_stage :: "cfg \<Rightarrow> executor \<Rightarrow> nat \<Rightarrow> unit proc" where
  "clone_stage c ex did = seqs [
     begin_step c did Cloning ''repository.clone_started'' ''Worker started cloning repository'',
     bind (run_checked c (ex_clone_repo ex) did) (\<lambda>r. seqs [
       apply_execution_result c did r,
       bind (status_text did) (\<lambda>st.
         commit_step_result c did ''repository.clone_succeeded'' st (r_message r) ''repository.clone''
           (jmerge (r_metadata r) (summary_log r)) (r_events r))])]"

definition build_stage :: "cfg \<Rightarrow> executor \<Rightarrow> nat \<Rightarrow> unit proc" where
  "build_stage c ex did = seqs [
     begin_step c did Building ''image.build_started'' ''Worker started building image'',
     bind (run_checked c (ex_build_image ex) did) (\<lambda>r. seqs [
       set_build did (\<lambda>b. b\<lparr>b_build_log_path := r_log_path r\<rparr>),
       apply_execution_result c did r,
       bind (status_text did) (\<lambda>st.
         commit_step_result c did ''image.build_succeeded'' st (r_message r) ''image.build''
           (jmerge (r_metadata r)
              [(''log_path'', jopt (r_log_path r)),
               (''workspace_path'', jopt (r_workspace_path r)),
               (''image_tag'', jopt (r_image_tag r)),
               (''image_ref'', jopt (r_image_ref r)),
               (''summary'', JStr (r_message r))])
           (r_events r))])]"

text \<open>A deployment without a test command skips the tests.\<close>

definition test_stage :: "cfg \<Rightarrow> executor \<Rightarrow> nat \<Rightarrow> unit proc" where
  "test_stage c ex did = bind (the_build did) (\<lambda>b.
     if \<not> truthy (b_test_command b) then ret ()
     else seqs [
       begin_step c did Testing ''tests.started''
         (''Worker started tests with '' @ [CHR 0x27] @ or_str (b_test_command b) [] @ [CHR 0x27]),
       bind (run_checked c (ex_run_tests ex) did) (\<lambda>r. seqs [
         apply_execution_result c did r,
         commit_step_result c did ''tests.succeeded'' ''testing'' (r_message r) ''tests''
           (jmerge (r_metadata r) (summary_log r)) (r_events r)])])"

definition tag_stage :: "cfg \<Rightarrow> executor \<Rightarrow> nat \<Rightarrow> unit proc" where
  "tag_stage c ex did = seqs [
     begin_step c did Pushing_image ''image.push_started'' ''Worker started pushing image'',
     bind (status_text did) (\<lambda>st.
       record_event c did ''image.tag_started'' st (Some ''Worker started tagging image for registry push'')
         (Some ''image.tag'') ''info'' []),
     commit,
     bind (run_checked c (ex_tag_image ex) did) (\<lambda>r. seqs [
       apply_execution_result c did r,
       bind (status_text did) (\<lambda>st.
         commit_step_result c did ''image.tag_succeeded'' st (r_message r) ''image.tag''
           (jmerge (r_metadata r)
              [(''log_path'', jopt (r_log_path r)),
               (''image_tag'', jopt (r_image_tag r)),
               (''image_ref'', jopt (r_image_ref r)),
               (''summary'', JStr (r_message r))])
           (r_events r))])]"

definition push_stage :: "cfg \<Rightarrow> executor \<Rightarrow> nat \<Rightarrow> unit proc" where
  "push_stage c ex did =
     bind (run_checked c (ex_push_image ex) did) (\<lambda>r. bind now (\<lambda>t. seqs [
       apply_execution_result c did r,
       set_build did (\<lambda>b. b\<lparr>b_registry_push_status := Some
         (if jtrue (jget (r_metadata r) ''skipped'') then ''skipped'' else ''succeeded'')\<rparr>),
       build_transition_to did B_succeeded,
       set_build did (\<lambda>b. b\<lparr>b_finished_at := Some t\<rparr>),
       commit_step_result c did ''image.push_succeeded'' ''succeeded'' (r_message r) ''image.push''
         (jmerge (push_event_metadata c (r_metadata r) (r_log_path r) (r_message r) ''succeeded'')
            (summary_log r))
         (r_events r)]))"

definition verify_stage :: "cfg \<Rightarrow> executor \<Rightarrow> nat \<Rightarrow> unit proc" where
  "verify_stage c ex did = seqs [
     bind (the_build did) (\<lambda>b. bind (status_text did) (\<lambda>st.
       record_event c did ''image.verify_started'' st (Some ''Worker started verifying registry image'')
         (Some ''image.verify'') ''info'' [(''image_ref'', jopt (b_image_ref b))])),
     commit,
     bind (run_checked c (ex_verify_image ex) did) (\<lambda>r. seqs [
       apply_execution_result c did r,
       bind (status_text did) (\<lambda>st.
         commit_step_result c did ''image.verify_succeeded'' st (r_message r) ''image.verify''
           (jmerge (r_metadata r)
              [(''log_path'', jopt (r_log_path r)),
               (''step'', JStr ''image.verify''),
               (''image_tag'', jopt (r_image_tag r)),
               (''image_ref'', jopt (r_image_ref r)),
               (''summary'', JStr (r_message r)),
               (''skipped'', JBool (jtrue (jget (r_metadata r) ''skipped'')))])
           (r_events r))])]"

text \<open>Before the first side effect of a deployment its target and identity are persisted.\<close>

definition no_identity :: identity where
  "no_identity = \<lparr>i_deployment_name = None, i_service_name = None, i_ingress_name = None\<rparr>"

definition resource_identity :: "executor \<Rightarrow> string \<Rightarrow> world \<Rightarrow> deployment \<Rightarrow> exn + identity" where
  "resource_identity ex deployment_mode w d =
     (if deployment_mode = ''manifest''
      then (case ex_identity ex of None \<Rightarrow> Inr no_identity | Some f \<Rightarrow> f w d)
      else Inr no_identity)"

definition target_stage :: "cfg \<Rightarrow> executor \<Rightarrow> nat \<Rightarrow> unit proc" where
  "target_stage c ex did = (case ex_deploy_target ex of
     None \<Rightarrow> ret ()
   | Some deploy_target \<Rightarrow>
       if deploy_target = [] \<or> deploy_target = ''unknown'' then ret ()
       else bind (ensure_claim_owned c did None) (\<lambda>_. seqs [
         set_dep did (\<lambda>d. d\<lparr>d_deploy_target := Some deploy_target\<rparr>),
         whenp (deploy_target = ''kubernetes'')
           (let mode = (case ex_deployment_mode ex of None \<Rightarrow> k8s_deployment_mode c | Some m \<Rightarrow> m);
                ns = (case ex_namespace ex of None \<Rightarrow> k8s_namespace c | Some n \<Rightarrow> n)
            in bind (the_dep did) (\<lambda>d. bind (query (\<lambda>w. resource_identity ex mode w d)) (\<lambda>found.
                 bind (lift found) (\<lambda>ident.
                 persist_kubernetes_runtime_identity did (Some mode) (Some ns) ident)))),
         commit]))"

definition preflight_stage :: "cfg \<Rightarrow> executor \<Rightarrow> nat \<Rightarrow> unit proc" where
  "preflight_stage c ex did =
     bind (run_checked c (ex_preflight_deploy ex) did) (\<lambda>result. seqs [
       persist_preflight_result c did result,
       (case result of
          None \<Rightarrow> ret ()
        | Some r \<Rightarrow> commit_step_result c did ''deployment.preflight_succeeded'' ''deploying'' (f_summary r)
            ''deploy.preflight''
            (jmerge (f_metadata r)
               [(''log_path'', jopt (f_log_path r)),
                (''deploy_target'', jopt (f_deploy_target r)),
                (''summary'', JStr (f_summary r)),
                (''status'', JStr (f_status r))])
            (f_events r))])"

definition deploy_stage :: "cfg \<Rightarrow> executor \<Rightarrow> nat \<Rightarrow> unit proc" where
  "deploy_stage c ex did = seqs [
     begin_step c did Deploying ''deployment.apply_started'' ''Worker started deployment apply step'',
     target_stage c ex did,
     preflight_stage c ex did,
     bind (run_checked c (ex_deploy ex) did) (\<lambda>r. seqs [
       apply_execution_result c did r,
       commit_step_result c did ''deployment.apply_succeeded'' ''deploying'' (r_message r) ''deploy''
         (jmerge (r_metadata r)
            [(''log_path'', jopt (r_log_path r)),
             (''service_url'', jopt (r_service_url r)),
             (''deploy_target'', jopt (r_deploy_target r)),
             (''summary'', JStr (r_message r))])
         (r_events r)])]"

definition finish_stage :: "cfg \<Rightarrow> nat \<Rightarrow> unit proc" where
  "finish_stage c did =
     bind (ensure_claim_owned c did None) (\<lambda>_. bind now (\<lambda>t. seqs [
       refresh_claim c did None,
       transition_to did Running,
       set_dep did (\<lambda>d. d\<lparr>d_finished_at := Some t\<rparr>),
       bind (the_dep did) (\<lambda>d.
         record_event c did ''deployment.running'' ''running'' (Some ''Deployment is now running'')
           (Some ''deployment'') ''info''
           [(''service_url'', jopt (d_service_url d)),
            (''deploy_target'', jopt (d_deploy_target d)),
            (''summary'', JStr ''Deployment is now running'')]),
       write_claim_event c did ''claim_cleared'' ''Worker cleared deployment claim after success''
         ''info'' [(''worker_id'', JStr (worker_id c))],
       release_deployment_claim did,
       commit]))"

section \<open>The whole pipeline\<close>

definition stages :: "cfg \<Rightarrow> executor \<Rightarrow> nat \<Rightarrow> unit proc list" where
  "stages c ex did =
     [clone_stage c ex did, build_stage c ex did, test_stage c ex did, tag_stage c ex did,
      push_stage c ex did, verify_stage c ex did, deploy_stage c ex did, finish_stage c did]"

definition reset_attempt :: "nat \<Rightarrow> unit proc" where
  "reset_attempt did = seqs [
     set_dep did (\<lambda>d. d\<lparr>d_last_error := None\<rparr>),
     set_build did (\<lambda>b. b\<lparr>b_last_error := None\<rparr>),
     set_build did (\<lambda>b. b\<lparr>b_registry_push_status := None\<rparr>),
     clear_preflight_state did]"

text \<open>The claim can be lost, or a stop requested, while a failure is being persisted.\<close>

definition claim_handlers :: "cfg \<Rightarrow> nat \<Rightarrow> nat option proc \<Rightarrow> nat option proc" where
  "claim_handlers c did m = catch m (\<lambda>e. case e of
     ClaimLost _ _ _ _ _ \<Rightarrow> persist_claim_loss c did e
   | CancelRequested _ _ _ \<Rightarrow> persist_cancellation_acknowledgement c did e
   | _ \<Rightarrow> throw e)"

definition execution_error :: "cfg \<Rightarrow> nat \<Rightarrow> string \<Rightarrow> string \<Rightarrow> dict \<Rightarrow> string option \<Rightarrow> aux_event list
    \<Rightarrow> nat option proc" where
  "execution_error c did step message metadata log_path evs =
     bind (seqs [
       whenp (truthy log_path)
         (seqs [set_build did (\<lambda>b. b\<lparr>b_log_path := log_path\<rparr>),
                whenp (step = ''image.build'') (set_build did (\<lambda>b. b\<lparr>b_build_log_path := log_path\<rparr>))]),
       whenp (step = ''image.push'') (set_build did (\<lambda>b. b\<lparr>b_registry_push_status := Some ''failed''\<rparr>)),
       persist_preflight_failure c did step message metadata log_path])
     (\<lambda>_. claim_handlers c did
        (bind (record_auxiliary_events c did evs) (\<lambda>_. mark_failed c did step message metadata)))"

fun exn_type :: "exn \<Rightarrow> string" where
  "exn_type (ClaimLost _ _ _ _ _) = ''ClaimLostError''"
| "exn_type (CancelRequested _ _ _) = ''DeploymentCancellationRequested''"
| "exn_type (CommandClaimLost _) = ''CommandClaimLostError''"
| "exn_type (ExecError _ _ _ _ _) = ''WorkerExecutionError''"
| "exn_type (OtherExn name _) = name"

definition unexpected_error :: "cfg \<Rightarrow> nat \<Rightarrow> exn \<Rightarrow> nat option proc" where
  "unexpected_error c did e =
     bind rollback (\<lambda>_.
     bind (query (\<lambda>w. get_dep w did)) (\<lambda>row. case row of
       None \<Rightarrow> ret None
     | Some _ \<Rightarrow> claim_handlers c did
         (mark_failed c did ''worker.internal'' ''Worker encountered an unexpected internal error''
            [(''error_type'', JStr (exn_type e))])))"

definition pipeline_error :: "cfg \<Rightarrow> nat \<Rightarrow> exn \<Rightarrow> nat option proc" where
  "pipeline_error c did e = (case e of
     ClaimLost _ _ _ _ _ \<Rightarrow> persist_claim_loss c did e
   | CancelRequested _ _ _ \<Rightarrow> persist_cancellation_acknowledgement c did e
   | ExecError step message metadata log_path evs \<Rightarrow>
       execution_error c did step message metadata log_path evs
   | _ \<Rightarrow> unexpected_error c did e)"

definition process_deployment :: "cfg \<Rightarrow> nat \<Rightarrow> executor option \<Rightarrow> nat option proc" where
  "process_deployment c did executor =
     bind (lift (case executor of None \<Rightarrow> create_executor c | Some ex \<Rightarrow> Inr ex)) (\<lambda>ex.
     bind (reset_attempt did) (\<lambda>_.
       catch (bind (seqs (stages c ex did)) (\<lambda>_. ret (Some did))) (pipeline_error c did)))"

definition process_next_pending_deployment :: "cfg \<Rightarrow> executor option \<Rightarrow> nat option proc" where
  "process_next_pending_deployment c executor =
     bind (claim_next_pending_deployment c None None) (\<lambda>claimed. case claimed of
       None \<Rightarrow> ret None | Some did \<Rightarrow> process_deployment c did executor)"

section \<open>The pipeline keeps the invariants of the database\<close>

text \<open>Every call of the executor, with what happens while it runs, keeps a property.\<close>

definition executor_keeps :: "(world \<Rightarrow> bool) \<Rightarrow> executor \<Rightarrow> bool" where
  "executor_keeps I ex \<longleftrightarrow>
     call_keeps I (ex_clone_repo ex) \<and> call_keeps I (ex_build_image ex)
     \<and> call_keeps I (ex_run_tests ex) \<and> call_keeps I (ex_tag_image ex)
     \<and> call_keeps I (ex_push_image ex) \<and> call_keeps I (ex_verify_image ex)
     \<and> call_keeps I (ex_preflight_deploy ex) \<and> call_keeps I (ex_deploy ex)
     \<and> call_keeps I (ex_stop ex) \<and> call_keeps I (ex_container_exists ex)
     \<and> call_keeps I (ex_runtime_resource_status ex) \<and> call_keeps I (ex_runtime_helm_status ex)
     \<and> (\<forall>p. call_keeps I (ex_runtime_pod_diagnostics ex p))"

lemma executor_keepsD [step_rules]:
  "executor_keeps I ex \<Longrightarrow> call_keeps I (ex_clone_repo ex)"
  "executor_keeps I ex \<Longrightarrow> call_keeps I (ex_build_image ex)"
  "executor_keeps I ex \<Longrightarrow> call_keeps I (ex_run_tests ex)"
  "executor_keeps I ex \<Longrightarrow> call_keeps I (ex_tag_image ex)"
  "executor_keeps I ex \<Longrightarrow> call_keeps I (ex_push_image ex)"
  "executor_keeps I ex \<Longrightarrow> call_keeps I (ex_verify_image ex)"
  "executor_keeps I ex \<Longrightarrow> call_keeps I (ex_preflight_deploy ex)"
  "executor_keeps I ex \<Longrightarrow> call_keeps I (ex_deploy ex)"
  "executor_keeps I ex \<Longrightarrow> call_keeps I (ex_stop ex)"
  "executor_keeps I ex \<Longrightarrow> call_keeps I (ex_container_exists ex)"
  "executor_keeps I ex \<Longrightarrow> call_keeps I (ex_runtime_resource_status ex)"
  "executor_keeps I ex \<Longrightarrow> call_keeps I (ex_runtime_helm_status ex)"
  "executor_keeps I ex \<Longrightarrow> call_keeps I (ex_runtime_pod_diagnostics ex p)"
  by (simp_all add: executor_keeps_def)

context world_invariant
begin

lemma keeps_run_checked: "call_keeps I f \<Longrightarrow> keeps I (run_checked c f did)"
  unfolding run_checked_def by (intro step_rules keeps_claims)

lemma keeps_status_text: "keeps I (status_text did)"
  unfolding status_text_def by (intro step_rules)

lemmas keeps_stage_rules = step_rules keeps_lifecycle keeps_run_checked keeps_status_text

lemma keeps_clone_stage: "executor_keeps I ex \<Longrightarrow> keeps I (clone_stage c ex did)"
  unfolding clone_stage_def by (intro keeps_stage_rules)

lemma keeps_build_stage: "executor_keeps I ex \<Longrightarrow> keeps I (build_stage c ex did)"
  unfolding build_stage_def by (intro keeps_stage_rules)

lemma keeps_test_stage: "executor_keeps I ex \<Longrightarrow> keeps I (test_stage c ex did)"
  unfolding test_stage_def by (intro keeps_stage_rules)

lemma keeps_tag_stage: "executor_keeps I ex \<Longrightarrow> keeps I (tag_stage c ex did)"
  unfolding tag_stage_def by (intro keeps_stage_rules)

lemma keeps_push_stage: "executor_keeps I ex \<Longrightarrow> keeps I (push_stage c ex did)"
  unfolding push_stage_def by (intro keeps_stage_rules)

lemma keeps_verify_stage: "executor_keeps I ex \<Longrightarrow> keeps I (verify_stage c ex did)"
  unfolding verify_stage_def by (intro keeps_stage_rules)

lemma keeps_persist_identity: "keeps I (persist_kubernetes_runtime_identity did m n ident)"
  unfolding persist_kubernetes_runtime_identity_def by (intro keeps_stage_rules)

lemma keeps_target_stage: "keeps I (target_stage c ex did)"
  unfolding target_stage_def Let_def by (intro keeps_stage_rules keeps_persist_identity)

lemma keeps_preflight_stage: "executor_keeps I ex \<Longrightarrow> keeps I (preflight_stage c ex did)"
  unfolding preflight_stage_def by (intro keeps_stage_rules)

lemma keeps_deploy_stage: "executor_keeps I ex \<Longrightarrow> keeps I (deploy_stage c ex did)"
  unfolding deploy_stage_def by (intro keeps_stage_rules keeps_target_stage keeps_preflight_stage)

lemma keeps_finish_stage: "keeps I (finish_stage c did)"
  unfolding finish_stage_def by (intro keeps_stage_rules)

lemma keeps_stages: "executor_keeps I ex \<Longrightarrow> keeps I (seqs (stages c ex did))"
  unfolding stages_def
  by (intro step_rules keeps_clone_stage keeps_build_stage keeps_test_stage keeps_tag_stage
      keeps_push_stage keeps_verify_stage keeps_deploy_stage keeps_finish_stage)

lemma keeps_claim_handlers: "keeps I m \<Longrightarrow> keeps I (claim_handlers c did m)"
  unfolding claim_handlers_def
  by (rule keeps_catch) (auto split: exn.split intro: step_rules keeps_claims)

lemma keeps_execution_error: "keeps I (execution_error c did st msg md lp es)"
  unfolding execution_error_def by (intro keeps_stage_rules keeps_claim_handlers)

lemma keeps_unexpected_error: "keeps I (unexpected_error c did e)"
  unfolding unexpected_error_def by (intro keeps_stage_rules keeps_claim_handlers)

lemma keeps_pipeline_error: "keeps I (pipeline_error c did e)"
  unfolding pipeline_error_def
  by (auto split: exn.split intro: keeps_claims keeps_execution_error keeps_unexpected_error)

lemma keeps_reset_attempt: "keeps I (reset_attempt did)"
  unfolding reset_attempt_def by (intro keeps_stage_rules)

lemma keeps_process_deployment:
  assumes "\<And>ex. create_executor c = Inr ex \<Longrightarrow> executor_keeps I ex"
    and "\<And>ex. executor = Some ex \<Longrightarrow> executor_keeps I ex"
  shows "keeps I (process_deployment c did executor)"
proof -
  have "keeps I (lift r)" for r :: "exn + executor" by (rule keeps_lift)
  moreover have "keeps I (bind (reset_attempt did) (\<lambda>_.
      catch (bind (seqs (stages c ex did)) (\<lambda>_. ret (Some did))) (pipeline_error c did)))"
    if "executor_keeps I ex" for ex
    using that by (intro step_rules keeps_reset_attempt keeps_stages keeps_pipeline_error)
  ultimately show ?thesis
    unfolding process_deployment_def using assms
    by (cases executor; cases "create_executor c")
      (auto simp: keeps_def lift_def bind_def)
qed

end

end
