(* ===== verification/Commands.thy ===== *)
theory Commands
  imports Pipeline
begin

text \<open>
  \<open>worker/helm/ownership.py\<close> and \<open>worker/processing/command_processor.py\<close>: stop and cleanup
  commands. A command is claimed by a guarded UPDATE that also requires its deployment to
  be free, refreshed like a deployment's claim, skipped when a newer deployment owns the
  shared Helm release, and ends in a terminal status with its active key cleared.
\<close>

section \<open>Helm ownership\<close>

definition deployment_has_helm_release_metadata :: "world \<Rightarrow> deployment \<Rightarrow> bool" where
  "deployment_has_helm_release_metadata w d =
     (kubernetes_deployment_mode w d = Some ''helm''
      \<or> truthy (d_helm_release_name d)
      \<or> list_ex (\<lambda>e. case e_metadata_json e of
             JDict metadata \<Rightarrow> jtrue (jget metadata ''helm_release_name'') | _ \<Rightarrow> False)
          (events_of w (d_id d)))"

text \<open>The smallest id above the deployment's in its project and environment.\<close>

definition newer_owners :: "world \<Rightarrow> deployment \<Rightarrow> nat list" where
  "newer_owners w d = sort (map d_id (filter (\<lambda>d'. d_id d < d_id d' \<and> d_project_id d' = d_project_id d
     \<and> d_environment d' = d_environment d) (deployments w)))"

definition newer_helm_workload_owner_id :: "nat \<Rightarrow> nat option proc" where
  "newer_helm_workload_owner_id did =
     bind (the_dep did) (\<lambda>d.
     bind commit (\<lambda>_.
     query (\<lambda>w. case newer_owners w d of [] \<Rightarrow> None | i # _ \<Rightarrow> Some i)))"

section \<open>Claims of commands\<close>

definition cmd_claimable :: "int \<Rightarrow> command \<Rightarrow> bool" where
  "cmd_claimable stale_before k =
     (cmd_active (c_status k) \<and> unclaimed_or_stale stale_before (c_claimed_at k))"

definition deployment_free :: "int \<Rightarrow> world \<Rightarrow> nat \<Rightarrow> bool" where
  "deployment_free stale_before w did = (case get_dep w did of
     None \<Rightarrow> False | Some d \<Rightarrow> unclaimed_or_stale stale_before (d_claimed_at d))"

definition cmd_claim_update :: "string \<Rightarrow> int \<Rightarrow> int \<Rightarrow> command \<Rightarrow> command option" where
  "cmd_claim_update worker stale_before t k =
     (if cmd_claimable stale_before k
      then Some (k\<lparr>c_status := C_claimed, c_claimed_by := Some worker, c_claimed_at := Some t\<rparr>)
      else None)"

definition claim_command :: "string \<Rightarrow> int \<Rightarrow> nat \<Rightarrow> bool proc" where
  "claim_command worker stale_before cid s = (case get_cmd (cur s) cid of
     None \<Rightarrow> (Inr False, s)
   | Some k \<Rightarrow>
       if cmd_claimable stale_before k \<and> deployment_free stale_before (cur s) (c_deployment_id k)
       then (Inr True, s\<lparr>cur := upd_cmd cid (\<lambda>k. k\<lparr>c_status := C_claimed, c_claimed_by := Some worker,
              c_claimed_at := Some (clock s)\<rparr>) (cur s)\<rparr>)
       else (Inr False, s))"

fun claim_first_command :: "string \<Rightarrow> int \<Rightarrow> nat list \<Rightarrow> nat option proc" where
  "claim_first_command worker stale_before [] = bind rollback (\<lambda>_. ret None)"
| "claim_first_command worker stale_before (cid # cids) =
     bind (claim_command worker stale_before cid) (\<lambda>claimed.
       if claimed then bind commit (\<lambda>_. ret (Some cid))
       else claim_first_command worker stale_before cids)"

definition active_command_ids :: "world \<Rightarrow> nat list" where
  "active_command_ids w =
     map c_id (sort_key c_requested_at (filter (\<lambda>k. cmd_active (c_status k)) (commands w)))"

definition claim_next_pending_command :: "cfg \<Rightarrow> string option \<Rightarrow> int option \<Rightarrow> nat option proc" where
  "claim_next_pending_command c worker ttl =
     bind now (\<lambda>t.
     bind (query active_command_ids) (\<lambda>command_ids.
       claim_first_command (or_str worker (worker_id c))
         (t - (case ttl of None \<Rightarrow> claim_ttl c | Some n \<Rightarrow> n)) command_ids))"

definition cmd_owned :: "world \<Rightarrow> nat \<Rightarrow> string \<Rightarrow> bool" where
  "cmd_owned w cid worker = (case get_cmd w cid of None \<Rightarrow> False
     | Some k \<Rightarrow> c_claimed_by k = Some worker \<and> c_claimed_at k \<noteq> None \<and> c_status k = C_claimed)"

definition ensure_command_claim_owned :: "nat \<Rightarrow> string \<Rightarrow> unit proc" where
  "ensure_command_claim_owned cid expected =
     bind (query (\<lambda>w. (get_cmd w cid, cmd_owned w cid expected))) (\<lambda>(claim_state, ok).
       if claim_state = None then throw (CommandClaimLost ''Deployment command no longer exists'')
       else if \<not> ok
       then throw (CommandClaimLost ''Deployment command claim was lost before processing completed'')
       else ret ())"

definition cmd_refresh_update :: "string \<Rightarrow> int \<Rightarrow> command \<Rightarrow> command option" where
  "cmd_refresh_update worker t k =
     (if c_status k = C_claimed \<and> c_claimed_by k = Some worker \<and> c_claimed_at k \<noteq> None
      then Some (k\<lparr>c_claimed_at := Some t\<rparr>) else None)"

definition refresh_command_claim :: "nat \<Rightarrow> string \<Rightarrow> unit proc" where
  "refresh_command_claim cid expected =
     bind (ensure_command_claim_owned cid expected) (\<lambda>_.
     bind now (\<lambda>t.
     bind (the_cmd cid) (\<lambda>k.
       if cmd_refresh_update expected t k = None
       then throw (CommandClaimLost ''Deployment command claim was lost before it could be refreshed'')
       else set_cmd cid (guarded (cmd_refresh_update expected t)))))"

text \<open>The heartbeat that \<open>attach_command_heartbeat\<close> gives to the executor.\<close>

definition command_heartbeat :: "nat \<Rightarrow> string \<Rightarrow> unit proc" where
  "command_heartbeat cid expected = seqs [refresh_command_claim cid expected, commit]"

section \<open>Processing a command\<close>

definition cmd_record_event ::
    "nat \<Rightarrow> string \<Rightarrow> string \<Rightarrow> string option \<Rightarrow> string \<Rightarrow> string \<Rightarrow> dict \<Rightarrow> unit proc" where
  "cmd_record_event did event_type status message step level metadata =
     bind (the_dep did) (\<lambda>d.
       add_event (new_event did event_type (Some step) level status message
         (JDict (if truthy (d_origin_request_id d)
                 then jsetdefault ''origin_request_id'' (jopt (d_origin_request_id d)) metadata
                 else metadata))))"

definition finish_command :: "cmd_status \<Rightarrow> string option \<Rightarrow> int \<Rightarrow> command \<Rightarrow> command" where
  "finish_command status error t k = k\<lparr>c_status := status, c_active_key := None, c_claimed_by := None,
     c_claimed_at := None, c_completed_at := Some t, c_last_error := error\<rparr>"

definition dep_step :: "string \<Rightarrow> string" where
  "dep_step command_type = ''deploy.'' @ command_type"

definition skip_historical_helm_command :: "nat \<Rightarrow> nat \<Rightarrow> string \<Rightarrow> nat option proc" where
  "skip_historical_helm_command cid did expected =
     bind (the_cmd cid) (\<lambda>k. bind (the_dep did) (\<lambda>d.
     bind (query (\<lambda>w. deployment_has_helm_release_metadata w d)) (\<lambda>has_release.
       if c_command_type k \<notin> {''stop'', ''cleanup''} then ret None
       else if d_deploy_target d \<noteq> Some ''kubernetes'' \<or> \<not> has_release then ret None
       else bind (newer_helm_workload_owner_id did) (\<lambda>owner. case owner of
           None \<Rightarrow> ret None
         | Some owner_id \<Rightarrow>
             bind (refresh_command_claim cid expected) (\<lambda>_.
             bind (the_dep did) (\<lambda>d. bind now (\<lambda>t.
             bind (seqs [
               cmd_record_event did (''deployment.'' @ c_command_type k @ ''_skipped'')
                 (dep_status_name (d_status d))
                 (Some (''Skipped '' @ c_command_type k @ '' because deployment #'' @ str_of_nat owner_id
                        @ '' owns the shared Helm release''))
                 (dep_step (c_command_type k)) ''warning''
                 [(''command_id'', JInt (int cid)),
                  (''newer_deployment_id'', JInt (int owner_id)),
                  (''reason'', JStr ''newer_deployment_owns_shared_helm_release'')],
               set_cmd cid (finish_command C_skipped None t),
               commit])
             (\<lambda>_. ret (Some did)))))))))"

definition clear_runtime :: "exec_result \<Rightarrow> int \<Rightarrow> deployment \<Rightarrow> deployment" where
  "clear_runtime r t d = d\<lparr>
     d_service_url := None,
     d_healthcheck_url := None,
     d_container_name := None,
     d_container_id := None,
     d_host_port := None,
     d_finished_at := Some t,
     d_deploy_target := or_else (r_deploy_target r) (d_deploy_target d)\<rparr>"

primrec cmd_result_events :: "nat \<Rightarrow> string \<Rightarrow> json \<Rightarrow> aux_event list \<Rightarrow> unit proc" where
  "cmd_result_events did step origin [] = ret ()"
| "cmd_result_events did step origin (e # es) =
     bind (cmd_record_event did (x_event_type e) (x_status e) (x_message e) (or_str (x_step e) step)
             (case x_level e of None \<Rightarrow> ''info'' | Some l \<Rightarrow> l)
             (jmerge (x_metadata_json e) [(''origin_request_id'', origin)]))
       (\<lambda>_. cmd_result_events did step origin es)"

definition cancel_build :: "string \<Rightarrow> nat \<Rightarrow> int \<Rightarrow> unit proc" where
  "cancel_build command_type did t =
     bind (the_build did) (\<lambda>b.
       whenp (command_type = ''stop'' \<and> b_status b \<notin> {B_succeeded, B_failed, B_cancelled})
         (seqs [build_transition_to did B_cancelled,
                set_build did (\<lambda>b. b\<lparr>b_finished_at := Some t\<rparr>)]))"

definition run_command :: "cfg \<Rightarrow> nat \<Rightarrow> command \<Rightarrow> string \<Rightarrow> executor option \<Rightarrow> nat option proc" where
  "run_command c cid k expected executor =
     (let did = c_deployment_id k; command_type = c_command_type k; step = dep_step command_type;
          origin = jopt (c_origin_request_id k)
      in bind (the_dep did) (\<lambda>d0. bind (seqs [
           refresh_command_claim cid expected,
           cmd_record_event did (''deployment.'' @ command_type @ ''_started'')
             (dep_status_name (d_status d0))
             (Some (or_str (c_message k) (''Processing deployment '' @ command_type)))
             step ''info'' [(''command_id'', JInt (int cid)), (''origin_request_id'', origin)],
           commit]) (\<lambda>_.
         bind (skip_historical_helm_command cid did expected) (\<lambda>skipped. case skipped of
           Some i \<Rightarrow> ret (Some i)
         | None \<Rightarrow>
             bind (the_dep did) (\<lambda>d.
             bind (query (\<lambda>w. case executor of None \<Rightarrow> create_executor_for_deployment c w d
                              | Some ex \<Rightarrow> Inr ex)) (\<lambda>made.
             bind (lift made) (\<lambda>ex.
             bind (run_exec (ex_stop ex) did) (\<lambda>r.
             bind now (\<lambda>t.
             bind (seqs [
               refresh_command_claim cid expected,
               transition_to did Stopped,
               cancel_build command_type did t,
               set_dep did (clear_runtime r t),
               persist_helm_runtime_metadata c did (r_metadata r),
               cmd_result_events did step origin (r_events r),
               cmd_record_event did
                 (if command_type = ''stop'' then ''deployment.stopped'' else ''deployment.cleanup_succeeded'')
                 ''stopped'' (Some (r_message r)) step ''info''
                 (jmerge (r_metadata r)
                    [(''command_id'', JInt (int cid)),
                     (''log_path'', jopt (r_log_path r)),
                     (''origin_request_id'', origin)]),
               set_cmd cid (finish_command C_succeeded None t),
               commit])
             (\<lambda>_. ret (Some did)))))))))))"

text \<open>The deployment that the worker reports, when it still exists.\<close>

definition reload :: "nat \<Rightarrow> nat option proc" where
  "reload did = query (\<lambda>w. map_option d_id (get_dep w did))"

definition if_claim_lost :: "nat option proc \<Rightarrow> nat \<Rightarrow> nat option proc" where
  "if_claim_lost m did = catch m (\<lambda>e. case e of
     CommandClaimLost _ \<Rightarrow> bind rollback (\<lambda>_. reload did) | _ \<Rightarrow> throw e)"

text \<open>The failure is persisted only by the owner of the command.\<close>

definition fail_command ::
    "cfg \<Rightarrow> nat \<Rightarrow> command \<Rightarrow> string \<Rightarrow> (string list \<Rightarrow> string) \<Rightarrow> string \<Rightarrow> dict \<Rightarrow> nat option proc" where
  "fail_command c cid k expected error step metadata =
     (let did = c_deployment_id k in
      bind (catch (bind (refresh_command_claim cid expected) (\<lambda>_. ret True))
              (\<lambda>e. case e of CommandClaimLost _ \<Rightarrow> bind rollback (\<lambda>_. ret False) | _ \<Rightarrow> throw e))
        (\<lambda>owner. if \<not> owner then reload did
         else bind (secrets_of c did) (\<lambda>secret_values. bind now (\<lambda>t. bind (the_dep did) (\<lambda>d.
           bind (seqs [
             set_cmd cid (finish_command C_failed (Some (error secret_values)) t),
             cmd_record_event did (''deployment.'' @ c_command_type k @ ''_failed'')
               (dep_status_name (d_status d)) (Some (error secret_values)) step ''error''
               (dict_of (redact_sensitive_data secret_values (JDict metadata))),
             commit])
           (\<lambda>_. ret (Some did)))))))"

definition INTERNAL_ERROR_MESSAGE :: string where
  "INTERNAL_ERROR_MESSAGE = ''Worker encountered an unexpected internal error''"

definition command_error :: "cfg \<Rightarrow> nat \<Rightarrow> command \<Rightarrow> string \<Rightarrow> exn \<Rightarrow> nat option proc" where
  "command_error c cid k expected e =
     (let did = c_deployment_id k; step = dep_step (c_command_type k);
          origin = jopt (c_origin_request_id k)
      in case e of
        ExecError estep message metadata _ _ \<Rightarrow>
          fail_command c cid k expected (\<lambda>secret_values. redact_text secret_values message)
            (if estep = [] then step else estep)
            (jmerge metadata [(''origin_request_id'', origin)])
      | CommandClaimLost _ \<Rightarrow> bind rollback (\<lambda>_. reload did)
      | _ \<Rightarrow>
          bind rollback (\<lambda>_. bind (query (\<lambda>w. (get_cmd w cid, get_dep w did))) (\<lambda>(command, deployment).
            if command = None \<or> deployment = None then ret None
            else fail_command c cid k expected (\<lambda>_. INTERNAL_ERROR_MESSAGE) step
                   [(''command_id'', JInt (int cid)),
                    (''error_type'', JStr (exn_type e)),
                    (''origin_request_id'', origin)])))"

definition process_deployment_command :: "cfg \<Rightarrow> nat \<Rightarrow> executor option \<Rightarrow> nat option proc" where
  "process_deployment_command c cid executor =
     bind (the_cmd cid) (\<lambda>k.
       let expected = or_str (c_claimed_by k) (worker_id c)
       in catch (run_command c cid k expected executor) (command_error c cid k expected))"

definition process_next_pending_command :: "cfg \<Rightarrow> executor option \<Rightarrow> nat option proc" where
  "process_next_pending_command c executor =
     bind (claim_next_pending_command c None None) (\<lambda>claimed. case claimed of
       None \<Rightarrow> ret None | Some cid \<Rightarrow> process_deployment_command c cid executor)"

text \<open>\<open>worker/work_items.py\<close>: operator commands come before new deployments.\<close>

definition process_next_work_item :: "cfg \<Rightarrow> nat option proc" where
  "process_next_work_item c =
     bind (process_next_pending_command c None) (\<lambda>command_result. case command_result of
       Some i \<Rightarrow> ret (Some i) | None \<Rightarrow> process_next_pending_deployment c None)"

end
