(* ===== verification/Reconcile.thy ===== *)
theory Reconcile
  imports Commands
begin

text \<open>
  \<open>worker/reconciliation\<close>: the reconciler compares the persisted deployments with their
  runtime and repairs what is safe to repair. Each rule is one definition; a rule gets the
  cached executor of the \<open>ReconciliationContext\<close> (made by the factory at the first use) and
  returns whether it changed something. An exception of a rule rolls the session back and
  the pass goes on with the next deployment.
\<close>

section \<open>Events and exceptions\<close>

definition record_reconcile_event ::
    "cfg \<Rightarrow> nat \<Rightarrow> string \<Rightarrow> string \<Rightarrow> string \<Rightarrow> dict \<Rightarrow> string \<Rightarrow> unit proc" where
  "record_reconcile_event c did event_type message level metadata step =
     bind (the_dep did) (\<lambda>d.
       record_event c did event_type (dep_status_name (d_status d)) (Some message) (Some step) level metadata)"

text \<open>\<open>str(exc)\<close>.\<close>

fun exn_text :: "exn \<Rightarrow> string" where
  "exn_text (ClaimLost _ _ _ _ _) = ''Deployment claim was lost before worker completed processing''"
| "exn_text (CancelRequested _ _ ct) =
     ''Deployment '' @ ct @ '' command requested while deployment was processing''"
| "exn_text (CommandClaimLost msg) = msg"
| "exn_text (ExecError _ msg _ _ _) = msg"
| "exn_text (OtherExn _ msg) = msg"

text \<open>\<open>try: m except\<close>, with the exception as a value.\<close>

definition attempt :: "'a proc \<Rightarrow> (exn + 'a) proc" where
  "attempt m s = (case m s of (r, s') \<Rightarrow> (Inr r, s'))"

text \<open>The two except clauses of a rule: a worker error with its step, another one with the action.\<close>

definition record_failure ::
    "cfg \<Rightarrow> nat \<Rightarrow> string \<Rightarrow> string \<Rightarrow> string \<Rightarrow> dict \<Rightarrow> exn \<Rightarrow> unit proc" where
  "record_failure c did event_type text action extra e =
     record_reconcile_event c did event_type (text @ exn_text e) ''error''
       (case e of
          ExecError step _ metadata _ _ \<Rightarrow> jmerge metadata ((''step'', JStr step) # extra)
        | _ \<Rightarrow> (''action'', JStr action) # extra)
       ''reconcile''"

section \<open>Claims\<close>

definition IN_PROGRESS_STATUSES :: "dep_status list" where
  "IN_PROGRESS_STATUSES = [Cloning, Building, Testing, Pushing_image, Deploying]"

definition STALE_CLAIM_ERROR :: string where
  "STALE_CLAIM_ERROR = ''Reconciler marked deployment failed after stale claim''"

text \<open>What happens to the row \<open>d\<close> whose claim of time \<open>claimed_at\<close> expired, at time \<open>t\<close>.\<close>

definition recover_stale_claim :: "cfg \<Rightarrow> nat \<Rightarrow> deployment \<Rightarrow> int \<Rightarrow> int \<Rightarrow> unit proc" where
  "recover_stale_claim c did d claimed_at t =
     (let metadata = [(''previous_claimed_at'', JTime claimed_at),
                      (''previous_claimed_by'', jopt (d_claimed_by d))]
      in if d_status d = Pending then seqs [
           release_deployment_claim did,
           record_reconcile_event c did ''reconcile.claim_cleared'' ''Cleared stale deployment claim''
             ''info'' metadata ''reconcile'']
         else if d_status d \<in> set IN_PROGRESS_STATUSES then seqs [
           release_deployment_claim did,
           transition_to did Failed,
           set_dep did (\<lambda>d. d\<lparr>d_finished_at := Some t, d_last_error := Some STALE_CLAIM_ERROR\<rparr>),
           build_transition_to did B_failed,
           set_build did (\<lambda>b. b\<lparr>b_finished_at := Some t, b_last_error := Some STALE_CLAIM_ERROR\<rparr>),
           record_reconcile_event c did ''reconcile.claim_recovered''
             ''Marked deployment failed after stale in-progress claim'' ''warning''
             (jmerge metadata [(''new_status'', JStr ''failed'')]) ''reconcile'']
         else seqs [
           release_deployment_claim did,
           record_reconcile_event c did ''reconcile.claim_cleared''
             ''Cleared stale non-active deployment claim'' ''info'' metadata ''reconcile''])"

definition reconcile_stale_claim :: "cfg \<Rightarrow> nat \<Rightarrow> bool proc" where
  "reconcile_stale_claim c did =
     bind (the_dep did) (\<lambda>d. bind now (\<lambda>t.
       case d_claimed_at d of
         None \<Rightarrow> ret False
       | Some claimed_at \<Rightarrow>
           if t - claim_ttl c \<le> claimed_at then ret False
           else bind (recover_stale_claim c did d claimed_at t) (\<lambda>_. bind commit (\<lambda>_. ret True))))"

section \<open>Deployment targets\<close>

definition reconcile_missing_deploy_target :: "cfg \<Rightarrow> nat \<Rightarrow> bool proc" where
  "reconcile_missing_deploy_target c did =
     bind (the_dep did) (\<lambda>d.
       if truthy (d_deploy_target d) then ret False
       else case jget (dict_of (d_preflight_metadata_json d)) ''deploy_target'' of
         JStr recovered_target \<Rightarrow>
           if recovered_target \<notin> {''fake'', ''local-docker'', ''kubernetes''} then ret False
           else bind (seqs [
             set_dep did (\<lambda>d. d\<lparr>d_deploy_target := Some recovered_target\<rparr>),
             record_reconcile_event c did ''reconcile.deploy_target_recovered''
               (''Recovered missing deployment target '' @ [CHR 0x27] @ recovered_target @ [CHR 0x27]
                @ '' from persisted preflight metadata'') ''info''
               [(''deploy_target'', JStr recovered_target), (''source'', JStr ''preflight_metadata'')]
               ''reconcile'',
             commit])
             (\<lambda>_. ret True)
       | _ \<Rightarrow> ret False)"

section \<open>Rules that look at the runtime\<close>

type_synonym rule = "executor option \<Rightarrow> (bool \<times> executor option) proc"

definition executor_for :: "cfg \<Rightarrow> nat \<Rightarrow> executor option \<Rightarrow> executor proc" where
  "executor_for c did cache = (case cache of
     Some ex \<Rightarrow> ret ex
   | None \<Rightarrow> bind (the_dep did) (\<lambda>d.
       bind (query (\<lambda>w. create_executor_for_deployment c w d)) lift))"

text \<open>A rule that applies when \<open>guard\<close> holds of the deployment, and then uses the executor.\<close>

definition ruled ::
    "cfg \<Rightarrow> nat \<Rightarrow> (world \<Rightarrow> deployment \<Rightarrow> bool) \<Rightarrow> (executor \<Rightarrow> bool proc) \<Rightarrow> rule" where
  "ruled c did guard body cache =
     bind (the_dep did) (\<lambda>d. bind (query (\<lambda>w. guard w d)) (\<lambda>applies.
       if \<not> applies then ret (False, cache)
       else bind (executor_for c did cache) (\<lambda>ex. bind (body ex) (\<lambda>b. ret (b, Some ex)))))"

definition recorded :: "unit proc \<Rightarrow> bool proc" where
  "recorded m = bind (seqs [m, commit]) (\<lambda>_. ret False)"

text \<open>A running deployment whose runtime is gone becomes failed and loses its URL and claim.\<close>

definition mark_runtime_missing :: "nat \<Rightarrow> string \<Rightarrow> unit proc" where
  "mark_runtime_missing did err =
     bind now (\<lambda>t. seqs [
       transition_to did Failed,
       set_dep did (\<lambda>d. d\<lparr>d_finished_at := Some t, d_last_error := Some err\<rparr>),
       build_transition_to did B_failed,
       set_build did (\<lambda>b. b\<lparr>b_finished_at := Some t, b_last_error := Some err\<rparr>),
       set_dep did (\<lambda>d. d\<lparr>d_service_url := None\<rparr>),
       release_deployment_claim did])"

definition reconcile_running_missing_container :: "cfg \<Rightarrow> nat \<Rightarrow> rule" where
  "reconcile_running_missing_container c did =
     ruled c did (\<lambda>w d. d_status d = Running \<and> d_deploy_target d = Some ''local-docker'') (\<lambda>ex.
       bind (attempt (run_exec (ex_container_exists ex) did)) (\<lambda>res. case res of
         Inl e \<Rightarrow> recorded (record_reconcile_event c did ''reconcile.cleanup_failed''
             (''Failed to verify container existence: '' @ exn_text e) ''error''
             [(''action'', JStr ''container_exists'')] ''reconcile'')
       | Inr container_exists \<Rightarrow>
           if container_exists then ret False
           else bind (seqs [
             mark_runtime_missing did
               ''Reconciler detected missing runtime container for running deployment'',
             bind (the_dep did) (\<lambda>d. record_reconcile_event c did ''reconcile.container_missing''
               ''Marked running deployment failed because its container is missing'' ''warning''
               [(''deploy_target'', jopt (d_deploy_target d))] ''reconcile''),
             commit])
             (\<lambda>_. ret True)))"

definition reconcile_running_missing_helm_release :: "cfg \<Rightarrow> nat \<Rightarrow> rule" where
  "reconcile_running_missing_helm_release c did =
     ruled c did (\<lambda>w d. d_status d = Running \<and> d_deploy_target d = Some ''kubernetes''
                      \<and> deployment_has_helm_release_metadata w d) (\<lambda>ex.
       bind (attempt (run_exec (ex_runtime_helm_status ex) did)) (\<lambda>res. case res of
         Inl e \<Rightarrow> recorded (record_failure c did ''reconcile.cleanup_failed''
             ''Failed to verify Helm release: '' ''helm_release_status'' [] e)
       | Inr helm_status \<Rightarrow> (case helm_status of
           None \<Rightarrow> ret False
         | Some status \<Rightarrow>
             if jtrue (jget status ''release_exists'') then ret False
             else bind (seqs [
               mark_runtime_missing did ''Reconciler detected missing Helm release for running deployment'',
               record_reconcile_event c did ''reconcile.helm_release_missing''
                 ''Marked running deployment failed because its Helm release is missing'' ''error''
                 status ''reconcile.helm_release_missing'',
               commit])
               (\<lambda>_. ret True))))"

definition strings_or :: "(bool \<times> string) list \<Rightarrow> string list" where
  "strings_or bs = map snd (filter fst bs)"

definition status_fields :: "dict \<Rightarrow> string list \<Rightarrow> dict" where
  "status_fields status keys = map (\<lambda>k. (k, jget status k)) keys"

definition diagnostics_of :: "executor \<Rightarrow> nat \<Rightarrow> string \<Rightarrow> dict proc" where
  "diagnostics_of ex did tag = catch (run_exec (ex_runtime_pod_diagnostics ex tag) did) (\<lambda>_. ret [])"

definition reconcile_running_missing_kubernetes_resource :: "cfg \<Rightarrow> nat \<Rightarrow> rule" where
  "reconcile_running_missing_kubernetes_resource c did =
     ruled c did (\<lambda>w d. d_status d = Running \<and> d_deploy_target d = Some ''kubernetes''
                      \<and> \<not> deployment_has_helm_release_metadata w d) (\<lambda>ex.
       bind (attempt (run_exec (ex_runtime_resource_status ex) did)) (\<lambda>res. case res of
         Inl e \<Rightarrow> recorded (record_failure c did ''reconcile.cleanup_failed''
             ''Failed to verify Kubernetes resources: '' ''kubernetes_resource_exists'' [] e)
       | Inr status \<Rightarrow>
           let missing = strings_or
                 [(\<not> jtrue (jget status ''deployment_exists''), ''Deployment''),
                  (\<not> jtrue (jget status ''service_exists''), ''Service'')]
           in if missing = [] then ret False
              else bind (diagnostics_of ex did ''reconcile'') (\<lambda>diagnostics. bind (seqs [
                mark_runtime_missing did
                  (''Reconciler detected missing Kubernetes resource(s): '' @ join '', '' missing),
                record_reconcile_event c did ''reconcile.kubernetes_missing_resource''
                  (''Marked running deployment failed because Kubernetes resource is missing: ''
                   @ join '', '' missing) ''error''
                  (jmerge (status_fields status [''namespace'', ''deployment_name'', ''service_name'',
                             ''deployment_exists'', ''service_exists'']
                           @ [(''missing_resources'', JList (map JStr missing))]) diagnostics)
                  ''reconcile.kubernetes_missing_resource'',
                commit])
                (\<lambda>_. ret True))))"

definition helm_fields :: "dict \<Rightarrow> dict" where
  "helm_fields status = status_fields status [''helm_release_name'', ''namespace'', ''release_status'']"

definition reconcile_helm_nonrunning_release :: "cfg \<Rightarrow> nat \<Rightarrow> rule" where
  "reconcile_helm_nonrunning_release c did cache =
     bind (the_dep did) (\<lambda>d. bind (query (\<lambda>w. deployment_has_helm_release_metadata w d)) (\<lambda>has_release.
       if d_deploy_target d \<noteq> Some ''kubernetes'' \<or> d_status d \<notin> {Failed, Stopped} then ret (False, cache)
       else if \<not> has_release then ret (False, cache)
       else bind (newer_helm_workload_owner_id did) (\<lambda>owner.
         if owner \<noteq> None then ret (False, cache)
         else bind (executor_for c did cache) (\<lambda>ex. bind (
           bind (attempt (run_exec (ex_runtime_helm_status ex) did)) (\<lambda>res. case res of
             Inl e \<Rightarrow> recorded (record_failure c did ''reconcile.helm_cleanup_failed''
                 ''Failed to inspect Helm release for cleanup: '' ''helm_release_cleanup_inspect'' [] e)
           | Inr helm_status \<Rightarrow> (case helm_status of
               None \<Rightarrow> ret False
             | Some status \<Rightarrow>
                 if \<not> jtrue (jget status ''release_exists'') then ret False
                 else bind (attempt (run_exec (ex_stop ex) did)) (\<lambda>stopped. case stopped of
                   Inl e \<Rightarrow> recorded (record_failure c did ''reconcile.helm_cleanup_failed''
                       ''Failed to remove leftover Helm release: '' ''helm_release_cleanup''
                       (helm_fields status) e)
                 | Inr r \<Rightarrow> bind (seqs [
                     record_reconcile_event c did ''reconcile.helm_release_removed''
                       ''Removed leftover Helm release from non-running deployment'' ''info''
                       (jmerge (r_metadata r) ((''log_path'', jopt (r_log_path r)) # helm_fields status))
                       ''reconcile'',
                     commit])
                     (\<lambda>_. ret True)))))
           (\<lambda>b. ret (b, Some ex))))))"

definition reconcile_kubernetes_nonrunning_resources :: "cfg \<Rightarrow> nat \<Rightarrow> rule" where
  "reconcile_kubernetes_nonrunning_resources c did =
     ruled c did (\<lambda>w d. d_deploy_target d = Some ''kubernetes'' \<and> d_status d \<in> {Failed, Stopped}
                      \<and> \<not> deployment_has_helm_release_metadata w d) (\<lambda>ex.
       bind (attempt (run_exec (ex_runtime_resource_status ex) did)) (\<lambda>res. case res of
         Inl e \<Rightarrow> recorded (record_failure c did ''reconcile.cleanup_failed''
             ''Failed to inspect Kubernetes resources for cleanup: '' ''kubernetes_resource_cleanup_inspect'' [] e)
       | Inr status \<Rightarrow>
           let leftovers = strings_or
                 [(jtrue (jget status ''deployment_exists''), ''Deployment''),
                  (jtrue (jget status ''service_exists''), ''Service''),
                  (jtrue (jget status ''ingress_exists''), ''Ingress'')];
               fields = (''leftover_resources'', JList (map JStr leftovers))
                 # status_fields status [''namespace'', ''deployment_name'', ''service_name'']
           in if leftovers = [] then ret False
              else bind (attempt (run_exec (ex_stop ex) did)) (\<lambda>stopped. case stopped of
                Inl e \<Rightarrow> recorded (record_failure c did ''reconcile.cleanup_failed''
                    ''Failed to remove leftover Kubernetes resources: '' ''kubernetes_resource_cleanup'' fields e)
              | Inr r \<Rightarrow> bind (diagnostics_of ex did ''reconcile_cleanup'') (\<lambda>diagnostics. bind (seqs [
                  record_reconcile_event c did ''reconcile.kubernetes_resources_removed''
                    ''Removed leftover Kubernetes resources from non-running deployment'' ''info''
                    (jmerge (jmerge (r_metadata r) ((''log_path'', jopt (r_log_path r)) # fields)) diagnostics)
                    ''reconcile'',
                  commit])
                  (\<lambda>_. ret True)))))"

definition reconcile_failed_artifacts :: "cfg \<Rightarrow> nat \<Rightarrow> rule" where
  "reconcile_failed_artifacts c did cache =
     bind (the_dep did) (\<lambda>d.
       if d_status d \<noteq> Failed then ret (False, cache)
       else if d_deploy_target d \<noteq> Some ''local-docker'' then bind commit (\<lambda>_. ret (False, cache))
       else bind (executor_for c did cache) (\<lambda>ex. bind (
         bind (attempt (bind (run_exec (ex_container_exists ex) did) (\<lambda>exists.
                 if exists then bind (run_exec (ex_stop ex) did) (\<lambda>r. ret (Some r)) else ret None)))
           (\<lambda>res. case res of
             Inl e \<Rightarrow> recorded (record_failure c did ''reconcile.cleanup_failed''
                 ''Failed to remove orphan container: '' ''container_cleanup'' [] e)
           | Inr None \<Rightarrow> bind commit (\<lambda>_. ret False)
           | Inr (Some r) \<Rightarrow> bind (seqs [
               record_reconcile_event c did ''reconcile.container_removed''
                 ''Removed orphan container from failed deployment'' ''info''
                 (jmerge (r_metadata r) [(''log_path'', jopt (r_log_path r))]) ''reconcile'',
               commit])
               (\<lambda>_. ret True)))
         (\<lambda>b. ret (b, Some ex))))"

section \<open>A pass of the reconciler\<close>

definition reconcile_rules :: "cfg \<Rightarrow> nat \<Rightarrow> rule list" where
  "reconcile_rules c did =
     [reconcile_running_missing_container c did,
      reconcile_running_missing_helm_release c did,
      reconcile_running_missing_kubernetes_resource c did,
      reconcile_helm_nonrunning_release c did,
      reconcile_kubernetes_nonrunning_resources c did,
      reconcile_failed_artifacts c did]"

fun run_rules :: "rule list \<Rightarrow> executor option \<Rightarrow> nat \<Rightarrow> nat proc" where
  "run_rules [] cache changes = ret changes"
| "run_rules (r # rs) cache changes =
     bind (r cache) (\<lambda>(changed, cache'). run_rules rs cache' (if changed then Suc changes else changes))"

definition reconcile_deployment :: "cfg \<Rightarrow> nat \<Rightarrow> nat proc" where
  "reconcile_deployment c did =
     bind (reconcile_stale_claim c did) (\<lambda>stale.
     bind (reconcile_missing_deploy_target c did) (\<lambda>target.
       run_rules (reconcile_rules c did) None
         ((if stale then 1 else 0) + (if target then 1 else 0))))"

definition iter_reconcilable_deployments :: "world \<Rightarrow> nat list" where
  "iter_reconcilable_deployments w = map d_id (sort_key d_created_at (deployments w))"

fun reconcile_each :: "cfg \<Rightarrow> nat list \<Rightarrow> nat \<Rightarrow> nat proc" where
  "reconcile_each c [] n = ret n"
| "reconcile_each c (did # dids) n =
     bind (attempt (reconcile_deployment c did)) (\<lambda>res. case res of
       Inl e \<Rightarrow> bind rollback (\<lambda>_. reconcile_each c dids n)
     | Inr changes \<Rightarrow> reconcile_each c dids (n + changes))"

definition reconcile_deployments :: "cfg \<Rightarrow> nat proc" where
  "reconcile_deployments c =
     bind (query iter_reconcilable_deployments) (\<lambda>dids. reconcile_each c dids 0)"

end
