(* ===== verification/Pipeline_Outcome.thy ===== *)
theory Pipeline_Outcome
  imports Pipeline
begin

text \<open>
  What becomes of a deployment whose worker keeps its claim: triples for every step of the
  pipeline, over the state of the deployment's rows. \<open>held c did ds bs w\<close> says that in the
  database \<open>w\<close> the worker owns the deployment, no stop command is active, and the statuses
  of the deployment and its build are \<open>ds\<close> and \<open>bs\<close>.
\<close>

definition held :: "cfg \<Rightarrow> nat \<Rightarrow> dep_status \<Rightarrow> build_status \<Rightarrow> world \<Rightarrow> bool" where
  "held c did ds bs w \<longleftrightarrow> (\<exists>d b. get_dep w did = Some d \<and> d_status d = ds
     \<and> d_claimed_by d = Some (worker_id c) \<and> d_claimed_at d \<noteq> None
     \<and> get_build w (d_build_id d) = Some b \<and> b_status b = bs \<and> active_stop w did = None)"

definition failable :: "cfg \<Rightarrow> nat \<Rightarrow> world \<Rightarrow> bool" where
  "failable c did w \<longleftrightarrow>
     (\<exists>ds bs. held c did ds bs w \<and> ds \<noteq> Stopped \<and> bs \<noteq> B_cancelled)"

text \<open>
  A call during which the worker keeps its claim, no stop is requested and the statuses are
  left alone, and which raises only exceptions in \<open>X\<close>; or which is interrupted, in one of
  the ways \<open>L r w\<close>, where \<open>r\<close> is the exception it raised, if any, and \<open>w\<close> the database
  at its return.
\<close>

definition raised :: "exn + 'a \<Rightarrow> exn option" where
  "raised r = (case r of Inl e \<Rightarrow> Some e | Inr _ \<Rightarrow> None)"

definition calm :: "(exn \<Rightarrow> bool) \<Rightarrow> (exn option \<Rightarrow> world \<Rightarrow> bool) \<Rightarrow> cfg \<Rightarrow> nat \<Rightarrow> 'a call \<Rightarrow> bool" where
  "calm X L c did f \<longleftrightarrow> (\<forall>ds bs w t. held c did ds bs w \<longrightarrow>
     held c did ds bs (fst (snd (f did (w, t)))) \<and> (\<forall>e. fst (f did (w, t)) = Inl e \<longrightarrow> X e)
     \<or> L (raised (fst (f did (w, t)))) (fst (snd (f did (w, t)))))"

definition calm_executor ::
    "(exn \<Rightarrow> bool) \<Rightarrow> (exn option \<Rightarrow> world \<Rightarrow> bool) \<Rightarrow> cfg \<Rightarrow> nat \<Rightarrow> executor \<Rightarrow> bool" where
  "calm_executor X L c did ex \<longleftrightarrow>
     calm X L c did (ex_clone_repo ex) \<and> calm X L c did (ex_build_image ex)
     \<and> calm X L c did (ex_run_tests ex) \<and> calm X L c did (ex_tag_image ex)
     \<and> calm X L c did (ex_push_image ex) \<and> calm X L c did (ex_verify_image ex)
     \<and> calm X L c did (ex_preflight_deploy ex) \<and> calm X L c did (ex_deploy ex)"

text \<open>An interruption is seen by the next ownership check.\<close>

definition interrupting :: "cfg \<Rightarrow> nat \<Rightarrow> (exn option \<Rightarrow> world \<Rightarrow> bool) \<Rightarrow> bool" where
  "interrupting c did L \<longleftrightarrow> (\<forall>s. L None (cur s) \<longrightarrow>
     (\<exists>e. ensure_claim_owned c did None s = (Inl e, s) \<and> L (Some e) (cur s)))"

text \<open>The exceptions of persisting the Kubernetes identity are in \<open>X\<close>.\<close>

definition identity_raises :: "(exn \<Rightarrow> bool) \<Rightarrow> cfg \<Rightarrow> executor \<Rightarrow> bool" where
  "identity_raises X c ex \<longleftrightarrow> (ex_deploy_target ex = Some ''kubernetes'' \<longrightarrow>
     (let mode = (case ex_deployment_mode ex of None \<Rightarrow> k8s_deployment_mode c | Some m \<Rightarrow> m);
          ns = (case ex_namespace ex of None \<Rightarrow> k8s_namespace c | Some n \<Rightarrow> n)
      in (\<forall>w d e. resource_identity ex mode w d = Inl e \<longrightarrow> X e)
         \<and> ((\<exists>m. nonempty_string (Some mode) = Some m \<and> m \<in> set VALID_KUBERNETES_DEPLOYMENT_MODES)
              \<and> nonempty_string (Some ns) \<noteq> None
            \<or> (\<forall>m. X (OtherExn ''ValueError'' m)))))"

fun plain_exn :: "exn \<Rightarrow> bool" where
  "plain_exn (ClaimLost _ _ _ _ _) = False"
| "plain_exn (CancelRequested _ _ _) = False"
| "plain_exn _ = True"

section \<open>Rows under the steps\<close>

definition keeps_claim :: "(deployment \<Rightarrow> deployment) \<Rightarrow> bool" where
  "keeps_claim f \<longleftrightarrow> frame_dep f
     \<and> (\<forall>d. d_claimed_by (f d) = d_claimed_by d \<and> d_claimed_at (f d) = d_claimed_at d)"

lemma active_stop_cong: "commands w' = commands w \<Longrightarrow> active_stop w' did = active_stop w did"
  by (simp add: active_stop_def)

lemma keeps_claim_touch: "keeps_claim f \<Longrightarrow> keeps_claim (touch_dep t f)"
  by (simp add: keeps_claim_def frame_dep_touch) (simp add: touch_dep_def Let_def)

lemma held_upd_dep:
  assumes "held c did ds bs w" "keeps_claim f"
  shows "held c did ds bs (upd_dep did f w)"
proof -
  have f: "frame_dep f" using assms(2) by (simp add: keeps_claim_def)
  have "get_dep (upd_dep did f w) did = map_option f (get_dep w did)"
    using f by (simp add: deps.get_upd frame_dep_id)
  then show ?thesis
    using assms unfolding held_def keeps_claim_def frame_dep_def
    by (auto simp: active_stop_cong [of "upd_dep did f w" w])
qed

lemma held_upd_build:
  assumes "held c did ds bs w" "frame_build g"
  shows "held c did ds bs (upd_build i g w)"
proof -
  have "get_build (upd_build i g w) j = (if j = i then map_option g (get_build w j) else get_build w j)" for j
    using assms(2) by (intro bldt.get_upd) (simp add: frame_build_def)
  then show ?thesis
    using assms unfolding held_def frame_build_def
    by (auto simp: active_stop_cong [of "upd_build i g w" w])
qed

lemma held_events: "held c did ds bs (w\<lparr>events := es\<rparr>) = held c did ds bs w"
  by (simp add: held_def active_stop_cong [of "w\<lparr>events := es\<rparr>" w])

lemma held_status:
  assumes "held c did ds bs w"
  shows "held c did st bs (upd_dep did (touch_dep t (\<lambda>d. d\<lparr>d_status := st\<rparr>)) w)"
proof -
  let ?f = "touch_dep t (\<lambda>d. d\<lparr>d_status := st\<rparr>)"
  have "get_dep (upd_dep did ?f w) did = map_option ?f (get_dep w did)"
    by (simp add: deps.get_upd)
  moreover have "d_status (?f d) = st" "d_claimed_by (?f d) = d_claimed_by d"
      "d_claimed_at (?f d) = d_claimed_at d" "d_build_id (?f d) = d_build_id d" for d
    using touch_dep_cases [of t "\<lambda>d. d\<lparr>d_status := st\<rparr>" d] by auto
  ultimately show ?thesis
    using assms unfolding held_def by (auto simp: active_stop_cong [of "upd_dep did ?f w" w])
qed

lemma held_build_status:
  assumes "held c did ds bs w" "get_dep w did = Some d"
  shows "held c did ds bst (upd_build (d_build_id d) (touch_build t (\<lambda>b. b\<lparr>b_status := bst\<rparr>)) w)"
proof -
  let ?f = "touch_build t (\<lambda>b. b\<lparr>b_status := bst\<rparr>)"
  have "get_build (upd_build (d_build_id d) ?f w) (d_build_id d) = map_option ?f (get_build w (d_build_id d))"
    by (simp add: bldt.get_upd)
  moreover have "b_status (?f b) = bst" for b
    using touch_build_cases [of t "\<lambda>b. b\<lparr>b_status := bst\<rparr>" b] by auto
  ultimately show ?thesis
    using assms unfolding held_def
    by (auto simp: active_stop_cong [of "upd_build (d_build_id d) ?f w" w])
qed

section \<open>Triples of the steps\<close>

definition At :: "cfg \<Rightarrow> nat \<Rightarrow> dep_status \<Rightarrow> build_status \<Rightarrow> session \<Rightarrow> bool" where
  "At c did ds bs s \<longleftrightarrow> held c did ds bs (cur s) \<and> failable c did (com s)"

definition Raised ::
    "(exn \<Rightarrow> bool) \<Rightarrow> (exn option \<Rightarrow> world \<Rightarrow> bool) \<Rightarrow> cfg \<Rightarrow> nat \<Rightarrow> exn \<Rightarrow> session \<Rightarrow> bool" where
  "Raised X L c did e s \<longleftrightarrow> X e \<and> failable c did (cur s) \<and> failable c did (com s)
     \<or> com s = cur s \<and> L (Some e) (cur s)"

lemma heldE:
  assumes "held c did ds bs w"
  obtains d b where "get_dep w did = Some d" "d_status d = ds" "d_claimed_by d = Some (worker_id c)"
    "d_claimed_at d \<noteq> None" "get_build w (d_build_id d) = Some b" "b_status b = bs"
    "b_id b = d_build_id d" "active_stop w did = None"
  using assms unfolding held_def using bldt.get_key by blast

lemma held_owned: "held c did ds bs w \<Longrightarrow> owned c w did"
  unfolding held_def owned_def by blast

lemma At_row:
  assumes "At c did ds bs s"
  obtains d b where "get_dep (cur s) did = Some d" "d_status d = ds"
    "get_build (cur s) (d_build_id d) = Some b" "b_status b = bs"
  using assms unfolding At_def held_def by blast

lemma At_the_dep: "triple (At c did ds bs) (the_dep did) (\<lambda>d. At c did ds bs) E"
proof (rule tripleI)
  fix s assume s: "At c did ds bs s"
  then obtain d where "get_dep (cur s) did = Some d" by (rule At_row)
  then show "case the_dep did s of (Inr _, s') \<Rightarrow> At c did ds bs s' | (Inl e, s') \<Rightarrow> E e s'"
    using s by (simp add: the_dep_Some)
qed

lemma At_the_build: "triple (At c did ds bs) (the_build did) (\<lambda>b. At c did ds bs) E"
proof (rule tripleI)
  fix s assume s: "At c did ds bs s"
  then obtain d b where "get_dep (cur s) did = Some d" "get_build (cur s) (d_build_id d) = Some b"
    by (rule At_row)
  then show "case the_build did s of (Inr _, s') \<Rightarrow> At c did ds bs s' | (Inl e, s') \<Rightarrow> E e s'"
    using s by (simp add: the_build_Some)
qed

lemma At_now: "triple (At c did ds bs) now (\<lambda>t. At c did ds bs) E"
  by (simp add: triple_def now_def)

lemma At_query: "triple (At c did ds bs) (query f) (\<lambda>x. At c did ds bs) E"
  by (simp add: triple_def query_def)

lemma At_ret: "triple (At c did ds bs) (ret x) (\<lambda>_. At c did ds bs) E"
  by (simp add: triple_def ret_def)

lemma At_seqs_Nil: "triple (At c did ds bs) (seqs []) (\<lambda>_. At c did ds bs) E"
  by (simp add: triple_def ret_def)

lemma At_set_dep: "keeps_claim f \<Longrightarrow> triple (At c did ds bs) (set_dep did f) (\<lambda>_. At c did ds bs) E"
proof (rule tripleI)
  fix s assume f: "keeps_claim f" and s: "At c did ds bs s"
  from s obtain d where "get_dep (cur s) did = Some d" by (rule At_row)
  then show "case set_dep did f s of (Inr _, s') \<Rightarrow> At c did ds bs s' | (Inl e, s') \<Rightarrow> E e s'"
    using s f by (simp add: set_dep_Some At_def held_upd_dep keeps_claim_touch)
qed

lemma At_set_build: "frame_build g \<Longrightarrow> triple (At c did ds bs) (set_build did g) (\<lambda>_. At c did ds bs) E"
proof (rule tripleI)
  fix s assume g: "frame_build g" and s: "At c did ds bs s"
  from s obtain d b where "get_dep (cur s) did = Some d" "get_build (cur s) (d_build_id d) = Some b"
    by (rule At_row)
  then show "case set_build did g s of (Inr _, s') \<Rightarrow> At c did ds bs s' | (Inl e, s') \<Rightarrow> E e s'"
    using s g by (simp add: set_build_Some At_def held_upd_build frame_build_touch)
qed

lemma At_record_event:
  "triple (At c did ds bs) (record_event c did et st msg step level md) (\<lambda>_. At c did ds bs) E"
proof (rule tripleI)
  fix s assume s: "At c did ds bs s"
  then obtain d where "get_dep (cur s) did = Some d" by (rule At_row)
  then show "case record_event c did et st msg step level md s of
      (Inr _, s') \<Rightarrow> At c did ds bs s' | (Inl e, s') \<Rightarrow> E e s'"
    using s by (simp add: record_event_Some At_def held_events)
qed

lemma At_record_auxiliary_events:
  "triple (At c did ds bs) (record_auxiliary_events c did es) (\<lambda>_. At c did ds bs) E"
  by (induction es) (auto intro!: At_ret triple_bind [OF At_record_event])

lemma At_write_claim_event:
  "triple (At c did ds bs) (write_claim_event c did et msg level md) (\<lambda>_. At c did ds bs) E"
  unfolding write_claim_event_def by (rule triple_bind [OF At_the_dep At_record_event])

lemma At_commit:
  "ds \<noteq> Stopped \<Longrightarrow> bs \<noteq> B_cancelled \<Longrightarrow> triple (At c did ds bs) commit (\<lambda>_. At c did ds bs) E"
  by (auto simp: triple_def commit_def At_def failable_def)

lemma At_ensure: "triple (At c did ds bs) (ensure_claim_owned c did None) (\<lambda>_. At c did ds bs) E"
proof (rule tripleI)
  fix s assume s: "At c did ds bs s"
  then obtain t where "ensure_claim_owned c did None s = (Inr t, s)"
    using ensure_owned [of c s did] held_owned by (auto simp: At_def held_def)
  then show "case ensure_claim_owned c did None s of
      (Inr _, s') \<Rightarrow> At c did ds bs s' | (Inl e, s') \<Rightarrow> E e s'"
    using s by simp
qed

lemma held_refreshed:
  assumes "held c did ds bs w"
  shows "held c did ds bs (upd_dep did (guarded (refresh_update (worker_id c) t)) w)"
proof -
  let ?f = "guarded (refresh_update (worker_id c) t)"
  have "get_dep (upd_dep did ?f w) did = map_option ?f (get_dep w did)"
    by (simp add: deps.get_upd frame_dep_id frame_refresh_update)
  moreover have "?f d = d\<lparr>d_claimed_at := Some t, d_updated_at := t\<rparr>"
    if "d_claimed_by d = Some (worker_id c)" "d_claimed_at d \<noteq> None" for d
    using that by (simp add: guarded_def refresh_update_def)
  ultimately show ?thesis
    using assms unfolding held_def
    by (auto simp: active_stop_cong [of "upd_dep did ?f w" w])
qed

lemma held_stamped:
  assumes "held c did ds bs w"
  shows "held c did ds bs (upd_dep did (touch_dep t (\<lambda>d. d\<lparr>d_claimed_at := Some u\<rparr>)) w)"
proof -
  let ?f = "touch_dep t (\<lambda>d. d\<lparr>d_claimed_at := Some u\<rparr>)"
  have "get_dep (upd_dep did ?f w) did = map_option ?f (get_dep w did)"
    by (simp add: deps.get_upd)
  moreover have "d_status (?f d) = d_status d" "d_claimed_by (?f d) = d_claimed_by d"
      "d_claimed_at (?f d) = Some u" "d_build_id (?f d) = d_build_id d" for d
    using touch_dep_cases [of t "\<lambda>d. d\<lparr>d_claimed_at := Some u\<rparr>" d] by auto
  ultimately show ?thesis
    using assms unfolding held_def by (auto simp: active_stop_cong [of "upd_dep did ?f w" w])
qed

lemma refresh_run:
  assumes "owned c (cur s) did" "active_stop (cur s) did = None"
  shows "refresh_claim c did None s = (Inr (), s\<lparr>cur :=
     upd_dep did (touch_dep (clock s) (\<lambda>d. d\<lparr>d_claimed_at := Some (clock s)\<rparr>))
       (upd_dep did (guarded (refresh_update (worker_id c) (clock s))) (cur s))\<rparr>)"
proof -
  obtain t where t: "ensure_claim_owned c did None s = (Inr t, s)"
    using ensure_owned [OF assms] by blast
  obtain d where d: "get_dep (cur s) did = Some d" "d_claimed_by d = Some (worker_id c)"
      "d_claimed_at d \<noteq> None"
    using assms(1) by (auto simp: owned_def)
  then have "update_row (refresh_update (worker_id c)) did s = (Inr True, s\<lparr>cur :=
      upd_dep did (guarded (refresh_update (worker_id c) (clock s))) (cur s)\<rparr>)"
    by (simp add: update_row_def refresh_update_def)
  moreover have "get_dep (upd_dep did (guarded (refresh_update (worker_id c) (clock s))) (cur s)) did \<noteq> None"
    using d by (simp add: deps.get_upd frame_dep_id frame_refresh_update)
  ultimately show ?thesis
    using t by (auto simp: refresh_claim_def now_def or_str_def set_dep_Some)
qed

lemma At_refresh: "triple (At c did ds bs) (refresh_claim c did None) (\<lambda>_. At c did ds bs) E"
proof (rule tripleI)
  fix s assume s: "At c did ds bs s"
  then have "owned c (cur s) did" "active_stop (cur s) did = None"
    unfolding At_def by (auto simp: held_owned) (auto simp: held_def)
  then show "case refresh_claim c did None s of
      (Inr _, s') \<Rightarrow> At c did ds bs s' | (Inl e, s') \<Rightarrow> E e s'"
    using s by (simp add: refresh_run At_def held_stamped held_refreshed)
qed

lemma At_transition:
  "st = ds \<or> st \<in> set (dep_next ds) \<Longrightarrow>
    triple (At c did ds bs) (transition_to did st) (\<lambda>_. At c did st bs) E"
proof (rule tripleI)
  fix s assume st: "st = ds \<or> st \<in> set (dep_next ds)" and s: "At c did ds bs s"
  from s obtain d where "get_dep (cur s) did = Some d" "d_status d = ds"
    by (rule At_row)
  then show "case transition_to did st s of (Inr _, s') \<Rightarrow> At c did st bs s' | (Inl e, s') \<Rightarrow> E e s'"
    using s st by (auto simp: transition_to_def the_dep_Some can_transition_to_def set_dep_Some At_def
        intro: held_status)
qed

lemma At_build_transition:
  "st = bs \<or> st \<in> set (build_next bs) \<Longrightarrow>
    triple (At c did ds bs) (build_transition_to did st) (\<lambda>_. At c did ds st) E"
proof (rule tripleI)
  fix s assume st: "st = bs \<or> st \<in> set (build_next bs)" and s: "At c did ds bs s"
  from s obtain d b where "get_dep (cur s) did = Some d" "get_build (cur s) (d_build_id d) = Some b"
      "b_status b = bs"
    by (rule At_row)
  then show "case build_transition_to did st s of
      (Inr _, s') \<Rightarrow> At c did ds st s' | (Inl e, s') \<Rightarrow> E e s'"
    using s st by (auto simp: build_transition_to_def the_build_Some build_can_transition_to_def
        set_build_Some At_def intro: held_build_status)
qed

section \<open>Triples of the stages\<close>

lemma keeps_claim_assignments:
  "keeps_claim (dep_result r)"
  "keeps_claim (helm_metadata show md)"
  "keeps_claim (freeze_identity mode ns ident)"
  "keeps_claim (preflight_fields sv st su pmd t)"
  "keeps_claim (\<lambda>d. d\<lparr>d_preflight_status := a, d_preflight_summary := b,
     d_preflight_metadata_json := j, d_preflight_completed_at := n\<rparr>)"
  "keeps_claim (\<lambda>d. d\<lparr>d_started_at := n\<rparr>)"
  "keeps_claim (\<lambda>d. d\<lparr>d_finished_at := n\<rparr>)"
  "keeps_claim (\<lambda>d. d\<lparr>d_last_error := a\<rparr>)"
  "keeps_claim (\<lambda>d. d\<lparr>d_deploy_target := a\<rparr>)"
  "keeps_claim (\<lambda>d. d\<lparr>d_finished_at := n, d_last_error := a\<rparr>)"
  by (simp_all add: keeps_claim_def frame_dep_def dep_result_def helm_metadata_def Let_def
      freeze_identity_def preflight_fields_def)

lemma triple_let: "triple P (k v) Q E \<Longrightarrow> triple P (let x = v in k x) Q E"
  by simp

lemma triple_if:
  "(b \<Longrightarrow> triple P m Q E) \<Longrightarrow> (\<not> b \<Longrightarrow> triple P n Q E) \<Longrightarrow> triple P (if b then m else n) Q E"
  by simp

lemma At_whenp:
  "(b \<Longrightarrow> triple (At c did ds bs) m (\<lambda>_. At c did ds bs) E) \<Longrightarrow>
    triple (At c did ds bs) (whenp b m) (\<lambda>_. At c did ds bs) E"
  by (rule triple_when)

lemmas At_rules = triple_bind triple_seqs_Cons At_seqs_Nil At_whenp At_the_dep At_the_build At_now
  At_query At_ret At_set_dep At_set_build At_record_event At_record_auxiliary_events
  At_write_claim_event At_ensure At_refresh keeps_claim_assignments frame_lifecycle

lemma At_set_status:
  assumes "st = ds \<or> st \<in> set (dep_next ds)"
    and "case build_status_by_deployment_status st of None \<Rightarrow> bs' = bs
         | Some t \<Rightarrow> bs' = t \<and> (t = bs \<or> t \<in> set (build_next bs))"
  shows "triple (At c did ds bs) (set_deployment_status c did st et msg) (\<lambda>_. At c did st bs') E"
proof -
  have build: "triple (At c did st bs) (case build_status_by_deployment_status st of
      None \<Rightarrow> ret () | Some t \<Rightarrow> build_transition_to did t) (\<lambda>_. At c did st bs') E"
    using assms(2) by (auto split: option.splits intro: At_ret At_build_transition)
  show ?thesis
    unfolding set_deployment_status_def
    by (rule At_rules At_transition [OF assms(1)] build)+
qed

lemma At_begin_step:
  assumes "st = ds \<or> st \<in> set (dep_next ds)"
    and "case build_status_by_deployment_status st of None \<Rightarrow> bs' = bs
         | Some t \<Rightarrow> bs' = t \<and> (t = bs \<or> t \<in> set (build_next bs))"
    and "st \<noteq> Stopped" "bs' \<noteq> B_cancelled"
  shows "triple (At c did ds bs) (begin_step c did st et msg) (\<lambda>_. At c did st bs') E"
  unfolding begin_step_def
  by (rule At_rules At_set_status [OF assms(1,2)] At_commit assms(3,4))+

lemma At_commit_step_result:
  "ds \<noteq> Stopped \<Longrightarrow> bs \<noteq> B_cancelled \<Longrightarrow>
    triple (At c did ds bs) (commit_step_result c did et st msg step md es) (\<lambda>_. At c did ds bs) E"
  unfolding commit_step_result_def by (rule At_rules At_commit | assumption)+

lemma At_apply_execution_result:
  "triple (At c did ds bs) (apply_execution_result c did r) (\<lambda>_. At c did ds bs) E"
  unfolding apply_execution_result_def persist_helm_runtime_metadata_def by (rule At_rules)+

lemma At_run_checked:
  assumes "calm X L c did f" "interrupting c did L" "ds \<noteq> Stopped" "bs \<noteq> B_cancelled"
  shows "triple (At c did ds bs) (run_checked c f did) (\<lambda>_. At c did ds bs) (Raised X L c did)"
proof (rule tripleI)
  fix s assume s: "At c did ds bs s"
  obtain r w' t' where f: "f did (cur s, clock s) = (r, (w', t'))" by (metis surj_pair)
  let ?s = "\<lparr>com = w', cur = w', clock = t'\<rparr>"
  have exec: "run_exec f did s = (r, ?s)" using f by (simp add: run_exec_def)
  have "held c did ds bs (cur s)" using s by (simp add: At_def)
  then have "held c did ds bs (fst (snd (f did (cur s, clock s))))
        \<and> (\<forall>e. fst (f did (cur s, clock s)) = Inl e \<longrightarrow> X e)
      \<or> L (raised (fst (f did (cur s, clock s)))) (fst (snd (f did (cur s, clock s))))"
    using assms(1) unfolding calm_def by blast
  then consider "held c did ds bs w'" "\<forall>e. r = Inl e \<longrightarrow> X e" | "L (raised r) w'"
    by (auto simp: f)
  then show "case run_checked c f did s of
      (Inr _, s') \<Rightarrow> At c did ds bs s' | (Inl e, s') \<Rightarrow> Raised X L c did e s'"
  proof cases
    case 1
    then have fail: "failable c did w'" using assms(3,4) unfolding failable_def by blast
    then have at: "At c did ds bs ?s" using 1(1) by (simp add: At_def)
    show ?thesis
    proof (cases r)
      case (Inl e)
      then show ?thesis using 1 fail exec by (simp add: run_checked_def Raised_def)
    next
      case (Inr x)
      then show ?thesis
        using exec tripleD [OF At_ensure at, where E = "\<lambda>e s. False"]
        by (auto simp: run_checked_def bind_def ret_def split: prod.splits sum.splits)
    qed
  next
    case 2
    show ?thesis
    proof (cases r)
      case (Inl e)
      then show ?thesis using 2 exec by (simp add: run_checked_def Raised_def raised_def)
    next
      case (Inr x)
      then obtain e where "ensure_claim_owned c did None ?s = (Inl e, ?s)" "L (Some e) w'"
        using 2 assms(2) unfolding interrupting_def raised_def by (auto dest: spec [of _ ?s])
      then show ?thesis using exec Inr by (simp add: run_checked_def Raised_def)
    qed
  qed
qed

lemma At_status_text: "triple (At c did ds bs) (status_text did) (\<lambda>_. At c did ds bs) E"
  unfolding status_text_def by (rule At_rules)+

lemma calm_executorD:
  "calm_executor X L c did ex \<Longrightarrow> calm X L c did (ex_clone_repo ex)"
  "calm_executor X L c did ex \<Longrightarrow> calm X L c did (ex_build_image ex)"
  "calm_executor X L c did ex \<Longrightarrow> calm X L c did (ex_run_tests ex)"
  "calm_executor X L c did ex \<Longrightarrow> calm X L c did (ex_tag_image ex)"
  "calm_executor X L c did ex \<Longrightarrow> calm X L c did (ex_push_image ex)"
  "calm_executor X L c did ex \<Longrightarrow> calm X L c did (ex_verify_image ex)"
  "calm_executor X L c did ex \<Longrightarrow> calm X L c did (ex_preflight_deploy ex)"
  "calm_executor X L c did ex \<Longrightarrow> calm X L c did (ex_deploy ex)"
  by (simp_all add: calm_executor_def)

lemmas At_stage_rules = At_rules At_apply_execution_result At_status_text At_commit_step_result At_commit

lemma At_clone_stage:
  assumes "calm_executor X L c did ex" "interrupting c did L"
  shows "triple (At c did Pending B_pending) (clone_stage c ex did)
    (\<lambda>_. At c did Cloning B_cloning) (Raised X L c did)"
  unfolding clone_stage_def
  by (rule At_stage_rules At_begin_step [where bs' = B_cloning] At_run_checked
      calm_executorD [OF assms(1)] assms(2) | simp add: build_status_by_deployment_status_def)+

lemma At_build_stage:
  assumes "calm_executor X L c did ex" "interrupting c did L"
  shows "triple (At c did Cloning B_cloning) (build_stage c ex did)
    (\<lambda>_. At c did Building B_building) (Raised X L c did)"
  unfolding build_stage_def
  by (rule At_stage_rules At_begin_step [where bs' = B_building] At_run_checked
      calm_executorD [OF assms(1)] assms(2) | simp add: build_status_by_deployment_status_def)+

text \<open>After the tests stage the statuses are those of a build, tested or not.\<close>

definition Tested :: "cfg \<Rightarrow> nat \<Rightarrow> session \<Rightarrow> bool" where
  "Tested c did s \<longleftrightarrow> At c did Building B_building s \<or> At c did Testing B_testing s"

lemma triple_post:
  "triple P m Q E \<Longrightarrow> (\<And>x s. Q x s \<Longrightarrow> Q' x s) \<Longrightarrow> triple P m Q' E"
  by (rule triple_weaken)

lemma At_test_stage:
  assumes "calm_executor X L c did ex" "interrupting c did L"
  shows "triple (At c did Building B_building) (test_stage c ex did)
    (\<lambda>_. Tested c did) (Raised X L c did)"
proof -
  have tests: "triple (At c did Building B_building) (seqs [
       begin_step c did Testing ''tests.started'' msg,
       bind (run_checked c (ex_run_tests ex) did) (\<lambda>r. seqs [
         apply_execution_result c did r,
         commit_step_result c did ''tests.succeeded'' ''testing'' (r_message r) ''tests''
           (jmerge (r_metadata r) (summary_log r)) (r_events r)])])
     (\<lambda>_. At c did Testing B_testing) (Raised X L c did)" for msg
    by (rule At_stage_rules At_begin_step [where bs' = B_testing] At_run_checked
      calm_executorD [OF assms(1)] assms(2) | simp add: build_status_by_deployment_status_def)+
  show ?thesis
    unfolding test_stage_def
  proof (rule triple_bind [OF At_the_build], rule triple_if)
    show "triple (At c did Building B_building) (ret ()) (\<lambda>_. Tested c did) (Raised X L c did)"
      by (rule triple_ret) (simp add: Tested_def)
  qed (rule triple_post [OF tests], simp add: Tested_def)
qed

lemma triple_disj:
  "triple P m Q E \<Longrightarrow> triple P' m Q E \<Longrightarrow> (\<And>s. R s \<Longrightarrow> P s \<or> P' s) \<Longrightarrow> triple R m Q E"
proof (rule tripleI)
  fix s
  assume P: "triple P m Q E" and P': "triple P' m Q E" and R: "\<And>s. R s \<Longrightarrow> P s \<or> P' s" and "R s"
  then consider "P s" | "P' s" by blast
  then show "case m s of (Inr x, s') \<Rightarrow> Q x s' | (Inl e, s') \<Rightarrow> E e s'"
    by cases (rule tripleD [OF P], assumption, rule tripleD [OF P'], assumption)
qed

lemma At_tag_stage:
  assumes "calm_executor X L c did ex" "interrupting c did L"
  shows "triple (Tested c did) (tag_stage c ex did)
    (\<lambda>_. At c did Pushing_image B_pushing_image) (Raised X L c did)"
proof (rule triple_disj)
  show "triple (At c did Building B_building) (tag_stage c ex did)
      (\<lambda>_. At c did Pushing_image B_pushing_image) (Raised X L c did)"
    unfolding tag_stage_def
    by (rule At_stage_rules At_begin_step [where bs' = B_pushing_image] At_run_checked
      calm_executorD [OF assms(1)] assms(2) | simp add: build_status_by_deployment_status_def)+
  show "triple (At c did Testing B_testing) (tag_stage c ex did)
      (\<lambda>_. At c did Pushing_image B_pushing_image) (Raised X L c did)"
    unfolding tag_stage_def
    by (rule At_stage_rules At_begin_step [where bs' = B_pushing_image] At_run_checked
      calm_executorD [OF assms(1)] assms(2) | simp add: build_status_by_deployment_status_def)+
qed (simp add: Tested_def)

lemma At_push_stage:
  assumes "calm_executor X L c did ex" "interrupting c did L"
  shows "triple (At c did Pushing_image B_pushing_image) (push_stage c ex did)
    (\<lambda>_. At c did Pushing_image B_succeeded) (Raised X L c did)"
  unfolding push_stage_def
  by (rule At_stage_rules At_build_transition At_run_checked calm_executorD [OF assms(1)] assms(2) | simp)+

lemma At_verify_stage:
  assumes "calm_executor X L c did ex" "interrupting c did L"
  shows "triple (At c did Pushing_image B_succeeded) (verify_stage c ex did)
    (\<lambda>_. At c did Pushing_image B_succeeded) (Raised X L c did)"
  unfolding verify_stage_def
  by (rule At_stage_rules At_run_checked calm_executorD [OF assms(1)] assms(2) | simp)+

lemma At_lift:
  assumes "\<And>e. r = Inl e \<Longrightarrow> X e" "ds \<noteq> Stopped" "bs \<noteq> B_cancelled"
  shows "triple (At c did ds bs) (lift r) (\<lambda>x s. At c did ds bs s) (Raised X L c did)"
  using assms by (auto simp: triple_def lift_def At_def Raised_def failable_def split: sum.splits)

lemma At_throw:
  assumes "X e" "ds \<noteq> Stopped" "bs \<noteq> B_cancelled"
  shows "triple (At c did ds bs) (throw e) Q (Raised X L c did)"
  using assms by (auto simp: triple_def throw_def At_def Raised_def failable_def)

lemma At_persist_identity:
  assumes "(\<exists>m. nonempty_string (Some mode) = Some m \<and> m \<in> set VALID_KUBERNETES_DEPLOYMENT_MODES)
      \<and> nonempty_string (Some ns) \<noteq> None \<or> (\<forall>m. X (OtherExn ''ValueError'' m))"
    and "ds \<noteq> Stopped" "bs \<noteq> B_cancelled"
  shows "triple (At c did ds bs) (persist_kubernetes_runtime_identity did (Some mode) (Some ns) ident)
    (\<lambda>_. At c did ds bs) (Raised X L c did)"
  unfolding persist_kubernetes_runtime_identity_def using assms
  by (auto split: option.splits intro!: At_throw At_set_dep keeps_claim_assignments)

lemma At_found:
  assumes "\<And>w e. f w = Inl e \<Longrightarrow> X e" "ds \<noteq> Stopped" "bs \<noteq> B_cancelled"
    and "\<And>x. triple (At c did ds bs) (k x) Q (Raised X L c did)"
  shows "triple (At c did ds bs) (bind (query f) (\<lambda>found. bind (lift found) k)) Q (Raised X L c did)"
proof -
  have "triple (At c did ds bs) (bind (lift (f w)) k) Q (Raised X L c did)" for w
    by (rule triple_bind [OF At_lift assms(4)]) (use assms(1-3) in auto)
  then show ?thesis unfolding triple_def by (simp add: bind_def [of "query f"] query_def)
qed

lemma At_target_stage:
  assumes "identity_raises X c ex" and live: "ds \<noteq> Stopped" "bs \<noteq> B_cancelled"
  shows "triple (At c did ds bs) (target_stage c ex did) (\<lambda>_. At c did ds bs) (Raised X L c did)"
proof -
  define mode where "mode = (case ex_deployment_mode ex of None \<Rightarrow> k8s_deployment_mode c | Some m \<Rightarrow> m)"
  define ns where "ns = (case ex_namespace ex of None \<Rightarrow> k8s_namespace c | Some n \<Rightarrow> n)"
  have ident: "triple (At c did ds bs)
      (bind (the_dep did) (\<lambda>d. bind (query (\<lambda>w. resource_identity ex mode w d)) (\<lambda>found.
         bind (lift found) (\<lambda>ident. persist_kubernetes_runtime_identity did (Some mode) (Some ns) ident))))
      (\<lambda>_. At c did ds bs) (Raised X L c did)" if "ex_deploy_target ex = Some ''kubernetes''"
    using assms(1) that live
    by (intro triple_bind [OF At_the_dep] At_found At_persist_identity)
      (auto simp: identity_raises_def mode_def ns_def Let_def)
  show ?thesis
  proof (cases "ex_deploy_target ex")
    case None
    then show ?thesis by (simp add: target_stage_def At_ret)
  next
    case (Some target)
    have "triple (At c did ds bs)
       (bind (ensure_claim_owned c did None) (\<lambda>_. seqs [
         set_dep did (\<lambda>d. d\<lparr>d_deploy_target := Some target\<rparr>),
         whenp (target = ''kubernetes'')
           (bind (the_dep did) (\<lambda>d. bind (query (\<lambda>w. resource_identity ex mode w d)) (\<lambda>found.
              bind (lift found) (\<lambda>ident. persist_kubernetes_runtime_identity did (Some mode) (Some ns) ident)))),
         commit])) (\<lambda>_. At c did ds bs) (Raised X L c did)"
      by (rule triple_bind [OF At_ensure] triple_seqs_Cons At_set_dep keeps_claim_assignments
          At_whenp ident At_commit At_seqs_Nil live | simp add: Some)+
    then show ?thesis
      using Some by (simp add: target_stage_def mode_def ns_def Let_def At_ret)
  qed
qed

lemma At_secrets_of: "triple (At c did ds bs) (secrets_of c did) (\<lambda>_. At c did ds bs) E"
  unfolding secrets_of_def by (rule At_rules)+

lemma At_persist_preflight_result:
  "triple (At c did ds bs) (persist_preflight_result c did r) (\<lambda>_. At c did ds bs) E"
  unfolding persist_preflight_result_def
  by (cases r; simp only: option.case; (rule At_rules At_secrets_of)+)

lemma At_preflight_stage:
  assumes "calm_executor X L c did ex" "interrupting c did L" "ds \<noteq> Stopped" "bs \<noteq> B_cancelled"
  shows "triple (At c did ds bs) (preflight_stage c ex did) (\<lambda>_. At c did ds bs) (Raised X L c did)"
proof -
  have result: "triple (At c did ds bs) (case result of None \<Rightarrow> ret () | Some r \<Rightarrow>
      commit_step_result c did et st (f_summary r) step (md r) (f_events r))
      (\<lambda>_. At c did ds bs) (Raised X L c did)" for result et st step md
    using assms by (auto split: option.splits intro: At_ret At_commit_step_result)
  show ?thesis
    unfolding preflight_stage_def
    by (rule triple_bind At_run_checked calm_executorD [OF assms(1)] assms(2,3,4) triple_seqs_Cons
        At_persist_preflight_result result At_seqs_Nil)+
qed

lemma At_deploy_stage:
  assumes "calm_executor X L c did ex" "interrupting c did L" "identity_raises X c ex"
  shows "triple (At c did Pushing_image B_succeeded) (deploy_stage c ex did)
    (\<lambda>_. At c did Deploying B_succeeded) (Raised X L c did)"
  unfolding deploy_stage_def
  by (rule At_stage_rules At_begin_step [where bs' = B_succeeded] At_run_checked
      calm_executorD [OF assms(1)] assms(2) At_target_stage [OF assms(3)]
      At_preflight_stage [OF assms(1,2)]
      | simp add: build_status_by_deployment_status_def)+

section \<open>The end of an attempt\<close>

definition Row :: "nat \<Rightarrow> (deployment \<Rightarrow> build \<Rightarrow> bool) \<Rightarrow> session \<Rightarrow> bool" where
  "Row did P s \<longleftrightarrow> (\<exists>d b. get_dep (cur s) did = Some d
     \<and> get_build (cur s) (d_build_id d) = Some b \<and> P d b)"

lemma Row_At: "At c did ds bs s \<Longrightarrow> Row did (\<lambda>d b. d_status d = ds \<and> b_status b = bs) s"
  unfolding At_def held_def Row_def by blast

lemma Row_set_dep:
  assumes "frame_dep f" "\<And>d b. P d b \<Longrightarrow> Q (f d) b" "\<And>d b t. Q d b \<Longrightarrow> Q (d\<lparr>d_updated_at := t\<rparr>) b"
  shows "triple (Row did P) (set_dep did f) (\<lambda>_. Row did Q) E"
proof (rule tripleI)
  fix s assume "Row did P s"
  then obtain d b where d: "get_dep (cur s) did = Some d" "get_build (cur s) (d_build_id d) = Some b" "P d b"
    unfolding Row_def by blast
  let ?w = "upd_dep did (touch_dep (clock s) f) (cur s)"
  have "get_dep ?w did = Some (touch_dep (clock s) f d)"
    using d assms(1) by (simp add: deps.get_upd frame_dep_id frame_dep_touch)
  moreover have "d_build_id (touch_dep (clock s) f d) = d_build_id d"
    using frame_dep_touch [OF assms(1)] by (simp add: frame_dep_def)
  moreover have "Q (touch_dep (clock s) f d) b"
    using touch_dep_cases [of "clock s" f d] assms(2) [OF d(3)] assms(3) by metis
  ultimately show "case set_dep did f s of (Inr _, s') \<Rightarrow> Row did Q s' | (Inl e, s') \<Rightarrow> E e s'"
    using d by (simp add: set_dep_Some Row_def)
qed

lemma Row_set_build:
  assumes "\<And>b. b_id (g b) = b_id b" "\<And>d b. P d b \<Longrightarrow> Q d (g b)"
    "\<And>d b t. Q d b \<Longrightarrow> Q d (b\<lparr>b_updated_at := t\<rparr>)"
  shows "triple (Row did P) (set_build did g) (\<lambda>_. Row did Q) E"
proof (rule tripleI)
  fix s assume "Row did P s"
  then obtain d b where d: "get_dep (cur s) did = Some d" "get_build (cur s) (d_build_id d) = Some b" "P d b"
    unfolding Row_def by blast
  have "Q d (touch_build (clock s) g b)"
    using touch_build_cases [of "clock s" g b] assms(2) [OF d(3)] assms(3) by metis
  then show "case set_build did g s of (Inr _, s') \<Rightarrow> Row did Q s' | (Inl e, s') \<Rightarrow> E e s'"
    using d assms(1) by (simp add: set_build_Some Row_def bldt.get_upd)
qed

lemma Row_build_transition:
  assumes "\<And>d b. P d b \<Longrightarrow> build_can_transition_to b st" "\<And>d b. P d b \<Longrightarrow> Q d (b\<lparr>b_status := st\<rparr>)"
    "\<And>d b t. Q d b \<Longrightarrow> Q d (b\<lparr>b_updated_at := t\<rparr>)"
  shows "triple (Row did P) (build_transition_to did st) (\<lambda>_. Row did Q) E"
proof (rule tripleI)
  fix s assume P: "Row did P s"
  then obtain d b where d: "get_dep (cur s) did = Some d" "get_build (cur s) (d_build_id d) = Some b" "P d b"
    unfolding Row_def by blast
  have "triple (Row did P) (set_build did (\<lambda>b. b\<lparr>b_status := st\<rparr>)) (\<lambda>_. Row did Q) E"
    using assms(2,3) by (intro Row_set_build) auto
  from tripleD [OF this P]
  show "case build_transition_to did st s of (Inr _, s') \<Rightarrow> Row did Q s' | (Inl e, s') \<Rightarrow> E e s'"
    using d assms(1) by (simp add: build_transition_to_def the_build_Some)
qed

lemma Row_transition:
  assumes "\<And>d b. P d b \<Longrightarrow> can_transition_to d st" "\<And>d b. P d b \<Longrightarrow> Q (d\<lparr>d_status := st\<rparr>) b"
    "\<And>d b t. Q d b \<Longrightarrow> Q (d\<lparr>d_updated_at := t\<rparr>) b"
  shows "triple (Row did P) (transition_to did st) (\<lambda>_. Row did Q) E"
proof (rule tripleI)
  fix s assume "Row did P s"
  then obtain d b where d: "get_dep (cur s) did = Some d" "get_build (cur s) (d_build_id d) = Some b" "P d b"
    unfolding Row_def by blast
  let ?f = "\<lambda>d. d\<lparr>d_status := st\<rparr>"
  have "d_build_id (touch_dep (clock s) ?f d) = d_build_id d"
    using touch_dep_cases [of "clock s" ?f d] by auto
  moreover have "Q (touch_dep (clock s) ?f d) b"
    using touch_dep_cases [of "clock s" ?f d] assms(2) [OF d(3)] assms(3) by metis
  ultimately show "case transition_to did st s of (Inr _, s') \<Rightarrow> Row did Q s' | (Inl e, s') \<Rightarrow> E e s'"
    using d assms(1) by (simp add: transition_to_def the_dep_Some set_dep_Some Row_def deps.get_upd)
qed

lemma Row_record_event:
  "triple (Row did P) (record_event c did et st msg step level md) (\<lambda>_. Row did P) E"
proof (rule tripleI)
  fix s assume P: "Row did P s"
  then obtain d where "get_dep (cur s) did = Some d" unfolding Row_def by blast
  then show "case record_event c did et st msg step level md s of
      (Inr _, s') \<Rightarrow> Row did P s' | (Inl e, s') \<Rightarrow> E e s'"
    using P by (simp add: record_event_Some Row_def)
qed

lemma Row_the_dep: "triple (Row did P) (the_dep did) (\<lambda>_. Row did P) E"
proof (rule tripleI)
  fix s assume P: "Row did P s"
  then obtain d where "get_dep (cur s) did = Some d" unfolding Row_def by blast
  then show "case the_dep did s of (Inr _, s') \<Rightarrow> Row did P s' | (Inl e, s') \<Rightarrow> E e s'"
    using P by (simp add: the_dep_Some)
qed

lemma Row_write_claim_event:
  "triple (Row did P) (write_claim_event c did et msg level md) (\<lambda>_. Row did P) E"
  unfolding write_claim_event_def by (rule triple_bind [OF Row_the_dep Row_record_event])

definition Committed :: "nat \<Rightarrow> (deployment \<Rightarrow> build \<Rightarrow> bool) \<Rightarrow> session \<Rightarrow> bool" where
  "Committed did P s \<longleftrightarrow> cur s = com s \<and> Row did P s"

lemma Row_commit: "triple (Row did P) commit (\<lambda>_. Committed did P) E"
  by (simp add: triple_def commit_def Committed_def Row_def)

text \<open>
  The two ends of an attempt: the deployment runs and its image is built, or both have
  failed with an error; either way the attempt is over and the claim is released.
\<close>

definition attempt_over :: "deployment \<Rightarrow> build \<Rightarrow> bool" where
  "attempt_over d b \<longleftrightarrow> d_claimed_by d = None \<and> d_claimed_at d = None \<and> d_finished_at d \<noteq> None"

definition running_end :: "deployment \<Rightarrow> build \<Rightarrow> bool" where
  "running_end d b \<longleftrightarrow> attempt_over d b \<and> d_status d = Running \<and> b_status b = B_succeeded"

definition failed_end :: "deployment \<Rightarrow> build \<Rightarrow> bool" where
  "failed_end d b \<longleftrightarrow> attempt_over d b \<and> d_status d = Failed \<and> b_status b = B_failed
     \<and> d_last_error d \<noteq> None \<and> b_last_error b = d_last_error d"

lemma At_finish_stage:
  "triple (At c did Deploying B_succeeded) (finish_stage c did) (\<lambda>_. Committed did running_end) E"
proof -
  let ?R = "\<lambda>d b. d_status d = Running \<and> b_status b = B_succeeded"
  let ?F = "\<lambda>d b. d_status d = Running \<and> b_status b = B_succeeded \<and> d_finished_at d \<noteq> None"
  have "triple (Row did ?R) (seqs [
       set_dep did (\<lambda>d. d\<lparr>d_finished_at := Some t\<rparr>),
       bind (the_dep did) (\<lambda>d.
         record_event c did ''deployment.running'' ''running'' (Some ''Deployment is now running'')
           (Some ''deployment'') ''info''
           [(''service_url'', jopt (d_service_url d)),
            (''deploy_target'', jopt (d_deploy_target d)),
            (''summary'', JStr ''Deployment is now running'')]),
       write_claim_event c did ''claim_cleared'' ''Worker cleared deployment claim after success''
         ''info'' [(''worker_id'', JStr (worker_id c))],
       release_deployment_claim did,
       commit]) (\<lambda>_. Committed did running_end) E" for t
    unfolding release_deployment_claim_def
    by (rule triple_seqs_Cons Row_set_dep [where Q = ?F] triple_bind [OF Row_the_dep]
        Row_record_event Row_write_claim_event Row_set_dep [where Q = running_end] Row_commit
        triple_seqs_Nil frame_lifecycle frame_set_claim
        | simp add: running_end_def attempt_over_def)+
  then have tail: "triple (At c did Running B_succeeded) (seqs [
       set_dep did (\<lambda>d. d\<lparr>d_finished_at := Some t\<rparr>),
       bind (the_dep did) (\<lambda>d.
         record_event c did ''deployment.running'' ''running'' (Some ''Deployment is now running'')
           (Some ''deployment'') ''info''
           [(''service_url'', jopt (d_service_url d)),
            (''deploy_target'', jopt (d_deploy_target d)),
            (''summary'', JStr ''Deployment is now running'')]),
       write_claim_event c did ''claim_cleared'' ''Worker cleared deployment claim after success''
         ''info'' [(''worker_id'', JStr (worker_id c))],
       release_deployment_claim did,
       commit]) (\<lambda>_. Committed did running_end) E" for t
    by (rule triple_weaken) (auto dest: Row_At)
  show ?thesis
    unfolding finish_stage_def
    by (rule triple_bind [OF At_ensure] triple_bind [OF At_now] triple_seqs_Cons [OF At_refresh]
        triple_seqs_Cons [OF At_transition] tail | simp)+
qed

lemma At_mark_failed:
  assumes "ds \<noteq> Stopped" "bs \<noteq> B_cancelled"
  shows "triple (At c did ds bs) (mark_failed c did step message metadata)
    (\<lambda>r s. r = Some did \<and> Committed did failed_end s) E"
proof -
  have ds: "Failed = ds \<or> Failed \<in> set (dep_next ds)"
    using assms(1) dep_can_fail [of ds] by auto
  have bs: "b_status b = bs \<Longrightarrow> build_can_transition_to b B_failed" for b
    using assms(2) build_can_fail [of bs] by (cases "bs = B_failed") (auto simp: build_can_transition_to_def)
  let ?R = "\<lambda>d b. d_status d = Failed \<and> b_status b = bs"
  let ?F = "\<lambda>m d b. ?R d b \<and> d_finished_at d \<noteq> None \<and> d_last_error d = Some m"
  let ?B = "\<lambda>m d b. d_status d = Failed \<and> b_status b = B_failed \<and> d_finished_at d \<noteq> None
    \<and> d_last_error d = Some m"
  let ?L = "\<lambda>m d b. ?B m d b \<and> b_last_error b = Some m"
  have row: "triple (Row did ?R) (seqs [
         set_dep did (\<lambda>d. d\<lparr>d_finished_at := Some t, d_last_error := Some m\<rparr>),
         build_transition_to did B_failed,
         set_build did (\<lambda>b. b\<lparr>b_finished_at := Some t, b_last_error := Some m\<rparr>),
         record_event c did et1 ''failed'' (Some m) (Some st1) ''error'' md,
         record_event c did et2 ''failed'' (Some m) (Some st2) ''error'' md,
         write_claim_event c did et3 m3 ''info'' md3,
         release_deployment_claim did,
         commit]) (\<lambda>_. Committed did failed_end) E" for t m et1 et2 et3 st1 st2 md md3 m3
    unfolding release_deployment_claim_def
    by (rule triple_seqs_Cons Row_set_dep [where Q = "?F m"] Row_build_transition [where Q = "?B m"]
        Row_set_build [where Q = "?L m"] Row_record_event Row_write_claim_event
        Row_set_dep [where Q = failed_end] Row_commit triple_seqs_Nil frame_lifecycle frame_set_claim
        | simp add: failed_end_def attempt_over_def bs)+
  have tail: "triple (At c did Failed bs) (seqs [
         set_dep did (\<lambda>d. d\<lparr>d_finished_at := Some t, d_last_error := Some m\<rparr>),
         build_transition_to did B_failed,
         set_build did (\<lambda>b. b\<lparr>b_finished_at := Some t, b_last_error := Some m\<rparr>),
         record_event c did et1 ''failed'' (Some m) (Some st1) ''error'' md,
         record_event c did et2 ''failed'' (Some m) (Some st2) ''error'' md,
         write_claim_event c did et3 m3 ''info'' md3,
         release_deployment_claim did,
         commit]) (\<lambda>_. Committed did failed_end) E" for t m et1 et2 et3 st1 st2 md md3 m3
    by (rule triple_weaken [OF row]) (auto dest: Row_At)
  show ?thesis
    unfolding mark_failed_def Let_def
    by (rule triple_bind [OF At_the_build] triple_bind [OF At_ensure] triple_bind [OF At_refresh]
        triple_bind [OF At_secrets_of] triple_bind [OF At_now] triple_bind
        triple_seqs_Cons [OF At_transition] tail triple_ret | simp add: ds)+
qed

section \<open>The handlers of process_deployment\<close>

lemma failable_At: "failable c did (cur s) \<Longrightarrow> failable c did (com s) \<Longrightarrow>
    \<exists>ds bs. At c did ds bs s \<and> ds \<noteq> Stopped \<and> bs \<noteq> B_cancelled"
  unfolding failable_def At_def by blast

definition Failable :: "cfg \<Rightarrow> nat \<Rightarrow> session \<Rightarrow> bool" where
  "Failable c did s \<longleftrightarrow> failable c did (cur s) \<and> failable c did (com s)"

lemma triple_failable:
  assumes "\<And>ds bs. ds \<noteq> Stopped \<Longrightarrow> bs \<noteq> B_cancelled \<Longrightarrow> triple (At c did ds bs) m Q E"
  shows "triple (Failable c did) m Q E"
proof (rule tripleI)
  fix s assume "Failable c did s"
  then obtain ds bs where "At c did ds bs s" "ds \<noteq> Stopped" "bs \<noteq> B_cancelled"
    using failable_At [of c did s] unfolding Failable_def by blast
  then show "case m s of (Inr x, s') \<Rightarrow> Q x s' | (Inl e, s') \<Rightarrow> E e s'"
    by (intro tripleD [OF assms [of ds bs]])
qed

lemma triple_claim_handlers: "triple P m Q (\<lambda>e s. False) \<Longrightarrow> triple P (claim_handlers c did m) Q E"
  unfolding claim_handlers_def by (rule triple_catch, assumption) (simp add: triple_def)

lemma At_persist_preflight_failure:
  "triple (At c did ds bs) (persist_preflight_failure c did st msg md lp) (\<lambda>_. At c did ds bs) E"
  unfolding persist_preflight_failure_def
  by (rule triple_if At_ret triple_bind [OF At_secrets_of] triple_bind [OF At_now] At_set_dep
      keeps_claim_assignments)+

lemma At_execution_error:
  assumes "ds \<noteq> Stopped" "bs \<noteq> B_cancelled"
  shows "triple (At c did ds bs) (execution_error c did step message metadata log_path evs)
    (\<lambda>r s. r = Some did \<and> Committed did failed_end s) E"
  unfolding execution_error_def
  by (rule triple_bind triple_seqs_Cons At_whenp At_set_build frame_lifecycle At_seqs_Nil
      At_persist_preflight_failure triple_claim_handlers At_record_auxiliary_events
      At_mark_failed [OF assms])+

lemma Failable_unexpected_error:
  "triple (Failable c did) (unexpected_error c did e)
    (\<lambda>r s. r = Some did \<and> Committed did failed_end s) E"
proof (rule tripleI)
  fix s assume "Failable c did s"
  then obtain ds bs where h: "held c did ds bs (com s)" "ds \<noteq> Stopped" "bs \<noteq> B_cancelled"
    unfolding Failable_def failable_def by blast
  let ?s = "s\<lparr>cur := com s\<rparr>"
  have at: "At c did ds bs ?s" using h unfolding At_def failable_def by auto
  then obtain d where d: "get_dep (com s) did = Some d" by (auto elim: At_row)
  let ?m = "claim_handlers c did (mark_failed c did ''worker.internal''
    ''Worker encountered an unexpected internal error'' [(''error_type'', JStr (exn_type e))])"
  have "unexpected_error c did e s = ?m ?s"
    by (simp add: unexpected_error_def rollback_def query_def d)
  moreover have "triple (At c did ds bs) ?m (\<lambda>r s. r = Some did \<and> Committed did failed_end s) E"
    by (rule triple_claim_handlers [OF At_mark_failed [OF h(2,3)]])
  ultimately show "case unexpected_error c did e s of
      (Inr x, s') \<Rightarrow> x = Some did \<and> Committed did failed_end s' | (Inl e, s') \<Rightarrow> E e s'"
    using at by (auto simp: triple_def)
qed

lemma Failable_pipeline_error:
  assumes "plain_exn e"
  shows "triple (Failable c did) (pipeline_error c did e)
    (\<lambda>r s. r = Some did \<and> Committed did failed_end s) E"
proof -
  have "triple (Failable c did) (execution_error c did st msg md lp evs)
      (\<lambda>r s. r = Some did \<and> Committed did failed_end s) E" for st msg md lp evs
    by (rule triple_failable [OF At_execution_error])
  then show ?thesis
    using assms Failable_unexpected_error [of c did e E]
    by (cases e) (auto simp: pipeline_error_def)
qed

lemma Start_reset:
  "triple (At c did ds bs) (reset_attempt did) (\<lambda>_. At c did ds bs) E"
  unfolding reset_attempt_def clear_preflight_state_def by (rule At_rules)+

lemma At_stages:
  assumes "calm_executor X L c did ex" "interrupting c did L" "identity_raises X c ex"
  shows "triple (At c did Pending B_pending) (seqs (stages c ex did))
    (\<lambda>_. Committed did running_end) (Raised X L c did)"
  unfolding stages_def
  by (rule triple_seqs_Cons At_clone_stage At_build_stage At_test_stage At_tag_stage At_push_stage
      At_verify_stage At_deploy_stage At_finish_stage assms triple_seqs_Nil | assumption)+

lemma process_triple:
  assumes "calm_executor X L c did ex" "interrupting c did L" "identity_raises X c ex"
    and "\<And>e. X e \<Longrightarrow> plain_exn e"
    and "\<And>e. triple (\<lambda>s. com s = cur s \<and> L (Some e) (cur s)) (pipeline_error c did e) Q (\<lambda>e s. False)"
    and "\<And>s. Committed did running_end s \<Longrightarrow> Q (Some did) s"
    and "\<And>s e. X e \<Longrightarrow> Committed did failed_end s \<Longrightarrow> Q (Some did) s"
  shows "triple (At c did Pending B_pending) (process_deployment c did (Some ex)) Q (\<lambda>e s. False)"
proof -
  have body: "triple (At c did Pending B_pending) (bind (seqs (stages c ex did)) (\<lambda>_. ret (Some did)))
      Q (Raised X L c did)"
    by (rule triple_bind [OF At_stages [OF assms(1,2,3)]]) (simp add: triple_def ret_def assms(6))
  have handler: "triple (Raised X L c did e) (pipeline_error c did e) Q (\<lambda>e s. False)" for e
  proof (rule triple_disj [OF _ assms(5)])
    show "triple (\<lambda>s. X e \<and> Failable c did s) (pipeline_error c did e) Q (\<lambda>e s. False)"
    proof (cases "X e")
      case True
      then have "triple (Failable c did) (pipeline_error c did e) Q (\<lambda>e s. False)"
        by (intro triple_post [OF Failable_pipeline_error [OF assms(4)]]) (auto intro: assms(7))
      then show ?thesis by (rule triple_weaken) auto
    qed (simp add: triple_def)
  qed (auto simp: Raised_def Failable_def)
  have "triple (At c did Pending B_pending) (bind (reset_attempt did) (\<lambda>_.
      catch (bind (seqs (stages c ex did)) (\<lambda>_. ret (Some did))) (pipeline_error c did))) Q (\<lambda>e s. False)"
    by (rule triple_bind [OF Start_reset] triple_catch [OF body] handler)+
  then show ?thesis
    unfolding process_deployment_def by (simp add: triple_def bind_def lift_def)
qed

end
