(* ===== verification/Command_Outcome.thy ===== *)
theory Command_Outcome
  imports Commands Lease
begin

text \<open>
  The lemmas of the command processor: which command a worker gets and when, that every
  step keeps the invariants of the database, what a successful command leaves in the rows
  of its deployment, build and command, and that the Helm guard keeps the executor away
  from a release that a newer deployment owns.
\<close>

section \<open>The claim of a command is a lease\<close>

definition cmd_holder :: "command \<Rightarrow> (string \<times> int) option" where
  "cmd_holder k = (if c_status k \<noteq> C_claimed then None else case c_claimed_by k of
     None \<Rightarrow> None | Some wk \<Rightarrow> map_option (Pair wk) (c_claimed_at k))"

definition cmd_claim_run :: "int \<Rightarrow> lease_op list \<Rightarrow> command \<Rightarrow> command" where
  "cmd_claim_run ttl = fold (lease_step cmd_holder cmd_claim_update cmd_refresh_update
     (finish_command C_succeeded None 0) ttl)"

interpretation clease: lease cmd_holder cmd_claim_update cmd_refresh_update
    "finish_command C_succeeded None 0"
  by unfold_locales
    (auto simp: cmd_holder_def cmd_claim_update_def cmd_refresh_update_def finish_command_def
      cmd_claimable_def unclaimed_or_stale_def split: option.splits if_splits)

section \<open>Which command is claimed\<close>

definition cmd_eligible :: "int \<Rightarrow> world \<Rightarrow> nat \<Rightarrow> bool" where
  "cmd_eligible stale w cid = (case get_cmd w cid of None \<Rightarrow> False
     | Some k \<Rightarrow> cmd_claimable stale k \<and> deployment_free stale w (c_deployment_id k))"

lemma claim_command_eligible:
  "claim_command wk stale cid s = (if cmd_eligible stale (cur s) cid
     then (Inr True, s\<lparr>cur := upd_cmd cid (\<lambda>k. k\<lparr>c_status := C_claimed, c_claimed_by := Some wk,
             c_claimed_at := Some (clock s)\<rparr>) (cur s)\<rparr>)
     else (Inr False, s))"
  by (simp add: claim_command_def cmd_eligible_def split: option.splits)

lemma claim_first_command_run:
  "claim_first_command wk stale cids s =
     (case find (cmd_eligible stale (cur s)) cids of
        None \<Rightarrow> (Inr None, s\<lparr>cur := com s\<rparr>)
      | Some cid \<Rightarrow>
          let w = upd_cmd cid (\<lambda>k. k\<lparr>c_status := C_claimed, c_claimed_by := Some wk,
                    c_claimed_at := Some (clock s)\<rparr>) (cur s)
          in (Inr (Some cid), s\<lparr>com := w, cur := w\<rparr>))"
proof (induction cids)
  case Nil
  then show ?case by (simp add: bind_def rollback_def ret_def)
next
  case (Cons cid cids)
  show ?case
    using Cons by (simp add: claim_command_eligible bind_def commit_def ret_def Let_def)
qed

lemma claim_next_command_run:
  "claim_next_pending_command c worker ttl s = claim_first_command (or_str worker (worker_id c))
     (clock s - (case ttl of None \<Rightarrow> claim_ttl c | Some n \<Rightarrow> n)) (active_command_ids (cur s)) s"
  by (simp add: claim_next_pending_command_def now_def query_def)

section \<open>Commands keep the invariants of the database\<close>

lemma frame_command [step_rules]:
  "frame_dep (clear_runtime r t)"
  "frame_cmd (guarded (cmd_refresh_update wk t))"
  "frame_cmd (finish_command C_succeeded err t)"
  "frame_cmd (finish_command C_failed err t)"
  "frame_cmd (finish_command C_skipped err t)"
  by (auto simp: frame_dep_def clear_runtime_def frame_cmd_def guarded_def cmd_refresh_update_def
      finish_command_def)

lemma keeps_lift_query [step_rules]: "keeps I (newer_helm_workload_owner_id did)"
  unfolding newer_helm_workload_owner_id_def by (intro step_rules)

context world_invariant
begin

lemma keeps_claim_command: "keeps I (claim_command wk stale cid)"
  by (auto simp: keeps_def claim_command_def cmd_claimable_def I_cmd_claim split: option.splits)

lemma keeps_claim_first_command: "keeps I (claim_first_command wk stale cids)"
  by (induction cids) (auto intro!: step_rules keeps_claim_command)

lemma keeps_claim_next_command: "keeps I (claim_next_pending_command c wk ttl)"
  unfolding claim_next_pending_command_def by (intro step_rules keeps_claim_first_command)

lemma keeps_ensure_command: "keeps I (ensure_command_claim_owned cid wk)"
  unfolding ensure_command_claim_owned_def by (intro step_rules)

lemma keeps_refresh_command: "keeps I (refresh_command_claim cid wk)"
  unfolding refresh_command_claim_def by (intro step_rules keeps_ensure_command keeps_claims)

lemma keeps_command_heartbeat: "keeps I (command_heartbeat cid wk)"
  unfolding command_heartbeat_def by (intro step_rules keeps_refresh_command)

lemma keeps_cmd_record_event: "keeps I (cmd_record_event did et st msg step level md)"
  unfolding cmd_record_event_def by (intro step_rules keeps_claims)

lemma keeps_cmd_result_events: "keeps I (cmd_result_events did step origin es)"
  by (induction es) (auto intro: step_rules keeps_cmd_record_event)

lemmas keeps_command_rules = step_rules keeps_lifecycle keeps_refresh_command keeps_cmd_record_event
  keeps_cmd_result_events keeps_secrets_of

lemma keeps_skip: "keeps I (skip_historical_helm_command cid did wk)"
  unfolding skip_historical_helm_command_def by (intro keeps_command_rules)

lemma keeps_cancel_build: "keeps I (cancel_build ct did t)"
  unfolding cancel_build_def by (intro keeps_command_rules)

lemma keeps_reload: "keeps I (reload did)"
  unfolding reload_def by (intro step_rules)

lemma keeps_fail_command: "keeps I (fail_command c cid k wk err st md)"
  unfolding fail_command_def Let_def
  by (intro keeps_command_rules keeps_reload) (auto split: exn.split intro: step_rules)

lemma keeps_command_error: "keeps I (command_error c cid k wk e)"
  unfolding command_error_def Let_def
  by (cases e) (auto intro!: keeps_fail_command step_rules keeps_reload)

text \<open>Every executor the factory can make keeps the property.\<close>

lemma keeps_run_command:
  assumes "\<And>w d ex. create_executor_for_deployment c w d = Inr ex \<Longrightarrow> executor_keeps I ex"
    and "\<And>ex. executor = Some ex \<Longrightarrow> executor_keeps I ex"
  shows "keeps I (run_command c cid k wk executor)"
proof -
  have tail: "keeps I (bind (run_exec (ex_stop ex) did) (\<lambda>r. bind now (\<lambda>t. bind (seqs [
               refresh_command_claim cid wk,
               transition_to did Stopped,
               cancel_build ct did t,
               set_dep did (clear_runtime r t),
               persist_helm_runtime_metadata c did (r_metadata r),
               cmd_result_events did step origin (r_events r),
               cmd_record_event did et ''stopped'' (Some (r_message r)) step ''info'' (md r),
               set_cmd cid (finish_command C_succeeded None t),
               commit])
             (\<lambda>_. ret (Some did)))))" if "executor_keeps I ex" for ex did ct step origin et md
    unfolding persist_helm_runtime_metadata_def
    using that by (intro keeps_command_rules keeps_cancel_build)
  have made: "keeps I (bind (query (\<lambda>w. case executor of None \<Rightarrow> create_executor_for_deployment c w d
       | Some ex \<Rightarrow> Inr ex)) (\<lambda>made. bind (lift made) k'))"
    if "\<And>ex. executor_keeps I ex \<Longrightarrow> keeps I (k' ex)" for d and k' :: "executor \<Rightarrow> nat option proc"
  proof (cases executor)
    case (Some ex)
    then have "keeps I (k' ex)" using assms(2) that by blast
    then show ?thesis using Some by (simp add: keeps_def bind_def query_def lift_def)
  next
    case None
    have "keeps I (bind (lift (create_executor_for_deployment c w d)) k')" for w
    proof (cases "create_executor_for_deployment c w d")
      case (Inl e)
      then show ?thesis by (simp add: keeps_def bind_def lift_def)
    next
      case (Inr ex)
      then have "keeps I (k' ex)" using assms(1) that by blast
      then show ?thesis using Inr by (simp add: keeps_def bind_def lift_def)
    qed
    then show ?thesis using None by (simp add: keeps_def bind_def query_def)
  qed
  show ?thesis
    unfolding run_command_def Let_def
    by (rule keeps_bind keeps_the_dep keeps_seqs_Cons keeps_seqs_Nil keeps_refresh_command
        keeps_cmd_record_event keeps_commit keeps_skip keeps_case_option keeps_ret made tail
        | assumption)+
qed

lemma keeps_process_command:
  assumes "\<And>w d ex. create_executor_for_deployment c w d = Inr ex \<Longrightarrow> executor_keeps I ex"
    and "\<And>ex. executor = Some ex \<Longrightarrow> executor_keeps I ex"
  shows "keeps I (process_deployment_command c cid executor)"
  unfolding process_deployment_command_def Let_def
  by (rule keeps_bind keeps_the_cmd keeps_catch keeps_command_error keeps_run_command
      | rule assms, assumption)+

lemma keeps_process_next_work_item:
  assumes "\<And>w d ex. create_executor_for_deployment c w d = Inr ex \<Longrightarrow> executor_keeps I ex"
    and "\<And>ex. create_executor c = Inr ex \<Longrightarrow> executor_keeps I ex"
  shows "keeps I (process_next_work_item c)"
  unfolding process_next_work_item_def process_next_pending_command_def
    process_next_pending_deployment_def
  by (intro step_rules keeps_claim_next_command keeps_claims keeps_process_command
      keeps_process_deployment) (auto dest: assms)

end

section \<open>What a successful command leaves\<close>

text \<open>The rows of the deployment, its build and the command in the session.\<close>

definition CRow ::
    "nat \<Rightarrow> nat \<Rightarrow> (deployment \<Rightarrow> build \<Rightarrow> command \<Rightarrow> bool) \<Rightarrow> session \<Rightarrow> bool" where
  "CRow did cid P s \<longleftrightarrow> (\<exists>d b k. get_dep (cur s) did = Some d
     \<and> get_build (cur s) (d_build_id d) = Some b \<and> get_cmd (cur s) cid = Some k \<and> P d b k)"

lemma CRowE:
  assumes "CRow did cid P s"
  obtains d b k where "get_dep (cur s) did = Some d" "get_build (cur s) (d_build_id d) = Some b"
    "get_cmd (cur s) cid = Some k" "P d b k"
  using assms unfolding CRow_def by blast

text \<open>A predicate that does not look at the time of the last update.\<close>

definition timeless :: "(deployment \<Rightarrow> build \<Rightarrow> command \<Rightarrow> bool) \<Rightarrow> bool" where
  "timeless Q \<longleftrightarrow> (\<forall>d b k t. Q d b k \<longrightarrow> Q (d\<lparr>d_updated_at := t\<rparr>) b k \<and> Q d (b\<lparr>b_updated_at := t\<rparr>) k)"

lemma CRow_set_dep:
  assumes "frame_dep f" "timeless Q" "\<And>d b k. P d b k \<Longrightarrow> Q (f d) b k"
  shows "triple (CRow did cid P) (set_dep did f) (\<lambda>_. CRow did cid Q) E"
proof (rule tripleI)
  fix s assume "CRow did cid P s"
  then obtain d b k where r: "get_dep (cur s) did = Some d" "get_build (cur s) (d_build_id d) = Some b"
      "get_cmd (cur s) cid = Some k" "P d b k" by (rule CRowE)
  have "Q (touch_dep (clock s) f d) b k"
    using touch_dep_cases [of "clock s" f d] assms(3) [OF r(4)] assms(2) unfolding timeless_def by metis
  moreover have "d_build_id (touch_dep (clock s) f d) = d_build_id d"
    using frame_dep_touch [OF assms(1)] by (simp add: frame_dep_def)
  ultimately show "case set_dep did f s of (Inr _, s') \<Rightarrow> CRow did cid Q s' | (Inl e, s') \<Rightarrow> E e s'"
    using r assms(1) by (simp add: set_dep_Some CRow_def deps.get_upd frame_dep_id frame_dep_touch)
qed

lemma CRow_transition:
  assumes "timeless Q" "\<And>d b k. P d b k \<Longrightarrow> can_transition_to d st"
    "\<And>d b k. P d b k \<Longrightarrow> Q (d\<lparr>d_status := st\<rparr>) b k"
  shows "triple (CRow did cid P) (transition_to did st) (\<lambda>_. CRow did cid Q) E"
proof (rule tripleI)
  fix s assume "CRow did cid P s"
  then obtain d b k where r: "get_dep (cur s) did = Some d" "get_build (cur s) (d_build_id d) = Some b"
      "get_cmd (cur s) cid = Some k" "P d b k" by (rule CRowE)
  let ?f = "\<lambda>d. d\<lparr>d_status := st\<rparr>"
  have "Q (touch_dep (clock s) ?f d) b k"
    using touch_dep_cases [of "clock s" ?f d] assms(3) [OF r(4)] assms(1) unfolding timeless_def by metis
  moreover have "d_build_id (touch_dep (clock s) ?f d) = d_build_id d"
    using touch_dep_cases [of "clock s" ?f d] by auto
  ultimately show "case transition_to did st s of (Inr _, s') \<Rightarrow> CRow did cid Q s' | (Inl e, s') \<Rightarrow> E e s'"
    using r assms(2) by (simp add: transition_to_def the_dep_Some set_dep_Some CRow_def deps.get_upd)
qed

lemma CRow_set_build:
  assumes "\<And>b. b_id (g b) = b_id b" "timeless Q" "\<And>d b k. P d b k \<Longrightarrow> Q d (g b) k"
  shows "triple (CRow did cid P) (set_build did g) (\<lambda>_. CRow did cid Q) E"
proof (rule tripleI)
  fix s assume "CRow did cid P s"
  then obtain d b k where r: "get_dep (cur s) did = Some d" "get_build (cur s) (d_build_id d) = Some b"
      "get_cmd (cur s) cid = Some k" "P d b k" by (rule CRowE)
  have "Q d (touch_build (clock s) g b) k"
    using touch_build_cases [of "clock s" g b] assms(3) [OF r(4)] assms(2) unfolding timeless_def by metis
  then show "case set_build did g s of (Inr _, s') \<Rightarrow> CRow did cid Q s' | (Inl e, s') \<Rightarrow> E e s'"
    using r assms(1) by (simp add: set_build_Some CRow_def bldt.get_upd)
qed

lemma CRow_set_cmd:
  assumes "\<And>k. c_id (h k) = c_id k" "\<And>d b k. P d b k \<Longrightarrow> Q d b (h k)"
  shows "triple (CRow did cid P) (set_cmd cid h) (\<lambda>_. CRow did cid Q) E"
proof (rule tripleI)
  fix s assume "CRow did cid P s"
  then obtain d b k where r: "get_dep (cur s) did = Some d" "get_build (cur s) (d_build_id d) = Some b"
      "get_cmd (cur s) cid = Some k" "P d b k" by (rule CRowE)
  then show "case set_cmd cid h s of (Inr _, s') \<Rightarrow> CRow did cid Q s' | (Inl e, s') \<Rightarrow> E e s'"
    using assms by (simp add: set_cmd_def the_cmd_def store_def bind_def CRow_def cmdt.get_upd)
qed

lemma CRow_add_event: "triple (CRow did cid P) (add_event mk) (\<lambda>_. CRow did cid P) E"
  by (simp add: triple_def add_event_def store_def CRow_def)

lemma CRow_reads:
  "triple (CRow did cid P) now (\<lambda>t. CRow did cid P) E"
  "triple (CRow did cid P) (query q) (\<lambda>x. CRow did cid P) E"
  "triple (CRow did cid P) (ret y) (\<lambda>_. CRow did cid P) E"
  "triple (CRow did cid P) (seqs []) (\<lambda>_. CRow did cid P) E"
  "triple (CRow did cid P) commit (\<lambda>_. CRow did cid P) E"
  by (simp_all add: triple_def now_def query_def ret_def commit_def CRow_def)

lemma CRow_the_dep: "triple (CRow did cid P) (the_dep did) (\<lambda>_. CRow did cid P) E"
  by (rule tripleI) (auto simp: the_dep_Some elim!: CRowE, auto simp: CRow_def)

lemma CRow_the_build: "triple (CRow did cid P) (the_build did) (\<lambda>b. CRow did cid (\<lambda>d b' k. P d b' k \<and> b' = b)) E"
  by (rule tripleI) (auto simp: the_build_Some elim!: CRowE, auto simp: CRow_def)

lemma CRow_cmd_record_event:
  "triple (CRow did cid P) (cmd_record_event did et st msg step level md) (\<lambda>_. CRow did cid P) E"
  unfolding cmd_record_event_def by (rule triple_bind [OF CRow_the_dep CRow_add_event])

lemma CRow_cmd_result_events:
  "triple (CRow did cid P) (cmd_result_events did step origin es) (\<lambda>_. CRow did cid P) E"
  by (induction es) (auto intro!: CRow_reads triple_bind [OF CRow_cmd_record_event])

definition cmd_held :: "string \<Rightarrow> command \<Rightarrow> bool" where
  "cmd_held wk k \<longleftrightarrow> c_status k = C_claimed \<and> c_claimed_by k = Some wk \<and> c_claimed_at k \<noteq> None"

lemma refresh_command_run:
  assumes "get_cmd (cur s) cid = Some k" "cmd_held wk k"
  shows "refresh_command_claim cid wk s =
    (Inr (), s\<lparr>cur := upd_cmd cid (guarded (cmd_refresh_update wk (clock s))) (cur s)\<rparr>)"
  using assms
  by (simp add: refresh_command_claim_def ensure_command_claim_owned_def query_def cmd_owned_def ret_def
      now_def the_cmd_def cmd_refresh_update_def cmd_held_def set_cmd_def store_def)

lemma CRow_refresh_command:
  assumes "\<And>d b k. P d b k \<Longrightarrow> cmd_held wk k" "\<And>d b k t. P d b k \<Longrightarrow> P d b (k\<lparr>c_claimed_at := Some t\<rparr>)"
  shows "triple (CRow did cid P) (refresh_command_claim cid wk) (\<lambda>_. CRow did cid P) E"
proof (rule tripleI)
  fix s assume "CRow did cid P s"
  then obtain d b k where r: "get_dep (cur s) did = Some d" "get_build (cur s) (d_build_id d) = Some b"
      "get_cmd (cur s) cid = Some k" "P d b k" by (rule CRowE)
  have "guarded (cmd_refresh_update wk (clock s)) k = k\<lparr>c_claimed_at := Some (clock s)\<rparr>"
    using assms(1) [OF r(4)] by (simp add: guarded_def cmd_refresh_update_def cmd_held_def)
  moreover have "c_id (guarded (cmd_refresh_update wk t) k) = c_id k" for t k
    by (simp add: guarded_def cmd_refresh_update_def)
  ultimately show "case refresh_command_claim cid wk s of
      (Inr _, s') \<Rightarrow> CRow did cid P s' | (Inl e, s') \<Rightarrow> E e s'"
    using r assms by (simp add: refresh_command_run CRow_def cmdt.get_upd)
qed

section \<open>The Helm guard\<close>

text \<open>A command on a Helm release of the deployment, while a newer deployment owns it.\<close>

definition shadowed :: "world \<Rightarrow> deployment \<Rightarrow> command \<Rightarrow> bool" where
  "shadowed w d k \<longleftrightarrow> c_command_type k \<in> {''stop'', ''cleanup''}
     \<and> d_deploy_target d = Some ''kubernetes''
     \<and> deployment_has_helm_release_metadata w d \<and> newer_owners w d \<noteq> []"

lemma newer_owners_frame [simp]:
  "newer_owners (upd_cmd i h w) d = newer_owners w d"
  "newer_owners (w\<lparr>events := es\<rparr>) d = newer_owners w d"
  by (simp_all add: newer_owners_def)

text \<open>An event without a deployment mode does not change the mode that is read back.\<close>

lemma first_value_filter:
  "first_value key (map g xs) = first_value key (map g (filter (\<lambda>x. metadata_value key (g x) \<noteq> None) xs))"
  by (induction xs) auto

lemma historical_add_event:
  assumes "metadata_value key (e_metadata_json e) = None"
  shows "historical_metadata_value (w\<lparr>events := events w @ [e]\<rparr>) d key = historical_metadata_value w d key"
proof -
  let ?V = "\<lambda>e. metadata_value key (e_metadata_json e) \<noteq> None"
  let ?w = "w\<lparr>events := events w @ [e]\<rparr>"
  have "first_value key (map e_metadata_json (sort_key e_id (events_of w' i)))
      = first_value key (map e_metadata_json (sort_key e_id (filter ?V (events_of w' i))))" for w' :: world and i
    by (subst first_value_filter) (simp add: filter_sort)
  moreover have "filter ?V (events_of ?w i) = filter ?V (events_of w i)" for i
    using assms by (simp add: events_of_def)
  ultimately have "first_value key (map e_metadata_json (sort_key e_id (events_of ?w i)))
      = first_value key (map e_metadata_json (sort_key e_id (events_of w i)))" for i
    by metis
  then show ?thesis by (simp only: historical_metadata_value_def)
qed

lemma has_release_add_event:
  assumes "metadata_value ''deployment_mode'' (e_metadata_json e) = None"
    and "deployment_has_helm_release_metadata w d"
  shows "deployment_has_helm_release_metadata (w\<lparr>events := events w @ [e]\<rparr>) d"
proof -
  let ?w = "w\<lparr>events := events w @ [e]\<rparr>"
  have "kubernetes_deployment_mode ?w d = kubernetes_deployment_mode w d"
    using historical_add_event [OF assms(1)] by (simp add: kubernetes_deployment_mode_def)
  moreover have "list_ex P (events_of w i) \<Longrightarrow> list_ex P (events_of ?w i)" for P i
    by (auto simp: events_of_def)
  ultimately show ?thesis
    using assms(2) unfolding deployment_has_helm_release_metadata_def by metis
qed

lemma has_release_add_event_iff:
  assumes "metadata_value ''deployment_mode'' (e_metadata_json e) = None"
    and "e_metadata_json e = JDict md" "\<not> jtrue (jget md ''helm_release_name'')"
  shows "deployment_has_helm_release_metadata (w\<lparr>events := events w @ [e]\<rparr>) d
    \<longleftrightarrow> deployment_has_helm_release_metadata w d"
proof -
  let ?w = "w\<lparr>events := events w @ [e]\<rparr>"
  let ?R = "\<lambda>e. case e_metadata_json e of
    JDict metadata \<Rightarrow> jtrue (jget metadata ''helm_release_name'') | _ \<Rightarrow> False"
  have "kubernetes_deployment_mode ?w d = kubernetes_deployment_mode w d"
    using historical_add_event [OF assms(1)] by (simp add: kubernetes_deployment_mode_def)
  moreover have "list_ex ?R (events_of ?w i) = list_ex ?R (events_of w i)" for i
    using assms(2,3) by (simp add: events_of_def)
  ultimately show ?thesis unfolding deployment_has_helm_release_metadata_def by simp
qed

lemma has_release_upd_cmd [simp]:
  "deployment_has_helm_release_metadata (upd_cmd i h w) d = deployment_has_helm_release_metadata w d"
proof -
  have ev: "events_of (upd_cmd i h w) j = events_of w j" for j by (simp add: events_of_def)
  then have "historical_metadata_value (upd_cmd i h w) d key = historical_metadata_value w d key" for key
    by (simp only: historical_metadata_value_def)
  then show ?thesis
    by (simp add: deployment_has_helm_release_metadata_def kubernetes_deployment_mode_def ev)
qed

lemma cmd_record_event_run:
  assumes "get_dep (cur s) did = Some d"
  shows "\<exists>ev. cmd_record_event did et st msg step level md s =
      (Inr (), s\<lparr>cur := (cur s)\<lparr>events := events (cur s) @ [ev]\<rparr>\<rparr>)
    \<and> e_metadata_json ev = JDict (if truthy (d_origin_request_id d)
         then jsetdefault ''origin_request_id'' (jopt (d_origin_request_id d)) md else md)"
proof -
  let ?md = "JDict (if truthy (d_origin_request_id d)
    then jsetdefault ''origin_request_id'' (jopt (d_origin_request_id d)) md else md)"
  let ?ev = "new_event did et (Some step) level st msg ?md (next_id e_id (events (cur s))) (clock s)"
  show ?thesis
    using assms
    by (intro exI [of _ ?ev]) (simp add: cmd_record_event_def the_dep_Some add_event_def store_def,
        simp add: new_event_def)
qed

lemma finish_command_stamp [simp]:
  "finish_command st err t (k\<lparr>c_claimed_at := a\<rparr>) = finish_command st err t k"
  by (simp add: finish_command_def)

lemma refreshed_cmd:
  assumes "get_cmd w cid = Some k" "cmd_held wk k"
  shows "get_cmd (upd_cmd cid (guarded (cmd_refresh_update wk t)) w) cid = Some (k\<lparr>c_claimed_at := Some t\<rparr>)"
proof -
  have "c_id (guarded (cmd_refresh_update wk t) k) = c_id k" for k
    by (simp add: guarded_def cmd_refresh_update_def)
  then show ?thesis
    using assms by (simp add: cmdt.get_upd guarded_def cmd_refresh_update_def cmd_held_def)
qed

lemma skip_run:
  assumes "get_dep (cur s) did = Some d" "get_cmd (cur s) cid = Some k" "cmd_held wk k" "shadowed (cur s) d k"
  shows "\<exists>s'. skip_historical_helm_command cid did wk s = (Inr (Some did), s') \<and> cur s' = com s'
    \<and> get_dep (com s') did = Some d
    \<and> get_cmd (com s') cid = Some (finish_command C_skipped None (clock s) k)"
proof -
  obtain i rest where owner: "newer_owners (cur s) d = i # rest"
    using assms(4) unfolding shadowed_def by (cases "newer_owners (cur s) d") auto
  let ?s1 = "s\<lparr>com := cur s, cur := upd_cmd cid (guarded (cmd_refresh_update wk (clock s))) (cur s)\<rparr>"
  have refresh: "refresh_command_claim cid wk (s\<lparr>com := cur s\<rparr>) = (Inr (), ?s1)"
    using assms(2,3) by (simp add: refresh_command_run [where k = k])
  have get: "get_cmd (cur ?s1) cid = Some (k\<lparr>c_claimed_at := Some (clock s)\<rparr>)"
    using refreshed_cmd [OF assms(2,3)] by simp
  obtain ev where ev: "cmd_record_event did (''deployment.'' @ c_command_type k @ ''_skipped'')
      (dep_status_name (d_status d)) (Some (''Skipped '' @ c_command_type k @ '' because deployment #''
        @ str_of_nat i @ '' owns the shared Helm release'')) (dep_step (c_command_type k)) ''warning''
      [(''command_id'', JInt (int cid)), (''newer_deployment_id'', JInt (int i)),
       (''reason'', JStr ''newer_deployment_owns_shared_helm_release'')] ?s1
      = (Inr (), ?s1\<lparr>cur := (cur ?s1)\<lparr>events := events (cur ?s1) @ [ev]\<rparr>\<rparr>)"
    using cmd_record_event_run [of ?s1 did d] assms(1) by fastforce
  show ?thesis
    using assms owner refresh get ev
    by (simp add: skip_historical_helm_command_def the_cmd_def the_dep_Some bind_def query_def
        shadowed_def newer_helm_workload_owner_id_def commit_def now_def set_cmd_def store_def ret_def
        cmdt.get_upd finish_command_def split: if_splits)
qed

text \<open>The guard skips the command whatever the executor would have done.\<close>

lemma shadowed_command_run:
  assumes "get_cmd (cur s) cid = Some k" "cmd_held wk k" "wk \<noteq> []"
    and "get_dep (cur s) (c_deployment_id k) = Some d" "shadowed (cur s) d k"
  shows "\<exists>s'. (\<forall>executor. process_deployment_command c cid executor s = (Inr (Some (c_deployment_id k)), s'))
    \<and> cur s' = com s' \<and> get_dep (com s') (c_deployment_id k) = Some d
    \<and> get_cmd (com s') cid = Some (finish_command C_skipped None (clock s) k)"
proof -
  let ?did = "c_deployment_id k"
  let ?k = "k\<lparr>c_claimed_at := Some (clock s)\<rparr>"
  let ?s1 = "s\<lparr>cur := upd_cmd cid (guarded (cmd_refresh_update wk (clock s))) (cur s)\<rparr>"
  let ?md = "[(''command_id'', JInt (int cid)), (''origin_request_id'', jopt (c_origin_request_id k))]"
  have refresh: "refresh_command_claim cid wk s = (Inr (), ?s1)"
    using refresh_command_run [OF assms(1,2)] .
  have get1: "get_cmd (cur ?s1) cid = Some ?k"
    using refreshed_cmd [OF assms(1,2)] by simp
  obtain ev where ev: "cmd_record_event ?did (''deployment.'' @ c_command_type k @ ''_started'')
        (dep_status_name (d_status d))
        (Some (or_str (c_message k) (''Processing deployment '' @ c_command_type k)))
        (dep_step (c_command_type k)) ''info'' ?md ?s1
      = (Inr (), ?s1\<lparr>cur := (cur ?s1)\<lparr>events := events (cur ?s1) @ [ev]\<rparr>\<rparr>)"
    and md: "e_metadata_json ev = JDict (if truthy (d_origin_request_id d)
         then jsetdefault ''origin_request_id'' (jopt (d_origin_request_id d)) ?md else ?md)"
    using cmd_record_event_run [of ?s1 ?did d] assms(4) by fastforce
  let ?w = "(cur ?s1)\<lparr>events := events (cur ?s1) @ [ev]\<rparr>"
  let ?s2 = "?s1\<lparr>com := ?w, cur := ?w\<rparr>"
  have none: "metadata_value ''deployment_mode'' (e_metadata_json ev) = None"
    by (simp add: md metadata_value_def nonempty_string_def)
  have "shadowed (cur ?s2) d ?k"
    using assms(5) has_release_add_event [OF none, of "cur ?s1" d] by (simp add: shadowed_def)
  moreover have "get_dep (cur ?s2) ?did = Some d" using assms(4) by simp
  moreover have "get_cmd (cur ?s2) cid = Some ?k" using get1 by simp
  moreover have "cmd_held wk ?k" using assms(2) by (simp add: cmd_held_def)
  ultimately obtain s' where s': "skip_historical_helm_command cid ?did wk ?s2 = (Inr (Some ?did), s')"
      "cur s' = com s'" "get_dep (com s') ?did = Some d"
      "get_cmd (com s') cid = Some (finish_command C_skipped None (clock ?s2) ?k)"
    using skip_run [of ?s2 ?did d cid ?k wk] by blast
  have start: "seqs [refresh_command_claim cid wk,
         cmd_record_event ?did (''deployment.'' @ c_command_type k @ ''_started'')
           (dep_status_name (d_status d))
           (Some (or_str (c_message k) (''Processing deployment '' @ c_command_type k)))
           (dep_step (c_command_type k)) ''info'' ?md, commit] s = (Inr (), ?s2)"
    by (rule seqs_run, rule refresh, rule seqs_run, rule ev) (simp add: commit_def ret_def bind_def)
  have run: "run_command c cid k wk executor s = (Inr (Some ?did), s')" for executor
    unfolding run_command_def Let_def
    by (subst bind_Inr, rule the_dep_Some, rule assms(4), subst bind_Inr, rule start,
        subst bind_Inr, rule s'(1)) (simp add: ret_def)
  have "or_str (c_claimed_by k) (worker_id c) = wk"
    using assms(2,3) by (simp add: or_str_def cmd_held_def)
  then have "process_deployment_command c cid executor s = (Inr (Some ?did), s')" for executor
    using assms(1) run by (simp add: process_deployment_command_def the_cmd_def)
  then show ?thesis using s' by (intro exI [of _ s']) simp
qed

section \<open>A command that succeeds\<close>

text \<open>
  The rows after a successful stop or cleanup of type \<open>ct\<close>: the deployment is stopped and
  has no runtime any more, a build that was still unfinished is cancelled by a stop only,
  and the command is over and lets a later request of its type in.
\<close>

definition stopped_end :: "string \<Rightarrow> build_status \<Rightarrow> deployment \<Rightarrow> build \<Rightarrow> command \<Rightarrow> bool" where
  "stopped_end ct bs d b k \<longleftrightarrow>
     d_status d = Stopped \<and> d_service_url d = None \<and> d_healthcheck_url d = None
     \<and> d_container_name d = None \<and> d_container_id d = None \<and> d_host_port d = None
     \<and> d_finished_at d \<noteq> None
     \<and> b_status b = (if ct = ''stop'' \<and> bs \<notin> {B_succeeded, B_failed, B_cancelled} then B_cancelled else bs)
     \<and> c_status k = C_succeeded \<and> c_active_key k = None \<and> c_claimed_by k = None
     \<and> c_claimed_at k = None \<and> c_completed_at k \<noteq> None \<and> c_last_error k = None"

lemma CRow_cancel_build:
  assumes "timeless Q" "\<And>d b k. P d b k \<Longrightarrow> b_status b = bs"
    and "\<And>d b k t. P d b k \<Longrightarrow> ct = ''stop'' \<Longrightarrow> bs \<notin> {B_succeeded, B_failed, B_cancelled} \<Longrightarrow>
      Q d (b\<lparr>b_status := B_cancelled, b_finished_at := Some t\<rparr>) k"
    and "\<And>d b k. P d b k \<Longrightarrow> ct \<noteq> ''stop'' \<or> bs \<in> {B_succeeded, B_failed, B_cancelled} \<Longrightarrow> Q d b k"
  shows "triple (CRow did cid P) (cancel_build ct did t) (\<lambda>_. CRow did cid Q) E"
proof (rule tripleI)
  fix s assume "CRow did cid P s"
  then obtain d b k where r: "get_dep (cur s) did = Some d" "get_build (cur s) (d_build_id d) = Some b"
      "get_cmd (cur s) cid = Some k" "P d b k" by (rule CRowE)
  have bs: "b_status b = bs" using assms(2) r(4) .
  show "case cancel_build ct did t s of (Inr _, s') \<Rightarrow> CRow did cid Q s' | (Inl e, s') \<Rightarrow> E e s'"
  proof (cases "ct = ''stop'' \<and> bs \<notin> {B_succeeded, B_failed, B_cancelled}")
    case False
    then have "cancel_build ct did t s = (Inr (), s)"
      using r bs by (auto simp: cancel_build_def the_build_Some whenp_def ret_def)
    then show ?thesis using r assms(4) [OF r(4)] False by (auto simp: CRow_def)
  next
    case True
    let ?f = "touch_build (clock s) (\<lambda>b. b\<lparr>b_status := B_cancelled\<rparr>)"
    let ?g = "touch_build (clock s) (\<lambda>b. b\<lparr>b_finished_at := Some t\<rparr>)"
    have can: "build_can_transition_to b B_cancelled"
      using True bs build_can_cancel [of bs] by (simp add: build_can_transition_to_def)
    have "cancel_build ct did t s = (Inr (), s\<lparr>cur := upd_build (d_build_id d) ?g
        (upd_build (d_build_id d) ?f (cur s))\<rparr>)"
      using r bs True can
      by (simp add: cancel_build_def the_build_Some whenp_def build_transition_to_def set_build_Some
          bldt.get_upd ret_def)
    moreover have "Q d (?g (?f b)) k"
    proof -
      have Q: "Q d (b\<lparr>b_status := B_cancelled, b_finished_at := Some t\<rparr>) k"
        using assms(3) [OF r(4)] True by blast
      have "?g (?f b) = (b\<lparr>b_status := B_cancelled, b_finished_at := Some t\<rparr>)
          \<lparr>b_updated_at := b_updated_at (?g (?f b))\<rparr>"
        using touch_build_cases [of "clock s" "\<lambda>b. b\<lparr>b_status := B_cancelled\<rparr>" b]
          touch_build_cases [of "clock s" "\<lambda>b. b\<lparr>b_finished_at := Some t\<rparr>" "?f b"] by auto
      then show ?thesis using Q assms(1) unfolding timeless_def by metis
    qed
    ultimately show ?thesis using r by (simp add: CRow_def bldt.get_upd)
  qed
qed

text \<open>An executor whose stop returns \<open>r\<close> and leaves the rows of the deployment and the command.\<close>

definition quiet_stop :: "executor \<Rightarrow> nat \<Rightarrow> nat \<Rightarrow> exec_result \<Rightarrow> bool" where
  "quiet_stop ex did cid r \<longleftrightarrow> (\<forall>w t. fst (ex_stop ex did (w, t)) = Inr r
     \<and> (let w' = fst (snd (ex_stop ex did (w, t)))
        in get_dep w' did = get_dep w did \<and> get_cmd w' cid = get_cmd w cid
           \<and> (\<forall>i. get_build w' i = get_build w i)))"

lemma CRow_quiet_stop:
  assumes "quiet_stop ex did cid r"
  shows "triple (CRow did cid P) (run_exec (ex_stop ex) did) (\<lambda>x s. x = r \<and> CRow did cid P s) E"
proof (rule tripleI)
  fix s assume s: "CRow did cid P s"
  obtain x w t where f: "ex_stop ex did (cur s, clock s) = (x, (w, t))" by (metis surj_pair)
  then have "x = Inr r" "get_dep w did = get_dep (cur s) did" "get_cmd w cid = get_cmd (cur s) cid"
      "get_build w = get_build (cur s)"
    using assms unfolding quiet_stop_def Let_def by (metis fst_conv snd_conv ext)+
  then show "case run_exec (ex_stop ex) did s of
      (Inr x, s') \<Rightarrow> x = r \<and> CRow did cid P s' | (Inl e, s') \<Rightarrow> E e s'"
    using f s by (simp add: run_exec_def CRow_def)
qed

definition CDone :: "nat \<Rightarrow> nat \<Rightarrow> (deployment \<Rightarrow> build \<Rightarrow> command \<Rightarrow> bool) \<Rightarrow> session \<Rightarrow> bool" where
  "CDone did cid P s \<longleftrightarrow> cur s = com s \<and> CRow did cid P s"

lemma CRow_commit: "triple (CRow did cid P) commit (\<lambda>_. CDone did cid P) E"
  by (simp add: triple_def commit_def CDone_def CRow_def)

lemma stop_tail:
  assumes "quiet_stop ex did cid r"
  shows "triple (CRow did cid (\<lambda>d b k. b_status b = bs \<and> cmd_held wk k))
    (bind (run_exec (ex_stop ex) did) (\<lambda>r. bind now (\<lambda>t. bind (seqs [
       refresh_command_claim cid wk,
       transition_to did Stopped,
       cancel_build ct did t,
       set_dep did (clear_runtime r t),
       persist_helm_runtime_metadata c did (r_metadata r),
       cmd_result_events did step origin (r_events r),
       cmd_record_event did et ''stopped'' (Some (r_message r)) step ''info'' (md r),
       set_cmd cid (finish_command C_succeeded None t),
       commit])
     (\<lambda>_. ret (Some did)))))
    (\<lambda>x s. x = Some did \<and> CDone did cid (stopped_end ct bs) s) E"
proof -
  let ?P0 = "\<lambda>d b k. b_status b = bs \<and> cmd_held wk k"
  let ?P1 = "\<lambda>d b (k::command). d_status d = Stopped \<and> b_status b = bs"
  let ?bs = "if ct = ''stop'' \<and> bs \<notin> {B_succeeded, B_failed, B_cancelled} then B_cancelled else bs"
  let ?P2 = "\<lambda>d b (k::command). d_status d = Stopped \<and> b_status b = ?bs"
  let ?P3 = "\<lambda>d b (k::command). d_status d = Stopped \<and> d_service_url d = None \<and> d_healthcheck_url d = None
     \<and> d_container_name d = None \<and> d_container_id d = None \<and> d_host_port d = None
     \<and> d_finished_at d \<noteq> None \<and> b_status b = ?bs"
  have can: "can_transition_to d Stopped" for d
    using dep_can_stop [of "d_status d"] by (cases "d_status d = Stopped") (auto simp: can_transition_to_def)
  have seq: "triple (CRow did cid ?P0) (seqs [
       refresh_command_claim cid wk,
       transition_to did Stopped,
       cancel_build ct did t,
       set_dep did (clear_runtime r t),
       persist_helm_runtime_metadata c did (r_metadata r),
       cmd_result_events did step origin (r_events r),
       cmd_record_event did et ''stopped'' (Some (r_message r)) step ''info'' (md r),
       set_cmd cid (finish_command C_succeeded None t),
       commit]) (\<lambda>_. CDone did cid (stopped_end ct bs)) E" for t
    unfolding persist_helm_runtime_metadata_def
    by (rule triple_seqs_Cons CRow_refresh_command CRow_transition [where Q = ?P1]
        CRow_cancel_build [where Q = ?P2 and bs = bs] CRow_set_dep [where Q = ?P3]
        CRow_cmd_result_events CRow_cmd_record_event CRow_set_cmd [where Q = "stopped_end ct bs"]
        CRow_commit triple_seqs_Nil frame_command frame_helm_metadata
        | simp add: can timeless_def cmd_held_def clear_runtime_def helm_metadata_def Let_def
            finish_command_def stopped_end_def)+
  show ?thesis
  proof (rule triple_bind [OF CRow_quiet_stop [OF assms]], rule triple_pure)
    fix x assume "x = r"
    show "triple (CRow did cid ?P0) (bind now (\<lambda>t. bind (seqs [
       refresh_command_claim cid wk,
       transition_to did Stopped,
       cancel_build ct did t,
       set_dep did (clear_runtime x t),
       persist_helm_runtime_metadata c did (r_metadata x),
       cmd_result_events did step origin (r_events x),
       cmd_record_event did et ''stopped'' (Some (r_message x)) step ''info'' (md x),
       set_cmd cid (finish_command C_succeeded None t),
       commit]) (\<lambda>_. ret (Some did))))
      (\<lambda>x s. x = Some did \<and> CDone did cid (stopped_end ct bs) s) E"
      unfolding \<open>x = r\<close>
      by (rule triple_bind [OF CRow_reads(1)], rule triple_bind [OF seq], rule triple_ret) simp
  qed
qed

lemma newer_owners_events [simp]: "newer_owners (w\<lparr>events := es\<rparr>) d = newer_owners w d"
  by (simp add: newer_owners_def)

lemma skip_none_run:
  assumes "get_dep (cur s) did = Some d" "get_cmd (cur s) cid = Some k" "\<not> shadowed (cur s) d k"
    and "com s = cur s"
  shows "skip_historical_helm_command cid did wk s = (Inr None, s)"
  using assms
  by (auto simp: skip_historical_helm_command_def the_cmd_def the_dep_Some bind_def query_def
      shadowed_def newer_helm_workload_owner_id_def commit_def ret_def)

text \<open>The rows of a deployment, its build and a claimed command that the Helm guard lets through.\<close>

definition command_ready ::
    "world \<Rightarrow> nat \<Rightarrow> command \<Rightarrow> deployment \<Rightarrow> build \<Rightarrow> string \<Rightarrow> bool" where
  "command_ready w cid k d b wk \<longleftrightarrow> get_cmd w cid = Some k \<and> cmd_held wk k \<and> wk \<noteq> []
     \<and> get_dep w (c_deployment_id k) = Some d \<and> get_build w (d_build_id d) = Some b
     \<and> \<not> shadowed w d k"

lemma command_success_run:
  assumes "command_ready (cur s) cid k d b wk" "quiet_stop ex (c_deployment_id k) cid r"
  shows "\<exists>s'. process_deployment_command c cid (Some ex) s = (Inr (Some (c_deployment_id k)), s')
    \<and> CDone (c_deployment_id k) cid (stopped_end (c_command_type k) (b_status b)) s'"
proof -
  let ?did = "c_deployment_id k"
  let ?k = "k\<lparr>c_claimed_at := Some (clock s)\<rparr>"
  let ?s1 = "s\<lparr>cur := upd_cmd cid (guarded (cmd_refresh_update wk (clock s))) (cur s)\<rparr>"
  let ?md = "[(''command_id'', JInt (int cid)), (''origin_request_id'', jopt (c_origin_request_id k))]"
  have k: "get_cmd (cur s) cid = Some k" "cmd_held wk k" "wk \<noteq> []"
    and d: "get_dep (cur s) ?did = Some d" and b: "get_build (cur s) (d_build_id d) = Some b"
    and free: "\<not> shadowed (cur s) d k"
    using assms(1) by (auto simp: command_ready_def)
  have refresh: "refresh_command_claim cid wk s = (Inr (), ?s1)"
    using refresh_command_run [OF k(1,2)] .
  obtain ev where ev: "cmd_record_event ?did (''deployment.'' @ c_command_type k @ ''_started'')
        (dep_status_name (d_status d))
        (Some (or_str (c_message k) (''Processing deployment '' @ c_command_type k)))
        (dep_step (c_command_type k)) ''info'' ?md ?s1
      = (Inr (), ?s1\<lparr>cur := (cur ?s1)\<lparr>events := events (cur ?s1) @ [ev]\<rparr>\<rparr>)"
    and md: "e_metadata_json ev = JDict (if truthy (d_origin_request_id d)
         then jsetdefault ''origin_request_id'' (jopt (d_origin_request_id d)) ?md else ?md)"
    using cmd_record_event_run [of ?s1 ?did d] d by fastforce
  let ?w = "(cur ?s1)\<lparr>events := events (cur ?s1) @ [ev]\<rparr>"
  let ?s2 = "?s1\<lparr>com := ?w, cur := ?w\<rparr>"
  have "deployment_has_helm_release_metadata ?w d = deployment_has_helm_release_metadata (cur ?s1) d"
    by (rule has_release_add_event_iff, simp add: md metadata_value_def nonempty_string_def, rule md) simp
  then have "\<not> shadowed (cur ?s2) d ?k" using free by (simp add: shadowed_def)
  moreover have get: "get_dep (cur ?s2) ?did = Some d" "get_cmd (cur ?s2) cid = Some ?k"
    using d refreshed_cmd [OF k(1,2)] by simp_all
  ultimately have skip: "skip_historical_helm_command cid ?did wk ?s2 = (Inr None, ?s2)"
    by (intro skip_none_run [where d = d and k = ?k]) simp_all
  have start: "seqs [refresh_command_claim cid wk,
         cmd_record_event ?did (''deployment.'' @ c_command_type k @ ''_started'')
           (dep_status_name (d_status d))
           (Some (or_str (c_message k) (''Processing deployment '' @ c_command_type k)))
           (dep_step (c_command_type k)) ''info'' ?md, commit] s = (Inr (), ?s2)"
    by (rule seqs_run, rule refresh, rule seqs_run, rule ev) (simp add: commit_def ret_def bind_def)
  let ?tail = "bind (run_exec (ex_stop ex) ?did) (\<lambda>r. bind now (\<lambda>t. bind (seqs [
       refresh_command_claim cid wk,
       transition_to ?did Stopped,
       cancel_build (c_command_type k) ?did t,
       set_dep ?did (clear_runtime r t),
       persist_helm_runtime_metadata c ?did (r_metadata r),
       cmd_result_events ?did (dep_step (c_command_type k)) (jopt (c_origin_request_id k)) (r_events r),
       cmd_record_event ?did
         (if c_command_type k = ''stop'' then ''deployment.stopped'' else ''deployment.cleanup_succeeded'')
         ''stopped'' (Some (r_message r)) (dep_step (c_command_type k)) ''info''
         (jmerge (r_metadata r)
            [(''command_id'', JInt (int cid)),
             (''log_path'', jopt (r_log_path r)),
             (''origin_request_id'', jopt (c_origin_request_id k))]),
       set_cmd cid (finish_command C_succeeded None t),
       commit]) (\<lambda>_. ret (Some ?did))))"
  have run: "run_command c cid k wk (Some ex) s = ?tail ?s2"
    unfolding run_command_def Let_def
    by (subst bind_Inr, rule the_dep_Some, rule d, subst bind_Inr, rule start,
        subst bind_Inr, rule skip, simp only: option.case, subst bind_Inr, rule the_dep_Some, rule get(1))
      (simp only: bind_query bind_lift option.case)
  have "CRow ?did cid (\<lambda>d' b' k'. b_status b' = b_status b \<and> cmd_held wk k') ?s2"
    using get b k(2) by (simp add: CRow_def cmd_held_def)
  then have "case ?tail ?s2 of (Inl e, s') \<Rightarrow> False
      | (Inr x, s') \<Rightarrow> x = Some ?did \<and> CDone ?did cid (stopped_end (c_command_type k) (b_status b)) s'"
    by (rule tripleD [OF stop_tail [OF assms(2)]])
  then have "\<exists>s'. ?tail ?s2 = (Inr (Some ?did), s')
      \<and> CDone ?did cid (stopped_end (c_command_type k) (b_status b)) s'"
    by (rule result_returned)
  then obtain s' where s': "?tail ?s2 = (Inr (Some ?did), s')"
      "CDone ?did cid (stopped_end (c_command_type k) (b_status b)) s'"
    by (elim exE conjE)
  have "or_str (c_claimed_by k) (worker_id c) = wk"
    using k(2,3) by (simp add: or_str_def cmd_held_def)
  then have "process_deployment_command c cid (Some ex) s = (Inr (Some ?did), s')"
    using k(1) run s'(1) by (simp add: process_deployment_command_def the_cmd_def)
  then show ?thesis using s'(2) by blast
qed

end
