(* ===== verification/Reconcile_Outcome.thy ===== *)
theory Reconcile_Outcome
  imports Reconcile Pipeline_Outcome Command_Outcome
begin

text \<open>
  The lemmas of the reconciler: its rules keep the invariants of the database; a fresh
  claim is left alone; an expired one is released, and an unfinished attempt becomes failed
  together with its build; and the case in which that repair raises.
\<close>

section \<open>The rules keep the invariants of the database\<close>

lemma keeps_attempt [step_rules]: "keeps I m \<Longrightarrow> keeps I (attempt m)"
  unfolding keeps_def attempt_def by (auto split: prod.splits)

lemma keeps_case_sum [step_rules]:
  "(\<And>e. keeps I (f e)) \<Longrightarrow> (\<And>x. keeps I (g x)) \<Longrightarrow> keeps I (case r of Inl e \<Rightarrow> f e | Inr x \<Rightarrow> g x)"
  by (cases r) auto

lemma keeps_case_JStr:
  "(\<And>s. keeps I (f s)) \<Longrightarrow> keeps I m \<Longrightarrow> keeps I (case j of JStr s \<Rightarrow> f s | _ \<Rightarrow> m)"
  by (cases j) auto

lemma frame_reconcile [step_rules]: "frame_dep (\<lambda>d. d\<lparr>d_service_url := a\<rparr>)"
  by (simp add: frame_dep_def)

text \<open>Every executor that the factory can make, and a cached one, keeps the property.\<close>

definition factory_keeps :: "(world \<Rightarrow> bool) \<Rightarrow> cfg \<Rightarrow> bool" where
  "factory_keeps I c \<longleftrightarrow>
     (\<forall>w d ex. create_executor_for_deployment c w d = Inr ex \<longrightarrow> executor_keeps I ex)
     \<and> (\<forall>ex. create_executor c = Inr ex \<longrightarrow> executor_keeps I ex)"

definition cache_keeps :: "(world \<Rightarrow> bool) \<Rightarrow> executor option \<Rightarrow> bool" where
  "cache_keeps I cache \<longleftrightarrow> (case cache of None \<Rightarrow> True | Some ex \<Rightarrow> executor_keeps I ex)"

text \<open>A step that keeps the property and yields an executor that keeps it.\<close>

definition yields :: "(world \<Rightarrow> bool) \<Rightarrow> ('a \<Rightarrow> bool) \<Rightarrow> 'a proc \<Rightarrow> bool" where
  "yields I R m \<longleftrightarrow> keeps I m \<and> (\<forall>s x s'. I (com s) \<and> I (cur s) \<and> m s = (Inr x, s') \<longrightarrow> R x)"

lemma keeps_bind_yields: "yields I R m \<Longrightarrow> (\<And>x. R x \<Longrightarrow> keeps I (k x)) \<Longrightarrow> keeps I (bind m k)"
  unfolding keeps_def [of I "bind m k"]
proof (intro allI impI)
  fix s :: session assume m: "yields I R m" and k: "\<And>x. R x \<Longrightarrow> keeps I (k x)" and s: "I (com s) \<and> I (cur s)"
  obtain r s1 where r: "m s = (r, s1)" by (metis surj_pair)
  then have s1: "I (com s1) \<and> I (cur s1)" using m s keepsD [of I m s] by (auto simp: yields_def)
  show "I (com (snd (bind m k s))) \<and> I (cur (snd (bind m k s)))"
  proof (cases r)
    case (Inl e)
    then show ?thesis using r s1 by simp
  next
    case (Inr x)
    then have "R x" using m s r unfolding yields_def by blast
    then show ?thesis using k s1 r Inr by (simp add: keeps_def)
  qed
qed

lemma yields_bind:
  "yields I R m \<Longrightarrow> (\<And>x. R x \<Longrightarrow> yields I S (k x)) \<Longrightarrow> yields I S (bind m k)"
  unfolding yields_def
proof (intro conjI allI impI)
  assume m: "keeps I m \<and> (\<forall>s x s'. I (com s) \<and> I (cur s) \<and> m s = (Inr x, s') \<longrightarrow> R x)"
    and k: "\<And>x. R x \<Longrightarrow> keeps I (k x) \<and> (\<forall>s y s'. I (com s) \<and> I (cur s) \<and> k x s = (Inr y, s') \<longrightarrow> S y)"
  show "keeps I (bind m k)"
    by (rule keeps_bind_yields [of I R]) (use m k in \<open>auto simp: yields_def\<close>)
  fix s y s' assume s: "I (com s) \<and> I (cur s) \<and> bind m k s = (Inr y, s')"
  then obtain x s1 where x: "m s = (Inr x, s1)" "k x s1 = (Inr y, s')"
    by (auto simp: bind_def split: prod.splits sum.splits)
  then have "R x" "I (com s1) \<and> I (cur s1)" using m s keepsD [of I m s "Inr x" s1] by auto
  then show "S y" using k x(2) by blast
qed

lemma yields_ret: "R x \<Longrightarrow> yields I R (ret x)"
  by (simp add: yields_def keeps_ret) (simp add: ret_def)

lemma yields_any: "keeps I m \<Longrightarrow> yields I (\<lambda>_. True) m"
  by (simp add: yields_def)

lemma yields_executor_for:
  assumes "factory_keeps I c" "cache_keeps I cache"
  shows "yields I (executor_keeps I) (executor_for c did cache)"
proof (cases cache)
  case (Some ex)
  then show ?thesis using assms(2) by (simp add: executor_for_def cache_keeps_def yields_ret)
next
  case None
  have "keeps I (executor_for c did cache)"
    unfolding executor_for_def using None by (auto intro: step_rules)
  then show ?thesis
    using assms(1) None
    by (auto simp: yields_def executor_for_def bind_def the_dep_def query_def lift_def factory_keeps_def
        split: option.splits prod.splits sum.splits)
qed

text \<open>A rule keeps the property and hands on an executor that does.\<close>

definition rule_keeps :: "(world \<Rightarrow> bool) \<Rightarrow> rule \<Rightarrow> bool" where
  "rule_keeps I r \<longleftrightarrow> (\<forall>cache. cache_keeps I cache \<longrightarrow> yields I (\<lambda>(b, cache'). cache_keeps I cache') (r cache))"

lemma rule_keeps_ruled:
  assumes "factory_keeps I c" "\<And>ex. executor_keeps I ex \<Longrightarrow> keeps I (body ex)"
  shows "rule_keeps I (ruled c did guard body)"
  unfolding rule_keeps_def ruled_def
proof (intro allI impI)
  fix cache assume cache: "cache_keeps I cache"
  have use: "yields I (\<lambda>(b, cache'). cache_keeps I cache')
      (bind (executor_for c did cache) (\<lambda>ex. bind (body ex) (\<lambda>b. ret (b, Some ex))))"
    by (rule yields_bind [OF yields_executor_for [OF assms(1) cache]],
        rule yields_bind [OF yields_any [OF assms(2)]], assumption, rule yields_ret)
      (simp add: cache_keeps_def)
  show "yields I (\<lambda>(b, cache'). cache_keeps I cache') (bind (the_dep did) (\<lambda>d. bind (query (\<lambda>w. guard w d))
      (\<lambda>applies. if \<not> applies then ret (False, cache)
        else bind (executor_for c did cache) (\<lambda>ex. bind (body ex) (\<lambda>b. ret (b, Some ex))))))"
    by (rule yields_bind [OF yields_any [OF keeps_the_dep]], rule yields_bind [OF yields_any [OF keeps_query]])
      (use use cache in \<open>auto intro: yields_ret\<close>)
qed

lemma keeps_run_rules:
  assumes "\<And>r. r \<in> set rs \<Longrightarrow> rule_keeps I r" "cache_keeps I cache"
  shows "keeps I (run_rules rs cache n)"
  using assms
proof (induction rs arbitrary: cache n)
  case Nil
  then show ?case by (simp add: keeps_ret)
next
  case (Cons r rs)
  have "yields I (\<lambda>(b, cache'). cache_keeps I cache') (r cache)"
    using Cons.prems by (simp add: rule_keeps_def)
  then show ?case
    using Cons by (auto intro!: keeps_bind_yields [of I "\<lambda>(b, cache'). cache_keeps I cache'"])
qed

context world_invariant
begin

lemma keeps_record_reconcile_event: "keeps I (record_reconcile_event c did et msg level md st)"
  unfolding record_reconcile_event_def by (intro step_rules keeps_claims)

lemma keeps_record_failure: "keeps I (record_failure c did et txt act extra e)"
  unfolding record_failure_def by (rule keeps_record_reconcile_event)

lemma keeps_recorded: "keeps I m \<Longrightarrow> keeps I (recorded m)"
  unfolding recorded_def by (intro step_rules)

lemma keeps_reconcile_stale_claim: "keeps I (reconcile_stale_claim c did)"
  unfolding reconcile_stale_claim_def recover_stale_claim_def Let_def
  by (intro step_rules keeps_claims keeps_record_reconcile_event)

lemma keeps_reconcile_missing_deploy_target: "keeps I (reconcile_missing_deploy_target c did)"
  unfolding reconcile_missing_deploy_target_def
  by (intro step_rules keeps_case_JStr keeps_claims keeps_record_reconcile_event)

lemma keeps_mark_runtime_missing: "keeps I (mark_runtime_missing did err)"
  unfolding mark_runtime_missing_def by (intro step_rules keeps_claims)

lemma keeps_diagnostics: "executor_keeps I ex \<Longrightarrow> keeps I (diagnostics_of ex did tag)"
  unfolding diagnostics_of_def by (intro step_rules)

lemmas keeps_rule_rules = step_rules keeps_recorded keeps_record_failure keeps_record_reconcile_event
  keeps_mark_runtime_missing keeps_diagnostics

lemma rules_keep:
  assumes "factory_keeps I c" "r \<in> set (reconcile_rules c did)"
  shows "rule_keeps I r"
proof -
  have container: "rule_keeps I (reconcile_running_missing_container c did)"
    unfolding reconcile_running_missing_container_def
    by (rule rule_keeps_ruled [OF assms(1)]) (intro keeps_rule_rules)
  have helm: "rule_keeps I (reconcile_running_missing_helm_release c did)"
    unfolding reconcile_running_missing_helm_release_def
    by (rule rule_keeps_ruled [OF assms(1)]) (intro keeps_rule_rules)
  have kube: "rule_keeps I (reconcile_running_missing_kubernetes_resource c did)"
    unfolding reconcile_running_missing_kubernetes_resource_def Let_def
    by (rule rule_keeps_ruled [OF assms(1)]) (intro keeps_rule_rules)
  have kube_rest: "rule_keeps I (reconcile_kubernetes_nonrunning_resources c did)"
    unfolding reconcile_kubernetes_nonrunning_resources_def Let_def
    by (rule rule_keeps_ruled [OF assms(1)]) (intro keeps_rule_rules)
  have use: "yields I (\<lambda>(b, cache'). cache_keeps I cache')
      (bind (executor_for c did cache) (\<lambda>ex. bind (body ex) (\<lambda>b. ret (b, Some ex))))"
    if "cache_keeps I cache" "\<And>ex. executor_keeps I ex \<Longrightarrow> keeps I (body ex)"
    for cache and body :: "executor \<Rightarrow> bool proc"
    by (rule yields_bind [OF yields_executor_for [OF assms(1) that(1)]],
        rule yields_bind [OF yields_any [OF that(2)]], assumption, rule yields_ret)
      (simp add: cache_keeps_def)
  have artifacts: "rule_keeps I (reconcile_failed_artifacts c did)"
    unfolding rule_keeps_def reconcile_failed_artifacts_def
  proof (intro allI impI yields_bind [OF yields_any [OF keeps_the_dep]])
    fix cache d assume cache: "cache_keeps I cache"
    note body = use [OF cache, where body = "\<lambda>ex.
         bind (attempt (bind (run_exec (ex_container_exists ex) did) (\<lambda>exists.
                 if exists then bind (run_exec (ex_stop ex) did) (\<lambda>r. ret (Some r)) else ret None)))
           (\<lambda>res. case res of
             Inl e \<Rightarrow> recorded (record_failure c did ''reconcile.cleanup_failed''
                 ''Failed to remove orphan container: '' ''container_cleanup'' [] e)
           | Inr None \<Rightarrow> bind commit (\<lambda>_. ret False)
           | Inr (Some r) \<Rightarrow> bind (seqs [
               record_reconcile_event c did ''reconcile.container_removed''
                 ''Removed orphan container from failed deployment'' ''info''
                 (jmerge (r_metadata r) [(''log_path'', jopt (r_log_path r))]) ''reconcile'',
               commit])
               (\<lambda>_. ret True))"]
    show "yields I (\<lambda>(b, cache'). cache_keeps I cache')
      (if d_status d \<noteq> Failed then ret (False, cache)
       else if d_deploy_target d \<noteq> Some ''local-docker'' then bind commit (\<lambda>_. ret (False, cache))
       else bind (executor_for c did cache) (\<lambda>ex. bind (
         bind (attempt (bind (run_exec (ex_container_exists ex) did) (\<lambda>exists.
                 if exists then bind (run_exec (ex_stop ex) did) (\<lambda>r. ret (Some r)) else ret None)))
           (\<lambda>res. case res of
             Inl e \<Rightarrow> recorded (record_failure c did ''reconcile.cleanup_failed''
                 ''Failed to remove orphan container: '' ''container_cleanup'' [] e)
           | Inr None \<Rightarrow> bind commit (\<lambda>_. ret False)
           | Inr (Some r) \<Rightarrow> bind (seqs [
               record_reconcile_event c did ''reconcile.container_removed''
                 ''Removed orphan container from failed deployment'' ''info''
                 (jmerge (r_metadata r) [(''log_path'', jopt (r_log_path r))]) ''reconcile'',
               commit])
               (\<lambda>_. ret True)))
         (\<lambda>b. ret (b, Some ex))))"
      using cache by (auto intro!: yields_ret yields_bind [OF yields_any [OF keeps_commit]] body
          keeps_rule_rules)
  qed
  have helm_rest: "rule_keeps I (reconcile_helm_nonrunning_release c did)"
    unfolding rule_keeps_def reconcile_helm_nonrunning_release_def
  proof (intro allI impI yields_bind [OF yields_any [OF keeps_the_dep]]
      yields_bind [OF yields_any [OF keeps_query]])
    fix cache d has assume cache: "cache_keeps I cache"
    note body = use [OF cache]
    show "yields I (\<lambda>(b, cache'). cache_keeps I cache')
      (if d_deploy_target d \<noteq> Some ''kubernetes'' \<or> d_status d \<notin> {Failed, Stopped} then ret (False, cache)
       else if \<not> has then ret (False, cache)
       else bind (newer_helm_workload_owner_id did) (\<lambda>owner.
         if owner \<noteq> None then ret (False, cache)
         else bind (executor_for c did cache) (\<lambda>ex. bind (
           bind (attempt (run_exec (ex_runtime_helm_status ex) did)) (\<lambda>res. case res of
             Inl e \<Rightarrow> recorded (record_failure c did ''reconcile.helm_cleanup_failed''
                 ''Failed to inspect Helm release for cleanup: '' ''helm_release_cleanup_inspect'' [] e)
           | Inr helm_status \<Rightarrow> (case helm_status of
               None \<Rightarrow> ret False
             | Some status \<Rightarrow>
                 if \<not> jtrue (jget status ''release_exists'') then ret False
                 else bind (attempt (run_exec (ex_stop ex) did)) (\<lambda>stopped. case stopped of
                   Inl e \<Rightarrow> recorded (record_failure c did ''reconcile.helm_cleanup_failed''
                       ''Failed to remove leftover Helm release: '' ''helm_release_cleanup''
                       (helm_fields status) e)
                 | Inr r \<Rightarrow> bind (seqs [
                     record_reconcile_event c did ''reconcile.helm_release_removed''
                       ''Removed leftover Helm release from non-running deployment'' ''info''
                       (jmerge (r_metadata r) ((''log_path'', jopt (r_log_path r)) # helm_fields status))
                       ''reconcile'',
                     commit])
                     (\<lambda>_. ret True)))))
           (\<lambda>b. ret (b, Some ex)))))"
      using cache
      by (auto intro!: yields_ret yields_bind [OF yields_any [OF keeps_lift_query]] body keeps_rule_rules)
  qed
  show ?thesis
    using assms(2) container helm kube helm_rest kube_rest artifacts by (auto simp: reconcile_rules_def)
qed

lemma keeps_reconcile_deployment: "factory_keeps I c \<Longrightarrow> keeps I (reconcile_deployment c did)"
  unfolding reconcile_deployment_def
  by (intro keeps_bind keeps_reconcile_stale_claim keeps_reconcile_missing_deploy_target keeps_run_rules)
    (auto simp: cache_keeps_def intro: rules_keep)

lemma keeps_reconcile_each: "factory_keeps I c \<Longrightarrow> keeps I (reconcile_each c dids n)"
  by (induction dids arbitrary: n) (auto intro!: step_rules keeps_reconcile_deployment)

lemma keeps_reconcile_deployments: "factory_keeps I c \<Longrightarrow> keeps I (reconcile_deployments c)"
  unfolding reconcile_deployments_def by (intro step_rules keeps_reconcile_each)

end

section \<open>Expired claims\<close>

definition stale_claim :: "cfg \<Rightarrow> int \<Rightarrow> deployment \<Rightarrow> bool" where
  "stale_claim c t d \<longleftrightarrow> (case d_claimed_at d of None \<Rightarrow> False | Some u \<Rightarrow> u < t - claim_ttl c)"

lemma fresh_claim_untouched:
  assumes "get_dep (cur s) did = Some d" "\<not> stale_claim c (clock s) d"
  shows "reconcile_stale_claim c did s = (Inr False, s)"
  using assms
  by (auto simp: reconcile_stale_claim_def the_dep_Some now_def stale_claim_def ret_def split: option.splits)

lemma Row_record_reconcile_event:
  "triple (Row did P) (record_reconcile_event c did et msg level md st) (\<lambda>_. Row did P) E"
  unfolding record_reconcile_event_def by (rule triple_bind [OF Row_the_dep Row_record_event])

definition unclaimed :: "deployment \<Rightarrow> bool" where
  "unclaimed d \<longleftrightarrow> d_claimed_at d = None \<and> d_claimed_by d = None"

lemma Row_release:
  "(\<And>d b. P d b \<Longrightarrow> Q (drop_claim d) b) \<Longrightarrow> (\<And>d b t. Q d b \<Longrightarrow> Q (d\<lparr>d_updated_at := t\<rparr>) b) \<Longrightarrow>
    triple (Row did P) (release_deployment_claim did) (\<lambda>_. Row did Q) E"
  unfolding release_deployment_claim_eq
  by (rule Row_set_dep) (simp_all add: frame_dep_def drop_claim_def)

text \<open>The repair of an attempt that was in progress.\<close>

lemma Row_recover:
  assumes "ds \<in> set IN_PROGRESS_STATUSES" "bs \<noteq> B_cancelled"
  shows "triple (Row did (\<lambda>d b. d_status d = ds \<and> b_status b = bs))
    (seqs [
       release_deployment_claim did,
       transition_to did Failed,
       set_dep did (\<lambda>d. d\<lparr>d_finished_at := Some t, d_last_error := Some m\<rparr>),
       build_transition_to did B_failed,
       set_build did (\<lambda>b. b\<lparr>b_finished_at := Some t, b_last_error := Some m\<rparr>),
       record_reconcile_event c did et msg level md st]) (\<lambda>_. Row did failed_end) E"
proof -
  let ?P1 = "\<lambda>d b. d_status d = ds \<and> b_status b = bs \<and> unclaimed d"
  let ?P2 = "\<lambda>d b. d_status d = Failed \<and> b_status b = bs \<and> unclaimed d"
  let ?P3 = "\<lambda>d b. ?P2 d b \<and> d_finished_at d \<noteq> None \<and> d_last_error d = Some m"
  let ?P4 = "\<lambda>d b. d_status d = Failed \<and> b_status b = B_failed \<and> unclaimed d \<and> d_finished_at d \<noteq> None
    \<and> d_last_error d = Some m"
  have can: "can_transition_to d Failed" if "d_status d = ds" for d
    using assms(1) dep_can_fail [of ds] that by (auto simp: IN_PROGRESS_STATUSES_def can_transition_to_def)
  have bcan: "build_can_transition_to b B_failed" if "b_status b = bs" for b
    using assms(2) build_can_fail [of bs] that
    by (cases "bs = B_failed") (auto simp: build_can_transition_to_def)
  show ?thesis
    by (rule triple_seqs_Cons Row_release [where Q = ?P1] Row_transition [where Q = ?P2]
        Row_set_dep [where Q = ?P3] Row_build_transition [where Q = ?P4]
        Row_set_build [where Q = failed_end] Row_record_reconcile_event triple_seqs_Nil frame_lifecycle
        | simp add: can bcan unclaimed_def drop_claim_def failed_end_def attempt_over_def)+
qed

lemma stale_run:
  assumes "get_dep (cur s) did = Some d" "stale_claim c (clock s) d"
  shows "reconcile_stale_claim c did s =
    bind (recover_stale_claim c did d (the (d_claimed_at d)) (clock s)) (\<lambda>_. bind commit (\<lambda>_. ret True)) s"
  using assms
  by (auto simp: reconcile_stale_claim_def the_dep_Some now_def stale_claim_def split: option.splits)

lemma stale_in_progress_run:
  assumes "get_dep (cur s) did = Some d" "get_build (cur s) (d_build_id d) = Some b"
    and "stale_claim c (clock s) d" "d_status d \<in> set IN_PROGRESS_STATUSES" "b_status b \<noteq> B_cancelled"
  shows "\<exists>s'. reconcile_stale_claim c did s = (Inr True, s') \<and> Committed did failed_end s'"
proof -
  let ?P = "\<lambda>d' b'. d_status d' = d_status d \<and> b_status b' = b_status b"
  have "d_status d \<noteq> Pending" using assms(4) by (auto simp: IN_PROGRESS_STATUSES_def)
  then have "triple (Row did ?P) (recover_stale_claim c did d u (clock s)) (\<lambda>_. Row did failed_end) E" for u E
    unfolding recover_stale_claim_def Let_def using assms(4) Row_recover [OF assms(4,5)]
    by (simp only: if_True if_False simp_thms)
  then have "triple (Row did ?P)
      (bind (recover_stale_claim c did d u (clock s)) (\<lambda>_. bind commit (\<lambda>_. ret True)))
      (\<lambda>x s'. x = True \<and> Committed did failed_end s') (\<lambda>e s. False)" for u
    by (rule triple_bind, intro triple_bind [OF Row_commit] triple_ret) simp
  moreover have "Row did ?P s" using assms(1,2) by (auto simp: Row_def)
  ultimately have "case reconcile_stale_claim c did s of (Inl e, s') \<Rightarrow> False
      | (Inr x, s') \<Rightarrow> x = True \<and> Committed did failed_end s'"
    unfolding stale_run [OF assms(1,3)] by (rule tripleD)
  then show ?thesis by (rule result_returned)
qed

lemma stale_other_run:
  assumes "get_dep (cur s) did = Some d" "get_build (cur s) (d_build_id d) = Some b"
    and "stale_claim c (clock s) d" "d_status d \<notin> set IN_PROGRESS_STATUSES"
  shows "\<exists>s'. reconcile_stale_claim c did s = (Inr True, s')
    \<and> Committed did (\<lambda>d' b'. unclaimed d' \<and> d_status d' = d_status d \<and> b' = b) s'"
proof -
  let ?P = "\<lambda>d' b'. d' = d \<and> b' = b"
  let ?Q = "\<lambda>d' b'. unclaimed d' \<and> d_status d' = d_status d \<and> b' = b"
  have "triple (Row did ?P) (seqs [release_deployment_claim did,
         record_reconcile_event c did et msg level md st]) (\<lambda>_. Row did ?Q) E" for et msg level md st E
    by (rule triple_seqs_Cons Row_release [where Q = ?Q] Row_record_reconcile_event triple_seqs_Nil
        | simp add: unclaimed_def drop_claim_def)+
  then have "triple (Row did ?P) (recover_stale_claim c did d u (clock s)) (\<lambda>_. Row did ?Q) E" for u E
    unfolding recover_stale_claim_def Let_def using assms(4) by (simp only: if_True if_False simp_thms split: if_split)
  then have "triple (Row did ?P)
      (bind (recover_stale_claim c did d u (clock s)) (\<lambda>_. bind commit (\<lambda>_. ret True)))
      (\<lambda>x s'. x = True \<and> Committed did ?Q s') (\<lambda>e s. False)" for u
    by (rule triple_bind, intro triple_bind [OF Row_commit] triple_ret) simp
  moreover have "Row did ?P s" using assms(1,2) by (auto simp: Row_def)
  ultimately have "case reconcile_stale_claim c did s of (Inl e, s') \<Rightarrow> False
      | (Inr x, s') \<Rightarrow> x = True \<and> Committed did ?Q s'"
    unfolding stale_run [OF assms(1,3)] by (rule tripleD)
  then show ?thesis by (rule result_returned)
qed

section \<open>When the repair raises\<close>

text \<open>
  A build can be cancelled by an operator while its deployment is still in progress; its
  table allows no way out of \<open>cancelled\<close>, so the repair of the expired claim raises and
  everything it wrote is rolled back.
\<close>

lemma stale_cancelled_raises:
  assumes "get_dep (cur s) did = Some d" "get_build (cur s) (d_build_id d) = Some b"
    and "stale_claim c (clock s) d" "d_status d \<in> set IN_PROGRESS_STATUSES" "b_status b = B_cancelled"
  shows "\<exists>s'. reconcile_stale_claim c did s = (Inl (OtherExn ''ValueError''
      ''Invalid build transition from cancelled to failed''), s') \<and> com s' = com s \<and> clock s' = clock s"
proof -
  let ?e = "OtherExn ''ValueError'' ''Invalid build transition from cancelled to failed''"
  let ?f1 = "touch_dep (clock s) drop_claim"
  let ?f2 = "touch_dep (clock s) (\<lambda>d. d\<lparr>d_status := Failed\<rparr>)"
  let ?f3 = "touch_dep (clock s) (\<lambda>d. d\<lparr>d_finished_at := Some (clock s), d_last_error := Some STALE_CLAIM_ERROR\<rparr>)"
  let ?w1 = "upd_dep did ?f1 (cur s)" let ?w2 = "upd_dep did ?f2 ?w1" let ?w3 = "upd_dep did ?f3 ?w2"
  have ids: "d_id (?f1 x) = d_id x" "d_id (?f2 x) = d_id x" "d_id (?f3 x) = d_id x" for x
    by (simp_all add: drop_claim_def)
  have st: "d_status (?f1 d) = d_status d" and bid: "d_build_id (?f3 (?f2 (?f1 d))) = d_build_id d"
    by (simp_all add: drop_claim_def)
  have can: "can_transition_to (?f1 d) Failed"
    using assms(4) dep_can_fail [of "d_status d"] st by (auto simp: IN_PROGRESS_STATUSES_def can_transition_to_def)
  have get1: "get_dep ?w1 did = Some (?f1 d)" by (rule deps.get_upd_same [OF ids(1) assms(1)])
  have get2: "get_dep ?w2 did = Some (?f2 (?f1 d))" by (rule deps.get_upd_same [OF ids(2) get1])
  have get3: "get_dep ?w3 did = Some (?f3 (?f2 (?f1 d)))" by (rule deps.get_upd_same [OF ids(3) get2])
  have 1: "release_deployment_claim did s = (Inr (), s\<lparr>cur := ?w1\<rparr>)"
    using assms(1) by (simp add: release_deployment_claim_eq set_dep_Some)
  have 2: "transition_to did Failed (s\<lparr>cur := ?w1\<rparr>) = (Inr (), s\<lparr>cur := ?w2\<rparr>)"
    using get1 can by (simp add: transition_to_def the_dep_Some set_dep_Some)
  have 3: "set_dep did (\<lambda>d. d\<lparr>d_finished_at := Some (clock s), d_last_error := Some STALE_CLAIM_ERROR\<rparr>)
      (s\<lparr>cur := ?w2\<rparr>) = (Inr (), s\<lparr>cur := ?w3\<rparr>)"
    using get2 by (simp add: set_dep_Some)
  have "get_build ?w3 (d_build_id (?f3 (?f2 (?f1 d)))) = Some b" using assms(2) bid by simp
  then have 4: "build_transition_to did B_failed (s\<lparr>cur := ?w3\<rparr>) = (Inl ?e, s\<lparr>cur := ?w3\<rparr>)"
    using the_build_Some [of "s\<lparr>cur := ?w3\<rparr>" did "?f3 (?f2 (?f1 d))" b] get3 assms(5)
    by (simp add: build_transition_to_def build_can_transition_to_def throw_def)
  have "d_status d \<noteq> Pending" using assms(4) by (auto simp: IN_PROGRESS_STATUSES_def)
  note branch = recover_stale_claim_def Let_def
  have "recover_stale_claim c did d u (clock s) s = (Inl ?e, s\<lparr>cur := ?w3\<rparr>)" for u
    unfolding branch using assms(4) \<open>d_status d \<noteq> Pending\<close>
    apply (simp only: if_True if_False simp_thms)
    apply (rule seqs_run, rule 1, rule seqs_run, rule 2, rule seqs_run, rule 3)
    apply (simp only: seqs.simps)
    apply (rule bind_Inl, rule 4)
    done
  then have "reconcile_stale_claim c did s = (Inl ?e, s\<lparr>cur := ?w3\<rparr>)"
    unfolding stale_run [OF assms(1,3)] by (rule bind_Inl)
  then show ?thesis by simp
qed

lemma stuck_pass:
  assumes "get_dep (com s) did = Some d" "get_build (com s) (d_build_id d) = Some b" "cur s = com s"
    and "stale_claim c (clock s) d" "d_status d \<in> set IN_PROGRESS_STATUSES" "b_status b = B_cancelled"
  shows "reconcile_each c (did # dids) n s = reconcile_each c dids n s"
proof -
  obtain s' where s': "reconcile_stale_claim c did s = (Inl (OtherExn ''ValueError''
      ''Invalid build transition from cancelled to failed''), s')" "com s' = com s" "clock s' = clock s"
    using stale_cancelled_raises [of s did d b c] assms by auto
  then have "s'\<lparr>cur := com s'\<rparr> = s" using assms(3) by (cases s; cases s') simp
  then show ?thesis
    using s' by (simp add: reconcile_deployment_def attempt_def bind_def rollback_def)
qed

end
