(* ===== verification/Invariants.thy ===== *)
theory Invariants
  imports Reconcile_Outcome
begin

text \<open>
  The invariants of the database under every work item and every reconciler pass, each an
  interpretation of \<open>world_invariant\<close>: the history of the rows (a status only moves along
  its transition table, a deployment keeps its project, build and specification, a finished
  command stays finished, the timeline is only appended to) and the active commands (the
  active key is set exactly while a command is active, and a deployment has at most one
  active command of a type). The polling loops of \<open>worker/cli.py\<close> repeat those passes.
\<close>

section \<open>Histories\<close>

definition dep_history :: "deployment \<Rightarrow> deployment \<Rightarrow> bool" where
  "dep_history d d' \<longleftrightarrow> path dep_next (d_status d) (d_status d')
     \<and> d_project_id d' = d_project_id d \<and> d_build_id d' = d_build_id d
     \<and> d_environment d' = d_environment d \<and> d_spec_snapshot_json d' = d_spec_snapshot_json d
     \<and> d_created_at d' = d_created_at d"

definition build_history :: "build \<Rightarrow> build \<Rightarrow> bool" where
  "build_history b b' \<longleftrightarrow> path build_next (b_status b) (b_status b')
     \<and> b_project_id b' = b_project_id b \<and> b_commit_sha b' = b_commit_sha b"

definition cmd_history :: "command \<Rightarrow> command \<Rightarrow> bool" where
  "cmd_history k k' \<longleftrightarrow> c_deployment_id k' = c_deployment_id k
     \<and> c_command_type k' = c_command_type k \<and> c_requested_at k' = c_requested_at k
     \<and> (cmd_active (c_status k') \<longrightarrow> cmd_active (c_status k))"

text \<open>Every row of a table is still there, in a state its history allows.\<close>

definition extends :: "('r \<Rightarrow> 'r \<Rightarrow> bool) \<Rightarrow> (nat \<Rightarrow> 'r option) \<Rightarrow> (nat \<Rightarrow> 'r option) \<Rightarrow> bool" where
  "extends R g g' \<longleftrightarrow> (\<forall>i r. g i = Some r \<longrightarrow> (\<exists>r'. g' i = Some r' \<and> R r r'))"

definition history :: "world \<Rightarrow> world \<Rightarrow> bool" where
  "history w0 w \<longleftrightarrow> projects w = projects w0
     \<and> extends dep_history (get_dep w0) (get_dep w)
     \<and> extends build_history (get_build w0) (get_build w)
     \<and> extends cmd_history (get_cmd w0) (get_cmd w)
     \<and> (\<exists>es. events w = events w0 @ es)"

lemma extends_refl: "(\<And>r. R r r) \<Longrightarrow> extends R g g"
  by (auto simp: extends_def)

lemma extends_upd:
  assumes "extends R g0 g" "\<And>j. g' j = (if j = i then map_option f (g j) else g j)"
    and "\<And>r r'. g i = Some r' \<Longrightarrow> R r r' \<Longrightarrow> R r (f r')"
  shows "extends R g0 g'"
  unfolding extends_def
proof (intro allI impI)
  fix j r assume "g0 j = Some r"
  then obtain r' where "g j = Some r'" "R r r'" using assms(1) unfolding extends_def by blast
  then show "\<exists>r'. g' j = Some r' \<and> R r r'" using assms(2,3) by auto
qed

lemma history_refl: "history w w"
  by (auto simp: history_def dep_history_def build_history_def cmd_history_def intro!: extends_refl)

lemma history_event:
  assumes "history w0 w"
  shows "history w0 (w\<lparr>events := events w @ es\<rparr>)"
proof -
  have "get_dep (w\<lparr>events := xs\<rparr>) = get_dep w" "get_build (w\<lparr>events := xs\<rparr>) = get_build w"
    "get_cmd (w\<lparr>events := xs\<rparr>) = get_cmd w" for xs by (simp_all add: fun_eq_iff)
  then show ?thesis using assms by (auto simp: history_def)
qed

lemma frame_dep_history: "frame_dep f \<Longrightarrow> dep_history d d' \<Longrightarrow> dep_history d (f d')"
  by (simp add: frame_dep_def dep_history_def)

lemma frame_build_history: "frame_build f \<Longrightarrow> build_history b b' \<Longrightarrow> build_history b (f b')"
  by (simp add: frame_build_def build_history_def)

lemma frame_cmd_history: "frame_cmd f \<Longrightarrow> cmd_history k k' \<Longrightarrow> cmd_history k (f k')"
  unfolding frame_cmd_def cmd_history_def by metis

lemma status_dep_history:
  assumes "can_transition_to d' st" "dep_history d d'"
  shows "dep_history d (touch_dep t (\<lambda>d. d\<lparr>d_status := st\<rparr>) d')"
proof -
  have "path dep_next (d_status d) st"
    using assms can_transition_path path_trans unfolding dep_history_def by metis
  then show ?thesis
    using assms(2) touch_dep_cases [of t "\<lambda>d. d\<lparr>d_status := st\<rparr>" d'] by (auto simp: dep_history_def)
qed

lemma status_build_history:
  assumes "build_can_transition_to b' st" "build_history b b'"
  shows "build_history b (touch_build t (\<lambda>b. b\<lparr>b_status := st\<rparr>) b')"
proof -
  have "path build_next (b_status b) st"
    using assms build_can_transition_path path_trans unfolding build_history_def by metis
  then show ?thesis
    using assms(2) touch_build_cases [of t "\<lambda>b. b\<lparr>b_status := st\<rparr>" b'] by (auto simp: build_history_def)
qed

lemma frame_gets:
  "get_build (upd_dep i f w) = get_build w" "get_cmd (upd_dep i f w) = get_cmd w"
  "get_dep (upd_build i g w) = get_dep w" "get_cmd (upd_build i g w) = get_cmd w"
  "get_dep (upd_cmd i h w) = get_dep w" "get_build (upd_cmd i h w) = get_build w"
  by (simp_all add: fun_eq_iff)

lemma extends_upd_dep:
  assumes "extends dep_history g (get_dep w)" "\<And>d. d_id (f d) = d_id d"
    and "\<And>d d'. get_dep w i = Some d' \<Longrightarrow> dep_history d d' \<Longrightarrow> dep_history d (f d')"
  shows "extends dep_history g (get_dep (upd_dep i f w))"
proof (rule extends_upd [OF assms(1)])
  show "get_dep (upd_dep i f w) j = (if j = i then map_option f (get_dep w j) else get_dep w j)" for j
    by (rule deps.get_upd [OF assms(2)])
qed (rule assms(3))

lemma history_upd_dep:
  assumes "history w0 w" "\<And>d. d_id (f d) = d_id d"
    and "\<And>d d'. get_dep w i = Some d' \<Longrightarrow> dep_history d d' \<Longrightarrow> dep_history d (f d')"
  shows "history w0 (upd_dep i f w)"
  using assms(1) extends_upd_dep [OF _ assms(2,3), of "get_dep w0"] by (simp add: history_def frame_gets)

lemma extends_upd_build:
  assumes "extends build_history g (get_build w)" "\<And>b. b_id (f b) = b_id b"
    and "\<And>b b'. get_build w i = Some b' \<Longrightarrow> build_history b b' \<Longrightarrow> build_history b (f b')"
  shows "extends build_history g (get_build (upd_build i f w))"
proof (rule extends_upd [OF assms(1)])
  show "get_build (upd_build i f w) j = (if j = i then map_option f (get_build w j) else get_build w j)" for j
    by (rule bldt.get_upd [OF assms(2)])
qed (rule assms(3))

lemma history_upd_build:
  assumes "history w0 w" "\<And>b. b_id (f b) = b_id b"
    and "\<And>b b'. get_build w i = Some b' \<Longrightarrow> build_history b b' \<Longrightarrow> build_history b (f b')"
  shows "history w0 (upd_build i f w)"
  using assms(1) extends_upd_build [OF _ assms(2,3), of "get_build w0"] by (simp add: history_def frame_gets)

lemma extends_upd_cmd:
  assumes "extends cmd_history g (get_cmd w)" "\<And>k. c_id (f k) = c_id k"
    and "\<And>k k'. get_cmd w i = Some k' \<Longrightarrow> cmd_history k k' \<Longrightarrow> cmd_history k (f k')"
  shows "extends cmd_history g (get_cmd (upd_cmd i f w))"
proof (rule extends_upd [OF assms(1)])
  show "get_cmd (upd_cmd i f w) j = (if j = i then map_option f (get_cmd w j) else get_cmd w j)" for j
    by (rule cmdt.get_upd [OF assms(2)])
qed (rule assms(3))

lemma history_upd_cmd:
  assumes "history w0 w" "\<And>k. c_id (f k) = c_id k"
    and "\<And>k k'. get_cmd w i = Some k' \<Longrightarrow> cmd_history k k' \<Longrightarrow> cmd_history k (f k')"
  shows "history w0 (upd_cmd i f w)"
  using assms(1) extends_upd_cmd [OF _ assms(2,3), of "get_cmd w0"] by (simp add: history_def frame_gets)

interpretation hist: world_invariant "history w0" for w0
proof
  show "history w0 (upd_dep i f w)" if "frame_dep f" "history w0 w" for f w i
    by (rule history_upd_dep [OF that(2)])
      (use that(1) in \<open>simp add: frame_dep_def\<close>, rule frame_dep_history [OF that(1)])
  show "history w0 (upd_dep i (touch_dep t (\<lambda>d. d\<lparr>d_status := st\<rparr>)) w)"
    if "get_dep w i = Some d" "can_transition_to d st" "history w0 w" for w i d st t
    using that by (intro history_upd_dep) (auto intro: status_dep_history)
  show "history w0 (upd_build i g w)" if "frame_build g" "history w0 w" for g w i
    by (rule history_upd_build [OF that(2)])
      (use that(1) in \<open>simp add: frame_build_def\<close>, rule frame_build_history [OF that(1)])
  show "history w0 (upd_build i (touch_build t (\<lambda>b. b\<lparr>b_status := st\<rparr>)) w)"
    if "get_build w i = Some b" "build_can_transition_to b st" "history w0 w" for w i b st t
    using that by (intro history_upd_build) (auto intro: status_build_history)
  show "history w0 (upd_cmd i h w)" if "frame_cmd h" "history w0 w" for h w i
    by (rule history_upd_cmd [OF that(2)])
      (use that(1) in \<open>simp add: frame_cmd_def\<close>, rule frame_cmd_history [OF that(1)])
  show "history w0 (upd_cmd i (\<lambda>c. c\<lparr>c_status := C_claimed, c_claimed_by := Some wk, c_claimed_at := Some t\<rparr>) w)"
    if "get_cmd w i = Some k" "cmd_active (c_status k)" "history w0 w" for w i k wk t
    using that by (intro history_upd_cmd) (auto simp: cmd_history_def)
  show "history w0 (w\<lparr>events := events w @ [mk (next_id e_id (events w)) t]\<rparr>)"
    if "history w0 w" for w mk t
    by (rule history_event [OF that])
qed

section \<open>Active commands\<close>

definition commands_ok :: "command list \<Rightarrow> bool" where
  "commands_ok ks \<longleftrightarrow> distinct (map c_id ks)
     \<and> (\<forall>k \<in> set ks. c_active_key k = (if cmd_active (c_status k) then Some ''active'' else None))
     \<and> (\<forall>k \<in> set ks. \<forall>k' \<in> set ks.
          cmd_active (c_status k) \<and> cmd_active (c_status k') \<and> c_deployment_id k = c_deployment_id k'
          \<and> c_command_type k = c_command_type k' \<longrightarrow> c_id k = c_id k')"

definition active_commands_ok :: "world \<Rightarrow> bool" where
  "active_commands_ok w \<longleftrightarrow> commands_ok (commands w)"

definition same_active :: "command \<Rightarrow> command \<Rightarrow> bool" where
  "same_active k k' \<longleftrightarrow> c_id k' = c_id k \<and> c_deployment_id k' = c_deployment_id k
     \<and> c_command_type k' = c_command_type k \<and> (cmd_active (c_status k') \<longrightarrow> cmd_active (c_status k))
     \<and> c_active_key k' = (if cmd_active (c_status k') then Some ''active'' else None)"

lemma active_key_of: "active_commands_ok w \<Longrightarrow> k \<in> set (commands w) \<Longrightarrow>
    c_active_key k = (if cmd_active (c_status k) then Some ''active'' else None)"
  by (simp add: active_commands_ok_def commands_ok_def)

lemma active_distinct: "active_commands_ok w \<Longrightarrow> distinct (map c_id (commands w))"
  by (simp add: active_commands_ok_def commands_ok_def)

lemma frame_cmd_active:
  assumes "frame_cmd h" "c_active_key k = (if cmd_active (c_status k) then Some ''active'' else None)"
  shows "(cmd_active (c_status (h k)) \<longrightarrow> cmd_active (c_status k))
      \<and> c_active_key (h k) = (if cmd_active (c_status (h k)) then Some ''active'' else None)"
proof -
  have "c_status (h k) = c_status k \<and> c_active_key (h k) = c_active_key k
      \<or> \<not> cmd_active (c_status (h k)) \<and> c_active_key (h k) = None"
    using assms(1) by (simp add: frame_cmd_def)
  then show ?thesis using assms(2) by auto
qed

lemma active_upd_cmd:
  assumes "active_commands_ok w"
    and "\<And>k. c_id (f k) = c_id k \<and> c_deployment_id (f k) = c_deployment_id k
      \<and> c_command_type (f k) = c_command_type k"
    and "\<And>k. k \<in> set (commands w) \<Longrightarrow> c_id k = i \<Longrightarrow>
      (cmd_active (c_status (f k)) \<longrightarrow> cmd_active (c_status k))
      \<and> c_active_key (f k) = (if cmd_active (c_status (f k)) then Some ''active'' else None)"
  shows "active_commands_ok (upd_cmd i f w)"
proof -
  have ids: "map c_id (alter c_id i f (commands w)) = map c_id (commands w)"
    using assms(2) by (intro row_alter_other_key) simp
  have mem: "\<exists>k \<in> set (commands w). same_active k k'"
    if k': "k' \<in> set (alter c_id i f (commands w))" for k'
  proof -
    obtain k where k: "k \<in> set (commands w)" "k' = (if c_id k = i then f k else k)"
      using k' by (auto simp: alter_def)
    then have "same_active k k'"
      using assms(2) assms(3) [OF k(1)] active_key_of [OF assms(1) k(1)] unfolding same_active_def by simp
    then show ?thesis using k(1) by blast
  qed
  have cmds: "commands (upd_cmd i f w) = alter c_id i f (commands w)" by (simp add: upd_cmd_def)
  show ?thesis
    unfolding active_commands_ok_def commands_ok_def cmds ids
  proof (intro conjI ballI impI)
    show "distinct (map c_id (commands w))" by (rule active_distinct [OF assms(1)])
    fix k' assume "k' \<in> set (alter c_id i f (commands w))"
    then obtain k where k: "k \<in> set (commands w)" "same_active k k'" using mem by blast
    then show "c_active_key k' = (if cmd_active (c_status k') then Some ''active'' else None)"
      by (simp add: same_active_def)
    fix l' assume "l' \<in> set (alter c_id i f (commands w))"
    then obtain l where l: "l \<in> set (commands w)" "same_active l l'" using mem by blast
    assume "cmd_active (c_status k') \<and> cmd_active (c_status l') \<and> c_deployment_id k' = c_deployment_id l'
      \<and> c_command_type k' = c_command_type l'"
    then have "cmd_active (c_status k) \<and> cmd_active (c_status l) \<and> c_deployment_id k = c_deployment_id l
      \<and> c_command_type k = c_command_type l"
      using k(2) l(2) by (simp add: same_active_def)
    then have "c_id k = c_id l" using assms(1) k(1) l(1) unfolding active_commands_ok_def commands_ok_def by blast
    then show "c_id k' = c_id l'" using k(2) l(2) by (simp add: same_active_def)
  qed
qed

lemma active_other:
  assumes "commands w' = commands w" "active_commands_ok w"
  shows "active_commands_ok w'"
  using assms by (simp add: active_commands_ok_def)

lemma commands_frame:
  "commands (upd_dep i f w) = commands w" "commands (upd_build i g w) = commands w"
  "commands (w\<lparr>events := es\<rparr>) = commands w"
  by (simp_all add: upd_dep_def upd_build_def)

lemmas active_frames = commands_frame [THEN active_other]

interpretation actv: world_invariant active_commands_ok
proof
  show "active_commands_ok (upd_cmd i h w)" if "frame_cmd h" "active_commands_ok w" for h w i
  proof (rule active_upd_cmd [OF that(2)])
    fix k assume "k \<in> set (commands w)" "c_id k = i"
    then show "(cmd_active (c_status (h k)) \<longrightarrow> cmd_active (c_status k))
      \<and> c_active_key (h k) = (if cmd_active (c_status (h k)) then Some ''active'' else None)"
      by (intro frame_cmd_active [OF that(1)] active_key_of [OF that(2)])
  qed (use that(1) in \<open>simp add: frame_cmd_def\<close>)
  show "active_commands_ok (upd_cmd i (\<lambda>c. c\<lparr>c_status := C_claimed, c_claimed_by := Some wk, c_claimed_at := Some t\<rparr>) w)"
    if "get_cmd w i = Some k" "cmd_active (c_status k)" "active_commands_ok w" for w i k wk t
  proof (rule active_upd_cmd [OF that(3)])
    let ?claim = "\<lambda>c. c\<lparr>c_status := C_claimed, c_claimed_by := Some wk, c_claimed_at := Some t\<rparr>"
    fix k' assume "k' \<in> set (commands w)" "c_id k' = i"
    then have "get_cmd w i = Some k'"
      using row_of_member [OF active_distinct [OF that(3)], of k'] by (simp add: get_cmd_def)
    then have "k' = k" using that(1) by simp
    then show "(cmd_active (c_status (?claim k')) \<longrightarrow> cmd_active (c_status k'))
      \<and> c_active_key (?claim k') = (if cmd_active (c_status (?claim k')) then Some ''active'' else None)"
      using that(2) active_key_of [OF that(3) \<open>k' \<in> set (commands w)\<close>] by simp
  qed simp
qed (simp_all only: active_frames)

section \<open>Polling loops\<close>

text \<open>
  The loops of \<open>worker/cli.py\<close> until the signal handler clears \<open>_keep_running\<close>, which is
  read once per round: the bound is the number of rounds that start. While a loop sleeps,
  other processes commit (\<open>idle\<close>, for the round).
\<close>

definition sleep_for :: "(world \<times> int \<Rightarrow> world \<times> int) \<Rightarrow> unit proc" where
  "sleep_for idle s = (case idle (com s, clock s) of (w, t) \<Rightarrow> (Inr (), \<lparr>com = w, cur = w, clock = t\<rparr>))"

primrec run_worker_loop :: "cfg \<Rightarrow> (nat \<Rightarrow> world \<times> int \<Rightarrow> world \<times> int) \<Rightarrow> nat \<Rightarrow> unit proc" where
  "run_worker_loop c idle 0 = ret ()"
| "run_worker_loop c idle (Suc n) =
     bind (process_next_work_item c) (\<lambda>deployment. case deployment of
       None \<Rightarrow> bind (sleep_for (idle n)) (\<lambda>_. run_worker_loop c idle n)
     | Some did \<Rightarrow> run_worker_loop c idle n)"

primrec run_reconciler_loop :: "cfg \<Rightarrow> (nat \<Rightarrow> world \<times> int \<Rightarrow> world \<times> int) \<Rightarrow> nat \<Rightarrow> unit proc" where
  "run_reconciler_loop c idle 0 = ret ()"
| "run_reconciler_loop c idle (Suc n) =
     bind (reconcile_deployments c) (\<lambda>changes.
       bind (whenp (n \<noteq> 0) (sleep_for (idle n))) (\<lambda>_. run_reconciler_loop c idle n))"

definition idle_keeps :: "(world \<Rightarrow> bool) \<Rightarrow> (nat \<Rightarrow> world \<times> int \<Rightarrow> world \<times> int) \<Rightarrow> bool" where
  "idle_keeps I idle \<longleftrightarrow> (\<forall>n w t. I w \<longrightarrow> I (fst (idle n (w, t))))"

lemma keeps_sleep: "idle_keeps I idle \<Longrightarrow> keeps I (sleep_for (idle n))"
  unfolding keeps_def sleep_for_def idle_keeps_def by (auto split: prod.splits) (metis fst_conv)+

context world_invariant
begin

lemma keeps_worker_loop:
  assumes "factory_keeps I c" "idle_keeps I idle"
  shows "keeps I (run_worker_loop c idle n)"
proof (induction n)
  case (Suc n)
  have "keeps I (process_next_work_item c)"
    by (rule keeps_process_next_work_item) (use assms(1) in \<open>auto simp: factory_keeps_def\<close>)
  then show ?case using Suc assms(2) by (auto intro!: step_rules keeps_sleep)
qed (simp add: keeps_ret)

lemma keeps_reconciler_loop:
  assumes "factory_keeps I c" "idle_keeps I idle"
  shows "keeps I (run_reconciler_loop c idle n)"
proof (induction n)
  case (Suc n)
  have "keeps I (reconcile_deployments c)" by (rule keeps_reconcile_deployments [OF assms(1)])
  then show ?case using Suc assms(2) by (auto intro!: step_rules keeps_sleep)
qed (simp add: keeps_ret)

end

end
