(* ===== verification/Interruption.thy ===== *)
theory Interruption
  imports Pipeline_Outcome
begin

text \<open>
  What becomes of an attempt whose executor call is interrupted: the deployment was handed
  over to another worker (or deleted from this one's ownership), or an operator asked for a
  stop. Whatever the call raised, nothing of the attempt is persisted after that point
  except one event, and, for a stop, the release of the claim.
\<close>

fun is_claim_lost :: "exn \<Rightarrow> bool" where
  "is_claim_lost (ClaimLost _ _ _ _ _) = True"
| "is_claim_lost _ = False"

fun is_cancellation :: "exn \<Rightarrow> bool" where
  "is_cancellation (CancelRequested _ _ _) = True"
| "is_cancellation _ = False"

text \<open>
  At the return of the call the rows of the deployment are \<open>d1\<close> and \<open>b1\<close>, and this worker
  does not own the claim, or owns it while a stop command is active. A heartbeat raises
  \<open>ClaimLostError\<close> only for a claim that is lost and the cancellation only for one that is
  owned, so the call does not raise the other one.
\<close>

definition handed_over :: "cfg \<Rightarrow> nat \<Rightarrow> deployment \<Rightarrow> build \<Rightarrow> exn option \<Rightarrow> world \<Rightarrow> bool" where
  "handed_over c did d1 b1 r w \<longleftrightarrow> get_dep w did = Some d1 \<and> get_build w (d_build_id d1) = Some b1
     \<and> \<not> owned c w did \<and> (\<forall>e. r = Some e \<longrightarrow> \<not> is_cancellation e)"

definition stop_requested :: "cfg \<Rightarrow> nat \<Rightarrow> deployment \<Rightarrow> build \<Rightarrow> exn option \<Rightarrow> world \<Rightarrow> bool" where
  "stop_requested c did d1 b1 r w \<longleftrightarrow> get_dep w did = Some d1 \<and> get_build w (d_build_id d1) = Some b1
     \<and> owned c w did \<and> active_stop w did \<noteq> None \<and> (\<forall>e. r = Some e \<longrightarrow> \<not> is_claim_lost e)"

lemma handed_over_interrupting: "interrupting c did (handed_over c did d1 b1)"
  unfolding interrupting_def handed_over_def using ensure_lost by fastforce

lemma stop_requested_interrupting: "interrupting c did (stop_requested c did d1 b1)"
  unfolding interrupting_def stop_requested_def using ensure_cancelled by fastforce

section \<open>A blocked session\<close>

text \<open>What is committed is \<open>w\<close>, and the next ownership check raises.\<close>

definition Blocked :: "cfg \<Rightarrow> nat \<Rightarrow> world \<Rightarrow> bool \<Rightarrow> session \<Rightarrow> bool" where
  "Blocked c did w lost s \<longleftrightarrow> com s = w
     \<and> (\<exists>d b. get_dep (cur s) did = Some d \<and> get_build (cur s) (d_build_id d) = Some b)
     \<and> (if lost then \<not> owned c (cur s) did
        else owned c (cur s) did \<and> active_stop (cur s) did \<noteq> None)"

lemma Blocked_row:
  assumes "Blocked c did w lost s"
  obtains d b where "get_dep (cur s) did = Some d" "get_build (cur s) (d_build_id d) = Some b"
  using assms unfolding Blocked_def by blast

lemma owned_upd_dep: "keeps_claim f \<Longrightarrow> owned c (upd_dep did f w) did = owned c w did"
  unfolding owned_def keeps_claim_def by (auto simp: deps.get_upd frame_dep_id)

lemma owned_upd_build [simp]: "owned c (upd_build i g w) did = owned c w did"
  by (simp add: owned_def)

lemma owned_events [simp]: "owned c (w\<lparr>events := es\<rparr>) did = owned c w did"
  by (simp add: owned_def)

lemma active_stop_frame [simp]:
  "active_stop (upd_dep i f w) did = active_stop w did"
  "active_stop (upd_build i g w) did = active_stop w did"
  "active_stop (w\<lparr>events := es\<rparr>) did = active_stop w did"
  by (simp_all add: active_stop_def)

lemma Blocked_set_dep:
  assumes "keeps_claim f"
  shows "triple (Blocked c did w l) (set_dep did f) (\<lambda>_. Blocked c did w l) E"
proof (rule tripleI)
  fix s assume s: "Blocked c did w l s"
  then obtain d b where d: "get_dep (cur s) did = Some d" "get_build (cur s) (d_build_id d) = Some b"
    by (rule Blocked_row)
  have f: "frame_dep (touch_dep (clock s) f)" "keeps_claim (touch_dep (clock s) f)"
    using assms by (auto simp: keeps_claim_touch frame_dep_touch) (simp add: keeps_claim_def frame_dep_touch)
  show "case set_dep did f s of (Inr _, s') \<Rightarrow> Blocked c did w l s' | (Inl e, s') \<Rightarrow> E e s'"
    using s d f by (auto simp: set_dep_Some Blocked_def deps.get_upd frame_dep_id owned_upd_dep)
      (auto simp: frame_dep_def)
qed

lemma Blocked_set_build:
  assumes "frame_build g"
  shows "triple (Blocked c did w l) (set_build did g) (\<lambda>_. Blocked c did w l) E"
proof (rule tripleI)
  fix s assume s: "Blocked c did w l s"
  then obtain d b where d: "get_dep (cur s) did = Some d" "get_build (cur s) (d_build_id d) = Some b"
    by (rule Blocked_row)
  have "\<And>b. b_id (touch_build (clock s) g b) = b_id b"
    using frame_build_touch [OF assms] by (simp add: frame_build_def)
  then show "case set_build did g s of (Inr _, s') \<Rightarrow> Blocked c did w l s' | (Inl e, s') \<Rightarrow> E e s'"
    using s d by (auto simp: set_build_Some Blocked_def bldt.get_upd)
qed

lemma Blocked_record_event:
  "triple (Blocked c did w l) (record_event c did et st msg step level md) (\<lambda>_. Blocked c did w l) E"
proof (rule tripleI)
  fix s assume s: "Blocked c did w l s"
  then obtain d where "get_dep (cur s) did = Some d" by (rule Blocked_row)
  then show "case record_event c did et st msg step level md s of
      (Inr _, s') \<Rightarrow> Blocked c did w l s' | (Inl e, s') \<Rightarrow> E e s'"
    using s by (simp add: record_event_Some Blocked_def)
qed

lemma Blocked_reads:
  "triple (Blocked c did w l) now (\<lambda>t. Blocked c did w l) E"
  "triple (Blocked c did w l) (query f) (\<lambda>x. Blocked c did w l) E"
  "triple (Blocked c did w l) (ret x) (\<lambda>_. Blocked c did w l) E"
  "triple (Blocked c did w l) (seqs []) (\<lambda>_. Blocked c did w l) E"
  by (simp_all add: triple_def now_def query_def ret_def)

lemma Blocked_the_dep: "triple (Blocked c did w l) (the_dep did) (\<lambda>_. Blocked c did w l) E"
proof (rule tripleI)
  fix s assume s: "Blocked c did w l s"
  then obtain d where "get_dep (cur s) did = Some d" by (rule Blocked_row)
  then show "case the_dep did s of (Inr _, s') \<Rightarrow> Blocked c did w l s' | (Inl e, s') \<Rightarrow> E e s'"
    using s by (simp add: the_dep_Some)
qed

lemma Blocked_the_build: "triple (Blocked c did w l) (the_build did) (\<lambda>_. Blocked c did w l) E"
proof (rule tripleI)
  fix s assume s: "Blocked c did w l s"
  then obtain d b where "get_dep (cur s) did = Some d" "get_build (cur s) (d_build_id d) = Some b"
    by (rule Blocked_row)
  then show "case the_build did s of (Inr _, s') \<Rightarrow> Blocked c did w l s' | (Inl e, s') \<Rightarrow> E e s'"
    using s by (simp add: the_build_Some)
qed

lemma Blocked_record_auxiliary_events:
  "triple (Blocked c did w l) (record_auxiliary_events c did es) (\<lambda>_. Blocked c did w l) E"
  by (induction es) (auto intro!: Blocked_reads triple_bind [OF Blocked_record_event])

lemma Blocked_persist_preflight_failure:
  "triple (Blocked c did w l) (persist_preflight_failure c did st msg md lp) (\<lambda>_. Blocked c did w l) E"
  unfolding persist_preflight_failure_def secrets_of_def
  by (rule triple_if triple_bind Blocked_reads Blocked_the_dep Blocked_set_dep keeps_claim_assignments)+

lemma Blocked_whenp:
  "(b \<Longrightarrow> triple (Blocked c did w l) m (\<lambda>_. Blocked c did w l) E) \<Longrightarrow>
    triple (Blocked c did w l) (whenp b m) (\<lambda>_. Blocked c did w l) E"
  by (rule triple_when)

definition blocked_by :: "bool \<Rightarrow> exn \<Rightarrow> bool" where
  "blocked_by lost e = (if lost then is_claim_lost e else is_cancellation e)"

lemma Blocked_ensure:
  "triple (Blocked c did w l) (ensure_claim_owned c did None) (\<lambda>_ _. False)
    (\<lambda>e s. com s = w \<and> blocked_by l e)"
proof (rule tripleI)
  fix s assume s: "Blocked c did w l s"
  show "case ensure_claim_owned c did None s of (Inr _, s') \<Rightarrow> False
      | (Inl e, s') \<Rightarrow> com s' = w \<and> blocked_by l e"
  proof (cases l)
    case True
    then show ?thesis using s ensure_lost [of c s did] by (auto simp: Blocked_def blocked_by_def)
  next
    case False
    then show ?thesis using s ensure_cancelled [of c s did] by (auto simp: Blocked_def blocked_by_def)
  qed
qed

lemma Blocked_mark_failed:
  "triple (Blocked c did w l) (mark_failed c did step message metadata) (\<lambda>_ _. False)
    (\<lambda>e s. com s = w \<and> blocked_by l e)"
  unfolding mark_failed_def
  by (rule triple_bind [OF Blocked_the_build] triple_bind [OF Blocked_ensure])+ (simp add: triple_def)

section \<open>What is persisted\<close>

definition add_events :: "event list \<Rightarrow> world \<Rightarrow> world" where
  "add_events es w = w\<lparr>events := events w @ es\<rparr>"

text \<open>After a lost claim: the database, and one \<open>claim_lost\<close> event.\<close>

definition Lost_end :: "nat \<Rightarrow> world \<Rightarrow> session \<Rightarrow> bool" where
  "Lost_end did w s \<longleftrightarrow> cur s = com s \<and> (\<exists>ev. com s = add_events [ev] w
     \<and> e_event_type ev = ''claim_lost'' \<and> e_deployment_id ev = did)"

text \<open>After a stop: the claim of the row is released, and one event.\<close>

definition Stop_end :: "nat \<Rightarrow> world \<Rightarrow> session \<Rightarrow> bool" where
  "Stop_end did w s \<longleftrightarrow> cur s = com s \<and> (\<exists>ev t.
     com s = upd_dep did (touch_dep t drop_claim) (add_events [ev] w)
     \<and> e_event_type ev = ''deployment.cancellation_acknowledged'' \<and> e_deployment_id ev = did)"

lemma event_for_fields [simp]:
  "e_event_type (event_for c w d t et st msg step level md) = et"
  "e_deployment_id (event_for c w d t et st msg step level md) = d_id d"
  "e_status (event_for c w d t et st msg step level md) = st"
  "e_level (event_for c w d t et st msg step level md) = level"
  by (simp_all add: event_for_def new_event_def)

lemma persist_claim_loss_run:
  assumes "get_dep (com s) did = Some d"
  shows "\<exists>s'. persist_claim_loss c did e s = (Inr (Some did), s') \<and> Lost_end did (com s) s'"
proof -
  let ?s = "s\<lparr>cur := com s\<rparr>"
  let ?ev = "event_for c (com s) d (clock s) ''claim_lost'' (dep_status_name (d_status d))
    (Some ''Deployment claim was lost before worker completed processing'')
    (Some ''claim'') ''warning'' (claim_lost_metadata e)"
  let ?w = "add_events [?ev] (com s)"
  have d: "get_dep (cur ?s) did = Some d" "d_id d = did" using assms deps.get_key by auto
  then have "persist_claim_loss c did e s = (Inr (Some did), s\<lparr>com := ?w, cur := ?w\<rparr>)"
    by (simp add: persist_claim_loss_def rollback_def query_def commit_def ret_def
        write_claim_event_Some add_events_def)
  moreover have "Lost_end did (com s) (s\<lparr>com := ?w, cur := ?w\<rparr>)"
    unfolding Lost_end_def by (intro conjI exI [of _ ?ev]) (simp_all add: d)
  ultimately show ?thesis by blast
qed

lemma persist_cancellation_run:
  assumes "get_dep (com s) did = Some d"
  shows "\<exists>s'. persist_cancellation_acknowledgement c did e s = (Inr (Some did), s')
    \<and> Stop_end did (com s) s'"
proof -
  let ?s = "s\<lparr>cur := com s\<rparr>"
  let ?ev = "event_for c (com s) d (clock s) ''deployment.cancellation_acknowledged''
    (dep_status_name (d_status d))
    (Some ''Worker stopped deployment processing after observing a pending stop command'')
    (Some ''claim'') ''warning'' (cancellation_metadata e)"
  let ?w = "upd_dep did (touch_dep (clock s) drop_claim) (add_events [?ev] (com s))"
  have d: "get_dep (cur ?s) did = Some d" "d_id d = did" using assms deps.get_key by auto
  then have "persist_cancellation_acknowledgement c did e s =
      (Inr (Some did), s\<lparr>com := ?w, cur := ?w\<rparr>)"
    by (simp add: persist_cancellation_acknowledgement_def rollback_def query_def commit_def ret_def
        write_claim_event_Some add_events_def release_deployment_claim_eq set_dep_Some)
  moreover have "Stop_end did (com s) (s\<lparr>com := ?w, cur := ?w\<rparr>)"
    unfolding Stop_end_def by (intro conjI exI [of _ ?ev] exI [of _ "clock s"]) (simp_all add: d)
  ultimately show ?thesis by blast
qed

definition Interrupted_end :: "nat \<Rightarrow> world \<Rightarrow> bool \<Rightarrow> nat option \<Rightarrow> session \<Rightarrow> bool" where
  "Interrupted_end did w lost r s \<longleftrightarrow>
     r = Some did \<and> (if lost then Lost_end did w s else Stop_end did w s)"

lemma persist_blocked:
  assumes "get_dep w did = Some d" "blocked_by l e"
  shows "triple (\<lambda>s. com s = w) (case e of
       ClaimLost _ _ _ _ _ \<Rightarrow> persist_claim_loss c did e
     | CancelRequested _ _ _ \<Rightarrow> persist_cancellation_acknowledgement c did e
     | _ \<Rightarrow> throw e) (Interrupted_end did w l) E"
proof (rule tripleI)
  fix s :: session assume w: "com s = w"
  show "case (case e of
       ClaimLost _ _ _ _ _ \<Rightarrow> persist_claim_loss c did e
     | CancelRequested _ _ _ \<Rightarrow> persist_cancellation_acknowledgement c did e
     | _ \<Rightarrow> throw e) s of (Inr r, s') \<Rightarrow> Interrupted_end did w l r s' | (Inl e, s') \<Rightarrow> E e s'"
    using persist_claim_loss_run [of s did d c e] persist_cancellation_run [of s did d c e] assms w
    by (cases e) (auto simp: blocked_by_def Interrupted_end_def split: if_splits)
qed

lemma Blocked_handlers:
  assumes "get_dep w did = Some d"
    and "triple P m (\<lambda>_ _. False) (\<lambda>e s. com s = w \<and> blocked_by l e)"
  shows "triple P (claim_handlers c did m) (Interrupted_end did w l) E"
  unfolding claim_handlers_def
proof (rule triple_catch)
  show "triple P m (Interrupted_end did w l) (\<lambda>e s. com s = w \<and> blocked_by l e)"
    by (rule triple_post [OF assms(2)]) simp
  fix e
  show "triple (\<lambda>s. com s = w \<and> blocked_by l e) (case e of
       ClaimLost _ _ _ _ _ \<Rightarrow> persist_claim_loss c did e
     | CancelRequested _ _ _ \<Rightarrow> persist_cancellation_acknowledgement c did e
     | _ \<Rightarrow> throw e) (Interrupted_end did w l) E"
  proof (cases "blocked_by l e")
    case True
    from persist_blocked [OF assms(1) True] show ?thesis by (rule triple_weaken) auto
  qed (simp add: triple_def)
qed

lemma Blocked_pipeline_error:
  assumes "get_dep w did = Some d" "get_build w (d_build_id d) = Some b"
    and "if l then \<not> owned c w did else owned c w did \<and> active_stop w did \<noteq> None"
    and "if l then \<not> is_cancellation e else \<not> is_claim_lost e"
  shows "triple (\<lambda>s. com s = w \<and> cur s = w) (pipeline_error c did e) (Interrupted_end did w l) E"
proof -
  have start: "Blocked c did w l s" if "com s = w" "cur s = w" for s
    using that assms(1-3) by (simp add: Blocked_def)
  have exec: "triple (\<lambda>s. com s = w \<and> cur s = w) (execution_error c did st msg md lp evs)
      (Interrupted_end did w l) E" for st msg md lp evs
  proof (rule triple_weaken)
    show "triple (Blocked c did w l) (execution_error c did st msg md lp evs) (Interrupted_end did w l) E"
      unfolding execution_error_def
      by (rule triple_bind triple_seqs_Cons Blocked_whenp Blocked_set_build frame_lifecycle Blocked_reads
          Blocked_persist_preflight_failure Blocked_handlers [OF assms(1)]
          Blocked_record_auxiliary_events Blocked_mark_failed)+
  qed (simp_all add: start)
  have other: "triple (\<lambda>s. com s = w \<and> cur s = w) (unexpected_error c did e) (Interrupted_end did w l) E"
  proof (rule tripleI)
    fix s :: session assume s: "com s = w \<and> cur s = w"
    have "triple (Blocked c did w l) (claim_handlers c did
         (mark_failed c did ''worker.internal'' ''Worker encountered an unexpected internal error''
            [(''error_type'', JStr (exn_type e))])) (Interrupted_end did w l) E"
      by (rule Blocked_handlers [OF assms(1) Blocked_mark_failed])
    moreover have "Blocked c did w l (s\<lparr>cur := com s\<rparr>)" using s by (intro start) auto
    ultimately show "case unexpected_error c did e s of
        (Inr r, s') \<Rightarrow> Interrupted_end did w l r s' | (Inl e, s') \<Rightarrow> E e s'"
      using assms(1) s by (auto simp: unexpected_error_def rollback_def query_def triple_def)
  qed
  show ?thesis
  proof (cases "blocked_by l e")
    case True
    from persist_blocked [OF assms(1) True, of c E]
    have "triple (\<lambda>s. com s = w) (pipeline_error c did e) (Interrupted_end did w l) E"
      using True by (cases e) (auto simp: pipeline_error_def blocked_by_def split: if_splits)
    then show ?thesis by (rule triple_weaken) auto
  next
    case False
    then show ?thesis
      using exec other assms(4)
      by (cases e) (auto simp: pipeline_error_def blocked_by_def split: if_splits)
  qed
qed

section \<open>An attempt that is interrupted at the latest by its last call\<close>

definition ends_in :: "(exn option \<Rightarrow> world \<Rightarrow> bool) \<Rightarrow> cfg \<Rightarrow> nat \<Rightarrow> 'a call \<Rightarrow> bool" where
  "ends_in L c did f \<longleftrightarrow> (\<forall>ds bs w t. held c did ds bs w \<longrightarrow>
     L (raised (fst (f did (w, t)))) (fst (snd (f did (w, t)))))"

definition cut_off :: "(exn option \<Rightarrow> world \<Rightarrow> bool) \<Rightarrow> cfg \<Rightarrow> nat \<Rightarrow> executor \<Rightarrow> bool" where
  "cut_off L c did ex \<longleftrightarrow> calm_executor (\<lambda>_. False) L c did ex
     \<and> identity_raises (\<lambda>_. False) c ex \<and> ends_in L c did (ex_deploy ex)"

lemma ends_in_run_checked:
  assumes "ends_in L c did f" "interrupting c did L"
  shows "triple (At c did ds bs) (run_checked c f did) (\<lambda>_ _. False) (Raised X L c did)"
proof (rule tripleI)
  fix s assume s: "At c did ds bs s"
  obtain r w' t' where f: "f did (cur s, clock s) = (r, (w', t'))" by (metis surj_pair)
  let ?s = "\<lparr>com = w', cur = w', clock = t'\<rparr>"
  have exec: "run_exec f did s = (r, ?s)" using f by (simp add: run_exec_def)
  have "held c did ds bs (cur s)" using s by (simp add: At_def)
  then have L: "L (raised r) w'" using assms(1) f unfolding ends_in_def by (metis fst_conv snd_conv)
  show "case run_checked c f did s of (Inr _, s') \<Rightarrow> False | (Inl e, s') \<Rightarrow> Raised X L c did e s'"
  proof (cases r)
    case (Inl e)
    then show ?thesis using L exec by (simp add: run_checked_def Raised_def raised_def)
  next
    case (Inr x)
    then obtain e where "ensure_claim_owned c did None ?s = (Inl e, ?s)" "L (Some e) w'"
      using L assms(2) unfolding interrupting_def raised_def by (auto dest: spec [of _ ?s])
    then show ?thesis using exec Inr by (simp add: run_checked_def Raised_def)
  qed
qed

lemma triple_dead: "triple (\<lambda>_. False) m Q E"
  by (simp add: triple_def)

lemma cut_off_deploy_stage:
  assumes "cut_off L c did ex" "interrupting c did L"
  shows "triple (At c did Pushing_image B_succeeded) (deploy_stage c ex did) (\<lambda>_ _. False)
    (Raised (\<lambda>_. False) L c did)"
proof -
  have ex: "calm_executor (\<lambda>_. False) L c did ex" "identity_raises (\<lambda>_. False) c ex"
      "ends_in L c did (ex_deploy ex)"
    using assms(1) by (simp_all add: cut_off_def)
  show ?thesis
    unfolding deploy_stage_def
    by (rule triple_seqs_Cons [OF At_begin_step [where bs' = B_succeeded]]
        triple_seqs_Cons [OF At_target_stage [OF ex(2)]]
        triple_seqs_Cons [OF At_preflight_stage [OF ex(1) assms(2)]]
        triple_seqs_Cons [OF triple_bind [OF ends_in_run_checked [OF ex(3) assms(2)] triple_dead] triple_dead]
        | simp add: build_status_by_deployment_status_def)+
qed

lemma cut_off_triple:
  assumes "cut_off L c did ex" "interrupting c did L"
    and "\<And>e. triple (\<lambda>s. com s = cur s \<and> L (Some e) (cur s)) (pipeline_error c did e) Q (\<lambda>e s. False)"
  shows "triple (At c did Pending B_pending) (process_deployment c did (Some ex)) Q (\<lambda>e s. False)"
proof -
  have ex: "calm_executor (\<lambda>_. False) L c did ex" using assms(1) by (simp add: cut_off_def)
  have "triple (At c did Pending B_pending) (seqs (stages c ex did)) (\<lambda>_ _. False) (Raised (\<lambda>_. False) L c did)"
    unfolding stages_def
    by (rule triple_seqs_Cons At_clone_stage At_build_stage At_test_stage At_tag_stage At_push_stage
        At_verify_stage cut_off_deploy_stage [OF assms(1)] triple_dead ex assms(2))+
  then have body: "triple (At c did Pending B_pending) (bind (seqs (stages c ex did)) (\<lambda>_. ret (Some did)))
      Q (Raised (\<lambda>_. False) L c did)"
    by (rule triple_bind [OF _ triple_dead])
  have handler: "triple (Raised (\<lambda>_. False) L c did e) (pipeline_error c did e) Q (\<lambda>e s. False)" for e
    by (rule triple_weaken [OF assms(3)]) (auto simp: Raised_def)
  have "triple (At c did Pending B_pending) (bind (reset_attempt did) (\<lambda>_.
      catch (bind (seqs (stages c ex did)) (\<lambda>_. ret (Some did))) (pipeline_error c did))) Q (\<lambda>e s. False)"
    by (rule triple_bind [OF Start_reset] triple_catch [OF body] handler)+
  then show ?thesis
    unfolding process_deployment_def by (simp add: triple_def bind_def lift_def)
qed

lemma blocked_triple:
  assumes "\<And>r w. L r w \<Longrightarrow> \<exists>d b. get_dep w did = Some d \<and> get_build w (d_build_id d) = Some b
      \<and> (if l then \<not> owned c w did else owned c w did \<and> active_stop w did \<noteq> None)
      \<and> (\<forall>e. r = Some e \<longrightarrow> (if l then \<not> is_cancellation e else \<not> is_claim_lost e))"
  shows "triple (\<lambda>s. com s = cur s \<and> L (Some e) (cur s)) (pipeline_error c did e)
    (\<lambda>r s. r = Some did \<and> (\<exists>w e. L e w \<and> (if l then Lost_end did w s else Stop_end did w s)))
    (\<lambda>e s. False)"
proof (rule tripleI)
  fix s :: session assume s: "com s = cur s \<and> L (Some e) (cur s)"
  then obtain d b where "get_dep (cur s) did = Some d" "get_build (cur s) (d_build_id d) = Some b"
      "if l then \<not> owned c (cur s) did else owned c (cur s) did \<and> active_stop (cur s) did \<noteq> None"
      "if l then \<not> is_cancellation e else \<not> is_claim_lost e"
    using assms [of "Some e" "cur s"] by blast
  then have "triple (\<lambda>s'. com s' = cur s \<and> cur s' = cur s) (pipeline_error c did e)
      (Interrupted_end did (cur s) l) (\<lambda>e s. False)"
    by (rule Blocked_pipeline_error)
  then have "case pipeline_error c did e s of
      (Inr r, s') \<Rightarrow> Interrupted_end did (cur s) l r s' | (Inl e, s') \<Rightarrow> False"
    by (rule tripleD) (use s in simp)
  then show "case pipeline_error c did e s of
      (Inr r, s') \<Rightarrow> r = Some did \<and> (\<exists>w e. L e w \<and> (if l then Lost_end did w s' else Stop_end did w s'))
      | (Inl e, s') \<Rightarrow> False"
    using s unfolding Interrupted_end_def by (auto split: prod.splits sum.splits)
qed

text \<open>A triple without exceptions that determines the value, as a statement about one run.\<close>

lemma triple_returned:
  "triple P m (\<lambda>r s. r = y \<and> Q s) (\<lambda>e s. False) \<Longrightarrow> P s \<Longrightarrow> \<exists>s'. m s = (Inr y, s') \<and> Q s'"
  by (rule result_returned) (rule tripleD)

end
