(* ===== verification/Clean_Attempt.thy ===== *)
theory Clean_Attempt
  imports Pipeline_Outcome
begin

text \<open>
  The errors that the rows of a deployment record: \<open>process_deployment\<close> clears them when an
  attempt begins (\<open>reset_attempt\<close>), and no stage of the pipeline writes one. A step is
  \<open>clean\<close> when rows without an error still have none if it returns; the rules below follow the
  definitions of the stages.
\<close>

section \<open>Clean steps\<close>

named_theorems clean_rules \<open>steps that record no error\<close>

definition error_free :: "nat \<Rightarrow> world \<Rightarrow> bool" where
  "error_free did w \<longleftrightarrow> (\<exists>d b. get_dep w did = Some d \<and> get_build w (d_build_id d) = Some b
     \<and> d_last_error d = None \<and> b_last_error b = None)"

definition clean :: "nat \<Rightarrow> 'a proc \<Rightarrow> bool" where
  "clean did m \<longleftrightarrow> triple (\<lambda>s. error_free did (cur s)) m (\<lambda>_ s. error_free did (cur s)) (\<lambda>_ _. True)"

lemma clean_bind [clean_rules]: "clean did m \<Longrightarrow> (\<And>x. clean did (k x)) \<Longrightarrow> clean did (bind m k)"
  unfolding clean_def by (rule triple_bind)

lemma clean_seqs_Nil [clean_rules]: "clean did (seqs [])"
  by (simp add: clean_def triple_def ret_def)

lemma clean_seqs_Cons [clean_rules]: "clean did m \<Longrightarrow> clean did (seqs ms) \<Longrightarrow> clean did (seqs (m # ms))"
  by (simp add: clean_bind)

lemma clean_whenp [clean_rules]: "clean did m \<Longrightarrow> clean did (whenp b m)"
  by (simp add: clean_def whenp_def triple_def ret_def)

lemma clean_if [clean_rules]: "clean did m \<Longrightarrow> clean did n \<Longrightarrow> clean did (if b then m else n)"
  by simp

lemma clean_case_option [clean_rules]:
  "clean did m \<Longrightarrow> (\<And>x. clean did (k x)) \<Longrightarrow> clean did (case a of None \<Rightarrow> m | Some x \<Rightarrow> k x)"
  by (cases a) auto

lemma clean_case_prod [clean_rules]: "(\<And>a b. clean did (k a b)) \<Longrightarrow> clean did (case p of (a, b) \<Rightarrow> k a b)"
  by (cases p) simp

text \<open>Steps that write nothing.\<close>

lemma clean_same: "(\<And>s. cur (snd (m s)) = cur s) \<Longrightarrow> clean did m"
  unfolding clean_def triple_def by (metis (no_types, lifting) prod.case_eq_if sum.case_eq_if)

lemma clean_reads [clean_rules]:
  "clean did (ret x)" "clean did (throw e)" "clean did (lift r)" "clean did now" "clean did (query f)"
  "clean did commit" "clean did (the_dep i)" "clean did (the_build i)" "clean did (ensure_claim_owned c i expected)"
  by (rule clean_same; auto simp: ret_def throw_def lift_def now_def query_def commit_def the_dep_def the_build_def
      bind_def ensure_session split: option.splits prod.splits sum.splits)+

text \<open>Assignments that leave the error alone.\<close>

definition silent_dep :: "(deployment \<Rightarrow> deployment) \<Rightarrow> bool" where
  "silent_dep f \<longleftrightarrow> (\<forall>d. d_id (f d) = d_id d \<and> d_build_id (f d) = d_build_id d \<and> d_last_error (f d) = d_last_error d)"

definition silent_build :: "(build \<Rightarrow> build) \<Rightarrow> bool" where
  "silent_build g \<longleftrightarrow> (\<forall>b. b_id (g b) = b_id b \<and> b_last_error (g b) = b_last_error b)"

lemma silent_touch: "silent_dep f \<Longrightarrow> silent_dep (touch_dep t f)" "silent_build g \<Longrightarrow> silent_build (touch_build t g)"
  by (simp_all add: silent_dep_def silent_build_def touch_dep_def touch_build_def Let_def)

lemma error_free_upd_dep: "silent_dep f \<Longrightarrow> error_free did w \<Longrightarrow> error_free did (upd_dep i f w)"
  unfolding error_free_def silent_dep_def by (auto simp: deps.get_upd)

lemma error_free_upd_build: "silent_build g \<Longrightarrow> error_free did w \<Longrightarrow> error_free did (upd_build i g w)"
  unfolding error_free_def silent_build_def by (auto simp: bldt.get_upd)

lemma clean_store: "(\<And>t w. error_free did w \<Longrightarrow> error_free did (f t w)) \<Longrightarrow> clean did (store f)"
  by (simp add: clean_def triple_def store_def)

lemma clean_set_dep [clean_rules]: "silent_dep f \<Longrightarrow> clean did (set_dep i f)"
  unfolding set_dep_def by (intro clean_rules clean_store error_free_upd_dep silent_touch)

lemma clean_set_build [clean_rules]: "silent_build g \<Longrightarrow> clean did (set_build i g)"
  unfolding set_build_def by (intro clean_rules clean_store error_free_upd_build silent_touch)

lemma clean_update_row: "(\<And>t. silent_dep (guarded (g t))) \<Longrightarrow> clean did (update_row g i)"
  by (auto simp: clean_def triple_def update_row_def error_free_upd_dep split: option.splits)

lemma clean_add_event [clean_rules]: "clean did (add_event mk)"
  unfolding add_event_def by (rule clean_store) (simp add: error_free_def)

lemma silent_writes [clean_rules]:
  "silent_dep (\<lambda>d. d\<lparr>d_claimed_at := at\<rparr>)"
  "silent_dep (\<lambda>d. d\<lparr>d_claimed_at := at, d_claimed_by := by'\<rparr>)"
  "silent_dep (\<lambda>d. d\<lparr>d_status := st\<rparr>)"
  "silent_dep (\<lambda>d. d\<lparr>d_started_at := n\<rparr>)"
  "silent_dep (\<lambda>d. d\<lparr>d_finished_at := n\<rparr>)"
  "silent_dep (\<lambda>d. d\<lparr>d_deploy_target := a\<rparr>)"
  "silent_dep (\<lambda>d. d\<lparr>d_preflight_status := a, d_preflight_summary := b,
     d_preflight_metadata_json := j, d_preflight_completed_at := n\<rparr>)"
  "silent_dep (preflight_fields sv st' su md t)"
  "silent_dep (dep_result r)"
  "silent_dep (freeze_identity mode ns ident)"
  "silent_dep (helm_metadata sh hm)"
  "silent_dep (guarded (refresh_update wk t))"
  "silent_build (\<lambda>b. b\<lparr>b_status := bst\<rparr>)"
  "silent_build (\<lambda>b. b\<lparr>b_started_at := n\<rparr>)"
  "silent_build (\<lambda>b. b\<lparr>b_finished_at := n\<rparr>)"
  "silent_build (\<lambda>b. b\<lparr>b_build_log_path := a\<rparr>)"
  "silent_build (\<lambda>b. b\<lparr>b_registry_push_status := a\<rparr>)"
  "silent_build (build_result r)"
  by (auto simp: silent_dep_def silent_build_def preflight_fields_def dep_result_def freeze_identity_def helm_metadata_def
      guarded_def refresh_update_def build_result_def Let_def split: option.splits)

lemma clean_transitions [clean_rules]:
  "clean did (transition_to i st)" "clean did (build_transition_to i bst)"
  unfolding transition_to_def build_transition_to_def by (intro clean_rules)+

section \<open>The stages\<close>

lemma clean_record_event [clean_rules]: "clean did (record_event c i et st msg step level md)"
  unfolding record_event_def Let_def by (intro clean_rules)

lemma clean_record_auxiliary_events [clean_rules]: "clean did (record_auxiliary_events c i es)"
  by (induction es) (auto intro: clean_rules)

lemma clean_write_claim_event [clean_rules]: "clean did (write_claim_event c i et msg level md)"
  unfolding write_claim_event_def by (intro clean_rules)

lemma clean_refresh [clean_rules]: "clean did (refresh_claim c i expected)"
  unfolding refresh_claim_def by (intro clean_rules clean_update_row)

lemma clean_release [clean_rules]: "clean did (release_deployment_claim i)"
  unfolding release_deployment_claim_def by (intro clean_rules)

lemma clean_apply_result [clean_rules]: "clean did (apply_execution_result c i r)"
  unfolding apply_execution_result_def persist_helm_runtime_metadata_def by (intro clean_rules)

lemma clean_preflight_result [clean_rules]: "clean did (persist_preflight_result c i r)"
  unfolding persist_preflight_result_def secrets_of_def by (intro clean_rules)

lemma clean_begin_step [clean_rules]: "clean did (begin_step c i st et msg)"
  unfolding begin_step_def set_deployment_status_def by (intro clean_rules)

lemma clean_commit_step [clean_rules]: "clean did (commit_step_result c i et st msg step md es)"
  unfolding commit_step_result_def by (intro clean_rules)

lemma clean_status_text [clean_rules]: "clean did (status_text i)"
  unfolding status_text_def by (intro clean_rules)

text \<open>A call during which nobody records an error on the rows.\<close>

definition clean_call :: "nat \<Rightarrow> 'a call \<Rightarrow> bool" where
  "clean_call did f \<longleftrightarrow> (\<forall>w t. error_free did w \<longrightarrow> error_free did (fst (snd (f did (w, t)))))"

definition clean_executor :: "nat \<Rightarrow> executor \<Rightarrow> bool" where
  "clean_executor did ex \<longleftrightarrow>
     clean_call did (ex_clone_repo ex) \<and> clean_call did (ex_build_image ex)
     \<and> clean_call did (ex_run_tests ex) \<and> clean_call did (ex_tag_image ex)
     \<and> clean_call did (ex_push_image ex) \<and> clean_call did (ex_verify_image ex)
     \<and> clean_call did (ex_preflight_deploy ex) \<and> clean_call did (ex_deploy ex)"

lemma clean_run_checked: "clean_call did f \<Longrightarrow> clean did (run_checked c f did)"
proof -
  assume f: "clean_call did f"
  have "clean did (run_exec f did)"
    unfolding clean_def
  proof (rule tripleI)
    fix s :: session assume "error_free did (cur s)"
    then have "error_free did (fst (snd (f did (cur s, clock s))))" using f by (simp add: clean_call_def)
    then show "case run_exec f did s of (Inr x, s') \<Rightarrow> error_free did (cur s') | (Inl e, s') \<Rightarrow> True"
      by (auto simp: run_exec_def split: prod.splits sum.splits)
  qed
  then show ?thesis unfolding run_checked_def by (intro clean_rules)
qed

lemma clean_stages:
  assumes "clean_executor did ex"
  shows "clean did (seqs (stages c ex did))"
proof -
  note calls = assms [unfolded clean_executor_def]
  have "clean did (clone_stage c ex did)" "clean did (build_stage c ex did)" "clean did (test_stage c ex did)"
    "clean did (tag_stage c ex did)" "clean did (push_stage c ex did)" "clean did (verify_stage c ex did)"
    unfolding clone_stage_def build_stage_def test_stage_def tag_stage_def push_stage_def verify_stage_def
    using calls by (auto intro!: clean_rules clean_run_checked simp del: seqs.simps)
  moreover have "clean did (target_stage c ex did)"
    unfolding target_stage_def persist_kubernetes_runtime_identity_def Let_def by (intro clean_rules)
  moreover have "clean did (preflight_stage c ex did)"
    unfolding preflight_stage_def using calls by (intro clean_rules clean_run_checked) simp
  moreover have "clean did (deploy_stage c ex did)"
    unfolding deploy_stage_def using calls calculation(7,8) by (intro clean_rules clean_run_checked) simp_all
  moreover have "clean did (finish_stage c did)"
    unfolding finish_stage_def by (intro clean_rules)
  ultimately show ?thesis unfolding stages_def by (intro clean_rules)
qed

section \<open>A whole attempt\<close>

lemma touched [simp]:
  "d_last_error (touch_dep t f d) = d_last_error (f d)" "b_last_error (touch_build t g b) = b_last_error (g b)"
  by (simp_all add: touch_dep_def touch_build_def Let_def)

lemma reset_error_free:
  assumes "get_dep (cur s) did = Some d" "get_build (cur s) (d_build_id d) = Some b"
    and "reset_attempt did s = (Inr (), s')"
  shows "error_free did (cur s')"
proof -
  let ?f = "touch_dep (clock s) (\<lambda>d. d\<lparr>d_last_error := None\<rparr>)" let ?g = "touch_build (clock s) (\<lambda>b. b\<lparr>b_last_error := None\<rparr>)"
  let ?w1 = "upd_dep did ?f (cur s)" let ?w2 = "upd_build (d_build_id d) ?g ?w1"
  have same: "d_build_id (?f d) = d_build_id d" by (simp add: touch_dep_def Let_def)
  have 1: "set_dep did (\<lambda>d. d\<lparr>d_last_error := None\<rparr>) s = (Inr (), s\<lparr>cur := ?w1\<rparr>)"
    using set_dep_Some [OF assms(1)] .
  have "get_dep ?w1 did = Some (?f d)" "get_build ?w1 (d_build_id (?f d)) = Some b"
    using assms(1,2) same by (simp_all add: deps.get_upd)
  then have 2: "set_build did (\<lambda>b. b\<lparr>b_last_error := None\<rparr>) (s\<lparr>cur := ?w1\<rparr>) = (Inr (), s\<lparr>cur := ?w2\<rparr>)"
    using set_build_Some [of "s\<lparr>cur := ?w1\<rparr>" did "?f d" b "\<lambda>b. b\<lparr>b_last_error := None\<rparr>"] same by simp
  have free: "error_free did ?w2"
    unfolding error_free_def using assms(1,2) same by (simp add: deps.get_upd bldt.get_upd)
  let ?rest = "seqs [set_build did (\<lambda>b. b\<lparr>b_registry_push_status := None\<rparr>), clear_preflight_state did]"
  have rest: "clean did ?rest" unfolding clear_preflight_state_def by (intro clean_rules)
  have run: "?rest (s\<lparr>cur := ?w2\<rparr>) = (Inr (), s')"
    using assms(3) 1 2 by (simp add: reset_attempt_def bind_def)
  show ?thesis by (rule triple_InrD [OF rest [unfolded clean_def] _ run]) (simp add: free)
qed

lemma triple_total:
  assumes "triple P m (\<lambda>_. Q) (\<lambda>_ _. False)" "P s"
  obtains x s' where "m s = (Inr x, s')" "Q s'"
proof -
  obtain r s' where m: "m s = (r, s')" by fastforce
  show thesis using tripleD [OF assms] that m by (cases r) auto
qed

text \<open>An attempt whose stages all return, of a worker that holds the claim.\<close>

lemma successful_attempt_error_free:
  assumes "calm_executor (\<lambda>_. False) (\<lambda>_ _. False) c did ex" "identity_raises (\<lambda>_. False) c ex"
    and "clean_executor did ex" "At c did Pending B_pending s"
    and "process_deployment c did (Some ex) s = (r, s')"
  shows "error_free did (cur s')"
proof -
  obtain d b where rows: "get_dep (cur s) did = Some d" "get_build (cur s) (d_build_id d) = Some b"
    using assms(4) by (auto elim: At_row)
  have "triple (At c did Pending B_pending) (reset_attempt did) (\<lambda>_. At c did Pending B_pending) (\<lambda>_ _. False)"
    by (rule Start_reset)
  then obtain s1 where 1: "reset_attempt did s = (Inr (), s1)" "At c did Pending B_pending s1"
    by (rule triple_total [where P = "At c did Pending B_pending"]) (use assms(4) in simp_all)
  have "triple (At c did Pending B_pending) (seqs (stages c ex did)) (\<lambda>_. Committed did running_end) (\<lambda>_ _. False)"
    using At_stages [OF assms(1) _ assms(2)] by (rule triple_weaken) (auto simp: interrupting_def Raised_def)
  then obtain s2 where 2: "seqs (stages c ex did) s1 = (Inr (), s2)"
    by (rule triple_total [where P = "At c did Pending B_pending"]) (use 1(2) in simp_all)
  have "error_free did (cur s2)"
    using triple_InrD [OF clean_stages [OF assms(3), unfolded clean_def] reset_error_free [OF rows 1(1)] 2] .
  moreover have "s' = s2"
    using assms(5) 1(1) 2 by (simp add: process_deployment_def bind_def lift_def catch_def ret_def)
  ultimately show ?thesis by simp
qed

end
