(* ===== verification/Demo.thy ===== *)
theory Demo
  imports Session
begin

text \<open>
  A small platform for the concrete instances of the properties: one project, deployments
  and builds in the states that matter, a command, and a worker \<open>w1\<close> whose configuration
  has only the fake executor.
\<close>

definition demo_project :: project where
  "demo_project = \<lparr>p_id = 1, p_name = ''shop'', p_repo_url = ''https://example.com/shop.git'',
     p_branch = ''main'', p_git_auth_type = ''none'', p_git_secret_ref = None,
     p_dockerfile_path = ''Dockerfile'', p_build_context = ''.'', p_port = 8080,
     p_healthcheck_path = ''/health'', p_env_vars = [], p_default_test_command = None,
     p_migration_command = None, p_cpu = None, p_memory = None, p_trigger = ''manual'',
     p_runtime = ''docker'', p_created_at = 1, p_updated_at = 1\<rparr>"

definition demo_build :: "nat \<Rightarrow> build_status \<Rightarrow> build" where
  "demo_build i st = \<lparr>b_id = i, b_project_id = 1, b_commit_sha = ''abcdef0'', b_registry = None,
     b_image_name = None, b_image_tag = None, b_image_ref = None, b_status = st,
     b_registry_push_status = None, b_test_command = None, b_workspace_path = None,
     b_build_log_path = None, b_log_path = None, b_last_error = None, b_started_at = None,
     b_finished_at = None, b_created_at = 10, b_updated_at = 10\<rparr>"

definition demo_dep :: "nat \<Rightarrow> dep_status \<Rightarrow> (string \<times> int) option \<Rightarrow> deployment" where
  "demo_dep i st claim = \<lparr>d_id = i, d_project_id = 1, d_build_id = i, d_environment = ''prod'',
     d_status = st, d_deploy_target = None, d_container_name = None, d_container_id = None,
     d_host_port = None, d_healthcheck_url = None, d_service_url = None,
     d_kubernetes_deployment_mode = None, d_kubernetes_namespace = None,
     d_kubernetes_deployment_name = None, d_kubernetes_service_name = None,
     d_kubernetes_ingress_name = None, d_helm_release_name = None, d_helm_namespace = None,
     d_helm_chart_path = None, d_preflight_status = None, d_preflight_summary = None,
     d_preflight_metadata_json = JNull, d_spec_snapshot_json = JNull,
     d_preflight_completed_at = None, d_last_error = None, d_started_at = None,
     d_finished_at = None, d_claimed_at = map_option snd claim, d_claimed_by = map_option fst claim,
     d_origin_request_id = None, d_created_at = 100 + int i, d_updated_at = 100\<rparr>"

definition demo_cmd :: "nat \<Rightarrow> string \<Rightarrow> cmd_status \<Rightarrow> (string \<times> int) option \<Rightarrow> command" where
  "demo_cmd did ct st claim = \<lparr>c_id = 5, c_deployment_id = did, c_command_type = ct, c_status = st,
     c_active_key = Some ''active'', c_message = None, c_last_error = None,
     c_claimed_by = map_option fst claim, c_claimed_at = map_option snd claim,
     c_origin_request_id = None, c_requested_at = 150, c_completed_at = None\<rparr>"

definition demo_world :: "deployment list \<Rightarrow> build list \<Rightarrow> command list \<Rightarrow> world" where
  "demo_world ds bs ks = \<lparr>projects = [demo_project], builds = bs, deployments = ds, commands = ks,
     events = [], deliveries = [], audits = []\<rparr>"

definition demo_cfg :: cfg where
  "demo_cfg = \<lparr>worker_id = ''w1'', claim_ttl = 300, k8s_deployment_mode = ''manifest'',
     k8s_namespace = ''apps'', executor_name = ''fake'',
     local_docker_executor = Inl (OtherExn ''RuntimeError'' ''no docker''),
     kubernetes_executor = (\<lambda>mode ns. Inl (OtherExn ''RuntimeError'' ''no cluster'')),
     shown = (\<lambda>j. [])\<rparr>"

definition at_rest :: "world \<Rightarrow> session" where
  "at_rest w = \<lparr>com = w, cur = w, clock = 1000\<rparr>"

lemma at_rest [simp]: "com (at_rest w) = w" "cur (at_rest w) = w" "clock (at_rest w) = 1000"
  by (simp_all add: at_rest_def)

lemma demo_cfg_fields [simp]:
  "worker_id demo_cfg = ''w1''" "claim_ttl demo_cfg = 300" "executor_name demo_cfg = ''fake''"
  by (simp_all add: demo_cfg_def)

lemmas demo_defs = demo_world_def demo_dep_def demo_build_def demo_cmd_def
lemmas demo_reads = get_dep_def get_build_def get_cmd_def row_Cons

end
