(* ===== verification/Examples.thy ===== *)
theory Examples
  imports Invariants Interruption Clean_Attempt Demo
begin

text \<open>
  The fake executor on the small platform of \<open>Demo\<close>, and the facts about it that several
  concrete instances of the properties share.
\<close>

section \<open>The fake executor\<close>

lemma calm_reading: "calm X L c did (reading g)"
proof -
  have "reading g did (w, t) = (Inr (g w d b), (w, t))"
    if "get_dep w did = Some d" "get_build w (d_build_id d) = Some b" for w t d b
    using that by (rule reading_result)
  then show ?thesis unfolding calm_def held_def by fastforce
qed

lemma fake_calm: "calm_executor X L c did (fake_executor c)"
  using fake_calls_read [of c] by (auto simp: calm_executor_def calm_reading)

lemma fake_identity: "identity_raises X c (fake_executor c)"
  by (simp add: identity_raises_def fake_executor_def)

lemma clean_reading: "\<exists>g. f = reading g \<Longrightarrow> clean_call did f"
  by (auto simp: clean_call_def reading_def)

lemma fake_clean: "clean_executor did (fake_executor c)"
  unfolding clean_executor_def by (intro conjI fake_calls_read [THEN clean_reading])

lemma reading_keeps: "\<exists>g. f = reading g \<Longrightarrow> call_keeps I f"
  using call_keeps_reading by blast

lemma fake_keeps: "executor_keeps I (fake_executor c)"
  unfolding executor_keeps_def
  by (intro conjI allI fake_calls_read [THEN reading_keeps])
    (simp_all add: fake_executor_def call_keeps_def)

lemma demo_create_executor:
  "create_executor_for_name demo_cfg n = Inr ex \<Longrightarrow> ex = fake_executor demo_cfg"
  "create_executor_for_deployment demo_cfg w d = Inr ex \<Longrightarrow> ex = fake_executor demo_cfg"
proof -
  show "create_executor_for_name demo_cfg n = Inr ex \<Longrightarrow> ex = fake_executor demo_cfg" for n
    by (auto simp: create_executor_for_name_def Let_def demo_cfg_def split: if_splits)
  then show "create_executor_for_deployment demo_cfg w d = Inr ex \<Longrightarrow> ex = fake_executor demo_cfg"
    by (auto simp: create_executor_for_deployment_def Let_def demo_cfg_def split: if_splits)
qed

lemma demo_factory_keeps: "factory_keeps I demo_cfg"
  unfolding factory_keeps_def create_executor_def
  using demo_create_executor fake_keeps by metis

lemma idle_keeps_still: "idle_keeps I (\<lambda>n w. w)"
  by (simp add: idle_keeps_def)

lemma demo_held:
  "held demo_cfg 3 Pending B_pending
    (demo_world [demo_dep 3 Pending (Some (''w1'', 990))] [demo_build 3 B_pending] [])"
  by (simp add: held_def demo_reads demo_defs active_stop_def)

section \<open>Interrupted deployments\<close>

text \<open>Executors whose deploy call returns in a database where \<open>w2\<close> has taken over, or a stop was requested.\<close>

definition taken_over :: world where
  "taken_over = demo_world [demo_dep 3 Cloning (Some (''w2'', 1900))] [demo_build 3 B_cloning] []"

definition stop_asked :: world where
  "stop_asked = demo_world [demo_dep 3 Deploying (Some (''w1'', 1900))] [demo_build 3 B_succeeded]
     [demo_cmd 3 ''stop'' C_pending None]"

definition returning_in :: "world \<Rightarrow> executor" where
  "returning_in w = (fake_executor demo_cfg)\<lparr>
     ex_deploy := (\<lambda>did s. (Inr (result0 ''Deployed'' []), (w, 2000)))\<rparr>"

lemma returning_in_calls [simp]:
  "ex_clone_repo (returning_in w) = ex_clone_repo (fake_executor demo_cfg)"
  "ex_build_image (returning_in w) = ex_build_image (fake_executor demo_cfg)"
  "ex_run_tests (returning_in w) = ex_run_tests (fake_executor demo_cfg)"
  "ex_tag_image (returning_in w) = ex_tag_image (fake_executor demo_cfg)"
  "ex_push_image (returning_in w) = ex_push_image (fake_executor demo_cfg)"
  "ex_verify_image (returning_in w) = ex_verify_image (fake_executor demo_cfg)"
  "ex_preflight_deploy (returning_in w) = ex_preflight_deploy (fake_executor demo_cfg)"
  "ex_deploy (returning_in w) = (\<lambda>did s. (Inr (result0 ''Deployed'' []), (w, 2000)))"
  "ex_deploy_target (returning_in w) = Some ''fake''"
  by (simp_all add: returning_in_def) (simp add: fake_executor_def)

lemma cut_off_returning:
  assumes "L None w"
  shows "cut_off L demo_cfg 3 (returning_in w)"
proof -
  have "calm (\<lambda>_. False) L demo_cfg 3 (\<lambda>did s. (Inr (result0 ''Deployed'' []), (w, 2000)))"
    using assms by (simp add: calm_def raised_def)
  then have "calm_executor (\<lambda>_. False) L demo_cfg 3 (returning_in w)"
    using calm_executorD [OF fake_calm [of "\<lambda>_. False" L demo_cfg 3]]
    by (simp add: calm_executor_def)
  then show ?thesis
    using assms by (simp add: cut_off_def ends_in_def raised_def identity_raises_def)
qed

lemma taken_over_lost:
  "handed_over demo_cfg 3 (demo_dep 3 Cloning (Some (''w2'', 1900))) (demo_build 3 B_cloning) None taken_over"
  by (simp add: handed_over_def taken_over_def owned_def demo_reads demo_defs)

lemma stop_asked_stop:
  "stop_requested demo_cfg 3 (demo_dep 3 Deploying (Some (''w1'', 1900))) (demo_build 3 B_succeeded)
    None stop_asked"
  by (simp add: stop_requested_def stop_asked_def owned_def demo_reads demo_defs active_stop_def)

end
