(* ===== verification/Command_Validation.thy ===== *)
theory Command_Validation
  imports Json
begin

text \<open>
  \<open>control_plane/command_validation.py\<close>: test and migration commands are run without a
  shell, so commands that need one are refused. The arguments are those of
  \<open>shlex.split\<close> (POSIX mode, no comments), whose automaton is written out here. The lemmas
  state that splitting agrees with splitting at white space on unquoted text, that quoting
  an argument is undone by splitting, and what an accepted command cannot contain.
\<close>

section \<open>shlex.split\<close>

text \<open>
  The states of \<open>shlex.read_token\<close>: between words, in a word, in quotes (with the quote
  character), and after a backslash (in double quotes, or outside of quotes).
\<close>

datatype lex_state = Lex_space | Lex_word | Lex_quote char | Lex_escape bool

definition shlex_space :: "char \<Rightarrow> bool" where
  "shlex_space c \<longleftrightarrow> c \<in> {CHR '' '', CHR 0x09, CHR 0x0D, CHR 0x0A}"

definition SINGLE :: char where "SINGLE = CHR 0x27"
definition DOUBLE :: char where "DOUBLE = CHR 0x22"
definition BACKSLASH :: char where "BACKSLASH = CHR 0x5C"

definition emit :: "string \<Rightarrow> string + string list \<Rightarrow> string + string list" where
  "emit token rest = (case rest of Inl e \<Rightarrow> Inl e | Inr tokens \<Rightarrow> Inr (token # tokens))"

fun shlex_go :: "lex_state \<Rightarrow> string \<Rightarrow> bool \<Rightarrow> string \<Rightarrow> string + string list" where
  "shlex_go Lex_space token quoted [] = Inr []"
| "shlex_go Lex_space token quoted (c # s) =
     (if shlex_space c then shlex_go Lex_space [] False s
      else if c = BACKSLASH then shlex_go (Lex_escape False) [] False s
      else if c = SINGLE \<or> c = DOUBLE then shlex_go (Lex_quote c) [] False s
      else shlex_go Lex_word [c] False s)"
| "shlex_go Lex_word token quoted [] = Inr (if token = [] \<and> \<not> quoted then [] else [token])"
| "shlex_go Lex_word token quoted (c # s) =
     (if shlex_space c
      then (if token \<noteq> [] \<or> quoted then emit token (shlex_go Lex_space [] False s)
            else shlex_go Lex_space [] False s)
      else if c = SINGLE \<or> c = DOUBLE then shlex_go (Lex_quote c) token quoted s
      else if c = BACKSLASH then shlex_go (Lex_escape False) token quoted s
      else shlex_go Lex_word (token @ [c]) quoted s)"
| "shlex_go (Lex_quote d) token quoted [] = Inl ''No closing quotation''"
| "shlex_go (Lex_quote d) token quoted (c # s) =
     (if c = d then shlex_go Lex_word token True s
      else if c = BACKSLASH \<and> d = DOUBLE then shlex_go (Lex_escape True) token True s
      else shlex_go (Lex_quote d) (token @ [c]) True s)"
| "shlex_go (Lex_escape in_quotes) token quoted [] = Inl ''No escaped character''"
| "shlex_go (Lex_escape in_quotes) token quoted (c # s) =
     (let token' = token @ (if in_quotes \<and> c \<noteq> BACKSLASH \<and> c \<noteq> DOUBLE then [BACKSLASH] else []) @ [c]
      in shlex_go (if in_quotes then Lex_quote DOUBLE else Lex_word) token' quoted s)"

definition shlex_split :: "string \<Rightarrow> string + string list" where
  "shlex_split s = shlex_go Lex_space [] False s"

section \<open>Commands\<close>

definition MAX_COMMAND_LENGTH :: nat where
  "MAX_COMMAND_LENGTH = 255"

definition SHELL_CONTROL_PATTERNS :: "string list" where
  "SHELL_CONTROL_PATTERNS = [[CHR 0x00], [CHR 0x0A], [CHR 0x0D], '';'', ''&&'', ''||'', ''|'', ''<'', ''>'',
     [CHR 0x60], ''$('']"

definition SHELL_EXECUTABLES :: "string list" where
  "SHELL_EXECUTABLES = [''sh'', ''bash'', ''dash'', ''zsh'', ''fish'']"

text \<open>\<open>args[0].rsplit("/", 1)[-1]\<close>, and the refused \<open>sh -c\<close> shape.\<close>

definition executable_of :: "string \<Rightarrow> string" where
  "executable_of arg = last (split_on (CHR ''/'') arg)"

definition shell_wrapper :: "string list \<Rightarrow> bool" where
  "shell_wrapper args = (case args of
     arg0 # arg1 # _ \<Rightarrow> executable_of arg0 \<in> set SHELL_EXECUTABLES \<and> arg1 = ''-c''
   | _ \<Rightarrow> False)"

definition parse_optional_command :: "json \<Rightarrow> string \<Rightarrow> string + string list option" where
  "parse_optional_command value field_name = (case value of
     JNull \<Rightarrow> Inr None
   | JStr s \<Rightarrow>
       if strip s = [] then Inl (''Invalid '' @ field_name @ ''. Expected a non-empty string'')
       else if length s > MAX_COMMAND_LENGTH
       then Inl (''Invalid '' @ field_name @ ''. Expected at most '' @ str_of_nat MAX_COMMAND_LENGTH @ '' characters'')
       else if list_ex (\<lambda>pattern. contains pattern s) SHELL_CONTROL_PATTERNS
       then Inl (''Invalid '' @ field_name @ ''. Shell control characters and operators are not supported'')
       else (case shlex_split s of
          Inl e \<Rightarrow> Inl (''Invalid '' @ field_name @ ''. Could not parse command arguments'')
        | Inr args \<Rightarrow>
            if args = [] then Inl (''Invalid '' @ field_name @ ''. Expected a non-empty command'')
            else if shell_wrapper args
            then Inl (''Invalid '' @ field_name @ ''. Shell wrappers with -c are not supported'')
            else Inr (Some args))
   | _ \<Rightarrow> Inl (''Invalid '' @ field_name @ ''. Expected a string''))"

definition validate_optional_command :: "json \<Rightarrow> string \<Rightarrow> string option" where
  "validate_optional_command value field_name =
     (case parse_optional_command value field_name of Inl e \<Rightarrow> Some e | Inr _ \<Rightarrow> None)"

section \<open>Unquoted text\<close>

text \<open>The reference: the maximal runs of characters that are not white space.\<close>

fun words :: "string \<Rightarrow> string \<Rightarrow> string list" where
  "words token [] = (if token = [] then [] else [token])"
| "words token (c # s) =
     (if shlex_space c then (if token = [] then words [] s else token # words [] s)
      else words (token @ [c]) s)"

definition unquoted :: "string \<Rightarrow> bool" where
  "unquoted s \<longleftrightarrow> SINGLE \<notin> set s \<and> DOUBLE \<notin> set s \<and> BACKSLASH \<notin> set s"

lemma emit_Inr [simp]: "emit t (Inr ts) = Inr (t # ts)"
  by (simp add: emit_def)

lemma shlex_unquoted:
  "unquoted s \<Longrightarrow> shlex_go Lex_space [] False s = Inr (words [] s)
     \<and> (\<forall>token. token \<noteq> [] \<longrightarrow> shlex_go Lex_word token False s = Inr (words token s))"
proof (induction s)
  case (Cons c s)
  then have "unquoted s" "c \<noteq> SINGLE" "c \<noteq> DOUBLE" "c \<noteq> BACKSLASH"
    by (auto simp: unquoted_def)
  then show ?case using Cons.IH by simp
qed simp

section \<open>Quoting\<close>

text \<open>
  An argument in single quotes, as \<open>shlex.quote\<close> writes it for text without a single quote,
  and arguments joined by one space.
\<close>

definition quote :: "string \<Rightarrow> string" where
  "quote s = SINGLE # s @ [SINGLE]"

lemma quotes_distinct [simp]:
  "SINGLE \<noteq> DOUBLE" "SINGLE \<noteq> BACKSLASH" "DOUBLE \<noteq> BACKSLASH" "DOUBLE \<noteq> SINGLE" "BACKSLASH \<noteq> SINGLE"
  "\<not> shlex_space SINGLE"
  by (simp_all add: SINGLE_def DOUBLE_def BACKSLASH_def shlex_space_def)

lemma shlex_quoted_text:
  "SINGLE \<notin> set s \<Longrightarrow> shlex_go (Lex_quote SINGLE) token q (s @ SINGLE # rest)
    = shlex_go Lex_word (token @ s) True rest"
  by (induction s arbitrary: token q) auto

lemma shlex_quote_first:
  "SINGLE \<notin> set s \<Longrightarrow> shlex_go Lex_space [] False (quote s @ rest) = shlex_go Lex_word s True rest"
  by (simp add: quote_def shlex_quoted_text)

lemma shlex_join_quotes:
  "\<forall>a \<in> set args. SINGLE \<notin> set a \<Longrightarrow>
    shlex_go Lex_space [] False (join [CHR '' ''] (map quote args)) = Inr args"
proof (induction args rule: induct_list012)
  case (2 a)
  then show ?case using shlex_quote_first [of a "[]"] by simp
next
  case (3 a b args)
  let ?rest = "join [CHR '' ''] (map quote (b # args))"
  have "shlex_go Lex_space [] False (quote a @ CHR '' '' # ?rest)
      = emit a (shlex_go Lex_space [] False ?rest)"
    using shlex_quote_first [of a "CHR '' '' # ?rest"] 3(3) by (simp add: shlex_space_def)
  then show ?case using 3 by simp
qed simp

section \<open>Accepted commands\<close>

lemma accepted_command:
  assumes "parse_optional_command v field_name = Inr (Some args)"
  obtains s where "v = JStr s" "length s \<le> MAX_COMMAND_LENGTH"
    and "\<And>p. p \<in> set SHELL_CONTROL_PATTERNS \<Longrightarrow> \<not> contains p s"
    and "shlex_split s = Inr args" "args \<noteq> []" "\<not> shell_wrapper args"
  using assms
  by (cases v) (auto simp: parse_optional_command_def list_ex_iff split: if_splits sum.splits)

text \<open>Two commands that the checks let through.\<close>

lemma still_accepted:
  "parse_optional_command (JStr ''make & bash -lc true'') f = Inr (Some [''make'', ''&'', ''bash'', ''-lc'', ''true''])"
  "parse_optional_command (JStr ''bash -lc true'') f = Inr (Some [''bash'', ''-lc'', ''true''])"
proof -
  have shape: "parse_optional_command (JStr s) f = Inr (Some args)"
    if "strip s \<noteq> []" "\<not> length s > MAX_COMMAND_LENGTH" "\<not> list_ex (\<lambda>pattern. contains pattern s) SHELL_CONTROL_PATTERNS"
      "shlex_split s = Inr args" "args \<noteq> []" "\<not> shell_wrapper args" for s args
    using that by (simp add: parse_optional_command_def)
  show "parse_optional_command (JStr ''make & bash -lc true'') f = Inr (Some [''make'', ''&'', ''bash'', ''-lc'', ''true''])"
    by (rule shape; code_simp)
  show "parse_optional_command (JStr ''bash -lc true'') f = Inr (Some [''bash'', ''-lc'', ''true''])"
    by (rule shape; code_simp)
qed

section \<open>Properties\<close>

text \<open>
  On text without quotes and backslashes the automaton of \<open>shlex\<close> never fails and
  yields the maximal runs of characters that are not white space.
\<close>

theorem shlex_agrees_with_words:
  assumes "unquoted s"
  shows "shlex_split s = Inr (words [] s)"
  using shlex_unquoted [OF assms] by (simp add: shlex_split_def)

theorem shlex_agrees_with_words_witness:
  "shlex_split '' pytest  -q tests '' = Inr [''pytest'', ''-q'', ''tests'']"
proof -
  have "shlex_split '' pytest  -q tests '' = Inr (words [] '' pytest  -q tests '')"
    by (rule shlex_agrees_with_words) (simp add: unquoted_def SINGLE_def DOUBLE_def BACKSLASH_def)
  then show ?thesis by (simp add: shlex_space_def)
qed

text \<open>
  Splitting undoes quoting: a command line of single-quoted arguments, whatever else is
  in them (spaces, double quotes, backslashes, or nothing), is split into these arguments.
\<close>

theorem shlex_undoes_quoting:
  assumes "\<forall>a \<in> set args. SINGLE \<notin> set a"
  shows "shlex_split (join [CHR '' ''] (map quote args)) = Inr args"
  using shlex_join_quotes [OF assms] by (simp add: shlex_split_def)

theorem shlex_undoes_quoting_witness:
  "shlex_split (join [CHR '' ''] (map quote [''npm'', ''run  all'', [], [BACKSLASH, DOUBLE]]))
    = Inr [''npm'', ''run  all'', [], [BACKSLASH, DOUBLE]]"
  by (rule shlex_undoes_quoting) (simp add: SINGLE_def BACKSLASH_def DOUBLE_def)

text \<open>
  C16: What an accepted command is: text of at most 255 characters in which none of the eleven
  refused texts occurs (NUL, line feed, carriage return, \<open>;\<close>, \<open>&&\<close>, \<open>||\<close>, \<open>|\<close>, \<open><\<close>, \<open>>\<close>, the
  backquote, \<open>$(\<close>), which \<open>shlex\<close> splits into at least one argument, and whose second argument is
  not \<open>-c\<close> when the first names one of five shells. That is the whole protection: a single
  \<open>&\<close> is an ordinary character, and a shell that gets its script by \<open>bash -lc\<close> or through
  \<open>env\<close> is accepted.
\<close>

theorem accepted_command_is_plain:
  assumes "parse_optional_command v field_name = Inr (Some args)"
  shows "\<exists>s. v = JStr s \<and> length s \<le> 255 \<and> shlex_split s = Inr args \<and> args \<noteq> []
    \<and> list_all (\<lambda>p. \<not> contains p s) [[CHR 0x00], [CHR 0x0A], [CHR 0x0D], '';'', ''&&'', ''||'', ''|'', ''<'', ''>'',
         [CHR 0x60], ''$('']
    \<and> \<not> (executable_of (hd args) \<in> {''sh'', ''bash'', ''dash'', ''zsh'', ''fish''} \<and> take 1 (tl args) = [''-c''])
    \<and> parse_optional_command (JStr ''make & bash -lc true'') field_name
        = Inr (Some [''make'', ''&'', ''bash'', ''-lc'', ''true''])
    \<and> parse_optional_command (JStr ''bash -lc true'') field_name = Inr (Some [''bash'', ''-lc'', ''true''])"
proof -
  obtain s where s: "v = JStr s" "length s \<le> MAX_COMMAND_LENGTH" "shlex_split s = Inr args" "args \<noteq> []"
      "\<not> shell_wrapper args" and p: "\<And>p. p \<in> set SHELL_CONTROL_PATTERNS \<Longrightarrow> \<not> contains p s"
    using accepted_command [OF assms] by metis
  have "\<not> (executable_of (hd args) \<in> {''sh'', ''bash'', ''dash'', ''zsh'', ''fish''} \<and> take 1 (tl args) = [''-c''])"
    using s(5) by (auto simp: shell_wrapper_def SHELL_EXECUTABLES_def take_Suc split: list.splits)
  moreover have "list_all (\<lambda>p. \<not> contains p s) [[CHR 0x00], [CHR 0x0A], [CHR 0x0D], '';'', ''&&'', ''||'', ''|'', ''<'', ''>'',
      [CHR 0x60], ''$('']"
    using p unfolding list_all_iff by (intro ballI p) (auto simp: SHELL_CONTROL_PATTERNS_def)
  ultimately show ?thesis using s by (simp add: MAX_COMMAND_LENGTH_def still_accepted)
qed

theorem accepted_command_is_plain_witness:
  "\<exists>s. JStr ''make test'' = JStr s \<and> length s \<le> 255 \<and> shlex_split s = Inr [''make'', ''test''] \<and> [''make'', ''test''] \<noteq> []
    \<and> list_all (\<lambda>p. \<not> contains p s) [[CHR 0x00], [CHR 0x0A], [CHR 0x0D], '';'', ''&&'', ''||'', ''|'', ''<'', ''>'',
         [CHR 0x60], ''$('']
    \<and> \<not> (executable_of (hd [''make'', ''test'']) \<in> {''sh'', ''bash'', ''dash'', ''zsh'', ''fish''}
         \<and> take 1 (tl [''make'', ''test'']) = [''-c''])
    \<and> parse_optional_command (JStr ''make & bash -lc true'') ''test_command''
        = Inr (Some [''make'', ''&'', ''bash'', ''-lc'', ''true''])
    \<and> parse_optional_command (JStr ''bash -lc true'') ''test_command'' = Inr (Some [''bash'', ''-lc'', ''true''])"
  by (rule accepted_command_is_plain [where field_name = "''test_command''"]) code_simp

end
