(* ===== verification/Urls.thy ===== *)
theory Urls
  imports Prelude
begin

text \<open>
  \<open>urllib.parse.urlparse\<close>, as far as the control plane uses it, and the canonical form of
  GitHub repository URLs (\<open>normalize_github_repo_url\<close> of
  \<open>application/projects/validation.py\<close>). \<open>urlparse\<close> raises for a network location with
  unbalanced brackets; what is between balanced ones is checked by \<open>ipaddress\<close>, a
  parameter here. The lemmas say what a canonical URL looks like and when normalising it
  again returns it.
\<close>

section \<open>Splitting\<close>

text \<open>The part before the first \<open>c\<close>, and the part after it, if there is one.\<close>

definition before :: "char \<Rightarrow> string \<Rightarrow> string" where
  "before c s = takeWhile (\<lambda>x. x \<noteq> c) s"

definition after :: "char \<Rightarrow> string \<Rightarrow> string" where
  "after c s = drop 1 (dropWhile (\<lambda>x. x \<noteq> c) s)"

lemma before_notin [simp]: "c \<notin> set s \<Longrightarrow> before c s = s"
  by (auto simp: before_def takeWhile_eq_all_conv)

lemma after_notin [simp]: "c \<notin> set s \<Longrightarrow> after c s = []"
proof -
  assume "c \<notin> set s"
  then have "dropWhile (\<lambda>x. x \<noteq> c) s = []" unfolding dropWhile_eq_Nil_conv by blast
  then show ?thesis by (simp only: after_def drop_Nil)
qed

record url =
  u_scheme :: string
  u_netloc :: string
  u_path :: string
  u_params :: string
  u_query :: string
  u_fragment :: string

definition is_alpha :: "char \<Rightarrow> bool" where
  "is_alpha c = (is_upper c \<or> is_lower c)"

definition scheme_char :: "char \<Rightarrow> bool" where
  "scheme_char c = (is_ascii_alnum c \<or> c \<in> set ''+-.'')"

definition uses_params :: "string list" where
  "uses_params = ['''', ''ftp'', ''hdl'', ''prospero'', ''http'', ''https'', ''shttp'', ''rtsp'', ''rtsps'',
     ''rtspu'', ''sip'', ''sips'', ''mms'', ''sftp'', ''tel'']"

text \<open>Leading controls and spaces go, and tabs and newlines anywhere.\<close>

definition url_clean :: "string \<Rightarrow> string" where
  "url_clean s = filter (\<lambda>c. c \<notin> {CHR 0x09, CHR 0x0D, CHR 0x0A}) (dropWhile (\<lambda>c. code c \<le> 32) s)"

definition split_scheme :: "string \<Rightarrow> string \<times> string" where
  "split_scheme s =
     (let b = before (CHR '':'') s
      in if CHR '':'' \<in> set s \<and> b \<noteq> [] \<and> is_alpha (hd b) \<and> list_all scheme_char b
         then (lower b, after (CHR '':'') s) else ([], s))"

definition split_netloc :: "string \<Rightarrow> string \<times> string" where
  "split_netloc s =
     (if prefix ''//'' s
      then (takeWhile (\<lambda>c. c \<notin> set ''/?#'') (drop 2 s), dropWhile (\<lambda>c. c \<notin> set ''/?#'') (drop 2 s))
      else ([], s))"

text \<open>Parameters are looked for in the last segment of the path.\<close>

definition split_params :: "string \<Rightarrow> string \<Rightarrow> string \<times> string" where
  "split_params scheme path' =
     (let segs = split_on (CHR ''/'') path'
      in if scheme \<in> set uses_params \<and> CHR '';'' \<in> set (last segs)
         then (join ''/'' (butlast segs @ [before (CHR '';'') (last segs)]), after (CHR '';'') (last segs))
         else (path', []))"

definition urlparse :: "(string \<Rightarrow> bool) \<Rightarrow> string \<Rightarrow> url option" where
  "urlparse bracketed_ok raw =
     (let (scheme, s1) = split_scheme (url_clean raw);
          (netloc, s2) = split_netloc s1;
          opening = CHR ''['' \<in> set netloc; closing = CHR '']'' \<in> set netloc
      in if opening \<noteq> closing \<or> (opening \<and> closing \<and> \<not> bracketed_ok netloc) then None
         else
           let fragment = after (CHR ''#'') s2; s3 = before (CHR ''#'') s2;
               query = after (CHR ''?'') s3; s4 = before (CHR ''?'') s3;
               (path', params) = split_params scheme s4
           in Some \<lparr>u_scheme = scheme, u_netloc = netloc, u_path = path', u_params = params,
                    u_query = query, u_fragment = fragment\<rparr>)"

section \<open>GitHub repositories\<close>

text \<open>\<open>/owner/repo\<close> with an optional slash at the end (the full match of the pattern).\<close>

definition owner_and_repo :: "string \<Rightarrow> (string \<times> string) option" where
  "owner_and_repo path' = (case split_on (CHR ''/'') path' of
     [e, owner, repo] \<Rightarrow> if e = [] \<and> owner \<noteq> [] \<and> repo \<noteq> [] then Some (owner, repo) else None
   | [e, owner, repo, e'] \<Rightarrow>
       if e = [] \<and> e' = [] \<and> owner \<noteq> [] \<and> repo \<noteq> [] then Some (owner, repo) else None
   | _ \<Rightarrow> None)"

definition github_url :: "string \<Rightarrow> string \<Rightarrow> string" where
  "github_url owner repo = ''https://github.com/'' @ owner @ ''/'' @ repo @ ''.git''"

text \<open>\<open>None\<close> is the exception of \<open>urlparse\<close>, \<open>Some None\<close> the result None.\<close>

definition normalize_github_repo_url :: "(string \<Rightarrow> bool) \<Rightarrow> string \<Rightarrow> string option option" where
  "normalize_github_repo_url bracketed_ok v = (case urlparse bracketed_ok v of
     None \<Rightarrow> None
   | Some parsed \<Rightarrow> Some (
       if u_scheme parsed \<noteq> ''https'' \<or> lower (u_netloc parsed) \<noteq> ''github.com'' then None
       else if u_params parsed \<noteq> [] \<or> u_query parsed \<noteq> [] \<or> u_fragment parsed \<noteq> [] then None
       else (case owner_and_repo (u_path parsed) of
          None \<Rightarrow> None
        | Some (owner, repo) \<Rightarrow>
            let repo' = (if suffix ''.git'' repo then take (length repo - 4) repo else repo)
            in if repo' = [] \<or> suffix ''.git'' repo' then None
               else Some (github_url (lower owner) (lower repo')))))"

section \<open>Canonical URLs\<close>

lemma split_on_first: "d \<notin> set xs \<Longrightarrow> split_on d (xs @ d # ys) = xs # split_on d ys"
  by (induction xs) auto

lemma split_on_single: "d \<notin> set s \<Longrightarrow> split_on d s = [s]"
  by (induction s) auto

lemma split_on_parts: "w \<in> set (split_on d s) \<Longrightarrow> set w \<subseteq> set s - {d}"
proof (induction s arbitrary: w)
  case (Cons c s)
  then show ?case by (cases "split_on d s") (auto split: if_splits, (fastforce+)?)
qed simp

lemma set_join: "set (join sep xs) \<subseteq> set sep \<union> (\<Union>x \<in> set xs. set x)"
  by (induction sep xs rule: join.induct) auto

lemma lower_Cons [simp]: "lower (c # s) = lower_char c # lower s" "lower [] = []"
  by (simp_all add: lower_def)

lemma lower_append [simp]: "lower (s @ t) = lower s @ lower t"
  by (simp add: lower_def)

text \<open>Lower case is a projection, and introduces letters only.\<close>

lemma code_inject: "code c = code c' \<longleftrightarrow> c = c'"
  by (simp add: code_def)

lemma code_char_of: "n < 256 \<Longrightarrow> code (char_of n) = n"
  by (simp add: code_def)

lemma is_upper_code: "is_upper c \<longleftrightarrow> 65 \<le> code c \<and> code c \<le> 90"
  by (simp add: is_upper_def code_def less_eq_char_def)

lemma is_lower_code: "is_lower c \<longleftrightarrow> 97 \<le> code c \<and> code c \<le> 122"
  by (simp add: is_lower_def code_def less_eq_char_def)

lemma is_digit_code: "is_digit c \<longleftrightarrow> 48 \<le> code c \<and> code c \<le> 57"
  by (simp add: is_digit_def code_def less_eq_char_def)

lemma code_lower_char:
  "code (lower_char c) = (if 65 \<le> code c \<and> code c \<le> 90 \<or> 192 \<le> code c \<and> code c \<le> 222 \<and> code c \<noteq> 215
     then code c + 32 else code c)"
  unfolding lower_char_def is_upper_code by (simp add: code_char_of)

lemma lower_char_idem: "lower_char (lower_char c) = lower_char c"
  unfolding code_inject [symmetric] by (simp add: code_lower_char)

lemma lower_idem [simp]: "lower (lower s) = lower s"
  by (simp add: lower_def lower_char_idem)

lemma lower_char_small: "code (lower_char c) < 65 \<Longrightarrow> lower_char c = c"
  unfolding code_inject [symmetric] by (simp add: code_lower_char split: if_splits)

lemma set_lower_small:
  assumes "x \<in> set (lower s)" "code x < 65"
  shows "x \<in> set s"
proof -
  obtain c where "c \<in> set s" "x = lower_char c" using assms(1) by (auto simp: lower_def)
  then show ?thesis using lower_char_small [of c] assms(2) by simp
qed

text \<open>The separators of a URL, which neither an owner nor a repository contains.\<close>

definition separators :: "char set" where
  "separators = set ''/?#'' \<union> {CHR 0x09, CHR 0x0D, CHR 0x0A}"

lemma separators_small: "x \<in> separators \<Longrightarrow> code x < 65"
  by (auto simp: separators_def code_def)

lemma set_before: "set (before c s) \<subseteq> set s - {c}"
  unfolding before_def using set_takeWhileD by fastforce

lemma set_after: "set (after c s) \<subseteq> set s"
  unfolding after_def by (meson order_trans set_dropWhileD set_drop_subset subsetI)

lemma set_split_scheme: "set (snd (split_scheme s)) \<subseteq> set s"
  using set_after [of "CHR '':''" s] by (auto simp: split_scheme_def Let_def)

lemma set_split_netloc: "set (snd (split_netloc s)) \<subseteq> set s"
proof -
  have "set (dropWhile P (drop 2 s)) \<subseteq> set s" for P
    by (meson order_trans set_dropWhileD set_drop_subset subsetI)
  then show ?thesis by (simp add: split_netloc_def)
qed

lemma set_split_params: "set (fst (split_params scheme s)) \<subseteq> set s \<union> {CHR ''/''}"
proof -
  let ?segs = "split_on (CHR ''/'') s"
  have seg: "w \<in> set ?segs \<Longrightarrow> set w \<subseteq> set s" for w using split_on_parts by fastforce
  have "set (before (CHR '';'') (last ?segs)) \<subseteq> set s"
    using set_before seg [of "last ?segs"] by fastforce
  moreover have "set w \<subseteq> set s" if "w \<in> set (butlast ?segs)" for w
    using that by (intro seg) (rule in_set_butlastD)
  ultimately have "set (join ''/'' (butlast ?segs @ [before (CHR '';'') (last ?segs)])) \<subseteq> set s \<union> {CHR ''/''}"
    using set_join [of "''/''" "butlast ?segs @ [before (CHR '';'') (last ?segs)]"] by fastforce
  then show ?thesis by (auto simp: split_params_def Let_def)
qed

lemma urlparse_path:
  assumes "urlparse ok v = Some parsed"
  shows "set (u_path parsed) \<inter> separators \<subseteq> {CHR ''/''}"
proof -
  let ?s2 = "snd (split_netloc (snd (split_scheme (url_clean v))))"
  let ?s4 = "before (CHR ''?'') (before (CHR ''#'') ?s2)"
  obtain scheme where path_eq: "u_path parsed = fst (split_params scheme ?s4)"
    using assms that by (auto simp: urlparse_def Let_def split: prod.splits if_splits) (metis fst_conv)+
  have "set ?s4 \<subseteq> set ?s2 - {CHR ''?'', CHR ''#''}"
    using set_before [of "CHR ''?''"] set_before [of "CHR ''#''" ?s2] by fastforce
  moreover have "set ?s2 \<subseteq> set (url_clean v)" using set_split_netloc set_split_scheme by fastforce
  moreover have "set (url_clean v) \<inter> {CHR 0x09, CHR 0x0D, CHR 0x0A} = {}" by (auto simp: url_clean_def)
  ultimately have "set ?s4 \<inter> separators \<subseteq> {CHR ''/''}" unfolding separators_def by auto
  then show ?thesis using set_split_params [of scheme ?s4] unfolding path_eq by blast
qed

lemma url_parts_clean:
  assumes "urlparse ok v = Some parsed" "w \<in> set (split_on (CHR ''/'') (u_path parsed))"
  shows "set w \<inter> separators = {}"
  using urlparse_path [OF assms(1)] split_on_parts [OF assms(2)] by blast

text \<open>The text of an owner or repository as it is in a canonical URL.\<close>

definition plain_part :: "string \<Rightarrow> bool" where
  "plain_part s \<longleftrightarrow> s \<noteq> [] \<and> set s \<inter> separators = {} \<and> lower s = s"

lemma plain_lower: "s \<noteq> [] \<Longrightarrow> set s \<inter> separators = {} \<Longrightarrow> plain_part (lower s)"
proof -
  assume s: "s \<noteq> []" "set s \<inter> separators = {}"
  have "set (lower s) \<inter> separators = {}" using s(2) set_lower_small separators_small by blast
  then show ?thesis using s(1) by (simp add: plain_part_def) (simp add: lower_def)
qed

lemma owner_and_repo_parts:
  "owner_and_repo q = Some (a, b) \<Longrightarrow>
    a \<in> set (split_on (CHR ''/'') q) \<and> b \<in> set (split_on (CHR ''/'') q) \<and> a \<noteq> [] \<and> b \<noteq> []"
  by (auto simp: owner_and_repo_def split: list.splits if_splits)

lemma normalized_shape:
  assumes "normalize_github_repo_url ok v = Some (Some u)"
  obtains owner repo where "u = github_url owner repo" "plain_part owner" "plain_part repo"
proof -
  obtain parsed a b where parsed: "urlparse ok v = Some parsed" "owner_and_repo (u_path parsed) = Some (a, b)"
    using assms by (auto simp: normalize_github_repo_url_def Let_def split: option.splits if_splits)
  let ?b = "if suffix ''.git'' b then take (length b - 4) b else b"
  have "u = github_url (lower a) (lower ?b)" "?b \<noteq> []"
    using assms parsed by (auto simp: normalize_github_repo_url_def Let_def split: if_splits)
  moreover have "set a \<inter> separators = {}" "set b \<inter> separators = {}" "a \<noteq> []"
    using owner_and_repo_parts [OF parsed(2)] url_parts_clean [OF parsed(1)] by auto
  moreover have "set ?b \<subseteq> set b" by (simp add: set_take_subset)
  ultimately show thesis using that [of "lower a" "lower ?b"] plain_lower [of a] plain_lower [of ?b] by blast
qed

lemma before_append: "c \<notin> set s \<Longrightarrow> before c (s @ c # t) = s" "c \<notin> set s \<Longrightarrow> after c (s @ c # t) = t"
  by (induction s) (auto simp: before_def after_def)

lemma github_segments:
  assumes "plain_part owner" "plain_part repo"
  shows "split_on (CHR ''/'') (''/'' @ owner @ ''/'' @ repo @ ''.git'') = [[], owner, repo @ ''.git'']"
proof -
  have "CHR ''/'' \<notin> set owner" "CHR ''/'' \<notin> set repo"
    using assms by (auto simp: plain_part_def separators_def)
  then show ?thesis
    using split_on_first [of "CHR ''/''" owner "repo @ ''.git''"]
      split_on_single [of "CHR ''/''" "repo @ ''.git''"] by simp
qed

lemma urlparse_github:
  assumes "plain_part owner" "plain_part repo"
    and "split_params ''https'' (''/'' @ owner @ ''/'' @ repo @ ''.git'') = (p, ps)"
  shows "urlparse ok (github_url owner repo) = Some \<lparr>u_scheme = ''https'', u_netloc = ''github.com'',
    u_path = p, u_params = ps, u_query = [], u_fragment = []\<rparr>"
proof -
  let ?p = "''/'' @ owner @ ''/'' @ repo @ ''.git''"
  have "c \<notin> set owner" "c \<notin> set repo" if "c \<in> separators" for c
    using assms that unfolding plain_part_def by auto
  note no = this [of "CHR ''/''"] this [of "CHR ''?''"] this [of "CHR ''#''"]
    this [of "CHR 0x09"] this [of "CHR 0x0D"] this [of "CHR 0x0A"]
  let ?ok = "\<lambda>c. c \<notin> {CHR 0x09, CHR 0x0D, CHR 0x0A}"
  have "filter ?ok owner = owner" "filter ?ok repo = repo"
    using no by (auto simp: separators_def intro!: filter_True)
  then have clean: "url_clean (github_url owner repo) = ''https://github.com'' @ ?p"
    by (simp add: url_clean_def github_url_def code_def)
  have scheme: "split_scheme (''https://github.com'' @ ?p) = (''https'', ''//github.com'' @ ?p)"
    by (simp add: split_scheme_def before_def after_def is_alpha_def scheme_char_def is_ascii_alnum_def
        is_lower_def less_eq_char_def Let_def lower_def lower_char_def is_upper_def code_def)
  have netloc: "split_netloc (''//github.com'' @ ?p) = (''github.com'', ?p)"
    by (simp add: split_netloc_def)
  have frag: "CHR ''#'' \<notin> set ?p" "CHR ''?'' \<notin> set ?p" using no by (auto simp: separators_def)
  have "CHR ''['' \<notin> set ''github.com''" "CHR '']'' \<notin> set ''github.com''" by simp_all
  then show ?thesis
    unfolding urlparse_def clean scheme Let_def prod.case netloc before_notin [OF frag(1)]
      before_notin [OF frag(2)] after_notin [OF frag(1)] after_notin [OF frag(2)] assms(3)
    by simp
qed

text \<open>
  Normalising a canonical URL again: it is returned, unless the repository part ends in
  \<open>.git\<close> once more or contains a semicolon, and then it is refused.
\<close>

lemma normalize_with_semicolon:
  assumes "plain_part owner" "plain_part repo" "CHR '';'' \<in> set repo"
  shows "normalize_github_repo_url ok (github_url owner repo) = Some None"
proof -
  obtain b t where bt: "repo = b @ CHR '';'' # t" "CHR '';'' \<notin> set b"
    using split_list_first [OF assms(3)] by blast
  have "after (CHR '';'') (repo @ ''.git'') = t @ ''.git''"
    using before_append(2) [OF bt(2), of "t @ ''.git''"] bt(1) by simp
  then obtain p where "split_params ''https'' (''/'' @ owner @ ''/'' @ repo @ ''.git'') = (p, t @ ''.git'')"
    using assms(3) by (simp add: split_params_def Let_def github_segments [OF assms(1,2), simplified] uses_params_def)
  from urlparse_github [OF assms(1,2) this] show ?thesis by (simp add: normalize_github_repo_url_def)
qed

lemma normalize_exact:
  assumes "plain_part owner" "plain_part repo"
  shows "normalize_github_repo_url ok (github_url owner repo)
    = Some (if CHR '';'' \<in> set repo \<or> suffix ''.git'' repo then None else Some (github_url owner repo))"
proof (cases "CHR '';'' \<in> set repo")
  case False
  let ?p = "''/'' @ owner @ ''/'' @ repo @ ''.git''"
  have ne: "owner \<noteq> []" "repo \<noteq> []" "lower owner = owner" "lower repo = repo"
    using assms by (simp_all add: plain_part_def)
  note segs = github_segments [OF assms]
  have params: "split_params ''https'' ?p = (?p, [])" using False segs by (simp add: split_params_def)
  have "owner_and_repo ?p = Some (owner, repo @ ''.git'')" using segs ne by (simp add: owner_and_repo_def)
  moreover have "lower ''github.com'' = ''github.com''" by code_simp
  ultimately show ?thesis
    using False ne urlparse_github [OF assms params, of ok]
    by (simp add: normalize_github_repo_url_def suffix_def)
qed (simp add: normalize_with_semicolon assms)

section \<open>Properties\<close>

text \<open>
  C17: What the normaliser of repository URLs returns has the form
  \<open>https://github.com/<owner>/<repo>.git\<close> in lower case, with parts that contain no separator
  of a URL. It is a fixed point of the normaliser exactly when the repository part neither
  contains a semicolon nor ends in \<open>.git\<close>; otherwise the validator refuses what it stored.
\<close>

theorem normalized_repository_url:
  assumes "normalize_github_repo_url ok v = Some (Some u)"
  shows "\<exists>owner repo. u = github_url owner repo \<and> plain_part owner \<and> plain_part repo
    \<and> normalize_github_repo_url ok u
      = Some (if CHR '';'' \<in> set repo \<or> suffix ''.git'' repo then None else Some u)"
  using normalized_shape [OF assms] normalize_exact by metis

theorem normalized_repository_url_witness:
  "\<exists>owner repo. ''https://github.com/acme/shop.git.git'' = github_url owner repo \<and> plain_part owner \<and> plain_part repo
    \<and> normalize_github_repo_url (\<lambda>_. False) ''https://github.com/acme/shop.git.git''
      = Some (if CHR '';'' \<in> set repo \<or> suffix ''.git'' repo then None
          else Some ''https://github.com/acme/shop.git.git'')"
  by (rule normalized_repository_url [where v = "''https://github.com/Acme/shop.GIT''"]) code_simp

end
