(* ===== verification/Field_Validation.thy ===== *)
theory Field_Validation
  imports Command_Validation Urls "HOL-Library.List_Lexorder"
begin

text \<open>
  The validators of single fields in \<open>application/projects/validation.py\<close>. A validator
  returns the error message or None; the ones that parse a URL can also raise, which is
  the third verdict. A pattern that the code matches in full is a predicate on the whole
  text. What the code reads from the configuration and the file system is in the record
  \<open>venv\<close>.
\<close>

datatype verdict = Accept | Reject string | Raise string

definition verdict_of :: "string option \<Rightarrow> verdict" where
  "verdict_of e = (case e of None \<Rightarrow> Accept | Some msg \<Rightarrow> Reject msg)"

text \<open>A sequence of checks, each of which ends the validation when it does not accept.\<close>

fun checks :: "verdict list \<Rightarrow> verdict" where
  "checks [] = Accept"
| "checks (v # vs) = (case v of Accept \<Rightarrow> checks vs | _ \<Rightarrow> v)"

fun first_error :: "string option list \<Rightarrow> string option" where
  "first_error [] = None"
| "first_error (e # es) = (case e of None \<Rightarrow> first_error es | Some msg \<Rightarrow> Some msg)"

definition guard :: "bool \<Rightarrow> string \<Rightarrow> string option" where
  "guard ok msg = (if ok then None else Some msg)"

lemma first_error_Cons [simp]: "first_error (e # es) = None \<longleftrightarrow> e = None \<and> first_error es = None"
  by (simp split: option.splits)

lemma checks_Cons [simp]: "checks (v # vs) = Accept \<longleftrightarrow> v = Accept \<and> checks vs = Accept"
  by (simp split: verdict.splits)

declare first_error.simps(2) [simp del] checks.simps(2) [simp del]

lemma guard_None [simp]: "guard ok msg = None \<longleftrightarrow> ok"
  by (simp add: guard_def)

lemma verdict_of_Accept [simp]: "verdict_of e = Accept \<longleftrightarrow> e = None"
  by (simp add: verdict_of_def split: option.splits)

definition invalid :: "string \<Rightarrow> string \<Rightarrow> string" where
  "invalid field_name msg = ''Invalid '' @ field_name @ ''. '' @ msg"

definition squote :: "string \<Rightarrow> string" where
  "squote s = [CHR 0x27] @ s @ [CHR 0x27]"

record venv =
  v_executor :: "string option"
  v_config :: "string \<Rightarrow> json"
  v_app_env :: string
  v_local_repo :: "string \<Rightarrow> bool"
  v_bracketed_ok :: "string \<Rightarrow> bool"

section \<open>Patterns\<close>

definition env_var_name :: "string \<Rightarrow> bool" where
  "env_var_name s \<longleftrightarrow> s \<noteq> [] \<and> (is_alpha (hd s) \<or> hd s = CHR ''_'')
     \<and> list_all (\<lambda>c. is_ascii_alnum c \<or> c = CHR ''_'') s"

definition dns_char :: "char \<Rightarrow> bool" where
  "dns_char c \<longleftrightarrow> is_lower c \<or> is_digit c"

definition dns_label :: "string \<Rightarrow> bool" where
  "dns_label s \<longleftrightarrow> s \<noteq> [] \<and> dns_char (hd s) \<and> dns_char (last s)
     \<and> list_all (\<lambda>c. dns_char c \<or> c = CHR ''-'') s"

definition kubernetes_resource_name :: "string \<Rightarrow> bool" where
  "kubernetes_resource_name s \<longleftrightarrow> list_all dns_label (split_on (CHR ''.'') s)"

definition config_key :: "string \<Rightarrow> bool" where
  "config_key s \<longleftrightarrow> s \<noteq> [] \<and> list_all (\<lambda>c. is_ascii_alnum c \<or> c \<in> set ''-._'') s"

definition git_branch_name :: "string \<Rightarrow> bool" where
  "git_branch_name s \<longleftrightarrow> s \<noteq> [] \<and> length s \<le> 120 \<and> is_ascii_alnum (hd s)
     \<and> list_all (\<lambda>c. is_ascii_alnum c \<or> c \<in> set ''._/-'') s"

definition is_hex :: "char \<Rightarrow> bool" where
  "is_hex c \<longleftrightarrow> is_digit c \<or> (CHR ''a'' \<le> c \<and> c \<le> CHR ''f'') \<or> (CHR ''A'' \<le> c \<and> c \<le> CHR ''F'')"

definition git_commit :: "bool \<Rightarrow> string \<Rightarrow> bool" where
  "git_commit allow_abbreviated s \<longleftrightarrow> list_all is_hex s
     \<and> ((if allow_abbreviated then 7 \<le> length s \<and> length s \<le> 40 else length s = 40) \<or> length s = 64)"

text \<open>\<open>[1-9][0-9]*\<close>, and a decimal part of one to three digits.\<close>

definition counting_number :: "string \<Rightarrow> bool" where
  "counting_number s \<longleftrightarrow> s \<noteq> [] \<and> hd s \<noteq> CHR ''0'' \<and> list_all is_digit s"

definition decimals :: "string \<Rightarrow> bool" where
  "decimals s \<longleftrightarrow> 1 \<le> length s \<and> length s \<le> 3 \<and> list_all is_digit s"

definition cpu_quantity :: "string \<Rightarrow> bool" where
  "cpu_quantity s \<longleftrightarrow>
     (s \<noteq> [] \<and> last s = CHR ''m'' \<and> counting_number (butlast s))
     \<or> (prefix ''0.'' s \<and> decimals (drop 2 s))
     \<or> counting_number s
     \<or> (CHR ''.'' \<in> set s \<and> counting_number (before (CHR ''.'') s) \<and> decimals (after (CHR ''.'') s))"

definition memory_suffixes :: "string list" where
  "memory_suffixes = ['''', ''Ki'', ''Mi'', ''Gi'', ''Ti'', ''Pi'', ''Ei'', ''k'', ''M'', ''G'', ''T'', ''P'', ''E'']"

definition memory_quantity :: "string \<Rightarrow> bool" where
  "memory_quantity s \<longleftrightarrow> counting_number (takeWhile is_digit s) \<and> dropWhile is_digit s \<in> set memory_suffixes"

definition environment_name :: "string \<Rightarrow> bool" where
  "environment_name s \<longleftrightarrow> s \<noteq> [] \<and> length s \<le> 64 \<and> is_ascii_alnum (hd s)
     \<and> list_all (\<lambda>c. is_ascii_alnum c \<or> c \<in> set ''._-'') s"

section \<open>Strings\<close>

definition control_char :: "char \<Rightarrow> bool" where
  "control_char c \<longleftrightarrow> code c < 32 \<or> code c = 127"

definition validate_bounded_string :: "json \<Rightarrow> string \<Rightarrow> nat \<Rightarrow> bool \<Rightarrow> bool \<Rightarrow> string option" where
  "validate_bounded_string v field_name max_length allow_none allow_empty =
     (if v = JNull \<and> allow_none then None
      else case v of
        JStr s \<Rightarrow> first_error
          [guard (allow_empty \<or> strip s \<noteq> []) (invalid field_name ''Expected a non-empty string''),
           guard (length s \<le> max_length)
             (invalid field_name (''Expected at most '' @ str_of_nat max_length @ '' characters'')),
           guard (\<not> list_ex control_char s) (invalid field_name ''Control characters are not allowed'')]
      | _ \<Rightarrow> Some (invalid field_name ''Expected a string''))"

definition unsupported_fields_error :: "dict \<Rightarrow> string list \<Rightarrow> string \<Rightarrow> string option" where
  "unsupported_fields_error payload allowed_fields payload_name =
     (let unsupported = sort (remdups (filter (\<lambda>k. k \<notin> set allowed_fields) (map fst payload)))
      in guard (unsupported = [])
           (''Unsupported '' @ payload_name @ '' fields: '' @ join '', '' unsupported))"

definition validate_git_commit_sha :: "json \<Rightarrow> bool \<Rightarrow> string option" where
  "validate_git_commit_sha v allow_abbreviated = (case v of
     JStr s \<Rightarrow> guard (git_commit allow_abbreviated s)
       (invalid ''commit_sha'' (''Expected a hexadecimal Git object ID with ''
         @ (if allow_abbreviated then ''7 to 40, or exactly 64'' else ''exactly 40 or 64'') @ '' characters''))
   | _ \<Rightarrow> Some (invalid ''commit_sha'' ''Expected a string''))"

definition validate_resource_quantity :: "json \<Rightarrow> string \<Rightarrow> string option" where
  "validate_resource_quantity v field_name = (case v of
     JNull \<Rightarrow> None
   | JStr s \<Rightarrow> first_error
       [guard (length s \<le> 32) (invalid field_name ''Expected at most 32 characters''),
        guard (field_name \<noteq> ''cpu'' \<or> cpu_quantity s)
          (invalid ''cpu'' (''Expected a positive CPU quantity such as '' @ squote ''250m'' @ '', ''
             @ squote ''0.5'' @ '', or '' @ squote ''1'')),
        guard (field_name \<noteq> ''memory'' \<or> memory_quantity s)
          (invalid ''memory'' (''Expected a positive byte quantity such as '' @ squote ''512Mi'' @ '', ''
             @ squote ''1Gi'' @ '', or '' @ squote ''100M''))]
   | _ \<Rightarrow> Some (invalid field_name ''Expected a string''))"

text \<open>The text of a value that a bounded-string check has let through.\<close>

fun text_of :: "json \<Rightarrow> string" where
  "text_of (JStr s) = s"
| "text_of _ = []"

definition validate_kubernetes_resource_name :: "json \<Rightarrow> string \<Rightarrow> string option" where
  "validate_kubernetes_resource_name v field_name = first_error
     [validate_bounded_string v field_name 253 False False,
      guard (kubernetes_resource_name (text_of v))
        (invalid field_name ''Expected a valid Kubernetes resource name using DNS subdomain syntax'')]"

definition validate_kubernetes_config_key :: "json \<Rightarrow> string \<Rightarrow> string option" where
  "validate_kubernetes_config_key v field_name = first_error
     [validate_bounded_string v field_name 253 False False,
      guard (config_key (text_of v) \<and> text_of v \<notin> {''.'', ''..''} \<and> \<not> prefix ''..'' (text_of v))
        (invalid field_name (''Expected a valid Kubernetes Secret/ConfigMap key containing only ''
           @ ''letters, digits, '' @ squote ''-'' @ '', '' @ squote ''_'' @ '' or '' @ squote ''.''))]"

definition validate_healthcheck_path :: "json \<Rightarrow> string option" where
  "validate_healthcheck_path v = first_error
     [validate_bounded_string v ''healthcheck_path'' 255 False False,
      guard (prefix ''/'' (text_of v))
        (invalid ''healthcheck_path'' (''Expected an absolute path starting with '' @ squote ''/'')),
      guard (\<not> list_ex (\<lambda>c. is_space c \<or> control_char c) (text_of v))
        (invalid ''healthcheck_path'' ''Whitespace and control characters are not allowed'')]"

definition safe_branch :: "string \<Rightarrow> bool" where
  "safe_branch s \<longleftrightarrow> git_branch_name s \<and> \<not> contains ''..'' s \<and> \<not> contains ''//'' s \<and> \<not> contains [CHR 0x40, CHR 0x7B] s
     \<and> \<not> suffix ''/'' s \<and> \<not> suffix ''.'' s \<and> \<not> suffix ''.lock'' s"

definition validate_branch_name :: "json \<Rightarrow> string option" where
  "validate_branch_name v = first_error
     [validate_bounded_string v ''branch'' 120 False False,
      guard (safe_branch (text_of v)) (invalid ''branch'' ''Expected a safe Git branch name'')]"

section \<open>Repositories and paths\<close>

definition validate_repo_url :: "venv \<Rightarrow> json \<Rightarrow> verdict" where
  "validate_repo_url e v = (case validate_bounded_string v ''repo_url'' 255 False False of
     Some msg \<Rightarrow> Reject msg
   | None \<Rightarrow> (case normalize_github_repo_url (v_bracketed_ok e) (text_of v) of
       None \<Rightarrow> Raise ''ValueError''
     | Some (Some remote) \<Rightarrow> verdict_of (guard (length remote \<le> 255)
         (invalid ''repo_url'' ''Expected at most 255 characters after normalization''))
     | Some None \<Rightarrow> verdict_of (guard (lower (strip (v_app_env e)) = ''development'' \<and> v_local_repo e (text_of v))
         (invalid ''repo_url'' (''Local repository paths are allowed only when ''
           @ ''CONTROL_PLANE_ENV=development and under CONTROL_PLANE_LOCAL_REPO_ROOT; otherwise ''
           @ ''use a canonical GitHub HTTPS repository URL'')))))"

text \<open>\<open>PurePosixPath(value).parts\<close> without the root: empty and dot segments are dropped.\<close>

definition path_parts :: "string \<Rightarrow> string list" where
  "path_parts s = filter (\<lambda>w. w \<noteq> [] \<and> w \<noteq> ''.'') (split_on (CHR ''/'') s)"

definition validate_repo_relative_path :: "json \<Rightarrow> string \<Rightarrow> bool \<Rightarrow> string option" where
  "validate_repo_relative_path v field_name allow_dot = first_error
     [validate_bounded_string v field_name 255 False False,
      guard (\<not> prefix ''/'' (text_of v)) (invalid field_name ''Expected a repository-relative path''),
      guard (''..'' \<notin> set (path_parts (text_of v)))
        (invalid field_name ''Parent directory traversal is not allowed''),
      guard (allow_dot \<or> text_of v \<notin> {''.'', ''./''})
        (invalid field_name ''Expected a file path within the repository'')]"

section \<open>Lemmas\<close>

lemma bounded_string_accepted:
  "validate_bounded_string v f n False False = None \<longleftrightarrow>
    (\<exists>s. v = JStr s \<and> strip s \<noteq> [] \<and> length s \<le> n \<and> \<not> list_ex control_char s)"
  by (cases v) (auto simp: validate_bounded_string_def)

lemma branch_accepted:
  "validate_branch_name v = None \<Longrightarrow> \<exists>s. v = JStr s \<and> safe_branch s"
  by (auto simp: validate_branch_name_def bounded_string_accepted)

text \<open>A branch that is accepted cannot be read by git as an option or as another kind of name.\<close>

lemma safe_branch_chars:
  assumes "safe_branch s"
  shows "s \<noteq> [] \<and> hd s \<noteq> CHR ''-'' \<and> (\<forall>c \<in> set s. is_ascii_alnum c \<or> c \<in> set ''._/-'')"
proof -
  have "is_ascii_alnum (hd s)" "s \<noteq> []" "\<forall>c \<in> set s. is_ascii_alnum c \<or> c \<in> set ''._/-''"
    using assms by (auto simp: safe_branch_def git_branch_name_def list_all_iff)
  moreover have "\<not> is_ascii_alnum (CHR ''-'')" by code_simp
  ultimately show ?thesis by metis
qed

text \<open>
  Where a relative path leads when it is resolved under a root: \<open>..\<close> goes up and never
  beyond what the path itself has entered only if there is none.
\<close>

fun depth :: "int \<Rightarrow> string list \<Rightarrow> int list" where
  "depth n [] = [n]"
| "depth n (w # ws) = n # depth (if w = ''..'' then n - 1 else n + 1) ws"

lemma depth_without_parents: "''..'' \<notin> set ws \<Longrightarrow> m \<in> set (depth n ws) \<Longrightarrow> n \<le> m"
  by (induction ws arbitrary: n) (auto, force+)

lemma relative_path_stays_inside:
  assumes "validate_repo_relative_path v f allow_dot = None"
  shows "\<exists>s. v = JStr s \<and> \<not> prefix ''/'' s \<and> (\<forall>m \<in> set (depth 0 (path_parts s)). 0 \<le> m)"
  using assms depth_without_parents
  by (auto simp: validate_repo_relative_path_def bounded_string_accepted)

end
