(* ===== verification/Payload_Validation.thy ===== *)
theory Payload_Validation
  imports Field_Validation Security Models
begin

text \<open>
  The validators of whole request bodies in \<open>application/projects/validation.py\<close>: projects
  (create and patch), environment variables, manual deployments, deploy requests and
  deployment patches, with the readiness of the configured executor. The lemmas say what
  an accepted body is, which is what the operations that store it rely on.
\<close>

section \<open>Executors and their settings\<close>

record contract =
  k_name :: string
  k_deploy_target :: string
  k_required_config :: "string list"

definition executor_contract_for_name :: "string option \<Rightarrow> string + contract" where
  "executor_contract_for_name executor =
     (let normalized = lower (strip (or_str executor ''fake''))
      in if normalized = ''fake'' then Inr \<lparr>k_name = ''fake'', k_deploy_target = ''fake'', k_required_config = []\<rparr>
         else if normalized = ''local-docker''
         then Inr \<lparr>k_name = ''local-docker'', k_deploy_target = ''local-docker'', k_required_config = []\<rparr>
         else if normalized = ''kubernetes''
         then Inr \<lparr>k_name = ''kubernetes'', k_deploy_target = ''kubernetes'',
             k_required_config = [''CONTROL_PLANE_REGISTRY_ENABLED=true'', ''CONTROL_PLANE_REGISTRY_URL'',
               ''CONTROL_PLANE_REGISTRY_NAMESPACE'', ''CONTROL_PLANE_KUBECONFIG'']\<rparr>
         else Inl (''Unsupported executor '' @ squote normalized))"

text \<open>A configured executor that is not supported raises; otherwise, is it Kubernetes?\<close>

definition kubernetes_project_validation_enabled :: "venv \<Rightarrow> string + bool" where
  "kubernetes_project_validation_enabled e =
     (case executor_contract_for_name (Some (lower (strip (or_str (v_executor e) [])))) of
        Inl err \<Rightarrow> Inl err | Inr k \<Rightarrow> Inr (k_deploy_target k = ''kubernetes''))"

definition setting_missing :: "(string \<Rightarrow> json) \<Rightarrow> string \<Rightarrow> bool" where
  "setting_missing config setting =
     (if suffix ''=true'' setting then \<not> jtrue (config (take (length setting - 5) setting))
      else (case config setting of
          JStr s \<Rightarrow> strip s = []
        | v \<Rightarrow> v \<in> {JNull, JBool False, JInt 0}))"

definition executor_deployment_prereq_missing_settings :: "venv \<Rightarrow> string option \<Rightarrow> string + string list" where
  "executor_deployment_prereq_missing_settings e executor =
     (case executor_contract_for_name (or_else executor (v_executor e)) of
        Inl err \<Rightarrow> Inl err
      | Inr k \<Rightarrow> Inr (filter (setting_missing (v_config e)) (k_required_config k)))"

definition upper_char :: "char \<Rightarrow> char" where
  "upper_char c = (if is_lower c then char_of (code c - 32) else c)"

fun capitalize :: "string \<Rightarrow> string" where
  "capitalize [] = []"
| "capitalize (c # s) = upper_char c # lower s"

definition executor_deployment_prereq_error :: "venv \<Rightarrow> string option \<Rightarrow> string + string option" where
  "executor_deployment_prereq_error e executor =
     (let name = lower (strip (or_str (or_else executor (v_executor e)) []))
      in case executor_deployment_prereq_missing_settings e (Some name) of
           Inl err \<Rightarrow> Inl err
         | Inr [] \<Rightarrow> Inr None
         | Inr missing \<Rightarrow> (case executor_contract_for_name (Some name) of
             Inl err \<Rightarrow> Inl err
           | Inr k \<Rightarrow> Inr (Some (capitalize (k_name k)
               @ '' executor is not ready for deployments. Missing required settings: '' @ join '', '' missing))))"

definition kubernetes_deployment_prereq_error :: "venv \<Rightarrow> string + string option" where
  "kubernetes_deployment_prereq_error e = (case kubernetes_project_validation_enabled e of
     Inl err \<Rightarrow> Inl err
   | Inr enabled \<Rightarrow> if enabled then executor_deployment_prereq_error e (Some ''kubernetes'') else Inr None)"

section \<open>Environment variables\<close>

definition VALID_ENV_VALUE_SOURCES :: "string list" where
  "VALID_ENV_VALUE_SOURCES = [''configmap_key_ref'', ''literal'', ''secret_key_ref'']"

definition ENV_VAR_ALLOWED_FIELDS :: "string list" where
  "ENV_VAR_ALLOWED_FIELDS = [''name'', ''value'', ''value_source'', ''source_name'', ''source_key'', ''is_secret'']"

definition env_at :: "nat \<Rightarrow> string" where
  "env_at i = ''env_vars['' @ str_of_nat i @ '']''"

definition env_value_source :: "dict \<Rightarrow> json" where
  "env_value_source item =
     (if jget item ''value_source'' = JNull
      then (if jget item ''value'' \<noteq> JNull then JStr ''literal'' else JNull)
      else jget item ''value_source'')"

definition is_bool :: "json \<Rightarrow> bool" where
  "is_bool v = (case v of JBool b \<Rightarrow> True | _ \<Rightarrow> False)"

definition is_str :: "json \<Rightarrow> bool" where
  "is_str v = (case v of JStr s \<Rightarrow> True | _ \<Rightarrow> False)"

definition validate_literal :: "bool \<Rightarrow> string \<Rightarrow> dict \<Rightarrow> string option" where
  "validate_literal kubernetes_mode at item = first_error
     [guard (jget item ''value'' \<noteq> JNull)
        (invalid at (squote ''value'' @ '' is required when value_source is '' @ squote ''literal'')),
      guard (is_str (jget item ''value'')) (invalid at (squote ''value'' @ '' must be a string'')),
      guard (length (text_of (jget item ''value'')) \<le> 65535)
        (invalid at (squote ''value'' @ '' must be at most 65535 characters'')),
      guard (jget item ''source_name'' = JNull \<and> jget item ''source_key'' = JNull)
        (invalid at (''Literal env vars cannot include '' @ squote ''source_name'' @ '' or '' @ squote ''source_key'')),
      guard (jget item ''is_secret'' = JNull \<or> is_bool (jget item ''is_secret''))
        (invalid at (squote ''is_secret'' @ '' must be a boolean when provided'')),
      guard (\<not> (kubernetes_mode \<and> jget item ''is_secret'' = JBool True))
        (invalid at (''Kubernetes secret env vars must use '' @ squote ''value_source=secret_key_ref''
           @ '' instead of a literal value''))]"

definition validate_reference :: "string \<Rightarrow> dict \<Rightarrow> string option" where
  "validate_reference at item = first_error
     [guard (jget item ''value'' = JNull)
        (invalid at (''Referenced env vars cannot include a literal '' @ squote ''value'')),
      guard (jget item ''is_secret'' = JNull \<or> is_bool (jget item ''is_secret''))
        (invalid at (squote ''is_secret'' @ '' must be a boolean when provided'')),
      guard (is_str (jget item ''source_name'') \<and> strip (text_of (jget item ''source_name'')) \<noteq> [])
        (invalid at (squote ''source_name'' @ '' is required for referenced env vars'')),
      validate_kubernetes_resource_name (jget item ''source_name'') (at @ ''.source_name''),
      validate_kubernetes_config_key (jget item ''source_key'') (at @ ''.source_key'')]"

definition validate_env_var :: "bool \<Rightarrow> string list \<Rightarrow> nat \<Rightarrow> json \<Rightarrow> string option" where
  "validate_env_var kubernetes_mode seen_names i v = (case v of
     JDict item \<Rightarrow>
       let at = env_at i; name = jget item ''name''; value_source = env_value_source item
       in first_error
         [unsupported_fields_error item ENV_VAR_ALLOWED_FIELDS at,
          guard (is_str name \<and> strip (text_of name) \<noteq> []) (invalid at (squote ''name'' @ '' is required'')),
          guard (length (text_of name) \<le> 253) (invalid at (squote ''name'' @ '' must be at most 253 characters'')),
          guard (\<not> kubernetes_mode \<or> env_var_name (text_of name))
            (invalid at (squote ''name'' @ '' must be a valid Kubernetes environment variable name'')),
          guard (\<not> (kubernetes_mode \<and> text_of name \<in> set seen_names))
            (invalid at (''Duplicate env var name '' @ squote (text_of name)
               @ '' is not allowed for Kubernetes deployments'')),
          guard (value_source \<noteq> JNull)
            (invalid at (''Provide a literal '' @ squote ''value'' @ '' or a supported '' @ squote ''value_source'')),
          guard (is_str value_source) (invalid at (squote ''value_source'' @ '' must be a string'')),
          guard (text_of value_source \<in> set VALID_ENV_VALUE_SOURCES)
            (invalid at (squote ''value_source'' @ '' must be one of: '' @ join '', '' VALID_ENV_VALUE_SOURCES)),
          (if value_source = JStr ''literal'' then validate_literal kubernetes_mode at item
           else validate_reference at item)]
   | _ \<Rightarrow> Some (invalid (env_at i) ''Expected an object''))"

fun env_item_name :: "json \<Rightarrow> string" where
  "env_item_name (JDict item) = text_of (jget item ''name'')"
| "env_item_name _ = []"

fun validate_env_items :: "bool \<Rightarrow> string list \<Rightarrow> nat \<Rightarrow> json list \<Rightarrow> string option" where
  "validate_env_items kubernetes_mode seen_names i [] = None"
| "validate_env_items kubernetes_mode seen_names i (v # vs) =
     (case validate_env_var kubernetes_mode seen_names i v of
        Some msg \<Rightarrow> Some msg
      | None \<Rightarrow> validate_env_items kubernetes_mode (env_item_name v # seen_names) (Suc i) vs)"

definition validate_project_env_vars :: "venv \<Rightarrow> json \<Rightarrow> verdict" where
  "validate_project_env_vars e v = (case v of
     JList items \<Rightarrow>
       if length items > 100 then Reject (invalid ''env_vars'' ''Expected at most 100 entries'')
       else (case kubernetes_project_validation_enabled e of
          Inl err \<Rightarrow> Raise err
        | Inr kubernetes_mode \<Rightarrow> verdict_of (validate_env_items kubernetes_mode [] 0 items))
   | _ \<Rightarrow> Reject (invalid ''env_vars'' ''Expected a list of environment variable definitions''))"

section \<open>Projects\<close>

definition PROJECT_ALLOWED_FIELDS :: "string list" where
  "PROJECT_ALLOWED_FIELDS = [''name'', ''repo_url'', ''branch'', ''git_auth_type'', ''git_secret_ref'',
     ''dockerfile_path'', ''build_context'', ''port'', ''healthcheck_path'', ''env_vars'',
     ''default_test_command'', ''migration_command'', ''cpu'', ''memory'', ''trigger'', ''runtime'']"

definition VALID_TRIGGERS :: "string list" where "VALID_TRIGGERS = [''manual'', ''github_push'']"
definition VALID_RUNTIMES :: "string list" where "VALID_RUNTIMES = [''dockerfile'']"
definition VALID_GIT_AUTH_TYPES :: "string list" where "VALID_GIT_AUTH_TYPES = [''none'', ''token'']"

text \<open>A check of a field that is made only when the body has the field.\<close>

definition when_given :: "dict \<Rightarrow> string \<Rightarrow> (json \<Rightarrow> string option) \<Rightarrow> verdict" where
  "when_given payload field check =
     (if jhas payload field then verdict_of (check (jget payload field)) else Accept)"

definition validate_git_secret_ref :: "json \<Rightarrow> string option" where
  "validate_git_secret_ref v = first_error
     [validate_bounded_string v ''git_secret_ref'' 120 True False,
      guard (v = JNull \<or> env_var_name (text_of v))
        (invalid ''git_secret_ref'' ''Expected an environment-variable identifier'')]"

definition validate_project_spec_fields :: "venv \<Rightarrow> dict \<Rightarrow> verdict" where
  "validate_project_spec_fields e payload = checks
     [when_given payload ''name'' (\<lambda>v. validate_bounded_string v ''name'' 120 False False),
      when_given payload ''branch'' validate_branch_name,
      (if jhas payload ''repo_url'' then validate_repo_url e (jget payload ''repo_url'') else Accept),
      when_given payload ''dockerfile_path'' (\<lambda>v. validate_repo_relative_path v ''dockerfile_path'' False),
      when_given payload ''build_context'' (\<lambda>v. validate_repo_relative_path v ''build_context'' True),
      when_given payload ''healthcheck_path'' validate_healthcheck_path,
      when_given payload ''default_test_command'' (\<lambda>v. validate_optional_command v ''default_test_command''),
      when_given payload ''migration_command'' (\<lambda>v. validate_optional_command v ''migration_command''),
      when_given payload ''git_secret_ref'' validate_git_secret_ref,
      when_given payload ''cpu'' (\<lambda>v. validate_resource_quantity v ''cpu''),
      when_given payload ''memory'' (\<lambda>v. validate_resource_quantity v ''memory'')]"

definition normalize_project_spec_fields :: "venv \<Rightarrow> dict \<Rightarrow> string + dict" where
  "normalize_project_spec_fields e payload =
     (let with_env = (\<lambda>d. if jhas d ''env_vars''
            then jset ''env_vars'' (JList (normalize_project_env_vars (case jget d ''env_vars'' of JList xs \<Rightarrow> xs | _ \<Rightarrow> []))) d
            else d)
      in case jget payload ''repo_url'' of
           JStr s \<Rightarrow> (case normalize_github_repo_url (v_bracketed_ok e) s of
               None \<Rightarrow> Inl ''ValueError''
             | Some None \<Rightarrow> Inr (with_env payload)
             | Some (Some remote) \<Rightarrow> Inr (with_env (jset ''repo_url'' (JStr remote) payload)))
         | _ \<Rightarrow> Inr (with_env payload))"

text \<open>\<open>payload.get(field, default)\<close>.\<close>

definition jget_or :: "dict \<Rightarrow> string \<Rightarrow> json \<Rightarrow> json" where
  "jget_or payload field dflt = (if jhas payload field then jget payload field else dflt)"

definition one_of :: "json \<Rightarrow> string list \<Rightarrow> string \<Rightarrow> verdict" where
  "one_of v allowed field = verdict_of (guard (v \<in> JStr ` set allowed)
     (invalid field (''Expected one of: '' @ join '', '' allowed)))"

definition valid_port :: "json \<Rightarrow> bool" where
  "valid_port v = (case v of JInt n \<Rightarrow> 1 \<le> n \<and> n \<le> 65535 | _ \<Rightarrow> False)"

definition check_port :: "json \<Rightarrow> verdict" where
  "check_port v = verdict_of (guard (valid_port v) (invalid ''port'' ''Expected an integer between 1 and 65535''))"

definition check_auth :: "json \<Rightarrow> json \<Rightarrow> verdict" where
  "check_auth git_auth_type git_secret_ref = verdict_of (guard
     (git_auth_type \<noteq> JStr ''token'' \<or> jtrue git_secret_ref)
     (''git_secret_ref is required when git_auth_type is '' @ squote ''token''))"

definition spec_payload_of :: "dict \<Rightarrow> dict" where
  "spec_payload_of payload =
     [(''name'', jget payload ''name''), (''repo_url'', jget payload ''repo_url''),
      (''branch'', jget payload ''branch''),
      (''dockerfile_path'', jget_or payload ''dockerfile_path'' (JStr ''Dockerfile'')),
      (''build_context'', jget_or payload ''build_context'' (JStr ''.'')),
      (''healthcheck_path'', jget payload ''healthcheck_path''),
      (''git_secret_ref'', jget payload ''git_secret_ref''),
      (''cpu'', jget payload ''cpu''), (''memory'', jget payload ''memory'')]
     @ map (\<lambda>f. (f, jget payload f)) (filter (jhas payload) [''default_test_command'', ''migration_command''])"

definition validate_project_payload :: "venv \<Rightarrow> dict \<Rightarrow> verdict" where
  "validate_project_payload e payload =
     (let missing_fields = filter (\<lambda>f. jget payload f \<in> {JNull, JStr []})
            [''name'', ''repo_url'', ''branch'', ''port'', ''healthcheck_path'']
      in checks
        [verdict_of (unsupported_fields_error payload PROJECT_ALLOWED_FIELDS ''project''),
         verdict_of (guard (missing_fields = []) (''Missing required fields: '' @ join '', '' missing_fields)),
         validate_project_spec_fields e (spec_payload_of payload),
         one_of (jget_or payload ''trigger'' (JStr ''manual'')) VALID_TRIGGERS ''trigger'',
         one_of (jget_or payload ''runtime'' (JStr ''dockerfile'')) VALID_RUNTIMES ''runtime'',
         one_of (jget_or payload ''git_auth_type'' (JStr ''none'')) VALID_GIT_AUTH_TYPES ''git_auth_type'',
         check_auth (jget_or payload ''git_auth_type'' (JStr ''none'')) (jget payload ''git_secret_ref''),
         check_port (jget payload ''port''),
         validate_project_env_vars e (jget_or payload ''env_vars'' (JList []))])"

definition validate_project_patch_payload :: "venv \<Rightarrow> dict \<Rightarrow> project \<Rightarrow> verdict" where
  "validate_project_patch_payload e payload p =
     (let if_has = (\<lambda>f v. if jhas payload f then v else Accept)
      in checks
        [verdict_of (unsupported_fields_error payload PROJECT_ALLOWED_FIELDS ''project''),
         verdict_of (guard (payload \<noteq> []) ''Provide at least one updatable field''),
         validate_project_spec_fields e payload,
         if_has ''trigger'' (one_of (jget payload ''trigger'') VALID_TRIGGERS ''trigger''),
         if_has ''runtime'' (one_of (jget payload ''runtime'') VALID_RUNTIMES ''runtime''),
         if_has ''git_auth_type'' (one_of (jget payload ''git_auth_type'') VALID_GIT_AUTH_TYPES ''git_auth_type''),
         check_auth (jget_or payload ''git_auth_type'' (JStr (p_git_auth_type p)))
           (jget_or payload ''git_secret_ref'' (jopt (p_git_secret_ref p))),
         if_has ''port'' (check_port (jget payload ''port'')),
         if_has ''env_vars'' (validate_project_env_vars e (jget payload ''env_vars''))])"

section \<open>Deployments\<close>

definition MANUAL_DEPLOYMENT_ALLOWED_FIELDS :: "string list" where
  "MANUAL_DEPLOYMENT_ALLOWED_FIELDS = [''commit_sha'', ''registry'', ''image_name'', ''image_tag'', ''image_ref'',
     ''build_status'', ''test_command'', ''environment'', ''status'', ''service_url'', ''message'']"

definition MANUAL_DEPLOYMENT_STRING_LIMITS :: "(string \<times> nat) list" where
  "MANUAL_DEPLOYMENT_STRING_LIMITS = [(''registry'', 255), (''image_name'', 255), (''image_tag'', 255),
     (''image_ref'', 512), (''environment'', 64), (''service_url'', 255), (''message'', 2000)]"

definition validate_dep_status :: "json \<Rightarrow> string option" where
  "validate_dep_status v = first_error
     [guard (is_str v) ''Invalid deployment status. Expected a string'',
      guard (parse_dep_status (text_of v) \<noteq> None)
        (''Invalid deployment status. Expected one of: '' @ join '', '' (map dep_status_name dep_statuses))]"

definition validate_build_status :: "json \<Rightarrow> string option" where
  "validate_build_status v = first_error
     [guard (is_str v) ''Invalid build status. Expected a string'',
      guard (parse_build_status (text_of v) \<noteq> None)
        (''Invalid build status. Expected one of: '' @ join '', '' (map build_status_name build_statuses))]"

definition validate_service_url :: "venv \<Rightarrow> json \<Rightarrow> verdict" where
  "validate_service_url e v =
     (if v = JNull then Accept
      else case urlparse (v_bracketed_ok e) (text_of v) of
        None \<Rightarrow> Raise ''ValueError''
      | Some parsed \<Rightarrow> verdict_of (guard
          (u_scheme parsed \<in> {''http'', ''https''} \<and> u_netloc parsed \<noteq> [])
          (invalid ''service_url'' ''Expected an absolute HTTP or HTTPS URL'')))"

definition validate_deployment_request_payload :: "venv \<Rightarrow> dict \<Rightarrow> verdict" where
  "validate_deployment_request_payload e payload = checks
     ([verdict_of (unsupported_fields_error payload MANUAL_DEPLOYMENT_ALLOWED_FIELDS ''manual deployment''),
       verdict_of (guard (jget payload ''commit_sha'' \<notin> {JNull, JStr []}) ''Missing required field: commit_sha''),
       verdict_of (validate_git_commit_sha (jget payload ''commit_sha'') True),
       verdict_of (validate_dep_status (jget_or payload ''status'' (JStr ''pending''))),
       verdict_of (validate_build_status (jget_or payload ''build_status'' (JStr ''pending''))),
       when_given payload ''test_command'' (\<lambda>v. validate_optional_command v ''test_command'')]
      @ map (\<lambda>(f, n). when_given payload f
               (\<lambda>v. validate_bounded_string v f n (f \<noteq> ''environment'') (f = ''message'')))
          MANUAL_DEPLOYMENT_STRING_LIMITS
      @ [verdict_of (guard (environment_name (text_of (jget_or payload ''environment'' (JStr ''production''))))
           (invalid ''environment'' (''Expected an alphanumeric name containing only '' @ squote ''-'' @ '', ''
              @ squote ''_'' @ '' or '' @ squote ''.''))),
         validate_service_url e (jget payload ''service_url'')])"

definition normalize_deployment_request_payload :: "dict \<Rightarrow> dict" where
  "normalize_deployment_request_payload payload = (case jget payload ''commit_sha'' of
     JStr s \<Rightarrow> jset ''commit_sha'' (JStr (lower s)) payload | _ \<Rightarrow> payload)"

definition DEPLOY_ALLOWED_FIELDS :: "string list" where
  "DEPLOY_ALLOWED_FIELDS = [''branch'', ''test_command'']"

definition validate_project_deploy_payload :: "dict \<Rightarrow> string option" where
  "validate_project_deploy_payload payload = first_error
     [unsupported_fields_error payload DEPLOY_ALLOWED_FIELDS ''deploy'',
      (if jget payload ''branch'' = JNull then None else validate_branch_name (jget payload ''branch'')),
      validate_optional_command (jget payload ''test_command'') ''test_command'']"

definition validate_deployment_patch_payload :: "dict \<Rightarrow> deployment \<Rightarrow> build \<Rightarrow> string option" where
  "validate_deployment_patch_payload payload d b = first_error
     [unsupported_fields_error payload [''status'', ''build_status'', ''message''] ''deployment patch'',
      guard (jhas payload ''status'' \<or> jhas payload ''build_status'')
        ''Provide at least one updatable field: status, build_status'',
      (if jhas payload ''status'' then first_error
         [validate_dep_status (jget payload ''status''),
          (case parse_dep_status (text_of (jget payload ''status'')) of
             None \<Rightarrow> None
           | Some next_status \<Rightarrow> guard (can_transition_to d next_status)
               (''Invalid deployment transition from '' @ dep_status_name (d_status d) @ '' to ''
                @ dep_status_name next_status @ ''. Allowed transitions: ''
                @ (if allowed_transitions d = [] then ''none''
                   else join '', '' (map dep_status_name (allowed_transitions d)))))]
       else None),
      (if jhas payload ''build_status'' then first_error
         [validate_build_status (jget payload ''build_status''),
          (case parse_build_status (text_of (jget payload ''build_status'')) of
             None \<Rightarrow> None
           | Some next_status \<Rightarrow> guard (build_can_transition_to b next_status)
               (''Invalid build transition from '' @ build_status_name (b_status b) @ '' to ''
                @ build_status_name next_status))]
       else None),
      (if jhas payload ''message''
       then validate_bounded_string (jget payload ''message'') ''message'' 2000 True True else None)]"

definition resolve_effective_test_command :: "project \<Rightarrow> string option \<Rightarrow> bool \<Rightarrow> string option" where
  "resolve_effective_test_command p requested_test_command payload_includes_test_command =
     (if payload_includes_test_command then requested_test_command else p_default_test_command p)"

section \<open>What is accepted\<close>

lemma verdict_guard [simp]: "verdict_of (guard ok msg) = Accept \<longleftrightarrow> ok"
  by simp

lemma when_given_Accept [simp]:
  "when_given payload f check = Accept \<longleftrightarrow> (jhas payload f \<longrightarrow> check (jget payload f) = None)"
  by (simp add: when_given_def)

lemma one_of_Accept [simp]: "one_of v allowed f = Accept \<longleftrightarrow> v \<in> JStr ` set allowed"
  by (simp add: one_of_def)

lemma check_port_Accept [simp]: "check_port v = Accept \<longleftrightarrow> valid_port v"
  by (simp add: check_port_def)

lemma check_auth_Accept [simp]: "check_auth a r = Accept \<longleftrightarrow> (a = JStr ''token'' \<longrightarrow> jtrue r)"
  by (auto simp: check_auth_def)

lemma jhas_spec_payload: "jhas (spec_payload_of payload) f" if "f \<in> set [''name'', ''repo_url'',
    ''branch'', ''dockerfile_path'', ''build_context'', ''healthcheck_path'', ''git_secret_ref'', ''cpu'', ''memory'']"
  using that by (auto simp: spec_payload_of_def jhas_def)

lemma jget_spec_payload:
  "jget (spec_payload_of payload) ''branch'' = jget payload ''branch''"
  "jget (spec_payload_of payload) ''dockerfile_path'' = jget_or payload ''dockerfile_path'' (JStr ''Dockerfile'')"
  "jget (spec_payload_of payload) ''build_context'' = jget_or payload ''build_context'' (JStr ''.'')"
  by (simp_all add: spec_payload_of_def jget_def)

text \<open>An accepted project: its branch, its paths, its port and its authentication.\<close>

lemma accepted_project:
  assumes "validate_project_payload e payload = Accept"
  shows "(\<exists>s. jget payload ''branch'' = JStr s \<and> safe_branch s)"
    and "f \<in> {''dockerfile_path'', ''build_context''} \<Longrightarrow> jhas payload f \<Longrightarrow>
      \<exists>s. jget payload f = JStr s \<and> \<not> prefix ''/'' s \<and> (\<forall>m \<in> set (depth 0 (path_parts s)). 0 \<le> m)"
    and "valid_port (jget payload ''port'')"
    and "jget payload ''git_auth_type'' = JStr ''token'' \<Longrightarrow> jtrue (jget payload ''git_secret_ref'')"
    and "fst ` set payload \<subseteq> set PROJECT_ALLOWED_FIELDS"
proof -
  have all: "validate_project_spec_fields e (spec_payload_of payload) = Accept"
    "unsupported_fields_error payload PROJECT_ALLOWED_FIELDS ''project'' = None"
    "check_port (jget payload ''port'') = Accept"
    "check_auth (jget_or payload ''git_auth_type'' (JStr ''none'')) (jget payload ''git_secret_ref'') = Accept"
    using assms by (simp_all add: validate_project_payload_def Let_def)
  have spec: "validate_branch_name (jget payload ''branch'') = None"
    "validate_repo_relative_path (jget_or payload ''dockerfile_path'' (JStr ''Dockerfile'')) ''dockerfile_path'' False = None"
    "validate_repo_relative_path (jget_or payload ''build_context'' (JStr ''.'')) ''build_context'' True = None"
    using all(1) jhas_spec_payload [of _ payload]
    by (simp_all add: validate_project_spec_fields_def jget_spec_payload)
  show "\<exists>s. jget payload ''branch'' = JStr s \<and> safe_branch s" by (rule branch_accepted [OF spec(1)])
  show "\<exists>s. jget payload f = JStr s \<and> \<not> prefix ''/'' s \<and> (\<forall>m \<in> set (depth 0 (path_parts s)). 0 \<le> m)"
    if "f \<in> {''dockerfile_path'', ''build_context''}" "jhas payload f"
    using that relative_path_stays_inside [OF spec(2)] relative_path_stays_inside [OF spec(3)]
    by (auto simp: jget_or_def)
  show "valid_port (jget payload ''port'')" using all(3) by simp
  show "jget payload ''git_auth_type'' = JStr ''token'' \<Longrightarrow> jtrue (jget payload ''git_secret_ref'')"
    using all(4) by (auto simp: jget_or_def jhas_def jget_def split: option.splits)
  show "fst ` set payload \<subseteq> set PROJECT_ALLOWED_FIELDS"
    using all(2) by (auto simp: unsupported_fields_error_def Let_def filter_empty_conv)
qed

text \<open>Accepted environment variables: distinct names and no literal secret in Kubernetes mode.\<close>

definition env_item_ok :: "json \<Rightarrow> bool" where
  "env_item_ok v \<longleftrightarrow> (\<exists>item. v = JDict item \<and> env_var_name (env_item_name v)
     \<and> (env_value_source item = JStr ''literal'' \<longrightarrow> is_str (jget item ''value'') \<and> jget item ''is_secret'' \<noteq> JBool True)
     \<and> (env_value_source item \<noteq> JStr ''literal'' \<longrightarrow> jget item ''value'' = JNull
          \<and> kubernetes_resource_name (text_of (jget item ''source_name'')) \<and> config_key (text_of (jget item ''source_key''))))"

lemma accepted_env_var:
  assumes "validate_env_var True seen i v = None"
  shows "env_item_ok v \<and> env_item_name v \<notin> set seen"
  using assms
  by (cases v) (auto simp: validate_env_var_def Let_def env_item_ok_def validate_literal_def
      validate_reference_def validate_kubernetes_resource_name_def validate_kubernetes_config_key_def split: if_splits)

lemma accepted_env_items:
  "validate_env_items True seen i vs = None \<Longrightarrow> (\<forall>v \<in> set vs. env_item_ok v)
    \<and> distinct (map env_item_name vs) \<and> set (map env_item_name vs) \<inter> set seen = {}"
proof (induction vs arbitrary: seen i)
  case (Cons v vs)
  then have "validate_env_var True seen i v = None"
      "validate_env_items True (env_item_name v # seen) (Suc i) vs = None"
    by (auto split: option.splits)
  then show ?case using accepted_env_var [of seen i v] Cons.IH [of "env_item_name v # seen" "Suc i"] by auto
qed simp

lemma accepted_env_vars:
  assumes "validate_project_env_vars e v = Accept" "kubernetes_project_validation_enabled e = Inr True"
  shows "\<exists>vs. v = JList vs \<and> length vs \<le> 100 \<and> distinct (map env_item_name vs) \<and> (\<forall>x \<in> set vs. env_item_ok x)"
  using assms accepted_env_items
  by (cases v) (auto simp: validate_project_env_vars_def split: if_splits)

text \<open>An accepted patch names transitions that the tables allow.\<close>

lemma accepted_patch:
  assumes "validate_deployment_patch_payload payload d b = None"
  shows "jhas payload ''status'' \<Longrightarrow> \<exists>st. parse_dep_status (text_of (jget payload ''status'')) = Some st
      \<and> can_transition_to d st"
    and "jhas payload ''build_status'' \<Longrightarrow> \<exists>st. parse_build_status (text_of (jget payload ''build_status'')) = Some st
      \<and> build_can_transition_to b st"
    and "jhas payload ''status'' \<or> jhas payload ''build_status''"
  using assms
  by (auto simp: validate_deployment_patch_payload_def validate_dep_status_def validate_build_status_def)

text \<open>An accepted manual deployment names known statuses and a commit.\<close>

lemma accepted_manual:
  assumes "validate_deployment_request_payload e payload = Accept"
  shows "\<exists>s. jget payload ''commit_sha'' = JStr s \<and> git_commit True s"
    and "\<exists>st. parse_dep_status (text_of (jget_or payload ''status'' (JStr ''pending''))) = Some st"
    and "\<exists>st. parse_build_status (text_of (jget_or payload ''build_status'' (JStr ''pending''))) = Some st"
proof -
  have all: "validate_git_commit_sha (jget payload ''commit_sha'') True = None"
    "validate_dep_status (jget_or payload ''status'' (JStr ''pending'')) = None"
    "validate_build_status (jget_or payload ''build_status'' (JStr ''pending'')) = None"
    using assms by (simp_all add: validate_deployment_request_payload_def)
  show "\<exists>s. jget payload ''commit_sha'' = JStr s \<and> git_commit True s"
    using all(1) by (cases "jget payload ''commit_sha''") (auto simp: validate_git_commit_sha_def)
  show "\<exists>st. parse_dep_status (text_of (jget_or payload ''status'' (JStr ''pending''))) = Some st"
    using all(2) by (auto simp: validate_dep_status_def)
  show "\<exists>st. parse_build_status (text_of (jget_or payload ''build_status'' (JStr ''pending''))) = Some st"
    using all(3) by (auto simp: validate_build_status_def)
qed

section \<open>Properties\<close>

text \<open>A production configuration and a request body, for the witnesses.\<close>

definition demo_venv :: "string \<Rightarrow> venv" where
  "demo_venv executor = \<lparr>v_executor = Some executor, v_config = (\<lambda>_. JNull), v_app_env = ''production'',
     v_local_repo = (\<lambda>_. False), v_bracketed_ok = (\<lambda>_. False)\<rparr>"

definition demo_payload :: dict where
  "demo_payload = [(''name'', JStr ''shop''), (''repo_url'', JStr ''https://github.com/Acme/Shop''),
     (''branch'', JStr ''main''), (''port'', JInt 8080), (''healthcheck_path'', JStr ''/healthz''),
     (''build_context'', JStr ''./web'')]"

text \<open>
  C18: What a project that is accepted may contain: a branch name that git cannot read as an
  option, a Dockerfile and a build context that never leave the repository, a valid port, a
  token reference where a token is needed, and no field that the model does not have.
\<close>

theorem accepted_project_is_safe:
  assumes "validate_project_payload e payload = Accept"
  shows "(\<exists>s. jget payload ''branch'' = JStr s \<and> s \<noteq> [] \<and> hd s \<noteq> CHR ''-''
        \<and> (\<forall>c \<in> set s. is_ascii_alnum c \<or> c \<in> set ''._/-''))
    \<and> (\<forall>f \<in> {''dockerfile_path'', ''build_context''}. jhas payload f \<longrightarrow>
        (\<exists>s. jget payload f = JStr s \<and> \<not> prefix ''/'' s \<and> (\<forall>m \<in> set (depth 0 (path_parts s)). 0 \<le> m)))
    \<and> (\<exists>n. jget payload ''port'' = JInt n \<and> 1 \<le> n \<and> n \<le> 65535)
    \<and> (jget payload ''git_auth_type'' = JStr ''token'' \<longrightarrow> jtrue (jget payload ''git_secret_ref''))
    \<and> fst ` set payload \<subseteq> set PROJECT_ALLOWED_FIELDS"
proof (intro conjI)
  show "\<exists>s. jget payload ''branch'' = JStr s \<and> s \<noteq> [] \<and> hd s \<noteq> CHR ''-''
      \<and> (\<forall>c \<in> set s. is_ascii_alnum c \<or> c \<in> set ''._/-'')"
    using accepted_project(1) [OF assms] safe_branch_chars by metis
  show "\<exists>n. jget payload ''port'' = JInt n \<and> 1 \<le> n \<and> n \<le> 65535"
    using accepted_project(3) [OF assms] by (simp add: valid_port_def split: json.splits)
qed (use accepted_project(2,4,5) [OF assms] in blast)+

theorem accepted_project_is_safe_witness:
  "\<exists>s. jget demo_payload ''build_context'' = JStr s \<and> \<not> prefix ''/'' s
    \<and> (\<exists>n. jget demo_payload ''port'' = JInt n \<and> 1 \<le> n \<and> n \<le> 65535)"
proof -
  have "validate_project_payload (demo_venv ''fake'') demo_payload = Accept" by code_simp
  from accepted_project_is_safe [OF this] show ?thesis by (simp add: demo_payload_def jhas_def)
qed

text \<open>
  C19: In Kubernetes mode the environment variables of an accepted project have distinct names
  that are environment names, no secret is given literally, and references name a Kubernetes
  object and a key.
\<close>

theorem accepted_environment_is_safe:
  assumes "validate_project_env_vars e v = Accept" "kubernetes_project_validation_enabled e = Inr True"
  shows "\<exists>vs. v = JList vs \<and> length vs \<le> 100 \<and> distinct (map env_item_name vs) \<and> (\<forall>x \<in> set vs. env_item_ok x)"
  by (rule accepted_env_vars [OF assms])

theorem accepted_environment_is_safe_witness:
  "\<exists>vs. JList [JDict [(''name'', JStr ''TOKEN''), (''value_source'', JStr ''secret_key_ref''),
        (''source_name'', JStr ''shop''), (''source_key'', JStr ''token'')],
      JDict [(''name'', JStr ''MODE''), (''value_source'', JStr ''configmap_key_ref''),
        (''source_name'', JStr ''shop''), (''source_key'', JStr ''mode'')]] = JList vs
    \<and> length vs \<le> 100 \<and> distinct (map env_item_name vs) \<and> (\<forall>x \<in> set vs. env_item_ok x)"
  by (rule accepted_environment_is_safe [where e = "demo_venv ''kubernetes''"]) code_simp+

end
