(* ===== verification/Orchestration.thy ===== *)
theory Orchestration
  imports Claims Payload_Validation
begin

text \<open>
  \<open>application/deployments/orchestration.py\<close> and \<open>queries.py\<close>: a request for a deployment is
  resolved to an exact commit and stored as a build, a deployment and its first event, which
  the worker takes later. The process environment, the file system and git are in the
  record \<open>api\<close>; base64 and UTF-8 are written out. The lemmas say what image references and
  rows are made, and which inputs reach git.
\<close>

section \<open>What a request reads from outside\<close>

datatype git_result = Git_timeout | Git_done int string string

record api =
  api_venv :: venv
  api_request_id :: "string option"
  api_environ :: "(string \<times> string) list"
  api_path_exists :: "string \<Rightarrow> bool"
  api_git :: "string list \<Rightarrow> (string \<times> string) list option \<Rightarrow> git_result"

definition config_text :: "api \<Rightarrow> string \<Rightarrow> string" where
  "config_text a key = text_of (v_config (api_venv a) key)"

section \<open>Image names\<close>

definition image_char :: "char \<Rightarrow> bool" where
  "image_char c \<longleftrightarrow> is_alnum c \<or> c \<in> set ''-_.''"

definition sanitize_image_component :: "string \<Rightarrow> string" where
  "sanitize_image_component v =
     (let sanitized = map (\<lambda>c. if image_char c then lower_char c else CHR ''-'') v;
          stripped = strip_where (\<lambda>c. c = CHR ''-'') sanitized
      in if stripped = [] then ''app'' else stripped)"

definition registry_prefix_from_config :: "api \<Rightarrow> string option" where
  "registry_prefix_from_config a =
     (if \<not> jtrue (v_config (api_venv a) ''CONTROL_PLANE_REGISTRY_ENABLED'') then None
      else
        let registry_url = rstrip_where (\<lambda>c. c = CHR ''/'') (strip (config_text a ''CONTROL_PLANE_REGISTRY_URL''));
            registry_namespace = strip_where (\<lambda>c. c = CHR ''/'')
              (strip (config_text a ''CONTROL_PLANE_REGISTRY_NAMESPACE''))
        in if registry_url = [] then None
           else Some (if registry_namespace \<noteq> [] then registry_url @ ''/'' @ registry_namespace else registry_url))"

section \<open>Access to git\<close>

text \<open>\<open>s.encode("utf-8")\<close> on code points up to 255, and \<open>base64.b64encode\<close>.\<close>

definition utf8 :: "string \<Rightarrow> nat list" where
  "utf8 s = concat (map (\<lambda>c. if code c < 128 then [code c] else [192 + code c div 64, 128 + code c mod 64]) s)"

definition BASE64 :: string where
  "BASE64 = ''ABCDEFGHIJKLMNOPQRSTUVWXYZabcdefghijklmnopqrstuvwxyz0123456789+/''"

fun b64encode :: "nat list \<Rightarrow> string" where
  "b64encode [] = []"
| "b64encode [x] = [BASE64 ! (x div 4), BASE64 ! (x mod 4 * 16), CHR ''='', CHR ''='']"
| "b64encode [x, y] = [BASE64 ! (x div 4), BASE64 ! (x mod 4 * 16 + y div 16), BASE64 ! (y mod 16 * 4), CHR ''='']"
| "b64encode (x # y # z # bs) =
     BASE64 ! (x div 4) # BASE64 ! (x mod 4 * 16 + y div 16) # BASE64 ! (y mod 16 * 4 + z div 64)
       # BASE64 ! (z mod 64) # b64encode bs"

definition auth_header :: "string \<Rightarrow> string" where
  "auth_header token = ''AUTHORIZATION: basic '' @ b64encode (utf8 (''x-access-token:'' @ token))"

definition git_auth_environment :: "api \<Rightarrow> project \<Rightarrow> string + (string \<times> string) list option" where
  "git_auth_environment a p =
     (let git_auth_type = lower (strip (or_str (Some (p_git_auth_type p)) ''none''));
          secret_ref = strip (or_str (p_git_secret_ref p) []);
          token_env_name = ''CONTROL_PLANE_GIT_TOKEN_'' @ secret_ref;
          token = or_str (map_of (api_environ a) token_env_name) []
      in if git_auth_type = ''none'' then Inr None
         else if git_auth_type \<noteq> ''token'' then Inl (''Unsupported git auth type '' @ squote git_auth_type)
         else if secret_ref = [] then Inl (''git_secret_ref is required when git_auth_type is '' @ squote ''token'')
         else if token = []
         then Inl (''Git token environment variable '' @ squote token_env_name @ '' is not set'')
         else if \<not> prefix ''https://github.com/'' (p_repo_url p)
         then Inl ''Token-based git auth currently supports only https://github.com/ repository URLs''
         else Inr (Some (AList.updates
           [''GIT_TERMINAL_PROMPT'', ''GIT_CONFIG_COUNT'', ''GIT_CONFIG_KEY_0'', ''GIT_CONFIG_VALUE_0'']
           [''0'', ''1'', ''http.extraheader'', auth_header token] (api_environ a))))"

text \<open>\<open>str(Path(s))\<close>: repeated slashes and dot segments go, as does a slash at the end.\<close>

definition path_text :: "string \<Rightarrow> string" where
  "path_text s =
     (let root = (if prefix ''//'' s \<and> \<not> prefix ''///'' s then ''//'' else if prefix ''/'' s then ''/'' else []);
          rest = join ''/'' (path_parts s)
      in if root @ rest = [] then ''.'' else root @ rest)"

definition first_word :: "string \<Rightarrow> string" where
  "first_word s = takeWhile (\<lambda>c. \<not> is_space c) (strip s)"

definition unresolved :: "string \<Rightarrow> string \<Rightarrow> exn" where
  "unresolved branch reason =
     OtherExn ''ValueError'' (''Unable to resolve commit for branch '' @ squote branch @ '': '' @ reason)"

definition git_command :: "api \<Rightarrow> project \<Rightarrow> string \<Rightarrow> exn + (string list \<times> (string \<times> string) list option)" where
  "git_command a p branch =
     (if api_path_exists a (p_repo_url p)
      then Inr ([''git'', ''-C'', path_text (p_repo_url p), ''rev-parse'', ''--verify'', ''--end-of-options'',
                 branch @ ''^{commit}''], None)
      else (case git_auth_environment a p of
          Inl e \<Rightarrow> Inl (unresolved branch e)
        | Inr env \<Rightarrow> Inr ([''git'', ''ls-remote'', p_repo_url p, ''refs/heads/'' @ branch], env)))"

definition resolve_project_commit_sha :: "api \<Rightarrow> project \<Rightarrow> string \<Rightarrow> exn + string" where
  "resolve_project_commit_sha a p branch =
     (if \<not> safe_branch branch
      then Inl (OtherExn ''ValueError'' ''Invalid branch. Expected a safe Git branch name'')
      else (case git_command a p branch of
        Inl e \<Rightarrow> Inl e
      | Inr (command, env) \<Rightarrow> (case api_git a command env of
          Git_timeout \<Rightarrow> Inl (OtherExn ''TimeoutExpired'' ''timed out after 30 seconds'')
        | Git_done returncode out err \<Rightarrow>
            if returncode \<noteq> 0
            then Inl (unresolved branch
                   (or_str (Some (strip (if err \<noteq> [] then err else out))) ''Unknown git error''))
            else if strip out = [] then Inl (unresolved branch ''no matching ref found'')
            else if first_word out = [] then Inl (unresolved branch ''invalid git output'')
            else Inr (first_word out))))"

section \<open>Rows of a deployment\<close>

text \<open>The keyword arguments of \<open>create_build_and_deployment_records\<close> and their defaults.\<close>

record request =
  q_commit_sha :: string
  q_registry :: "string option"
  q_image_name :: "string option"
  q_image_tag :: "string option"
  q_image_ref :: "string option"
  q_build_status :: build_status
  q_test_command :: "string option"
  q_environment :: string
  q_status :: dep_status
  q_service_url :: "string option"
  q_message :: "string option"
  q_metadata :: dict
  q_branch :: "string option"
  q_snapshot :: json

definition request_for :: "string \<Rightarrow> request" where
  "request_for commit_sha = \<lparr>q_commit_sha = commit_sha, q_registry = None, q_image_name = None, q_image_tag = None,
     q_image_ref = None, q_build_status = B_pending, q_test_command = None, q_environment = ''production'',
     q_status = Pending, q_service_url = None, q_message = Some ''Deployment record created'', q_metadata = [],
     q_branch = None, q_snapshot = JNull\<rparr>"

definition resolved_image_name :: "project \<Rightarrow> request \<Rightarrow> string" where
  "resolved_image_name p q = or_str (q_image_name q) (sanitize_image_component (p_name p))"

definition resolved_image_tag :: "request \<Rightarrow> string" where
  "resolved_image_tag q = or_str (q_image_tag q) (sanitize_image_component (take 12 (q_commit_sha q)))"

definition resolved_registry :: "api \<Rightarrow> request \<Rightarrow> string option" where
  "resolved_registry a q = (case q_registry q of None \<Rightarrow> registry_prefix_from_config a | Some r \<Rightarrow> Some r)"

definition resolved_image_ref :: "api \<Rightarrow> project \<Rightarrow> request \<Rightarrow> string" where
  "resolved_image_ref a p q = or_str (q_image_ref q)
     ((if truthy (resolved_registry a q) then or_str (resolved_registry a q) [] @ ''/'' else [])
      @ resolved_image_name p q @ '':'' @ resolved_image_tag q)"

definition new_build :: "api \<Rightarrow> project \<Rightarrow> request \<Rightarrow> nat \<Rightarrow> int \<Rightarrow> build" where
  "new_build a p q i t = \<lparr>b_id = i, b_project_id = p_id p, b_commit_sha = q_commit_sha q,
     b_registry = resolved_registry a q, b_image_name = Some (resolved_image_name p q),
     b_image_tag = Some (resolved_image_tag q), b_image_ref = Some (resolved_image_ref a p q),
     b_status = q_build_status q, b_registry_push_status = None, b_test_command = q_test_command q,
     b_workspace_path = None, b_build_log_path = None, b_log_path = None, b_last_error = None,
     b_started_at = None, b_finished_at = None, b_created_at = t, b_updated_at = t\<rparr>"

definition new_deployment :: "api \<Rightarrow> project \<Rightarrow> request \<Rightarrow> nat \<Rightarrow> nat \<Rightarrow> int \<Rightarrow> deployment" where
  "new_deployment a p q bid i t = \<lparr>d_id = i, d_project_id = p_id p, d_build_id = bid,
     d_environment = q_environment q, d_status = q_status q, d_deploy_target = None, d_container_name = None,
     d_container_id = None, d_host_port = None, d_healthcheck_url = None, d_service_url = q_service_url q,
     d_kubernetes_deployment_mode = None, d_kubernetes_namespace = None, d_kubernetes_deployment_name = None,
     d_kubernetes_service_name = None, d_kubernetes_ingress_name = None, d_helm_release_name = None,
     d_helm_namespace = None, d_helm_chart_path = None, d_preflight_status = None, d_preflight_summary = None,
     d_preflight_metadata_json = JNull,
     d_spec_snapshot_json = (if q_snapshot q \<noteq> JNull then q_snapshot q
                             else create_deployment_spec_snapshot p (q_branch q)),
     d_preflight_completed_at = None, d_last_error = None, d_started_at = None, d_finished_at = None,
     d_claimed_at = None, d_claimed_by = None, d_origin_request_id = api_request_id a,
     d_created_at = t, d_updated_at = t\<rparr>"

text \<open>\<open>db.session.add\<close> and \<open>flush\<close>: the row gets the next key.\<close>

definition add_build :: "(nat \<Rightarrow> int \<Rightarrow> build) \<Rightarrow> nat proc" where
  "add_build mk s = (let i = next_id b_id (builds (cur s))
     in (Inr i, s\<lparr>cur := (cur s)\<lparr>builds := builds (cur s) @ [mk i (clock s)]\<rparr>\<rparr>))"

definition add_dep :: "(nat \<Rightarrow> int \<Rightarrow> deployment) \<Rightarrow> nat proc" where
  "add_dep mk s = (let i = next_id d_id (deployments (cur s))
     in (Inr i, s\<lparr>cur := (cur s)\<lparr>deployments := deployments (cur s) @ [mk i (clock s)]\<rparr>\<rparr>))"

definition create_deployment_event ::
    "nat \<Rightarrow> string \<Rightarrow> string \<Rightarrow> string option \<Rightarrow> string option \<Rightarrow> string \<Rightarrow> json \<Rightarrow> unit proc" where
  "create_deployment_event did event_type status message step level metadata =
     add_event (new_event did event_type step level status message metadata)"

definition create_build_and_deployment_records :: "api \<Rightarrow> project \<Rightarrow> request \<Rightarrow> (nat \<times> nat) proc" where
  "create_build_and_deployment_records a p q =
     bind (add_build (new_build a p q)) (\<lambda>bid.
     bind (add_dep (new_deployment a p q bid)) (\<lambda>did.
     bind (create_deployment_event did ''deployment.created'' (dep_status_name (q_status q)) (q_message q)
             (Some ''deployment'') ''info''
             (JDict (jmerge (q_metadata q) [(''origin_request_id'', jopt (api_request_id a))]))) (\<lambda>_.
     ret (bid, did))))"

section \<open>Deployments that a request creates\<close>

definition create_extra_event :: "nat \<Rightarrow> aux_event \<Rightarrow> unit proc" where
  "create_extra_event did e = create_deployment_event did (x_event_type e) (x_status e) (x_message e) (x_step e)
     (case x_level e of None \<Rightarrow> ''info'' | Some l \<Rightarrow> l) (JDict (x_metadata_json e))"

text \<open>The arguments that a caller of \<open>create_requested_deployment\<close> leaves out have the defaults of \<open>q\<close>.\<close>

definition requested :: "string \<Rightarrow> string \<Rightarrow> string \<Rightarrow> dict \<Rightarrow> request \<Rightarrow> request" where
  "requested branch commit_sha message_prefix metadata q = q\<lparr>
     q_message := Some (message_prefix @ '' for branch '' @ squote branch @ '' at commit ''
       @ squote (take 12 commit_sha)),
     q_metadata := jmerge [(''branch'', JStr branch), (''commit_sha'', JStr commit_sha)] metadata,
     q_branch := Some branch\<rparr>"

definition create_requested_deployment ::
    "api \<Rightarrow> project \<Rightarrow> request \<Rightarrow> string \<Rightarrow> string \<Rightarrow> dict \<Rightarrow> aux_event list \<Rightarrow> bool \<Rightarrow> (nat \<times> nat) proc" where
  "create_requested_deployment a p q branch message_prefix metadata extra_events commits =
     bind (create_build_and_deployment_records a p
             (requested branch (q_commit_sha q) message_prefix metadata q)) (\<lambda>(bid, did).
     bind (seqs (map (create_extra_event did) extra_events)) (\<lambda>_.
     bind (whenp commits commit) (\<lambda>_. ret (bid, did))))"

definition create_user_facing_deployment ::
    "api \<Rightarrow> project \<Rightarrow> string \<Rightarrow> string option \<Rightarrow> string \<Rightarrow> dict \<Rightarrow> (nat \<times> nat) proc" where
  "create_user_facing_deployment a p branch test_command message_prefix metadata =
     bind (lift (resolve_project_commit_sha a p branch)) (\<lambda>commit_sha.
       create_requested_deployment a p ((request_for commit_sha)\<lparr>q_test_command := test_command\<rparr>)
         branch message_prefix metadata [] True)"

text \<open>The branch of a snapshot, which is always a string: it comes from a column or a validated body.\<close>

definition snapshot_branch :: "json \<Rightarrow> string" where
  "snapshot_branch snapshot = text_of (jget (dict_of (jget (dict_of snapshot) ''project'')) ''branch'')"

definition create_historical_retry :: "api \<Rightarrow> project \<Rightarrow> deployment \<Rightarrow> build \<Rightarrow> (nat \<times> nat) proc" where
  "create_historical_retry a p original original_build =
     (case copy_deployment_spec_snapshot original (p_id p) of
        Inl e \<Rightarrow> throw (OtherExn ''ValueError'' e)
      | Inr snapshot \<Rightarrow>
          let commit_sha = strip (b_commit_sha original_build)
          in if commit_sha = []
             then throw (OtherExn ''ValueError'' ''Historical deployment commit is unavailable'')
             else create_requested_deployment a p
               ((request_for commit_sha)\<lparr>q_test_command := b_test_command original_build,
                  q_environment := d_environment original, q_image_name := b_image_name original_build,
                  q_snapshot := snapshot\<rparr>)
               (snapshot_branch snapshot) ''Deployment retry requested''
               [(''creation_action'', JStr ''retry''), (''source_deployment_id'', JInt (int (d_id original))),
                (''configuration_source'', JStr ''historical_snapshot''), (''commit_source'', JStr ''historical_build'')]
               [] True)"

section \<open>Queries\<close>

definition created_event_branch :: "event list \<Rightarrow> json option" where
  "created_event_branch es = find jtrue
     (map (\<lambda>e. jget (dict_of (e_metadata_json e)) ''branch'')
       (filter (\<lambda>e. e_event_type e = ''deployment.created'') es))"

definition get_deployment_branch :: "world \<Rightarrow> deployment \<Rightarrow> json" where
  "get_deployment_branch w d =
     (if jtrue (d_spec_snapshot_json d) then jget (project_for_deployment w d) ''branch''
      else (case created_event_branch (filter (\<lambda>e. e_deployment_id e = d_id d) (events w)) of
          Some branch \<Rightarrow> branch
        | None \<Rightarrow> (case get_project w (d_project_id d) of None \<Rightarrow> JNull | Some p \<Rightarrow> JStr (p_branch p))))"

text \<open>The rows of a project, newest first by creation time and then by key.\<close>

definition newest_first :: "deployment list \<Rightarrow> deployment list" where
  "newest_first ds = rev (sort_key d_created_at (sort_key d_id ds))"

definition get_latest_project_deployment_record :: "world \<Rightarrow> nat \<Rightarrow> deployment option" where
  "get_latest_project_deployment_record w pid =
     (case newest_first (filter (\<lambda>d. d_project_id d = pid) (deployments w)) of [] \<Rightarrow> None | d # _ \<Rightarrow> Some d)"

definition get_project_deployment :: "world \<Rightarrow> nat \<Rightarrow> nat \<Rightarrow> deployment option" where
  "get_project_deployment w pid did = (case get_dep w did of
     None \<Rightarrow> None | Some d \<Rightarrow> if d_project_id d = pid then Some d else None)"

section \<open>Lemmas\<close>

lemma is_alnum_lower: "is_alnum c \<Longrightarrow> is_alnum (lower_char c)"
  unfolding is_alnum_def is_ascii_alnum_def is_upper_code is_lower_code is_digit_code code_lower_char
  by (auto split: if_splits)

lemma image_char_lower: "image_char c \<Longrightarrow> image_char (lower_char c) \<and> lower_char (lower_char c) = lower_char c"
proof -
  assume c: "image_char c"
  have "lower_char x = x" if "x \<in> set ''-_.''" for x
    using that unfolding code_inject [symmetric] code_lower_char by (auto simp: code_def)
  then show ?thesis using c is_alnum_lower [of c] lower_char_idem by (auto simp: image_char_def)
qed

definition image_component :: "string \<Rightarrow> bool" where
  "image_component s \<longleftrightarrow> s \<noteq> [] \<and> (\<forall>c \<in> set s. image_char c \<and> lower_char c = c)
     \<and> hd s \<noteq> CHR ''-'' \<and> last s \<noteq> CHR ''-''"

lemma sanitize_component: "image_component (sanitize_image_component v)"
proof -
  let ?m = "map (\<lambda>c. if image_char c then lower_char c else CHR ''-'') v"
  let ?s = "strip_where (\<lambda>c. c = CHR ''-'') ?m"
  have dash: "image_char (CHR ''-'')" "lower_char (CHR ''-'') = CHR ''-''" by code_simp+
  have "image_char c \<and> lower_char c = c" if "c \<in> set ?s" for c
    using that set_strip_where [of "\<lambda>c. c = CHR ''-''" ?m] image_char_lower dash by fastforce
  moreover have "image_component ''app''" by code_simp
  ultimately show ?thesis
    using hd_strip_where [of "\<lambda>c. c = CHR ''-''" ?m] last_strip_where [of "\<lambda>c. c = CHR ''-''" ?m]
    unfolding sanitize_image_component_def Let_def image_component_def by auto
qed

lemma sanitize_fixed:
  assumes "image_component s"
  shows "sanitize_image_component s = s"
proof -
  have "map (\<lambda>c. if image_char c then lower_char c else CHR ''-'') s = s"
    using assms by (intro map_idI) (simp add: image_component_def)
  then show ?thesis
    using assms strip_where_fixed [of s "\<lambda>c. c = CHR ''-''"]
    by (simp add: sanitize_image_component_def image_component_def)
qed
text \<open>git is only run with a safe branch, and the token only reaches it for a GitHub URL.\<close>

definition git_input_ok :: "api \<Rightarrow> project \<Rightarrow> string \<Rightarrow> string list \<Rightarrow> (string \<times> string) list option \<Rightarrow> bool" where
  "git_input_ok a p branch command env \<longleftrightarrow> safe_branch branch
     \<and> last command \<in> {branch @ ''^{commit}'', ''refs/heads/'' @ branch}
     \<and> (env = None \<or> prefix ''https://github.com/'' (p_repo_url p) \<and> command = [''git'', ''ls-remote'', p_repo_url p, ''refs/heads/'' @ branch])"

lemma git_command_ok:
  "safe_branch branch \<Longrightarrow> git_command a p branch = Inr (command, env) \<Longrightarrow> git_input_ok a p branch command env"
  by (auto simp: git_command_def git_auth_environment_def git_input_ok_def Let_def split: if_splits sum.splits)

lemma resolve_uses_git:
  assumes "\<And>command env. git_input_ok a p branch command env \<Longrightarrow> run command env = api_git a command env"
  shows "resolve_project_commit_sha (a\<lparr>api_git := run\<rparr>) p branch = resolve_project_commit_sha a p branch"
proof -
  have "git_auth_environment (a\<lparr>api_git := run\<rparr>) p = git_auth_environment a p"
    unfolding git_auth_environment_def Let_def by simp
  then have "git_command (a\<lparr>api_git := run\<rparr>) p branch = git_command a p branch"
    by (simp add: git_command_def)
  then show ?thesis
    using assms git_command_ok [of branch a p]
    by (auto simp: resolve_project_commit_sha_def split: sum.splits prod.splits)
qed

lemma first_word_ok:
  assumes "strip out \<noteq> []"
  shows "first_word out \<noteq> [] \<and> \<not> list_ex is_space (first_word out)"
proof -
  have "\<not> is_space (hd (strip out))" using hd_strip_where [of is_space out] assms by (simp add: strip_def)
  then show ?thesis using assms
    by (cases "strip out") (auto simp: first_word_def list_ex_iff dest: set_takeWhileD)
qed

lemma resolved_commit:
  "resolve_project_commit_sha a p branch = Inr sha \<Longrightarrow> sha \<noteq> [] \<and> \<not> list_ex is_space sha"
  using first_word_ok
  by (auto simp: resolve_project_commit_sha_def split: if_splits sum.splits prod.splits git_result.splits)

end
