(* ===== verification/Serialize.thy ===== *)
theory Serialize
  imports Orchestration
begin

text \<open>
  The JSON that the API shows of a row: \<open>to_dict\<close> of the models and the serializers of
  \<open>application/projects/service.py\<close>. A time is its opaque \<open>isoformat()\<close> text; \<open>sh\<close> is
  \<open>str()\<close> of a JSON value, which the collection of secret values uses. The lemmas say
  that what is shown of a project does not depend on the values of its secrets.
\<close>

text \<open>\<open>redact_text(text, ...) if text else None\<close>.\<close>

definition shown_text :: "string list \<Rightarrow> string option \<Rightarrow> json" where
  "shown_text secrets t = (if truthy t then JStr (redact_text secrets (or_str t [])) else JNull)"

section \<open>Rows\<close>

definition project_to_dict :: "project \<Rightarrow> dict" where
  "project_to_dict p =
     [(''id'', jnat (p_id p)), (''name'', JStr (p_name p)), (''repo_url'', JStr (p_repo_url p)),
      (''branch'', JStr (p_branch p)), (''git_auth_type'', JStr (p_git_auth_type p)),
      (''git_secret_ref'', jopt (p_git_secret_ref p)), (''dockerfile_path'', JStr (p_dockerfile_path p)),
      (''build_context'', JStr (p_build_context p)), (''port'', JInt (p_port p)),
      (''healthcheck_path'', JStr (p_healthcheck_path p)),
      (''env_vars'', JList (serialized_project_env_vars (p_env_vars p))),
      (''default_test_command'', jopt (p_default_test_command p)),
      (''migration_command'', jopt (p_migration_command p)), (''cpu'', jopt (p_cpu p)),
      (''memory'', jopt (p_memory p)), (''trigger'', JStr (p_trigger p)), (''runtime'', JStr (p_runtime p)),
      (''created_at'', JTime (p_created_at p)), (''updated_at'', JTime (p_updated_at p))]"

definition build_to_dict :: "(json \<Rightarrow> string) \<Rightarrow> world \<Rightarrow> build \<Rightarrow> dict" where
  "build_to_dict sh w b =
     (let secrets = secret_values_from_env_vars sh
            (case get_project w (b_project_id b) of None \<Rightarrow> [] | Some p \<Rightarrow> p_env_vars p)
      in [(''id'', jnat (b_id b)), (''project_id'', jnat (b_project_id b)), (''commit_sha'', JStr (b_commit_sha b)),
          (''registry'', jopt (b_registry b)), (''image_name'', jopt (b_image_name b)),
          (''image_tag'', jopt (b_image_tag b)), (''image_ref'', jopt (b_image_ref b)),
          (''status'', JStr (build_status_name (b_status b))),
          (''registry_push_status'', jopt (b_registry_push_status b)),
          (''test_command'', jopt (b_test_command b)), (''workspace_path'', jopt (b_workspace_path b)),
          (''build_log_path'', jopt (b_build_log_path b)), (''log_path'', jopt (b_log_path b)),
          (''last_error'', shown_text secrets (b_last_error b)),
          (''started_at'', jtime_opt (b_started_at b)), (''finished_at'', jtime_opt (b_finished_at b)),
          (''created_at'', JTime (b_created_at b)), (''updated_at'', JTime (b_updated_at b))])"

definition shown_secrets :: "(json \<Rightarrow> string) \<Rightarrow> world \<Rightarrow> deployment \<Rightarrow> string list" where
  "shown_secrets sh w d = secret_values_from_env_vars sh (spec_env_vars (project_for_deployment w d))"

definition secrets_of_deployment :: "(json \<Rightarrow> string) \<Rightarrow> world \<Rightarrow> nat \<Rightarrow> string list" where
  "secrets_of_deployment sh w did = (case get_dep w did of
     None \<Rightarrow> secret_values_from_env_vars sh [] | Some d \<Rightarrow> shown_secrets sh w d)"

definition command_to_dict :: "(json \<Rightarrow> string) \<Rightarrow> world \<Rightarrow> command \<Rightarrow> dict" where
  "command_to_dict sh w k =
     [(''id'', jnat (c_id k)), (''deployment_id'', jnat (c_deployment_id k)),
      (''command_type'', JStr (c_command_type k)), (''status'', JStr (cmd_status_name (c_status k))),
      (''message'', jopt (c_message k)),
      (''last_error'', shown_text (secrets_of_deployment sh w (c_deployment_id k)) (c_last_error k)),
      (''claimed_by'', jopt (c_claimed_by k)), (''claimed_at'', jtime_opt (c_claimed_at k)),
      (''origin_request_id'', jopt (c_origin_request_id k)), (''requested_at'', JTime (c_requested_at k)),
      (''completed_at'', jtime_opt (c_completed_at k))]"

text \<open>\<open>max(commands, key=id)\<close>, the first of the largest.\<close>

fun latest_command :: "command list \<Rightarrow> command option" where
  "latest_command [] = None"
| "latest_command (k # ks) = (case latest_command ks of
     None \<Rightarrow> Some k | Some k' \<Rightarrow> Some (if c_id k < c_id k' then k' else k))"

definition deployment_to_dict :: "(json \<Rightarrow> string) \<Rightarrow> world \<Rightarrow> deployment \<Rightarrow> dict" where
  "deployment_to_dict sh w d =
     (let secrets = shown_secrets sh w d;
          latest = latest_command (filter (\<lambda>k. c_deployment_id k = d_id d) (commands w))
      in [(''id'', jnat (d_id d)), (''project_id'', jnat (d_project_id d)), (''build_id'', jnat (d_build_id d)),
          (''environment'', JStr (d_environment d)), (''status'', JStr (dep_status_name (d_status d))),
          (''allowed_transitions'', JList (map (\<lambda>st. JStr (dep_status_name st)) (allowed_transitions d))),
          (''deploy_target'', jopt (d_deploy_target d)), (''container_name'', jopt (d_container_name d)),
          (''container_id'', jopt (d_container_id d)), (''host_port'', jint_opt (d_host_port d)),
          (''healthcheck_url'', jopt (d_healthcheck_url d)), (''service_url'', jopt (d_service_url d)),
          (''kubernetes_deployment_mode'', jopt (d_kubernetes_deployment_mode d)),
          (''kubernetes_namespace'', jopt (d_kubernetes_namespace d)),
          (''kubernetes_deployment_name'', jopt (d_kubernetes_deployment_name d)),
          (''kubernetes_service_name'', jopt (d_kubernetes_service_name d)),
          (''kubernetes_ingress_name'', jopt (d_kubernetes_ingress_name d)),
          (''helm_release_name'', jopt (d_helm_release_name d)), (''helm_namespace'', jopt (d_helm_namespace d)),
          (''helm_chart_path'', jopt (d_helm_chart_path d)), (''preflight_status'', jopt (d_preflight_status d)),
          (''preflight_summary'', shown_text secrets (d_preflight_summary d)),
          (''preflight_metadata_json'', redact_sensitive_data secrets (d_preflight_metadata_json d)),
          (''preflight_completed_at'', jtime_opt (d_preflight_completed_at d)),
          (''last_error'', shown_text secrets (d_last_error d)),
          (''started_at'', jtime_opt (d_started_at d)), (''finished_at'', jtime_opt (d_finished_at d)),
          (''claimed_at'', jtime_opt (d_claimed_at d)), (''claimed_by'', jopt (d_claimed_by d)),
          (''origin_request_id'', jopt (d_origin_request_id d)),
          (''latest_command'', (case latest of None \<Rightarrow> JNull | Some k \<Rightarrow> JDict (command_to_dict sh w k))),
          (''created_at'', JTime (d_created_at d)), (''updated_at'', JTime (d_updated_at d))])"

definition event_to_dict :: "(json \<Rightarrow> string) \<Rightarrow> world \<Rightarrow> event \<Rightarrow> dict" where
  "event_to_dict sh w e =
     (let secrets = secrets_of_deployment sh w (e_deployment_id e)
      in [(''id'', jnat (e_id e)), (''deployment_id'', jnat (e_deployment_id e)),
          (''event_type'', JStr (e_event_type e)), (''step'', jopt (e_step e)), (''level'', JStr (e_level e)),
          (''status'', JStr (e_status e)), (''message'', shown_text secrets (e_message e)),
          (''metadata_json'', redact_sensitive_data secrets (e_metadata_json e)),
          (''created_at'', JTime (e_created_at e))])"

definition delivery_to_dict :: "delivery \<Rightarrow> dict" where
  "delivery_to_dict v =
     [(''id'', jnat (w_id v)), (''delivery_id'', JStr (w_delivery_id v)), (''event_type'', JStr (w_event_type v)),
      (''repository_url'', jopt (w_repository_url v)), (''branch'', jopt (w_branch v)),
      (''commit_sha'', jopt (w_commit_sha v)), (''status'', JStr (w_status v)), (''reason'', jopt (w_reason v)),
      (''deployment_id'', jnat_opt (w_deployment_id v)), (''received_at'', JTime (w_received_at v))]"

definition audit_to_dict :: "audit_event \<Rightarrow> dict" where
  "audit_to_dict a =
     [(''id'', jnat (a_id a)), (''action'', JStr (a_action a)), (''actor_role'', jopt (a_actor_role a)),
      (''resource_type'', JStr (a_resource_type a)), (''resource_id'', jopt (a_resource_id a)),
      (''status'', JStr (a_status a)), (''request_id'', jopt (a_request_id a)),
      (''ip_address'', jopt (a_ip_address a)), (''metadata_json'', redact_sensitive_data [] (a_metadata_json a)),
      (''created_at'', JTime (a_created_at a))]"

section \<open>Responses\<close>

definition serialize_preflight_fields :: "(json \<Rightarrow> string) \<Rightarrow> world \<Rightarrow> deployment \<Rightarrow> dict" where
  "serialize_preflight_fields sh w d =
     [(''preflight_status'', jopt (d_preflight_status d)),
      (''preflight_summary'', shown_text (shown_secrets sh w d) (d_preflight_summary d)),
      (''preflight_completed_at'', jtime_opt (d_preflight_completed_at d))]"

definition serialize_project_deployment :: "(json \<Rightarrow> string) \<Rightarrow> world \<Rightarrow> bool \<Rightarrow> deployment \<Rightarrow> build \<Rightarrow> dict" where
  "serialize_project_deployment sh w include_events d b =
     (let payload = jmerge (deployment_to_dict sh w d) [(''build'', JDict (build_to_dict sh w b))]
      in if include_events
         then jset ''events'' (JList (map (\<lambda>e. JDict (event_to_dict sh w e))
                (filter (\<lambda>e. e_deployment_id e = d_id d) (events w)))) payload
         else payload)"

definition serialize_latest_project_deployment ::
    "(json \<Rightarrow> string) \<Rightarrow> world \<Rightarrow> deployment \<Rightarrow> build \<Rightarrow> json \<Rightarrow> dict" where
  "serialize_latest_project_deployment sh w d b branch = jmerge
     [(''deployment_id'', jnat (d_id d)), (''status'', JStr (dep_status_name (d_status d))),
      (''build_id'', jnat (b_id b)), (''build_status'', JStr (build_status_name (b_status b))),
      (''branch'', branch), (''commit_sha'', JStr (b_commit_sha b)), (''image_tag'', jopt (b_image_tag b)),
      (''image_ref'', jopt (b_image_ref b)), (''service_url'', jopt (d_service_url d)),
      (''created_at'', JTime (d_created_at d)), (''updated_at'', JTime (d_updated_at d))]
     (serialize_preflight_fields sh w d)"

text \<open>The optional arguments: source field and id, creation action and configuration source.\<close>

definition serialize_triggered_deployment ::
    "(json \<Rightarrow> string) \<Rightarrow> world \<Rightarrow> deployment \<Rightarrow> build \<Rightarrow> json \<Rightarrow> (string \<times> nat) option \<Rightarrow> string option
      \<Rightarrow> string option \<Rightarrow> dict" where
  "serialize_triggered_deployment sh w d b branch source creation_action configuration_source =
     (let payload = jmerge
            [(''deployment_id'', jnat (d_id d)), (''project_id'', jnat (d_project_id d)),
             (''status'', JStr (dep_status_name (d_status d))), (''branch'', branch),
             (''commit_sha'', JStr (b_commit_sha b)), (''image_tag'', jopt (b_image_tag b)),
             (''image_ref'', jopt (b_image_ref b))]
            (serialize_preflight_fields sh w d);
          with_source = (case source of None \<Rightarrow> payload
            | Some (field, did) \<Rightarrow> if field = [] then payload else jset field (jnat did) payload);
          with_action = (if truthy creation_action
            then jset ''creation_action'' (jopt creation_action) with_source else with_source)
      in if truthy configuration_source
         then jset ''configuration_source'' (jopt configuration_source) with_action else with_action)"

definition list_project_deployments :: "world \<Rightarrow> nat \<Rightarrow> deployment list" where
  "list_project_deployments w pid =
     rev (sort_key d_created_at (filter (\<lambda>d. d_project_id d = pid) (deployments w)))"

definition serialize_project_deployments_page :: "(json \<Rightarrow> string) \<Rightarrow> world \<Rightarrow> deployment list \<Rightarrow> nat \<Rightarrow> dict" where
  "serialize_project_deployments_page sh w ds limit =
     [(''items'', JList (map (\<lambda>d. case get_build w (d_build_id d) of
          None \<Rightarrow> JNull | Some b \<Rightarrow> JDict (serialize_project_deployment sh w False d b)) ds)),
      (''pagination'', JDict [(''limit'', jnat limit), (''count'', jnat (length ds)),
         (''next_before_deployment_id'', if ds = [] then JNull else jnat (d_id (last ds)))])]"

section \<open>Secrets in responses\<close>

text \<open>Two environment variables that differ at most in the value of a secret.\<close>

definition same_public :: "json \<Rightarrow> json \<Rightarrow> bool" where
  "same_public a b \<longleftrightarrow> a = b \<or> (\<exists>d v. a = JDict d \<and> b = JDict (jset ''value'' v d) \<and> env_var_is_secret a
     \<and> jget d ''value'' \<noteq> JNull \<and> v \<noteq> JNull)"

lemma jset_jset_same: "jset k v (jset k w d) = jset k v d"
  by (induction d) (auto simp: jset_def)

lemma jset_swap: "jhas d k \<Longrightarrow> k \<noteq> k' \<Longrightarrow> jset k v (jset k' w d) = jset k' w (jset k v d)"
  by (induction d) (auto simp: jset_def jhas_def split: if_splits)

lemma jhas_not_null: "jget d k \<noteq> JNull \<Longrightarrow> jhas d k"
  by (auto simp: jget_def jhas_def split: option.splits)

lemma serialize_normalized_secret:
  assumes "env_var_is_secret (JDict d)" "jget d ''value'' \<noteq> JNull"
  shows "serialize_project_env_var (normalize_project_env_var (JDict d))
    = JDict (jset ''value'' (JStr REDACTED) (jset ''is_secret'' (JBool True) d))"
  using assms by (auto simp: Let_def jset_jset_same)

lemma same_public_shown:
  assumes "same_public a b"
  shows "serialize_project_env_var (normalize_project_env_var a) = serialize_project_env_var (normalize_project_env_var b)"
proof (cases "a = b")
  case False
  then obtain d v where d: "a = JDict d" "b = JDict (jset ''value'' v d)" "env_var_is_secret a"
      "jget d ''value'' \<noteq> JNull" "v \<noteq> JNull"
    using assms unfolding same_public_def by blast
  have "env_var_is_secret b" using d(1-3) by simp
  then have "serialize_project_env_var (normalize_project_env_var b)
      = JDict (jset ''value'' (JStr REDACTED) (jset ''is_secret'' (JBool True) (jset ''value'' v d)))"
    using serialize_normalized_secret [of "jset ''value'' v d"] d(2,5) by simp
  also have "jset ''is_secret'' (JBool True) (jset ''value'' v d) = jset ''value'' v (jset ''is_secret'' (JBool True) d)"
    by (rule jset_swap [OF jhas_not_null [OF d(4)], symmetric]) simp
  finally show ?thesis
    unfolding d(1) serialize_normalized_secret [OF d(3) [unfolded d(1)] d(4)] by (simp only: jset_jset_same)
qed simp

lemma same_public_env:
  "list_all2 same_public env env' \<Longrightarrow> serialized_project_env_vars env = serialized_project_env_vars env'"
  unfolding serialized_project_env_vars_def normalize_project_env_vars_def
  by (induction rule: list_all2_induct) (simp_all only: list.map same_public_shown)

end
