(* ===== verification/Requests.thy ===== *)
theory Requests
  imports Orchestration
begin

text \<open>
  \<open>application/command_requests.py\<close>, \<open>application/deployments/service.py\<close> and the writing
  half of \<open>application/projects/service.py\<close>: what the routes change. A stop or cleanup is a
  command row that the worker takes, at most one active of a type per deployment, enforced
  by a unique constraint when two requests race. The race is explicit: \<open>others\<close> is what
  other transactions commit between the first lookup and the flush. Foreign keys are
  enforced, as PostgreSQL does.
\<close>

section \<open>Commands\<close>

definition interfere :: "(world \<Rightarrow> world) \<Rightarrow> unit proc" where
  "interfere others s = (Inr (), s\<lparr>com := others (com s), cur := others (cur s)\<rparr>)"

definition command_of :: "nat \<Rightarrow> string \<Rightarrow> command \<Rightarrow> bool" where
  "command_of did command_type k \<longleftrightarrow> c_deployment_id k = did \<and> c_command_type k = command_type"

definition first_requested :: "(command \<Rightarrow> bool) \<Rightarrow> world \<Rightarrow> command option" where
  "first_requested p w = (case sort_key c_requested_at (filter p (commands w)) of
     [] \<Rightarrow> None | k # _ \<Rightarrow> Some k)"

definition new_command :: "api \<Rightarrow> nat \<Rightarrow> string \<Rightarrow> string option \<Rightarrow> nat \<Rightarrow> int \<Rightarrow> command" where
  "new_command a did command_type message i t =
     \<lparr>c_id = i, c_deployment_id = did, c_command_type = command_type, c_status = C_pending,
      c_active_key = Some ''active'', c_message = message, c_last_error = None, c_claimed_by = None,
      c_claimed_at = None, c_origin_request_id = api_request_id a, c_requested_at = t, c_completed_at = None\<rparr>"

definition add_cmd :: "(nat \<Rightarrow> int \<Rightarrow> command) \<Rightarrow> nat proc" where
  "add_cmd mk s = (let i = next_id c_id (commands (cur s))
     in (Inr i, s\<lparr>cur := (cur s)\<lparr>commands := commands (cur s) @ [mk i (clock s)]\<rparr>\<rparr>))"

text \<open>
  The flush writes both rows unless \<open>uq_deployment_commands_active_type\<close> or the foreign key to
  the deployment is violated; then the session is rolled back, the row of the deployment is
  read again (for its id, which the rollback expired), and the winner is looked up by its
  active key.
\<close>

definition request_deployment_command ::
    "api \<Rightarrow> (world \<Rightarrow> world) \<Rightarrow> nat \<Rightarrow> string \<Rightarrow> string option \<Rightarrow> (nat \<times> bool) proc" where
  "request_deployment_command a others did command_type message =
     bind (the_dep did) (\<lambda>d.
     bind (query (first_requested (\<lambda>k. command_of did command_type k \<and> cmd_active (c_status k)))) (\<lambda>existing.
     case existing of
       Some k \<Rightarrow> ret (c_id k, False)
     | None \<Rightarrow>
         bind (interfere others) (\<lambda>_.
         bind (query (\<lambda>w. get_dep w did = None
                 \<or> list_ex (\<lambda>k. command_of did command_type k \<and> c_active_key k = Some ''active'') (commands w)))
           (\<lambda>violated.
         if violated then
           bind rollback (\<lambda>_.
           bind (the_dep did) (\<lambda>_.
           bind (query (first_requested (\<lambda>k. command_of did command_type k
                   \<and> c_active_key k = Some ''active''))) (\<lambda>existing.
           case existing of
             None \<Rightarrow> throw (OtherExn ''IntegrityError'' ''uq_deployment_commands_active_type'')
           | Some k \<Rightarrow> ret (c_id k, False))))
         else
           bind (add_cmd (new_command a did command_type message)) (\<lambda>cid.
           bind (create_deployment_event did (''deployment.'' @ command_type @ ''_requested'')
                   (dep_status_name (d_status d))
                   (Some (or_str message (''Deployment '' @ command_type @ '' requested'')))
                   (Some (''deploy.'' @ command_type)) ''info''
                   (JDict [(''command_type'', JStr command_type),
                           (''origin_request_id'', jopt (api_request_id a))])) (\<lambda>_.
           ret (cid, True)))))))"

section \<open>Deployments\<close>

text \<open>
  The statuses of a manual deployment come from a validated body
  (\<open>validate_deployment_request_payload\<close>), so they are names of the tables.
\<close>

definition manual_request :: "project \<Rightarrow> dict \<Rightarrow> string option \<Rightarrow> dep_status \<Rightarrow> build_status \<Rightarrow> request" where
  "manual_request p payload test_command status build_status' =
     (let field = (\<lambda>f. jstr_opt (jget payload f));
          registry = field ''registry''; image_name = field ''image_name''; image_tag = field ''image_tag'';
          image_ref = (if \<not> truthy (field ''image_ref'') \<and> truthy registry \<and> truthy image_name \<and> truthy image_tag
            then Some (rstrip_where (\<lambda>c. c = CHR ''/'') (or_str registry []) @ ''/'' @ or_str image_name []
              @ '':'' @ or_str image_tag [])
            else field ''image_ref'')
      in \<lparr>q_commit_sha = text_of (jget payload ''commit_sha''), q_registry = registry, q_image_name = image_name,
          q_image_tag = image_tag, q_image_ref = image_ref, q_build_status = build_status',
          q_test_command = test_command,
          q_environment = text_of (jget_or payload ''environment'' (JStr ''production'')),
          q_status = status, q_service_url = field ''service_url'',
          q_message = jstr_opt (jget_or payload ''message'' (JStr ''Deployment record created'')),
          q_metadata = [(''branch'', JStr (p_branch p)), (''commit_sha'', jget payload ''commit_sha'')],
          q_branch = Some (p_branch p), q_snapshot = JNull\<rparr>)"

definition create_manual_deployment :: "api \<Rightarrow> project \<Rightarrow> dict \<Rightarrow> string option \<Rightarrow> (nat \<times> nat) proc" where
  "create_manual_deployment a p payload test_command =
     (case (parse_dep_status (text_of (jget_or payload ''status'' (JStr ''pending''))),
            parse_build_status (text_of (jget_or payload ''build_status'' (JStr ''pending'')))) of
        (Some status, Some build_status') \<Rightarrow>
          bind (create_build_and_deployment_records a p
                  (manual_request p payload test_command status build_status')) (\<lambda>(bid, did).
          bind (seqs
            [whenp (build_status' \<noteq> B_pending)
               (create_deployment_event did ''build.status_reported'' (build_status_name build_status')
                  (Some (''Build recorded in status '' @ squote (build_status_name build_status')))
                  (Some ''build'') ''info'' JNull),
             commit]) (\<lambda>_. ret (bid, did)))
      | _ \<Rightarrow> throw (OtherExn ''ValueError'' ''status outside of the table''))"

text \<open>The two halves of \<open>apply_deployment_update\<close>.\<close>

definition apply_status :: "nat \<Rightarrow> string option \<Rightarrow> dep_status \<Rightarrow> unit proc" where
  "apply_status did message st = seqs
     [transition_to did st,
      create_deployment_event did ''deployment.status_updated'' (dep_status_name st)
        (Some (or_str message (''Deployment status updated to '' @ squote (dep_status_name st))))
        (Some ''deployment'') ''info'' JNull]"

definition apply_build_status :: "nat \<Rightarrow> string option \<Rightarrow> build_status \<Rightarrow> unit proc" where
  "apply_build_status did message st = seqs
     [build_transition_to did st,
      create_deployment_event did ''build.status_updated'' (build_status_name st)
        (Some (or_str message (''Build status updated to '' @ squote (build_status_name st))))
        (Some ''build'') ''info'' JNull]"

definition apply_deployment_update :: "nat \<Rightarrow> dict \<Rightarrow> unit proc" where
  "apply_deployment_update did update_data =
     (let message = jstr_opt (jget update_data ''message'')
      in seqs
        [(if jhas update_data ''status''
          then (case parse_dep_status (text_of (jget update_data ''status'')) of
             None \<Rightarrow> throw (OtherExn ''ValueError'' ''Invalid deployment transition'')
           | Some st \<Rightarrow> apply_status did message st)
          else ret ()),
         (if jhas update_data ''build_status''
          then (case parse_build_status (text_of (jget update_data ''build_status'')) of
             None \<Rightarrow> throw (OtherExn ''ValueError'' ''Invalid build transition'')
           | Some st \<Rightarrow> apply_build_status did message st)
          else ret ())])"

section \<open>Projects\<close>

definition text_opt :: "dict \<Rightarrow> string \<Rightarrow> string option" where
  "text_opt payload field = jstr_opt (jget payload field)"

definition int_of :: "json \<Rightarrow> int" where
  "int_of v = (case v of JInt i \<Rightarrow> i | _ \<Rightarrow> 0)"

definition build_project_from_payload :: "dict \<Rightarrow> nat \<Rightarrow> int \<Rightarrow> project" where
  "build_project_from_payload payload i t =
     (let given = (\<lambda>f dflt. text_of (jget_or payload f (JStr dflt)))
      in \<lparr>p_id = i, p_name = text_of (jget payload ''name''), p_repo_url = text_of (jget payload ''repo_url''),
          p_branch = text_of (jget payload ''branch''), p_git_auth_type = given ''git_auth_type'' ''none'',
          p_git_secret_ref = text_opt payload ''git_secret_ref'',
          p_dockerfile_path = given ''dockerfile_path'' ''Dockerfile'',
          p_build_context = given ''build_context'' ''.'', p_port = int_of (jget payload ''port''),
          p_healthcheck_path = text_of (jget payload ''healthcheck_path''),
          p_env_vars = list_of (jget payload ''env_vars''),
          p_default_test_command = text_opt payload ''default_test_command'',
          p_migration_command = text_opt payload ''migration_command'',
          p_cpu = text_opt payload ''cpu'', p_memory = text_opt payload ''memory'',
          p_trigger = given ''trigger'' ''manual'', p_runtime = given ''runtime'' ''dockerfile'',
          p_created_at = t, p_updated_at = t\<rparr>)"

definition name_conflict :: "exn" where
  "name_conflict = OtherExn ''ProjectConflictError'' ''Project name must be unique''"

definition create_project_record :: "dict \<Rightarrow> nat proc" where
  "create_project_record payload s =
     (let i = next_id p_id (projects (cur s)); p = build_project_from_payload payload i (clock s)
      in if p_name p \<in> p_name ` set (projects (cur s)) then (Inl name_conflict, s\<lparr>cur := com s\<rparr>)
         else let w = (cur s)\<lparr>projects := projects (cur s) @ [p]\<rparr> in (Inr i, s\<lparr>com := w, cur := w\<rparr>))"

text \<open>\<open>setattr(project, key, value)\<close>, for the keys that \<open>PROJECT_ALLOWED_FIELDS\<close> admits.\<close>

definition set_project_field :: "string \<times> json \<Rightarrow> project \<Rightarrow> project" where
  "set_project_field kv p = (let key = fst kv; v = snd kv in
     if key = ''name'' then p\<lparr>p_name := text_of v\<rparr>
     else if key = ''repo_url'' then p\<lparr>p_repo_url := text_of v\<rparr>
     else if key = ''branch'' then p\<lparr>p_branch := text_of v\<rparr>
     else if key = ''git_auth_type'' then p\<lparr>p_git_auth_type := text_of v\<rparr>
     else if key = ''git_secret_ref'' then p\<lparr>p_git_secret_ref := jstr_opt v\<rparr>
     else if key = ''dockerfile_path'' then p\<lparr>p_dockerfile_path := text_of v\<rparr>
     else if key = ''build_context'' then p\<lparr>p_build_context := text_of v\<rparr>
     else if key = ''port'' then p\<lparr>p_port := int_of v\<rparr>
     else if key = ''healthcheck_path'' then p\<lparr>p_healthcheck_path := text_of v\<rparr>
     else if key = ''env_vars'' then p\<lparr>p_env_vars := list_of v\<rparr>
     else if key = ''default_test_command'' then p\<lparr>p_default_test_command := jstr_opt v\<rparr>
     else if key = ''migration_command'' then p\<lparr>p_migration_command := jstr_opt v\<rparr>
     else if key = ''cpu'' then p\<lparr>p_cpu := jstr_opt v\<rparr>
     else if key = ''memory'' then p\<lparr>p_memory := jstr_opt v\<rparr>
     else if key = ''trigger'' then p\<lparr>p_trigger := text_of v\<rparr>
     else if key = ''runtime'' then p\<lparr>p_runtime := text_of v\<rparr>
     else p)"

definition touch_project :: "int \<Rightarrow> (project \<Rightarrow> project) \<Rightarrow> project \<Rightarrow> project" where
  "touch_project t f p = (let p' = f p in if p' = p then p else p'\<lparr>p_updated_at := t\<rparr>)"

definition update_project_record :: "nat \<Rightarrow> dict \<Rightarrow> unit proc" where
  "update_project_record pid update_data s = (case get_project (cur s) pid of
     None \<Rightarrow> (Inl object_deleted, s)
   | Some p \<Rightarrow>
       let p' = touch_project (clock s) (fold set_project_field update_data) p
       in if \<exists>q \<in> set (projects (cur s)). p_id q \<noteq> pid \<and> p_name q = p_name p'
          then (Inl name_conflict, s\<lparr>cur := com s\<rparr>)
          else let w = upd_project pid (\<lambda>_. p') (cur s) in (Inr (), s\<lparr>com := w, cur := w\<rparr>))"

end
