(* ===== verification/Webhooks.thy ===== *)
theory Webhooks
  imports Serialize Requests
begin

text \<open>
  \<open>api/webhooks.py\<close>: a signed push of GitHub becomes one deployment for every matching
  project. The delivery id is the idempotency key: it is reserved by a row of its own whose
  unique constraint decides a race (\<open>others\<close> is what other transactions commit between the
  lookup and the flush). The digest of the body is a parameter (\<open>hashlib\<close> and \<open>hmac\<close> wrap
  OpenSSL), as is the body that Flask has parsed. Log lines are not modelled. The model
  reads the fields of a push that the code takes for text (URLs, branch, commit) as text:
  the sender has signed them.
\<close>

type_synonym response = "nat \<times> dict"

record hook =
  h_body :: string
  h_json :: "json option"
  h_signature :: "string option"
  h_event :: "string option"
  h_delivery :: "string option"
  h_secret :: json
  h_digest :: "string \<Rightarrow> string \<Rightarrow> string"
  h_shown :: "json \<Rightarrow> string"

definition error_payload :: "api \<Rightarrow> string \<Rightarrow> dict" where
  "error_payload a message = (''error'', JStr message)
     # (if truthy (api_request_id a) then [(''request_id'', jopt (api_request_id a))] else [])"

text \<open>\<open>parse_json_object\<close>: an object, an empty body as an empty object, or an error response.\<close>

definition parse_json_object :: "string \<Rightarrow> json option \<Rightarrow> response + dict" where
  "parse_json_object body parsed = (case parsed of
     Some (JDict d) \<Rightarrow> Inr d
   | _ \<Rightarrow> if strip body = [] then Inr [] else Inl (400, [(''error'', JStr ''Request body must be a JSON object'')]))"

section \<open>Repository URLs\<close>

definition SSH_SHORT :: string where "SSH_SHORT = ''git'' @ [CHR 0x40] @ ''github.com:''"
definition SSH_LONG :: string where "SSH_LONG = ''ssh://git'' @ [CHR 0x40] @ ''github.com/''"

definition https_candidate :: "string \<Rightarrow> string" where
  "https_candidate candidate =
     (if prefix SSH_SHORT candidate then ''https://github.com/'' @ drop (length SSH_SHORT) candidate
      else if prefix SSH_LONG candidate then ''https://github.com/'' @ drop (length SSH_LONG) candidate
      else candidate)"

definition strip_git :: "string \<Rightarrow> string" where
  "strip_git path' = (if suffix ''.git'' path' then take (length path' - 4) path' else path')"

text \<open>The result None is falsy, like an empty string; an unparsable URL raises (the outer None).\<close>

definition normalize_github_repository_url :: "(string \<Rightarrow> bool) \<Rightarrow> string \<Rightarrow> string option option" where
  "normalize_github_repository_url bracketed_ok v =
     (if strip v = [] then Some None
      else
        let candidate = https_candidate (strip v)
        in case urlparse bracketed_ok candidate of
             None \<Rightarrow> None
           | Some parsed \<Rightarrow> Some (Some (
               if u_scheme parsed \<in> {''http'', ''https''} \<and> lower (u_netloc parsed) = ''github.com''
               then ''https://github.com'' @ lower (strip_git (rstrip_where (\<lambda>c. c = CHR ''/'') (u_path parsed)))
               else rstrip_where (\<lambda>c. c = CHR ''/'') candidate)))"

text \<open>The projects of a URL: None when one of the stored URLs cannot be parsed.\<close>

fun url_matches :: "(string \<Rightarrow> bool) \<Rightarrow> string \<Rightarrow> project list \<Rightarrow> project list option" where
  "url_matches bracketed_ok url [] = Some []"
| "url_matches bracketed_ok url (p # ps) =
     (case (normalize_github_repository_url bracketed_ok (p_repo_url p), url_matches bracketed_ok url ps) of
        (Some n, Some rest) \<Rightarrow> Some (if n = Some url then p # rest else rest)
      | _ \<Rightarrow> None)"

definition github_push_project_matches ::
    "(string \<Rightarrow> bool) \<Rightarrow> world \<Rightarrow> string \<Rightarrow> string \<Rightarrow> (project list \<times> project list) option" where
  "github_push_project_matches bracketed_ok w repository_url branch =
     (case normalize_github_repository_url bracketed_ok repository_url of
        None \<Rightarrow> None
      | Some n \<Rightarrow>
          if \<not> truthy n then Some ([], [])
          else map_option (\<lambda>ms. (ms, filter (\<lambda>p. p_branch p = branch) ms))
                 (url_matches bracketed_ok (or_str n [])
                    (filter (\<lambda>p. p_trigger p = ''github_push'') (projects w))))"

section \<open>Signatures and payloads\<close>

definition github_webhook_secret :: "hook \<Rightarrow> string option" where
  "github_webhook_secret h = (case h_secret h of JStr s \<Rightarrow> (if s = [] then None else Some s) | _ \<Rightarrow> None)"

text \<open>\<open>hmac.compare_digest\<close> on two texts raises unless both are ASCII.\<close>

definition ascii :: "string \<Rightarrow> bool" where
  "ascii s \<longleftrightarrow> list_all (\<lambda>c. code c < 128) s"

definition compare_digest :: "string \<Rightarrow> string \<Rightarrow> exn + bool" where
  "compare_digest a b = (if ascii a \<and> ascii b then Inr (a = b)
     else Inl (OtherExn ''TypeError'' ''comparing strings with non-ASCII characters is not supported''))"

definition verify_github_signature :: "hook \<Rightarrow> exn + bool" where
  "verify_github_signature h = (case (github_webhook_secret h, h_signature h) of
     (Some secret, Some header) \<Rightarrow>
       if prefix ''sha256='' header then compare_digest (h_digest h secret (h_body h)) (after (CHR ''='') header)
       else Inr False
   | _ \<Rightarrow> Inr False)"

definition github_branch_from_ref :: "json \<Rightarrow> string option" where
  "github_branch_from_ref ref = (case ref of
     JStr s \<Rightarrow> if prefix ''refs/heads/'' s then Some (drop 11 s) else None | _ \<Rightarrow> None)"

definition github_push_deletes_branch :: "dict \<Rightarrow> json \<Rightarrow> bool" where
  "github_push_deletes_branch payload commit_sha \<longleftrightarrow> jget payload ''deleted'' = JBool True
     \<or> (case commit_sha of JStr s \<Rightarrow> s \<noteq> [] \<and> list_all (\<lambda>c. c = CHR ''0'') s | _ \<Rightarrow> False)"

text \<open>What a delivery is recorded and answered with.\<close>

record push =
  n_delivery :: "string option"
  n_event :: string
  n_repository_url :: "string option"
  n_branch :: "string option"
  n_commit_sha :: "string option"

definition base_github_response :: "push \<Rightarrow> dict" where
  "base_github_response n =
     [(''event'', if n_event n = [] then JNull else JStr (n_event n)), (''delivery_id'', jopt (n_delivery n)),
      (''repository_url'', jopt (n_repository_url n)), (''branch'', jopt (n_branch n)),
      (''commit_sha'', jopt (n_commit_sha n))]"

definition ignore_github_event :: "string \<Rightarrow> push \<Rightarrow> response" where
  "ignore_github_event reason n =
     (202, jmerge [(''status'', JStr ''ignored''), (''reason'', JStr reason)] (base_github_response n))"

section \<open>Deliveries\<close>

definition new_delivery :: "string \<Rightarrow> push \<Rightarrow> nat \<Rightarrow> int \<Rightarrow> delivery" where
  "new_delivery delivery_id n i t = \<lparr>w_id = i, w_delivery_id = delivery_id,
     w_event_type = (if n_event n = [] then ''unknown'' else n_event n), w_repository_url = n_repository_url n,
     w_branch = n_branch n, w_commit_sha = n_commit_sha n, w_status = ''received'', w_reason = None,
     w_deployment_id = None, w_received_at = t\<rparr>"

definition delivered :: "string \<Rightarrow> world \<Rightarrow> bool" where
  "delivered delivery_id w \<longleftrightarrow> list_ex (\<lambda>v. w_delivery_id v = delivery_id) (deliveries w)"

definition add_delivery :: "(nat \<Rightarrow> int \<Rightarrow> delivery) \<Rightarrow> nat proc" where
  "add_delivery mk s = (let i = next_id w_id (deliveries (cur s))
     in (Inr i, s\<lparr>cur := (cur s)\<lparr>deliveries := deliveries (cur s) @ [mk i (clock s)]\<rparr>\<rparr>))"

definition set_delivery :: "nat \<Rightarrow> (delivery \<Rightarrow> delivery) \<Rightarrow> unit proc" where
  "set_delivery i f = store (\<lambda>t w. w\<lparr>deliveries := alter w_id i f (deliveries w)\<rparr>)"

text \<open>The key of the reserved row, if the delivery has an id, and whether it is a duplicate.\<close>

definition reserve_delivery_id :: "(world \<Rightarrow> world) \<Rightarrow> push \<Rightarrow> (nat option \<times> bool) proc" where
  "reserve_delivery_id others n =
     (if \<not> truthy (n_delivery n) then ret (None, False)
      else
        let delivery_id = or_str (n_delivery n) []
        in bind (query (delivered delivery_id)) (\<lambda>existing.
           if existing then ret (None, True)
           else
             bind (interfere others) (\<lambda>_.
             bind (query (delivered delivery_id)) (\<lambda>violated.
             if violated then bind rollback (\<lambda>_. ret (None, True))
             else bind (add_delivery (new_delivery delivery_id n)) (\<lambda>i. ret (Some i, False))))))"

definition close_delivery :: "nat option \<Rightarrow> (delivery \<Rightarrow> delivery) \<Rightarrow> unit proc" where
  "close_delivery reserved f = (case reserved of
     None \<Rightarrow> ret () | Some i \<Rightarrow> seqs [set_delivery i f, commit])"

definition persist_ignored_delivery :: "(world \<Rightarrow> world) \<Rightarrow> string \<Rightarrow> push \<Rightarrow> response proc" where
  "persist_ignored_delivery others reason n =
     bind (reserve_delivery_id others n) (\<lambda>(reserved, is_duplicate).
       if is_duplicate then ret (ignore_github_event ''duplicate_delivery'' n)
       else bind (close_delivery reserved (\<lambda>v. v\<lparr>w_status := ''ignored'', w_reason := Some reason\<rparr>)) (\<lambda>_.
            ret (ignore_github_event reason n)))"

section \<open>The route\<close>

definition push_event :: "push \<Rightarrow> aux_event" where
  "push_event n = \<lparr>x_event_type = ''webhook.github_push_received'', x_status = ''pending'',
     x_message = Some (''GitHub push webhook accepted for branch '' @ squote (or_str (n_branch n) [])),
     x_step = Some ''webhook'', x_level = None,
     x_metadata_json = [(''event_type'', JStr ''push''), (''branch'', jopt (n_branch n)),
       (''commit_sha'', jopt (n_commit_sha n)), (''github_delivery_id'', jopt (n_delivery n)),
       (''repository_url'', jopt (n_repository_url n))]\<rparr>"

definition push_metadata :: "push \<Rightarrow> dict" where
  "push_metadata n = [(''trigger'', JStr ''github_push''), (''source'', JStr ''github_webhook''),
     (''event_type'', JStr ''push''), (''github_delivery_id'', jopt (n_delivery n))]"

text \<open>
  The flush of the build violates its foreign key when another transaction has deleted the
  matched project in the meantime.
\<close>

definition deploy_push :: "api \<Rightarrow> push \<Rightarrow> project \<Rightarrow> (nat \<times> nat) proc" where
  "deploy_push a n p = bind (query (\<lambda>w. get_project w (p_id p))) (\<lambda>row. case row of
     None \<Rightarrow> throw (OtherExn ''IntegrityError'' ''builds.project_id'')
   | Some _ \<Rightarrow> create_requested_deployment a p
       ((request_for (or_str (n_commit_sha n) []))\<lparr>q_test_command := p_default_test_command p\<rparr>)
       (or_str (n_branch n) []) ''Deployment requested from GitHub webhook'' (push_metadata n) [push_event n] False)"

primrec deploy_all :: "api \<Rightarrow> push \<Rightarrow> project list \<Rightarrow> nat list proc" where
  "deploy_all a n [] = ret []"
| "deploy_all a n (p # ps) =
     bind (deploy_push a n p) (\<lambda>(bid, did). bind (deploy_all a n ps) (\<lambda>dids. ret (did # dids)))"

definition shown_deployment :: "hook \<Rightarrow> world \<Rightarrow> push \<Rightarrow> nat \<Rightarrow> json" where
  "shown_deployment h w n did = (case get_dep w did of
     None \<Rightarrow> JNull
   | Some d \<Rightarrow> (case get_build w (d_build_id d) of
        None \<Rightarrow> JNull
      | Some b \<Rightarrow> JDict (serialize_triggered_deployment (h_shown h) w d b (jopt (n_branch n)) None None None)))"

definition accept_push :: "api \<Rightarrow> hook \<Rightarrow> push \<Rightarrow> nat option \<Rightarrow> project list \<Rightarrow> response proc" where
  "accept_push a h n reserved branch_matches =
     bind (deploy_all a n branch_matches) (\<lambda>dids.
     bind (query (\<lambda>w. map (shown_deployment h w n) dids)) (\<lambda>shown_deployments.
     bind (case reserved of None \<Rightarrow> ret ()
           | Some i \<Rightarrow> set_delivery i (\<lambda>v. v\<lparr>w_status := ''accepted'', w_reason := None,
               w_deployment_id := (case dids of [did] \<Rightarrow> Some did | _ \<Rightarrow> w_deployment_id v)\<rparr>)) (\<lambda>_.
     bind commit (\<lambda>_.
     ret (202, jset ''deployments'' (JList shown_deployments)
       (jmerge [(''status'', JStr ''accepted''), (''message'', JStr ''GitHub push webhook accepted'')]
          (base_github_response n)))))))"

definition handle_push :: "api \<Rightarrow> (world \<Rightarrow> world) \<Rightarrow> hook \<Rightarrow> dict \<Rightarrow> push \<Rightarrow> json \<Rightarrow> response proc" where
  "handle_push a others h payload n commit_json =
     (if \<not> truthy (n_repository_url n) \<or> \<not> truthy (n_branch n) \<or> \<not> jtrue commit_json
      then persist_ignored_delivery others ''unsupported_ref'' n
      else if github_push_deletes_branch payload commit_json
      then persist_ignored_delivery others ''branch_deleted'' n
      else (case validate_git_commit_sha commit_json False of
         Some e \<Rightarrow> ret (400, error_payload a e)
       | None \<Rightarrow>
           let n' = n\<lparr>n_commit_sha := Some (lower (text_of commit_json))\<rparr>
           in bind (query (\<lambda>w. github_push_project_matches (v_bracketed_ok (api_venv a)) w
                      (or_str (n_repository_url n') []) (or_str (n_branch n') []))) (\<lambda>matches.
              case matches of
                None \<Rightarrow> throw (OtherExn ''ValueError'' ''Invalid IPv6 URL'')
              | Some (repository_matches, branch_matches) \<Rightarrow>
                  if repository_matches = [] then persist_ignored_delivery others ''unmatched_repository'' n'
                  else if branch_matches = [] then persist_ignored_delivery others ''branch_mismatch'' n'
                  else
                    bind (reserve_delivery_id others n') (\<lambda>(reserved, is_duplicate).
                    if is_duplicate then ret (ignore_github_event ''duplicate_delivery'' n')
                    else (case kubernetes_deployment_prereq_error (api_venv a) of
                        Inl e \<Rightarrow> throw (OtherExn ''RuntimeError'' e)
                      | Inr (Some e) \<Rightarrow>
                          bind (close_delivery reserved
                                  (\<lambda>v. v\<lparr>w_status := ''ignored'', w_reason := Some ''platform_not_ready''\<rparr>)) (\<lambda>_.
                          ret (ignore_github_event ''platform_not_ready'' n'))
                      | Inr None \<Rightarrow> accept_push a h n' reserved branch_matches)))))"

definition repository_field :: "dict \<Rightarrow> string option" where
  "repository_field repository =
     jstr_opt (jor (jor (jget repository ''clone_url'') (jget repository ''html_url'')) (jget repository ''ssh_url''))"

definition github_webhook :: "api \<Rightarrow> (world \<Rightarrow> world) \<Rightarrow> hook \<Rightarrow> response proc" where
  "github_webhook a others h = bind (lift (verify_github_signature h)) (\<lambda>verified.
     if \<not> verified then ret (401, error_payload a ''Invalid GitHub webhook signature'')
     else (case parse_json_object (h_body h) (h_json h) of
       Inl response \<Rightarrow> ret response
     | Inr payload \<Rightarrow> (case jor (jget payload ''repository'') (JDict []) of
         JDict repository \<Rightarrow>
           let event_type = lower (strip (or_str (h_event h) []));
               commit_json = jget payload ''after'';
               n = \<lparr>n_delivery = h_delivery h, n_event = (if event_type = [] then ''unknown'' else event_type),
                    n_repository_url = repository_field repository,
                    n_branch = github_branch_from_ref (jget payload ''ref''),
                    n_commit_sha = jstr_opt commit_json\<rparr>
           in if event_type = ''ping''
              then ret (200, [(''message'', JStr ''GitHub webhook ping received''), (''event'', JStr ''ping''),
                         (''delivery_id'', jopt (h_delivery h))])
              else if event_type \<noteq> ''push'' then persist_ignored_delivery others ''unsupported_event_type'' n
              else handle_push a others h payload n commit_json
       | _ \<Rightarrow> throw (OtherExn ''AttributeError'' ''repository is not an object''))))"

end
