(* ===== verification/Auth.thy ===== *)
theory Auth
  imports Webhooks
begin

text \<open>
  \<open>api/auth.py\<close> and \<open>api/audit_service.py\<close>: bearer tokens with ordered roles, and the audit
  trail. The configuration is that of \<open>api\<close>; the parser of the JSON token list is a
  parameter. An audit row is written in a transaction of its own that may fail without an
  effect on the request (\<open>t_audit_ok\<close>). The lemmas say who is let in, and that a refused
  request changes nothing but the audit trail.
\<close>

section \<open>Roles\<close>

datatype role = Read_only | Deployer | Admin

fun ROLE_LEVELS :: "role \<Rightarrow> nat" where
  "ROLE_LEVELS Read_only = 1" | "ROLE_LEVELS Deployer = 2" | "ROLE_LEVELS Admin = 3"

fun role_name :: "role \<Rightarrow> string" where
  "role_name Read_only = ''read_only''" | "role_name Deployer = ''deployer''" | "role_name Admin = ''admin''"

definition roles :: "role list" where
  "roles = [Read_only, Deployer, Admin]"

definition parse_role :: "string \<Rightarrow> role option" where
  "parse_role s = find (\<lambda>r. role_name r = s) roles"

definition CONFIG_KEY_BY_ROLE :: "(role \<times> string) list" where
  "CONFIG_KEY_BY_ROLE = [(Read_only, ''CONTROL_PLANE_API_TOKEN_READ_ONLY''),
     (Deployer, ''CONTROL_PLANE_API_TOKEN_DEPLOYER''), (Admin, ''CONTROL_PLANE_API_TOKEN_ADMIN'')]"

definition allows :: "role \<Rightarrow> role \<Rightarrow> bool" where
  "allows role required_role \<longleftrightarrow> ROLE_LEVELS role \<ge> ROLE_LEVELS required_role"

section \<open>Configured tokens\<close>

record token_config =
  tk_role :: role
  tk_token :: string
  tk_name :: "string option"

definition entry_error :: "nat \<Rightarrow> string \<Rightarrow> exn" where
  "entry_error i msg = OtherExn ''ValueError'' (''API token entry '' @ str_of_nat (Suc i) @ '' '' @ msg)"

definition hashable :: "json \<Rightarrow> bool" where
  "hashable v = (case v of JList _ \<Rightarrow> False | JDict _ \<Rightarrow> False | _ \<Rightarrow> True)"

definition normalize_json_token_entry :: "json \<Rightarrow> nat \<Rightarrow> exn + token_config" where
  "normalize_json_token_entry entry i = (case entry of
     JDict d \<Rightarrow>
       if \<not> hashable (jget d ''role'') then Inl (OtherExn ''TypeError'' ''unhashable type'')
       else (case parse_role (text_of (jget d ''role'')) of
          None \<Rightarrow> Inl (entry_error i ''has an invalid role'')
        | Some role \<Rightarrow>
            if strip (text_of (jget d ''token'')) = [] then Inl (entry_error i ''must include a non-empty token'')
            else if jget d ''name'' \<noteq> JNull \<and> \<not> is_str (jget d ''name'') then Inl (entry_error i ''name must be a string'')
            else Inr \<lparr>tk_role = role, tk_token = strip (text_of (jget d ''token'')),
                      tk_name = map_option strip (jstr_opt (jget d ''name''))\<rparr>)
   | _ \<Rightarrow> Inl (entry_error i ''must be an object''))"

fun normalize_json_token_entries :: "json list \<Rightarrow> nat \<Rightarrow> exn + token_config list" where
  "normalize_json_token_entries [] i = Inr []"
| "normalize_json_token_entries (e # es) i = (case normalize_json_token_entry e i of
     Inl err \<Rightarrow> Inl err
   | Inr k \<Rightarrow> (case normalize_json_token_entries es (Suc i) of Inl err \<Rightarrow> Inl err | Inr ks \<Rightarrow> Inr (k # ks)))"

definition json_configured_api_tokens :: "(string \<Rightarrow> json option) \<Rightarrow> (string \<Rightarrow> json) \<Rightarrow> exn + token_config list" where
  "json_configured_api_tokens loads config =
     (let raw_value = text_of (config ''CONTROL_PLANE_API_TOKENS_JSON'')
      in if strip raw_value = [] then Inr []
         else (case loads raw_value of
             None \<Rightarrow> Inl (OtherExn ''ValueError'' ''CONTROL_PLANE_API_TOKENS_JSON must be valid JSON'')
           | Some (JList es) \<Rightarrow> normalize_json_token_entries es 0
           | Some _ \<Rightarrow> Inl (OtherExn ''ValueError'' ''CONTROL_PLANE_API_TOKENS_JSON must be a JSON array'')))"

definition plain_tokens :: "(string \<Rightarrow> json) \<Rightarrow> token_config list" where
  "plain_tokens config = concat (map (\<lambda>(role, key).
     let token = strip (text_of (config key))
     in if token = [] then [] else [\<lparr>tk_role = role, tk_token = token, tk_name = Some key\<rparr>]) CONFIG_KEY_BY_ROLE)"

definition api_token_configs_from_config :: "(string \<Rightarrow> json option) \<Rightarrow> (string \<Rightarrow> json) \<Rightarrow> exn + token_config list" where
  "api_token_configs_from_config loads config = (case json_configured_api_tokens loads config of
     Inl e \<Rightarrow> Inl e | Inr ks \<Rightarrow> Inr (ks @ plain_tokens config))"

definition truthy_config_value :: "json \<Rightarrow> bool" where
  "truthy_config_value v = (case v of
     JBool b \<Rightarrow> b | JStr s \<Rightarrow> lower (strip s) \<in> {''1'', ''true'', ''yes'', ''on''} | _ \<Rightarrow> jtrue v)"

definition api_auth_disabled_allowed_for_config :: "(string \<Rightarrow> json) \<Rightarrow> bool" where
  "api_auth_disabled_allowed_for_config config \<longleftrightarrow>
     lower (strip (text_of (config ''CONTROL_PLANE_ENV''))) \<in> {''development'', ''local'', ''test''}
     \<and> truthy_config_value (config ''CONTROL_PLANE_ALLOW_AUTH_DISABLED'')"

section \<open>The audit trail\<close>

text \<open>
  A dictionary is walked entry by entry, so \<open>redact_sensitive_data\<close> only sees values without
  their keys, which it returns as they are.
\<close>

fun sanitize_audit_metadata :: "json \<Rightarrow> json" where
  "sanitize_audit_metadata (JDict d) = JDict (map (\<lambda>(k, v).
     (k, if k = ''env_vars'' then JStr REDACTED else sanitize_audit_metadata v)) d)"
| "sanitize_audit_metadata (JList vs) = JList (map sanitize_audit_metadata vs)"
| "sanitize_audit_metadata v = redact_sensitive_data [] v"

record http =
  t_method :: string
  t_path :: string
  t_ip :: "string option"
  t_authorization :: "string option"
  t_body :: string
  t_json :: "json option"
  t_loads :: "string \<Rightarrow> json option"
  t_auth_disabled_at_startup :: bool
  t_audit_ok :: bool
  t_shown :: "json \<Rightarrow> string"

definition new_audit_event ::
    "api \<Rightarrow> http \<Rightarrow> role option \<Rightarrow> string \<Rightarrow> string \<Rightarrow> string option \<Rightarrow> string \<Rightarrow> json \<Rightarrow> nat \<Rightarrow> int \<Rightarrow> audit_event" where
  "new_audit_event a r actor action resource_type resource_id status metadata i t =
     \<lparr>a_id = i, a_action = action, a_actor_role = map_option role_name actor, a_resource_type = resource_type,
      a_resource_id = resource_id, a_status = status, a_request_id = api_request_id a, a_ip_address = t_ip r,
      a_metadata_json = sanitize_audit_metadata metadata, a_created_at = t\<rparr>"

definition add_audit :: "(nat \<Rightarrow> int \<Rightarrow> audit_event) \<Rightarrow> int \<Rightarrow> world \<Rightarrow> world" where
  "add_audit mk t w = w\<lparr>audits := audits w @ [mk (next_id a_id (audits w)) t]\<rparr>"

definition record_audit_event ::
    "api \<Rightarrow> http \<Rightarrow> role option \<Rightarrow> string \<Rightarrow> string \<Rightarrow> string option \<Rightarrow> string \<Rightarrow> json \<Rightarrow> unit proc" where
  "record_audit_event a r actor action resource_type resource_id status metadata s =
     (Inr (), if \<not> t_audit_ok r then s
       else let add = add_audit (new_audit_event a r actor action resource_type resource_id status metadata) (clock s)
            in s\<lparr>com := add (com s), cur := add (cur s)\<rparr>)"

definition list_audit_events :: "world \<Rightarrow> nat \<Rightarrow> nat option \<Rightarrow> audit_event list" where
  "list_audit_events w limit before_id = take limit (filter (\<lambda>e. case before_id of None \<Rightarrow> True | Some i \<Rightarrow> a_id e < i)
     (rev (sort_key a_created_at (sort_key a_id (audits w)))))"

definition serialize_audit_events_page :: "audit_event list \<Rightarrow> nat \<Rightarrow> dict" where
  "serialize_audit_events_page es limit =
     [(''items'', JList (map (\<lambda>e. JDict (audit_to_dict e)) es)),
      (''pagination'', JDict [(''limit'', jnat limit), (''count'', jnat (length es)),
         (''next_before_id'', if es = [] then JNull else jnat (a_id (last es)))])]"

section \<open>Requests\<close>

datatype bearer = Token_missing | Token_malformed | Token_present string

definition extract_bearer_token :: "string option \<Rightarrow> bearer" where
  "extract_bearer_token authorization =
     (let header = strip (or_str authorization []);
          scheme = takeWhile (\<lambda>c. \<not> is_space c) header;
          token = dropWhile is_space (dropWhile (\<lambda>c. \<not> is_space c) header)
      in if header = [] then Token_missing
         else if token = [] then Token_malformed
         else if lower scheme \<noteq> ''bearer'' \<or> strip token = [] then Token_malformed
         else Token_present (strip token))"

fun authenticate_bearer_token :: "string \<Rightarrow> token_config list \<Rightarrow> exn + role option" where
  "authenticate_bearer_token token [] = Inr None"
| "authenticate_bearer_token token (k # ks) = (case compare_digest token (tk_token k) of
     Inl e \<Rightarrow> Inl e
   | Inr equal \<Rightarrow> if equal then Inr (Some (tk_role k)) else authenticate_bearer_token token ks)"

definition should_audit_denied_request :: "http \<Rightarrow> bool" where
  "should_audit_denied_request r \<longleftrightarrow> prefix ''/api/projects'' (t_path r)
     \<and> t_method r \<in> {''POST'', ''PATCH'', ''PUT'', ''DELETE''}"

definition record_denied_request_audit :: "api \<Rightarrow> http \<Rightarrow> string \<Rightarrow> role \<Rightarrow> role option \<Rightarrow> unit proc" where
  "record_denied_request_audit a r reason required_role actor =
     whenp (should_audit_denied_request r)
       (record_audit_event a r actor ''api.access_denied'' ''route'' (Some (t_path r)) ''failure''
          (JDict [(''reason'', JStr reason), (''required_role'', JStr (role_name required_role)),
                  (''method'', JStr (t_method r)), (''path'', JStr (t_path r))]))"

definition denied :: "api \<Rightarrow> http \<Rightarrow> string \<Rightarrow> role \<Rightarrow> role option \<Rightarrow> nat \<Rightarrow> string \<Rightarrow> (response + role option) proc" where
  "denied a r reason required_role actor status msg =
     bind (record_denied_request_audit a r reason required_role actor) (\<lambda>_. ret (Inl (status, error_payload a msg)))"

text \<open>
  The refusal, or the role that is cached for the rest of the request (None when
  authentication is disabled).
\<close>

definition authorize_request :: "api \<Rightarrow> http \<Rightarrow> role \<Rightarrow> role option \<Rightarrow> (response + role option) proc" where
  "authorize_request a r required_role cached =
     bind (lift (api_token_configs_from_config (t_loads r) (v_config (api_venv a)))) (\<lambda>configured.
     if configured = []
     then ret (if t_auth_disabled_at_startup r then Inr None
               else Inl (401, error_payload a ''API authentication is not configured''))
     else
       let check = (\<lambda>role. if allows role required_role then ret (Inr (Some role))
             else denied a r ''insufficient_role'' required_role (Some role) 403 ''Forbidden'')
       in case cached of
            Some role \<Rightarrow> check role
          | None \<Rightarrow> (case extract_bearer_token (t_authorization r) of
              Token_missing \<Rightarrow> denied a r ''missing_token'' required_role None 401 ''Missing bearer token''
            | Token_malformed \<Rightarrow> denied a r ''malformed_token'' required_role None 401 ''Malformed bearer token''
            | Token_present token \<Rightarrow>
                bind (lift (authenticate_bearer_token token configured)) (\<lambda>principal.
                case principal of
                  None \<Rightarrow> denied a r ''invalid_token'' required_role None 401 ''Invalid bearer token''
                | Some role \<Rightarrow> check role)))"

text \<open>
  A route of the projects blueprint: its \<open>before_request\<close> asks for the role of readers, the
  decorator of the route for \<open>required_role\<close>.
\<close>

definition with_role :: "api \<Rightarrow> http \<Rightarrow> role \<Rightarrow> (role option \<Rightarrow> response proc) \<Rightarrow> response proc" where
  "with_role a r required_role view =
     bind (authorize_request a r Read_only None) (\<lambda>first. case first of
       Inl response \<Rightarrow> ret response
     | Inr cached \<Rightarrow> bind (authorize_request a r required_role cached) (\<lambda>second. case second of
         Inl response \<Rightarrow> ret response
       | Inr actor \<Rightarrow> view actor))"

section \<open>Who is let in\<close>

lemma authenticated_token:
  "authenticate_bearer_token token ks = Inr (Some role) \<Longrightarrow> \<exists>k \<in> set ks. tk_token k = token \<and> tk_role k = role"
  by (induction ks) (auto simp: compare_digest_def split: sum.splits if_splits)

definition entitled :: "api \<Rightarrow> http \<Rightarrow> role \<Rightarrow> bool" where
  "entitled a r required_role \<longleftrightarrow> (\<exists>ks. api_token_configs_from_config (t_loads r) (v_config (api_venv a)) = Inr ks
     \<and> (if ks = [] then t_auth_disabled_at_startup r
        else \<exists>token. \<exists>k \<in> set ks. extract_bearer_token (t_authorization r) = Token_present token
          \<and> tk_token k = token \<and> allows (tk_role k) required_role))"

text \<open>Everything but the audit trail.\<close>

definition same_but_audits :: "session \<Rightarrow> session \<Rightarrow> bool" where
  "same_but_audits s s' \<longleftrightarrow> clock s' = clock s
     \<and> (\<exists>as. com s' = (com s)\<lparr>audits := as\<rparr>) \<and> (\<exists>as. cur s' = (cur s)\<lparr>audits := as\<rparr>)"

lemma same_but_audits_refl: "same_but_audits s s"
  by (simp add: same_but_audits_def) (metis world.surjective world.update_convs(7))

lemma record_audit_run:
  "\<exists>s'. record_audit_event a r actor action rt rid st md s = (Inr (), s') \<and> same_but_audits s s'"
  using same_but_audits_refl [of s]
  by (auto simp: record_audit_event_def add_audit_def Let_def same_but_audits_def)

lemma denied_run:
  "\<exists>s'. denied a r reason req actor st msg s = (Inr (Inl (st, error_payload a msg)), s') \<and> same_but_audits s s'"
proof (cases "should_audit_denied_request r")
  case True
  let ?md = "JDict [(''reason'', JStr reason), (''required_role'', JStr (role_name req)),
    (''method'', JStr (t_method r)), (''path'', JStr (t_path r))]"
  obtain s' where "record_audit_event a r actor ''api.access_denied'' ''route'' (Some (t_path r)) ''failure'' ?md s
      = (Inr (), s')" "same_but_audits s s'"
    using record_audit_run by blast
  then show ?thesis using True by (simp add: denied_def record_denied_request_audit_def whenp_def bind_def ret_def)
next
  case False
  then show ?thesis
    using same_but_audits_refl [of s]
    by (simp add: denied_def record_denied_request_audit_def whenp_def bind_def ret_def)
qed

text \<open>Refused, with an answer and no change but to the audit trail.\<close>

definition refused :: "session \<Rightarrow> (exn + (response + role option)) \<times> session \<Rightarrow> bool" where
  "refused s out \<longleftrightarrow> same_but_audits s (snd out)
     \<and> (case fst out of Inl e \<Rightarrow> True | Inr (Inl response) \<Rightarrow> fst response \<in> {401, 403} | Inr (Inr _) \<Rightarrow> False)"

lemma refused_denied: "st \<in> {401, 403} \<Longrightarrow> refused s (denied a r reason req actor st msg s)"
  using denied_run [of a r reason req actor st msg s] by (auto simp: refused_def)

definition admits :: "api \<Rightarrow> http \<Rightarrow> role \<Rightarrow> role option \<Rightarrow> bool" where
  "admits a r req cached \<longleftrightarrow> (\<exists>ks. api_token_configs_from_config (t_loads r) (v_config (api_venv a)) = Inr ks
     \<and> (if ks = [] then t_auth_disabled_at_startup r
        else (\<exists>role. allows role req \<and> (cached = Some role \<or> cached = None
          \<and> (\<exists>token. extract_bearer_token (t_authorization r) = Token_present token
               \<and> authenticate_bearer_token token ks = Inr (Some role))))))"

lemma authorize_admits:
  assumes "admits a r req cached"
  shows "\<exists>actor. authorize_request a r req cached s = (Inr (Inr actor), s)"
  using assms
  by (auto simp: admits_def authorize_request_def bind_def lift_def ret_def Let_def split: if_splits)

lemma authorize_refuses:
  assumes "\<not> admits a r req cached"
  shows "refused s (authorize_request a r req cached s)"
proof (cases "api_token_configs_from_config (t_loads r) (v_config (api_venv a))")
  case (Inl e)
  then show ?thesis
    using same_but_audits_refl [of s] by (simp add: authorize_request_def bind_def lift_def refused_def)
next
  case (Inr ks)
  show ?thesis
  proof (cases "ks = []")
    case True
    then show ?thesis
      using assms Inr same_but_audits_refl [of s]
      by (simp add: admits_def authorize_request_def bind_def lift_def ret_def refused_def)
  next
    case False
    have stay: "refused s (Inl e, s)" for e using same_but_audits_refl [of s] by (simp add: refused_def)
    show ?thesis
      using assms Inr False refused_denied [of _ s a r] stay
      by (auto simp: admits_def authorize_request_def bind_def lift_def Let_def
          split: option.split bearer.split sum.split)
  qed
qed

lemma authorize_admits_role:
  assumes "api_token_configs_from_config (t_loads r) (v_config (api_venv a)) = Inr ks" "ks \<noteq> []"
    and "admits a r req None"
  shows "\<exists>token role. authorize_request a r req None s = (Inr (Inr (Some role)), s) \<and> allows role req
    \<and> extract_bearer_token (t_authorization r) = Token_present token
    \<and> authenticate_bearer_token token ks = Inr (Some role)"
  using assms by (auto simp: admits_def authorize_request_def bind_def lift_def ret_def Let_def)

lemma view_entitled:
  assumes "\<not> entitled a r req"
  shows "same_but_audits s (snd (with_role a r req view s))
    \<and> (case fst (with_role a r req view s) of Inl e \<Rightarrow> True | Inr response \<Rightarrow> fst response \<in> {401, 403})"
proof (cases "admits a r Read_only None")
  case False
  from authorize_refuses [OF this, of s] show ?thesis
    by (auto simp: with_role_def bind_def refused_def ret_def split: prod.splits sum.splits)
next
  case True
  then obtain ks where ks: "api_token_configs_from_config (t_loads r) (v_config (api_venv a)) = Inr ks"
    by (auto simp: admits_def)
  show ?thesis
  proof (cases "ks = []")
    case empty: True
    then show ?thesis using assms True ks by (simp add: admits_def entitled_def)
  next
    case False
    obtain token role where first: "authorize_request a r Read_only None s = (Inr (Inr (Some role)), s)"
        "extract_bearer_token (t_authorization r) = Token_present token"
        "authenticate_bearer_token token ks = Inr (Some role)"
      using authorize_admits_role [OF ks False True, of s] by blast
    obtain k where k: "k \<in> set ks" "tk_token k = token" "tk_role k = role"
      using authenticated_token [OF first(3)] by blast
    have "\<not> admits a r req (Some role)"
      using assms ks False first(2) k unfolding entitled_def admits_def by auto
    from authorize_refuses [OF this, of s] show ?thesis
      using first(1) by (auto simp: with_role_def bind_def refused_def ret_def split: prod.splits sum.splits)
  qed
qed

section \<open>What the audit trail stores\<close>

text \<open>A value without an entry \<open>env_vars\<close> at any depth.\<close>

fun without_env_vars :: "json \<Rightarrow> bool" where
  "without_env_vars (JDict d) = (\<forall>kv \<in> set d. fst kv \<noteq> ''env_vars'' \<and> without_env_vars (snd kv))"
| "without_env_vars (JList vs) = (\<forall>v \<in> set vs. without_env_vars v)"
| "without_env_vars _ = True"

lemma sanitize_identity: "without_env_vars v \<Longrightarrow> sanitize_audit_metadata v = v"
proof (induction v rule: sanitize_audit_metadata.induct)
  case (1 d)
  have "(k, if k = ''env_vars'' then JStr REDACTED else sanitize_audit_metadata v) = (k, v)" if "(k, v) \<in> set d" for k v
    using 1 that by fastforce
  then show ?case by (auto intro!: map_idI)
qed (auto intro!: map_idI simp: redact_text_def)

section \<open>Properties\<close>

text \<open>
  The role of a route is enforced. A request reaches a view only if one of the configured
  tokens is the bearer token it carries and its role is at least the required one, or if
  no token is configured and authentication was disabled at startup. Otherwise the answer
  is 401 or 403 (or an exception) and nothing but the audit trail changes.
\<close>

theorem role_is_enforced:
  assumes "\<not> entitled a r required_role"
  shows "same_but_audits s (snd (with_role a r required_role view s))
    \<and> (case fst (with_role a r required_role view s) of Inl e \<Rightarrow> True | Inr response \<Rightarrow> fst response \<in> {401, 403})"
  by (rule view_entitled [OF assms])

definition reader_api :: api where
  "reader_api = \<lparr>api_venv = \<lparr>v_executor = None,
       v_config = (\<lambda>k. if k = ''CONTROL_PLANE_API_TOKEN_READ_ONLY'' then JStr ''r-1'' else JNull),
       v_app_env = ''production'', v_local_repo = (\<lambda>_. False), v_bracketed_ok = (\<lambda>_. False)\<rparr>,
     api_request_id = None, api_environ = [], api_path_exists = (\<lambda>_. False), api_git = (\<lambda>_ _. Git_timeout)\<rparr>"

definition reader_request :: http where
  "reader_request = \<lparr>t_method = ''POST'', t_path = ''/api/projects'', t_ip = None,
     t_authorization = Some ''Bearer r-1'', t_body = [], t_json = None, t_loads = (\<lambda>_. None),
     t_auth_disabled_at_startup = False, t_audit_ok = True, t_shown = (\<lambda>_. [])\<rparr>"

definition empty_session :: session where
  "empty_session = (let w = \<lparr>projects = [], builds = [], deployments = [], commands = [], events = [], deliveries = [],
     audits = []\<rparr> in \<lparr>com = w, cur = w, clock = 5\<rparr>)"

theorem role_is_enforced_witness:
  "let out = with_role reader_api reader_request Admin (\<lambda>_ s. (Inr (201, []), s\<lparr>clock := 0\<rparr>)) empty_session
   in same_but_audits empty_session (snd out) \<and> (case fst out of Inl e \<Rightarrow> True | Inr response \<Rightarrow> fst response \<in> {401, 403})"
proof -
  have "api_token_configs_from_config (t_loads reader_request) (v_config (api_venv reader_api))
      = Inr [\<lparr>tk_role = Read_only, tk_token = ''r-1'', tk_name = Some ''CONTROL_PLANE_API_TOKEN_READ_ONLY''\<rparr>]"
    by code_simp
  then have "\<not> entitled reader_api reader_request Admin" by (simp add: entitled_def allows_def)
  from role_is_enforced [OF this, of empty_session "\<lambda>_ s. (Inr (201, []), s\<lparr>clock := 0\<rparr>)"] show ?thesis by (simp only: Let_def)
qed

text \<open>
  The sanitizer of the audit trail only replaces environment variables: metadata without
  them is stored as it is, tokens and passwords in it included. (What is read back passes
  through \<open>redact_sensitive_data\<close>, which does replace them.)
\<close>

theorem audit_stores_sensitive_values:
  assumes "without_env_vars metadata"
  shows "a_metadata_json (new_audit_event a r actor action resource_type resource_id status metadata i t) = metadata"
  using sanitize_identity [OF assms] by (simp add: new_audit_event_def)

theorem audit_stores_sensitive_values_witness:
  "let e = new_audit_event reader_api reader_request None ''x'' ''y'' None ''success''
        (JDict [(''api_token'', JStr ''s3cret'')]) 1 0
   in a_metadata_json e = JDict [(''api_token'', JStr ''s3cret'')]
     \<and> jget (dict_of (jget (audit_to_dict e) ''metadata_json'')) ''api_token'' = JStr REDACTED"
proof -
  let ?e = "new_audit_event reader_api reader_request None ''x'' ''y'' None ''success'' (JDict [(''api_token'', JStr ''s3cret'')]) 1 0"
  have 1: "a_metadata_json ?e = JDict [(''api_token'', JStr ''s3cret'')]"
    by (rule audit_stores_sensitive_values) simp
  have "redact_sensitive_data [] (JDict [(''api_token'', JStr ''s3cret'')]) = JDict [(''api_token'', JStr REDACTED)]"
    by code_simp
  then show ?thesis using 1 by (simp add: Let_def audit_to_dict_def)
qed

end
