(* ===== verification/Routes.thy ===== *)
theory Routes
  imports Auth Requests
begin

text \<open>
  \<open>api/projects.py\<close>: the routes that change projects, deployments and commands, with their
  roles, bodies, validation, error answers and audit rows, and the paged list of
  deployments with the query arguments of \<open>api/request_parsing.py\<close>. \<open>abort(404)\<close> is the answer
  404 with an empty body. An exception that no route catches ends the request: Flask
  answers 500 and the session is discarded (\<open>served\<close>).
\<close>

section \<open>Query arguments\<close>

definition bad_request :: "string \<Rightarrow> response" where
  "bad_request msg = (400, [(''error'', JStr msg)])"

text \<open>\<open>request.args.get(name, default=default, type=int)\<close> is the default for text that is no integer.\<close>

definition parse_limit_arg :: "string option \<Rightarrow> string \<Rightarrow> int \<Rightarrow> int \<Rightarrow> int \<Rightarrow> response + int" where
  "parse_limit_arg raw name dflt min_value max_value =
     (let v = (case raw of None \<Rightarrow> dflt | Some s \<Rightarrow> (case parse_int s of None \<Rightarrow> dflt | Some n \<Rightarrow> n))
      in if v < min_value \<or> v > max_value
         then Inl (bad_request (name @ '' must be an integer between '' @ str_of_int min_value @ '' and ''
           @ str_of_int max_value))
         else Inr v)"

definition parse_optional_int_arg :: "string option \<Rightarrow> string \<Rightarrow> int \<Rightarrow> response + int option" where
  "parse_optional_int_arg raw name min_value =
     (let err = bad_request (name @ '' must be an integer greater than or equal to '' @ str_of_int min_value)
      in case raw of
           None \<Rightarrow> Inr None
         | Some s \<Rightarrow> (case parse_int s of
             None \<Rightarrow> Inl err | Some n \<Rightarrow> if n < min_value then Inl err else Inr (Some n)))"

definition parse_status_filter_arg :: "string option \<Rightarrow> string \<Rightarrow> string list \<Rightarrow> response + string list" where
  "parse_status_filter_arg raw name allowed_values = (case raw of
     None \<Rightarrow> Inr []
   | Some s \<Rightarrow>
       let vs = filter (\<lambda>v. v \<noteq> []) (map strip (split_on (CHR '','') s));
           allowed_list = join '', '' (sort allowed_values);
           wrong = sort (remdups (filter (\<lambda>v. v \<notin> set allowed_values) vs))
       in if vs = [] then Inl (bad_request (name @ '' must include at least one of: '' @ allowed_list))
          else if wrong \<noteq> []
          then Inl (bad_request (name @ '' contains invalid values: '' @ join '', '' wrong @ ''. Allowed: '' @ allowed_list))
          else Inr vs)"

definition parse_bool_arg :: "string option \<Rightarrow> string \<Rightarrow> response + bool option" where
  "parse_bool_arg raw name = (case raw of
     None \<Rightarrow> Inr None
   | Some s \<Rightarrow>
       let normalized = lower (strip s)
       in if normalized \<in> {''1'', ''true'', ''yes'', ''on''} then Inr (Some True)
          else if normalized \<in> {''0'', ''false'', ''no'', ''off''} then Inr (Some False)
          else Inl (bad_request (name @ '' must be a boolean'')))"

section \<open>Parts of a route\<close>

definition not_found :: response where
  "not_found = (404, [])"

definition with_project :: "nat \<Rightarrow> (project \<Rightarrow> response proc) \<Rightarrow> response proc" where
  "with_project pid view = bind (query (\<lambda>w. get_project w pid)) (\<lambda>p. case p of
     None \<Rightarrow> ret not_found | Some p \<Rightarrow> view p)"

definition with_deployment :: "nat \<Rightarrow> nat \<Rightarrow> (deployment \<Rightarrow> build \<Rightarrow> response proc) \<Rightarrow> response proc" where
  "with_deployment pid did view = bind (query (\<lambda>w. get_project_deployment w pid did)) (\<lambda>d. case d of
     None \<Rightarrow> ret not_found
   | Some d \<Rightarrow> bind (the_build did) (\<lambda>b. view d b))"

definition with_body :: "http \<Rightarrow> (dict \<Rightarrow> response proc) \<Rightarrow> response proc" where
  "with_body r view = (case parse_json_object (t_body r) (t_json r) of
     Inl response \<Rightarrow> ret response | Inr payload \<Rightarrow> view payload)"

definition validated :: "verdict \<Rightarrow> response proc \<Rightarrow> response proc" where
  "validated v view = (case v of
     Accept \<Rightarrow> view | Reject e \<Rightarrow> ret (bad_request e) | Raise e \<Rightarrow> throw (OtherExn ''Error'' e))"

definition when_ready :: "api \<Rightarrow> response proc \<Rightarrow> response proc" where
  "when_ready a view = (case kubernetes_deployment_prereq_error (api_venv a) of
     Inl e \<Rightarrow> throw (OtherExn ''RuntimeError'' e)
   | Inr (Some e) \<Rightarrow> ret (409, [(''error'', JStr e)])
   | Inr None \<Rightarrow> view)"

text \<open>\<open>try: m except name: response else: view\<close>.\<close>

definition try_except :: "string \<Rightarrow> 'a proc \<Rightarrow> response \<Rightarrow> ('a \<Rightarrow> response proc) \<Rightarrow> response proc" where
  "try_except name m response view =
     bind (catch (bind m (\<lambda>x. ret (Some x)))
             (\<lambda>e. case e of OtherExn n _ \<Rightarrow> if n = name then ret None else throw e | _ \<Rightarrow> throw e))
       (\<lambda>r. case r of None \<Rightarrow> ret response | Some x \<Rightarrow> view x)"

definition audit ::
    "api \<Rightarrow> http \<Rightarrow> role option \<Rightarrow> string \<Rightarrow> string \<Rightarrow> nat \<Rightarrow> dict \<Rightarrow> unit proc" where
  "audit a r actor action resource_type i metadata =
     record_audit_event a r actor action resource_type (Some (str_of_nat i)) ''success'' (JDict metadata)"

definition conflict_response :: response where
  "conflict_response = (409, [(''error'', JStr ''Project name must be unique'')])"

definition unresolved_response :: response where
  "unresolved_response = (409, [(''error'', JStr ''Unable to resolve deployment source'')])"

section \<open>Projects\<close>

definition create_project :: "api \<Rightarrow> http \<Rightarrow> response proc" where
  "create_project a r = with_role a r Admin (\<lambda>actor. with_body r (\<lambda>payload.
     validated (validate_project_payload (api_venv a) payload)
       (case normalize_project_spec_fields (api_venv a) payload of
          Inl e \<Rightarrow> throw (OtherExn ''ValueError'' e)
        | Inr payload \<Rightarrow>
            try_except ''ProjectConflictError'' (create_project_record payload) conflict_response (\<lambda>pid.
            with_project pid (\<lambda>p.
            bind (audit a r actor ''project.created'' ''project'' pid
                    [(''name'', JStr (p_name p)), (''branch'', JStr (p_branch p)), (''trigger'', JStr (p_trigger p)),
                     (''runtime'', JStr (p_runtime p)), (''repo_url'', JStr (p_repo_url p))])
              (\<lambda>_. ret (201, project_to_dict p)))))))"

definition update_project :: "api \<Rightarrow> http \<Rightarrow> nat \<Rightarrow> response proc" where
  "update_project a r pid = with_role a r Admin (\<lambda>actor. with_project pid (\<lambda>p. with_body r (\<lambda>payload.
     validated (validate_project_patch_payload (api_venv a) payload p)
       (case normalize_project_spec_fields (api_venv a) payload of
          Inl e \<Rightarrow> throw (OtherExn ''ValueError'' e)
        | Inr update_data \<Rightarrow>
            try_except ''ProjectConflictError'' (update_project_record pid update_data) conflict_response (\<lambda>_.
            with_project pid (\<lambda>p'.
            bind (audit a r actor ''project.updated'' ''project'' pid
                    [(''updated_fields'', JList (map JStr (sort (map fst update_data))))])
              (\<lambda>_. ret (200, project_to_dict p'))))))))"

text \<open>
  The cascade of \<open>db.session.delete\<close>: builds and deployments of the project, and the events
  and commands of those deployments. A webhook delivery that refers to one of them is not
  part of the cascade and violates its foreign key.
\<close>

definition delete_rows :: "nat \<Rightarrow> world \<Rightarrow> world" where
  "delete_rows pid w =
     (let gone = map d_id (filter (\<lambda>d. d_project_id d = pid) (deployments w))
      in w\<lparr>projects := filter (\<lambda>p. p_id p \<noteq> pid) (projects w),
           builds := filter (\<lambda>b. b_project_id b \<noteq> pid) (builds w),
           deployments := filter (\<lambda>d. d_project_id d \<noteq> pid) (deployments w),
           commands := filter (\<lambda>k. c_deployment_id k \<notin> set gone) (commands w),
           events := filter (\<lambda>e. e_deployment_id e \<notin> set gone) (events w)\<rparr>)"

definition referenced :: "nat \<Rightarrow> world \<Rightarrow> bool" where
  "referenced pid w \<longleftrightarrow> list_ex (\<lambda>v. list_ex (\<lambda>d. d_project_id d = pid \<and> w_deployment_id v = Some (d_id d))
     (deployments w)) (deliveries w)"

definition delete_project_record :: "nat \<Rightarrow> unit proc" where
  "delete_project_record pid = bind (query (referenced pid)) (\<lambda>violated.
     if violated then throw (OtherExn ''IntegrityError'' ''webhook_deliveries.deployment_id'')
     else seqs [store (\<lambda>t. delete_rows pid), commit])"

definition delete_project :: "api \<Rightarrow> http \<Rightarrow> nat \<Rightarrow> response proc" where
  "delete_project a r pid = with_role a r Admin (\<lambda>actor. with_project pid (\<lambda>p.
     bind (delete_project_record pid) (\<lambda>_.
     bind (audit a r actor ''project.deleted'' ''project'' pid
             [(''name'', JStr (p_name p)), (''branch'', JStr (p_branch p)), (''trigger'', JStr (p_trigger p))])
       (\<lambda>_. ret (200, [(''message'', JStr ''Project deleted'')])))))"

section \<open>Deployments\<close>

definition show_deployment :: "http \<Rightarrow> nat \<Rightarrow> nat \<Rightarrow> dict \<Rightarrow> response proc" where
  "show_deployment r did status extra = bind (the_dep did) (\<lambda>d. bind (the_build did) (\<lambda>b.
     bind (query (\<lambda>w. serialize_project_deployment (t_shown r) w True d b)) (\<lambda>shown_dep.
     ret (status, jmerge shown_dep extra))))"

definition show_triggered ::
    "http \<Rightarrow> nat \<Rightarrow> json \<Rightarrow> (string \<times> nat) option \<Rightarrow> string \<Rightarrow> string \<Rightarrow> response proc" where
  "show_triggered r did branch source creation_action configuration_source =
     bind (the_dep did) (\<lambda>d. bind (the_build did) (\<lambda>b.
     bind (query (\<lambda>w. serialize_triggered_deployment (t_shown r) w d b branch source (Some creation_action)
             (Some configuration_source))) (\<lambda>shown_dep. ret (201, shown_dep))))"

definition create_project_deployment :: "api \<Rightarrow> http \<Rightarrow> nat \<Rightarrow> response proc" where
  "create_project_deployment a r pid = with_role a r Admin (\<lambda>actor. with_project pid (\<lambda>p. with_body r (\<lambda>body.
     validated (validate_deployment_request_payload (api_venv a) body)
       (let payload = normalize_deployment_request_payload body
        in when_ready a
          (bind (create_manual_deployment a p payload
                  (resolve_effective_test_command p (jstr_opt (jget payload ''test_command'')) (jhas payload ''test_command'')))
             (\<lambda>(bid, did). bind (the_dep did) (\<lambda>d. bind (the_build did) (\<lambda>b.
              bind (audit a r actor ''deployment.manual_created'' ''deployment'' did
                      [(''project_id'', jnat pid), (''commit_sha'', JStr (b_commit_sha b)),
                       (''deployment_status'', JStr (dep_status_name (d_status d))),
                       (''build_status'', JStr (build_status_name (b_status b)))])
                (\<lambda>_. show_deployment r did 201 [])))))))))"

definition deploy_project :: "api \<Rightarrow> http \<Rightarrow> nat \<Rightarrow> response proc" where
  "deploy_project a r pid = with_role a r Deployer (\<lambda>actor. with_project pid (\<lambda>p. with_body r (\<lambda>payload.
     validated (verdict_of (validate_project_deploy_payload payload))
       (when_ready a
         (let branch = strip (or_str (jstr_opt (jget payload ''branch'')) (p_branch p));
              test_command = resolve_effective_test_command p (jstr_opt (jget payload ''test_command''))
                (jhas payload ''test_command'')
          in try_except ''ValueError''
               (create_user_facing_deployment a p branch test_command ''Deployment requested''
                  [(''creation_action'', JStr ''deploy''), (''configuration_source'', JStr ''current_project''),
                   (''commit_source'', JStr ''resolved_branch_head'')])
               unresolved_response
               (\<lambda>(bid, did). bind (the_build did) (\<lambda>b.
                  bind (audit a r actor ''deployment.deploy_triggered'' ''deployment'' did
                          [(''project_id'', jnat pid), (''branch'', JStr branch), (''commit_sha'', JStr (b_commit_sha b))])
                    (\<lambda>_. show_triggered r did (JStr branch) None ''deploy'' ''current_project''))))))))"

definition retry_response :: response where
  "retry_response = (409, [(''error'', JStr (''Historical deployment cannot be retried; ''
     @ ''use redeploy to apply current project configuration''))])"

definition retry_project_deployment :: "api \<Rightarrow> http \<Rightarrow> nat \<Rightarrow> nat \<Rightarrow> response proc" where
  "retry_project_deployment a r pid oid = with_role a r Deployer (\<lambda>actor. with_project pid (\<lambda>p.
     with_deployment pid oid (\<lambda>original ob. when_ready a
       (try_except ''ValueError'' (create_historical_retry a p original ob) retry_response
          (\<lambda>(bid, did). bind (the_dep did) (\<lambda>d. bind (the_build did) (\<lambda>b.
             bind (query (\<lambda>w. get_deployment_branch w d)) (\<lambda>branch.
             bind (audit a r actor ''deployment.retry_triggered'' ''deployment'' did
                     [(''project_id'', jnat pid), (''branch'', branch), (''commit_sha'', JStr (b_commit_sha b)),
                      (''retried_from_deployment_id'', jnat oid)])
               (\<lambda>_. show_triggered r did branch (Some (''retried_from_deployment_id'', oid)) ''retry''
                 ''historical_snapshot'')))))))))"

definition redeploy_project :: "api \<Rightarrow> http \<Rightarrow> nat \<Rightarrow> response proc" where
  "redeploy_project a r pid = with_role a r Deployer (\<lambda>actor. with_project pid (\<lambda>p.
     bind (query (\<lambda>w. get_latest_project_deployment_record w pid)) (\<lambda>latest. case latest of
       None \<Rightarrow> ret (404, [(''error'', JStr ''Project has no deployments'')])
     | Some original \<Rightarrow> when_ready a
         (bind (query (\<lambda>w. get_deployment_branch w original)) (\<lambda>branch.
          try_except ''ValueError''
            (create_user_facing_deployment a p (text_of branch) (p_default_test_command p) ''Project redeploy requested''
               [(''creation_action'', JStr ''redeploy''), (''source_deployment_id'', jnat (d_id original)),
                (''configuration_source'', JStr ''current_project''), (''commit_source'', JStr ''resolved_branch_head'')])
            unresolved_response
            (\<lambda>(bid, did). bind (the_build did) (\<lambda>b.
               bind (audit a r actor ''deployment.redeploy_triggered'' ''deployment'' did
                       [(''project_id'', jnat pid), (''branch'', branch), (''commit_sha'', JStr (b_commit_sha b)),
                        (''redeployed_from_deployment_id'', jnat (d_id original))])
                 (\<lambda>_. show_triggered r did branch (Some (''redeployed_from_deployment_id'', d_id original)) ''redeploy''
                   ''current_project''))))))))"

section \<open>Commands and updates\<close>

definition queue_deployment_command ::
    "api \<Rightarrow> http \<Rightarrow> role option \<Rightarrow> (world \<Rightarrow> world) \<Rightarrow> nat \<Rightarrow> nat \<Rightarrow> string \<Rightarrow> string option \<Rightarrow> response proc" where
  "queue_deployment_command a r actor others pid did command_type message =
     bind (request_deployment_command a others did command_type message) (\<lambda>(cid, created).
     bind commit (\<lambda>_.
     bind (audit a r actor (''deployment.'' @ command_type @ ''_requested'') ''deployment'' did
             [(''project_id'', jnat pid), (''command_id'', jnat cid), (''command_type'', JStr command_type),
              (''deduplicated'', JBool (\<not> created))]) (\<lambda>_.
     bind (the_cmd cid) (\<lambda>k.
     bind (query (\<lambda>w. command_to_dict (t_shown r) w k)) (\<lambda>shown_cmd.
     show_deployment r did 202 [(''command'', JDict shown_cmd)])))))"

text \<open>The body of a stop or cleanup: at most a message.\<close>

definition command_body :: "string \<Rightarrow> dict \<Rightarrow> string option" where
  "command_body command_type payload = first_error
     [unsupported_fields_error payload [''message''] command_type,
      guard (jget payload ''message'' = JNull \<or> is_str (jget payload ''message'')) (invalid ''message'' ''Expected a string'')]"

definition stop_project_deployment :: "api \<Rightarrow> http \<Rightarrow> (world \<Rightarrow> world) \<Rightarrow> nat \<Rightarrow> nat \<Rightarrow> response proc" where
  "stop_project_deployment a r others pid did = with_role a r Deployer (\<lambda>actor. with_deployment pid did (\<lambda>d b.
     with_body r (\<lambda>payload. validated (verdict_of (command_body ''stop'' payload))
       (validated (verdict_of (validate_deployment_patch_payload [(''status'', JStr ''stopped'')] d b))
         (queue_deployment_command a r actor others pid did ''stop'' (jstr_opt (jget payload ''message'')))))))"

definition cleanup_project_deployment :: "api \<Rightarrow> http \<Rightarrow> (world \<Rightarrow> world) \<Rightarrow> nat \<Rightarrow> nat \<Rightarrow> response proc" where
  "cleanup_project_deployment a r others pid did = with_role a r Deployer (\<lambda>actor. with_deployment pid did (\<lambda>d b.
     with_body r (\<lambda>payload. validated (verdict_of (command_body ''cleanup'' payload))
       (if d_deploy_target d \<noteq> Some ''kubernetes''
        then ret (409, [(''error'', JStr ''Cleanup is available only for Kubernetes deployments'')])
        else queue_deployment_command a r actor others pid did ''cleanup'' (jstr_opt (jget payload ''message''))))))"

definition update_project_deployment :: "api \<Rightarrow> http \<Rightarrow> (world \<Rightarrow> world) \<Rightarrow> nat \<Rightarrow> nat \<Rightarrow> response proc" where
  "update_project_deployment a r others pid did = with_role a r Admin (\<lambda>actor. with_deployment pid did (\<lambda>d b.
     with_body r (\<lambda>payload. validated (verdict_of (validate_deployment_patch_payload payload d b))
       (if jget payload ''status'' = JStr ''stopped''
        then queue_deployment_command a r actor others pid did ''stop'' (jstr_opt (jget payload ''message''))
        else
          bind (apply_deployment_update did payload) (\<lambda>_.
          bind commit (\<lambda>_.
          bind (the_dep did) (\<lambda>d'. bind (the_build did) (\<lambda>b'.
          bind (audit a r actor ''deployment.patched'' ''deployment'' did
                  [(''project_id'', jnat pid), (''updated_fields'', JList (map JStr (sort (map fst payload)))),
                   (''status'', JStr (dep_status_name (d_status d'))),
                   (''build_status'', JStr (build_status_name (b_status b'))),
                   (''service_url'', jopt (d_service_url d'))]) (\<lambda>_.
          show_deployment r did 200 []))))))))) "

section \<open>Reading\<close>

text \<open>The routes that answer with a JSON array.\<close>

definition list_projects :: "world \<Rightarrow> json" where
  "list_projects w = JList (map (\<lambda>p. JDict (project_to_dict p)) (rev (sort_key p_created_at (projects w))))"

definition list_project_builds :: "(json \<Rightarrow> string) \<Rightarrow> world \<Rightarrow> nat \<Rightarrow> json" where
  "list_project_builds sh w pid = JList (map (\<lambda>b. JDict (build_to_dict sh w b))
     (rev (sort_key b_created_at (filter (\<lambda>b. b_project_id b = pid) (builds w)))))"

definition list_project_deployment_events :: "(json \<Rightarrow> string) \<Rightarrow> world \<Rightarrow> nat \<Rightarrow> json" where
  "list_project_deployment_events sh w did = JList (map (\<lambda>e. JDict (event_to_dict sh w e))
     (sort_key e_created_at (filter (\<lambda>e. e_deployment_id e = did) (events w))))"

definition page_of :: "world \<Rightarrow> nat \<Rightarrow> nat \<Rightarrow> int option \<Rightarrow> string list \<Rightarrow> deployment list" where
  "page_of w pid limit before_id statuses = take limit (filter
     (\<lambda>d. (case before_id of None \<Rightarrow> True | Some i \<Rightarrow> int (d_id d) < i)
        \<and> (statuses = [] \<or> dep_status_name (d_status d) \<in> set statuses))
     (list_project_deployments w pid))"

definition list_project_deployments_route ::
    "http \<Rightarrow> nat \<Rightarrow> string option \<Rightarrow> string option \<Rightarrow> string option \<Rightarrow> response proc" where
  "list_project_deployments_route r pid limit_arg before_arg status_arg = with_project pid (\<lambda>p.
     case parse_limit_arg limit_arg ''limit'' 20 1 100 of
       Inl e \<Rightarrow> ret e
     | Inr limit \<Rightarrow> (case parse_optional_int_arg before_arg ''before_deployment_id'' 1 of
         Inl e \<Rightarrow> ret e
       | Inr before_id \<Rightarrow> (case parse_status_filter_arg status_arg ''deployment_status'' (map dep_status_name dep_statuses) of
           Inl e \<Rightarrow> ret e
         | Inr statuses \<Rightarrow> bind (query (\<lambda>w. serialize_project_deployments_page (t_shown r) w
               (page_of w pid (nat limit) before_id statuses) (nat limit))) (\<lambda>page. ret (200, page)))))"

definition get_latest_project_deployment :: "http \<Rightarrow> nat \<Rightarrow> response proc" where
  "get_latest_project_deployment r pid = with_project pid (\<lambda>p.
     bind (query (\<lambda>w. get_latest_project_deployment_record w pid)) (\<lambda>latest. case latest of
       None \<Rightarrow> ret (404, [(''error'', JStr ''Project has no deployments'')])
     | Some d \<Rightarrow> bind (the_build (d_id d)) (\<lambda>b.
         bind (query (\<lambda>w. serialize_latest_project_deployment (t_shown r) w d b (get_deployment_branch w d)))
           (\<lambda>shown_dep. ret (200, shown_dep)))))"

definition get_project_deployment_route :: "http \<Rightarrow> nat \<Rightarrow> nat \<Rightarrow> response proc" where
  "get_project_deployment_route r pid did = with_deployment pid did (\<lambda>d b. show_deployment r did 200 [])"

section \<open>Serving\<close>

text \<open>The end of a request: what it has not committed is discarded, and an exception answers 500.\<close>

definition served :: "response proc \<Rightarrow> session \<Rightarrow> response \<times> session" where
  "served m s = (case m s of (out, s') \<Rightarrow>
     ((case out of Inl e \<Rightarrow> (500, []) | Inr response \<Rightarrow> response), s'\<lparr>cur := com s'\<rparr>))"

end
