(* ===== verification/Request_Outcome.thy ===== *)
theory Request_Outcome
  imports Requests Invariants
begin

text \<open>
  What the requests of the control plane do to the database: every one of them keeps the
  invariants of the workers (the locale \<open>growing\<close> adds new builds and deployments to
  \<open>world_invariant\<close>), a command request is answered with the one active command of its
  type whatever other transactions commit in between, a deployment request adds exactly
  its rows, and an accepted patch is applied without an exception.
\<close>

section \<open>Requests keep the invariants\<close>

locale growing = world_invariant +
  assumes I_new_build: "I w \<Longrightarrow> I (w\<lparr>builds := builds w @ [new_build a p q (next_id b_id (builds w)) t]\<rparr>)"
    and I_new_dep: "I w \<Longrightarrow> I (w\<lparr>deployments := deployments w @ [new_deployment a p q bid (next_id d_id (deployments w)) t]\<rparr>)"
begin

lemma keeps_create_event: "keeps I (create_deployment_event did et st msg step level md)"
  unfolding create_deployment_event_def by (rule keeps_add_event)

lemma keeps_create_records: "keeps I (create_build_and_deployment_records a p q)"
proof -
  have "keeps I (add_build (new_build a p q))" "keeps I (add_dep (new_deployment a p q bid))" for bid
    by (simp_all add: keeps_def add_build_def add_dep_def Let_def I_new_build I_new_dep)
  then show ?thesis
    unfolding create_build_and_deployment_records_def by (intro step_rules keeps_create_event)
qed

lemma keeps_requested_deployment: "keeps I (create_requested_deployment a p q branch pre md es commits)"
  unfolding create_requested_deployment_def create_extra_event_def
  by (intro step_rules keeps_create_records keeps_seqs) (auto intro!: keeps_create_event)

lemma keeps_user_facing_deployment: "keeps I (create_user_facing_deployment a p branch tc pre md)"
  unfolding create_user_facing_deployment_def by (intro step_rules keeps_requested_deployment)

lemma keeps_historical_retry: "keeps I (create_historical_retry a p d b)"
  unfolding create_historical_retry_def Let_def
  by (auto split: sum.splits intro!: step_rules keeps_requested_deployment)

lemma keeps_manual_deployment: "keeps I (create_manual_deployment a p payload tc)"
  unfolding create_manual_deployment_def
  by (auto split: option.splits prod.splits intro!: step_rules keeps_create_records keeps_create_event)

lemma keeps_apply_update: "keeps I (apply_deployment_update did payload)"
  unfolding apply_deployment_update_def apply_status_def apply_build_status_def Let_def
  by (intro step_rules keeps_transition_to keeps_build_transition_to keeps_create_event)

lemmas keeps_requests = keeps_create_records keeps_requested_deployment keeps_user_facing_deployment
  keeps_historical_retry keeps_manual_deployment keeps_apply_update keeps_create_event

end

lemma extends_append:
  assumes "extends R g0 (\<lambda>i. row key i xs)"
  shows "extends R g0 (\<lambda>i. row key i (xs @ ys))"
  using assms unfolding extends_def row_append by fastforce

interpretation ghist: growing "history w0" for w0
proof
  fix w a p q t bid assume h: "history w0 w"
  have "get_dep (w\<lparr>builds := bs\<rparr>) = get_dep w" "get_cmd (w\<lparr>builds := bs\<rparr>) = get_cmd w"
    "get_build (w\<lparr>deployments := ds\<rparr>) = get_build w" "get_cmd (w\<lparr>deployments := ds\<rparr>) = get_cmd w" for bs ds
    by (simp_all add: fun_eq_iff get_dep_def get_cmd_def get_build_def)
  moreover have "extends build_history (get_build w0) (get_build (w\<lparr>builds := builds w @ [x]\<rparr>))" for x
    using h extends_append [of build_history "get_build w0" b_id "builds w" "[x]"]
    by (simp add: history_def get_build_def [abs_def])
  moreover have "extends dep_history (get_dep w0) (get_dep (w\<lparr>deployments := deployments w @ [x]\<rparr>))" for x
    using h extends_append [of dep_history "get_dep w0" d_id "deployments w" "[x]"]
    by (simp add: history_def get_dep_def [abs_def])
  ultimately show "history w0 (w\<lparr>builds := builds w @ [new_build a p q (next_id b_id (builds w)) t]\<rparr>)"
    "history w0 (w\<lparr>deployments := deployments w @ [new_deployment a p q bid (next_id d_id (deployments w)) t]\<rparr>)"
    using h by (simp_all add: history_def)
qed

interpretation gactv: growing active_commands_ok
  by unfold_locales (simp_all add: active_commands_ok_def)

section \<open>Commands\<close>

lemma first_requested_some: "first_requested p w = Some k \<Longrightarrow> k \<in> set (commands w) \<and> p k"
proof -
  assume "first_requested p w = Some k"
  then have "k \<in> set (sort_key c_requested_at (filter p (commands w)))"
    unfolding first_requested_def by (metis list.case_eq_if list.set_sel(1) option.distinct(1) option.inject)
  then show ?thesis by simp
qed

lemma first_requested_none: "first_requested p w = None \<longleftrightarrow> (\<forall>k \<in> set (commands w). \<not> p k)"
proof -
  have "first_requested p w = None \<longleftrightarrow> sort_key c_requested_at (filter p (commands w)) = []"
    by (cases "sort_key c_requested_at (filter p (commands w))")
      (simp_all add: first_requested_def del: sort_key_Nil_iff)
  then show ?thesis by (simp add: filter_empty_conv)
qed

lemma active_unique:
  assumes "active_commands_ok w" "k \<in> set (commands w)" "k' \<in> set (commands w)"
    and "cmd_active (c_status k)" "cmd_active (c_status k')" "command_of did ct k" "command_of did ct k'"
  shows "c_id k = c_id k'"
proof -
  have "c_deployment_id k = c_deployment_id k' \<and> c_command_type k = c_command_type k'"
    using assms(6,7) by (simp add: command_of_def)
  then show ?thesis using assms(1-5) unfolding active_commands_ok_def commands_ok_def by blast
qed

lemma active_new_command:
  assumes "active_commands_ok w" "\<And>k. k \<in> set (commands w) \<Longrightarrow> cmd_active (c_status k) \<Longrightarrow> \<not> command_of did ct k"
  shows "active_commands_ok (w\<lparr>commands := commands w @ [new_command a did ct msg (next_id c_id (commands w)) t]\<rparr>)"
proof -
  let ?n = "new_command a did ct msg (next_id c_id (commands w)) t"
  have n: "c_id ?n = next_id c_id (commands w)" "command_of did ct ?n" "c_active_key ?n = Some ''active''"
    "cmd_active (c_status ?n)" by (simp_all add: new_command_def command_of_def)
  have fresh: "c_id k \<noteq> c_id ?n" if "k \<in> set (commands w)" for k
    using next_id_fresh [OF that, of c_id] n(1) by simp
  have "distinct (map c_id (commands w @ [?n]))"
    using active_distinct [OF assms(1)] fresh [symmetric] by (auto simp del: n(1))
  moreover have "c_active_key k = (if cmd_active (c_status k) then Some ''active'' else None)"
    if "k \<in> set (commands w @ [?n])" for k
    using that active_key_of [OF assms(1), of k] n by auto
  moreover have "c_id k = c_id k'"
    if "k \<in> set (commands w @ [?n])" "k' \<in> set (commands w @ [?n])" "cmd_active (c_status k)"
      "cmd_active (c_status k')" "c_deployment_id k = c_deployment_id k'" "c_command_type k = c_command_type k'" for k k'
  proof -
    have same: "command_of did ct k = command_of did ct k'" using that by (simp add: command_of_def)
    show ?thesis
    proof (cases "k = ?n \<or> k' = ?n")
      case True
      then have "command_of did ct k" "command_of did ct k'" using n(2) same by auto
      then have "k \<notin> set (commands w)" "k' \<notin> set (commands w)" using assms(2) that(3,4) by blast+
      then show ?thesis using that(1,2) by simp
    next
      case False
      then have "k \<in> set (commands w)" "k' \<in> set (commands w)" using that(1,2) by auto
      moreover have "command_of (c_deployment_id k) (c_command_type k) k"
        "command_of (c_deployment_id k) (c_command_type k) k'" using that(5,6) by (simp_all add: command_of_def)
      ultimately show ?thesis using active_unique [OF assms(1)] that(3,4) by blast
    qed
  qed
  ultimately have "commands_ok (commands w @ [?n])" unfolding commands_ok_def by blast
  then show ?thesis by (simp add: active_commands_ok_def)
qed

text \<open>The row that a request answers with, and what the request changes.\<close>

definition active_for :: "world \<Rightarrow> nat \<Rightarrow> string \<Rightarrow> nat \<Rightarrow> bool" where
  "active_for w did ct cid \<longleftrightarrow> (\<exists>k. get_cmd w cid = Some k \<and> command_of did ct k \<and> cmd_active (c_status k))"

lemma active_for_member:
  assumes "active_commands_ok w" "k \<in> set (commands w)" "command_of did ct k" "cmd_active (c_status k)"
  shows "active_for w did ct (c_id k)"
  using row_of_member [OF active_distinct [OF assms(1)] assms(2)] assms(3,4)
  unfolding active_for_def get_cmd_def by blast

lemma active_for_unique:
  assumes "active_commands_ok w" "active_for w did ct i" "active_for w did ct j"
  shows "i = j"
proof -
  obtain k k' where "get_cmd w i = Some k" "command_of did ct k" "cmd_active (c_status k)"
      "get_cmd w j = Some k'" "command_of did ct k'" "cmd_active (c_status k')"
    using assms(2,3) unfolding active_for_def by blast
  then show ?thesis
    using active_unique [OF assms(1), of k k'] row_in [of c_id i "commands w" k] row_in [of c_id j "commands w" k']
      row_key [of c_id i "commands w" k] row_key [of c_id j "commands w" k'] unfolding get_cmd_def by metis
qed

lemma no_active_for:
  assumes "active_commands_ok w" "\<nexists>cid. active_for w did ct cid" "k \<in> set (commands w)" "cmd_active (c_status k)"
  shows "\<not> command_of did ct k"
  using active_for_member [OF assms(1,3) _ assms(4)] assms(2) by blast

definition requested_world :: "api \<Rightarrow> nat \<Rightarrow> string \<Rightarrow> string option \<Rightarrow> dep_status \<Rightarrow> int \<Rightarrow> world \<Rightarrow> world" where
  "requested_world a did ct message st t w =
     w\<lparr>commands := commands w @ [new_command a did ct message (next_id c_id (commands w)) t],
       events := events w @ [new_event did (''deployment.'' @ ct @ ''_requested'') (Some (''deploy.'' @ ct)) ''info''
         (dep_status_name st) (Some (or_str message (''Deployment '' @ ct @ '' requested'')))
         (JDict [(''command_type'', JStr ct), (''origin_request_id'', jopt (api_request_id a))])
         (next_id e_id (events w)) t]\<rparr>"

lemma request_reuses:
  assumes "get_dep (cur s) did = Some d" "active_commands_ok (cur s)" "active_for (cur s) did ct cid"
  shows "request_deployment_command a others did ct message s = (Inr (cid, False), s)"
proof -
  let ?p = "\<lambda>k. command_of did ct k \<and> cmd_active (c_status k)"
  obtain k where k: "first_requested ?p (cur s) = Some k"
    using assms(3) first_requested_none [of ?p "cur s"] unfolding active_for_def get_cmd_def
    by (metis not_None_eq row_in)
  then have "c_id k = cid"
    using first_requested_some [OF k] active_for_member active_for_unique assms(2,3) by blast
  then show ?thesis
    using assms(1) k by (simp add: request_deployment_command_def bind_def the_dep_def query_def ret_def)
qed

lemma request_creates:
  assumes "get_dep (cur s) did = Some d" "\<nexists>cid. active_for (cur s) did ct cid" "active_commands_ok (cur s)"
    and "active_commands_ok (others (cur s))" "\<nexists>cid. active_for (others (cur s)) did ct cid"
    and "get_dep (others (cur s)) did \<noteq> None"
  shows "request_deployment_command a others did ct message s =
    (Inr (next_id c_id (commands (others (cur s))), True),
     s\<lparr>com := others (com s), cur := requested_world a did ct message (d_status d) (clock s) (others (cur s))\<rparr>)"
proof -
  have 1: "first_requested (\<lambda>k. command_of did ct k \<and> cmd_active (c_status k)) (cur s) = None"
    using assms(2) active_for_member [OF assms(3)] unfolding first_requested_none by blast
  have 2: "\<not> list_ex (\<lambda>k. command_of did ct k \<and> c_active_key k = Some ''active'') (commands (others (cur s)))"
    using assms(5) active_for_member [OF assms(4)] active_key_of [OF assms(4)] unfolding list_ex_iff
    by (metis option.distinct(1))
  obtain d' where "get_dep (others (cur s)) did = Some d'" using assms(6) by blast
  then show ?thesis
    using assms(1) 1 2
    by (simp add: request_deployment_command_def bind_def the_dep_def query_def ret_def interfere_def
        add_cmd_def Let_def create_deployment_event_def add_event_def store_def requested_world_def)
qed

lemma request_joins:
  assumes "get_dep (cur s) did = Some d" "\<nexists>cid. active_for (cur s) did ct cid" "active_commands_ok (cur s)"
    and "active_commands_ok (others (cur s))" "active_for (others (cur s)) did ct cid" "com s = cur s"
    and "get_dep (others (cur s)) did \<noteq> None"
  shows "request_deployment_command a others did ct message s =
    (Inr (cid, False), s\<lparr>com := others (cur s), cur := others (cur s)\<rparr>)"
proof -
  have 1: "first_requested (\<lambda>k. command_of did ct k \<and> cmd_active (c_status k)) (cur s) = None"
    using assms(2) active_for_member [OF assms(3)] unfolding first_requested_none by blast
  let ?q = "\<lambda>k. command_of did ct k \<and> c_active_key k = Some ''active''"
  obtain k0 where k0: "k0 \<in> set (commands (others (cur s)))" "?q k0"
    using assms(5) active_key_of [OF assms(4)] unfolding active_for_def get_cmd_def by (metis row_in)
  then have 2: "list_ex ?q (commands (others (cur s)))" by (auto simp: list_ex_iff)
  obtain k where k: "first_requested ?q (others (cur s)) = Some k"
    using k0 first_requested_none [of ?q "others (cur s)"] by (metis not_None_eq)
  have "active_for (others (cur s)) did ct (c_id k)"
    using first_requested_some [OF k] active_for_member [OF assms(4)] active_key_of [OF assms(4)]
    by (metis option.distinct(1))
  then have "c_id k = cid" using active_for_unique [OF assms(4)] assms(5) by blast
  moreover obtain d' where "get_dep (others (cur s)) did = Some d'" using assms(7) by blast
  ultimately show ?thesis
    using assms(1,6) 1 2 k
    by (simp add: request_deployment_command_def bind_def the_dep_def query_def ret_def interfere_def
        rollback_def)
qed

lemma request_orphaned:
  assumes "get_dep (cur s) did = Some d" "\<nexists>cid. active_for (cur s) did ct cid" "active_commands_ok (cur s)"
    and "com s = cur s" "get_dep (others (cur s)) did = None"
  shows "request_deployment_command a others did ct message s =
    (Inl object_deleted, s\<lparr>com := others (cur s), cur := others (cur s)\<rparr>)"
proof -
  have 1: "first_requested (\<lambda>k. command_of did ct k \<and> cmd_active (c_status k)) (cur s) = None"
    using assms(2) active_for_member [OF assms(3)] unfolding first_requested_none by blast
  show ?thesis
    using assms(1,4,5) 1
    by (simp add: request_deployment_command_def bind_def the_dep_def query_def ret_def interfere_def
        rollback_def)
qed

lemma requested_active:
  assumes "active_commands_ok w" "\<nexists>cid. active_for w did ct cid"
  shows "active_commands_ok (requested_world a did ct message st t w)"
    and "active_for (requested_world a did ct message st t w) did ct (next_id c_id (commands w))"
proof -
  note active_new_command [OF assms(1) no_active_for [OF assms]]
  then
  show "active_commands_ok (requested_world a did ct message st t w)"
    by (simp add: active_commands_ok_def requested_world_def)
  show "active_for (requested_world a did ct message st t w) did ct (next_id c_id (commands w))"
    by (simp add: active_for_def requested_world_def get_cmd_def row_append row_next_id row_Cons
        new_command_def command_of_def)
qed

section \<open>Deployment requests\<close>

definition enqueued :: "api \<Rightarrow> project \<Rightarrow> request \<Rightarrow> int \<Rightarrow> world \<Rightarrow> world" where
  "enqueued a p q t w =
     (let bid = next_id b_id (builds w); did = next_id d_id (deployments w)
      in w\<lparr>builds := builds w @ [new_build a p q bid t],
           deployments := deployments w @ [new_deployment a p q bid did t],
           events := events w @ [new_event did ''deployment.created'' (Some ''deployment'') ''info''
             (dep_status_name (q_status q)) (q_message q)
             (JDict (jmerge (q_metadata q) [(''origin_request_id'', jopt (api_request_id a))]))
             (next_id e_id (events w)) t]\<rparr>)"

lemma create_records_run:
  "create_build_and_deployment_records a p q s =
    (Inr (next_id b_id (builds (cur s)), next_id d_id (deployments (cur s))),
     s\<lparr>cur := enqueued a p q (clock s) (cur s)\<rparr>)"
  by (simp add: create_build_and_deployment_records_def bind_def add_build_def add_dep_def Let_def
      create_deployment_event_def add_event_def store_def ret_def enqueued_def)

lemma requested_run:
  "create_requested_deployment a p q branch pre md [] True s =
    (let w = enqueued a p (requested branch (q_commit_sha q) pre md q) (clock s) (cur s)
     in (Inr (next_id b_id (builds (cur s)), next_id d_id (deployments (cur s))), s\<lparr>com := w, cur := w\<rparr>))"
  by (simp add: create_requested_deployment_def bind_def create_records_run whenp_def commit_def ret_def Let_def)

lemma enqueued_rows:
  "get_dep (enqueued a p q t w) i = (case get_dep w i of Some d \<Rightarrow> Some d
     | None \<Rightarrow> if i = next_id d_id (deployments w)
         then Some (new_deployment a p q (next_id b_id (builds w)) i t) else None)"
  "get_build (enqueued a p q t w) i = (case get_build w i of Some b \<Rightarrow> Some b
     | None \<Rightarrow> if i = next_id b_id (builds w) then Some (new_build a p q i t) else None)"
  by (simp_all add: enqueued_def Let_def get_dep_def get_build_def row_append row_Cons
      new_deployment_def new_build_def split: option.split)

lemma enqueued_new:
  "get_dep (enqueued a p q t w) (next_id d_id (deployments w))
    = Some (new_deployment a p q (next_id b_id (builds w)) (next_id d_id (deployments w)) t)"
  "get_build (enqueued a p q t w) (next_id b_id (builds w)) = Some (new_build a p q (next_id b_id (builds w)) t)"
proof -
  have "get_dep w (next_id d_id (deployments w)) = None" "get_build w (next_id b_id (builds w)) = None"
    by (simp_all add: get_dep_def get_build_def row_next_id)
  then show "get_dep (enqueued a p q t w) (next_id d_id (deployments w))
      = Some (new_deployment a p q (next_id b_id (builds w)) (next_id d_id (deployments w)) t)"
    "get_build (enqueued a p q t w) (next_id b_id (builds w)) = Some (new_build a p q (next_id b_id (builds w)) t)"
    by (simp_all add: enqueued_rows)
qed

lemma enqueued_frame [simp]:
  "commands (enqueued a p q t w) = commands w" "projects (enqueued a p q t w) = projects w"
  "deliveries (enqueued a p q t w) = deliveries w"
  by (simp_all add: enqueued_def Let_def)

section \<open>Updates\<close>

lemma transition_to_run:
  assumes "get_dep (cur s) did = Some d" "can_transition_to d st"
  shows "transition_to did st s = (Inr (), s\<lparr>cur := upd_dep did (touch_dep (clock s) (\<lambda>d. d\<lparr>d_status := st\<rparr>)) (cur s)\<rparr>)"
  using assms by (simp add: transition_to_def bind_def the_dep_def set_dep_def store_def)

lemma build_transition_to_run:
  assumes "get_dep (cur s) did = Some d" "get_build (cur s) (d_build_id d) = Some b" "build_can_transition_to b st"
  shows "build_transition_to did st s =
    (Inr (), s\<lparr>cur := upd_build (b_id b) (touch_build (clock s) (\<lambda>b. b\<lparr>b_status := st\<rparr>)) (cur s)\<rparr>)"
  using assms by (simp add: build_transition_to_def bind_def the_build_def the_dep_def set_build_def store_def)

lemma create_event_run:
  "create_deployment_event did et st msg step level md s =
    (Inr (), s\<lparr>cur := (cur s)\<lparr>events := events (cur s) @
       [new_event did et step level st msg md (next_id e_id (events (cur s))) (clock s)]\<rparr>\<rparr>)"
  by (simp add: create_deployment_event_def add_event_def store_def)

lemma apply_status_run:
  assumes "get_dep (cur s) did = Some d" "can_transition_to d st"
  shows "\<exists>s' d'. apply_status did message st s = (Inr (), s') \<and> get_dep (cur s') did = Some d'
    \<and> d_status d' = st \<and> d_build_id d' = d_build_id d \<and> (\<forall>i. get_build (cur s') i = get_build (cur s) i)"
proof -
  let ?f = "touch_dep (clock s) (\<lambda>d. d\<lparr>d_status := st\<rparr>)"
  have "get_dep (upd_dep did ?f (cur s)) did = Some (?f d)" using deps.get_upd_same assms(1) by simp
  moreover have "d_status (?f d) = st" "d_build_id (?f d) = d_build_id d"
    by (simp_all add: touch_dep_def Let_def) (metis deployment.select_convs(5) deployment.update_convs(5) deployment.surjective)
  ultimately show ?thesis
    by (simp add: apply_status_def bind_def transition_to_run [OF assms] create_event_run ret_def)
qed

lemma apply_build_status_run:
  assumes "get_dep (cur s) did = Some d" "get_build (cur s) (d_build_id d) = Some b" "build_can_transition_to b st"
  shows "\<exists>s' b'. apply_build_status did message st s = (Inr (), s') \<and> get_build (cur s') (d_build_id d) = Some b'
    \<and> b_status b' = st \<and> get_dep (cur s') did = Some d"
proof -
  let ?f = "touch_build (clock s) (\<lambda>b. b\<lparr>b_status := st\<rparr>)"
  have "b_id b = d_build_id d" using bldt.get_key [OF assms(2)] .
  then have "get_build (upd_build (b_id b) ?f (cur s)) (d_build_id d) = Some (?f b)"
    using bldt.get_upd_same assms(2) by simp
  moreover have "b_status (?f b) = st"
    by (simp add: touch_build_def Let_def) (metis build.select_convs(8) build.update_convs(8) build.surjective)
  ultimately show ?thesis
    using assms(1) by (simp add: apply_build_status_def bind_def build_transition_to_run [OF assms] create_event_run ret_def)
qed

lemma status_text: "parse_dep_status (text_of v) = Some st \<Longrightarrow> v = JStr (dep_status_name st)"
proof -
  have "parse_dep_status [] = None" by code_simp
  then show "parse_dep_status (text_of v) = Some st \<Longrightarrow> v = JStr (dep_status_name st)"
    using parse_dep_statusD [of "text_of v" st] by (cases v) auto
qed

lemma build_status_text: "parse_build_status (text_of v) = Some st \<Longrightarrow> v = JStr (build_status_name st)"
proof -
  have "parse_build_status [] = None" by code_simp
  then show "parse_build_status (text_of v) = Some st \<Longrightarrow> v = JStr (build_status_name st)"
    using parse_build_statusD [of "text_of v" st] by (cases v) auto
qed

lemma apply_update_run:
  assumes "get_dep (cur s) did = Some d" "get_build (cur s) (d_build_id d) = Some b"
    and "validate_deployment_patch_payload payload d b = None"
  shows "\<exists>s' d' b'. apply_deployment_update did payload s = (Inr (), s')
    \<and> get_dep (cur s') did = Some d' \<and> get_build (cur s') (d_build_id d) = Some b' \<and> d_build_id d' = d_build_id d
    \<and> (if jhas payload ''status'' then jget payload ''status'' = JStr (dep_status_name (d_status d')) else d' = d)
    \<and> (if jhas payload ''build_status'' then jget payload ''build_status'' = JStr (build_status_name (b_status b')) else b' = b)"
proof -
  let ?msg = "jstr_opt (jget payload ''message'')"
  let ?m1 = "if jhas payload ''status'' then (case parse_dep_status (text_of (jget payload ''status'')) of
      None \<Rightarrow> throw (OtherExn ''ValueError'' ''Invalid deployment transition'') | Some st \<Rightarrow> apply_status did ?msg st)
    else ret ()"
  let ?m2 = "if jhas payload ''build_status'' then (case parse_build_status (text_of (jget payload ''build_status'')) of
      None \<Rightarrow> throw (OtherExn ''ValueError'' ''Invalid build transition'') | Some st \<Rightarrow> apply_build_status did ?msg st)
    else ret ()"
  have split: "apply_deployment_update did payload = seqs [?m1, ?m2]"
    by (simp only: apply_deployment_update_def Let_def)
  obtain s1 d1 where 1: "?m1 s = (Inr (), s1)" "get_dep (cur s1) did = Some d1" "d_build_id d1 = d_build_id d"
      "\<forall>i. get_build (cur s1) i = get_build (cur s) i"
      "if jhas payload ''status'' then jget payload ''status'' = JStr (dep_status_name (d_status d1)) else d1 = d"
  proof (cases "jhas payload ''status''")
    case True
    obtain st where st: "parse_dep_status (text_of (jget payload ''status'')) = Some st" "can_transition_to d st"
      using accepted_patch(1) [OF assms(3) True] by blast
    from apply_status_run [OF assms(1) st(2)] obtain s1 d1 where
      "apply_status did ?msg st s = (Inr (), s1)" "get_dep (cur s1) did = Some d1" "d_status d1 = st"
      "d_build_id d1 = d_build_id d" "\<forall>i. get_build (cur s1) i = get_build (cur s) i" by blast
    then show thesis using that [of s1 d1] st(1) status_text [OF st(1)] True by simp
  next
    case False
    then show thesis using that [of s d] assms(1) by (simp add: ret_def)
  qed
  have b: "get_build (cur s1) (d_build_id d1) = Some b" using 1(3,4) assms(2) by simp
  show ?thesis
  proof (cases "jhas payload ''build_status''")
    case True
    obtain st where st: "parse_build_status (text_of (jget payload ''build_status'')) = Some st" "build_can_transition_to b st"
      using accepted_patch(2) [OF assms(3) True] by blast
    from apply_build_status_run [OF 1(2) b st(2)] obtain s2 b2 where
      "apply_build_status did ?msg st s1 = (Inr (), s2)" "get_build (cur s2) (d_build_id d1) = Some b2"
      "b_status b2 = st" "get_dep (cur s2) did = Some d1" by blast
    then show ?thesis
      using 1 st(1) build_status_text [OF st(1)] True unfolding split
      by (intro exI [of _ s2] exI [of _ d1] exI [of _ b2]) (simp add: bind_def ret_def)
  next
    case False
    then show ?thesis
      using 1 b unfolding split
      by (intro exI [of _ s1] exI [of _ d1] exI [of _ b]) (simp add: bind_def ret_def)
  qed
qed

end
