(* ===== verification/Webhook_Outcome.thy ===== *)
theory Webhook_Outcome
  imports Webhooks Request_Outcome
begin

text \<open>
  What a webhook request does to the database: a delivery whose id is known, before the
  lookup or by a concurrent request, changes nothing; an unsigned one is refused; an
  accepted push commits one pending deployment for every matching project together with
  the delivery.
\<close>

section \<open>Idempotency\<close>

lemma reserve_again:
  assumes "n_delivery n = Some i" "i \<noteq> []" "delivered i (cur s)"
  shows "reserve_delivery_id others n s = (Inr (None, True), s)"
  using assms by (simp add: reserve_delivery_id_def or_str_def bind_def query_def ret_def)

lemma reserve_loses:
  assumes "n_delivery n = Some i" "i \<noteq> []" "\<not> delivered i (cur s)" "delivered i (others (cur s))" "com s = cur s"
  shows "reserve_delivery_id others n s = (Inr (None, True), s\<lparr>com := others (cur s), cur := others (cur s)\<rparr>)"
  using assms by (simp add: reserve_delivery_id_def or_str_def bind_def query_def ret_def interfere_def rollback_def)

definition taken :: "(world \<Rightarrow> world) \<Rightarrow> string \<Rightarrow> session \<Rightarrow> bool" where
  "taken others i s \<longleftrightarrow> i \<noteq> [] \<and> (delivered i (cur s) \<or> delivered i (others (cur s))) \<and> com s = cur s"

text \<open>The states a request may end in when its delivery id is taken.\<close>

definition untouched :: "(world \<Rightarrow> world) \<Rightarrow> session \<Rightarrow> session \<Rightarrow> bool" where
  "untouched others s s' \<longleftrightarrow> s' = s \<or> s' = s\<lparr>com := others (cur s), cur := others (cur s)\<rparr>"

lemma reserve_taken:
  assumes "n_delivery n = Some i" "taken others i s"
  shows "\<exists>s'. reserve_delivery_id others n s = (Inr (None, True), s') \<and> untouched others s s'"
  using reserve_again [OF assms(1), of s others] reserve_loses [OF assms(1), of s others] assms(2)
  unfolding untouched_def taken_def by metis

lemma ignored_taken:
  assumes "n_delivery n = Some i" "taken others i s"
  shows "untouched others s (snd (persist_ignored_delivery others reason n s))"
  using reserve_taken [OF assms] by (auto simp: persist_ignored_delivery_def bind_def ret_def)

lemma push_taken:
  assumes "n_delivery n = Some i" "taken others i s"
  shows "untouched others s (snd (handle_push a others h payload n commit_json s))"
proof -
  define n' where "n' = n\<lparr>n_commit_sha := Some (lower (text_of commit_json))\<rparr>"
  have n': "n_delivery n' = Some i" using assms(1) by (simp add: n'_def)
  note taken = ignored_taken [OF assms] ignored_taken [OF n' assms(2)]
  obtain s' where r: "reserve_delivery_id others n' s = (Inr (None, True), s')" "untouched others s s'"
    using reserve_taken [OF n' assms(2)] by blast
  have stay: "untouched others s s" by (simp add: untouched_def)
  show ?thesis
    unfolding handle_push_def Let_def n'_def [symmetric]
    using taken r stay
    by (auto simp: bind_def query_def ret_def throw_def split: option.split prod.split)
qed

lemma webhook_taken:
  assumes "h_delivery h = Some i" "taken others i s"
  shows "untouched others s (snd (github_webhook a others h s))"
proof -
  have stay: "untouched others s s" by (simp add: untouched_def)
  have push: "untouched others s (snd (handle_push a others h payload
        \<lparr>n_delivery = h_delivery h, n_event = ev, n_repository_url = u, n_branch = b, n_commit_sha = c\<rparr> j s))"
    and ign: "untouched others s (snd (persist_ignored_delivery others reason
        \<lparr>n_delivery = h_delivery h, n_event = ev, n_repository_url = u, n_branch = b, n_commit_sha = c\<rparr> s))"
    for payload ev u b c j reason
    using push_taken [OF _ assms(2)] ignored_taken [OF _ assms(2)] assms(1) by simp_all
  show ?thesis
    unfolding github_webhook_def Let_def
    using push ign stay
    by (auto simp: bind_def lift_def ret_def throw_def split: sum.split json.split)
qed

lemma unsigned_rejected:
  assumes "verify_github_signature h = Inr False"
  shows "github_webhook a others h s = (Inr (401, error_payload a ''Invalid GitHub webhook signature''), s)"
  using assms by (simp add: github_webhook_def bind_def lift_def ret_def)

lemma signed_digest:
  assumes "verify_github_signature h = Inr True"
  shows "\<exists>secret sig. github_webhook_secret h = Some secret \<and> secret \<noteq> []
    \<and> h_signature h = Some sig \<and> prefix ''sha256='' sig \<and> after (CHR ''='') sig = h_digest h secret (h_body h)"
  using assms
  by (auto simp: verify_github_signature_def compare_digest_def github_webhook_secret_def
      split: option.splits if_splits json.splits)

section \<open>An accepted push\<close>

definition queued_for :: "push \<Rightarrow> project \<Rightarrow> world \<Rightarrow> nat \<Rightarrow> bool" where
  "queued_for n p w did \<longleftrightarrow> (\<exists>d b. get_dep w did = Some d \<and> get_build w (d_build_id d) = Some b
     \<and> d_project_id d = p_id p \<and> d_status d = Pending \<and> d_claimed_by d = None
     \<and> snapshot_spec d = Some (jset ''branch'' (JStr (or_str (n_branch n) [])) (project_spec p))
     \<and> b_status b = B_pending \<and> b_commit_sha b = or_str (n_commit_sha n) []
     \<and> b_test_command b = p_default_test_command p)"

definition adds_rows :: "world \<Rightarrow> world \<Rightarrow> bool" where
  "adds_rows w w' \<longleftrightarrow> (\<forall>i d. get_dep w i = Some d \<longrightarrow> get_dep w' i = Some d)
     \<and> (\<forall>i b. get_build w i = Some b \<longrightarrow> get_build w' i = Some b) \<and> deliveries w' = deliveries w
     \<and> projects w' = projects w"

lemma adds_rows_trans: "adds_rows u v \<Longrightarrow> adds_rows v w \<Longrightarrow> adds_rows u w"
  by (simp add: adds_rows_def)

lemma adds_rows_queued: "adds_rows w w' \<Longrightarrow> queued_for n p w did \<Longrightarrow> queued_for n p w' did"
  unfolding adds_rows_def queued_for_def by blast

lemma enqueued_adds: "adds_rows w (enqueued a p q t w)"
  by (simp add: adds_rows_def enqueued_rows)

lemma deploy_push_queues:
  assumes "get_project (cur s) (p_id p) \<noteq> None"
  shows "\<exists>bid did s'. deploy_push a n p s = (Inr (bid, did), s') \<and> com s' = com s \<and> clock s' = clock s
    \<and> adds_rows (cur s) (cur s') \<and> get_dep (cur s) did = None \<and> queued_for n p (cur s') did"
proof -
  define q where "q = requested (or_str (n_branch n) []) (or_str (n_commit_sha n) [])
    ''Deployment requested from GitHub webhook'' (push_metadata n)
    ((request_for (or_str (n_commit_sha n) []))\<lparr>q_test_command := p_default_test_command p\<rparr>)"
  let ?w = "enqueued a p q (clock s) (cur s)"
  have q: "q_status q = Pending" "q_build_status q = B_pending" "q_commit_sha q = or_str (n_commit_sha n) []"
    "q_test_command q = p_default_test_command p" "q_branch q = Some (or_str (n_branch n) [])" "q_snapshot q = JNull"
    by (simp_all add: q_def requested_def request_for_def)
  have "queued_for n p ?w (next_id d_id (deployments (cur s)))"
    unfolding queued_for_def
    by (simp add: enqueued_new new_deployment_def new_build_def q snapshot_spec_create)
  moreover have "get_dep (cur s) (next_id d_id (deployments (cur s))) = None"
    by (simp add: get_dep_def row_next_id)
  moreover obtain es where "deploy_push a n p s = (Inr (next_id b_id (builds (cur s)), next_id d_id (deployments (cur s))),
      s\<lparr>cur := ?w\<lparr>events := es\<rparr>\<rparr>)"
    using assms by (auto simp: deploy_push_def create_requested_deployment_def bind_def query_def create_records_run
      whenp_def ret_def create_extra_event_def create_event_run q_def request_for_def)
  moreover have "queued_for n p (w\<lparr>events := es\<rparr>) did = queued_for n p w did" for w es did
    by (simp add: queued_for_def)
  moreover have "adds_rows (cur s) (?w\<lparr>events := es\<rparr>)" for es
    using enqueued_adds [of "cur s" a p q "clock s"] by (simp add: adds_rows_def)
  ultimately show ?thesis by auto
qed

lemma deploy_all_queues:
  "\<forall>p \<in> set ps. get_project (cur s) (p_id p) \<noteq> None \<Longrightarrow> \<exists>dids s'. deploy_all a n ps s = (Inr dids, s') \<and> com s' = com s \<and> clock s' = clock s
    \<and> adds_rows (cur s) (cur s') \<and> (\<forall>did \<in> set dids. get_dep (cur s) did = None) \<and> distinct dids
    \<and> list_all2 (\<lambda>p did. queued_for n p (cur s') did) ps dids"
proof (induction ps arbitrary: s)
  case Nil
  then show ?case by (simp add: ret_def adds_rows_def)
next
  case (Cons p ps)
  obtain bid did s1 where 1: "deploy_push a n p s = (Inr (bid, did), s1)" "com s1 = com s" "clock s1 = clock s"
      "adds_rows (cur s) (cur s1)" "get_dep (cur s) did = None" "queued_for n p (cur s1) did"
    using deploy_push_queues [of s p a n] Cons.prems by auto
  have "\<forall>q \<in> set ps. get_project (cur s1) (p_id q) \<noteq> None"
    using Cons.prems 1(4) by (simp add: adds_rows_def get_project_def)
  then obtain dids s2 where 2: "deploy_all a n ps s1 = (Inr dids, s2)" "com s2 = com s1" "clock s2 = clock s1"
      "adds_rows (cur s1) (cur s2)" "\<forall>did \<in> set dids. get_dep (cur s1) did = None" "distinct dids"
      "list_all2 (\<lambda>p did. queued_for n p (cur s2) did) ps dids"
    using Cons.IH [of s1] by blast
  have "deploy_all a n (p # ps) s = (Inr (did # dids), s2)" using 1(1) 2(1) by (simp add: bind_def ret_def)
  moreover have "did \<notin> set dids" using 1(6) 2(5) unfolding queued_for_def by fastforce
  moreover have "get_dep (cur s) did' = None" if "did' \<in> set dids" for did'
    using that 1(4) 2(5) unfolding adds_rows_def by (metis not_None_eq)
  moreover have "queued_for n p (cur s2) did" by (rule adds_rows_queued [OF 2(4) 1(6)])
  ultimately show ?case
    using 1 2 adds_rows_trans [OF 1(4) 2(4)] by (intro exI [of _ "did # dids"] exI [of _ s2]) auto
qed

lemma reserve_wins:
  assumes "n_delivery n = Some i" "i \<noteq> []" "\<not> delivered i (cur s)" "\<not> delivered i (others (cur s))"
  shows "\<exists>k s1. reserve_delivery_id others n s = (Inr (Some k, False), s1) \<and> delivered i (cur s1)
    \<and> (\<forall>j. get_dep (cur s1) j = get_dep (others (cur s)) j) \<and> projects (cur s1) = projects (others (cur s))"
proof -
  let ?w = "others (cur s)"
  let ?w1 = "?w\<lparr>deliveries := deliveries ?w @ [new_delivery i n (next_id w_id (deliveries ?w)) (clock s)]\<rparr>"
  have "reserve_delivery_id others n s = (Inr (Some (next_id w_id (deliveries ?w)), False),
      s\<lparr>com := others (com s), cur := ?w1\<rparr>)"
    using assms by (simp add: reserve_delivery_id_def or_str_def bind_def query_def ret_def interfere_def
        add_delivery_def Let_def)
  moreover have "delivered i ?w1" by (simp add: delivered_def new_delivery_def)
  moreover have "get_dep ?w1 j = get_dep ?w j" for j by (simp add: get_dep_def)
  ultimately show ?thesis by auto
qed

lemma set_delivery_run:
  assumes "\<And>v. w_delivery_id (f v) = w_delivery_id v"
  shows "\<exists>s'. set_delivery k f s = (Inr (), s') \<and> (\<forall>i. delivered i (cur s') = delivered i (cur s))
    \<and> (\<forall>n p did. queued_for n p (cur s') did = queued_for n p (cur s) did)"
proof -
  let ?w = "(cur s)\<lparr>deliveries := alter w_id k f (deliveries (cur s))\<rparr>"
  have "delivered i ?w = delivered i (cur s)" for i
    using assms by (auto simp: delivered_def list_ex_iff alter_def)
  moreover have "queued_for n p ?w did = queued_for n p (cur s) did" for n p did
    by (simp add: queued_for_def get_dep_def get_build_def)
  ultimately show ?thesis by (simp add: set_delivery_def store_def)
qed

lemma accept_push_run:
  assumes "\<forall>p \<in> set ps. get_project (cur s) (p_id p) \<noteq> None"
  shows "\<exists>dids s' body. accept_push a h n (Some k) ps s = (Inr (202, body), s') \<and> com s' = cur s'
    \<and> jget body ''status'' = JStr ''accepted'' \<and> distinct dids
    \<and> (\<forall>did \<in> set dids. get_dep (cur s) did = None) \<and> list_all2 (\<lambda>p did. queued_for n p (cur s') did) ps dids
    \<and> (\<forall>i. delivered i (cur s) \<longrightarrow> delivered i (cur s'))"
proof -
  obtain dids s1 where 1: "deploy_all a n ps s = (Inr dids, s1)" "adds_rows (cur s) (cur s1)"
      "\<forall>did \<in> set dids. get_dep (cur s) did = None" "distinct dids"
      "list_all2 (\<lambda>p did. queued_for n p (cur s1) did) ps dids"
    using deploy_all_queues [OF assms, of a n] by blast
  let ?f = "\<lambda>v. v\<lparr>w_status := ''accepted'', w_reason := None,
      w_deployment_id := (case dids of [did] \<Rightarrow> Some did | _ \<Rightarrow> w_deployment_id v)\<rparr>"
  obtain s2 where 2: "set_delivery k ?f s1 = (Inr (), s2)" "\<forall>i. delivered i (cur s2) = delivered i (cur s1)"
      "\<forall>n p did. queued_for n p (cur s2) did = queued_for n p (cur s1) did"
    using set_delivery_run [of ?f k s1] by auto
  let ?body = "jset ''deployments'' (JList (map (shown_deployment h (cur s1) n) dids))
       (jmerge [(''status'', JStr ''accepted''), (''message'', JStr ''GitHub push webhook accepted'')]
          (base_github_response n))"
  have "accept_push a h n (Some k) ps s = (Inr (202, ?body), s2\<lparr>com := cur s2\<rparr>)"
    using 1(1) 2(1) by (simp add: accept_push_def bind_def query_def commit_def ret_def)
  moreover have "jget ?body ''status'' = JStr ''accepted''" by (simp add: base_github_response_def jmerge_def)
  moreover have "delivered i (cur s2)" if "delivered i (cur s)" for i
    using that 1(2) 2(2) by (simp add: delivered_def adds_rows_def)
  moreover have "list_all2 (\<lambda>p did. queued_for n p (cur s2) did) ps dids" using 1(5) 2(3) by simp
  ultimately show ?thesis using 1(3,4) by (intro exI [of _ dids]) auto
qed

lemma handle_push_run:
  assumes "n_delivery n = Some i" "i \<noteq> []" "\<not> delivered i (cur s)" "\<not> delivered i (others (cur s))"
    and "n_repository_url n = Some url" "url \<noteq> []" "n_branch n = Some br" "br \<noteq> []"
    and "validate_git_commit_sha (JStr sha) False = None" "\<not> github_push_deletes_branch payload (JStr sha)"
    and "github_push_project_matches (v_bracketed_ok (api_venv a)) (cur s) url br = Some (rs, p # ps)"
    and "kubernetes_deployment_prereq_error (api_venv a) = Inr None"
    and "\<forall>q \<in> set (p # ps). get_project (others (cur s)) (p_id q) \<noteq> None"
  shows "\<exists>dids s' body. handle_push a others h payload n (JStr sha) s = (Inr (202, body), s') \<and> com s' = cur s'
    \<and> jget body ''status'' = JStr ''accepted'' \<and> distinct dids
    \<and> (\<forall>did \<in> set dids. get_dep (others (cur s)) did = None)
    \<and> list_all2 (\<lambda>q did. queued_for (n\<lparr>n_commit_sha := Some (lower sha)\<rparr>) q (cur s') did) (p # ps) dids
    \<and> delivered i (cur s')"
proof -
  let ?n = "n\<lparr>n_commit_sha := Some (lower sha)\<rparr>"
  have n: "n_delivery ?n = Some i" "n_repository_url ?n = Some url" "n_branch ?n = Some br" using assms(1,5,7) by simp_all
  obtain k s1 where 1: "reserve_delivery_id others ?n s = (Inr (Some k, False), s1)" "delivered i (cur s1)"
      "\<forall>j. get_dep (cur s1) j = get_dep (others (cur s)) j" "projects (cur s1) = projects (others (cur s))"
    using reserve_wins [where others = others, OF n(1) assms(2-4)] by blast
  have there: "\<forall>q \<in> set (p # ps). get_project (cur s1) (p_id q) \<noteq> None"
    using assms(13) 1(4) by (simp add: get_project_def)
  have "sha \<noteq> []" using assms(9) by (auto simp: validate_git_commit_sha_def git_commit_def)
  moreover have "rs \<noteq> []"
    using assms(11) by (auto simp: github_push_project_matches_def split: option.splits if_splits)
  ultimately have "handle_push a others h payload n (JStr sha) s = accept_push a h ?n (Some k) (p # ps) s1"
    using assms(5-12) 1(1) n by (simp add: handle_push_def or_str_def bind_def query_def Let_def)
  then show ?thesis using accept_push_run [OF there, of a h ?n k] 1(2,3) by auto
qed

end
