(* ===== verification/Request_Properties.thy ===== *)
theory Request_Properties
  imports Routes Webhook_Outcome Examples
begin

text \<open>
  The properties of the control plane's requests, each with an instance on a small
  configuration: commands, deployments, retries, operator updates and webhooks.
\<close>

definition demo_api :: api where
  "demo_api = \<lparr>api_venv = demo_venv ''fake'', api_request_id = Some ''req-1'', api_environ = [],
     api_path_exists = (\<lambda>_. False), api_git = (\<lambda>_ _. Git_done 0 ''3f2a9c1 refs/heads/main'' [])\<rparr>"

definition pushed_project :: project where
  "pushed_project = demo_project\<lparr>p_repo_url := ''https://github.com/acme/shop.git'', p_trigger := ''github_push''\<rparr>"

definition push_world :: world where
  "push_world = (demo_world [] [] [])\<lparr>projects := [pushed_project]\<rparr>"

definition push_sha :: string where
  "push_sha = ''0123456789ABCDEF0123456789abcdef01234567''"

definition demo_push :: push where
  "demo_push = \<lparr>n_delivery = Some ''d-1'', n_event = ''push'', n_repository_url = Some ''https://github.com/Acme/Shop'', n_branch = Some ''main'',
     n_commit_sha = Some push_sha\<rparr>"

definition demo_hook :: hook where
  "demo_hook = \<lparr>h_body = ''{}'', h_json = Some (JDict []), h_signature = None, h_event = Some ''push'',
     h_delivery = Some ''d-1'', h_secret = JStr ''key'', h_digest = (\<lambda>secret body. ''feed''), h_shown = (\<lambda>_. [])\<rparr>"

section \<open>Commands\<close>

text \<open>
  C20: A stop or cleanup request is answered with the one active command of its type, and
  the answer of a second request is the same one. This holds when another transaction
  commits the same request between the lookup and the flush: the unique constraint refuses
  the second row, nothing of the losing request is kept, and at no point does a deployment
  have two active commands of a type. The request fails in one case only: the other
  transaction deleted the deployment; then nothing of it is kept either.
\<close>

theorem command_request_idempotent:
  assumes "get_dep (cur s) did = Some d" "com s = cur s"
    and "active_commands_ok (cur s)" "active_commands_ok (others (cur s))"
  shows "if get_dep (others (cur s)) did = None \<and> (\<nexists>cid. active_for (cur s) did command_type cid)
    then request_deployment_command a others did command_type message s
      = (Inl object_deleted, s\<lparr>com := others (cur s), cur := others (cur s)\<rparr>)
    else \<exists>cid created s'. request_deployment_command a others did command_type message s = (Inr (cid, created), s')
    \<and> active_commands_ok (cur s') \<and> active_for (cur s') did command_type cid
    \<and> (if created
       then cur s' = requested_world a did command_type message (d_status d) (clock s) (others (cur s))
         \<and> com s' = others (cur s)
       else com s' = cur s' \<and> cur s' \<in> {cur s, others (cur s)})
    \<and> (\<forall>others' message' d'. get_dep (cur s') did = Some d' \<longrightarrow>
         request_deployment_command a others' did command_type message' s' = (Inr (cid, False), s'))"
proof -
  note again = request_reuses [where a = a and did = did and ct = command_type]
  consider (old) cid where "active_for (cur s) did command_type cid"
    | (gone) "\<nexists>cid. active_for (cur s) did command_type cid" "get_dep (others (cur s)) did = None"
    | (raced) cid where "\<nexists>cid. active_for (cur s) did command_type cid" "active_for (others (cur s)) did command_type cid"
        "get_dep (others (cur s)) did \<noteq> None"
    | (new) "\<nexists>cid. active_for (cur s) did command_type cid" "\<nexists>cid. active_for (others (cur s)) did command_type cid"
        "get_dep (others (cur s)) did \<noteq> None"
    by blast
  then show ?thesis
  proof cases
    case old
    then show ?thesis
      using again [OF assms(1,3) old, of others message] again [OF _ assms(3) old] assms by fastforce
  next
    case gone
    then show ?thesis
      using request_orphaned [where others = others and a = a and message = message, OF assms(1) gone(1) assms(3,2) gone(2)]
      by simp
  next
    case raced
    let ?s = "s\<lparr>com := others (cur s), cur := others (cur s)\<rparr>"
    have "\<exists>cid created s'. request_deployment_command a others did command_type message s = (Inr (cid, created), s')
      \<and> active_commands_ok (cur s') \<and> active_for (cur s') did command_type cid
      \<and> (if created then cur s' = requested_world a did command_type message (d_status d) (clock s) (others (cur s))
           \<and> com s' = others (cur s)
         else com s' = cur s' \<and> cur s' \<in> {cur s, others (cur s)})
      \<and> (\<forall>others' message' d'. get_dep (cur s') did = Some d' \<longrightarrow>
           request_deployment_command a others' did command_type message' s' = (Inr (cid, False), s'))"
      using request_joins [where others = others and a = a and message = message, OF assms(1) raced(1) assms(3,4) raced(2) assms(2) raced(3)]
        again [of ?s, simplified, OF _ assms(4) raced(2)] assms(4) raced(2)
      by (intro exI [of _ cid] exI [of _ False] exI [of _ ?s]) auto
    then show ?thesis using raced(3) by (simp only: if_False simp_thms)
  next
    case new
    let ?w = "requested_world a did command_type message (d_status d) (clock s) (others (cur s))"
    let ?s = "s\<lparr>com := others (com s), cur := ?w\<rparr>" let ?cid = "next_id c_id (commands (others (cur s)))"
    note w = requested_active [OF assms(4) new(2), of a message "d_status d" "clock s"]
    have "\<exists>cid created s'. request_deployment_command a others did command_type message s = (Inr (cid, created), s')
      \<and> active_commands_ok (cur s') \<and> active_for (cur s') did command_type cid
      \<and> (if created then cur s' = requested_world a did command_type message (d_status d) (clock s) (others (cur s))
           \<and> com s' = others (cur s)
         else com s' = cur s' \<and> cur s' \<in> {cur s, others (cur s)})
      \<and> (\<forall>others' message' d'. get_dep (cur s') did = Some d' \<longrightarrow>
           request_deployment_command a others' did command_type message' s' = (Inr (cid, False), s'))"
      using request_creates [where others = others and a = a and message = message, OF assms(1) new(1) assms(3,4) new(2,3)]
        again [of ?s, simplified, OF _ w] w assms(2)
      by (intro exI [of _ ?cid] exI [of _ True] exI [of _ ?s]) auto
    then show ?thesis using new(3) by (simp only: if_False simp_thms)
  qed
qed

theorem command_request_idempotent_witness:
  "let w = demo_world [demo_dep 3 Running None] [demo_build 3 B_succeeded] [];
       others = (\<lambda>w. w\<lparr>commands := [demo_cmd 3 ''stop'' C_pending None]\<rparr>)
   in \<exists>cid created s'. request_deployment_command demo_api others 3 ''stop'' None (at_rest w) = (Inr (cid, created), s')
    \<and> active_commands_ok (cur s') \<and> active_for (cur s') 3 ''stop'' cid"
proof -
  let ?w = "demo_world [demo_dep 3 Running None] [demo_build 3 B_succeeded] []"
  let ?others = "\<lambda>w. w\<lparr>commands := [demo_cmd 3 ''stop'' C_pending None]\<rparr>"
  have "get_dep (cur (at_rest ?w)) 3 = Some (demo_dep 3 Running None)" by (simp add: demo_defs demo_reads)
  moreover have "active_commands_ok (cur (at_rest ?w))" "active_commands_ok (?others (cur (at_rest ?w)))"
    by (simp_all add: active_commands_ok_def commands_ok_def demo_defs)
  moreover have "com (at_rest ?w) = cur (at_rest ?w)" by simp
  moreover have "get_dep (?others (cur (at_rest ?w))) 3 \<noteq> None" by (simp add: demo_defs demo_reads get_dep_def row_Cons)
  ultimately show ?thesis
    unfolding Let_def
    using command_request_idempotent [of "at_rest ?w" 3 "demo_dep 3 Running None" ?others "''stop''" demo_api None] by auto
qed

section \<open>Deployments\<close>

text \<open>
  C21: A deploy request that resolves its branch commits one pending, unclaimed deployment
  with the specification of the project on that branch, and a pending build of exactly
  that commit; no other row changes. When the branch does not resolve, nothing changes.
\<close>

theorem deployment_request_queues:
  "case resolve_project_commit_sha a p branch of
     Inl e \<Rightarrow> create_user_facing_deployment a p branch tc pre md s = (Inl e, s)
   | Inr sha \<Rightarrow> \<exists>bid did s' d b.
       create_user_facing_deployment a p branch tc pre md s = (Inr (bid, did), s') \<and> com s' = cur s'
       \<and> get_dep (cur s) did = None \<and> get_build (cur s) bid = None
       \<and> get_dep (cur s') did = Some d \<and> get_build (cur s') bid = Some b
       \<and> d_status d = Pending \<and> d_claimed_by d = None \<and> d_build_id d = bid \<and> d_project_id d = p_id p
       \<and> snapshot_spec d = Some (jset ''branch'' (JStr branch) (project_spec p))
       \<and> b_status b = B_pending \<and> b_commit_sha b = sha \<and> b_test_command b = tc
       \<and> (\<forall>i. i \<noteq> did \<longrightarrow> get_dep (cur s') i = get_dep (cur s) i)
       \<and> (\<forall>i. i \<noteq> bid \<longrightarrow> get_build (cur s') i = get_build (cur s) i)
       \<and> commands (cur s') = commands (cur s)
       \<and> length (events (cur s')) = Suc (length (events (cur s)))"
proof (cases "resolve_project_commit_sha a p branch")
  case (Inl e)
  then show ?thesis by (simp add: create_user_facing_deployment_def bind_def lift_def)
next
  case (Inr sha)
  define q where "q = requested branch sha pre md ((request_for sha)\<lparr>q_test_command := tc\<rparr>)"
  have q: "q_status q = Pending" "q_build_status q = B_pending" "q_commit_sha q = sha" "q_test_command q = tc"
    "q_branch q = Some branch" "q_snapshot q = JNull"
    by (simp_all add: q_def requested_def request_for_def)
  let ?w = "enqueued a p q (clock s) (cur s)"
  let ?bid = "next_id b_id (builds (cur s))" let ?did = "next_id d_id (deployments (cur s))"
  have "create_user_facing_deployment a p branch tc pre md s = (Inr (?bid, ?did), s\<lparr>com := ?w, cur := ?w\<rparr>)"
    using Inr by (simp add: create_user_facing_deployment_def bind_def lift_def requested_run q_def Let_def request_for_def)
  moreover have "get_dep (cur s) ?did = None" "get_build (cur s) ?bid = None"
    by (simp_all add: get_dep_def get_build_def row_next_id)
  moreover have "length (events ?w) = Suc (length (events (cur s)))" by (simp add: enqueued_def Let_def)
  ultimately show ?thesis
    using Inr q by (simp add: enqueued_new)
      (simp add: enqueued_rows new_deployment_def new_build_def snapshot_spec_create split: option.split)
qed

theorem deployment_request_queues_witness:
  "create_user_facing_deployment demo_api demo_project ''-bad'' None ''x'' [] (at_rest push_world)
    = (Inl (OtherExn ''ValueError'' ''Invalid branch. Expected a safe Git branch name''), at_rest push_world)
   \<and> (\<exists>bid did s'. create_user_facing_deployment demo_api demo_project ''main'' None ''x'' [] (at_rest push_world)
     = (Inr (bid, did), s') \<and> com s' = cur s')"
proof -
  have "resolve_project_commit_sha demo_api demo_project ''-bad''
      = Inl (OtherExn ''ValueError'' ''Invalid branch. Expected a safe Git branch name'')"
    "resolve_project_commit_sha demo_api demo_project ''main'' = Inr ''3f2a9c1''" by code_simp+
  then show ?thesis
    using deployment_request_queues [of demo_api demo_project "''-bad''" None "''x''" "[]" "at_rest push_world"]
      deployment_request_queues [of demo_api demo_project "''main''" None "''x''" "[]" "at_rest push_world"]
    by auto
qed

text \<open>
  C22: A retry repeats the execution inputs of the original: the specification of its
  snapshot, its commit, image name, environment and test command, in a new pending
  deployment, whatever the project has become since (\<open>p\<close> is the row as it is now).
\<close>

theorem retry_repeats_original:
  assumes "d_spec_snapshot_json original = create_deployment_spec_snapshot p0 (Some branch)"
    and "p_id p0 = p_id p" "d_project_id original = p_id p" "strip (b_commit_sha b) \<noteq> []"
  shows "\<exists>bid did s' d' b'. create_historical_retry a p original b s = (Inr (bid, did), s') \<and> com s' = cur s'
    \<and> get_dep (cur s) did = None \<and> get_dep (cur s') did = Some d' \<and> get_build (cur s') bid = Some b'
    \<and> d_status d' = Pending \<and> d_claimed_by d' = None \<and> d_build_id d' = bid
    \<and> d_spec_snapshot_json d' = d_spec_snapshot_json original \<and> d_environment d' = d_environment original
    \<and> b_status b' = B_pending \<and> b_commit_sha b' = strip (b_commit_sha b) \<and> b_test_command b' = b_test_command b
    \<and> (truthy (b_image_name b) \<longrightarrow> b_image_name b' = b_image_name b)"
proof -
  let ?snap = "d_spec_snapshot_json original" let ?sha = "strip (b_commit_sha b)"
  have copy: "copy_deployment_spec_snapshot original (p_id p) = Inr ?snap"
    using copy_of_create [OF assms(1)] assms(2,3) by simp
  have "?snap \<noteq> JNull" "snapshot_branch ?snap = branch"
    by (simp_all add: assms(1) create_deployment_spec_snapshot_def snapshot_branch_def)
  note snap = this
  define q where "q = requested branch ?sha ''Deployment retry requested''
    [(''creation_action'', JStr ''retry''), (''source_deployment_id'', JInt (int (d_id original))),
     (''configuration_source'', JStr ''historical_snapshot''), (''commit_source'', JStr ''historical_build'')]
    ((request_for ?sha)\<lparr>q_test_command := b_test_command b, q_environment := d_environment original,
       q_image_name := b_image_name b, q_snapshot := ?snap\<rparr>)"
  have q: "q_status q = Pending" "q_build_status q = B_pending" "q_commit_sha q = ?sha"
    "q_test_command q = b_test_command b" "q_environment q = d_environment original"
    "q_image_name q = b_image_name b" "q_snapshot q = ?snap"
    by (simp_all add: q_def requested_def request_for_def)
  let ?w = "enqueued a p q (clock s) (cur s)"
  have "create_historical_retry a p original b s
      = (Inr (next_id b_id (builds (cur s)), next_id d_id (deployments (cur s))), s\<lparr>com := ?w, cur := ?w\<rparr>)"
    using assms(4) snap(2) by (simp add: create_historical_retry_def copy requested_run q_def Let_def request_for_def)
  moreover have "get_dep (cur s) (next_id d_id (deployments (cur s))) = None"
    by (simp add: get_dep_def row_next_id)
  ultimately show ?thesis
    using q snap(1)
    by (simp add: enqueued_new new_deployment_def new_build_def)
      (auto simp: resolved_image_name_def or_str_def split: option.splits)
qed

theorem retry_repeats_original_witness:
  "let original = (demo_dep 3 Failed None)\<lparr>d_spec_snapshot_json := create_deployment_spec_snapshot demo_project (Some ''main'')\<rparr>
   in \<exists>bid did s'. create_historical_retry demo_api (demo_project\<lparr>p_branch := ''next'', p_port := 9000\<rparr>) original
      (demo_build 3 B_failed) (at_rest push_world) = (Inr (bid, did), s') \<and> com s' = cur s'"
proof -
  have 1: "d_spec_snapshot_json ((demo_dep 3 Failed None)\<lparr>d_spec_snapshot_json :=
      create_deployment_spec_snapshot demo_project (Some ''main'')\<rparr>) = create_deployment_spec_snapshot demo_project (Some ''main'')"
    by simp
  have 2: "strip (b_commit_sha (demo_build 3 B_failed)) \<noteq> []" by code_simp
  show ?thesis
    unfolding Let_def
    using retry_repeats_original [OF 1, of "demo_project\<lparr>p_branch := ''next'', p_port := 9000\<rparr>" "demo_build 3 B_failed"
        demo_api "at_rest push_world"] 2
    by (simp add: demo_dep_def demo_project_def) blast
qed

text \<open>A request that is let in as \<open>actor\<close>, for a role, with a body.\<close>

definition let_in :: "api \<Rightarrow> http \<Rightarrow> role \<Rightarrow> role option \<Rightarrow> session \<Rightarrow> bool" where
  "let_in a r required actor s \<longleftrightarrow> (\<exists>cached. authorize_request a r Read_only None s = (Inr (Inr cached), s)
     \<and> authorize_request a r required cached s = (Inr (Inr actor), s))"

lemma let_in_view: "let_in a r required actor s \<Longrightarrow> with_role a r required view s = view actor s"
  by (auto simp: let_in_def with_role_def bind_def)

lemma show_deployment_run:
  assumes "get_dep (cur s) did = Some d" "get_build (cur s) (d_build_id d) = Some b"
  shows "\<exists>body. show_deployment r did st extra s = (Inr (st, body), s)"
  using assms by (simp add: show_deployment_def bind_def the_dep_Some the_build_Some [OF assms] query_def ret_def)

lemma audits_reads [simp]:
  "get_dep (w\<lparr>audits := as\<rparr>) = get_dep w" "get_build (w\<lparr>audits := as\<rparr>) = get_build w"
  by (simp_all add: fun_eq_iff get_dep_def get_build_def)

text \<open>
  C23: A PATCH of a deployment that validation accepts is applied: without an exception, the
  route commits exactly the statuses it names (the validator checks the same transition
  tables that the rows enforce). One that asks for \<open>stopped\<close> is not applied but queued as a
  stop command; whatever build status it names is ignored.
\<close>

theorem accepted_update_applies:
  assumes "let_in a r Admin actor s" "parse_json_object (t_body r) (t_json r) = Inr payload"
    and "get_project_deployment (cur s) pid did = Some d" "get_build (cur s) (d_build_id d) = Some b"
    and "validate_deployment_patch_payload payload d b = None"
  shows "if jget payload ''status'' = JStr ''stopped''
    then update_project_deployment a r others pid did s
      = queue_deployment_command a r actor others pid did ''stop'' (jstr_opt (jget payload ''message'')) s
    else \<exists>body s' d' b'. update_project_deployment a r others pid did s = (Inr (200, body), s')
      \<and> get_dep (com s') did = Some d' \<and> get_build (com s') (d_build_id d) = Some b'
      \<and> (if jhas payload ''status'' then jget payload ''status'' = JStr (dep_status_name (d_status d')) else d' = d)
      \<and> (if jhas payload ''build_status'' then jget payload ''build_status'' = JStr (build_status_name (b_status b'))
         else b' = b)"
proof -
  have d: "get_dep (cur s) did = Some d" using assms(3) by (auto simp: get_project_deployment_def split: option.splits if_splits)
  have reached: "update_project_deployment a r others pid did s = (if jget payload ''status'' = JStr ''stopped''
        then queue_deployment_command a r actor others pid did ''stop'' (jstr_opt (jget payload ''message'')) s
        else bind (apply_deployment_update did payload) (\<lambda>_. bind commit (\<lambda>_.
          bind (the_dep did) (\<lambda>d'. bind (the_build did) (\<lambda>b'.
          bind (audit a r actor ''deployment.patched'' ''deployment'' did
                  [(''project_id'', jnat pid), (''updated_fields'', JList (map JStr (sort (map fst payload)))),
                   (''status'', JStr (dep_status_name (d_status d'))),
                   (''build_status'', JStr (build_status_name (b_status b'))),
                   (''service_url'', jopt (d_service_url d'))]) (\<lambda>_. show_deployment r did 200 []))))) s)"
    using assms(2,3,5) the_build_Some [OF d assms(4)]
    by (simp add: update_project_deployment_def let_in_view [OF assms(1)] with_deployment_def with_body_def
        validated_def verdict_of_def bind_query)
  show ?thesis
  proof (cases "jget payload ''status'' = JStr ''stopped''")
    case True
    then show ?thesis using reached by (simp only: if_True simp_thms)
  next
    case False
    obtain s1 d1 b1 where 1: "apply_deployment_update did payload s = (Inr (), s1)" "get_dep (cur s1) did = Some d1"
        "get_build (cur s1) (d_build_id d) = Some b1" "d_build_id d1 = d_build_id d"
        "if jhas payload ''status'' then jget payload ''status'' = JStr (dep_status_name (d_status d1)) else d1 = d"
        "if jhas payload ''build_status'' then jget payload ''build_status'' = JStr (build_status_name (b_status b1)) else b1 = b"
      using apply_update_run [OF d assms(4,5)] by blast
    let ?s = "s1\<lparr>com := cur s1\<rparr>"
    have rows: "get_dep (cur ?s) did = Some d1" "get_build (cur ?s) (d_build_id d1) = Some b1" using 1 by simp_all
    let ?md = "JDict [(''project_id'', jnat pid), (''updated_fields'', JList (map JStr (sort (map fst payload)))),
      (''status'', JStr (dep_status_name (d_status d1))), (''build_status'', JStr (build_status_name (b_status b1))),
      (''service_url'', jopt (d_service_url d1))]"
    obtain s2 where 2: "record_audit_event a r actor ''deployment.patched'' ''deployment'' (Some (str_of_nat did)) ''success''
        ?md ?s = (Inr (), s2)" "same_but_audits ?s s2"
      using record_audit_run by blast
    have rows': "get_dep (cur s2) did = Some d1" "get_build (cur s2) (d_build_id d1) = Some b1"
      "get_dep (com s2) did = Some d1" "get_build (com s2) (d_build_id d) = Some b1"
      using 2(2) rows 1(4) by (auto simp: same_but_audits_def)
    obtain body where "show_deployment r did 200 [] s2 = (Inr (200, body), s2)"
      using show_deployment_run [OF rows'(1,2)] by blast
    then have "update_project_deployment a r others pid did s = (Inr (200, body), s2)"
      using reached False 1(1) 2(1) the_dep_Some [OF rows(1)] the_build_Some [OF rows]
      by (simp add: audit_def commit_def)
    then show ?thesis using False rows'(3,4) 1(5,6) by auto
  qed
qed

theorem accepted_update_applies_witness:
  "let w = demo_world [demo_dep 3 Building None] [demo_build 3 B_building] [];
       r = reader_request\<lparr>t_method := ''PATCH'', t_body := ''x'', t_auth_disabled_at_startup := True,
         t_json := Some (JDict [(''build_status'', JStr ''cancelled'')])\<rparr>
   in \<exists>body s' b'. update_project_deployment demo_api r (\<lambda>w. w) 1 3 (at_rest w) = (Inr (200, body), s')
    \<and> get_dep (com s') 3 = Some (demo_dep 3 Building None) \<and> get_build (com s') 3 = Some b'
    \<and> JStr ''cancelled'' = JStr (build_status_name (b_status b'))"
proof -
  let ?w = "demo_world [demo_dep 3 Building None] [demo_build 3 B_building] []"
  let ?p = "[(''build_status'', JStr ''cancelled'')]"
  let ?r = "reader_request\<lparr>t_method := ''PATCH'', t_body := ''x'', t_auth_disabled_at_startup := True, t_json := Some (JDict ?p)\<rparr>"
  have "api_token_configs_from_config (t_loads ?r) (v_config (api_venv demo_api)) = Inr []" by code_simp
  then have 1: "let_in demo_api ?r Admin None (at_rest ?w)"
    by (simp add: let_in_def authorize_request_def bind_def lift_def ret_def)
  have 2: "parse_json_object (t_body ?r) (t_json ?r) = Inr ?p" by code_simp
  have 3: "get_project_deployment (cur (at_rest ?w)) 1 3 = Some (demo_dep 3 Building None)"
    "get_build (cur (at_rest ?w)) (d_build_id (demo_dep 3 Building None)) = Some (demo_build 3 B_building)"
    by (simp_all add: get_project_deployment_def demo_defs demo_reads)
  have 4: "validate_deployment_patch_payload ?p (demo_dep 3 Building None) (demo_build 3 B_building) = None" by code_simp
  have "jhas ?p ''status'' = False" "jhas ?p ''build_status'' = True" "jget ?p ''status'' = JNull"
    "d_build_id (demo_dep 3 Building None) = 3"
    by (simp_all add: demo_dep_def)
  then show ?thesis
    unfolding Let_def using accepted_update_applies [OF 1 2 3 4, of "\<lambda>w. w"] by auto
qed

section \<open>Webhooks\<close>

text \<open>
  C24: Deliveries are idempotent: when the id of a delivery is already recorded, before the
  request or by a concurrent one that commits between the lookup and the flush, then
  whatever the request carries, it ends in the state it found, or that the other
  transaction left.
\<close>

theorem redelivery_changes_nothing:
  assumes "h_delivery h = Some i" "i \<noteq> []" "delivered i (cur s) \<or> delivered i (others (cur s))" "com s = cur s"
  shows "snd (github_webhook a others h s) \<in> {s, s\<lparr>com := others (cur s), cur := others (cur s)\<rparr>}"
proof -
  have "taken others i s" using assms(2-4) by (simp add: taken_def)
  from webhook_taken [OF assms(1) this] show ?thesis by (auto simp: untouched_def)
qed

theorem redelivery_changes_nothing_witness:
  "let s = at_rest (push_world\<lparr>deliveries := [new_delivery ''d-1'' demo_push 1 990]\<rparr>)
   in snd (github_webhook demo_api (\<lambda>w. w) demo_hook s) \<in> {s, s\<lparr>com := cur s, cur := cur s\<rparr>}"
  unfolding Let_def
  by (rule redelivery_changes_nothing [where others = "\<lambda>w. w" and i = "''d-1''"])
    (simp_all add: demo_hook_def delivered_def new_delivery_def)

text \<open>
  C25: A push of a new delivery that matches projects commits, on a platform that is ready for
  deployments, in one transaction, one pending deployment of exactly the pushed commit for
  every matching project, with that project's specification and test command, together with
  the delivery; none of these projects must be deleted while the delivery is recorded.
\<close>

theorem push_deploys_every_match:
  assumes "n_delivery n = Some i" "i \<noteq> []" "\<not> delivered i (cur s)" "\<not> delivered i (others (cur s))"
    and "n_repository_url n = Some url" "url \<noteq> []" "n_branch n = Some br" "br \<noteq> []"
    and "validate_git_commit_sha (JStr sha) False = None" "\<not> github_push_deletes_branch payload (JStr sha)"
    and "github_push_project_matches (v_bracketed_ok (api_venv a)) (cur s) url br = Some (rs, p # ps)"
    and "kubernetes_deployment_prereq_error (api_venv a) = Inr None"
    and "\<forall>q \<in> set (p # ps). get_project (others (cur s)) (p_id q) \<noteq> None"
  shows "\<exists>dids s' body. handle_push a others h payload n (JStr sha) s = (Inr (202, body), s') \<and> com s' = cur s'
    \<and> jget body ''status'' = JStr ''accepted'' \<and> distinct dids
    \<and> (\<forall>did \<in> set dids. get_dep (others (cur s)) did = None)
    \<and> list_all2 (\<lambda>q did. queued_for (n\<lparr>n_commit_sha := Some (lower sha)\<rparr>) q (cur s') did) (p # ps) dids
    \<and> delivered i (cur s')"
  by (rule handle_push_run [where others = others, OF assms])

theorem push_deploys_every_match_witness:
  "\<exists>dids s' body. handle_push demo_api (\<lambda>w. w) demo_hook [] demo_push (JStr push_sha) (at_rest push_world)
      = (Inr (202, body), s') \<and> com s' = cur s' \<and> jget body ''status'' = JStr ''accepted'' \<and> distinct dids
    \<and> (\<forall>did \<in> set dids. get_dep ((\<lambda>w. w) (cur (at_rest push_world))) did = None)
    \<and> list_all2 (\<lambda>q did. queued_for (demo_push\<lparr>n_commit_sha := Some (lower push_sha)\<rparr>) q (cur s') did)
        [pushed_project] dids
    \<and> delivered ''d-1'' (cur s')"
proof (rule push_deploys_every_match)
  show "n_delivery demo_push = Some ''d-1''" "n_repository_url demo_push = Some ''https://github.com/Acme/Shop''"
    "n_branch demo_push = Some ''main''"
    by (simp_all add: demo_push_def)
  show "\<not> delivered ''d-1'' (cur (at_rest push_world))" "\<not> delivered ''d-1'' ((\<lambda>w. w) (cur (at_rest push_world)))"
    by (simp_all add: delivered_def push_world_def demo_world_def)
  show "validate_git_commit_sha (JStr push_sha) False = None" by code_simp
  show "\<not> github_push_deletes_branch [] (JStr push_sha)"
    by (simp add: github_push_deletes_branch_def push_sha_def)
  show "github_push_project_matches (v_bracketed_ok (api_venv demo_api)) (cur (at_rest push_world))
      ''https://github.com/Acme/Shop'' ''main'' = Some ([pushed_project], pushed_project # [])"
    unfolding github_push_project_matches_def by code_simp
  show "kubernetes_deployment_prereq_error (api_venv demo_api) = Inr None" by code_simp
  show "\<forall>q \<in> set (pushed_project # []). get_project ((\<lambda>w. w) (cur (at_rest push_world))) (p_id q) \<noteq> None"
    by (simp add: push_world_def get_project_def row_Cons)
qed simp_all

text \<open>
  C26: Only a request whose signature is the digest of its body under the configured secret
  gets past the check: any answer of the route other than 401 implies it, and so does any
  change of the database, also of a request that ends with an exception. (The comparison of
  the signature itself may raise; then nothing has changed.)
\<close>

theorem webhook_needs_signature:
  assumes "github_webhook a others h s = (out, s')" "(\<exists>st body. out = Inr (st, body) \<and> st \<noteq> 401) \<or> s' \<noteq> s"
  shows "\<exists>secret sig. h_secret h = JStr secret \<and> secret \<noteq> [] \<and> h_signature h = Some sig
    \<and> prefix ''sha256='' sig \<and> after (CHR ''='') sig = h_digest h secret (h_body h)"
proof (cases "verify_github_signature h")
  case (Inl e)
  then show ?thesis using assms by (auto simp: github_webhook_def bind_def lift_def)
next
  case (Inr verified)
  then have "verified" using unsigned_rejected [of h a others s] assms by (cases verified) auto
  then obtain secret sig where "github_webhook_secret h = Some secret" "secret \<noteq> []" "h_signature h = Some sig"
      "prefix ''sha256='' sig" "after (CHR ''='') sig = h_digest h secret (h_body h)"
    using signed_digest [of h] Inr by auto
  then show ?thesis by (auto simp: github_webhook_secret_def split: json.splits if_splits)
qed

theorem webhook_needs_signature_witness:
  "let h = demo_hook\<lparr>h_event := Some ''ping'', h_signature := Some ''sha256=feed''\<rparr>
   in \<exists>secret sig. h_secret h = JStr secret \<and> secret \<noteq> [] \<and> h_signature h = Some sig
    \<and> prefix ''sha256='' sig \<and> after (CHR ''='') sig = h_digest h secret (h_body h)"
proof -
  have "github_webhook demo_api (\<lambda>w. w) (demo_hook\<lparr>h_event := Some ''ping'', h_signature := Some ''sha256=feed''\<rparr>)
      (at_rest push_world) = (Inr (200, [(''message'', JStr ''GitHub webhook ping received''), (''event'', JStr ''ping''),
        (''delivery_id'', JStr ''d-1'')]), at_rest push_world)" by code_simp
  from webhook_needs_signature [OF this] show ?thesis by (simp add: Let_def)
qed

end
