(* ===== verification/Retention.thy ===== *)
theory Retention
  imports Claims
begin

text \<open>
  \<open>control_plane/retention.py\<close>: the operator's cleanup of old workspaces, diagnostic events
  and audit rows. The file system is the record \<open>disk\<close>, on resolved paths as lists of
  parts; \<open>d_remove\<close> says whether \<open>shutil.rmtree\<close> succeeds. The lemmas say that a dry run
  changes nothing and that an applied one keeps the deployment history.
\<close>

record disk =
  k_root :: "string list"
  k_resolve :: "string list \<Rightarrow> string list option"
  k_text_path :: "string \<Rightarrow> string list"
  k_exists :: "string list \<Rightarrow> bool"
  k_is_file :: "string list \<Rightarrow> bool"
  k_remove :: "string list \<Rightarrow> bool"

definition TERMINAL_RETENTION_STATUSES :: "dep_status list" where
  "TERMINAL_RETENTION_STATUSES = [Failed, Stopped]"

definition DISPOSABLE_EVENT_PREFIXES :: "string list" where
  "DISPOSABLE_EVENT_PREFIXES = [''claim_'', ''reconcile.'']"

definition retention_cutoff :: "int \<Rightarrow> int \<Rightarrow> int" where
  "retention_cutoff older_than_days current = current - older_than_days * 86400"

definition old_terminal :: "int \<Rightarrow> deployment \<Rightarrow> bool" where
  "old_terminal cutoff d \<longleftrightarrow> d_status d \<in> set TERMINAL_RETENTION_STATUSES \<and> d_updated_at d < cutoff"

definition old_terminal_deployments :: "int \<Rightarrow> world \<Rightarrow> deployment list" where
  "old_terminal_deployments cutoff w = sort_key d_id (filter (old_terminal cutoff) (deployments w))"

text \<open>The workspace of a deployment, when it resolves to a path below the root; \<open>resolve\<close> can raise.\<close>

definition safe_deployment_workspace :: "disk \<Rightarrow> deployment \<Rightarrow> exn + string list option" where
  "safe_deployment_workspace k d =
     (case k_resolve k (k_root k @ [''project-'' @ str_of_nat (d_project_id d), ''deployment-'' @ str_of_nat (d_id d)]) of
        None \<Rightarrow> Inl (OtherExn ''OSError'' ''resolve'')
      | Some candidate \<Rightarrow> Inr (if strict_prefix (k_root k) candidate then Some candidate else None))"

text \<open>\<open>LIKE prefix || '%'\<close>: an underscore of the prefix stands for any character.\<close>

fun like_prefix :: "string \<Rightarrow> string \<Rightarrow> bool" where
  "like_prefix [] s = True"
| "like_prefix (p # ps) [] = False"
| "like_prefix (p # ps) (c # s) = ((p = CHR ''_'' \<or> p = c) \<and> like_prefix ps s)"

definition disposable_event :: "int \<Rightarrow> world \<Rightarrow> event \<Rightarrow> bool" where
  "disposable_event cutoff w e \<longleftrightarrow>
     list_ex (\<lambda>d. d_id d = e_deployment_id e \<and> old_terminal cutoff d) (deployments w)
     \<and> list_ex (\<lambda>p. like_prefix p (e_event_type e)) DISPOSABLE_EVENT_PREFIXES"

definition artifact_paths :: "disk \<Rightarrow> world \<Rightarrow> deployment \<Rightarrow> string \<Rightarrow> string option \<Rightarrow> string list list" where
  "artifact_paths k w d metadata_key event_type =
     map (\<lambda>e. k_text_path k (case jget (dict_of (e_metadata_json e)) metadata_key of JStr s \<Rightarrow> s | _ \<Rightarrow> []))
       (filter (\<lambda>e. e_deployment_id e = d_id d
           \<and> (case event_type of None \<Rightarrow> True | Some t \<Rightarrow> e_event_type e = t)
           \<and> (case jget (dict_of (e_metadata_json e)) metadata_key of JStr s \<Rightarrow> s \<noteq> [] | _ \<Rightarrow> False)) (events w))"

definition artifact_exists_in_workspace :: "disk \<Rightarrow> string list list \<Rightarrow> string list \<Rightarrow> bool" where
  "artifact_exists_in_workspace k paths workspace = list_ex (\<lambda>p. case k_resolve k p of
     None \<Rightarrow> False | Some candidate \<Rightarrow> prefix workspace candidate \<and> k_is_file k candidate) paths"

record cleanup =
  n_cutoff :: int
  n_deployments :: nat
  n_workspaces :: nat
  n_events :: nat
  n_audits :: nat
  n_workspaces_removed :: nat
  n_events_removed :: nat
  n_audits_removed :: nat
  n_errors :: "string list"

definition build_log_paths :: "disk \<Rightarrow> world \<Rightarrow> deployment \<Rightarrow> build \<Rightarrow> string list list" where
  "build_log_paths k w d b =
     map (k_text_path k) (filter (\<lambda>s. s \<noteq> []) [or_str (b_build_log_path b) [], or_str (b_log_path b) []])
     @ artifact_paths k w d ''log_path'' (Some ''image.build_succeeded'')"

definition removed_artifacts :: "disk \<Rightarrow> world \<Rightarrow> deployment \<Rightarrow> build \<Rightarrow> string list \<Rightarrow> string list" where
  "removed_artifacts k w d b workspace =
     (if artifact_exists_in_workspace k (build_log_paths k w d b) workspace then [''build_log''] else [])
     @ (if artifact_exists_in_workspace k (artifact_paths k w d ''runtime_log_path'' None) workspace
        then [''runtime_log''] else [])"

definition forget_workspace :: "build \<Rightarrow> build" where
  "forget_workspace b = b\<lparr>b_workspace_path := None, b_log_path := None, b_build_log_path := None\<rparr>"

definition cleanup_event :: "int \<Rightarrow> deployment \<Rightarrow> string list \<Rightarrow> int \<Rightarrow> nat \<Rightarrow> int \<Rightarrow> event" where
  "cleanup_event cutoff d removed current i t =
     new_event (d_id d) ''observability.artifacts_removed'' (Some ''observability.retention'') ''info''
       (dep_status_name (d_status d)) (Some ''Removed workspace artifacts under the explicit retention policy'')
       (JDict [(''removed_artifacts'', JList (map JStr removed)), (''retention_cutoff'', JTime cutoff)]) i current"

text \<open>One deployment of the loop: skipped, failed (its name is an error), or removed.\<close>

definition cleanup_deployment :: "disk \<Rightarrow> int \<Rightarrow> int \<Rightarrow> deployment \<Rightarrow> (nat \<times> string list) proc" where
  "cleanup_deployment k cutoff current d =
     bind (lift (safe_deployment_workspace k d)) (\<lambda>workspace. case workspace of
       None \<Rightarrow> ret (0, [])
     | Some ws \<Rightarrow>
         if \<not> k_exists k ws then ret (0, [])
         else
           bind (the_build (d_id d)) (\<lambda>b.
           bind (query (\<lambda>w. removed_artifacts k w d b ws)) (\<lambda>removed.
           if \<not> k_remove k ws then ret (0, [''deployment '' @ str_of_nat (d_id d) @ '': OSError''])
           else bind (seqs [set_build (d_id d) forget_workspace, add_event (cleanup_event cutoff d removed current)])
                  (\<lambda>_. ret (1, [])))))"

primrec cleanup_all :: "disk \<Rightarrow> int \<Rightarrow> int \<Rightarrow> deployment list \<Rightarrow> (nat \<times> string list) proc" where
  "cleanup_all k cutoff current [] = ret (0, [])"
| "cleanup_all k cutoff current (d # ds) =
     bind (cleanup_deployment k cutoff current d) (\<lambda>(n, errs).
     bind (cleanup_all k cutoff current ds) (\<lambda>(n', errs'). ret (n + n', errs @ errs')))"

definition delete_old :: "int \<Rightarrow> bool \<Rightarrow> world \<Rightarrow> world" where
  "delete_old cutoff include_audit_events w = w\<lparr>
     events := filter (\<lambda>e. \<not> disposable_event cutoff w e) (events w),
     audits := (if include_audit_events then filter (\<lambda>e. \<not> a_created_at e < cutoff) (audits w) else audits w)\<rparr>"

text \<open>\<open>.exists()\<close> on the missing workspace of a deployment raises.\<close>

fun existing_workspaces :: "disk \<Rightarrow> deployment list \<Rightarrow> exn + nat" where
  "existing_workspaces k [] = Inr 0"
| "existing_workspaces k (d # ds) = (case safe_deployment_workspace k d of
     Inl e \<Rightarrow> Inl e
   | Inr None \<Rightarrow> Inl (OtherExn ''AttributeError'' ''exists'')
   | Inr (Some ws) \<Rightarrow> (case existing_workspaces k ds of
       Inl e \<Rightarrow> Inl e | Inr n \<Rightarrow> Inr (if k_exists k ws then Suc n else n)))"

definition count_old :: "int \<Rightarrow> bool \<Rightarrow> world \<Rightarrow> nat \<times> nat" where
  "count_old cutoff include_audit_events w =
     (length (filter (disposable_event cutoff w) (events w)),
      if include_audit_events then length (filter (\<lambda>e. a_created_at e < cutoff) (audits w)) else 0)"

definition cleanup_observability_data :: "disk \<Rightarrow> int \<Rightarrow> bool \<Rightarrow> bool \<Rightarrow> cleanup proc" where
  "cleanup_observability_data k older_than_days applied include_audit_events =
     bind now (\<lambda>current.
     let cutoff = retention_cutoff older_than_days current in
     bind (query (old_terminal_deployments cutoff)) (\<lambda>ds.
     bind (lift (existing_workspaces k ds)) (\<lambda>workspaces.
     bind (query (count_old cutoff include_audit_events)) (\<lambda>(n_ev, n_au).
     let result = \<lparr>n_cutoff = cutoff, n_deployments = length ds, n_workspaces = workspaces, n_events = n_ev,
           n_audits = n_au, n_workspaces_removed = 0, n_events_removed = 0, n_audits_removed = 0, n_errors = []\<rparr> in
     if \<not> applied then ret result
     else
       bind (cleanup_all k cutoff current ds) (\<lambda>(removed, errs).
       bind (query (count_old cutoff include_audit_events)) (\<lambda>(n_ev', n_au').
       bind (store (\<lambda>t. delete_old cutoff include_audit_events)) (\<lambda>_.
       bind commit (\<lambda>_.
       ret (result\<lparr>n_workspaces_removed := removed, n_events_removed := n_ev', n_audits_removed := n_au',
              n_errors := errs\<rparr>)))))))))"

section \<open>What a cleanup keeps\<close>

text \<open>The deployments and events that a cleanup may touch, and what it may do to a build.\<close>

definition finished_before :: "int \<Rightarrow> deployment \<Rightarrow> bool" where
  "finished_before cutoff d \<longleftrightarrow> (d_status d = Failed \<or> d_status d = Stopped) \<and> d_updated_at d < cutoff"

definition old_diagnostic :: "int \<Rightarrow> world \<Rightarrow> event \<Rightarrow> bool" where
  "old_diagnostic cutoff w e \<longleftrightarrow>
     (\<exists>d \<in> set (deployments w). d_id d = e_deployment_id e \<and> finished_before cutoff d)
     \<and> ((\<exists>c rest. e_event_type e = ''claim'' @ c # rest) \<or> (\<exists>rest. e_event_type e = ''reconcile.'' @ rest))"

definition build_kept :: "build \<Rightarrow> build \<Rightarrow> bool" where
  "build_kept b b' \<longleftrightarrow> b' = b
     \<or> (\<exists>t. b' = b\<lparr>b_workspace_path := None, b_log_path := None, b_build_log_path := None, b_updated_at := t\<rparr>)"

text \<open>
  Before the old events are deleted, every row is still there; the builds of old finished
  deployments have at most lost their paths, and only events of the cleanup were added.
\<close>

definition old_builds :: "int \<Rightarrow> world \<Rightarrow> nat set" where
  "old_builds cutoff w = {i. \<exists>d d'. d \<in> set (deployments w) \<and> finished_before cutoff d
     \<and> get_dep w (d_id d) = Some d' \<and> d_build_id d' = i}"

definition rows_kept :: "nat set \<Rightarrow> world \<Rightarrow> world \<Rightarrow> bool" where
  "rows_kept B w w' \<longleftrightarrow> projects w' = projects w \<and> deployments w' = deployments w \<and> commands w' = commands w
     \<and> deliveries w' = deliveries w
     \<and> (\<forall>i b. get_build w i = Some b \<longrightarrow> (\<exists>b'. get_build w' i = Some b' \<and> (b' = b \<or> i \<in> B \<and> build_kept b b')))
     \<and> (\<exists>es. events w' = events w @ es \<and> (\<forall>e \<in> set es. e_event_type e = ''observability.artifacts_removed''))
     \<and> audits w' = audits w"

lemma build_kept_refl: "build_kept b b"
  by (simp add: build_kept_def)

lemma build_kept_forget:
  assumes "build_kept b b'"
  shows "build_kept b (touch_build t forget_workspace b')"
proof -
  have "touch_build t forget_workspace b' = b'
      \<or> touch_build t forget_workspace b' = (forget_workspace b')\<lparr>b_updated_at := t\<rparr>"
    by (simp add: touch_build_def Let_def)
  moreover have "build_kept b ((forget_workspace b')\<lparr>b_updated_at := t\<rparr>)"
    using assms by (auto simp: build_kept_def forget_workspace_def)
  ultimately show ?thesis using assms by metis
qed

lemma like_prefix_Cons:
  "like_prefix (p # ps) t \<longleftrightarrow> (\<exists>c s. t = c # s \<and> (p = CHR ''_'' \<or> p = c) \<and> like_prefix ps s)"
  by (cases t) auto

lemma like_prefix_claim:
  "like_prefix ''claim_'' t \<longleftrightarrow> (\<exists>c rest. t = ''claim'' @ c # rest)"
  "like_prefix ''reconcile.'' t \<longleftrightarrow> (\<exists>rest. t = ''reconcile.'' @ rest)"
  by (auto simp: like_prefix_Cons)

lemma finished_before: "old_terminal cutoff d \<longleftrightarrow> finished_before cutoff d"
  by (auto simp: old_terminal_def finished_before_def TERMINAL_RETENTION_STATUSES_def)

lemma old_diagnostic: "disposable_event cutoff w e \<longleftrightarrow> old_diagnostic cutoff w e"
  by (simp add: disposable_event_def old_diagnostic_def list_ex_iff finished_before DISPOSABLE_EVENT_PREFIXES_def
      like_prefix_claim)

lemma rows_kept_refl: "rows_kept B w w"
  by (simp add: rows_kept_def)

lemma rows_kept_event:
  assumes "rows_kept B w w'" "e_event_type e = ''observability.artifacts_removed''"
  shows "rows_kept B w (w'\<lparr>events := events w' @ [e]\<rparr>)"
  using assms unfolding rows_kept_def by auto

lemma rows_kept_build:
  assumes "rows_kept B w w'" "i \<in> B"
  shows "rows_kept B w (upd_build i (touch_build t forget_workspace) w')"
proof -
  have id: "b_id (forget_workspace b) = b_id b" for b by (simp add: forget_workspace_def)
  have "audits (upd_build i g w') = audits w'" "deliveries (upd_build i g w') = deliveries w'" for g
    by (simp_all add: upd_build_def)
  then show ?thesis
    using assms build_kept_forget build_kept_refl unfolding rows_kept_def
    by (simp add: bldt.get_upd id) blast
qed

lemma rows_kept_cleanup:
  assumes "rows_kept B w w'" "i \<in> B" "e_event_type e = ''observability.artifacts_removed''"
  shows "rows_kept B w ((upd_build i (touch_build t forget_workspace) w')\<lparr>events := events w' @ [e]\<rparr>)"
  using rows_kept_event [OF rows_kept_build [OF assms(1,2)] assms(3)] by simp

lemma rows_kept_get_dep: "rows_kept B w w' \<Longrightarrow> get_dep w' i = get_dep w i"
  by (simp add: rows_kept_def get_dep_def)

lemma cleanup_event_type: "e_event_type (cleanup_event cutoff d removed current i t) = ''observability.artifacts_removed''"
  by (simp add: cleanup_event_def new_event_def)

lemma cleanup_deployment_keeps:
  assumes "rows_kept B w (cur s)" "\<And>d'. get_dep w (d_id d) = Some d' \<Longrightarrow> d_build_id d' \<in> B"
  shows "rows_kept B w (cur (snd (cleanup_deployment k cutoff current d s))) \<and> com (snd (cleanup_deployment k cutoff current d s)) = com s"
  using assms rows_kept_get_dep [OF assms(1), of "d_id d"]
  by (auto simp: cleanup_deployment_def bind_def lift_def ret_def query_def the_build_def the_dep_def set_build_def
      store_def add_event_def cleanup_event_type intro!: rows_kept_cleanup dest: bldt.get_key
      split: sum.split option.split prod.split)

lemma cleanup_all_keeps:
  "rows_kept B w (cur s) \<Longrightarrow> (\<And>d d'. d \<in> set ds \<Longrightarrow> get_dep w (d_id d) = Some d' \<Longrightarrow> d_build_id d' \<in> B) \<Longrightarrow>
    rows_kept B w (cur (snd (cleanup_all k cutoff current ds s))) \<and> com (snd (cleanup_all k cutoff current ds s)) = com s"
proof (induction ds arbitrary: s)
  case (Cons d ds)
  note one = cleanup_deployment_keeps [OF Cons.prems(1), of d k cutoff current]
  show ?case
    using one Cons.IH Cons.prems(2) by (auto simp: bind_def ret_def split: prod.split sum.split) (metis snd_conv)+
qed (simp add: ret_def)

lemma disposable_deployments: "deployments w' = deployments w \<Longrightarrow> disposable_event cutoff w' e = disposable_event cutoff w e"
  by (simp add: disposable_event_def)

lemma delete_old_kept:
  assumes "rows_kept B w w'"
  shows "\<exists>es. events (delete_old cutoff au w') = filter (\<lambda>e. \<not> disposable_event cutoff w e) (events w) @ es
    \<and> (\<forall>e \<in> set es. e_event_type e = ''observability.artifacts_removed'')"
proof -
  obtain es where es: "events w' = events w @ es" "deployments w' = deployments w"
      "\<forall>e \<in> set es. e_event_type e = ''observability.artifacts_removed''"
    using assms by (auto simp: rows_kept_def)
  then have "events (delete_old cutoff au w') = filter (\<lambda>e. \<not> disposable_event cutoff w e) (events w @ es)"
    by (simp add: delete_old_def disposable_deployments [OF es(2)])
  then show ?thesis using es(3) by simp
qed

text \<open>
  What an applied cleanup leaves of a database: all rows, but diagnostic events of old
  finished deployments, the paths of their builds, and, on request, old audit rows.
\<close>

definition cleaned :: "int \<Rightarrow> bool \<Rightarrow> world \<Rightarrow> world \<Rightarrow> bool" where
  "cleaned cutoff include_audit_events w w' \<longleftrightarrow>
     projects w' = projects w \<and> deployments w' = deployments w \<and> commands w' = commands w
     \<and> deliveries w' = deliveries w
     \<and> (\<forall>i b. get_build w i = Some b \<longrightarrow> (\<exists>b'. get_build w' i = Some b' \<and> (b' = b \<or> i \<in> old_builds cutoff w \<and> build_kept b b')))
     \<and> (\<exists>es. events w' = filter (\<lambda>e. \<not> old_diagnostic cutoff w e) (events w) @ es
          \<and> (\<forall>e \<in> set es. e_event_type e = ''observability.artifacts_removed''))
     \<and> audits w' = (if include_audit_events then filter (\<lambda>e. \<not> a_created_at e < cutoff) (audits w) else audits w)"

lemma delete_old_cleaned: "rows_kept (old_builds cutoff w) w w' \<Longrightarrow> cleaned cutoff au w (delete_old cutoff au w')"
  using delete_old_kept [of "old_builds cutoff w" w w' cutoff au, unfolded old_diagnostic]
  by (auto simp: cleaned_def rows_kept_def delete_old_def get_build_def)

lemma cleanup_run:
  "case cleanup_observability_data k days applied au s of
     (Inl e, s') \<Rightarrow> com s' = com s
   | (Inr res, s') \<Rightarrow> if applied then com s' = cur s' \<and> cleaned (clock s - days * 86400) au (cur s) (cur s') else s' = s"
proof -
  let ?cutoff = "retention_cutoff days (clock s)" let ?ds = "old_terminal_deployments ?cutoff (cur s)"
  have cutoff: "?cutoff = clock s - days * 86400" by (simp add: retention_cutoff_def)
  have old: "d_build_id d' \<in> old_builds ?cutoff (cur s)" if "d \<in> set ?ds" "get_dep (cur s) (d_id d) = Some d'" for d d'
    using that by (auto simp: old_builds_def old_terminal_deployments_def finished_before)
  have kept: "rows_kept (old_builds ?cutoff (cur s)) (cur s) (cur (snd (cleanup_all k ?cutoff (clock s) ?ds s)))
      \<and> com (snd (cleanup_all k ?cutoff (clock s) ?ds s)) = com s"
    by (rule cleanup_all_keeps [OF rows_kept_refl old])
  show ?thesis
  proof (cases "existing_workspaces k ?ds")
    case (Inl e)
    then show ?thesis
      by (simp add: cleanup_observability_data_def bind_def now_def query_def lift_def Let_def)
  next
    case (Inr n)
    obtain r s1 where s1: "cleanup_all k ?cutoff (clock s) ?ds s = (r, s1)" by (cases "cleanup_all k ?cutoff (clock s) ?ds s") auto
    then have k1: "rows_kept (old_builds ?cutoff (cur s)) (cur s) (cur s1)" "com s1 = com s" using kept by simp_all
    show ?thesis
      using Inr s1 k1 delete_old_cleaned [OF k1(1), of au] cutoff
      by (cases "count_old ?cutoff au (cur s)"; cases "count_old ?cutoff au (cur s1)"; cases r)
        (auto simp: cleanup_observability_data_def bind_def now_def query_def lift_def Let_def ret_def store_def commit_def
          split: prod.split)
  qed
qed

section \<open>Properties\<close>

text \<open>
  C4: The cleanup keeps the history of deployments. A dry run changes nothing. An applied run that
  returns is committed; it keeps every project, deployment, command and delivery, and every
  build, but for the paths of builds of finished deployments (failed or stopped) that were
  last changed before the cutoff, \<open>days\<close> days ago. Of the timeline it removes exactly the diagnostic events
  (claims and reconciliation) of those deployments, and adds only events that report removed
  artifacts; of the audit trail it removes the rows before the cutoff, if asked. An exception,
  which comes before the commit, leaves the database as it was (not the directories removed
  so far).
\<close>

theorem retention_keeps_history:
  "case cleanup_observability_data k days applied include_audit_events s of
     (Inl e, s') \<Rightarrow> com s' = com s
   | (Inr res, s') \<Rightarrow>
       if applied then com s' = cur s' \<and> cleaned (clock s - days * 86400) include_audit_events (cur s) (cur s') else s' = s"
  by (rule cleanup_run)

end
