(* ===== verification/Platform.thy ===== *)
theory Platform
  imports Routes Webhook_Outcome Request_Properties Retention
begin

text \<open>
  The platform as a whole: workers, reconcilers, requests of the API, webhooks and retention
  runs that interleave on one database. A step is a whole work item, reconciler pass,
  request or retention run, or time that passes; the state between two steps is the
  committed database and the clock. What other processes commit in the middle of a step is
  in its executor calls and in \<open>others\<close> (at the flush of a command, and of a delivery);
  nothing interleaves between reading a status and writing it elsewhere in a step, although
  the code takes no row lock there and rows have no version. The locale
  \<open>platform_invariant\<close> has what an invariant of all of them needs; it is interpreted on the
  life of the rows and on the active commands.
\<close>

section \<open>Steps\<close>

text \<open>The routes of \<open>api/projects.py\<close> that change rows.\<close>

datatype route =
    Create_project
  | Update_project nat
  | Delete_project nat
  | Create_project_deployment nat
  | Deploy_project nat
  | Retry_project_deployment nat nat
  | Redeploy_project nat
  | Stop_project_deployment nat nat
  | Cleanup_project_deployment nat nat
  | Update_project_deployment nat nat

fun view_of :: "api \<Rightarrow> http \<Rightarrow> (world \<Rightarrow> world) \<Rightarrow> route \<Rightarrow> response proc" where
  "view_of a r others Create_project = create_project a r"
| "view_of a r others (Update_project pid) = update_project a r pid"
| "view_of a r others (Delete_project pid) = delete_project a r pid"
| "view_of a r others (Create_project_deployment pid) = create_project_deployment a r pid"
| "view_of a r others (Deploy_project pid) = deploy_project a r pid"
| "view_of a r others (Retry_project_deployment pid did) = retry_project_deployment a r pid did"
| "view_of a r others (Redeploy_project pid) = redeploy_project a r pid"
| "view_of a r others (Stop_project_deployment pid did) = stop_project_deployment a r others pid did"
| "view_of a r others (Cleanup_project_deployment pid did) = cleanup_project_deployment a r others pid did"
| "view_of a r others (Update_project_deployment pid did) = update_project_deployment a r others pid did"

fun required_role :: "route \<Rightarrow> role" where
  "required_role (Deploy_project pid) = Deployer"
| "required_role (Retry_project_deployment pid did) = Deployer"
| "required_role (Redeploy_project pid) = Deployer"
| "required_role (Stop_project_deployment pid did) = Deployer"
| "required_role (Cleanup_project_deployment pid did) = Deployer"
| "required_role _ = Admin"

definition opened :: "world \<times> int \<Rightarrow> session" where
  "opened x = \<lparr>com = fst x, cur = fst x, clock = snd x\<rparr>"

definition closed :: "session \<Rightarrow> world \<times> int" where
  "closed s = (com s, clock s)"

text \<open>
  The deletion of a project is the one route that removes rows: \<open>D\<close> is the set of the projects
  that may be deleted during the run.
\<close>

fun permitted :: "nat set \<Rightarrow> route \<Rightarrow> bool" where
  "permitted D (Delete_project pid) \<longleftrightarrow> pid \<in> D"
| "permitted D _ \<longleftrightarrow> True"

inductive platform :: "cfg set \<Rightarrow> (world \<Rightarrow> world) set \<Rightarrow> nat set \<Rightarrow> world \<times> int \<Rightarrow> world \<times> int \<Rightarrow> bool"
  for C F D x where
  Start: "platform C F D x x"
| Work: "platform C F D x y \<Longrightarrow> c \<in> C \<Longrightarrow> platform C F D x (closed (snd (process_next_work_item c (opened y))))"
| Reconcile: "platform C F D x y \<Longrightarrow> c \<in> C \<Longrightarrow>
    platform C F D x (closed (snd (reconcile_deployments c (opened y))))"
| Request: "platform C F D x y \<Longrightarrow> others \<in> F \<Longrightarrow> permitted D route \<Longrightarrow>
    platform C F D x (closed (snd (served (view_of a r others route) (opened y))))"
| Webhook: "platform C F D x y \<Longrightarrow> others \<in> F \<Longrightarrow>
    platform C F D x (closed (snd (served (github_webhook a others h) (opened y))))"
| Retain: "platform C F D x y \<Longrightarrow>
    platform C F D x (closed (snd (cleanup_observability_data k days applied include_audit_events (opened y))))"
| Time: "platform C F D x (w, t) \<Longrightarrow> t \<le> t' \<Longrightarrow> platform C F D x (w, t')"

lemma served_closed: "closed (snd (served m s)) = closed (snd (m s))"
  by (simp add: served_def closed_def split: prod.split)

section \<open>Invariants of every process\<close>

definition upholds :: "(world \<Rightarrow> bool) \<Rightarrow> (world \<Rightarrow> world) \<Rightarrow> bool" where
  "upholds I f \<longleftrightarrow> (\<forall>w. I w \<longrightarrow> I (f w))"

definition conflict_free :: "nat \<Rightarrow> string \<Rightarrow> world \<Rightarrow> bool" where
  "conflict_free did ct w \<longleftrightarrow>
     \<not> list_ex (\<lambda>k. command_of did ct k \<and> c_active_key k = Some ''active'') (commands w)"

text \<open>A row that is added only when a query finds none that it would conflict with.\<close>

lemma keeps_guarded_add:
  assumes "keeps I m" "\<And>cid. keeps I (k cid)"
    and "\<And>w t. I w \<Longrightarrow> \<not> q w \<Longrightarrow> I (w\<lparr>commands := commands w @ [mk (next_id c_id (commands w)) t]\<rparr>)"
  shows "keeps I (bind (query q) (\<lambda>violated. if violated then m else bind (add_cmd mk) k))"
proof -
  have "I (com (snd (bind (add_cmd mk) k s))) \<and> I (cur (snd (bind (add_cmd mk) k s)))"
    if "I (com s)" "I (cur s)" "\<not> q (cur s)" for s
    using assms(2) assms(3) [OF that(2,3)] that(1) by (simp add: keeps_def bind_def add_cmd_def Let_def)
  then show ?thesis
    using assms(1) by (simp add: keeps_def bind_def [of "query q"] query_def)
qed

locale platform_invariant = growing +
  fixes D :: "nat set"
  assumes I_audits: "I w \<Longrightarrow> I (w\<lparr>audits := as\<rparr>)"
    and I_deliveries: "I w \<Longrightarrow> I (w\<lparr>deliveries := vs\<rparr>)"
    and I_projects: "I w \<Longrightarrow> I (w\<lparr>projects := ps\<rparr>)"
    and I_new_cmd: "I w \<Longrightarrow> conflict_free did ct w \<Longrightarrow>
      I (w\<lparr>commands := commands w @ [new_command a did ct msg (next_id c_id (commands w)) t]\<rparr>)"
    and I_delete: "pid \<in> D \<Longrightarrow> I w \<Longrightarrow> I (delete_rows pid w)"
    and I_prune: "I w \<Longrightarrow> I (delete_old cutoff include_audit_events w)"
begin

lemma keeps_interfere: "upholds I f \<Longrightarrow> keeps I (interfere f)"
  by (simp add: keeps_def interfere_def upholds_def)

lemma keeps_record_audit: "keeps I (record_audit_event a r actor action rt rid st md)"
  by (auto simp: keeps_def record_audit_event_def add_audit_def Let_def I_audits)

lemma keeps_audit: "keeps I (audit a r actor action rt i md)"
  unfolding audit_def by (rule keeps_record_audit)

lemma keeps_request_command:
  assumes "upholds I others"
  shows "keeps I (request_deployment_command a others did ct msg)"
  unfolding request_deployment_command_def
  by (intro keeps_bind keeps_the_dep keeps_query keeps_case_option keeps_ret keeps_interfere [OF assms]
      keeps_guarded_add keeps_rollback keeps_throw keeps_create_event I_new_cmd)
    (simp_all add: conflict_free_def)

lemma keeps_authorize: "keeps I (authorize_request a r required cached)"
  unfolding authorize_request_def denied_def record_denied_request_audit_def Let_def
  by (intro step_rules keeps_record_audit) (auto split: bearer.split intro!: step_rules keeps_record_audit)

lemma keeps_with_role: "(\<And>actor. keeps I (view actor)) \<Longrightarrow> keeps I (with_role a r required view)"
  unfolding with_role_def by (intro step_rules keeps_authorize keeps_case_sum)

lemma keeps_with_project: "(\<And>p. keeps I (view p)) \<Longrightarrow> keeps I (with_project pid view)"
  unfolding with_project_def by (intro step_rules)

lemma keeps_with_deployment: "(\<And>d b. keeps I (view d b)) \<Longrightarrow> keeps I (with_deployment pid did view)"
  unfolding with_deployment_def by (intro step_rules)

lemma keeps_with_body: "(\<And>payload. keeps I (view payload)) \<Longrightarrow> keeps I (with_body r view)"
  unfolding with_body_def by (intro step_rules keeps_case_sum)

lemma keeps_validated: "keeps I view \<Longrightarrow> keeps I (validated v view)"
  unfolding validated_def by (cases v) (auto intro: step_rules)

lemma keeps_when_ready: "keeps I view \<Longrightarrow> keeps I (when_ready a view)"
  unfolding when_ready_def by (intro step_rules keeps_case_sum)

lemma keeps_try_except: "keeps I m \<Longrightarrow> (\<And>x. keeps I (view x)) \<Longrightarrow> keeps I (try_except name m response view)"
  unfolding try_except_def by (intro step_rules) (auto split: exn.split intro: step_rules)

lemma keeps_show: "keeps I (show_deployment r did status extra)" "keeps I (show_triggered r did branch source ca cs)"
  unfolding show_deployment_def show_triggered_def by (intro step_rules)+

lemma keeps_create_project_record: "keeps I (create_project_record payload)"
  by (auto simp: keeps_def create_project_record_def Let_def I_projects)

lemma keeps_update_project_record: "keeps I (update_project_record pid payload)"
  by (auto simp: keeps_def update_project_record_def upd_project_def Let_def I_projects split: option.split)

lemma keeps_delete_record: "pid \<in> D \<Longrightarrow> keeps I (delete_project_record pid)"
  unfolding delete_project_record_def by (intro step_rules keeps_store I_delete)

lemmas keeps_route_rules = step_rules keeps_with_role keeps_with_project keeps_with_deployment keeps_with_body
  keeps_validated keeps_when_ready keeps_try_except keeps_show keeps_audit keeps_requests
  keeps_create_project_record keeps_update_project_record

lemma keeps_queue_command:
  "upholds I others \<Longrightarrow> keeps I (queue_deployment_command a r actor others pid did ct msg)"
  unfolding queue_deployment_command_def by (intro keeps_route_rules keeps_request_command)

lemma keeps_view:
  assumes "upholds I others" "permitted D route"
  shows "keeps I (view_of a r others route)"
proof (cases route)
  case Create_project
  show ?thesis unfolding Create_project view_of.simps create_project_def
    by (intro keeps_route_rules keeps_case_sum)
next
  case (Update_project pid)
  show ?thesis unfolding Update_project view_of.simps update_project_def
    by (intro keeps_route_rules keeps_case_sum)
next
  case (Delete_project pid)
  then have "pid \<in> D" using assms(2) by simp
  then show ?thesis unfolding Delete_project view_of.simps delete_project_def
    by (intro keeps_route_rules keeps_delete_record)
next
  case (Create_project_deployment pid)
  show ?thesis unfolding Create_project_deployment view_of.simps create_project_deployment_def Let_def
    by (intro keeps_route_rules)
next
  case (Deploy_project pid)
  show ?thesis unfolding Deploy_project view_of.simps deploy_project_def Let_def
    by (intro keeps_route_rules)
next
  case (Retry_project_deployment pid did)
  show ?thesis unfolding Retry_project_deployment view_of.simps retry_project_deployment_def
    by (intro keeps_route_rules)
next
  case (Redeploy_project pid)
  show ?thesis unfolding Redeploy_project view_of.simps redeploy_project_def
    by (intro keeps_route_rules)
next
  case (Stop_project_deployment pid did)
  show ?thesis unfolding Stop_project_deployment view_of.simps stop_project_deployment_def
    by (intro keeps_route_rules keeps_queue_command [OF assms(1)])
next
  case (Cleanup_project_deployment pid did)
  show ?thesis unfolding Cleanup_project_deployment view_of.simps cleanup_project_deployment_def
    by (intro keeps_route_rules keeps_queue_command [OF assms(1)])
next
  case (Update_project_deployment pid did)
  show ?thesis unfolding Update_project_deployment view_of.simps update_project_deployment_def
    by (intro keeps_route_rules keeps_queue_command [OF assms(1)])
qed

lemma keeps_delivery_writes: "keeps I (add_delivery mk)" "keeps I (set_delivery i f)" "keeps I (close_delivery reserved f)"
proof -
  show "keeps I (add_delivery mk)" by (simp add: keeps_def add_delivery_def Let_def I_deliveries)
  show set: "keeps I (set_delivery i f)" for i
    unfolding set_delivery_def by (intro keeps_store I_deliveries)
  show "keeps I (close_delivery reserved f)" unfolding close_delivery_def by (intro step_rules set)
qed

lemma keeps_reserve: "upholds I others \<Longrightarrow> keeps I (reserve_delivery_id others n)"
  unfolding reserve_delivery_id_def Let_def by (intro step_rules keeps_interfere keeps_delivery_writes)

lemma keeps_ignored: "upholds I others \<Longrightarrow> keeps I (persist_ignored_delivery others reason n)"
  unfolding persist_ignored_delivery_def by (intro step_rules keeps_reserve keeps_delivery_writes)

lemma keeps_deploy_all: "keeps I (deploy_all a n ps)"
  by (induction ps) (auto simp: deploy_push_def intro!: step_rules keeps_requests)

lemma keeps_accept_push: "keeps I (accept_push a h n reserved ps)"
  unfolding accept_push_def by (intro step_rules keeps_deploy_all keeps_delivery_writes)

lemma keeps_handle_push: "upholds I others \<Longrightarrow> keeps I (handle_push a others h payload n j)"
  unfolding handle_push_def Let_def
  by (intro step_rules keeps_ignored keeps_reserve keeps_delivery_writes keeps_accept_push)

lemma keeps_webhook: "upholds I others \<Longrightarrow> keeps I (github_webhook a others h)"
  unfolding github_webhook_def Let_def
  by (intro step_rules) (auto split: json.split intro!: step_rules keeps_ignored keeps_handle_push)

lemma keeps_cleanup_all: "keeps I (cleanup_all k cutoff current ds)"
proof (induction ds)
  case (Cons d ds)
  have forget: "frame_build forget_workspace" by (simp add: frame_build_def forget_workspace_def)
  have "keeps I (cleanup_deployment k cutoff current d)"
    unfolding cleanup_deployment_def by (intro step_rules keeps_set_build keeps_add_event forget)
  then show ?case using Cons by (auto intro!: step_rules)
qed (simp add: keeps_ret)

lemma keeps_retention: "keeps I (cleanup_observability_data k days applied include_audit_events)"
  unfolding cleanup_observability_data_def Let_def
  by (intro step_rules keeps_cleanup_all keeps_store I_prune)

lemma keeps_closed: "keeps I m \<Longrightarrow> I (fst y) \<Longrightarrow> I (fst (closed (snd (m (opened y)))))"
  by (simp add: keeps_def opened_def closed_def)

lemma keeps_served: "keeps I m \<Longrightarrow> I (fst y) \<Longrightarrow> I (fst (closed (snd (served m (opened y)))))"
  unfolding served_closed by (rule keeps_closed)

lemma platform_keeps:
  assumes "platform C F D x y" "\<And>c. c \<in> C \<Longrightarrow> factory_keeps I c" "\<And>f. f \<in> F \<Longrightarrow> upholds I f" "I (fst x)"
  shows "I (fst y)"
  using assms(1)
proof induction
  case Start
  then show ?case using assms(4) .
next
  case (Work y c)
  have "keeps I (process_next_work_item c)"
    by (rule keeps_process_next_work_item) (use assms(2) [OF Work(2)] in \<open>auto simp: factory_keeps_def\<close>)
  then show ?case using Work(3) by (rule keeps_closed)
next
  case (Reconcile y c)
  show ?case by (rule keeps_closed [OF keeps_reconcile_deployments [OF assms(2) [OF Reconcile(2)]] Reconcile(3)])
next
  case (Request y others a r route)
  show ?case by (rule keeps_served [OF keeps_view [OF assms(3) [OF Request(2)] Request(3)] Request(4)])
next
  case (Webhook y others a h)
  show ?case by (rule keeps_served [OF keeps_webhook [OF assms(3) [OF Webhook(2)]] Webhook(3)])
next
  case (Retain y k days applied include_audit_events)
  show ?case by (rule keeps_closed [OF keeps_retention Retain(2)])
next
  case (Time w t t')
  then show ?case by simp
qed

end

section \<open>The life of the rows\<close>

text \<open>
  The history of \<open>Invariants\<close>, for processes that also write projects, delete the projects \<open>D\<close>
  with all their rows, and remove diagnostic events.
\<close>

definition staying :: "nat set \<Rightarrow> world \<Rightarrow> nat set" where
  "staying D w0 = {i. case get_dep w0 i of None \<Rightarrow> False | Some d \<Rightarrow> d_project_id d \<notin> D}"

definition staying_builds :: "nat set \<Rightarrow> world \<Rightarrow> nat set" where
  "staying_builds D w0 = {i. case get_build w0 i of None \<Rightarrow> False | Some b \<Rightarrow> b_project_id b \<notin> D}"

definition staying_cmds :: "nat set \<Rightarrow> world \<Rightarrow> nat set" where
  "staying_cmds D w0 = {i. case get_cmd w0 i of None \<Rightarrow> False | Some k \<Rightarrow> c_deployment_id k \<in> staying D w0}"

definition lasting :: "nat set \<Rightarrow> world \<Rightarrow> event \<Rightarrow> bool" where
  "lasting D w0 e \<longleftrightarrow> e_deployment_id e \<in> staying D w0
     \<and> \<not> list_ex (\<lambda>p. like_prefix p (e_event_type e)) DISPOSABLE_EVENT_PREFIXES"

definition lifecycle :: "nat set \<Rightarrow> world \<Rightarrow> world \<Rightarrow> bool" where
  "lifecycle D w0 w \<longleftrightarrow> wf_deps w
     \<and> extends dep_history (get_dep w0 |` staying D w0) (get_dep w)
     \<and> extends build_history (get_build w0 |` staying_builds D w0) (get_build w)
     \<and> extends cmd_history (get_cmd w0 |` staying_cmds D w0) (get_cmd w)
     \<and> (\<exists>es. filter (lasting D w0) (events w) = filter (lasting D w0) (events w0) @ es)"

lemma other_tables:
  "get_dep (w\<lparr>projects := ps\<rparr>) = get_dep w" "get_build (w\<lparr>projects := ps\<rparr>) = get_build w"
  "get_cmd (w\<lparr>projects := ps\<rparr>) = get_cmd w"
  "get_dep (w\<lparr>audits := as\<rparr>) = get_dep w" "get_build (w\<lparr>audits := as\<rparr>) = get_build w"
  "get_cmd (w\<lparr>audits := as\<rparr>) = get_cmd w"
  "get_dep (w\<lparr>deliveries := vs\<rparr>) = get_dep w" "get_build (w\<lparr>deliveries := vs\<rparr>) = get_build w"
  "get_cmd (w\<lparr>deliveries := vs\<rparr>) = get_cmd w"
  "get_dep (w\<lparr>commands := ks\<rparr>) = get_dep w" "get_build (w\<lparr>commands := ks\<rparr>) = get_build w"
  "get_dep (w\<lparr>events := es\<rparr>) = get_dep w" "get_build (w\<lparr>events := es\<rparr>) = get_build w"
  "get_cmd (w\<lparr>events := es\<rparr>) = get_cmd w"
  "get_dep (w\<lparr>builds := bs\<rparr>) = get_dep w" "get_cmd (w\<lparr>builds := bs\<rparr>) = get_cmd w"
  "get_build (w\<lparr>deployments := ds\<rparr>) = get_build w" "get_cmd (w\<lparr>deployments := ds\<rparr>) = get_cmd w"
  by (simp_all add: fun_eq_iff get_dep_def get_build_def get_cmd_def)

lemma extends_restrict_refl: "(\<And>r. R r r) \<Longrightarrow> extends R (g |` A) g"
  by (auto simp: extends_def restrict_map_def)

lemma lifecycle_refl: "wf_deps w \<Longrightarrow> lifecycle D w w"
  by (auto simp: lifecycle_def dep_history_def build_history_def cmd_history_def intro!: extends_restrict_refl)

lemma wf_deps_upd: "(\<And>d. d_id (f d) = d_id d) \<Longrightarrow> wf_deps (upd_dep i f w) = wf_deps w"
  by (simp add: wf_deps_def upd_dep_def row_alter_other_key)

lemma lifecycle_upd_dep:
  assumes "lifecycle D w0 w" "\<And>d. d_id (f d) = d_id d"
    and "\<And>d d'. get_dep w i = Some d' \<Longrightarrow> dep_history d d' \<Longrightarrow> dep_history d (f d')"
  shows "lifecycle D w0 (upd_dep i f w)"
  using assms(1) extends_upd_dep [OF _ assms(2,3)] by (simp add: lifecycle_def frame_gets wf_deps_upd assms(2))

lemma lifecycle_upd_build:
  assumes "lifecycle D w0 w" "\<And>b. b_id (f b) = b_id b"
    and "\<And>b b'. get_build w i = Some b' \<Longrightarrow> build_history b b' \<Longrightarrow> build_history b (f b')"
  shows "lifecycle D w0 (upd_build i f w)"
  using assms(1) extends_upd_build [OF _ assms(2,3)]
  by (simp add: lifecycle_def frame_gets) (simp add: wf_deps_def upd_build_def)

lemma lifecycle_upd_cmd:
  assumes "lifecycle D w0 w" "\<And>k. c_id (f k) = c_id k"
    and "\<And>k k'. get_cmd w i = Some k' \<Longrightarrow> cmd_history k k' \<Longrightarrow> cmd_history k (f k')"
  shows "lifecycle D w0 (upd_cmd i f w)"
  using assms(1) extends_upd_cmd [OF _ assms(2,3)]
  by (simp add: lifecycle_def frame_gets) (simp add: wf_deps_def upd_cmd_def)

text \<open>Rows that a deletion does not match are found as before.\<close>

lemma row_filter: "row key i xs = Some r \<Longrightarrow> P r \<Longrightarrow> row key i (filter P xs) = Some r"
  by (induction xs) (auto simp: row_Cons split: if_splits)

lemma staying_dep:
  assumes "lifecycle D w0 w" "i \<in> staying D w0"
  obtains d where "get_dep w i = Some d" "d_project_id d \<notin> D"
proof -
  obtain d0 where d0: "get_dep w0 i = Some d0" "d_project_id d0 \<notin> D"
    using assms(2) by (auto simp: staying_def split: option.splits)
  then have "(get_dep w0 |` staying D w0) i = Some d0" using assms(2) by simp
  then obtain d where "get_dep w i = Some d" "dep_history d0 d"
    using assms(1) unfolding lifecycle_def extends_def by blast
  then show thesis using that [of d] d0(2) by (simp add: dep_history_def)
qed

lemma staying_survives:
  assumes "lifecycle D w0 w" "i \<in> staying D w0" "pid \<in> D"
  shows "i \<notin> d_id ` {d \<in> set (deployments w). d_project_id d = pid}"
proof
  assume "i \<in> d_id ` {d \<in> set (deployments w). d_project_id d = pid}"
  then obtain d where d: "d \<in> set (deployments w)" "d_id d = i" "d_project_id d = pid" by blast
  moreover have "wf_deps w" using assms(1) by (simp add: lifecycle_def)
  ultimately have "get_dep w i = Some d" using get_dep_member [of w d] by simp
  moreover obtain d' where "get_dep w i = Some d'" "d_project_id d' \<notin> D" by (rule staying_dep [OF assms(1,2)])
  ultimately show False using d(3) assms(3) by simp
qed

lemma extends_filter:
  assumes "extends R g (\<lambda>i. row key i xs)" "\<And>i r r'. g i = Some r \<Longrightarrow> row key i xs = Some r' \<Longrightarrow> R r r' \<Longrightarrow> P r'"
  shows "extends R g (\<lambda>i. row key i (filter P xs))"
  unfolding extends_def
proof (intro allI impI)
  fix i r assume "g i = Some r"
  moreover from this obtain r' where "row key i xs = Some r'" "R r r'" using assms(1) unfolding extends_def by blast
  ultimately show "\<exists>r'. row key i (filter P xs) = Some r' \<and> R r r'"
    using row_filter [of key i xs r' P] assms(2) [of i r r'] by simp
qed

lemma lifecycle_delete:
  assumes "lifecycle D w0 w" "pid \<in> D"
  shows "lifecycle D w0 (delete_rows pid w)"
proof -
  let ?gone = "map d_id (filter (\<lambda>d. d_project_id d = pid) (deployments w))"
  note stays = staying_survives [OF assms(1) _ assms(2)]
  have gone: "i \<notin> set ?gone" if "i \<in> staying D w0" for i using stays [OF that] by simp
  have exts: "extends dep_history (get_dep w0 |` staying D w0) (\<lambda>i. row d_id i (deployments w))"
    "extends build_history (get_build w0 |` staying_builds D w0) (\<lambda>i. row b_id i (builds w))"
    "extends cmd_history (get_cmd w0 |` staying_cmds D w0) (\<lambda>i. row c_id i (commands w))"
    using assms(1) by (simp_all add: lifecycle_def get_dep_def [abs_def] get_build_def [abs_def] get_cmd_def [abs_def])
  have "d_project_id d' \<noteq> pid" if "(get_dep w0 |` staying D w0) i = Some d" "row d_id i (deployments w) = Some d'" for i d d'
  proof -
    have "i \<in> staying D w0" using that(1) by (simp add: restrict_map_def split: if_splits)
    then obtain d1 where "get_dep w i = Some d1" "d_project_id d1 \<notin> D" by (rule staying_dep [OF assms(1)])
    then show ?thesis using that(2) assms(2) by (auto simp: get_dep_def)
  qed
  then have "extends dep_history (get_dep w0 |` staying D w0) (\<lambda>i. row d_id i (filter (\<lambda>d. d_project_id d \<noteq> pid) (deployments w)))"
    by (intro extends_filter [OF exts(1)])
  then have "extends dep_history (get_dep w0 |` staying D w0) (get_dep (delete_rows pid w))"
    by (simp add: get_dep_def [abs_def] delete_rows_def Let_def)
  moreover
  have "b_project_id b' \<noteq> pid" if "(get_build w0 |` staying_builds D w0) i = Some b" "build_history b b'" for i b b'
    using that assms(2) by (auto simp: restrict_map_def staying_builds_def build_history_def split: if_splits option.splits)
  then have "extends build_history (get_build w0 |` staying_builds D w0)
      (\<lambda>i. row b_id i (filter (\<lambda>b. b_project_id b \<noteq> pid) (builds w)))"
    by (intro extends_filter [OF exts(2)])
  then have "extends build_history (get_build w0 |` staying_builds D w0) (get_build (delete_rows pid w))"
    by (simp add: get_build_def [abs_def] delete_rows_def Let_def)
  moreover
  have "c_deployment_id k' \<notin> set ?gone" if "(get_cmd w0 |` staying_cmds D w0) i = Some k" "cmd_history k k'" for i k k'
    by (rule gone) (use that in \<open>auto simp: restrict_map_def staying_cmds_def cmd_history_def split: if_splits option.splits\<close>)
  then have "extends cmd_history (get_cmd w0 |` staying_cmds D w0)
      (\<lambda>i. row c_id i (filter (\<lambda>k. c_deployment_id k \<notin> set ?gone) (commands w)))"
    by (intro extends_filter [OF exts(3)])
  then have "extends cmd_history (get_cmd w0 |` staying_cmds D w0) (get_cmd (delete_rows pid w))"
    by (simp add: get_cmd_def [abs_def] delete_rows_def Let_def)
  moreover
  have "e_deployment_id e \<notin> set ?gone" if "lasting D w0 e" for e
    by (rule gone) (use that in \<open>simp add: lasting_def\<close>)
  then have "filter (lasting D w0) (filter (\<lambda>e. e_deployment_id e \<notin> set ?gone) (events w)) = filter (lasting D w0) (events w)"
    unfolding filter_filter by (intro filter_cong) blast+
  then have "filter (lasting D w0) (events (delete_rows pid w)) = filter (lasting D w0) (events w)"
    by (simp add: delete_rows_def Let_def)
  moreover have "wf_deps (delete_rows pid w)"
    using assms(1) by (simp add: lifecycle_def wf_deps_def delete_rows_def Let_def distinct_map_filter)
  ultimately show ?thesis using assms(1) by (simp add: lifecycle_def)
qed

lemma lifecycle_prune:
  assumes "lifecycle D w0 w"
  shows "lifecycle D w0 (delete_old cutoff au w)"
proof -
  have "filter (lasting D w0) (events (delete_old cutoff au w)) = filter (lasting D w0) (events w)"
    by (auto simp: delete_old_def lasting_def disposable_event_def intro!: filter_cong)
  moreover have "get_dep (delete_old cutoff au w) = get_dep w" "get_build (delete_old cutoff au w) = get_build w"
    "get_cmd (delete_old cutoff au w) = get_cmd w" "wf_deps (delete_old cutoff au w) = wf_deps w"
    by (simp_all add: fun_eq_iff get_dep_def get_build_def get_cmd_def delete_old_def wf_deps_def)
  ultimately show ?thesis using assms by (simp add: lifecycle_def)
qed

interpretation plife: platform_invariant "lifecycle D w0" D for D w0
proof
  show "lifecycle D w0 (upd_dep i f w)" if "frame_dep f" "lifecycle D w0 w" for f w i
    by (rule lifecycle_upd_dep [OF that(2)])
      (use that(1) in \<open>simp add: frame_dep_def\<close>, rule frame_dep_history [OF that(1)])
  show "lifecycle D w0 (upd_dep i (touch_dep t (\<lambda>d. d\<lparr>d_status := st\<rparr>)) w)"
    if "get_dep w i = Some d" "can_transition_to d st" "lifecycle D w0 w" for w i d st t
    using that by (intro lifecycle_upd_dep) (auto intro: status_dep_history)
  show "lifecycle D w0 (upd_build i g w)" if "frame_build g" "lifecycle D w0 w" for g w i
    by (rule lifecycle_upd_build [OF that(2)])
      (use that(1) in \<open>simp add: frame_build_def\<close>, rule frame_build_history [OF that(1)])
  show "lifecycle D w0 (upd_build i (touch_build t (\<lambda>b. b\<lparr>b_status := bst\<rparr>)) w)"
    if "get_build w i = Some b" "build_can_transition_to b bst" "lifecycle D w0 w" for w i b bst t
    using that by (intro lifecycle_upd_build) (auto intro: status_build_history)
  show "lifecycle D w0 (upd_cmd i h w)" if "frame_cmd h" "lifecycle D w0 w" for h w i
    by (rule lifecycle_upd_cmd [OF that(2)])
      (use that(1) in \<open>simp add: frame_cmd_def\<close>, rule frame_cmd_history [OF that(1)])
  show "lifecycle D w0 (upd_cmd i (\<lambda>c. c\<lparr>c_status := C_claimed, c_claimed_by := Some wk, c_claimed_at := Some t\<rparr>) w)"
    if "get_cmd w i = Some k" "cmd_active (c_status k)" "lifecycle D w0 w" for w i k wk t
    using that by (intro lifecycle_upd_cmd) (auto simp: cmd_history_def)
  show "lifecycle D w0 (w\<lparr>events := events w @ [mk (next_id e_id (events w)) t]\<rparr>)"
    if "lifecycle D w0 w" for w mk and t :: int
    using that by (auto simp: lifecycle_def other_tables wf_deps_def)
  show "lifecycle D w0 (w\<lparr>builds := builds w @ [new_build a p q (next_id b_id (builds w)) t]\<rparr>)"
    if "lifecycle D w0 w" for w a p q t
    using that extends_append [of build_history "get_build w0 |` staying_builds D w0" b_id "builds w"]
    by (simp add: lifecycle_def other_tables) (simp add: get_build_def [abs_def] wf_deps_def)
  show "lifecycle D w0 (w\<lparr>deployments := deployments w @ [new_deployment a p q bid (next_id d_id (deployments w)) t]\<rparr>)"
    if "lifecycle D w0 w" for w a p q bid t
  proof -
    have "next_id d_id (deployments w) \<notin> d_id ` set (deployments w)"
      using next_id_fresh [of _ "deployments w" d_id] by fastforce
    then show ?thesis
      using that extends_append [of dep_history "get_dep w0 |` staying D w0" d_id "deployments w"]
      by (simp add: lifecycle_def other_tables) (simp add: get_dep_def [abs_def] wf_deps_def new_deployment_def)
  qed
  show "lifecycle D w0 (w\<lparr>audits := as\<rparr>)" "lifecycle D w0 (w\<lparr>deliveries := vs\<rparr>)" "lifecycle D w0 (w\<lparr>projects := ps\<rparr>)"
    if "lifecycle D w0 w" for w as vs ps
    using that by (simp_all add: lifecycle_def other_tables wf_deps_def)
  show "lifecycle D w0 (w\<lparr>commands := commands w @ [new_command a did ct msg (next_id c_id (commands w)) t]\<rparr>)"
    if "lifecycle D w0 w" for w a did ct msg t
    using that extends_append [of cmd_history "get_cmd w0 |` staying_cmds D w0" c_id "commands w"]
    by (simp add: lifecycle_def other_tables) (simp add: get_cmd_def [abs_def] wf_deps_def)
  show "lifecycle D w0 (delete_rows pid w)" if "pid \<in> D" "lifecycle D w0 w" for pid w
    using that by (intro lifecycle_delete)
  show "lifecycle D w0 (delete_old cutoff au w)" if "lifecycle D w0 w" for cutoff au w
    using that by (rule lifecycle_prune)
qed

lemma commands_ok_filter: "commands_ok ks \<Longrightarrow> commands_ok (filter P ks)"
  unfolding commands_ok_def by (auto simp: distinct_map_filter)

interpretation pactv: platform_invariant active_commands_ok D for D
proof
  show "active_commands_ok (w\<lparr>commands := commands w @ [new_command a did ct msg (next_id c_id (commands w)) t]\<rparr>)"
    if "active_commands_ok w" "conflict_free did ct w" for w a did ct msg t
  proof (rule active_new_command [OF that(1)])
    fix k assume "k \<in> set (commands w)" "cmd_active (c_status k)"
    then show "\<not> command_of did ct k"
      using that(2) active_key_of [OF that(1)] by (auto simp: conflict_free_def list_ex_iff)
  qed
qed (simp_all add: active_commands_ok_def delete_rows_def delete_old_def Let_def commands_ok_filter)

section \<open>Both together\<close>

definition platform_safe :: "nat set \<Rightarrow> world \<Rightarrow> world \<Rightarrow> bool" where
  "platform_safe D w0 w \<longleftrightarrow> lifecycle D w0 w \<and> active_commands_ok w"

lemmas safe_steps =
  plife.I_dep plife.I_dep_status plife.I_build plife.I_build_status plife.I_cmd plife.I_cmd_claim plife.I_event
  plife.I_new_build plife.I_new_dep plife.I_audits plife.I_deliveries plife.I_projects plife.I_new_cmd
  plife.I_delete plife.I_prune
  actv.I_dep actv.I_dep_status actv.I_build actv.I_build_status actv.I_cmd actv.I_cmd_claim actv.I_event
  gactv.I_new_build gactv.I_new_dep pactv.I_audits pactv.I_deliveries pactv.I_projects pactv.I_new_cmd
  pactv.I_delete pactv.I_prune

interpretation psafe: platform_invariant "platform_safe D w0" D for D w0
  by unfold_locales (use safe_steps in \<open>auto simp: platform_safe_def\<close>)

section \<open>Properties\<close>



lemma view_needs_role:
  assumes "\<not> entitled a r (required_role route)"
  shows "same_but_audits s (snd (view_of a r others route s))
    \<and> (case fst (view_of a r others route s) of Inl e \<Rightarrow> True | Inr response \<Rightarrow> fst response \<in> {401, 403})"
proof -
  have "\<exists>view. view_of a r others route = with_role a r (required_role route) view"
    by (cases route)
      (auto simp: create_project_def update_project_def delete_project_def create_project_deployment_def
        deploy_project_def retry_project_deployment_def redeploy_project_def stop_project_deployment_def
        cleanup_project_deployment_def update_project_deployment_def)
  then show ?thesis using view_entitled [OF assms] by metis
qed

text \<open>
  C2: Every route that changes rows asks for its role: deploying, retrying, redeploying,
  stopping and cleaning up need the role of deployers, everything else that of admins. A
  request without a configured token of that role (or with authentication not disabled at
  startup, when no token is configured) is answered with 401, 403 or, when the comparison
  of tokens raises, 500, and leaves every table but the audit trail as it was.
\<close>

theorem routes_require_roles:
  assumes "\<not> entitled a r (required_role route)"
  shows "fst (fst (served (view_of a r others route) s)) \<in> {401, 403, 500}
    \<and> (\<exists>as. com (snd (served (view_of a r others route) s)) = (com s)\<lparr>audits := as\<rparr>)"
  using view_needs_role [OF assms, of s others]
  by (auto simp: served_def same_but_audits_def split: prod.splits sum.splits)

theorem routes_require_roles_witness:
  "let s = at_rest (demo_world [demo_dep 3 Running None] [demo_build 3 B_succeeded] []);
       answer = served (view_of reader_api reader_request (\<lambda>w. w) (Delete_project 1)) s
   in fst (fst answer) \<in> {401, 403, 500} \<and> (\<exists>as. com (snd answer) = (com s)\<lparr>audits := as\<rparr>)"
proof -
  have "api_token_configs_from_config (t_loads reader_request) (v_config (api_venv reader_api))
      = Inr [\<lparr>tk_role = Read_only, tk_token = ''r-1'', tk_name = Some ''CONTROL_PLANE_API_TOKEN_READ_ONLY''\<rparr>]"
    by code_simp
  then have "\<not> entitled reader_api reader_request (required_role (Delete_project 1))"
    by (simp add: entitled_def allows_def)
  from routes_require_roles [OF this] show ?thesis by (simp only: Let_def)
qed

end
