(* ===== verification/Names.thy ===== *)
theory Names
  imports Execution
begin

text \<open>
  \<open>worker/executors/kubernetes/names.py\<close> and the names that the executors derive: Kubernetes
  labels, Helm releases, ingress hosts, container names and image components. The lemmas
  state that the names are valid labels of bounded length, which inputs they keep apart,
  and that the alphabetic number of an ingress host can be read back.
\<close>

section \<open>Slugs\<close>

definition label_char :: "char \<Rightarrow> bool" where
  "label_char c \<longleftrightarrow> is_lower c \<or> is_digit c \<or> c = CHR ''-''"

definition alnum_label_char :: "char \<Rightarrow> bool" where
  "alnum_label_char c \<longleftrightarrow> is_lower c \<or> is_digit c"

text \<open>\<open>re.sub\<close> of every maximal run of characters in \<open>p\<close> by one hyphen.\<close>

fun hyphenate :: "(char \<Rightarrow> bool) \<Rightarrow> string \<Rightarrow> string" where
  "hyphenate p [] = []"
| "hyphenate p [c] = (if p c then [CHR ''-''] else [c])"
| "hyphenate p (c # d # s) =
     (if p c then (if p d then hyphenate p (d # s) else CHR ''-'' # hyphenate p (d # s))
      else c # hyphenate p (d # s))"

definition is_hyphen :: "char \<Rightarrow> bool" where
  "is_hyphen c \<longleftrightarrow> c = CHR ''-''"

definition MAX_DNS_LABEL_LENGTH :: nat where
  "MAX_DNS_LABEL_LENGTH = 63"

definition MAX_HELM_RELEASE_LENGTH :: nat where
  "MAX_HELM_RELEASE_LENGTH = 53"

definition MANIFEST_SERVICE_SUFFIX :: string where
  "MANIFEST_SERVICE_SUFFIX = ''-svc''"

text \<open>The argument is \<open>str(value or "")\<close>.\<close>

definition dns_slug :: "string \<Rightarrow> string \<Rightarrow> nat \<Rightarrow> string" where
  "dns_slug v fallback max_length =
     (let slug = hyphenate (\<lambda>c. \<not> label_char c) (lower v);
          slug = strip_where is_hyphen (hyphenate is_hyphen slug);
          slug = (if slug = [] then fallback else slug);
          cut = rstrip_where is_hyphen (take max_length slug)
      in if cut = [] then take max_length fallback else cut)"

definition project_id_suffix :: "string \<Rightarrow> nat \<Rightarrow> string" where
  "project_id_suffix v max_length =
     (let raw = filter alnum_label_char (lower v)
      in rstrip_where is_hyphen (if take max_length raw = [] then ''unknown'' else take max_length raw))"

text \<open>\<open>str(project.name or "")\<close> of a specification, and \<open>str(project.id or "")\<close>.\<close>

definition spec_or_empty :: "(json \<Rightarrow> string) \<Rightarrow> dict \<Rightarrow> string \<Rightarrow> string" where
  "spec_or_empty show spec field = (if jtrue (jget spec field) then str_of_json show (jget spec field) else [])"

definition workload_name :: "string \<Rightarrow> nat \<Rightarrow> string" where
  "workload_name project_name max_length = dns_slug project_name ''app'' max_length"

definition manifest_deployment_name :: "string \<Rightarrow> nat \<Rightarrow> nat \<Rightarrow> string" where
  "manifest_deployment_name project_name did max_length =
     (let deployment_suffix = project_id_suffix (if did = 0 then [] else str_of_nat did) 20;
          base_max_length = max_length - length MANIFEST_SERVICE_SUFFIX;
          reserved = 4 + length deployment_suffix + 2;
          project_max_length = max 1 (base_max_length - reserved)
      in ''paas-'' @ workload_name project_name project_max_length @ ''-'' @ deployment_suffix)"

definition manifest_service_name :: "string \<Rightarrow> nat \<Rightarrow> nat \<Rightarrow> string" where
  "manifest_service_name project_name did max_length =
     manifest_deployment_name project_name did max_length @ MANIFEST_SERVICE_SUFFIX"

text \<open>The environment is that of the deployment, the identity is \<open>str(project.id or "")\<close>.\<close>

definition helm_release_name :: "string \<Rightarrow> string \<Rightarrow> string \<Rightarrow> nat \<Rightarrow> string" where
  "helm_release_name project_name project_id environment max_length =
     (let project_slug = workload_name project_name MAX_DNS_LABEL_LENGTH;
          environment_slug = dns_slug environment ''production'' MAX_DNS_LABEL_LENGTH;
          id_suffix = project_id_suffix project_id 12;
          reserved = 4 + length environment_slug + length id_suffix + 3;
          project_max_length = max 1 (max_length - reserved);
          project_slug = dns_slug project_slug ''app'' project_max_length
      in rstrip_where is_hyphen (take max_length
           (''paas-'' @ project_slug @ ''-'' @ environment_slug @ ''-'' @ id_suffix)))"

definition workload_labels :: "string \<Rightarrow> string \<Rightarrow> string \<Rightarrow> dict" where
  "workload_labels project_name project_id environment =
     (let release_name = helm_release_name project_name project_id environment MAX_HELM_RELEASE_LENGTH
      in [(''app.kubernetes.io/managed-by'', JStr ''autodeploy-control-plane''),
          (''app.kubernetes.io/instance'', JStr release_name),
          (''app.kubernetes.io/name'', JStr (workload_name project_name MAX_DNS_LABEL_LENGTH)),
          (''paas.dev/project-id'', JStr (project_id_suffix project_id MAX_DNS_LABEL_LENGTH)),
          (''paas.dev/workload'', JStr release_name)])"

text \<open>The Service and the Deployment of a Helm release.\<close>

definition helm_resource_name :: "string \<Rightarrow> string" where
  "helm_resource_name release_name = rstrip_where is_hyphen (take 63 (release_name @ ''-generic-web-app''))"

section \<open>Alphabetic numbers\<close>

text \<open>The loop of \<open>_alphabetic_id\<close>: bijective base 26, digits prepended instead of reversed at the end.\<close>

function alphabetic_loop :: "nat \<Rightarrow> string \<Rightarrow> string" where
  "alphabetic_loop number encoded =
     (if number = 0 then encoded
      else alphabetic_loop ((number - 1) div 26) (char_of (97 + (number - 1) mod 26) # encoded))"
  by pat_completeness auto
termination
proof (relation "measure fst")
  fix number :: nat and encoded :: string
  assume "number \<noteq> 0"
  then have "(number - 1) div 26 < number" using div_le_dividend [of "number - 1" 26] by linarith
  then show "(((number - 1) div 26, char_of (97 + (number - 1) mod 26) # encoded), (number, encoded)) \<in> measure fst"
    by simp
qed simp

declare alphabetic_loop.simps [simp del]

definition alphabetic_id :: "nat \<Rightarrow> exn + string" where
  "alphabetic_id did = (if did < 1 then Inl (OtherExn ''ValueError'' ''deployment_id must be a positive integer'')
     else Inr (alphabetic_loop did []))"

section \<open>Valid labels\<close>

definition is_label :: "nat \<Rightarrow> string \<Rightarrow> bool" where
  "is_label n s \<longleftrightarrow> s \<noteq> [] \<and> length s \<le> n \<and> list_all label_char s \<and> \<not> is_hyphen (hd s) \<and> \<not> is_hyphen (last s)"

lemma set_hyphenate: "c \<in> set (hyphenate p s) \<Longrightarrow> c \<in> set s \<and> \<not> p c \<or> c = CHR ''-''"
  by (induction p s rule: hyphenate.induct) (auto split: if_splits)

lemma label_char_hyphen [simp]: "label_char (CHR ''-'')"
  by (simp add: label_char_def)

lemma label_char_iff: "label_char c \<longleftrightarrow> alnum_label_char c \<or> is_hyphen c"
  by (auto simp: label_char_def alnum_label_char_def is_hyphen_def)

lemma alnum_not_hyphen: "alnum_label_char c \<Longrightarrow> \<not> is_hyphen c"
  by (auto simp: alnum_label_char_def is_hyphen_def is_lower_def is_digit_def less_eq_char_def)

lemma cut_label:
  assumes "s \<noteq> []" "list_all label_char s" "\<not> is_hyphen (hd s)" "0 < n"
  shows "is_label n (rstrip_where is_hyphen (take n s))"
proof -
  let ?t = "take n s" and ?r = "rstrip_where is_hyphen (take n s)"
  have t: "?t \<noteq> []" "hd ?t = hd s" using assms(1,4) by (cases s; cases n; simp)+
  have ne: "?r \<noteq> []"
    using t assms(3) unfolding rstrip_where_def by (metis dropWhile_eq_Nil_conv hd_in_set rev_is_Nil_conv set_rev)
  have "set ?r \<subseteq> set s" using set_rstrip_where [of is_hyphen ?t] set_take_subset [of n s] by blast
  then have "list_all label_char ?r" using assms(2) by (auto simp: list_all_iff)
  moreover have "length ?r \<le> n" using length_rstrip_where [of is_hyphen ?t] by simp
  moreover have "hd ?r = hd s" using rstrip_where_hd [OF ne] t by simp
  ultimately show ?thesis using ne assms(3) last_rstrip_where [OF ne] by (simp add: is_label_def)
qed

lemma dns_slug_label:
  assumes "fallback \<noteq> []" "list_all alnum_label_char fallback" "0 < n"
  shows "is_label n (dns_slug v fallback n)"
proof -
  define t where "t = strip_where is_hyphen (hyphenate is_hyphen (hyphenate (\<lambda>c. \<not> label_char c) (lower v)))"
  define slug where "slug = (if t = [] then fallback else t)"
  have fb: "list_all label_char fallback" "\<not> is_hyphen (hd fallback)"
    using assms(1,2) alnum_not_hyphen by (auto simp: list_all_iff label_char_iff)
  have "c \<in> set t \<Longrightarrow> label_char c" for c
    using set_strip_where [of is_hyphen] set_hyphenate [of c is_hyphen] set_hyphenate [of c "\<lambda>c. \<not> label_char c"]
    unfolding t_def by (metis label_char_hyphen subsetD)
  then have "slug \<noteq> []" "list_all label_char slug" "\<not> is_hyphen (hd slug)"
    using fb assms(1) hd_strip_where [of is_hyphen] by (auto simp: slug_def list_all_iff t_def)
  then have cut: "is_label n (rstrip_where is_hyphen (take n slug))" using cut_label assms(3) by blast
  then have "dns_slug v fallback n = rstrip_where is_hyphen (take n slug)"
    unfolding dns_slug_def Let_def t_def [symmetric] slug_def [symmetric] by (simp add: is_label_def)
  then show ?thesis using cut by simp
qed

lemmas workload_label = dns_slug_label [where fallback = "''app''", folded workload_name_def, simplified]

section \<open>Decimal numbers in names\<close>

lemma digit_char: "n < 10 \<Longrightarrow> is_digit (char_of (48 + n))" "n < 10 \<Longrightarrow> code (char_of (48 + n)) = 48 + n"
proof -
  assume "n < 10"
  then have "n \<in> {0, 1, 2, 3, 4, 5, 6, 7, 8, 9}" by auto
  then show "is_digit (char_of (48 + n))" "code (char_of (48 + n)) = 48 + n"
    by (auto simp: is_digit_def less_eq_char_def code_def)
qed

lemma str_of_nat_digits: "list_all is_digit (str_of_nat n)"
  by (induction n rule: str_of_nat.induct) (subst str_of_nat.simps, simp add: digit_char(1))

lemma str_of_nat_nonempty [simp]: "str_of_nat n \<noteq> []"
  by (subst str_of_nat.simps) simp

definition decimal :: "string \<Rightarrow> nat" where
  "decimal s = foldl (\<lambda>n c. n * 10 + (code c - 48)) 0 s"

lemma decimal_str_of_nat: "decimal (str_of_nat n) = n"
proof (induction n rule: str_of_nat.induct)
  case (1 n)
  show ?case
  proof (cases "n < 10")
    case True
    then show ?thesis by (subst str_of_nat.simps) (simp add: decimal_def digit_char(2))
  next
    case False
    then have "decimal (str_of_nat n) = decimal (str_of_nat (n div 10)) * 10 + n mod 10"
      by (subst str_of_nat.simps) (simp add: decimal_def digit_char(2))
    then show ?thesis using 1 [OF False] by simp
  qed
qed

lemma str_of_nat_inject: "str_of_nat m = str_of_nat n \<Longrightarrow> m = n"
  using decimal_str_of_nat by metis

lemma length_str_of_nat: "n < 10 ^ k \<Longrightarrow> 0 < k \<Longrightarrow> length (str_of_nat n) \<le> k"
proof (induction n arbitrary: k rule: str_of_nat.induct)
  case (1 n)
  show ?case
  proof (cases "n < 10")
    case True
    then show ?thesis using "1.prems" by (subst str_of_nat.simps) simp
  next
    case False
    then have "k \<noteq> 1" using "1.prems" by auto
    then obtain j where k: "k = Suc j" "0 < j" using "1.prems" by (cases k) auto
    have "n div 10 < 10 ^ j" using "1.prems" k by (simp add: less_mult_imp_div_less mult.commute)
    then have "length (str_of_nat (n div 10)) \<le> j" using "1.IH" [OF False] k(2) by blast
    then show ?thesis using False k by (subst str_of_nat.simps) simp
  qed
qed

lemma digit_alnum: "is_digit c \<Longrightarrow> alnum_label_char c"
  by (simp add: alnum_label_char_def)

lemma lower_digits: "list_all is_digit s \<Longrightarrow> lower s = s"
proof (induction s)
  case (Cons c s)
  have "\<not> is_upper c" "code c < 192"
    using Cons.prems by (auto simp: is_digit_def is_upper_def less_eq_char_def code_def)
  then show ?case using Cons by (simp add: lower_def lower_char_def)
qed (simp add: lower_def)

lemma suffix_of_nat: "project_id_suffix (str_of_nat n) k = (if k = 0 then ''unknown'' else take k (str_of_nat n))"
proof -
  have d: "list_all is_digit (take k (str_of_nat n))"
    using str_of_nat_digits [of n] set_take_subset [of k "str_of_nat n"] by (auto simp: list_all_iff)
  have "filter alnum_label_char (lower (str_of_nat n)) = str_of_nat n"
    using str_of_nat_digits [of n] by (simp add: lower_digits filter_id_conv list_all_iff digit_alnum)
  moreover have "rstrip_where is_hyphen t = t" if "t \<noteq> [] \<Longrightarrow> \<not> is_hyphen (last t)" for t
    using that by (cases t rule: rev_cases) (simp_all add: rstrip_where_def)
  moreover have "t \<noteq> [] \<Longrightarrow> list_all is_digit t \<Longrightarrow> \<not> is_hyphen (last t)" for t
    using alnum_not_hyphen digit_alnum by (auto simp: list_all_iff)
  moreover have "rstrip_where is_hyphen ''unknown'' = ''unknown''" by code_simp
  ultimately show ?thesis using d by (simp add: project_id_suffix_def Let_def)
qed

lemma whole_suffix: "n < 10 ^ k \<Longrightarrow> 0 < k \<Longrightarrow> project_id_suffix (str_of_nat n) k = str_of_nat n"
  using length_str_of_nat by (simp add: suffix_of_nat)

text \<open>Every suffix is alphanumeric and not empty.\<close>

lemma suffix_alnum: "list_all alnum_label_char (project_id_suffix v k)" "project_id_suffix v k \<noteq> []"
  "0 < k \<Longrightarrow> length (project_id_suffix v k) \<le> max k 7"
proof -
  define raw where "raw = take k (filter alnum_label_char (lower v))"
  define t where "t = (if raw = [] then ''unknown'' else raw)"
  have "list_all alnum_label_char raw"
    using set_take_subset [of k "filter alnum_label_char (lower v)"] by (auto simp: raw_def list_all_iff)
  moreover have "list_all alnum_label_char ''unknown''" by code_simp
  ultimately have t: "list_all alnum_label_char t" "t \<noteq> []" by (auto simp: t_def)
  then have "\<not> is_hyphen (last t)" using alnum_not_hyphen by (auto simp: list_all_iff)
  then have "rstrip_where is_hyphen t = t"
    using t(2) by (cases t rule: rev_cases) (simp_all add: rstrip_where_def)
  moreover have "project_id_suffix v k = rstrip_where is_hyphen t"
    by (simp add: project_id_suffix_def Let_def t_def raw_def)
  ultimately show "list_all alnum_label_char (project_id_suffix v k)" "project_id_suffix v k \<noteq> []"
    "0 < k \<Longrightarrow> length (project_id_suffix v k) \<le> max k 7"
    using t by (auto simp: t_def raw_def)
qed

section \<open>The names are labels\<close>

lemma alnum_label: "list_all alnum_label_char s \<Longrightarrow> list_all label_char s"
  by (auto simp: list_all_iff label_char_iff)

lemma manifest_name_label: "is_label 59 (manifest_deployment_name nm did 63)" "hd (manifest_deployment_name nm did 63) = CHR ''p''"
proof -
  define sfx where "sfx = project_id_suffix (if did = 0 then [] else str_of_nat did) 20"
  define m where "m = max 1 (53 - length sfx)"
  have sfx: "list_all alnum_label_char sfx" "sfx \<noteq> []" "length sfx \<le> 20"
    using suffix_alnum [where v = "if did = 0 then [] else str_of_nat did" and k = 20] by (simp_all add: sfx_def)
  have name: "manifest_deployment_name nm did 63 = ''paas-'' @ workload_name nm m @ ''-'' @ sfx"
    by (simp add: manifest_deployment_name_def MANIFEST_SERVICE_SUFFIX_def Let_def m_def sfx_def)
  have slug: "is_label m (workload_name nm m)"
    unfolding workload_name_def by (rule dns_slug_label) (simp, code_simp, simp add: m_def)
  have "\<not> is_hyphen (last sfx)" using sfx alnum_not_hyphen by (auto simp: list_all_iff)
  moreover have "list_all label_char ''paas-''" by code_simp
  moreover have "\<not> is_hyphen (CHR ''p'')" by (simp add: is_hyphen_def)
  moreover have "length sfx + m \<le> 53" using sfx(3) by (simp add: m_def)
  ultimately show "is_label 59 (manifest_deployment_name nm did 63)"
    using slug sfx alnum_label [OF sfx(1)] by (simp add: name is_label_def)
  show "hd (manifest_deployment_name nm did 63) = CHR ''p''" by (simp add: name)
qed

lemma service_name_label: "is_label 63 (manifest_service_name nm did 63)"
proof -
  have "list_all label_char ''-svc''" "\<not> is_hyphen (CHR ''c'')" by code_simp+
  then show ?thesis
    using manifest_name_label [of nm did] by (simp add: manifest_service_name_def MANIFEST_SERVICE_SUFFIX_def is_label_def)
qed

lemma slug_chars: "list_all label_char (dns_slug v ''app'' (max 1 k))" "list_all label_char (dns_slug v ''production'' 63)"
proof -
  have "list_all alnum_label_char ''app''" "list_all alnum_label_char ''production''" by code_simp+
  then have "is_label (max 1 k) (dns_slug v ''app'' (max 1 k))" "is_label 63 (dns_slug v ''production'' 63)"
    by (auto intro!: dns_slug_label)
  then show "list_all label_char (dns_slug v ''app'' (max 1 k))" "list_all label_char (dns_slug v ''production'' 63)"
    by (simp_all add: is_label_def)
qed

lemma release_name_label: "is_label 53 (helm_release_name nm pid env 53)" "hd (helm_release_name nm pid env 53) = CHR ''p''"
proof -
  define k where "k = 53 - (4 + length (dns_slug env ''production'' 63) + length (project_id_suffix pid 12) + 3)"
  define s where "s = ''paas-'' @ dns_slug (workload_name nm 63) ''app'' (max 1 k) @ ''-''
    @ dns_slug env ''production'' 63 @ ''-'' @ project_id_suffix pid 12"
  have name: "helm_release_name nm pid env 53 = rstrip_where is_hyphen (take 53 s)"
    by (simp add: helm_release_name_def Let_def s_def k_def MAX_DNS_LABEL_LENGTH_def)
  have p: "list_all label_char ''paas-''" "\<not> is_hyphen (CHR ''p'')" by code_simp+
  have "list_all label_char s"
    using slug_chars p(1) alnum_label [OF suffix_alnum(1)] by (simp add: s_def)
  moreover have "s \<noteq> []" "hd s = CHR ''p''" by (simp_all add: s_def)
  ultimately show l: "is_label 53 (helm_release_name nm pid env 53)"
    unfolding name using p(2) by (intro cut_label) simp_all
  show "hd (helm_release_name nm pid env 53) = CHR ''p''"
    using l rstrip_where_hd [of is_hyphen "take 53 s"] \<open>hd s = CHR ''p''\<close> \<open>s \<noteq> []\<close>
    by (simp add: name is_label_def)
qed

section \<open>Which inputs the names keep apart\<close>

lemma last_part:
  assumes "x @ CHR ''-'' # s = y @ CHR ''-'' # t" "CHR ''-'' \<notin> set s" "CHR ''-'' \<notin> set t"
  shows "s = t"
proof -
  have "rev s @ CHR ''-'' # rev x = rev t @ CHR ''-'' # rev y"
    using arg_cong [OF assms(1), of rev] by simp
  moreover have "takeWhile (\<lambda>c. c \<noteq> CHR ''-'') (rev u @ CHR ''-'' # v) = rev u" if "CHR ''-'' \<notin> set u" for u v
    using that by (subst takeWhile_append2) auto
  ultimately show ?thesis using assms(2,3) by (metis rev_rev_ident)
qed

lemma suffix_no_hyphen: "CHR ''-'' \<notin> set (project_id_suffix v k)"
  using suffix_alnum(1) [where v = v and k = k] alnum_not_hyphen by (auto simp: list_all_iff is_hyphen_def)

lemma manifest_name_inject:
  assumes "manifest_deployment_name nm did n = manifest_deployment_name nm' did' n'"
    and "0 < did" "did < 10 ^ 20" "0 < did'" "did' < 10 ^ 20"
  shows "did = did'"
proof -
  have "project_id_suffix (str_of_nat did) 20 = project_id_suffix (str_of_nat did') 20"
  proof (rule last_part)
    show "(''paas-'' @ workload_name nm (max 1 (n - 4 - (4 + length (project_id_suffix (str_of_nat did) 20) + 2))))
        @ CHR ''-'' # project_id_suffix (str_of_nat did) 20
      = (''paas-'' @ workload_name nm' (max 1 (n' - 4 - (4 + length (project_id_suffix (str_of_nat did') 20) + 2))))
        @ CHR ''-'' # project_id_suffix (str_of_nat did') 20"
      using assms(1,2,4) by (simp add: manifest_deployment_name_def Let_def MANIFEST_SERVICE_SUFFIX_def)
  qed (rule suffix_no_hyphen)+
  then show ?thesis using assms str_of_nat_inject by (simp add: whole_suffix)
qed

text \<open>A release name that is not cut ends in the identity of the project.\<close>

lemma release_name_whole:
  assumes "length (dns_slug env ''production'' 63) + length (project_id_suffix pid 12) \<le> 45"
  shows "\<exists>x. helm_release_name nm pid env 53 = x @ CHR ''-'' # project_id_suffix pid 12"
proof -
  define e where "e = dns_slug env ''production'' 63"
  define sfx where "sfx = project_id_suffix pid 12"
  define slug where "slug = dns_slug (workload_name nm 63) ''app'' (max 1 (53 - (4 + length e + length sfx + 3)))"
  define s where "s = (''paas-'' @ slug @ ''-'' @ e) @ CHR ''-'' # sfx"
  have "list_all alnum_label_char ''app''" by code_simp
  then have "length slug \<le> max 1 (53 - (4 + length e + length sfx + 3))"
    using dns_slug_label [of "''app''"] by (simp add: slug_def is_label_def)
  then have "take 53 s = s" using assms by (simp add: s_def e_def sfx_def)
  moreover have "\<not> is_hyphen (last s)"
    using suffix_alnum [where v = pid and k = 12] alnum_not_hyphen by (auto simp: s_def sfx_def list_all_iff)
  then have "rstrip_where is_hyphen s = s"
    by (cases s rule: rev_cases) (simp_all add: rstrip_where_def)
  ultimately have "helm_release_name nm pid env 53 = s"
    by (simp add: helm_release_name_def Let_def MAX_DNS_LABEL_LENGTH_def s_def slug_def e_def sfx_def)
  then show ?thesis by (auto simp: s_def sfx_def)
qed

lemma release_name_inject:
  assumes "helm_release_name nm (str_of_nat i) env 53 = helm_release_name nm' (str_of_nat j) env' 53"
    and "i < 10 ^ 12" "j < 10 ^ 12"
    and "length (dns_slug env ''production'' 63) + length (str_of_nat i) \<le> 45"
    and "length (dns_slug env' ''production'' 63) + length (str_of_nat j) \<le> 45"
  shows "i = j"
proof -
  have "project_id_suffix (str_of_nat i) 12 = str_of_nat i" "project_id_suffix (str_of_nat j) 12 = str_of_nat j"
    using assms(2,3) by (simp_all add: whole_suffix)
  then show ?thesis
    using release_name_whole [of env "str_of_nat i" nm] release_name_whole [of env' "str_of_nat j" nm'] assms(1,4,5)
      last_part suffix_no_hyphen str_of_nat_inject by metis
qed

lemma release_name_cut:
  assumes "46 \<le> length (dns_slug env ''production'' 63)"
  shows "helm_release_name nm pid env 53 = rstrip_where is_hyphen
    (take 53 (''paas-'' @ dns_slug (workload_name nm 63) ''app'' 1 @ ''-'' @ dns_slug env ''production'' 63))"
proof -
  define e where "e = dns_slug env ''production'' 63"
  define slug where "slug = dns_slug (workload_name nm 63) ''app'' 1"
  have "list_all alnum_label_char ''app''" by code_simp
  then have "is_label 1 slug" using dns_slug_label [of "''app''" 1] by (simp add: slug_def)
  then have "length slug = 1" by (cases slug) (auto simp: is_label_def)
  then have "take 53 (''paas-'' @ slug @ ''-'' @ e @ x) = take 53 (''paas-'' @ slug @ ''-'' @ e)" for x
    using assms by (simp add: e_def)
  then have "take 53 (''paas-'' @ slug @ ''-'' @ e @ ''-'' @ project_id_suffix pid 12)
      = take 53 (''paas-'' @ slug @ ''-'' @ e)"
    by simp
  moreover have "max 1 (53 - (4 + length e + length (project_id_suffix pid 12) + 3)) = 1"
    using assms suffix_alnum(2) [where v = pid and k = 12] by (simp add: e_def)
  ultimately show ?thesis
    by (simp add: helm_release_name_def Let_def MAX_DNS_LABEL_LENGTH_def slug_def e_def)
qed

section \<open>Reading an alphabetic number\<close>

definition alphabetic_value :: "string \<Rightarrow> nat" where
  "alphabetic_value s = foldl (\<lambda>n c. 26 * n + (code c - 96)) 0 s"

lemma letter_char: "n < 26 \<Longrightarrow> is_lower (char_of (97 + n)) \<and> code (char_of (97 + n)) = 97 + n"
proof -
  assume "n < 26"
  then have "of_char (char_of (97 + n) :: char) = 97 + n" by simp
  then show ?thesis using \<open>n < 26\<close> by (simp add: is_lower_def less_eq_char_def code_def)
qed

lemma foldl_letters: "foldl (\<lambda>n c. 26 * n + (code c - 96)) a s = a * 26 ^ length s + alphabetic_value s"
proof (induction s rule: rev_induct)
  case (snoc c s)
  then show ?case by (simp add: alphabetic_value_def algebra_simps)
qed (simp add: alphabetic_value_def)

lemma alphabetic_loop_value:
  "alphabetic_value (alphabetic_loop n s) = n * 26 ^ length s + alphabetic_value s
    \<and> (list_all is_lower s \<longrightarrow> list_all is_lower (alphabetic_loop n s))
    \<and> (n \<noteq> 0 \<or> s \<noteq> [] \<longrightarrow> alphabetic_loop n s \<noteq> [])"
proof (induction n s rule: alphabetic_loop.induct)
  case (1 n s)
  show ?case
  proof (cases "n = 0")
    case True
    then show ?thesis by (simp add: alphabetic_loop.simps)
  next
    case False
    let ?r = "(n - 1) mod 26" and ?q = "(n - 1) div 26"
    let ?c = "char_of (97 + ?r) :: char"
    have c: "is_lower ?c" "code ?c = 97 + ?r" using letter_char [of ?r] by simp_all
    have "alphabetic_value (?c # s) = (1 + ?r) * 26 ^ length s + alphabetic_value s"
      using foldl_letters [of "1 + ?r" s] c(2) by (simp add: alphabetic_value_def)
    moreover have "?q * 26 + ?r = n - 1" by simp
    then have "n = ?q * 26 + (1 + ?r)" using False by linarith
    then have "n * 26 ^ length s = ?q * 26 ^ length (?c # s) + (1 + ?r) * 26 ^ length s"
      by (metis add_mult_distrib length_Cons mult.assoc power_Suc)
    ultimately show ?thesis using 1 [OF False] False c(1) by (subst (1 2 3) alphabetic_loop.simps) simp
  qed
qed

section \<open>Properties\<close>

text \<open>
  Whatever a project and an environment are called, the names that are sent to
  Kubernetes are valid: labels of lower case letters, digits and inner hyphens that start
  with a letter, of at most 63 characters for a Deployment and its Service and of at most
  53 for a Helm release.
\<close>

theorem kubernetes_names_are_valid:
  "is_label 63 (manifest_deployment_name nm did 63) \<and> is_label 63 (manifest_service_name nm did 63)
    \<and> is_label 53 (helm_release_name nm pid env 53)
    \<and> hd (manifest_service_name nm did 63) = CHR ''p'' \<and> hd (helm_release_name nm pid env 53) = CHR ''p''"
proof -
  have "is_label 63 (manifest_deployment_name nm did 63)" "manifest_deployment_name nm did 63 \<noteq> []"
    using manifest_name_label(1) [of nm did] by (simp_all add: is_label_def)
  then show ?thesis
    using manifest_name_label(2) [of nm did] service_name_label release_name_label by (simp add: manifest_service_name_def)
qed

text \<open>
  C40: A Helm release belongs to one project as long as environment and identity fit: releases
  of different projects have different names when the slug of the environment and the
  number of the project have at most 45 characters together. With an environment of 46 or
  more characters, which validation accepts up to 64, the name is cut before the number of
  the project: two projects whose names start with the same character share the release.
\<close>

theorem release_names_tell_projects_apart:
  "(i < 10 ^ 12 \<and> j < 10 ^ 12 \<and> i \<noteq> j
      \<and> length (dns_slug env ''production'' 63) + max (length (str_of_nat i)) (length (str_of_nat j)) \<le> 45
    \<longrightarrow> helm_release_name nm (str_of_nat i) env 53 \<noteq> helm_release_name nm' (str_of_nat j) env 53)
   \<and> (46 \<le> length (dns_slug env ''production'' 63)
      \<and> dns_slug (workload_name nm 63) ''app'' 1 = dns_slug (workload_name nm' 63) ''app'' 1
    \<longrightarrow> helm_release_name nm (str_of_nat i) env 53 = helm_release_name nm' (str_of_nat j) env 53)"
  using release_name_inject [of nm i env nm' j env] release_name_cut [of env] by (auto simp: max_def split: if_splits)

theorem release_names_tell_projects_apart_witness:
  "helm_release_name ''shop'' (str_of_nat 1) ''staging'' 53 \<noteq> helm_release_name ''search'' (str_of_nat 2) ''staging'' 53
   \<and> (let env = ''review-environment-of-the-payments-squad-week-23''
      in helm_release_name ''shop'' (str_of_nat 1) env 53 = helm_release_name ''search'' (str_of_nat 2) env 53)"
proof -
  have "length (dns_slug ''staging'' ''production'' 63) + max (length (str_of_nat 1)) (length (str_of_nat 2)) \<le> 45"
    "46 \<le> length (dns_slug ''review-environment-of-the-payments-squad-week-23'' ''production'' 63)"
    "dns_slug (workload_name ''shop'' 63) ''app'' 1 = dns_slug (workload_name ''search'' 63) ''app'' 1"
    by code_simp+
  then show ?thesis
    using release_names_tell_projects_apart [of 1 2 "''staging''" "''shop''" "''search''"]
      release_names_tell_projects_apart [of 1 2 "''review-environment-of-the-payments-squad-week-23''" "''shop''" "''search''"]
    unfolding Let_def by simp
qed

text \<open>
  The ingress host of a deployment carries its number in letters: the number can be read
  back, so different deployments have different hosts.
\<close>

theorem alphabetic_id_read_back:
  assumes "1 \<le> did"
  shows "\<exists>s. alphabetic_id did = Inr s \<and> alphabetic_value s = did \<and> s \<noteq> [] \<and> list_all is_lower s"
  using alphabetic_loop_value [of did "[]"] assms by (simp add: alphabetic_id_def alphabetic_value_def)

theorem alphabetic_id_read_back_witness:
  "\<exists>s. alphabetic_id 703 = Inr s \<and> alphabetic_value s = 703 \<and> s \<noteq> [] \<and> list_all is_lower s"
  by (rule alphabetic_id_read_back) simp

end
