(* ===== verification/Machine.thy ===== *)
theory Machine
  imports Names Orchestration Demo
begin

text \<open>
  What the Docker and Kubernetes executors run on: the operating system as a parameter
  (processes, files, HTTP probes, time), and steps over the state of one executor call. The
  state holds the database that other processes and the claim heartbeat change while the
  call runs, a clock in milliseconds, the number of interactions so far, and the files the
  call has written and removed. Every interaction takes at least a millisecond and lets other
  processes commit. The lemmas state that such a step keeps what the heartbeat and the
  other processes keep.
\<close>

section \<open>The operating system\<close>

text \<open>
  A started process: its exit code and its output, by the milliseconds since its start (None
  while it runs).
\<close>

record child =
  ch_poll :: "int \<Rightarrow> int option"
  ch_stdout :: "int \<Rightarrow> string"
  ch_stderr :: "int \<Rightarrow> string"

text \<open>\<open>subprocess.CompletedProcess\<close>, \<open>subprocess.TimeoutExpired\<close> with its output, \<open>OSError\<close>.\<close>

datatype outcome = Completed int string string | Timed_out string string | Os_error string

text \<open>
  Every answer may depend on the number of the interaction. \<open>os_spawn\<close> starts a process,
  \<open>os_input\<close> runs one with a text as its input until it ends or the timeout (in
  milliseconds) is over; \<open>os_fails\<close> is the text of the \<open>OSError\<close> of a file operation;
  \<open>os_dumps\<close> is \<open>json.dumps\<close> with an indentation; \<open>os_probe\<close> is the outcome of an HTTP request: the text of an exception, or the status and
  the first 512 bytes of the body as text; \<open>os_resolve\<close> is \<open>Path.resolve\<close>, as the parts of
  the absolute path. A call starts with the interaction \<open>os_entry\<close>. \<open>os_dies\<close> is the time
  in milliseconds until a killed process has ended, and \<open>os_meanwhile\<close> what others commit
  until then.
\<close>

record os =
  os_spawn :: "nat \<Rightarrow> string list \<Rightarrow> (string \<times> string) list option \<Rightarrow> string + child"
  os_input :: "nat \<Rightarrow> string list \<Rightarrow> string \<Rightarrow> (string \<times> string) list option \<Rightarrow> int \<Rightarrow> outcome"
  os_probe :: "nat \<Rightarrow> string \<Rightarrow> string + (int \<times> string)"
  os_lag :: "nat \<Rightarrow> nat"
  os_entry :: "world \<Rightarrow> int \<Rightarrow> nat"
  os_others :: "nat \<Rightarrow> world \<Rightarrow> world"
  os_dies :: "nat \<Rightarrow> nat"
  os_meanwhile :: "nat \<Rightarrow> world \<Rightarrow> world"
  os_exists :: "nat \<Rightarrow> string \<Rightarrow> bool"
  os_resolve :: "nat \<Rightarrow> string \<Rightarrow> string list"
  os_is_file :: "nat \<Rightarrow> string \<Rightarrow> bool"
  os_fails :: "nat \<Rightarrow> string \<Rightarrow> string option"
  os_read :: "nat \<Rightarrow> string \<Rightarrow> string"
  os_port :: "nat \<Rightarrow> nat"
  os_uuid :: "nat \<Rightarrow> string"
  os_environ :: "(string \<times> string) list"
  os_loads :: "string \<Rightarrow> json option"
  os_dumps :: "nat option \<Rightarrow> json \<Rightarrow> string"
  os_shown :: "json \<Rightarrow> string"

section \<open>Steps of a call\<close>

record machine =
  m_world :: world
  m_ms :: int
  m_step :: nat
  m_files :: "(string \<times> bool \<times> string) list"
  m_removed :: "string list"

type_synonym 'a act = "machine \<Rightarrow> (exn + 'a) \<times> machine"

definition mret :: "'a \<Rightarrow> 'a act" where
  "mret x m = (Inr x, m)"

definition mthrow :: "exn \<Rightarrow> 'a act" where
  "mthrow e m = (Inl e, m)"

definition mbind :: "'a act \<Rightarrow> ('a \<Rightarrow> 'b act) \<Rightarrow> 'b act" where
  "mbind a k m = (case a m of (Inl e, m') \<Rightarrow> (Inl e, m') | (Inr x, m') \<Rightarrow> k x m')"

definition mcatch :: "'a act \<Rightarrow> (exn \<Rightarrow> 'a act) \<Rightarrow> 'a act" where
  "mcatch a h m = (case a m of (Inl e, m') \<Rightarrow> h e m' | (Inr x, m') \<Rightarrow> (Inr x, m'))"

primrec mseqs :: "unit act list \<Rightarrow> unit act" where
  "mseqs [] = mret ()"
| "mseqs (a # as) = mbind a (\<lambda>_. mseqs as)"

primrec mmap :: "('a \<Rightarrow> 'b act) \<Rightarrow> 'a list \<Rightarrow> 'b list act" where
  "mmap f [] = mret []"
| "mmap f (x # xs) = mbind (f x) (\<lambda>y. mbind (mmap f xs) (\<lambda>ys. mret (y # ys)))"

definition mlift :: "exn + 'a \<Rightarrow> 'a act" where
  "mlift r m = (r, m)"

definition mquery :: "(world \<Rightarrow> 'a) \<Rightarrow> 'a act" where
  "mquery f m = (Inr (f (m_world m)), m)"

definition mnow :: "int act" where
  "mnow m = (Inr (m_ms m), m)"

text \<open>\<open>except WorkerExecutionError as exc\<close>, and \<open>finally\<close>.\<close>

definition except_worker ::
    "'a act \<Rightarrow> (string \<Rightarrow> string \<Rightarrow> dict \<Rightarrow> string option \<Rightarrow> aux_event list \<Rightarrow> 'a act) \<Rightarrow> 'a act" where
  "except_worker a h = mcatch a (\<lambda>e. case e of
     ExecError step msg metadata file evs \<Rightarrow> h step msg metadata file evs | _ \<Rightarrow> mthrow e)"

definition mfinally :: "'a act \<Rightarrow> unit act \<Rightarrow> 'a act" where
  "mfinally a final_step = mbind (mcatch (mbind a (\<lambda>x. mret (Inr x))) (\<lambda>e. mret (Inl e)))
     (\<lambda>r. mbind final_step (\<lambda>_. mlift r))"

section \<open>Interactions\<close>

definition interact :: "os \<Rightarrow> int \<Rightarrow> (nat \<Rightarrow> 'a) \<Rightarrow> 'a act" where
  "interact s ms f m = (let n = m_step m in
     (Inr (f n), m\<lparr>m_step := Suc n, m_ms := m_ms m + max ms 0 + int (Suc (os_lag s n)),
                   m_world := os_others s n (m_world m)\<rparr>))"

definition os_sleep :: "os \<Rightarrow> int \<Rightarrow> unit act" where
  "os_sleep s ms = interact s ms (\<lambda>_. ())"

text \<open>
  \<open>process.kill()\<close> and \<open>process.wait()\<close>: SIGKILL cannot be caught, so the process ends, within
  the five seconds that some callers allow; the wait has no answer that anybody reads, and
  is not counted as an interaction.
\<close>

definition kill_and_wait :: "os \<Rightarrow> machine \<Rightarrow> machine" where
  "kill_and_wait s m = (let n = m_step m in
     m\<lparr>m_ms := m_ms m + int (os_dies s n), m_world := os_meanwhile s n (m_world m)\<rparr>)"

definition os_error :: "string \<Rightarrow> exn" where
  "os_error e = OtherExn ''OSError'' e"

text \<open>An operation on a file, and one that writes a text (appending to it or not).\<close>

definition file_op :: "os \<Rightarrow> string \<Rightarrow> unit act" where
  "file_op s file = mbind (interact s 0 (\<lambda>n. os_fails s n file)) (\<lambda>failure. case failure of
     None \<Rightarrow> mret () | Some e \<Rightarrow> mthrow (os_error e))"

definition write_text :: "os \<Rightarrow> bool \<Rightarrow> string \<Rightarrow> string \<Rightarrow> unit act" where
  "write_text s appending file text = mbind (file_op s file)
     (\<lambda>_ m. (Inr (), m\<lparr>m_files := m_files m @ [(file, appending, text)]\<rparr>))"

text \<open>\<open>shutil.rmtree\<close> and \<open>Path.unlink\<close>.\<close>

definition remove_file :: "os \<Rightarrow> string \<Rightarrow> unit act" where
  "remove_file s file = mbind (file_op s file)
     (\<lambda>_ m. (Inr (), m\<lparr>m_removed := m_removed m @ [file]\<rparr>))"

text \<open>The claim heartbeat: a transaction of the worker on the database of the moment.\<close>

definition beat :: "unit proc \<Rightarrow> unit act" where
  "beat hb m = (case hb \<lparr>com = m_world m, cur = m_world m, clock = m_ms m div 1000\<rparr> of
     (r, s') \<Rightarrow> (r, m\<lparr>m_world := com s'\<rparr>))"

section \<open>Settings of an executor\<close>

text \<open>Durations are in milliseconds.\<close>

record settings =
  st_workspace_root :: string
  st_command_timeout :: int
  st_retry_count :: nat
  st_heartbeat_interval :: int
  st_deploy_host :: string
  st_healthcheck_timeout :: int
  st_healthcheck_interval :: int
  st_registry_enabled :: bool
  st_registry_url :: string
  st_registry_namespace :: string
  st_registry_username :: "string option"
  st_registry_password :: "string option"
  st_deploy_target :: string
  st_heartbeat :: "unit proc option"

record kube = settings +
  kb_kubeconfig :: "string option"
  kb_namespace :: string
  kb_kubectl_bin :: string
  kb_image_pull_secret :: "string option"
  kb_deployment_mode :: string
  kb_helm_chart_path :: string
  kb_helm_binary :: string
  kb_helm_timeout :: string
  kb_ingress_enabled :: bool
  kb_ingress_class_name :: string
  kb_ingress_base_domain :: string
  kb_rollout_timeout :: int

section \<open>Invariants of a call\<close>

named_theorems act_rules \<open>which predicates on the database the steps of an executor keep\<close>

definition mkeeps :: "(world \<Rightarrow> bool) \<Rightarrow> 'a act \<Rightarrow> bool" where
  "mkeeps I a \<longleftrightarrow> (\<forall>m. I (m_world m) \<longrightarrow> I (m_world (snd (a m))))"

lemma mkeeps_ret [act_rules]: "mkeeps I (mret x)"
  by (simp add: mkeeps_def mret_def)

lemma mkeeps_throw [act_rules]: "mkeeps I (mthrow e)"
  by (simp add: mkeeps_def mthrow_def)

lemma mkeeps_lift [act_rules]: "mkeeps I (mlift r)"
  by (simp add: mkeeps_def mlift_def)

lemma mkeeps_query [act_rules]: "mkeeps I (mquery f)"
  by (simp add: mkeeps_def mquery_def)

lemma mkeeps_now [act_rules]: "mkeeps I mnow"
  by (simp add: mkeeps_def mnow_def)

lemma mkeeps_bind [act_rules]: "mkeeps I a \<Longrightarrow> (\<And>x. mkeeps I (k x)) \<Longrightarrow> mkeeps I (mbind a k)"
  unfolding mkeeps_def mbind_def by (auto split: prod.splits sum.splits)

lemma mkeeps_catch [act_rules]: "mkeeps I a \<Longrightarrow> (\<And>e. mkeeps I (h e)) \<Longrightarrow> mkeeps I (mcatch a h)"
  unfolding mkeeps_def mcatch_def by (auto split: prod.splits sum.splits)

lemma mkeeps_except [act_rules]:
  "mkeeps I a \<Longrightarrow> (\<And>s msg md l es. mkeeps I (h s msg md l es)) \<Longrightarrow> mkeeps I (except_worker a h)"
  unfolding except_worker_def by (auto split: exn.split intro!: mkeeps_catch mkeeps_throw)

lemma mkeeps_finally [act_rules]: "mkeeps I a \<Longrightarrow> mkeeps I b \<Longrightarrow> mkeeps I (mfinally a b)"
  unfolding mfinally_def by (intro act_rules)

lemma mkeeps_seqs_Nil [act_rules]: "mkeeps I (mseqs [])"
  by (simp add: mkeeps_ret)

lemma mkeeps_seqs_Cons [act_rules]: "mkeeps I a \<Longrightarrow> mkeeps I (mseqs as) \<Longrightarrow> mkeeps I (mseqs (a # as))"
  by (simp add: mkeeps_bind)

lemma mkeeps_map [act_rules]: "(\<And>x. mkeeps I (f x)) \<Longrightarrow> mkeeps I (mmap f xs)"
  by (induction xs) (auto intro: act_rules)

lemma mkeeps_if [act_rules]: "(b \<Longrightarrow> mkeeps I x) \<Longrightarrow> (\<not> b \<Longrightarrow> mkeeps I y) \<Longrightarrow> mkeeps I (if b then x else y)"
  by simp

lemma mkeeps_case_option [act_rules]:
  "mkeeps I x \<Longrightarrow> (\<And>v. mkeeps I (y v)) \<Longrightarrow> mkeeps I (case a of None \<Rightarrow> x | Some v \<Rightarrow> y v)"
  by (cases a) auto

lemma mkeeps_case_sum [act_rules]:
  "(\<And>v. mkeeps I (x v)) \<Longrightarrow> (\<And>v. mkeeps I (y v)) \<Longrightarrow> mkeeps I (case a of Inl v \<Rightarrow> x v | Inr v \<Rightarrow> y v)"
  by (cases a) auto

lemma mkeeps_case_prod [act_rules]: "(\<And>a b. mkeeps I (x a b)) \<Longrightarrow> mkeeps I (case p of (a, b) \<Rightarrow> x a b)"
  by (cases p) simp

lemma mkeeps_case_outcome [act_rules]:
  "(\<And>a b c. mkeeps I (x a b c)) \<Longrightarrow> (\<And>a b. mkeeps I (y a b)) \<Longrightarrow> (\<And>a. mkeeps I (z a)) \<Longrightarrow>
    mkeeps I (case r of Completed a b c \<Rightarrow> x a b c | Timed_out a b \<Rightarrow> y a b | Os_error a \<Rightarrow> z a)"
  by (cases r) auto

text \<open>Other processes and the heartbeat keep the predicate.\<close>

definition quiet :: "(world \<Rightarrow> bool) \<Rightarrow> os \<Rightarrow> bool" where
  "quiet I s \<longleftrightarrow> (\<forall>n w. I w \<longrightarrow> I (os_others s n w) \<and> I (os_meanwhile s n w))"

definition beats_keep :: "(world \<Rightarrow> bool) \<Rightarrow> 'a settings_scheme \<Rightarrow> bool" where
  "beats_keep I st \<longleftrightarrow> (\<forall>hb. st_heartbeat st = Some hb \<longrightarrow> keeps I hb)"

lemma mkeeps_interact: "quiet I s \<Longrightarrow> mkeeps I (interact s ms f)"
  by (simp add: mkeeps_def interact_def quiet_def Let_def)

lemma mkeeps_beat: "keeps I hb \<Longrightarrow> mkeeps I (beat hb)"
  unfolding mkeeps_def beat_def
proof (intro allI impI)
  fix m assume hb: "keeps I hb" and m: "I (m_world m)"
  obtain r s' where run: "hb \<lparr>com = m_world m, cur = m_world m, clock = m_ms m div 1000\<rparr> = (r, s')"
    by fastforce
  show "I (m_world (snd (case hb \<lparr>com = m_world m, cur = m_world m, clock = m_ms m div 1000\<rparr> of
      (r, s') \<Rightarrow> (r, m\<lparr>m_world := com s'\<rparr>))))"
    using keepsD [OF hb _ _ run] m run by simp
qed

lemma killed_keeps: "quiet I s \<Longrightarrow> I (m_world m) \<Longrightarrow> I (m_world (kill_and_wait s m))"
  by (simp add: kill_and_wait_def quiet_def Let_def)

lemma killed_same [simp]:
  "m_step (kill_and_wait s m) = m_step m" "m_files (kill_and_wait s m) = m_files m"
  "m_removed (kill_and_wait s m) = m_removed m" "m_ms m \<le> m_ms (kill_and_wait s m)"
  by (simp_all add: kill_and_wait_def Let_def)

lemma mkeeps_sleep: "quiet I s \<Longrightarrow> mkeeps I (os_sleep s ms)"
  unfolding os_sleep_def by (rule mkeeps_interact)

lemma mkeeps_file_op: "quiet I s \<Longrightarrow> mkeeps I (file_op s f)"
  unfolding file_op_def by (intro act_rules mkeeps_interact)

lemma mkeeps_write: "quiet I s \<Longrightarrow> mkeeps I (write_text s appending f t)"
  unfolding write_text_def by (intro act_rules mkeeps_file_op) (simp_all add: mkeeps_def)

lemma mkeeps_remove: "quiet I s \<Longrightarrow> mkeeps I (remove_file s f)"
  unfolding remove_file_def by (intro act_rules mkeeps_file_op) (simp_all add: mkeeps_def)

lemmas mkeeps_os = mkeeps_interact mkeeps_sleep mkeeps_file_op mkeeps_write mkeeps_remove

section \<open>Calls\<close>

text \<open>
  A method of an executor, from the rows of its deployment at the start of the call. The
  clock of the database counts seconds.
\<close>

definition executing :: "os \<Rightarrow> (world \<Rightarrow> deployment \<Rightarrow> build \<Rightarrow> 'a act) \<Rightarrow> 'a call" where
  "executing s g did = (\<lambda>(w, t). (case get_dep w did of
      None \<Rightarrow> (Inl object_deleted, (w, t))
    | Some d \<Rightarrow> (case get_build w (d_build_id d) of
         None \<Rightarrow> (Inl object_deleted, (w, t))
       | Some b \<Rightarrow> (case g w d b \<lparr>m_world = w, m_ms = 1000 * t, m_step = os_entry s w t, m_files = [], m_removed = []\<rparr> of
            (r, m) \<Rightarrow> (r, (m_world m, m_ms m div 1000))))))"

lemma call_keeps_executing: "(\<And>w d b. mkeeps I (g w d b)) \<Longrightarrow> call_keeps I (executing s g)"
  unfolding call_keeps_def executing_def mkeeps_def
  by (auto split: option.splits prod.splits) (metis machine.select_convs(1) snd_conv)

lemma call_keeps_method:
  "(\<And>did w d b. mkeeps I (g did w d b)) \<Longrightarrow> call_keeps I (\<lambda>did. executing s (g did) did)"
  using call_keeps_executing unfolding call_keeps_def by blast

lemma call_keeps_pure: "call_keeps I (\<lambda>did s. (r did s, s))"
  by (simp add: call_keeps_def)

text \<open>The heartbeats of the deployments keep the predicate.\<close>

definition hearts_keep :: "(world \<Rightarrow> bool) \<Rightarrow> (nat \<Rightarrow> unit proc option) \<Rightarrow> bool" where
  "hearts_keep I hb \<longleftrightarrow> (\<forall>did h. hb did = Some h \<longrightarrow> keeps I h)"

lemma beats_keep_update: "hearts_keep I hb \<Longrightarrow> beats_keep I (st\<lparr>st_heartbeat := hb did\<rparr>)"
  by (simp add: hearts_keep_def beats_keep_def)

end
