(* ===== verification/Command_Runner.thy ===== *)
theory Command_Runner
  imports Machine
begin

text \<open>
  \<open>worker/execution/command_runner.py\<close>: external commands with a deadline, claim heartbeats,
  retries, redaction and log files. The test hook \<open>runner\<close> is None, as it is for every
  executor the factory builds. In the metadata, times and durations are in milliseconds.
  The lemmas state that polling ends, that a command is tried as often as its step allows,
  and that what is recorded holds no secret.
\<close>

section \<open>Texts\<close>

definition shlex_safe :: "char \<Rightarrow> bool" where
  "shlex_safe c \<longleftrightarrow> is_ascii_alnum c \<or> c \<in> set ''_@%+=:,./-''"

definition shlex_quote :: "string \<Rightarrow> string" where
  "shlex_quote s =
     (if s = [] then [SINGLE, SINGLE] else if list_all shlex_safe s then s
      else SINGLE # replace [SINGLE] [SINGLE, DOUBLE, SINGLE, DOUBLE, SINGLE] s @ [SINGLE])"

text \<open>\<open>str.splitlines\<close> on the code points 0 to 255.\<close>

definition line_break :: "char \<Rightarrow> bool" where
  "line_break c \<longleftrightarrow> code c \<in> {10, 11, 12, 13, 28, 29, 30, 133}"

function lines_from :: "string \<Rightarrow> string \<Rightarrow> string list" where
  "lines_from line [] = (if line = [] then [] else [line])"
| "lines_from line (c # s) =
     (if line_break c then line # lines_from [] (if code c = 13 \<and> prefix [CHR 0x0A] s then tl s else s)
      else lines_from (line @ [c]) s)"
  by pat_completeness auto
termination
  by (relation "measure (\<lambda>(line, s). length s)") (auto simp: le_imp_less_Suc)

definition splitlines :: "string \<Rightarrow> string list" where
  "splitlines s = lines_from [] s"

definition text_lines :: "string \<Rightarrow> string list" where
  "text_lines output = filter (\<lambda>l. l \<noteq> []) (map strip (splitlines output))"

definition summarize_output :: "string \<Rightarrow> string option" where
  "summarize_output output = (case rev (text_lines output) of
     [] \<Rightarrow> None
   | [line] \<Rightarrow> Some (take 500 line)
   | last_line # line # _ \<Rightarrow> Some (take 200 line @ '' | '' @ take 200 last_line))"

definition tail_lines :: "string \<Rightarrow> string list" where
  "tail_lines output = (let ls = text_lines output in map (take 240) (drop (length ls - 10) ls))"

definition sanitize_text :: "string list \<Rightarrow> string \<Rightarrow> string" where
  "sanitize_text redacted text = fold (\<lambda>v t. if v = [] then t else replace v ''***'' t) redacted text"

definition sanitize_args :: "string list \<Rightarrow> string list \<Rightarrow> string list" where
  "sanitize_args redacted args = map (sanitize_text redacted) args"

section \<open>Metadata, logs and events\<close>

definition jtexts :: "string list \<Rightarrow> json" where
  "jtexts ss = JList (map JStr ss)"

definition build_command_metadata ::
    "string list \<Rightarrow> string list \<Rightarrow> string \<Rightarrow> int \<Rightarrow> int \<Rightarrow> int option \<Rightarrow> nat \<Rightarrow> nat \<Rightarrow> bool \<Rightarrow> dict" where
  "build_command_metadata redacted args output started_at finished_at returncode attempt total_attempts timed_out =
     [(''command'', jtexts (sanitize_args redacted args)),
      (''returncode'', jint_opt returncode),
      (''attempt'', jnat attempt),
      (''total_attempts'', jnat total_attempts),
      (''timed_out'', JBool timed_out),
      (''started_at'', JTime started_at),
      (''finished_at'', JTime finished_at),
      (''duration_seconds'', JInt (finished_at - started_at)),
      (''summary'', jopt (summarize_output output)),
      (''output_tail'', jtexts (tail_lines output))]"

lemma command_metadata_nonempty [simp]: "build_command_metadata redacted args output t1 t2 rc k n timed_out \<noteq> []"
  by (simp add: build_command_metadata_def)

definition LF :: string where "LF = [CHR 0x0A]"

definition write_log :: "os \<Rightarrow> string list \<Rightarrow> string \<Rightarrow> string list \<Rightarrow> string \<Rightarrow> dict \<Rightarrow> bool \<Rightarrow> unit act" where
  "write_log s redacted file args output metadata appending =
     (let show = (\<lambda>key. str_of_json (os_shown s) (jget metadata key));
          rendered = [''Command:'', join '' '' (map shlex_quote (sanitize_args redacted args))]
            @ (if metadata = [] then [] else
                 [[], ''Metadata:'', ''attempt='' @ show ''attempt'' @ ''/'' @ show ''total_attempts'',
                  ''returncode='' @ show ''returncode'', ''timed_out='' @ show ''timed_out'',
                  ''duration_seconds='' @ show ''duration_seconds''])
            @ [[], ''Output:'', output];
          payload = join LF rendered @ LF
      in write_text s appending file ((if appending then LF @ ''==== retry ===='' @ LF else []) @ payload))"

definition mk_event :: "string \<Rightarrow> string \<Rightarrow> string \<Rightarrow> string \<Rightarrow> string \<Rightarrow> dict \<Rightarrow> aux_event" where
  "mk_event event_type status message step level metadata =
     \<lparr>x_event_type = event_type, x_status = status, x_message = Some message, x_step = Some step,
      x_level = Some level, x_metadata_json = redact_entries [] metadata\<rparr>"

section \<open>One command\<close>

text \<open>A heartbeat of None falls back to the heartbeat of the executor.\<close>

definition heartbeat_if_due :: "'a settings_scheme \<Rightarrow> int \<Rightarrow> unit proc option \<Rightarrow> int act" where
  "heartbeat_if_due st last_heartbeat heartbeat =
     (case (case heartbeat of None \<Rightarrow> st_heartbeat st | Some hb \<Rightarrow> Some hb) of
        None \<Rightarrow> mret last_heartbeat
      | Some hb \<Rightarrow> mbind mnow (\<lambda>t.
          if t - last_heartbeat \<ge> st_heartbeat_interval st then mbind (beat hb) (\<lambda>_. mret t)
          else mret last_heartbeat))"

lemma heartbeat_ms:
  "heartbeat_if_due st t cb m = (r, m') \<Longrightarrow> m_ms m' = m_ms m \<and> m_step m' = m_step m \<and> m_files m' = m_files m"
  by (auto simp: heartbeat_if_due_def mbind_def mnow_def mret_def beat_def
      split: option.splits prod.splits sum.splits if_splits)

lemma sleep_ms: "m_ms m < m_ms (snd (os_sleep s t m))" "m_ms m + t < m_ms (snd (os_sleep s t m))"
  by (auto simp: os_sleep_def interact_def Let_def)

text \<open>
  The loop over \<open>process.poll()\<close>, from the state \<open>m\<close>. A process that is still running at the
  deadline, or when a heartbeat raises, is killed and waited for.
\<close>

function poll_loop ::
    "os \<Rightarrow> 'a settings_scheme \<Rightarrow> child \<Rightarrow> int \<Rightarrow> int \<Rightarrow> unit proc option \<Rightarrow> int \<Rightarrow> outcome act" where
  "poll_loop s st ch started deadline heartbeat last_heartbeat m =
     (let t = m_ms m; elapsed = t - started; stdout = ch_stdout ch elapsed; stderr = ch_stderr ch elapsed
      in case ch_poll ch elapsed of
           Some returncode \<Rightarrow> (Inr (Completed returncode stdout stderr), m)
         | None \<Rightarrow>
             if t \<ge> deadline then (Inr (Timed_out stdout stderr), kill_and_wait s m)
             else (case heartbeat_if_due st last_heartbeat heartbeat m of
                 (Inl e, m') \<Rightarrow> (Inl e, kill_and_wait s m')
               | (Inr beat_at, m') \<Rightarrow> poll_loop s st ch started deadline heartbeat beat_at
                   (snd (os_sleep s (min 500 (max 50 (deadline - t))) m'))))"
  by pat_completeness auto
termination
  by (relation "measure (\<lambda>(s, st, ch, started, deadline, heartbeat, last_heartbeat, m). nat (deadline - m_ms m))")
    (auto dest!: sym [of "(_, _)"] heartbeat_ms intro!: diff_strict_left_mono
      simp: os_sleep_def interact_def Let_def)

declare poll_loop.simps [simp del]

definition execute_command ::
    "os \<Rightarrow> 'a settings_scheme \<Rightarrow> bool \<Rightarrow> string option \<Rightarrow> (string \<times> string) list option \<Rightarrow> int option \<Rightarrow> string list \<Rightarrow>
     outcome act" where
  "execute_command s st allow_heartbeat stdin_input env timeout args =
     (let command_timeout = (case timeout of None \<Rightarrow> st_command_timeout st | Some t \<Rightarrow> t);
          heartbeat_cb = (if allow_heartbeat then st_heartbeat st else None)
      in case stdin_input of
           Some text \<Rightarrow> interact s 0 (\<lambda>n. os_input s n args text env command_timeout)
         | None \<Rightarrow> mbind (interact s 0 (\<lambda>n. os_spawn s n args env)) (\<lambda>started. case started of
               Inl e \<Rightarrow> mret (Os_error e)
             | Inr ch \<Rightarrow> mbind mnow (\<lambda>t. poll_loop s st ch t (t + command_timeout) heartbeat_cb t)))"

text \<open>A caller that does not catch \<open>TimeoutExpired\<close> and \<open>OSError\<close>.\<close>

definition completed :: "outcome \<Rightarrow> (int \<times> string \<times> string) act" where
  "completed r = (case r of
     Completed returncode stdout stderr \<Rightarrow> mret (returncode, stdout, stderr)
   | Timed_out stdout stderr \<Rightarrow> mthrow (OtherExn ''TimeoutExpired'' ''command timed out'')
   | Os_error e \<Rightarrow> mthrow (os_error e))"

section \<open>Commands with retries\<close>

definition retryable_steps :: "string list" where
  "retryable_steps = [''repository.clone'', ''image.build'', ''tests'', ''image.push'', ''image.verify'']"

text \<open>
  One iteration of the loop. With an input, \<open>subprocess.run\<close> puts the output so far as bytes
  into \<open>TimeoutExpired\<close> (None if there is none), which do not concatenate or join with texts.
\<close>

definition run_attempt ::
    "os \<Rightarrow> 'a settings_scheme \<Rightarrow> string \<Rightarrow> string list \<Rightarrow> string \<Rightarrow> string option \<Rightarrow> (string \<times> string) list option \<Rightarrow>
     string list \<Rightarrow> nat \<Rightarrow> nat \<Rightarrow> (exn + exec_result) act" where
  "run_attempt s st step args file stdin_input env redacted attempt total_attempts =
     mbind mnow (\<lambda>started_at.
     mbind (execute_command s st True stdin_input env None args) (\<lambda>r.
     mbind mnow (\<lambda>finished_at.
       let record = (\<lambda>output returncode timed_out k.
             let metadata = build_command_metadata redacted args output started_at finished_at returncode
                   attempt total_attempts timed_out
             in mbind (write_log s redacted file args output metadata (attempt > 1)) (\<lambda>_. mret (k metadata)))
       in case r of
            Timed_out stdout stderr \<Rightarrow>
              if stdin_input \<noteq> None \<and> stdout @ stderr \<noteq> []
              then mthrow (OtherExn ''TypeError'' ''a bytes-like object is required, not str'')
              else record (sanitize_text redacted (stdout @ stderr)) None True (\<lambda>metadata.
              Inl (ExecError step (''Command timed out after '' @ str_of_int (st_command_timeout st div 1000) @ '' seconds'')
                metadata (Some file) []))
          | Os_error e \<Rightarrow> record (sanitize_text redacted e) None False (\<lambda>metadata.
              Inl (ExecError step (''Command execution failed: '' @ e) metadata (Some file) []))
          | Completed returncode stdout stderr \<Rightarrow>
              let combined_output = sanitize_text redacted (stdout @ stderr)
              in record combined_output (Some returncode) False (\<lambda>metadata.
                   if returncode = 0
                   then Inr ((result0 (or_str (summarize_output combined_output) (step @ '' completed successfully'')) metadata)
                          \<lparr>r_log_path := Some file, r_command_output := Some combined_output\<rparr>)
                   else Inl (ExecError step
                          (or_str (summarize_output combined_output) (''Command failed with exit code '' @ str_of_int returncode))
                          metadata (Some file) [])))))"

primrec run_attempts :: "os \<Rightarrow> (nat \<Rightarrow> (exn + exec_result) act) \<Rightarrow> nat \<Rightarrow> nat \<Rightarrow> exec_result act" where
  "run_attempts s once attempt 0 = mthrow (OtherExn ''TypeError'' ''exceptions must derive from BaseException'')"
| "run_attempts s once attempt (Suc remaining) =
     mbind (once attempt) (\<lambda>r. case r of
       Inr result \<Rightarrow> mret result
     | Inl e \<Rightarrow> if remaining = 0 then mthrow e
         else mbind (os_sleep s (1000 * int (min attempt 3))) (\<lambda>_. run_attempts s once (Suc attempt) remaining))"

definition parent_dir :: "string \<Rightarrow> string" where
  "parent_dir file = join ''/'' (butlast (split_on (CHR ''/'') file))"

definition run_step_command ::
    "os \<Rightarrow> 'a settings_scheme \<Rightarrow> string \<Rightarrow> string list \<Rightarrow> string \<Rightarrow> string option \<Rightarrow> (string \<times> string) list option \<Rightarrow>
     string list \<Rightarrow> exec_result act" where
  "run_step_command s st step args file stdin_input env redacted =
     mbind (file_op s (parent_dir file)) (\<lambda>_.
       let total_attempts = (if step \<in> set retryable_steps then 1 + st_retry_count st else 1)
       in run_attempts s (\<lambda>attempt. run_attempt s st step args file stdin_input env
            (filter (\<lambda>v. v \<noteq> []) redacted) attempt total_attempts) 1 total_attempts)"

section \<open>Invariants of a command\<close>

lemma mkeeps_heartbeat:
  "beats_keep I st \<Longrightarrow> (\<And>hb. cb = Some hb \<Longrightarrow> keeps I hb) \<Longrightarrow> mkeeps I (heartbeat_if_due st t cb)"
  unfolding heartbeat_if_due_def
  by (cases cb; cases "st_heartbeat st") (auto simp: beats_keep_def intro!: act_rules mkeeps_beat)

lemma mkeeps_poll:
  assumes "quiet I s" "beats_keep I st" "\<And>hb. cb = Some hb \<Longrightarrow> keeps I hb"
  shows "mkeeps I (poll_loop s st ch started deadline cb t)"
  unfolding mkeeps_def
proof (intro allI impI)
  fix m
  show "I (m_world m) \<Longrightarrow> I (m_world (snd (poll_loop s st ch started deadline cb t m)))"
    using assms
  proof (induction s st ch started deadline cb t m rule: poll_loop.induct)
    case (1 s st ch started deadline cb t m)
    obtain r m' where hb: "heartbeat_if_due st t cb m = (r, m')" by fastforce
    have "mkeeps I (heartbeat_if_due st t cb)" using mkeeps_heartbeat 1(3-5) by blast
    then have m': "I (m_world m')" using 1(2) hb by (metis mkeeps_def snd_conv)
    have slept: "I (m_world (snd (os_sleep s x m')))" for x
      using mkeeps_sleep [OF 1(3)] m' by (simp add: mkeeps_def)
    show ?case
    proof (cases "ch_poll ch (m_ms m - started) = None \<and> \<not> m_ms m \<ge> deadline \<and> (\<exists>b. r = Inr b)")
      case True
      then obtain b where r: "r = Inr b" by blast
      have "I (m_world (snd (poll_loop s st ch started deadline cb b (snd (os_sleep s (min 500 (max 50 (deadline - m_ms m))) m')))))"
        by (rule 1(1) [OF refl refl refl refl _ _ hb [symmetric] r]) (use True slept 1 in auto)
      then show ?thesis
        using True r hb by (subst poll_loop.simps) (simp add: Let_def)
    next
      case False
      then show ?thesis
        using hb 1(2) m' killed_keeps [OF 1(3)]
        by (subst poll_loop.simps) (auto simp: Let_def split: option.splits sum.splits)
    qed
  qed
qed

lemma mkeeps_execute: "quiet I s \<Longrightarrow> beats_keep I st \<Longrightarrow> mkeeps I (execute_command s st allow stdin_input env timeout args)"
  unfolding execute_command_def Let_def
  by (cases stdin_input; cases allow)
    (auto intro!: act_rules mkeeps_os mkeeps_poll simp: beats_keep_def)

lemma mkeeps_write_log: "quiet I s \<Longrightarrow> mkeeps I (write_log s redacted file args output md appending)"
  unfolding write_log_def Let_def by (rule mkeeps_write)

lemma mkeeps_completed [act_rules]: "mkeeps I (completed r)"
  unfolding completed_def by (intro act_rules)

lemma mkeeps_attempt:
  assumes "quiet I s" "beats_keep I st"
  shows "mkeeps I (run_attempt s st step args file stdin_input env redacted attempt total_attempts)"
  unfolding run_attempt_def Let_def
  by (intro act_rules mkeeps_execute mkeeps_write_log assms)

lemma mkeeps_attempts:
  assumes "quiet I s" "\<And>k. mkeeps I (once k)"
  shows "mkeeps I (run_attempts s once attempt n)"
  by (induction n arbitrary: attempt) (auto intro!: act_rules mkeeps_sleep assms)

lemma mkeeps_run_step_command:
  assumes "quiet I s" "beats_keep I st"
  shows "mkeeps I (run_step_command s st step args file stdin_input env redacted)"
  unfolding run_step_command_def Let_def
  by (intro act_rules mkeeps_file_op mkeeps_attempts mkeeps_attempt assms)

lemmas mkeeps_command = mkeeps_execute mkeeps_run_step_command

section \<open>The end of a command\<close>

definition polls :: "int \<Rightarrow> int" where
  "polls d = (if 0 < d then d + 50 else 0)"

lemma polls_nonneg [simp]: "0 \<le> polls d"
  by (simp add: polls_def)

lemma fewer_polls: "d' \<le> d - 51 \<Longrightarrow> 0 < d \<Longrightarrow> polls d' + 51 \<le> polls d"
  by (simp add: polls_def)

text \<open>How the loop over \<open>poll\<close> ends, from the state \<open>m\<close> and in the state \<open>m'\<close>.\<close>

definition poll_end :: "child \<Rightarrow> int \<Rightarrow> int \<Rightarrow> machine \<Rightarrow> exn + outcome \<Rightarrow> machine \<Rightarrow> bool" where
  "poll_end ch started deadline m r m' \<longleftrightarrow>
     51 * int (m_step m') \<le> 51 * int (m_step m) + polls (deadline - m_ms m)
     \<and> m_ms m \<le> m_ms m' \<and> m_files m' = m_files m
     \<and> (case r of
          Inl e \<Rightarrow> True
        | Inr (Completed returncode stdout stderr) \<Rightarrow>
            ch_poll ch (m_ms m' - started) = Some returncode
            \<and> stdout = ch_stdout ch (m_ms m' - started) \<and> stderr = ch_stderr ch (m_ms m' - started)
        | Inr (Timed_out stdout stderr) \<Rightarrow>
            (\<exists>t. deadline \<le> started + t \<and> ch_poll ch t = None
              \<and> stdout = ch_stdout ch t \<and> stderr = ch_stderr ch t)
        | Inr (Os_error e) \<Rightarrow> False)"

lemma poll_ends: "poll_loop s st ch started deadline cb t m = (r, m') \<Longrightarrow> poll_end ch started deadline m r m'"
proof (induction s st ch started deadline cb t m rule: poll_loop.induct)
  case (1 s st ch started deadline cb t m)
  obtain x h where hb: "heartbeat_if_due st t cb m = (x, h)" by fastforce
  note same = heartbeat_ms [OF hb]
  show ?case
  proof (cases "ch_poll ch (m_ms m - started) = None \<and> \<not> m_ms m \<ge> deadline \<and> (\<exists>b. x = Inr b)")
    case True
    then obtain b where x: "x = Inr b" by blast
    let ?n = "snd (os_sleep s (min 500 (max 50 (deadline - m_ms m))) h)"
    have n: "m_step ?n = Suc (m_step m)" "m_files ?n = m_files m" "m_ms m + 51 \<le> m_ms ?n"
      using same by (auto simp: os_sleep_def interact_def Let_def)
    have run: "poll_loop s st ch started deadline cb b ?n = (r, m')"
      using True x hb 1(2) by (subst (asm) poll_loop.simps) (simp add: Let_def)
    have "poll_end ch started deadline ?n r m'"
      by (rule 1(1) [OF refl refl refl refl _ _ hb [symmetric] x run]) (use True in auto)
    moreover have "51 * int (m_step m') \<le> 51 * int (m_step m) + polls (deadline - m_ms m)"
      using calculation n True fewer_polls [of "deadline - m_ms ?n" "deadline - m_ms m"]
      unfolding poll_end_def by auto
    ultimately show ?thesis
      using n unfolding poll_end_def by auto
  next
    case False
    have over: "\<exists>u. deadline \<le> started + u \<and> ch_poll ch u = None \<and> ch_stdout ch (m_ms m - started) = ch_stdout ch u
        \<and> ch_stderr ch (m_ms m - started) = ch_stderr ch u"
      if "deadline \<le> m_ms m" "ch_poll ch (m_ms m - started) = None"
      using that by (intro exI [of _ "m_ms m - started"]) simp
    have waited: "m_ms m \<le> m_ms (kill_and_wait s h)" using killed_same(4) [of h s] same by simp
    show ?thesis
      using False hb 1(2) same over waited by (subst (asm) poll_loop.simps)
        (auto simp: Let_def poll_end_def split: option.splits sum.splits if_splits)
  qed
qed

lemma poll_files: "poll_loop s st ch started deadline cb t m = (r, m') \<Longrightarrow> m_files m' = m_files m"
  using poll_ends unfolding poll_end_def by blast

lemma execute_polled:
  assumes "m1 = snd (interact s 0 (\<lambda>n. os_spawn s n args env) m)"
    and "b = (case timeout of None \<Rightarrow> st_command_timeout st | Some t \<Rightarrow> t)"
    and "cb = (if allow then st_heartbeat st else None)"
  shows "execute_command s st allow None env timeout args m = (case os_spawn s (m_step m) args env of
      Inl e \<Rightarrow> (Inr (Os_error e), m1)
    | Inr ch \<Rightarrow> poll_loop s st ch (m_ms m1) (m_ms m1 + b) cb (m_ms m1) m1)"
  unfolding execute_command_def assms
  by (cases "os_spawn s (m_step m) args env"; cases allow)
    (simp_all add: Let_def mbind_def mret_def mnow_def interact_def)

text \<open>
  C35: A command that is polled ends, whatever the process does: from a timeout of \<open>b\<close>
  milliseconds, the call takes at most \<open>b / 51\<close> interactions, rounded up, and one more to start
  the process. It reports an exit code only if the process has ended with it, and a timeout
  only if the time is over and the process still runs; both come with the output at that time.
\<close>

theorem polled_command_ends:
  assumes "execute_command s st allow_heartbeat None env timeout args m = (r, m')"
    and "b = (case timeout of None \<Rightarrow> st_command_timeout st | Some t \<Rightarrow> t)"
  shows "m_step m' \<le> m_step m + 1 + nat ((b + 50) div 51)
      \<and> (\<forall>returncode stdout stderr. r = Inr (Completed returncode stdout stderr) \<longrightarrow>
        (\<exists>ch t. os_spawn s (m_step m) args env = Inr ch \<and> ch_poll ch t = Some returncode
          \<and> stdout = ch_stdout ch t \<and> stderr = ch_stderr ch t))
      \<and> (\<forall>stdout stderr. r = Inr (Timed_out stdout stderr) \<longrightarrow>
        (\<exists>ch t. os_spawn s (m_step m) args env = Inr ch \<and> b \<le> t \<and> ch_poll ch t = None
          \<and> stdout = ch_stdout ch t \<and> stderr = ch_stderr ch t))"
proof -
  let ?m = "snd (interact s 0 (\<lambda>n. os_spawn s n args env) m)"
  let ?cb = "if allow_heartbeat then st_heartbeat st else None"
  have step: "m_step ?m = Suc (m_step m)" by (simp add: interact_def Let_def)
  have run: "(case os_spawn s (m_step m) args env of
      Inl e \<Rightarrow> (Inr (Os_error e), ?m)
    | Inr ch \<Rightarrow> poll_loop s st ch (m_ms ?m) (m_ms ?m + b) ?cb (m_ms ?m) ?m) = (r, m')"
    using assms(1) unfolding execute_polled [OF refl assms(2) refl] .
  have ends: "poll_end ch (m_ms ?m) (m_ms ?m + b) ?m r m'" if "os_spawn s (m_step m) args env = Inr ch" for ch
    using run that by (auto intro: poll_ends)
  have "51 * int (m_step m') \<le> 51 * (int (m_step m) + 1) + polls b"
  proof (cases "os_spawn s (m_step m) args env")
    case (Inl e)
    then show ?thesis using run step by (auto simp: polls_def)
  next
    case (Inr ch)
    then show ?thesis using ends step unfolding poll_end_def by auto
  qed
  then have "int (m_step m') \<le> int (m_step m) + 1 + int (nat ((b + 50) div 51))"
    unfolding polls_def by (cases "0 < b") auto
  then have "m_step m' \<le> m_step m + 1 + nat ((b + 50) div 51)" by linarith
  moreover have "\<exists>ch t. os_spawn s (m_step m) args env = Inr ch \<and> ch_poll ch t = Some returncode
        \<and> stdout = ch_stdout ch t \<and> stderr = ch_stderr ch t"
    if "r = Inr (Completed returncode stdout stderr)" for returncode stdout stderr
    using run that ends by (cases "os_spawn s (m_step m) args env") (auto simp: poll_end_def)
  moreover have "\<exists>ch t. os_spawn s (m_step m) args env = Inr ch \<and> b \<le> t \<and> ch_poll ch t = None
        \<and> stdout = ch_stdout ch t \<and> stderr = ch_stderr ch t"
    if "r = Inr (Timed_out stdout stderr)" for stdout stderr
  proof (cases "os_spawn s (m_step m) args env")
    case (Inl e)
    then show ?thesis using run that by simp
  next
    case (Inr ch)
    then have "\<exists>t. b \<le> t \<and> ch_poll ch t = None \<and> stdout = ch_stdout ch t \<and> stderr = ch_stderr ch t"
      using ends [OF Inr] that unfolding poll_end_def by auto
    then show ?thesis using Inr by blast
  qed
  ultimately show ?thesis by blast
qed

text \<open>An example: a process that writes a token and ends after 120 milliseconds.\<close>

definition example_child :: child where
  "example_child = \<lparr>ch_poll = (\<lambda>t. if t < 120 then None else Some 0),
     ch_stdout = (\<lambda>t. if t < 120 then [] else ''pushed with s3cret''), ch_stderr = (\<lambda>_. [])\<rparr>"

definition example_os :: os where
  "example_os = \<lparr>os_spawn = (\<lambda>_ _ _. Inr example_child), os_input = (\<lambda>_ _ _ _ _. Completed 0 [] []),
     os_probe = (\<lambda>_ _. Inr (200, ''ok'')), os_lag = (\<lambda>_. 0), os_entry = (\<lambda>_ _. 0),
     os_others = (\<lambda>_ w. w), os_dies = (\<lambda>_. 1), os_meanwhile = (\<lambda>_ w. w),
     os_exists = (\<lambda>_ _. True), os_resolve = (\<lambda>_ p. path_parts p), os_is_file = (\<lambda>_ _. True), os_fails = (\<lambda>_ _. None),
     os_read = (\<lambda>_ _. []), os_port = (\<lambda>n. 32000 + n), os_uuid = (\<lambda>_. ''0123456789abcdef0123456789abcdef''),
     os_environ = [], os_loads = (\<lambda>_. None), os_dumps = (\<lambda>_ _. ''{}''), os_shown = (\<lambda>_. [])\<rparr>"

definition example_settings :: settings where
  "example_settings = \<lparr>st_workspace_root = ''/w'', st_command_timeout = 600000, st_retry_count = 1,
     st_heartbeat_interval = 30000, st_deploy_host = ''127.0.0.1'', st_healthcheck_timeout = 30000,
     st_healthcheck_interval = 1000, st_registry_enabled = False, st_registry_url = [],
     st_registry_namespace = [], st_registry_username = None, st_registry_password = None,
     st_deploy_target = ''local-docker'', st_heartbeat = None\<rparr>"

definition example_machine :: machine where
  "example_machine = \<lparr>m_world = demo_world [] [] [], m_ms = 0, m_step = 0, m_files = [], m_removed = []\<rparr>"

lemma example_run:
  "fst (execute_command example_os example_settings True None None None [''git''] example_machine)
    = Inr (Completed 0 ''pushed with s3cret'' [])"
  by (simp add: execute_command_def mbind_def mret_def mnow_def interact_def os_sleep_def heartbeat_if_due_def
      poll_loop.simps example_os_def example_child_def example_settings_def example_machine_def)

theorem polled_command_ends_witness:
  "m_step (snd (execute_command example_os example_settings True None None None [''git''] example_machine)) \<le> 11766
    \<and> (\<exists>ch t. Inr example_child = (Inr ch :: string + child) \<and> ch_poll ch t = Some 0
      \<and> ''pushed with s3cret'' = ch_stdout ch t \<and> [] = ch_stderr ch t)"
  using polled_command_ends [OF surjective_pairing refl, of example_os example_settings True None None "[''git'']"
      example_machine] example_run
  by (simp add: example_machine_def example_settings_def example_os_def)

section \<open>Retries\<close>

text \<open>What the attempt \<open>k\<close> of \<open>total_attempts\<close> records, for its result or the error it leaves.\<close>

definition attempt_record :: "string \<Rightarrow> string list \<Rightarrow> string list \<Rightarrow> nat \<Rightarrow> nat \<Rightarrow> exn + exec_result \<Rightarrow> bool" where
  "attempt_record step redacted args total_attempts k a \<longleftrightarrow> (\<exists>output t1 t2 rc timed_out.
     let md = build_command_metadata redacted args (sanitize_text redacted output) t1 t2 rc k total_attempts timed_out
     in case a of
       Inl e \<Rightarrow> rc \<noteq> Some 0 \<and> (\<exists>msg file. e = ExecError step msg md (Some file) []
         \<and> (\<forall>x. rc = Some x \<longrightarrow> msg = or_str (summarize_output (sanitize_text redacted output))
               (''Command failed with exit code '' @ str_of_int x)))
     | Inr r \<Rightarrow> rc = Some 0 \<and> r_metadata r = md \<and> r_command_output r = Some (sanitize_text redacted output)
         \<and> r_message r = or_str (summarize_output (sanitize_text redacted output)) (step @ '' completed successfully''))"

lemma recordI:
  "attempt_record step redacted args n k (Inl (ExecError step msg
     (build_command_metadata redacted args (sanitize_text redacted output) t1 t2 None k n timed_out) (Some file) []))"
  "x \<noteq> 0 \<Longrightarrow> attempt_record step redacted args n k (Inl (ExecError step
     (or_str (summarize_output (sanitize_text redacted output)) (''Command failed with exit code '' @ str_of_int x))
     (build_command_metadata redacted args (sanitize_text redacted output) t1 t2 (Some x) k n timed_out) (Some file) []))"
  "attempt_record step redacted args n k (Inr ((result0
     (or_str (summarize_output (sanitize_text redacted output)) (step @ '' completed successfully''))
     (build_command_metadata redacted args (sanitize_text redacted output) t1 t2 (Some 0) k n timed_out))
       \<lparr>r_log_path := l, r_command_output := Some (sanitize_text redacted output)\<rparr>))"
  unfolding attempt_record_def Let_def by (force, force, fastforce simp: result0_def)

lemmas recordIs = recordI recordI(2) [simplified append.simps]

fun is_exec :: "exn \<Rightarrow> bool" where
  "is_exec (ExecError step msg md file evs) = True"
| "is_exec _ = False"

text \<open>The heartbeat raises errors of the claim, not errors of an execution.\<close>

definition beats_plain :: "'a settings_scheme \<Rightarrow> bool" where
  "beats_plain st \<longleftrightarrow> (\<forall>hb x e. st_heartbeat st = Some hb \<longrightarrow> fst (hb x) = Inl e \<longrightarrow> \<not> is_exec e)"

lemma mbind_Inr: "mbind a k m = (Inr y, m') \<Longrightarrow> \<exists>x m1. a m = (Inr x, m1) \<and> k x m1 = (Inr y, m')"
  by (auto simp: mbind_def split: prod.splits sum.splits)

lemma mbind_Inl:
  "mbind a k m = (Inl e, m') \<Longrightarrow> a m = (Inl e, m') \<or> (\<exists>x m1. a m = (Inr x, m1) \<and> k x m1 = (Inl e, m'))"
  by (auto simp: mbind_def split: prod.splits sum.splits)

lemma file_op_cases:
  "file_op s f m = (r, m') \<Longrightarrow> m_files m' = m_files m \<and> (\<forall>e. r = Inl e \<longrightarrow> \<not> is_exec e)"
  by (auto simp: file_op_def mbind_def interact_def mret_def mthrow_def os_error_def Let_def
      split: option.splits)

lemma write_log_cases:
  assumes "write_log s redacted file args output md appending m = (r, m')"
  shows "case r of Inl e \<Rightarrow> \<not> is_exec e | Inr x \<Rightarrow> \<exists>t. m_files m' = m_files m @ [(file, appending, t)]"
  using assms file_op_cases  unfolding write_log_def Let_def write_text_def mbind_def
  by (auto split: prod.splits sum.splits)

lemma poll_error:
  assumes "poll_loop s st ch started deadline cb t m = (Inl e, m')" "beats_plain st" "cb = st_heartbeat st \<or> cb = None"
  shows "\<not> is_exec e"
  using assms
proof (induction s st ch started deadline cb t m rule: poll_loop.induct)
  case (1 s st ch started deadline cb t m)
  obtain x h where hb: "heartbeat_if_due st t cb m = (x, h)" by fastforce
  have plain: "\<not> is_exec e" if "x = Inl e" for e
    using hb that 1(3,4) unfolding beats_plain_def heartbeat_if_due_def mbind_def mnow_def mret_def beat_def
    by (auto split: option.splits prod.splits sum.splits if_splits) (metis fst_conv)+
  show ?case
  proof (cases "ch_poll ch (m_ms m - started) = None \<and> \<not> m_ms m \<ge> deadline \<and> (\<exists>b. x = Inr b)")
    case True
    then obtain b where x: "x = Inr b" by blast
    let ?n = "snd (os_sleep s (min 500 (max 50 (deadline - m_ms m))) h)"
    have run: "poll_loop s st ch started deadline cb b ?n = (Inl e, m')"
      using True x hb 1(2) by (subst (asm) poll_loop.simps) (simp add: Let_def)
    show ?thesis
      by (rule 1(1) [OF refl refl refl refl _ _ hb [symmetric] x run 1(3,4)]) (use True in auto)
  next
    case False
    then show ?thesis
      using hb 1(2) plain by (subst (asm) poll_loop.simps)
        (auto simp: Let_def split: option.splits sum.splits if_splits)
  qed
qed

lemma execute_command_cases:
  assumes "execute_command s st allow stdin_input env timeout args m = (r, m')" "beats_plain st"
  shows "m_files m' = m_files m" and "\<forall>e. r = Inl e \<longrightarrow> \<not> is_exec e"
proof -
  let ?cb = "if allow then st_heartbeat st else None"
  let ?cases = "m_files m' = m_files m \<and> (\<forall>e. r = Inl e \<longrightarrow> \<not> is_exec e)"
  have ?cases
  proof (cases stdin_input)
    case (Some input)
    then show ?thesis using assms(1) by (auto simp: execute_command_def interact_def Let_def)
  next
    case None
    let ?m = "snd (interact s 0 (\<lambda>n. os_spawn s n args env) m)"
    let ?b = "case timeout of None \<Rightarrow> st_command_timeout st | Some t \<Rightarrow> t"
    have run: "(case os_spawn s (m_step m) args env of
        Inl e \<Rightarrow> (Inr (Os_error e), ?m)
      | Inr ch \<Rightarrow> poll_loop s st ch (m_ms ?m) (m_ms ?m + ?b) ?cb (m_ms ?m) ?m) = (r, m')"
      using assms(1) unfolding None execute_polled [OF refl refl refl] .
    have "m_files ?m = m_files m" by (simp add: interact_def Let_def)
    then show ?thesis
    proof (cases "os_spawn s (m_step m) args env")
      case (Inr ch)
      then have run: "poll_loop s st ch (m_ms ?m) (m_ms ?m + ?b) ?cb (m_ms ?m) ?m = (r, m')" using run by simp
      then show ?thesis
        using poll_files [OF run] \<open>m_files ?m = m_files m\<close> poll_error [OF _ assms(2)]
        by (auto split: if_splits)
    qed (use run in auto)
  qed
  then show "m_files m' = m_files m" and "\<forall>e. r = Inl e \<longrightarrow> \<not> is_exec e" by blast+
qed

lemma logged_cases:
  assumes "mbind (write_log s redacted file args output md appending) (\<lambda>_. mret (k md)) m = (r, m')"
  shows "(\<forall>a. r = Inr a \<longrightarrow> a = k md \<and> (\<exists>t. m_files m' = m_files m @ [(file, appending, t)]))
    \<and> (\<forall>e. r = Inl e \<longrightarrow> \<not> is_exec e)"
proof -
  obtain x m1 where w: "write_log s redacted file args output md appending m = (x, m1)" by fastforce
  show ?thesis
    using assms write_log_cases [OF w] w unfolding mbind_def mret_def by (auto split: sum.splits)
qed

lemma run_attempt_cases:
  assumes "run_attempt s st step args file stdin_input env redacted k n m = (r, m')" "beats_plain st"
  shows "(\<forall>a. r = Inr a \<longrightarrow> attempt_record step redacted args n k a \<and> (\<exists>t. m_files m' = m_files m @ [(file, k > 1, t)]))
    \<and> (\<forall>e. r = Inl e \<longrightarrow> \<not> is_exec e)"
proof -
  obtain x m1 where run: "execute_command s st True stdin_input env None args m = (x, m1)" by fastforce
  note same = execute_command_cases [OF run assms(2)]
  show ?thesis
  proof (cases x)
    case (Inl e)
    then show ?thesis
      using assms(1) run same(2) by (auto simp: run_attempt_def mbind_def mnow_def)
  next
    case (Inr y)
    show ?thesis
    proof (cases y)
      case (Completed rc out err)
      then show ?thesis
        using assms(1) run Inr unfolding run_attempt_def mbind_def [of mnow] mnow_def
          mbind_def [of "execute_command s st True stdin_input env None args"]
        by (auto simp: Let_def same(1) dest!: logged_cases intro!: recordIs split: if_splits)
    next
      case (Timed_out out err)
      then show ?thesis
        using assms(1) run Inr unfolding run_attempt_def mbind_def [of mnow] mnow_def
          mbind_def [of "execute_command s st True stdin_input env None args"]
        by (auto simp: Let_def same(1) mthrow_def dest!: logged_cases intro!: recordIs split: if_splits)
    next
      case (Os_error e)
      then show ?thesis
        using assms(1) run Inr unfolding run_attempt_def mbind_def [of mnow] mnow_def
          mbind_def [of "execute_command s st True stdin_input env None args"]
        by (auto simp: Let_def same(1) dest!: logged_cases intro!: recordIs)
    qed
  qed
qed

text \<open>
  The attempts from \<open>k\<close> on, of which \<open>n\<close> are left: \<open>j\<close> is the last one made, each wrote one
  section of the log, and \<open>a\<close> is what the last one left.
\<close>

definition attempts_end ::
    "(nat \<Rightarrow> exn + exec_result \<Rightarrow> bool) \<Rightarrow> string \<Rightarrow> nat \<Rightarrow> nat \<Rightarrow> machine \<Rightarrow> exn + exec_result \<Rightarrow> machine \<Rightarrow> bool" where
  "attempts_end P file k n m a m' \<longleftrightarrow> (\<exists>j texts. k \<le> j \<and> j < k + n \<and> P j a
     \<and> m_files m' = m_files m @ map (\<lambda>i. (file, i > 1, texts i)) [k..<Suc j]
     \<and> (case a of Inl e \<Rightarrow> Suc j = k + n | Inr x \<Rightarrow> True))"

lemma attempts_end_Suc:
  assumes "attempts_end P file (Suc k) n m1 a m'" "m_files m1 = m_files m @ [(file, k > 1, t)]"
  shows "attempts_end P file k (Suc n) m a m'"
proof -
  obtain j texts where j: "Suc k \<le> j" "j < Suc k + n" "P j a" "case a of Inl e \<Rightarrow> Suc j = Suc k + n | Inr x \<Rightarrow> True"
      "m_files m' = m_files m1 @ map (\<lambda>i. (file, i > 1, texts i)) [Suc k..<Suc j]"
    using assms(1) unfolding attempts_end_def by blast
  have "[k..<Suc j] = k # [Suc k..<Suc j]" using j(1) by (simp add: upt_conv_Cons)
  moreover have same: "map (\<lambda>i. (file, i > 1, (texts(k := t)) i)) [Suc k..<Suc j]
      = map (\<lambda>i. (file, i > 1, texts i)) [Suc k..<Suc j]"
    by (rule map_cong) auto
  ultimately have "m_files m' = m_files m @ map (\<lambda>i. (file, i > 1, (texts(k := t)) i)) [k..<Suc j]"
    using j(5) assms(2) same by (simp del: upt_Suc)
  then show ?thesis
    unfolding attempts_end_def
    by (intro exI [of _ j] exI [of _ "texts(k := t)"]) (use j in \<open>auto split: sum.splits\<close>)
qed

lemma run_attempts_end:
  assumes once: "\<And>k m a m'. once k m = (Inr a, m') \<Longrightarrow> P k a \<and> (\<exists>t. m_files m' = m_files m @ [(file, k > 1, t)])"
    and plain: "\<And>k m e m'. once k m = (Inl e, m') \<Longrightarrow> \<not> is_exec e"
  shows "run_attempts s once k n m = (r, m') \<Longrightarrow> case r of Inl e \<Rightarrow> is_exec e | Inr x \<Rightarrow> True \<Longrightarrow> attempts_end P file k n m r m'"
proof (induction n arbitrary: k m)
  case 0
  then show ?case by (auto simp: mthrow_def)
next
  case (Suc n)
  obtain y m1 where one: "once k m = (y, m1)" by fastforce
  show ?case
  proof (cases y)
    case (Inl e)
    then show ?thesis using Suc.prems one plain [of k m e m1] by (auto simp: mbind_def)
  next
    case (Inr a)
    note rec = once [OF one [unfolded Inr]]
    then obtain t where t: "m_files m1 = m_files m @ [(file, k > 1, t)]" by blast
    have last: "attempts_end P file k (Suc n) m a m1" if "case a of Inl e \<Rightarrow> n = 0 | Inr x \<Rightarrow> True"
      unfolding attempts_end_def
      by (intro exI [of _ k] exI [of _ "\<lambda>_. t"]) (use rec t that in \<open>auto split: sum.splits\<close>)
    show ?thesis
    proof (cases "(\<exists>e. a = Inl e) \<and> n > 0")
      case True
      then obtain e where e: "a = Inl e" by blast
      let ?m2 = "snd (os_sleep s (1000 * int (min k 3)) m1)"
      have "run_attempts s once (Suc k) n ?m2 = (r, m')"
        using Suc.prems(1) one Inr e True by (simp add: mbind_def os_sleep_def interact_def Let_def)
      moreover have "m_files ?m2 = m_files m @ [(file, k > 1, t)]"
        using t by (simp add: os_sleep_def interact_def Let_def)
      ultimately show ?thesis using Suc.IH [OF _ Suc.prems(2)] attempts_end_Suc by blast
    next
      case False
      have "r = a \<and> m' = m1"
        using Suc.prems(1) one Inr False by (cases a) (auto simp: mbind_def mret_def mthrow_def)
      then show ?thesis using last False by (cases a) auto
    qed
  qed
qed

lemma run_step_command_end:
  assumes "run_step_command s st step args file stdin_input env redacted m = (r, m')" "beats_plain st"
    and "n = (if step \<in> set retryable_steps then 1 + st_retry_count st else 1)"
    and "case r of Inl e \<Rightarrow> is_exec e | Inr x \<Rightarrow> True"
  shows "attempts_end (attempt_record step (filter (\<lambda>v. v \<noteq> []) redacted) args n) file 1 n m r m'"
proof -
  obtain y m1 where made: "file_op s (parent_dir file) m = (y, m1)" by fastforce
  note same = file_op_cases [OF made]
  have "attempts_end (attempt_record step (filter (\<lambda>v. v \<noteq> []) redacted) args n) file 1 n m1 r m'"
  proof (rule run_attempts_end [OF _ _ _ assms(4)])
    show "run_attempts s (\<lambda>attempt. run_attempt s st step args file stdin_input env
        (filter (\<lambda>v. v \<noteq> []) redacted) attempt n) 1 n m1 = (r, m')"
      using assms(1,4) same made unfolding run_step_command_def assms(3) Let_def
        mbind_def [of "file_op s (parent_dir file)"]
      by (cases y) (auto simp del: run_attempts.simps)
  qed (use run_attempt_cases [OF _ assms(2)] in blast)+
  then show ?thesis using same by (simp add: attempts_end_def)
qed

text \<open>
  A command is tried as often as its step allows and no more: one that succeeds was tried
  \<open>k\<close> times, for a \<open>k\<close> within the limit, and its exit code is 0; an error of the command is
  raised only after all attempts, with the record of the last one, whose exit code is not 0.
  Every attempt wrote one section of the log file, the first replacing an older file and the
  others appended.
\<close>

theorem command_attempts:
  assumes "run_step_command s st step args log_file stdin_input env redacted m = (r, m')" "beats_plain st"
    and "n = (if step \<in> set retryable_steps then 1 + st_retry_count st else 1)"
  shows "(\<forall>x. r = Inr x \<longrightarrow> (\<exists>k texts. 1 \<le> k \<and> k \<le> n
        \<and> jget (r_metadata x) ''attempt'' = jnat k \<and> jget (r_metadata x) ''returncode'' = JInt 0
        \<and> m_files m' = m_files m @ map (\<lambda>i. (log_file, i > 1, texts i)) [1..<Suc k]))
    \<and> (\<forall>step' msg md l evs. r = Inl (ExecError step' msg md l evs) \<longrightarrow>
        jget md ''attempt'' = jnat n \<and> jget md ''returncode'' \<noteq> JInt 0
        \<and> (\<exists>texts. m_files m' = m_files m @ map (\<lambda>i. (log_file, i > 1, texts i)) [1..<Suc n]))"
proof -
  note end_of = run_step_command_end [OF assms]
  have rec: "jget (build_command_metadata rd as out t1 t2 rc k n timed_out) ''attempt'' = jnat k"
    "jget (build_command_metadata rd as out t1 t2 rc k n timed_out) ''returncode'' = jint_opt rc"
    for rd as out t1 t2 rc k timed_out
    by (simp_all add: build_command_metadata_def)
  have "\<exists>k texts. 1 \<le> k \<and> k \<le> n
      \<and> jget (r_metadata x) ''attempt'' = jnat k \<and> jget (r_metadata x) ''returncode'' = JInt 0
      \<and> m_files m' = m_files m @ map (\<lambda>i. (log_file, i > 1, texts i)) [1..<Suc k]" if x: "r = Inr x" for x
  proof -
    obtain j texts where "1 \<le> j" "j < 1 + n" "attempt_record step (filter (\<lambda>v. v \<noteq> []) redacted) args n j (Inr x)"
        "m_files m' = m_files m @ map (\<lambda>i. (log_file, i > 1, texts i)) [1..<Suc j]"
      using end_of unfolding attempts_end_def x by (auto simp del: upt_Suc)
    then show ?thesis
      by (intro exI [of _ j] exI [of _ texts]) (auto simp: attempt_record_def Let_def rec jint_opt_def)
  qed
  moreover have "jget md ''attempt'' = jnat n \<and> jget md ''returncode'' \<noteq> JInt 0
      \<and> (\<exists>texts. m_files m' = m_files m @ map (\<lambda>i. (log_file, i > 1, texts i)) [1..<Suc n])"
    if r: "r = Inl (ExecError step' msg md l evs)" for step' msg md l evs
  proof -
    have "attempts_end (attempt_record step (filter (\<lambda>v. v \<noteq> []) redacted) args n) log_file 1 n m r m'"
      by (rule end_of) (simp add: r)
    then obtain texts where "attempt_record step (filter (\<lambda>v. v \<noteq> []) redacted) args n n r"
        "m_files m' = m_files m @ map (\<lambda>i. (log_file, i > 1, texts i)) [1..<Suc n]"
      unfolding attempts_end_def r by (auto simp del: upt_Suc)
    then show ?thesis
      by (intro conjI exI [of _ texts]) (auto simp: attempt_record_def r Let_def rec jint_opt_def split: option.splits)
  qed
  ultimately show ?thesis by blast
qed

lemma example_texts:
  "sanitize_text [''s3cret''] ''pushed with s3cret'' = ''pushed with ***''"
  "summarize_output ''pushed with ***'' = Some ''pushed with ***''"
  by code_simp+

lemma example_command:
  "fst (run_step_command example_os example_settings ''image.push'' [''docker'', ''push'', ''r''] ''/w/push.log'' None None
      [''s3cret''] example_machine)
    = Inr ((result0 ''pushed with ***'' (build_command_metadata [''s3cret''] [''docker'', ''push'', ''r'']
        ''pushed with ***'' 1 503 (Some 0) (Suc 0) (Suc (Suc 0)) False))
      \<lparr>r_log_path := Some ''/w/push.log'', r_command_output := Some ''pushed with ***''\<rparr>)"
  by (simp add: run_step_command_def retryable_steps_def run_attempt_def execute_command_def mbind_def mret_def mnow_def
      interact_def os_sleep_def heartbeat_if_due_def file_op_def write_log_def write_text_def poll_loop.simps
      example_os_def example_child_def example_settings_def example_machine_def Let_def example_texts or_str_def)

theorem command_attempts_witness:
  "\<exists>k texts. 1 \<le> k \<and> k \<le> (2::nat)
    \<and> m_files (snd (run_step_command example_os example_settings ''image.push'' [''docker'', ''push'', ''r''] ''/w/push.log''
        None None [''s3cret''] example_machine))
      = m_files example_machine @ map (\<lambda>i. (''/w/push.log'', i > 1, texts i)) [1..<Suc k]"
proof -
  have "beats_plain example_settings" by (simp add: beats_plain_def example_settings_def)
  then show ?thesis
    using command_attempts [OF surjective_pairing _ refl, where s = example_os and st = example_settings
        and step = "''image.push''" and args = "[''docker'', ''push'', ''r'']" and log_file = "''/w/push.log''"
        and stdin_input = None and env = None and redacted = "[''s3cret'']" and m = example_machine]
      example_command
    by (auto simp: retryable_steps_def example_settings_def simp del: upt_Suc)
qed

section \<open>Redaction\<close>

lemma contains_sublist: "contains v s \<longleftrightarrow> sublist v s"
  by (simp add: contains_iff sublist_def)

lemma contains_mono: "sublist t s \<Longrightarrow> contains v t \<Longrightarrow> contains v s"
  unfolding contains_sublist by (rule sublist_order.order_trans)

lemma lines_from_sublist: "l \<in> set (lines_from line s) \<Longrightarrow> sublist l (line @ s)"
proof (induction line s rule: lines_from.induct)
  case (1 line)
  then show ?case by (auto split: if_splits)
next
  case (2 line c s)
  show ?case
  proof (cases "line_break c")
    case True
    let ?s = "if code c = 13 \<and> prefix [CHR 0x0A] s then tl s else s"
    have "suffix ?s (line @ c # s)" by (cases s) (auto simp: suffix_def)
    then have "sublist ?s (line @ c # s)" by (rule suffix_imp_sublist)
    moreover have "sublist line (line @ c # s)" by (simp add: prefix_imp_sublist)
    moreover have "l = line \<or> sublist l ?s"
      using 2(1) [OF True] 2(3) True by auto
    ultimately show ?thesis
      by (metis sublist_order.order_trans)
  next
    case False
    then show ?thesis using 2(2) [OF False] 2(3) by simp
  qed
qed

lemma strip_sublist: "sublist (strip s) s"
proof -
  have "suffix (dropWhile is_space s) s" by (rule suffix_dropWhile)
  moreover have "prefix (rstrip_where is_space (dropWhile is_space s)) (dropWhile is_space s)"
    by (rule prefix_rstrip_where)
  ultimately show ?thesis
    unfolding strip_def strip_where_rstrip
    by (meson prefix_imp_sublist suffix_imp_sublist sublist_order.order_trans)
qed

lemma text_lines_sublist: "l \<in> set (text_lines s) \<Longrightarrow> sublist l s"
  unfolding text_lines_def splitlines_def
  by (auto dest!: lines_from_sublist intro: sublist_order.order_trans [OF strip_sublist])

lemma tail_lines_sublist: "l \<in> set (tail_lines s) \<Longrightarrow> sublist l s"
  unfolding tail_lines_def Let_def
  by (auto dest!: in_set_dropD intro!: sublist_order.order_trans [OF take_is_prefix [THEN prefix_imp_sublist]]
      dest: text_lines_sublist)

definition MARKER :: string where
  "MARKER = ''***''"

lemma sanitize_Cons: "sanitize_text (v # vs) t = sanitize_text vs (if v = [] then t else replace v MARKER t)"
  by (simp add: sanitize_text_def MARKER_def)

lemma star_avoids: "CHR ''*'' \<notin> set v \<Longrightarrow> v \<noteq> [] \<Longrightarrow> avoids v MARKER"
  unfolding avoids_def MARKER_def by (cases v) (auto simp: contains_iff Cons_eq_append_conv)

lemma sanitize_keeps_absent:
  assumes "u \<noteq> []" "avoids u MARKER"
  shows "\<not> contains u t \<Longrightarrow> \<not> contains u (sanitize_text vs t)"
proof (induction vs arbitrary: t)
  case (Cons v vs)
  have "MARKER \<noteq> []" by (simp add: MARKER_def)
  then show ?case
    using Cons replace_keeps_absent [OF _ _ assms] by (auto simp: sanitize_Cons)
qed (simp add: sanitize_text_def)

lemma sanitize_removes:
  assumes "v \<noteq> []" "avoids v MARKER"
  shows "v \<in> set vs \<Longrightarrow> \<not> contains v (sanitize_text vs t)"
proof (induction vs arbitrary: t)
  case (Cons u vs)
  have ne: "MARKER \<noteq> []" by (simp add: MARKER_def)
  show ?case
  proof (cases "u = v")
    case True
    then show ?thesis
      using replace_removes [OF assms(1) ne assms(2)] sanitize_keeps_absent [OF assms] assms(1)
      by (simp add: sanitize_Cons)
  next
    case False
    then show ?thesis using Cons by (auto simp: sanitize_Cons)
  qed
qed simp

lemma contains_apart:
  assumes "c \<notin> set v" "v \<noteq> []"
  shows "contains v (x @ c # y) \<Longrightarrow> contains v x \<or> contains v y"
proof (induction x)
  case Nil
  then show ?case using assms by (cases v) auto
next
  case (Cons a x)
  have "prefix v (a # x)" if "prefix v ((a # x) @ c # y)"
    using that assms unfolding prefix_append by (auto simp: prefix_Cons)
  then show ?case using Cons by auto
qed

text \<open>
  A value that the summary of two lines, joined by \<open> | \<close>, cannot put together from its parts.
\<close>

definition unbroken :: "string \<Rightarrow> bool" where
  "unbroken v \<longleftrightarrow> v \<noteq> [] \<and> CHR ''|'' \<notin> set v \<and> hd v \<noteq> CHR '' '' \<and> last v \<noteq> CHR '' ''"

lemma contains_trimmed:
  assumes "unbroken v"
  shows "contains v (x @ '' '') \<Longrightarrow> contains v x" "contains v (CHR '' '' # x) \<Longrightarrow> contains v x"
proof -
  show "contains v x" if c: "contains v (x @ '' '')"
  proof -
    obtain a b where eq: "x @ '' '' = a @ v @ b" using c unfolding contains_iff by blast
    show ?thesis
    proof (cases b rule: rev_cases)
      case Nil
      then have "last (a @ v) = CHR '' ''" using eq by (metis append_Nil2 last_snoc)
      then show ?thesis using assms by (simp add: unbroken_def)
    next
      case (snoc b' c)
      then have "x = a @ v @ b'" using eq by simp
      then show ?thesis unfolding contains_iff by blast
    qed
  qed
  show "contains v x" if "contains v (CHR '' '' # x)"
    using that assms by (cases v) (auto simp: unbroken_def)
qed

lemma summarize_hides:
  assumes "summarize_output out = Some t" "unbroken v" "\<not> contains v out"
  shows "\<not> contains v t"
proof -
  have part: "\<not> contains v (take n l)" if "l \<in> set (text_lines out)" for n l
    using that assms(3) contains_mono [OF sublist_order.order_trans [OF prefix_imp_sublist [OF take_is_prefix]
        text_lines_sublist [OF that]]] by blast
  have pair: "\<not> contains v (x @ '' | '' @ y)" if "\<not> contains v x" "\<not> contains v y" for x y
  proof
    assume "contains v (x @ '' | '' @ y)"
    then have "contains v ((x @ '' '') @ CHR ''|'' # (CHR '' '' # y))" by simp
    then have "contains v (x @ '' '') \<or> contains v (CHR '' '' # y)"
      by (rule contains_apart [rotated 2]) (use assms(2) in \<open>simp_all add: unbroken_def\<close>)
    then show False using contains_trimmed [OF assms(2)] that by blast
  qed
  show ?thesis
  proof (cases "rev (text_lines out)")
    case Nil
    then show ?thesis using assms(1) by (simp add: summarize_output_def)
  next
    case (Cons l ls)
    then have ls: "set (text_lines out) = set (l # ls)" by (metis set_rev)
    show ?thesis
    proof (cases ls)
      case Nil
      then show ?thesis using assms(1) Cons part [of l] ls by (auto simp: summarize_output_def)
    next
      case (Cons l' ls')
      then show ?thesis
        using assms(1) \<open>rev (text_lines out) = l # ls\<close> ls pair [OF part part, of l' l 200 200]
        by (auto simp: summarize_output_def)
    qed
  qed
qed

text \<open>No text of the record of a command contains \<open>v\<close> (in its summary, if \<open>v\<close> is unbroken).\<close>

fun texts_of :: "json \<Rightarrow> string list" where
  "texts_of (JList xs) = concat (map texts_of xs)"
| "texts_of (JDict kvs) = concat (map (\<lambda>(k, j). texts_of j) kvs)"
| "texts_of (JStr s) = [s]"
| "texts_of _ = []"

definition record_hides :: "string \<Rightarrow> dict \<Rightarrow> bool" where
  "record_hides v md \<longleftrightarrow>
     (\<forall>(key, j) \<in> set md. key \<noteq> ''summary'' \<or> unbroken v \<longrightarrow> (\<forall>t \<in> set (texts_of j). \<not> contains v t))"

lemma texts_of_jtexts [simp]: "texts_of (jtexts ss) = ss"
  unfolding jtexts_def by (induction ss) auto

lemma metadata_hides:
  assumes "v \<in> set redacted" "v \<noteq> []" "CHR ''*'' \<notin> set v"
  shows "record_hides v (build_command_metadata redacted args (sanitize_text redacted out) t1 t2 rc k n timed_out)"
proof -
  have clean: "\<not> contains v (sanitize_text redacted t)" for t
    by (rule sanitize_removes [OF assms(2) star_avoids [OF assms(3,2)] assms(1)])
  have "\<not> contains v t" if "t \<in> set (tail_lines (sanitize_text redacted out))" for t
    using tail_lines_sublist [OF that] contains_mono clean by blast
  moreover have "\<not> contains v t" if "unbroken v" "summarize_output (sanitize_text redacted out) = Some t" for t
    by (rule summarize_hides [OF that(2,1) clean])
  ultimately show ?thesis
    using clean by (cases rc) (auto simp: record_hides_def build_command_metadata_def sanitize_args_def jopt_def
        jint_opt_def jnat_def split: option.splits)
qed

text \<open>The message of a result or of an error of a command that ended is the summary, or a fixed text.\<close>

definition message_hides :: "string \<Rightarrow> string \<Rightarrow> string \<Rightarrow> bool" where
  "message_hides v fixed msg \<longleftrightarrow> unbroken v \<and> msg \<noteq> fixed \<longrightarrow> \<not> contains v msg"

lemma summary_message_hides:
  assumes "\<not> contains v out"
  shows "message_hides v fixed (or_str (summarize_output out) fixed)"
  using summarize_hides [OF _ _ assms]
  by (cases "summarize_output out") (auto simp: message_hides_def or_str_def)

definition code_of :: "dict \<Rightarrow> int option" where
  "code_of md = (case jget md ''returncode'' of JInt x \<Rightarrow> Some x | _ \<Rightarrow> None)"

lemma code_of_metadata: "code_of (build_command_metadata rd as out t1 t2 rc k n timed_out) = rc"
  by (cases rc) (simp_all add: code_of_def build_command_metadata_def jint_opt_def)

lemma run_step_command_hides:
  assumes "run_step_command s st step args log_file stdin_input env redacted m = (r, m')" "beats_plain st"
    and "v \<in> set redacted" "v \<noteq> []" "CHR ''*'' \<notin> set v"
  shows "(\<forall>x. r = Inr x \<longrightarrow> record_hides v (r_metadata x) \<and> (\<exists>t. r_command_output x = Some t \<and> \<not> contains v t)
        \<and> message_hides v (step @ '' completed successfully'') (r_message x))
    \<and> (\<forall>step' msg md l evs. r = Inl (ExecError step' msg md l evs) \<longrightarrow> record_hides v md
        \<and> (\<forall>x. code_of md = Some x \<longrightarrow> message_hides v (''Command failed with exit code '' @ str_of_int x) msg))"
proof -
  let ?vs = "filter (\<lambda>v. v \<noteq> []) redacted"
  have v: "v \<in> set ?vs" using assms(3,4) by simp
  have clean: "\<not> contains v (sanitize_text ?vs t)" for t
    by (rule sanitize_removes [OF assms(4) star_avoids [OF assms(5,4)] v])
  note hides = metadata_hides [OF v assms(4,5)]
  note ends = run_step_command_end [OF assms(1,2) refl]
  have "record_hides v (r_metadata x) \<and> (\<exists>t. r_command_output x = Some t \<and> \<not> contains v t)
      \<and> message_hides v (step @ '' completed successfully'') (r_message x)" if x: "r = Inr x" for x
  proof -
    obtain n k where "attempt_record step ?vs args n k (Inr x)"
      using ends unfolding attempts_end_def x by (auto simp del: upt_Suc)
    then show ?thesis
      using hides clean summary_message_hides [OF clean] by (auto simp: attempt_record_def Let_def)
  qed
  moreover have "record_hides v md
      \<and> (\<forall>x. code_of md = Some x \<longrightarrow> message_hides v (''Command failed with exit code '' @ str_of_int x) msg)"
    if e: "r = Inl (ExecError step' msg md l evs)" for step' msg md l evs
  proof -
    obtain n k where "attempt_record step ?vs args n k (Inl (ExecError step' msg md l evs))"
      using ends unfolding attempts_end_def e by (auto simp del: upt_Suc)
    then obtain out t1 t2 rc timed_out where
        md: "md = build_command_metadata ?vs args (sanitize_text ?vs out) t1 t2 rc k n timed_out"
      and msg: "\<And>x. rc = Some x \<Longrightarrow> msg = or_str (summarize_output (sanitize_text ?vs out))
          (''Command failed with exit code '' @ str_of_int x)"
      by (auto simp: attempt_record_def Let_def simp del: append.simps)
    have "message_hides v (''Command failed with exit code '' @ str_of_int x) msg" if "code_of md = Some x" for x
      unfolding msg [OF that [unfolded md code_of_metadata]] by (rule summary_message_hides [OF clean])
    then show ?thesis unfolding md using hides by (simp add: md)
  qed
  ultimately show ?thesis by blast
qed

text \<open>
  C36: The values to redact do not reach what a command leaves in the database, where heartbeats
  raise no error of a command (those of the worker do not). If \<open>v\<close> is one of
  them and has no asterisk, no argument and no line of output that the record of the command
  holds contains it, for a result and for an error; nor does the output of a result. If it
  also has no bar and no blank at its ends, neither the summary in the record contains it nor
  the message of a result or of a command that failed with an exit code, unless that message
  is the fixed text for commands without output.
\<close>

theorem command_records_hide_values:
  assumes "run_step_command s st step args log_file stdin_input env redacted m = (r, m')" "beats_plain st"
    and "v \<in> set redacted" "v \<noteq> []" "CHR ''*'' \<notin> set v"
  shows "(\<forall>x. r = Inr x \<longrightarrow> record_hides v (r_metadata x) \<and> (\<exists>t. r_command_output x = Some t \<and> \<not> contains v t)
        \<and> message_hides v (step @ '' completed successfully'') (r_message x))
    \<and> (\<forall>step' msg md l evs. r = Inl (ExecError step' msg md l evs) \<longrightarrow> record_hides v md
        \<and> (\<forall>x. code_of md = Some x \<longrightarrow> message_hides v (''Command failed with exit code '' @ str_of_int x) msg))"
  by (rule run_step_command_hides [OF assms])

theorem command_records_hide_values_witness:
  "record_hides ''s3cret'' (build_command_metadata [''s3cret''] [''docker'', ''push'', ''r'']
        ''pushed with ***'' 1 503 (Some 0) (Suc 0) (Suc (Suc 0)) False) \<and> \<not> contains ''s3cret'' ''pushed with ***''
    \<and> message_hides ''s3cret'' ''image.push completed successfully'' ''pushed with ***''"
proof -
  have "beats_plain example_settings" by (simp add: beats_plain_def example_settings_def)
  then show ?thesis
    using command_records_hide_values [OF surjective_pairing, where s = example_os and st = example_settings
        and step = "''image.push''" and args = "[''docker'', ''push'', ''r'']" and log_file = "''/w/push.log''"
        and stdin_input = None and env = None and redacted = "[''s3cret'']" and m = example_machine and v = "''s3cret''"]
      example_command
    by (auto simp: result0_def)
qed

end
