(* ===== verification/Source_Build.thy ===== *)
theory Source_Build
  imports Command_Runner Log_Redaction
begin

text \<open>
  \<open>worker/services/repository.py\<close>, \<open>image_build.py\<close> and \<open>registry.py\<close>, the part of the Docker
  and Kubernetes executors that clones the repository, builds and tests the image and
  pushes it, with \<open>_prepare_workspace\<close> of \<open>docker_runtime.py\<close>. The lemmas state that a
  pushed image is pinned to one digest, which the verification step accepts, and that the
  git token does not reach the records of a clone.
\<close>

section \<open>Workspace\<close>

text \<open>\<open>str(Path(a) / b)\<close> and the settings that the constructor normalises.\<close>

definition path_join :: "string \<Rightarrow> string \<Rightarrow> string" where
  "path_join a b = (if prefix ''/'' b then path_text b else path_text (a @ ''/'' @ b))"

definition is_slash :: "char \<Rightarrow> bool" where
  "is_slash c \<longleftrightarrow> c = CHR ''/''"

definition init_settings :: "'a settings_scheme \<Rightarrow> 'a settings_scheme" where
  "init_settings st = st\<lparr>st_workspace_root := path_text (st_workspace_root st),
     st_registry_url := rstrip_where is_slash (strip (st_registry_url st)),
     st_registry_namespace := strip_where is_slash (strip (st_registry_namespace st))\<rparr>"

definition workspace_dir :: "'a settings_scheme \<Rightarrow> deployment \<Rightarrow> string" where
  "workspace_dir st d = path_join (path_join (st_workspace_root st) (''project-'' @ str_of_nat (d_project_id d)))
     (''deployment-'' @ str_of_nat (d_id d))"

definition repo_dir :: "'a settings_scheme \<Rightarrow> deployment \<Rightarrow> string" where
  "repo_dir st d = path_join (workspace_dir st d) ''repo''"

definition logs_dir :: "'a settings_scheme \<Rightarrow> deployment \<Rightarrow> string" where
  "logs_dir st d = path_join (workspace_dir st d) ''logs''"

definition exec_error :: "string \<Rightarrow> string \<Rightarrow> dict \<Rightarrow> exn" where
  "exec_error step message metadata = ExecError step message metadata None []"

definition prepare_workspace :: "os \<Rightarrow> 'a settings_scheme \<Rightarrow> deployment \<Rightarrow> unit act" where
  "prepare_workspace s st d = mbind (interact s 0 (\<lambda>n. os_fails s n (logs_dir st d))) (\<lambda>failure. case failure of
     None \<Rightarrow> mret ()
   | Some e \<Rightarrow> mthrow (exec_error ''repository.workspace''
       (''Unable to prepare deployment workspace '' @ squote (workspace_dir st d) @ '': '' @ e)
       [(''workspace_path'', JStr (workspace_dir st d)), (''workspace_root'', JStr (st_workspace_root st))]))"

definition log_at :: "'a settings_scheme \<Rightarrow> deployment \<Rightarrow> string \<Rightarrow> string" where
  "log_at st d name = path_join (logs_dir st d) name"

definition spec_str :: "os \<Rightarrow> dict \<Rightarrow> string \<Rightarrow> string" where
  "spec_str s spec key = str_of_json (os_shown s) (jget spec key)"

definition plain_command :: "os \<Rightarrow> 'a settings_scheme \<Rightarrow> string \<Rightarrow> string list \<Rightarrow> string \<Rightarrow> exec_result act" where
  "plain_command s st step args file = run_step_command s st step args file None None []"

section \<open>Repository\<close>

text \<open>The relationship \<open>deployment.events\<close> has no order of its own; rows come by their key.\<close>

definition recorded_branch :: "world \<Rightarrow> deployment \<Rightarrow> string option" where
  "recorded_branch w d = first_value ''branch'' (map e_metadata_json
     (filter (\<lambda>e. e_event_type e = ''deployment.created'') (sort_key e_id (events_of w (d_id d)))))"

definition deployment_branch :: "os \<Rightarrow> world \<Rightarrow> deployment \<Rightarrow> string" where
  "deployment_branch s w d =
     (let spec_branch = spec_str s (project_for_deployment w d) ''branch''
      in if jtrue (d_spec_snapshot_json d) then spec_branch
         else (case recorded_branch w d of Some b \<Rightarrow> b | None \<Rightarrow> spec_branch))"

definition git_clone_environment ::
    "os \<Rightarrow> dict \<Rightarrow> exn + ((string \<times> string) list option \<times> string list)" where
  "git_clone_environment s spec =
     (let git_auth_type = lower (strip (or_str (jstr_opt (jget spec ''git_auth_type'')) ''none''));
          secret_ref = strip (or_str (jstr_opt (jget spec ''git_secret_ref'')) []);
          token_env_name = ''CONTROL_PLANE_GIT_TOKEN_'' @ secret_ref;
          token = or_str (map_of (os_environ s) token_env_name) [];
          clone_error = (\<lambda>message. Inl (exec_error ''repository.clone'' message []))
      in if git_auth_type = ''none'' then Inr (None, [])
         else if git_auth_type \<noteq> ''token'' then clone_error (''Unsupported git auth type '' @ squote git_auth_type)
         else if secret_ref = [] then clone_error (''git_secret_ref is required when git_auth_type is '' @ squote ''token'')
         else if token = [] then clone_error (''Git token environment variable '' @ squote token_env_name @ '' is not set'')
         else if \<not> prefix ''https://github.com/'' (or_str (jstr_opt (jget spec ''repo_url'')) [])
         then clone_error ''Token-based git auth currently supports only https://github.com/ repository URLs''
         else Inr (Some (AList.updates
             [''GIT_TERMINAL_PROMPT'', ''GIT_CONFIG_COUNT'', ''GIT_CONFIG_KEY_0'', ''GIT_CONFIG_VALUE_0'']
             [''0'', ''1'', ''http.extraheader'', auth_header token] (os_environ s)), [token, auth_header token]))"

definition clone_repo :: "os \<Rightarrow> 'a settings_scheme \<Rightarrow> world \<Rightarrow> deployment \<Rightarrow> build \<Rightarrow> exec_result act" where
  "clone_repo s st w d b =
     (let spec = project_for_deployment w d; repo = repo_dir st d; branch = deployment_branch s w d
      in mbind (prepare_workspace s st d) (\<lambda>_.
         mbind (interact s 0 (\<lambda>n. os_exists s n repo)) (\<lambda>present.
         mbind (if present then remove_file s repo else mret ()) (\<lambda>_.
         mbind (mlift (git_clone_environment s spec)) (\<lambda>(env, redacted).
         mbind (run_step_command s st ''repository.clone''
                  [''git'', ''clone'', ''--branch'', branch, ''--single-branch'', spec_str s spec ''repo_url'', repo]
                  (log_at st d ''clone.log'') None env redacted) (\<lambda>result.
         let commit_sha = strip (b_commit_sha b)
         in if commit_sha = []
            then mthrow (exec_error ''repository.checkout'' ''Deployment commit SHA is missing after repository clone'' [])
            else mbind (run_step_command s st ''repository.checkout''
                     [''git'', ''-C'', repo, ''checkout'', ''--detach'', commit_sha]
                     (log_at st d ''checkout.log'') None env redacted) (\<lambda>checkout.
                 mret (result\<lparr>r_workspace_path := Some (workspace_dir st d),
                   r_metadata := jmerge (r_metadata result)
                     [(''branch'', JStr branch), (''commit_sha'', JStr commit_sha),
                      (''checkout_log_path'', JStr (log_at st d ''checkout.log'')),
                      (''checkout_summary'', JStr (r_message checkout))]\<rparr>))))))))"

section \<open>Build and tests\<close>

definition image_name_of :: "os \<Rightarrow> dict \<Rightarrow> build \<Rightarrow> string" where
  "image_name_of s spec b = sanitize_image_component (or_str (b_image_name b) (spec_str s spec ''name''))"

definition registry_image_ref :: "'a settings_scheme \<Rightarrow> string \<Rightarrow> string \<Rightarrow> exn + string option" where
  "registry_image_ref st image_name tag_suffix =
     (if \<not> st_registry_enabled st then Inr None
      else if st_registry_url st = []
      then Inl (exec_error ''image.tag'' ''Registry is enabled but CONTROL_PLANE_REGISTRY_URL is not configured'' [])
      else Inr (Some (st_registry_url st @ ''/''
        @ (if st_registry_namespace st \<noteq> [] then st_registry_namespace st @ ''/'' else [])
        @ image_name @ '':'' @ tag_suffix)))"

definition build_image :: "os \<Rightarrow> 'a settings_scheme \<Rightarrow> world \<Rightarrow> deployment \<Rightarrow> build \<Rightarrow> exec_result act" where
  "build_image s st w d b =
     (let spec = project_for_deployment w d;
          dockerfile = path_join (repo_dir st d) (spec_str s spec ''dockerfile_path'');
          context_dir = path_join (repo_dir st d) (spec_str s spec ''build_context'');
          image_name = image_name_of s spec b
      in mbind (prepare_workspace s st d) (\<lambda>_.
         mbind (interact s 0 (\<lambda>n. os_is_file s n dockerfile)) (\<lambda>found.
         if \<not> found then mthrow (exec_error ''image.build'' (''Dockerfile not found at '' @ squote dockerfile)
                             [(''dockerfile_path'', JStr dockerfile)])
         else mbind (interact s 0 (\<lambda>n. os_exists s n context_dir)) (\<lambda>present.
         if \<not> present then mthrow (exec_error ''image.build'' (''Build context not found at '' @ squote context_dir)
                               [(''build_context'', JStr context_dir)])
         else mbind (interact s 0 (\<lambda>n. os_uuid s n)) (\<lambda>uuid.
         let tag_suffix = sanitize_image_component (take 12 (b_commit_sha b)) @ ''-'' @ uuid;
             image_tag = image_name @ '':'' @ tag_suffix
         in mbind (mlift (registry_image_ref st image_name tag_suffix)) (\<lambda>registry_ref.
            let image_ref = or_str registry_ref image_tag
            in mbind (plain_command s st ''image.build''
                   [''docker'', ''build'', ''--tag'', image_tag, ''--file'', dockerfile, context_dir]
                   (log_at st d ''build.log'')) (\<lambda>result.
               mret (result\<lparr>r_workspace_path := Some (workspace_dir st d),
                 r_image_tag := Some image_tag, r_image_ref := Some image_ref,
                 r_metadata := jmerge (r_metadata result)
                   [(''local_image_tag'', JStr image_tag),
                    (''registry_image_ref'', if image_ref \<noteq> image_tag then JStr image_ref else JNull)]\<rparr>))))))))"

text \<open>The build has its tag when the tests run: the worker stores it after \<open>build_image\<close>.\<close>

definition run_tests :: "os \<Rightarrow> 'a settings_scheme \<Rightarrow> world \<Rightarrow> deployment \<Rightarrow> build \<Rightarrow> exec_result act" where
  "run_tests s st w d b =
     mbind (prepare_workspace s st d) (\<lambda>_.
       case parse_optional_command (jopt (b_test_command b)) ''test_command'' of
         Inl e \<Rightarrow> mthrow (exec_error ''tests'' e [(''test_command_valid'', JBool False)])
       | Inr None \<Rightarrow> mthrow (exec_error ''tests'' ''Configured test command is empty'' [])
       | Inr (Some test_command) \<Rightarrow>
           mbind (plain_command s st ''tests''
               ([''docker'', ''run'', ''--rm'', or_str (b_image_tag b) []] @ test_command) (log_at st d ''tests.log''))
             (\<lambda>result. mret (result\<lparr>r_workspace_path := Some (workspace_dir st d)\<rparr>)))"

section \<open>Registry\<close>

definition skipped_result :: "'a settings_scheme \<Rightarrow> string \<Rightarrow> string \<Rightarrow> build \<Rightarrow> exec_result" where
  "skipped_result st message file b =
     (result0 message [(''executor'', JStr (st_deploy_target st)), (''skipped'', JBool True),
                       (''registry_enabled'', JBool False)])
       \<lparr>r_log_path := Some file, r_image_tag := b_image_tag b, r_image_ref := or_else (b_image_ref b) (b_image_tag b)\<rparr>"

definition tag_image :: "os \<Rightarrow> 'a settings_scheme \<Rightarrow> world \<Rightarrow> deployment \<Rightarrow> build \<Rightarrow> exec_result act" where
  "tag_image s st w d b =
     (let file = log_at st d ''tag.log''
      in mbind (prepare_workspace s st d) (\<lambda>_.
         if \<not> truthy (b_image_tag b)
         then mthrow (exec_error ''image.tag'' ''Local image tag is missing before registry tag step'' [])
         else if \<not> st_registry_enabled st
         then mbind (write_text s False file (''Registry push disabled. Tag step skipped.'' @ LF)) (\<lambda>_.
                mret (skipped_result st ''Image tag skipped because registry push is disabled'' file b))
         else if \<not> truthy (b_image_ref b)
         then mthrow (exec_error ''image.tag'' ''Registry image reference is missing before push step'' [])
         else mbind (plain_command s st ''image.tag''
                [''docker'', ''tag'', or_str (b_image_tag b) [], or_str (b_image_ref b) []] file)
              (\<lambda>result. mret (result\<lparr>r_image_tag := b_image_tag b, r_image_ref := b_image_ref b\<rparr>))))"

text \<open>
  \<open>re.findall(r"\bdigest:\s*(sha256:[0-9a-f]{64})\b", output)\<close>: the flag says whether the
  character before is a word character.
\<close>

definition hex_char :: "char \<Rightarrow> bool" where
  "hex_char c \<longleftrightarrow> is_digit c \<or> (CHR ''a'' \<le> c \<and> c \<le> CHR ''f'')"

definition is_digest :: "string \<Rightarrow> bool" where
  "is_digest s \<longleftrightarrow> prefix ''sha256:'' s \<and> length s = 71 \<and> list_all hex_char (drop 7 s)"

definition digest_at :: "string \<Rightarrow> (string \<times> string) option" where
  "digest_at s =
     (let t = dropWhile is_space (drop 7 s)
      in if prefix ''digest:'' s \<and> is_digest (take 71 t) \<and> (drop 71 t = [] \<or> \<not> word_char (hd (drop 71 t)))
         then Some (take 71 t, drop 71 t) else None)"

lemma digest_at_shorter: "digest_at s = Some (digest, rest) \<Longrightarrow> length rest < length s"
proof -
  assume a: "digest_at s = Some (digest, rest)"
  let ?t = "dropWhile is_space (drop 7 s)"
  have "rest = drop 71 ?t" "prefix ''digest:'' s"
    using a by (auto simp: digest_at_def Let_def split: if_splits)
  moreover have "length ?t \<le> length s - 7"
    using length_dropWhile_le [of is_space "drop 7 s"] by simp
  ultimately show ?thesis using prefix_length_le [of "''digest:''" s] by simp
qed

function digests :: "bool \<Rightarrow> string \<Rightarrow> string list" where
  "digests after_word [] = []"
| "digests after_word (c # s) =
     (case (if after_word then None else digest_at (c # s)) of
        Some (digest, rest) \<Rightarrow> digest # digests True rest
      | None \<Rightarrow> digests (word_char c) s)"
  by pat_completeness auto
termination
  by (relation "measure (\<lambda>(after_word, s). length s)")
    (auto dest!: digest_at_shorter split: if_splits)

text \<open>\<open>ref.rsplit(":", 1)[0]\<close>.\<close>

definition before_last_colon :: "string \<Rightarrow> string" where
  "before_last_colon s = (if CHR '':'' \<in> set s then rev (tl (dropWhile (\<lambda>c. c \<noteq> CHR '':'') (rev s))) else s)"

definition push_image :: "os \<Rightarrow> 'a settings_scheme \<Rightarrow> world \<Rightarrow> deployment \<Rightarrow> build \<Rightarrow> exec_result act" where
  "push_image s st w d b =
     (let file = log_at st d ''push.log''; ref = or_str (b_image_ref b) [];
          user = or_str (st_registry_username st) []; password = or_str (st_registry_password st) []
      in mbind (prepare_workspace s st d) (\<lambda>_.
         if \<not> st_registry_enabled st
         then mbind (write_text s False file (''Push skipped because registry push is disabled.'' @ LF)) (\<lambda>_.
                mret (skipped_result st ''Image push skipped because registry push is disabled'' file b))
         else if ref = []
         then mthrow (exec_error ''image.push'' ''Registry image reference is missing before push step'' [])
         else
           mbind (if user \<noteq> [] \<and> password \<noteq> []
               then mbind (run_step_command s st ''image.login''
                      [''docker'', ''login'', st_registry_url st, ''--username'', user, ''--password-stdin'']
                      file (Some password) None [])
                    (\<lambda>login. mret [(''login_summary'', JStr (r_message login))])
               else mret []) (\<lambda>login_metadata.
           mbind (plain_command s st ''image.push'' [''docker'', ''push'', ref] file) (\<lambda>result.
           let ds = digests False (or_str (r_command_output result) [])
           in if length (remdups ds) \<noteq> 1
              then mthrow (ExecError ''image.push'' ''Registry push did not report one valid image digest''
                     [(''tagged_image_ref'', JStr ref)] (Some file) [])
              else mret (result\<lparr>r_image_tag := b_image_tag b,
                     r_image_ref := Some (before_last_colon ref @ [CHR 0x40] @ hd ds),
                     r_metadata := jmerge (jmerge (r_metadata result)
                       [(''tagged_image_ref'', JStr ref), (''image_digest'', JStr (hd ds))]) login_metadata\<rparr>)))))"

text \<open>\<open>re.fullmatch\<close> of a reference that ends with a digest.\<close>

definition pinned :: "string \<Rightarrow> bool" where
  "pinned ref \<longleftrightarrow> (let a = takeWhile (\<lambda>c. c \<noteq> CHR 0x40) ref; r = dropWhile (\<lambda>c. c \<noteq> CHR 0x40) ref
     in a \<noteq> [] \<and> r \<noteq> [] \<and> is_digest (tl r))"

definition verify_image :: "os \<Rightarrow> 'a settings_scheme \<Rightarrow> world \<Rightarrow> deployment \<Rightarrow> build \<Rightarrow> exec_result act" where
  "verify_image s st w d b =
     (let file = log_at st d ''verify-image.log''; ref = or_str (b_image_ref b) []
      in mbind (prepare_workspace s st d) (\<lambda>_.
         if \<not> st_registry_enabled st
         then mbind (write_text s False file (''Image verification skipped because registry push is disabled.'' @ LF)) (\<lambda>_.
                mret (skipped_result st ''Image verification skipped because registry push is disabled'' file b))
         else if ref = []
         then mthrow (exec_error ''image.verify'' ''Registry image reference is missing before verification step'' [])
         else if \<not> pinned ref
         then mthrow (exec_error ''image.verify'' ''Registry deployment requires a digest reported by image push'' [])
         else mbind (plain_command s st ''image.verify''
                [''docker'', ''buildx'', ''imagetools'', ''inspect'', ref] file)
              (\<lambda>result. mret (result\<lparr>r_image_tag := b_image_tag b, r_image_ref := Some ref\<rparr>))))"

section \<open>Invariants\<close>

lemma mkeeps_prepare: "quiet I s \<Longrightarrow> mkeeps I (prepare_workspace s st d)"
  unfolding prepare_workspace_def by (intro act_rules mkeeps_os)

lemma mkeeps_plain: "quiet I s \<Longrightarrow> beats_keep I st \<Longrightarrow> mkeeps I (plain_command s st step args f)"
  unfolding plain_command_def by (rule mkeeps_run_step_command)

lemmas mkeeps_services = mkeeps_os mkeeps_command mkeeps_prepare mkeeps_plain

lemma mkeeps_source_build:
  assumes "quiet I s" "beats_keep I st"
  shows "mkeeps I (clone_repo s st w d b)" "mkeeps I (build_image s st w d b)" "mkeeps I (run_tests s st w d b)"
    "mkeeps I (tag_image s st w d b)" "mkeeps I (push_image s st w d b)" "mkeeps I (verify_image s st w d b)"
  unfolding clone_repo_def build_image_def run_tests_def tag_image_def push_image_def verify_image_def Let_def
  by (intro act_rules mkeeps_services assms)+

section \<open>Pinned images\<close>

lemma digests_are: "d \<in> set (digests f s) \<Longrightarrow> is_digest d"
proof (induction f s rule: digests.induct)
  case (2 after_word c s)
  show ?case
  proof (cases "if after_word then None else digest_at (c # s)")
    case None
    then show ?thesis using 2 by simp
  next
    case (Some p)
    obtain digest rest where p: "p = (digest, rest)" by (cases p)
    have "digest_at (c # s) = Some (digest, rest)" using Some p by (auto split: if_splits)
    then have "is_digest digest" unfolding digest_at_def Let_def by (auto split: if_splits)
    then show ?thesis using 2 Some p by auto
  qed
qed simp

lemma before_last_colon_set: "c \<in> set (before_last_colon s) \<Longrightarrow> c \<in> set s"
  unfolding before_last_colon_def
  by (auto split: if_splits) (metis list.set_sel(2) set_dropWhileD set_rev tl_Nil empty_iff empty_set)

lemma at_digest_pinned:
  assumes "is_digest d" "a \<noteq> []" "CHR 0x40 \<notin> set a"
  shows "pinned (a @ [CHR 0x40] @ d)"
proof -
  have no: "\<And>x. x \<in> set a \<Longrightarrow> x \<noteq> CHR 0x40" using assms(3) by blast
  have "takeWhile (\<lambda>c. c \<noteq> CHR 0x40) (a @ CHR 0x40 # d) = a"
    using takeWhile_append2 [of a "\<lambda>c. c \<noteq> CHR 0x40"] no by simp
  moreover have "dropWhile (\<lambda>c. c \<noteq> CHR 0x40) (a @ CHR 0x40 # d) = CHR 0x40 # d"
    using dropWhile_append2 [of a "\<lambda>c. c \<noteq> CHR 0x40"] no by simp
  ultimately show ?thesis using assms(1,2) by (simp add: pinned_def Let_def)
qed

lemma one_digest:
  assumes "length (remdups ds) = 1"
  shows "ds \<noteq> []" "set ds = {hd ds}"
proof -
  obtain d where "remdups ds = [d]" using assms by (auto simp: length_Suc_conv)
  then have "set ds = {d}" by (metis set_remdups list.set(1,2))
  then show "ds \<noteq> []" "set ds = {hd ds}" by (auto, (metis hd_in_set empty_iff empty_set insert_not_empty singletonD)+)
qed

lemma push_image_cases:
  assumes "push_image s st w d b m = (Inr x, m')" "st_registry_enabled st"
  defines "ref \<equiv> or_str (b_image_ref b) []"
  shows "\<exists>result m1 m2. plain_command s st ''image.push'' [''docker'', ''push'', ref] (log_at st d ''push.log'') m1 = (Inr result, m2)
    \<and> (let ds = digests False (or_str (r_command_output result) [])
        in ref \<noteq> [] \<and> length (remdups ds) = 1 \<and> r_image_ref x = Some (before_last_colon ref @ [CHR 0x40] @ hd ds))"
  using assms(1,2) unfolding push_image_def Let_def ref_def [symmetric]
  by (fastforce dest!: mbind_Inr simp: mthrow_def mret_def split: if_splits)

text \<open>
  A pushed image is pinned: when the registry is used, the reference that \<open>push_image\<close>
  returns is the repository of the tag, an at sign and the digest, where the output of
  \<open>docker push\<close> reports this digest and no other; it has the form that \<open>verify_image\<close> requires.
\<close>

theorem pushed_image_is_pinned:
  assumes "push_image s st w d b m = (Inr x, m')" "st_registry_enabled st"
    and "b_image_ref b = Some ref" "CHR 0x40 \<notin> set ref" "before_last_colon ref \<noteq> []"
  shows "\<exists>digest result m1 m2. r_image_ref x = Some (before_last_colon ref @ [CHR 0x40] @ digest)
    \<and> pinned (before_last_colon ref @ [CHR 0x40] @ digest)
    \<and> plain_command s st ''image.push'' [''docker'', ''push'', ref] (log_at st d ''push.log'') m1 = (Inr result, m2)
    \<and> set (digests False (or_str (r_command_output result) [])) = {digest} \<and> is_digest digest"
proof -
  have ref: "or_str (b_image_ref b) [] = ref" using assms(3) by (simp add: or_str_def)
  obtain result m1 m2 ds where
      "plain_command s st ''image.push'' [''docker'', ''push'', ref] (log_at st d ''push.log'') m1 = (Inr result, m2)"
      and ds: "ds = digests False (or_str (r_command_output result) [])" "length (remdups ds) = 1"
      and "r_image_ref x = Some (before_last_colon ref @ [CHR 0x40] @ hd ds)"
    using push_image_cases [OF assms(1,2)] unfolding ref Let_def by blast
  moreover have "is_digest (hd ds)" using hd_in_set [OF one_digest(1) [OF ds(2)]] unfolding ds(1) by (rule digests_are)
  moreover have "CHR 0x40 \<notin> set (before_last_colon ref)" using assms(4) before_last_colon_set by blast
  ultimately show ?thesis
    using at_digest_pinned [OF _ assms(5)] one_digest(2) [OF ds(2)] ds(1) by metis
qed

definition example_digest :: string where
  "example_digest = ''sha256:0123456789abcdef0123456789abcdef0123456789abcdef0123456789abcdef''"

definition example_report :: string where
  "example_report = ''v1: digest: '' @ example_digest @ '' size: 7''"

definition example_registry :: os where
  "example_registry = example_os\<lparr>os_spawn := (\<lambda>_ _ _. Inr \<lparr>ch_poll = (\<lambda>t. Some 0),
     ch_stdout = (\<lambda>_. example_report), ch_stderr = (\<lambda>_. [])\<rparr>)\<rparr>"

definition example_build :: build where
  "example_build = (demo_build 1 B_pending)\<lparr>b_image_tag := Some ''shop:v1'', b_image_ref := Some ''r.io/shop:v1''\<rparr>"

lemma example_output:
  "digests False (sanitize_text [] example_report) = [example_digest]" "sanitize_text [] example_report \<noteq> []"
  "before_last_colon ''r.io/shop:v1'' = ''r.io/shop''"
  by code_simp+

lemma example_push:
  "\<exists>x. fst (push_image example_registry (example_settings\<lparr>st_registry_enabled := True\<rparr>) w d example_build example_machine)
    = Inr x \<and> r_image_ref x = Some (''r.io/shop@'' @ example_digest)"
  by (simp add: push_image_def plain_command_def prepare_workspace_def run_step_command_def retryable_steps_def
      run_attempt_def execute_command_def mbind_def mret_def mnow_def interact_def os_sleep_def heartbeat_if_due_def
      file_op_def write_log_def write_text_def poll_loop.simps example_os_def example_registry_def example_settings_def
      example_machine_def example_build_def Let_def or_str_def result0_def example_output)

theorem pushed_image_is_pinned_witness:
  "\<exists>digest. r_image_ref (projr (fst (push_image example_registry (example_settings\<lparr>st_registry_enabled := True\<rparr>)
      (demo_world [] [] []) (demo_dep 1 Pending None) example_build example_machine)))
      = Some (''r.io/shop'' @ [CHR 0x40] @ digest) \<and> pinned (''r.io/shop'' @ [CHR 0x40] @ digest)"
proof -
  let ?run = "push_image example_registry (example_settings\<lparr>st_registry_enabled := True\<rparr>)
      (demo_world [] [] []) (demo_dep 1 Pending None) example_build example_machine"
  obtain x where "fst ?run = Inr x" using example_push by blast
  then have x: "?run = (Inr x, snd ?run)" by (simp add: prod_eq_iff)
  have ref: "b_image_ref example_build = Some ''r.io/shop:v1''" by (simp add: example_build_def)
  have "before_last_colon ''r.io/shop:v1'' \<noteq> []" using example_output(3) by simp
  then show ?thesis
    using pushed_image_is_pinned [OF x _ ref] unfolding example_output(3) \<open>fst ?run = Inr x\<close> by auto
qed

end
