(* ===== verification/Docker_Executor.thy ===== *)
theory Docker_Executor
  imports Source_Build Pipeline
begin

text \<open>
  \<open>worker/executors/docker_runtime.py\<close>, \<open>worker/executors/local_docker.py\<close> and
  \<open>worker/services/healthcheck.py\<close>: the executor that runs a deployment as a container of
  the local Docker engine. The lemmas state that the health check ends, that a deployment
  succeeds only after a healthy answer and leaves no container otherwise, and that the
  removal of artifacts stays inside the workspace root.
\<close>

section \<open>Health checks\<close>

text \<open>The body of the answer is already cut to 512 bytes and decoded.\<close>

definition default_health_probe :: "int \<times> string \<Rightarrow> int \<times> string" where
  "default_health_probe response = (case response of (status, body) \<Rightarrow>
     (status, or_str (Some (take 200 (strip body))) (''HTTP '' @ str_of_int status)))"

datatype probe_outcome = Healthy dict | Unhealthy string "string option"

text \<open>One attempt; an exception of the probe keeps the last summary.\<close>

definition health_attempt ::
    "os \<Rightarrow> 'a settings_scheme \<Rightarrow> string \<Rightarrow> string \<Rightarrow> string list \<Rightarrow> nat \<Rightarrow> string option \<Rightarrow> probe_outcome act" where
  "health_attempt s st healthcheck_url file redacted attempts last_summary =
     (let note = (\<lambda>line. write_text s True file (''Healthcheck attempt '' @ str_of_nat attempts @ line @ LF));
          pause = os_sleep s (st_healthcheck_interval st)
      in mbind (interact s 0 (\<lambda>n. os_probe s n healthcheck_url)) (\<lambda>answer. case answer of
           Inl e \<Rightarrow>
             let last_error = redact_text redacted e
             in mbind (note ('' failed: '' @ last_error)) (\<lambda>_. mbind pause (\<lambda>_.
                  mret (Unhealthy last_error last_summary)))
         | Inr response \<Rightarrow> (case default_health_probe response of (status, text) \<Rightarrow>
             let summary = redact_text redacted text
             in if 200 \<le> status \<and> status < 300
                then mbind (note ('' succeeded: '' @ str_of_int status @ '' '' @ summary)) (\<lambda>_.
                  mret (Healthy [(''healthcheck_attempts'', jnat attempts),
                                 (''healthcheck_status_code'', JInt status),
                                 (''healthcheck_summary'', JStr summary)]))
                else mbind (note ('' failed: '' @ str_of_int status @ '' '' @ summary)) (\<lambda>_. mbind pause (\<lambda>_.
                  mret (Unhealthy (''HTTP '' @ str_of_int status) (Some summary)))))))"

text \<open>Every interaction takes time, so does an attempt.\<close>

named_theorems clock_rules \<open>actions that do not set the clock back\<close>

definition forward :: "'a act \<Rightarrow> bool" where
  "forward a \<longleftrightarrow> (\<forall>m. m_ms m \<le> m_ms (snd (a m)))"

lemma forward_ret [clock_rules]: "forward (mret x)"
  by (simp add: forward_def mret_def)

lemma forwardD: "forward a \<Longrightarrow> a m = (r, m') \<Longrightarrow> m_ms m \<le> m_ms m'"
  unfolding forward_def by (metis snd_conv)

lemma forward_bind [clock_rules]:
  assumes "forward a" "\<And>x. forward (k x)"
  shows "forward (mbind a k)"
  unfolding forward_def
proof
  fix m
  obtain x m1 where a: "a m = (x, m1)" by fastforce
  obtain r m2 where k: "k (projr x) m1 = (r, m2)" by fastforce
  show "m_ms m \<le> m_ms (snd (mbind a k m))"
    using forwardD [OF assms(1) a] forwardD [OF assms(2) k] a k by (cases x) (auto simp: mbind_def)
qed

lemma forward_write [clock_rules]: "forward (write_text s appending f t)"
  by (auto simp: forward_def write_text_def file_op_def interact_def mbind_def mret_def mthrow_def Let_def
      split: option.splits)

lemma forward_sleep [clock_rules]: "forward (os_sleep s t)"
  by (auto simp: forward_def os_sleep_def interact_def Let_def)

lemma forward_strict:
  assumes "\<And>x. forward (k x)"
  shows "m_ms m < m_ms (snd (mbind (interact s 0 f) k m))"
proof -
  let ?m = "snd (interact s 0 f m)"
  obtain r m2 where k: "k (f (m_step m)) ?m = (r, m2)" by fastforce
  have "m_ms m < m_ms ?m" by (simp add: interact_def Let_def)
  moreover have "mbind (interact s 0 f) k m = (r, m2)"
    using k by (simp add: mbind_def interact_def Let_def)
  ultimately show ?thesis using forwardD [OF assms k] by simp
qed

lemma attempt_takes_time:
  assumes "health_attempt s st url f vs k l m = (r, m')"
  shows "m_ms m < m_ms m'"
proof -
  have "m_ms m < m_ms (snd (health_attempt s st url f vs k l m))"
    unfolding health_attempt_def Let_def
    by (rule forward_strict) (auto intro!: clock_rules split: sum.split prod.split)
  then show ?thesis using assms by simp
qed

function health_loop ::
    "os \<Rightarrow> 'a settings_scheme \<Rightarrow> string \<Rightarrow> string \<Rightarrow> string list \<Rightarrow> int \<Rightarrow> nat \<Rightarrow> string option \<Rightarrow> string option \<Rightarrow> int \<Rightarrow>
     dict act" where
  "health_loop s st healthcheck_url file redacted deadline attempts last_error last_summary last_heartbeat m =
     (if m_ms m < deadline then
        (case heartbeat_if_due st last_heartbeat None m of
           (Inl e, m1) \<Rightarrow> (Inl e, m1)
         | (Inr beat_at, m1) \<Rightarrow>
             (case health_attempt s st healthcheck_url file redacted (Suc attempts) last_summary m1 of
                (Inl e, m2) \<Rightarrow> (Inl e, m2)
              | (Inr (Healthy metadata), m2) \<Rightarrow> (Inr metadata, m2)
              | (Inr (Unhealthy error summary), m2) \<Rightarrow>
                  health_loop s st healthcheck_url file redacted deadline (Suc attempts) (Some error) summary beat_at m2))
      else (Inl (ExecError ''deploy.healthcheck''
             (''Healthcheck did not succeed within '' @ str_of_int (st_healthcheck_timeout st div 1000) @ '' seconds'')
             [(''healthcheck_attempts'', jnat attempts), (''healthcheck_last_error'', jopt last_error),
              (''healthcheck_last_summary'', jopt last_summary), (''healthcheck_url'', JStr healthcheck_url)]
             (Some file) []), m))"
  by pat_completeness auto
termination
  by (relation "measure (\<lambda>(s, st, url, f, vs, deadline, k, e, l, hb, m). nat (deadline - m_ms m))")
    (auto dest!: sym [of "(_, _)"] heartbeat_ms attempt_takes_time)

declare health_loop.simps [simp del]

definition wait_for_healthcheck ::
    "os \<Rightarrow> 'a settings_scheme \<Rightarrow> string \<Rightarrow> string \<Rightarrow> string list \<Rightarrow> dict act" where
  "wait_for_healthcheck s st healthcheck_url file redacted =
     mbind mnow (\<lambda>t. health_loop s st healthcheck_url file redacted (t + st_healthcheck_timeout st) 0 None None t)"

section \<open>Containers\<close>

definition container_name :: "os \<Rightarrow> world \<Rightarrow> deployment \<Rightarrow> string" where
  "container_name s w d =
     ''paas-'' @ map (\<lambda>c. if is_alnum c \<or> c = CHR ''-'' then c else CHR ''-'')
         (lower (spec_str s (project_for_deployment w d) ''name''))
     @ ''-'' @ str_of_nat (d_id d)"

definition container_of :: "os \<Rightarrow> world \<Rightarrow> deployment \<Rightarrow> string" where
  "container_of s w d = or_str (d_container_name d) (container_name s w d)"

text \<open>A call of \<open>_execute_command\<close> with \<open>allow_heartbeat=False\<close> whose exceptions are not caught.\<close>

definition quick_command :: "os \<Rightarrow> 'a settings_scheme \<Rightarrow> string list \<Rightarrow> (int \<times> string \<times> string) act" where
  "quick_command s st args = mbind (execute_command s st False None None None args) completed"

definition remove_container_if_exists :: "os \<Rightarrow> 'a settings_scheme \<Rightarrow> string \<Rightarrow> unit act" where
  "remove_container_if_exists s st name = mbind (quick_command s st [''docker'', ''rm'', ''--force'', name]) (\<lambda>_. mret ())"

definition is_port_allocation_error :: "string \<Rightarrow> dict \<Rightarrow> bool" where
  "is_port_allocation_error message metadata =
     (let tail = (case jget metadata ''output_tail'' of JList xs \<Rightarrow> map text_of xs | _ \<Rightarrow> []);
          output = lower (join '' '' (message # tail))
      in list_ex (\<lambda>marker. contains marker output) [''port is already allocated'', ''address already in use'', ''bind:''])"

text \<open>A value that is not in the environment is left out; \<open>str(value)\<close> of the others.\<close>

definition env_pair :: "os \<Rightarrow> json \<Rightarrow> (string \<times> string) option" where
  "env_pair s item = (case item of
     JDict e \<Rightarrow> if jtrue (jget e ''name'') \<and> jget e ''value'' \<noteq> JNull
               then Some (spec_str s e ''name'', spec_str s e ''value'') else None
   | _ \<Rightarrow> None)"

definition env_args :: "os \<Rightarrow> json list \<Rightarrow> string list" where
  "env_args s env = concat (map (\<lambda>item. case env_pair s item of
     None \<Rightarrow> [] | Some (name, v) \<Rightarrow> [''--env'', name @ ''='' @ v]) env)"

definition env_secrets :: "os \<Rightarrow> json list \<Rightarrow> string list" where
  "env_secrets s env = concat (map (\<lambda>item. case env_pair s item of
     None \<Rightarrow> [] | Some (name, v) \<Rightarrow> if env_var_is_secret item then [v] else []) env)"

text \<open>
  \<open>_capture_container_logs\<close> with \<open>missing_ok=True\<close>, as every caller has it.
\<close>

definition capture_container_logs :: "os \<Rightarrow> 'a settings_scheme \<Rightarrow> world \<Rightarrow> deployment \<Rightarrow> string \<Rightarrow> string \<Rightarrow> dict act" where
  "capture_container_logs s st w d name file =
     mbind (quick_command s st [''docker'', ''logs'', name]) (\<lambda>(returncode, stdout, stderr).
       let combined_output = redact_text
             (secret_values_from_env_vars (os_shown s) (spec_env_vars (project_for_deployment w d))) (stdout @ stderr)
       in mbind (file_op s (parent_dir file)) (\<lambda>_. mbind (write_text s False file combined_output) (\<lambda>_.
            mret [(''runtime_log_path'', JStr file),
                  (''runtime_log_summary'', jopt (summarize_output combined_output)),
                  (''runtime_output_tail'', jtexts (tail_lines combined_output)),
                  (''runtime_log_missing'', JBool (returncode \<noteq> 0))])))"

section \<open>Deployment\<close>

text \<open>The attempts \<open>port_attempt\<close>, ..., 3 to start the container, with the port and the attempt that worked.\<close>

fun start_container ::
    "os \<Rightarrow> 'a settings_scheme \<Rightarrow> string \<Rightarrow> string \<Rightarrow> string list \<Rightarrow> string \<Rightarrow> string list \<Rightarrow> string \<Rightarrow> nat \<Rightarrow> nat \<Rightarrow>
     (exec_result \<times> nat \<times> nat) act" where
  "start_container s st name port args img redacted file port_attempt 0 = mthrow (OtherExn ''UnboundLocalError'' [])"
| "start_container s st name port args img redacted file port_attempt (Suc remaining) =
     mbind (interact s 0 (os_port s)) (\<lambda>host_port.
       except_worker
         (mbind (run_step_command s st ''deploy.container_start''
              ([''docker'', ''run'', ''--detach'', ''--name'', name, ''--publish'',
                st_deploy_host st @ '':'' @ str_of_nat host_port @ '':'' @ port] @ args @ [img])
              file None None redacted)
            (\<lambda>result. mret (result, host_port, port_attempt)))
         (\<lambda>step message metadata l evs.
            if remaining = 0 \<or> \<not> is_port_allocation_error message metadata
            then mthrow (ExecError step message metadata l evs)
            else mbind (remove_container_if_exists s st name) (\<lambda>_.
              start_container s st name port args img redacted file (Suc port_attempt) remaining)))"

definition last_output :: "exec_result \<Rightarrow> string" where
  "last_output result = (case jget (r_metadata result) ''output_tail'' of
     JList xs \<Rightarrow> if xs = [] then r_message result else text_of (last xs) | _ \<Rightarrow> r_message result)"

definition deploy_container :: "os \<Rightarrow> 'a settings_scheme \<Rightarrow> world \<Rightarrow> deployment \<Rightarrow> build \<Rightarrow> exec_result act" where
  "deploy_container s st w d b =
     (let spec = project_for_deployment w d;
          file = log_at st d ''deploy.log''; runtime_file = log_at st d ''runtime.log'';
          name = container_name s w d;
          env = resolved_workload_environment w d b;
          img = or_str (if st_registry_enabled st then b_image_ref b else b_image_tag b) []
      in mbind (prepare_workspace s st d) (\<lambda>_.
         mbind (remove_container_if_exists s st name) (\<lambda>_.
         mbind (start_container s st name (spec_str s spec ''port'') (env_args s env) img (env_secrets s env) file 1 3)
           (\<lambda>(run_result, host_port, port_attempt).
         let service_url = ''http://'' @ st_deploy_host st @ '':'' @ str_of_nat host_port;
             healthcheck_url = service_url @ spec_str s spec ''healthcheck_path'';
             container_id = last_output run_result
         in mbind (except_worker (wait_for_healthcheck s st healthcheck_url file (env_secrets s env))
              (\<lambda>step message metadata l evs.
                 mbind (capture_container_logs s st w d name runtime_file) (\<lambda>runtime.
                 let last_summary = jget metadata ''healthcheck_last_summary'';
                     runtime = (if \<not> jtrue (jget runtime ''runtime_log_summary'') \<and> jtrue last_summary
                       then jset ''runtime_output_tail'' (jtexts [take 240 (text_of last_summary)])
                              (jset ''runtime_log_summary'' last_summary runtime)
                       else runtime)
                 in mbind (remove_container_if_exists s st name) (\<lambda>_.
                    mthrow (ExecError step message
                      (jmerge (jmerge metadata runtime)
                        [(''container_name'', JStr name), (''container_id'', JStr container_id),
                         (''host_port'', jnat host_port), (''service_url'', JStr service_url),
                         (''healthcheck_url'', JStr healthcheck_url)]) l []))))) (\<lambda>health.
            mbind (capture_container_logs s st w d name runtime_file) (\<lambda>runtime.
            mret ((result0 ''Container started and passed healthcheck.''
                (jmerge (jmerge
                  [(''executor'', JStr (st_deploy_target st)), (''container_name'', JStr name),
                   (''container_id'', JStr container_id), (''host_port'', jnat host_port),
                   (''published_port'', JStr (st_deploy_host st @ '':'' @ str_of_nat host_port @ '':'' @ spec_str s spec ''port'')),
                   (''healthcheck_url'', JStr healthcheck_url), (''port_allocation_attempts'', jnat port_attempt)]
                  runtime) health))
              \<lparr>r_log_path := Some file, r_service_url := Some service_url, r_deploy_target := Some (st_deploy_target st),
               r_container_name := Some name, r_container_id := Some container_id, r_host_port := Some (int host_port),
               r_healthcheck_url := Some healthcheck_url, r_runtime_log_path := Some runtime_file\<rparr>)))))))"

definition stop_container :: "os \<Rightarrow> 'a settings_scheme \<Rightarrow> world \<Rightarrow> deployment \<Rightarrow> build \<Rightarrow> exec_result act" where
  "stop_container s st w d b =
     (let file = log_at st d ''stop.log''; runtime_file = log_at st d ''runtime.log''; name = container_of s w d
      in mbind (prepare_workspace s st d) (\<lambda>_.
         mbind (capture_container_logs s st w d name runtime_file) (\<lambda>runtime.
         mbind (plain_command s st ''deploy.container_stop'' [''docker'', ''rm'', ''--force'', name] file) (\<lambda>result.
         mret ((result0 ''Container removed successfully.''
             (jmerge (r_metadata result)
               (jmerge [(''executor'', JStr (st_deploy_target st)), (''stopped'', JBool True),
                        (''container_name'', JStr name)] runtime)))
           \<lparr>r_log_path := Some file, r_deploy_target := Some (st_deploy_target st), r_container_name := Some name,
            r_runtime_log_path := Some runtime_file\<rparr>)))))"

definition container_exists :: "os \<Rightarrow> 'a settings_scheme \<Rightarrow> world \<Rightarrow> deployment \<Rightarrow> build \<Rightarrow> bool act" where
  "container_exists s st w d b =
     mbind (quick_command s st [''docker'', ''container'', ''inspect'', container_of s w d])
       (\<lambda>(returncode, stdout, stderr). mret (returncode = 0))"

section \<open>Removal of artifacts\<close>

definition validated_cleanup_path :: "os \<Rightarrow> 'a settings_scheme \<Rightarrow> string \<Rightarrow> string list act" where
  "validated_cleanup_path s st file =
     mbind (interact s 0 (\<lambda>n. os_resolve s n (st_workspace_root st))) (\<lambda>workspace_root.
     mbind (interact s 0 (\<lambda>n. os_resolve s n file)) (\<lambda>candidate.
       if \<not> strict_prefix workspace_root candidate
       then mthrow (exec_error ''deployment.cleanup'' ''Refusing to remove a path outside the configured workspace root''
              [(''workspace_root'', JStr (CHR ''/'' # join ''/'' workspace_root))])
       else mret candidate))"

definition resolved_text :: "string list \<Rightarrow> string" where
  "resolved_text parts = CHR ''/'' # join ''/'' parts"

definition checked_path :: "os \<Rightarrow> 'a settings_scheme \<Rightarrow> string option \<Rightarrow> string list option act" where
  "checked_path s st value = (if truthy value
     then mbind (validated_cleanup_path s st (or_str value [])) (\<lambda>p. mret (Some p)) else mret None)"

text \<open>The removed path, if there was one to remove.\<close>

definition remove_if_present :: "os \<Rightarrow> string list option \<Rightarrow> string list act" where
  "remove_if_present s candidate = (case candidate of None \<Rightarrow> mret []
     | Some parts \<Rightarrow> mbind (interact s 0 (\<lambda>n. os_exists s n (resolved_text parts))) (\<lambda>present.
         if present then mbind (remove_file s (resolved_text parts)) (\<lambda>_. mret [resolved_text parts]) else mret []))"

definition cleanup_workspace :: "os \<Rightarrow> 'a settings_scheme \<Rightarrow> build \<Rightarrow> dict act" where
  "cleanup_workspace s st b =
     mbind (checked_path s st (b_workspace_path b)) (\<lambda>workspace.
     mbind (checked_path s st (b_log_path b)) (\<lambda>log_file.
     mbind (checked_path s st (b_build_log_path b)) (\<lambda>build_log_file.
     mbind (remove_if_present s workspace) (\<lambda>removed_workspace.
     mbind (remove_if_present s log_file) (\<lambda>removed_log.
     mbind (remove_if_present s (if build_log_file = log_file then None else build_log_file)) (\<lambda>removed_build_log.
       mret [(''workspace_removed'', JBool (removed_workspace \<noteq> [])),
             (''log_removed'', JBool (removed_log @ removed_build_log \<noteq> [])),
             (''removed_paths'', jtexts (removed_workspace @ removed_log @ removed_build_log))]))))))"

section \<open>The local Docker executor\<close>

definition docker_preflight :: "'a settings_scheme \<Rightarrow> preflight_result" where
  "docker_preflight st = \<lparr>f_status = ''skipped'', f_summary = ''Deployment preflight skipped for local-docker executor'',
     f_metadata = [(''executor'', JStr (st_deploy_target st)), (''skipped'', JBool True)], f_events = [],
     f_log_path = None, f_deploy_target = Some (st_deploy_target st)\<rparr>"

text \<open>The heartbeat that \<open>set_heartbeat\<close> installs depends on the deployment.\<close>

definition local_docker :: "os \<Rightarrow> settings \<Rightarrow> (nat \<Rightarrow> unit proc option) \<Rightarrow> executor" where
  "local_docker s st0 hb =
     (let st = (\<lambda>did. (init_settings st0)\<lparr>st_deploy_target := ''local-docker'', st_heartbeat := hb did\<rparr>);
          method = (\<lambda>g did. executing s (g s (st did)) did)
      in \<lparr>ex_deploy_target = Some ''local-docker'', ex_deployment_mode = None, ex_namespace = None,
      ex_identity = None,
      ex_clone_repo = method clone_repo,
      ex_build_image = method build_image,
      ex_run_tests = method run_tests,
      ex_tag_image = method tag_image,
      ex_push_image = method push_image,
      ex_verify_image = method verify_image,
      ex_preflight_deploy = (\<lambda>did. executing s (\<lambda>w d b. mret (Some (docker_preflight (st did)))) did),
      ex_deploy = method deploy_container,
      ex_stop = method stop_container,
      ex_container_exists = (\<lambda>did. executing s (container_exists s (st did)) did),
      ex_runtime_resource_status = (\<lambda>did s. (Inr [], s)),
      ex_runtime_helm_status = (\<lambda>did s. (Inr None, s)),
      ex_runtime_pod_diagnostics = (\<lambda>prefix did s. (Inr [], s))\<rparr>)"

section \<open>Invariants\<close>

lemma mkeeps_quick: "quiet I s \<Longrightarrow> beats_keep I st \<Longrightarrow> mkeeps I (quick_command s st args)"
  unfolding quick_command_def by (intro act_rules mkeeps_services)

lemma mkeeps_remove_container: "quiet I s \<Longrightarrow> beats_keep I st \<Longrightarrow> mkeeps I (remove_container_if_exists s st name)"
  unfolding remove_container_if_exists_def by (intro act_rules mkeeps_quick)

lemma mkeeps_capture: "quiet I s \<Longrightarrow> beats_keep I st \<Longrightarrow> mkeeps I (capture_container_logs s st w d name f)"
  unfolding capture_container_logs_def Let_def by (intro act_rules mkeeps_quick mkeeps_services)

lemma mkeeps_start:
  "quiet I s \<Longrightarrow> beats_keep I st \<Longrightarrow> mkeeps I (start_container s st name port args img vs f k n)"
  by (induction n arbitrary: k) (auto intro!: act_rules mkeeps_services mkeeps_remove_container)

lemma mkeeps_health_attempt: "quiet I s \<Longrightarrow> mkeeps I (health_attempt s st url f vs k l)"
  unfolding health_attempt_def Let_def by (intro act_rules mkeeps_services)

lemma mkeeps_health_loop:
  assumes "quiet I s" "beats_keep I st"
  shows "mkeeps I (health_loop s st url f vs deadline k e l t)"
  unfolding mkeeps_def
proof (intro allI impI)
  fix m
  show "I (m_world m) \<Longrightarrow> I (m_world (snd (health_loop s st url f vs deadline k e l t m)))"
    using assms
  proof (induction s st url f vs deadline k e l t m rule: health_loop.induct)
    case (1 s st url f vs deadline k e l t m)
    obtain x m1 where hb: "heartbeat_if_due st t None m = (x, m1)" by fastforce
    obtain y m2 where at: "health_attempt s st url f vs (Suc k) l m1 = (y, m2)" by fastforce
    have m1: "I (m_world m1)"
      using mkeeps_heartbeat [OF 1(4), where cb = None and t = t] 1(2) hb unfolding mkeeps_def by (metis option.distinct(1) snd_conv)
    have m2: "I (m_world m2)"
      using mkeeps_health_attempt [OF 1(3)] m1 at unfolding mkeeps_def by (metis snd_conv)
    show ?case
    proof (cases "m_ms m < deadline \<and> (\<exists>b. x = Inr b) \<and> (\<exists>err summ. y = Inr (Unhealthy err summ))")
      case True
      then obtain b err summ where xy: "x = Inr b" "y = Inr (Unhealthy err summ)" by blast
      have "I (m_world (snd (health_loop s st url f vs deadline (Suc k) (Some err) summ b m2)))"
        by (rule 1(1) [OF _ hb [symmetric] xy(1) at [symmetric] xy(2) refl m2 1(3,4)]) (use True in auto)
      then show ?thesis
        using True hb at xy by (subst health_loop.simps) simp
    next
      case False
      then show ?thesis
        using hb at 1(2) m1 m2 by (subst health_loop.simps) (auto split: sum.splits probe_outcome.splits)
    qed
  qed
qed

lemma mkeeps_wait: "quiet I s \<Longrightarrow> beats_keep I st \<Longrightarrow> mkeeps I (wait_for_healthcheck s st url f vs)"
  unfolding wait_for_healthcheck_def by (intro act_rules mkeeps_health_loop)

lemmas mkeeps_containers = mkeeps_quick mkeeps_remove_container mkeeps_capture mkeeps_start mkeeps_wait

lemma mkeeps_docker:
  assumes "quiet I s" "beats_keep I st"
  shows "mkeeps I (deploy_container s st w d b)" "mkeeps I (stop_container s st w d b)"
    "mkeeps I (container_exists s st w d b)"
  unfolding deploy_container_def stop_container_def container_exists_def Let_def
  by (intro act_rules mkeeps_services mkeeps_containers assms)+

lemma local_docker_keeps:
  assumes "quiet I s" "hearts_keep I hb"
  shows "executor_keeps I (local_docker s st0 hb)"
  unfolding executor_keeps_def local_docker_def Let_def
  by (simp, intro conjI call_keeps_method call_keeps_pure mkeeps_source_build mkeeps_docker
      mkeeps_ret assms beats_keep_update allI)

section \<open>Healthy containers\<close>

text \<open>What the health check of an address found.\<close>

definition found_healthy :: "os \<Rightarrow> string \<Rightarrow> dict \<Rightarrow> bool" where
  "found_healthy s url md \<longleftrightarrow> (\<exists>status n body. 200 \<le> status \<and> status < 300 \<and> os_probe s n url = Inr (status, body)
     \<and> jget md ''healthcheck_status_code'' = JInt status) \<and> distinct (map fst md)"

lemma found_healthyI:
  "os_probe s n url = Inr (status, body) \<Longrightarrow> 200 \<le> status \<Longrightarrow> status < 300 \<Longrightarrow>
    found_healthy s url [(''healthcheck_attempts'', a), (''healthcheck_status_code'', JInt status), (''healthcheck_summary'', b)]"
  by (auto simp: found_healthy_def)

lemma write_text_plain: "write_text s appending f t m = (Inl e, m') \<Longrightarrow> \<not> is_exec e"
  by (auto simp: write_text_def mbind_def dest!: file_op_cases split: prod.splits sum.splits)

lemma sleep_no_error: "os_sleep s t m \<noteq> (Inl e, m')"
  by (simp add: os_sleep_def interact_def Let_def)

lemma interact_result: "interact s t f m = (r, m') \<Longrightarrow> r = Inr (f (m_step m))"
  by (auto simp: interact_def Let_def)

lemma attempt_cases:
  assumes "health_attempt s st url f vs k l m = (r, m')"
  shows "(\<forall>md. r = Inr (Healthy md) \<longrightarrow> found_healthy s url md) \<and> (\<forall>e. r = Inl e \<longrightarrow> \<not> is_exec e)"
proof -
  obtain x m1 where x: "interact s 0 (\<lambda>n. os_probe s n url) m = (Inr x, m1)" "x = os_probe s (m_step m) url"
    by (simp add: interact_def Let_def)
  show ?thesis
  proof (cases x)
    case (Inl e)
    then show ?thesis
      using assms x unfolding health_attempt_def Let_def mbind_def mret_def
      by (auto dest: write_text_plain sleep_no_error [THEN notE] split: prod.splits sum.splits)
  next
    case (Inr response)
    obtain status body where response: "response = (status, body)" by (cases response)
    have probe: "os_probe s (m_step m) url = Inr (status, body)" using x Inr response by simp
    show ?thesis
      using assms x Inr probe unfolding health_attempt_def Let_def mbind_def mret_def response default_health_probe_def
      by (auto intro!: found_healthyI dest: write_text_plain sleep_no_error [THEN notE]
          split: prod.splits sum.splits if_splits)
  qed
qed

lemma heartbeat_plain:
  "heartbeat_if_due st t None m = (Inl e, m') \<Longrightarrow> beats_plain st \<Longrightarrow> \<not> is_exec e"
  unfolding beats_plain_def heartbeat_if_due_def mbind_def mnow_def mret_def beat_def
  by (auto split: option.splits prod.splits sum.splits if_splits) (metis fst_conv)

lemma health_loop_end:
  assumes "health_loop s st url f vs deadline k e l t m = (r, m')" "beats_plain st"
  shows "(\<forall>md. r = Inr md \<longrightarrow> found_healthy s url md)
    \<and> (\<forall>step msg md l evs. r = Inl (ExecError step msg md l evs) \<longrightarrow> step = ''deploy.healthcheck'' \<and> deadline \<le> m_ms m')"
  using assms
proof (induction s st url f vs deadline k e l t m rule: health_loop.induct)
  case (1 s st url f vs deadline k e l t m)
  obtain x m1 where hb: "heartbeat_if_due st t None m = (x, m1)" by fastforce
  obtain y m2 where at: "health_attempt s st url f vs (Suc k) l m1 = (y, m2)" by fastforce
  have plain: "x = Inl err \<Longrightarrow> \<not> is_exec err" for err using heartbeat_plain hb 1(3) by blast
  show ?case
  proof (cases "m_ms m < deadline \<and> (\<exists>b. x = Inr b) \<and> (\<exists>err summ. y = Inr (Unhealthy err summ))")
    case True
    then obtain b err summ where xy: "x = Inr b" "y = Inr (Unhealthy err summ)" by blast
    have run: "health_loop s st url f vs deadline (Suc k) (Some err) summ b m2 = (r, m')"
      using 1(2) True hb at xy by (subst (asm) health_loop.simps) simp
    show ?thesis
      by (rule 1(1) [OF _ hb [symmetric] xy(1) at [symmetric] xy(2) refl run 1(3)]) (use True in auto)
  next
    case False
    then show ?thesis
      using hb at 1(2) plain attempt_cases [OF at]
      by (subst (asm) health_loop.simps) (auto split: sum.splits probe_outcome.splits if_splits)
  qed
qed

lemma quick_plain:
  "quick_command s st args m = (Inl e, m') \<Longrightarrow> beats_plain st \<Longrightarrow> \<not> is_exec e"
  unfolding quick_command_def mbind_def
  by (auto simp: completed_def mret_def mthrow_def os_error_def dest: execute_command_cases(2)
      split: prod.splits sum.splits outcome.splits)

lemma remove_plain:
  "remove_container_if_exists s st name m = (Inl e, m') \<Longrightarrow> beats_plain st \<Longrightarrow> \<not> is_exec e"
  unfolding remove_container_if_exists_def
  by (auto simp: mbind_def mret_def dest: quick_plain split: prod.splits sum.splits)

lemma capture_plain:
  "capture_container_logs s st w d name f m = (Inl e, m') \<Longrightarrow> beats_plain st \<Longrightarrow> \<not> is_exec e"
  unfolding capture_container_logs_def Let_def
  by (auto simp: mbind_def mret_def dest: quick_plain write_text_plain file_op_cases split: prod.splits sum.splits)

lemma capture_remove_no_exec:
  "beats_plain st \<Longrightarrow> capture_container_logs s st w d name f m \<noteq> (Inl (ExecError step msg md l evs), m')"
  "beats_plain st \<Longrightarrow> remove_container_if_exists s st name m \<noteq> (Inl (ExecError step msg md l evs), m')"
  using capture_plain remove_plain by fastforce+

lemma prepare_step: "prepare_workspace s st d m = (Inl (ExecError step msg md l evs), m') \<Longrightarrow> step = ''repository.workspace''"
  by (auto simp: prepare_workspace_def mbind_def interact_def mret_def mthrow_def exec_error_def Let_def split: option.splits)

lemma run_step_command_step:
  assumes "run_step_command s st step args f stdin_input env vs m = (Inl (ExecError step' msg md l evs), m')" "beats_plain st"
  shows "step' = step"
  using run_step_command_end [OF assms refl] by (auto simp: attempts_end_def attempt_record_def Let_def)

lemma start_step:
  "start_container s st name port args img vs f k n m = (Inl (ExecError step msg md l evs), m') \<Longrightarrow> beats_plain st \<Longrightarrow>
    step = ''deploy.container_start''"
proof (induction n arbitrary: k m)
  case 0
  then show ?case by (simp add: mthrow_def)
next
  case (Suc n)
  from Suc.prems show ?case
    by (auto simp: mbind_def interact_def except_worker_def mcatch_def mret_def mthrow_def Let_def
        split: prod.splits sum.splits exn.splits if_splits dest: run_step_command_step Suc.IH remove_plain)
qed

text \<open>The health check and its handler, the end of a deployment.\<close>

lemma wait_end:
  assumes "wait_for_healthcheck s st url f vs m = (r, m')" "beats_plain st"
  shows "\<And>md. r = Inr md \<Longrightarrow> found_healthy s url md"
    and "\<And>step msg md l evs. r = Inl (ExecError step msg md l evs) \<Longrightarrow> step = ''deploy.healthcheck''"
  using health_loop_end [OF _ assms(2)] assms(1) unfolding wait_for_healthcheck_def mbind_def mnow_def by auto

lemma health_key:
  assumes "found_healthy s url md"
  shows "\<exists>status n body. 200 \<le> status \<and> status < 300 \<and> os_probe s n url = Inr (status, body)
    \<and> (\<forall>a. jget (jmerge a md) ''healthcheck_status_code'' = JInt status)"
proof -
  obtain status n body where *: "200 \<le> status" "status < 300" "os_probe s n url = Inr (status, body)"
      "jget md ''healthcheck_status_code'' = JInt status" and md: "distinct (map fst md)"
    using assms unfolding found_healthy_def by blast
  have "jhas md ''healthcheck_status_code''"
    using *(4) by (auto simp: jhas_def jget_def split: option.splits)
  then have "jget (jmerge a md) ''healthcheck_status_code'' = JInt status" for a
    using jget_jmerge [OF md] *(4) by simp
  then show ?thesis using * by blast
qed

lemma mcatch_Inr:
  "mcatch a h m = (Inr y, m') \<Longrightarrow> a m = (Inr y, m') \<or> (\<exists>e m1. a m = (Inl e, m1) \<and> h e m1 = (Inr y, m'))"
  by (auto simp: mcatch_def split: prod.splits sum.splits)

lemma mcatch_Inl: "mcatch a h m = (Inl e, m') \<Longrightarrow> \<exists>x m1. a m = (Inl x, m1) \<and> h x m1 = (Inl e, m')"
  by (auto simp: mcatch_def split: prod.splits sum.splits)

text \<open>
  C31: A deployment on Docker succeeds only after a health check of its address was answered
  with a status from 200 to 299, which it records. One whose health check fails removes its
  container before it raises the error.
\<close>

theorem container_deployed_only_when_healthy:
  assumes "deploy_container s st w d b m = (r, m')" "beats_plain st"
  shows "(\<forall>x. r = Inr x \<longrightarrow> (\<exists>url status n body. r_healthcheck_url x = Some url
        \<and> os_probe s n url = Inr (status, body) \<and> 200 \<le> status \<and> status < 300
        \<and> jget (r_metadata x) ''healthcheck_status_code'' = JInt status))
    \<and> (\<forall>msg md l evs. r = Inl (ExecError ''deploy.healthcheck'' msg md l evs) \<longrightarrow>
        (\<exists>m1. remove_container_if_exists s st (container_name s w d) m1 = (Inr (), m')))"
proof (intro conjI allI impI)
  fix x assume "r = Inr x"
  then show "\<exists>url status n body. r_healthcheck_url x = Some url
        \<and> os_probe s n url = Inr (status, body) \<and> 200 \<le> status \<and> status < 300
        \<and> jget (r_metadata x) ''healthcheck_status_code'' = JInt status"
    using assms(1) unfolding deploy_container_def Let_def except_worker_def
    by (auto simp: mret_def mthrow_def result0_def dest!: mbind_Inr mcatch_Inr split: exn.splits)
      (use wait_end(1) [OF _ assms(2) refl, THEN health_key] in fastforce)
next
  fix msg md l evs assume e: "r = Inl (ExecError ''deploy.healthcheck'' msg md l evs)"
  show "\<exists>m1. remove_container_if_exists s st (container_name s w d) m1 = (Inr (), m')"
    using assms(1) unfolding deploy_container_def Let_def except_worker_def e
    by (auto simp: mret_def mthrow_def dest!: mbind_Inl mbind_Inr mcatch_Inl split: exn.splits prod.splits
        dest: prepare_step start_step [OF _ assms(2)]
        simp: capture_remove_no_exec [OF assms(2)]) blast
qed

definition demo_deployed :: "(exn + exec_result) \<times> machine" where
  "demo_deployed = deploy_container example_os example_settings (demo_world [] [] []) (demo_dep 1 Pending None)
     example_build example_machine"

lemmas run_defs = plain_command_def prepare_workspace_def run_step_command_def retryable_steps_def
  run_attempt_def execute_command_def mbind_def mret_def mnow_def interact_def os_sleep_def heartbeat_if_due_def
  file_op_def write_log_def write_text_def poll_loop.simps example_os_def example_child_def example_settings_def
  example_machine_def Let_def or_str_def completed_def quick_command_def

lemma demo_deployed_runs: "\<exists>x. fst demo_deployed = Inr x"
  by (simp add: demo_deployed_def deploy_container_def remove_container_if_exists_def numeral_3_eq_3
      start_container.simps except_worker_def mcatch_def wait_for_healthcheck_def health_loop.simps
      health_attempt_def default_health_probe_def capture_container_logs_def run_defs)

theorem container_deployed_only_when_healthy_witness:
  "\<exists>url. r_healthcheck_url (projr (fst demo_deployed)) = Some url
    \<and> (\<exists>status. jget (r_metadata (projr (fst demo_deployed))) ''healthcheck_status_code'' = JInt status
         \<and> 200 \<le> status \<and> status < 300)"
proof -
  obtain x where x: "fst demo_deployed = Inr x" using demo_deployed_runs by blast
  then have run: "deploy_container example_os example_settings (demo_world [] [] []) (demo_dep 1 Pending None)
     example_build example_machine = (Inr x, snd demo_deployed)"
    by (simp add: demo_deployed_def prod_eq_iff)
  have "beats_plain example_settings" by (simp add: beats_plain_def example_settings_def)
  then show ?thesis
    using container_deployed_only_when_healthy [OF run] x by auto
qed

lemma act_Inr:
  "interact s t f m = (r, m') \<Longrightarrow> m_removed m' = m_removed m"
  by (auto simp: interact_def Let_def)

lemma remove_file_removed:
  assumes "remove_file s f m = (r, m')"
  shows "m_removed m' = m_removed m \<or> m_removed m' = m_removed m @ [f]"
  using assms unfolding remove_file_def file_op_def
  by (auto simp: mbind_def interact_def mret_def mthrow_def Let_def split: option.splits)

definition inside_root :: "os \<Rightarrow> 'a settings_scheme \<Rightarrow> string list \<Rightarrow> bool" where
  "inside_root s st parts \<longleftrightarrow> (\<exists>n. strict_prefix (os_resolve s n (st_workspace_root st)) parts)"

lemma checked_inside:
  assumes "checked_path s st value m = (r, m')"
  shows "m_removed m' = m_removed m" and "\<And>p. r = Inr (Some p) \<Longrightarrow> inside_root s st p"
  using assms unfolding checked_path_def validated_cleanup_path_def inside_root_def
  by (auto simp: mbind_def interact_def mret_def mthrow_def Let_def split: if_splits)

lemma remove_if_present_removed:
  assumes "remove_if_present s candidate m = (r, m')"
  shows "\<exists>rs. m_removed m' = m_removed m @ rs \<and> (\<forall>f \<in> set rs. \<exists>p. candidate = Some p \<and> f = resolved_text p)"
proof (cases candidate)
  case None
  then show ?thesis using assms by (simp add: remove_if_present_def mret_def)
next
  case (Some p)
  obtain x m1 where x: "interact s 0 (\<lambda>n. os_exists s n (resolved_text p)) m = (Inr x, m1)" "m_removed m1 = m_removed m"
    by (auto simp: interact_def Let_def)
  obtain y m2 where y: "remove_file s (resolved_text p) m1 = (y, m2)" by fastforce
  have "m_removed m' = m_removed m \<or> m_removed m' = m_removed m @ [resolved_text p]"
    using assms x y remove_file_removed [OF y] unfolding remove_if_present_def Some
    by (auto simp: mbind_def mret_def split: if_splits sum.splits)
  then show ?thesis using Some by (metis append_Nil2 empty_iff list.set(1) set_ConsD)
qed

text \<open>What an action removes, and what holds of its result.\<close>

definition removed_inside :: "os \<Rightarrow> 'a settings_scheme \<Rightarrow> machine \<Rightarrow> machine \<Rightarrow> bool" where
  "removed_inside s st m m' \<longleftrightarrow>
     (\<exists>rs. m_removed m' = m_removed m @ rs \<and> (\<forall>f \<in> set rs. \<exists>p. inside_root s st p \<and> f = resolved_text p))"

definition removes :: "os \<Rightarrow> 'a settings_scheme \<Rightarrow> 'b act \<Rightarrow> ('b \<Rightarrow> bool) \<Rightarrow> bool" where
  "removes s st a Q \<longleftrightarrow> (\<forall>m r m'. a m = (r, m') \<longrightarrow> removed_inside s st m m' \<and> (\<forall>x. r = Inr x \<longrightarrow> Q x))"

lemma removed_inside_trans:
  assumes "removed_inside s st m1 m2" "removed_inside s st m2 m3"
  shows "removed_inside s st m1 m3"
proof -
  obtain rs where rs: "m_removed m2 = m_removed m1 @ rs" "\<forall>f \<in> set rs. \<exists>p. inside_root s st p \<and> f = resolved_text p"
    using assms(1) unfolding removed_inside_def by blast
  obtain rs' where "m_removed m3 = m_removed m2 @ rs'" "\<forall>f \<in> set rs'. \<exists>p. inside_root s st p \<and> f = resolved_text p"
    using assms(2) unfolding removed_inside_def by blast
  then show ?thesis using rs unfolding removed_inside_def by (intro exI [of _ "rs @ rs'"]) auto
qed

lemma removes_bind:
  assumes "removes s st a Q" "\<And>x. Q x \<Longrightarrow> removes s st (k x) R"
  shows "removes s st (mbind a k) R"
  unfolding removes_def
proof (intro allI impI)
  fix m r m' assume run: "mbind a k m = (r, m')"
  obtain y m1 where a: "a m = (y, m1)" by fastforce
  show "removed_inside s st m m' \<and> (\<forall>x. r = Inr x \<longrightarrow> R x)"
  proof (cases y)
    case (Inl e)
    then show ?thesis using run a assms(1) by (auto simp: mbind_def removes_def)
  next
    case (Inr x)
    have x: "Q x" "removed_inside s st m m1" using assms(1) a Inr unfolding removes_def by blast+
    moreover have "k x m1 = (r, m')" using run a Inr by (simp add: mbind_def)
    ultimately have "removed_inside s st m1 m'" "\<forall>z. r = Inr z \<longrightarrow> R z"
      using assms(2) [OF x(1)] unfolding removes_def by blast+
    then show ?thesis using removed_inside_trans [OF x(2)] by blast
  qed
qed

lemma removes_ret: "Q x \<Longrightarrow> removes s st (mret x) Q"
  by (simp add: removes_def mret_def removed_inside_def)

lemma removes_checked: "removes s st (checked_path s st value) (\<lambda>c. \<forall>p. c = Some p \<longrightarrow> inside_root s st p)"
  unfolding removes_def removed_inside_def using checked_inside by fastforce

lemma removes_if_present:
  "(\<forall>p. c = Some p \<longrightarrow> inside_root s st p) \<Longrightarrow> removes s st (remove_if_present s c) (\<lambda>_. True)"
  unfolding removes_def removed_inside_def using remove_if_present_removed by fastforce

text \<open>
  C34: The cleanup of a deployment's artifacts removes nothing but paths that resolve to places
  strictly inside the workspace root, also when it fails.
\<close>

theorem cleanup_stays_inside_workspace:
  assumes "cleanup_workspace s st b m = (r, m')"
  shows "\<exists>rs. m_removed m' = m_removed m @ rs \<and> (\<forall>f \<in> set rs. \<exists>p. inside_root s st p \<and> f = resolved_text p)"
proof -
  have "removes s st (cleanup_workspace s st b) (\<lambda>_. True)"
    unfolding cleanup_workspace_def
    by (rule removes_bind removes_checked removes_if_present removes_ret TrueI | simp)+
  then show ?thesis using assms unfolding removes_def removed_inside_def by blast
qed

theorem cleanup_stays_inside_workspace_witness:
  "let run = cleanup_workspace example_os example_settings
         ((demo_build 1 B_pending)\<lparr>b_workspace_path := Some ''/w/project-1/deployment-1''\<rparr>) example_machine
   in \<exists>rs. m_removed (snd run) = m_removed example_machine @ rs
     \<and> (\<forall>f \<in> set rs. \<exists>p. inside_root example_os example_settings p \<and> f = resolved_text p)"
  unfolding Let_def by (rule cleanup_stays_inside_workspace [OF surjective_pairing])

end
