(* ===== verification/Workload_Rendering.thy ===== *)
theory Workload_Rendering
  imports Machine
begin

text \<open>
  What the Kubernetes executor sends to the cluster: the manifests of
  \<open>kubernetes/manifest_renderer.py\<close>, the chart values of \<open>worker/helm/values.py\<close> and the
  command lines of \<open>worker/helm/runner.py\<close>. The lemmas state that a literal secret reaches
  neither the manifests nor the values, and that both render the same environment.
\<close>

section \<open>Environment variables\<close>

definition env_text :: "(json \<Rightarrow> string) \<Rightarrow> dict \<Rightarrow> string \<Rightarrow> string" where
  "env_text show e key = str_of_json show (jget e key)"

definition value_source :: "dict \<Rightarrow> json" where
  "value_source e = (if jget e ''value_source'' = JNull
     then (if jget e ''value'' \<noteq> JNull then JStr ''literal'' else JNull) else jget e ''value_source'')"

definition key_ref :: "(json \<Rightarrow> string) \<Rightarrow> json \<Rightarrow> string \<Rightarrow> dict \<Rightarrow> json" where
  "key_ref show name kind e = JDict [(''name'', name), (''valueFrom'', JDict [(kind, JDict
     [(''name'', JStr (env_text show e ''source_name'')), (''key'', JStr (env_text show e ''source_key''))])])]"

definition has_ref :: "dict \<Rightarrow> bool" where
  "has_ref e \<longleftrightarrow> jtrue (jget e ''source_name'') \<and> jtrue (jget e ''source_key'')"

definition kubernetes_env_var :: "(json \<Rightarrow> string) \<Rightarrow> json \<Rightarrow> json list" where
  "kubernetes_env_var show item = (case item of
     JDict e \<Rightarrow>
       let name = jget e ''name''; source = value_source e
       in if \<not> jtrue name then []
          else if source = JStr ''literal'' \<and> jget e ''value'' \<noteq> JNull
          then [JDict [(''name'', name), (''value'', JStr (env_text show e ''value''))]]
          else if source = JStr ''configmap_key_ref'' \<and> has_ref e then [key_ref show name ''configMapKeyRef'' e]
          else if source = JStr ''secret_key_ref'' \<and> has_ref e then [key_ref show name ''secretKeyRef'' e]
          else []
   | _ \<Rightarrow> [])"

definition kubernetes_env_vars :: "(json \<Rightarrow> string) \<Rightarrow> json list \<Rightarrow> json list" where
  "kubernetes_env_vars show env = concat (map (kubernetes_env_var show) env)"

text \<open>\<open>sorted\<close> of a set of texts.\<close>

definition sorted_texts :: "string list \<Rightarrow> string list" where
  "sorted_texts ss = sort (remdups ss)"

definition sources_used :: "(json \<Rightarrow> string) \<Rightarrow> string \<Rightarrow> json list \<Rightarrow> string list" where
  "sources_used show source env = sorted_texts (concat (map (\<lambda>item. case item of
     JDict e \<Rightarrow> if jget e ''value_source'' = JStr source \<and> jtrue (jget e ''source_name'')
               then [env_text show e ''source_name''] else []
   | _ \<Rightarrow> []) env))"

text \<open>The two lists of \<open>_kubernetes_referenced_resources\<close>.\<close>

definition kubernetes_referenced_resources :: "(json \<Rightarrow> string) \<Rightarrow> json list \<Rightarrow> string list \<times> string list" where
  "kubernetes_referenced_resources show env =
     (sources_used show ''configmap_key_ref'' env, sources_used show ''secret_key_ref'' env)"

definition env_source_summary :: "(json \<Rightarrow> string) \<Rightarrow> json list \<Rightarrow> dict" where
  "env_source_summary show env =
     [(''env_var_count'', JInt (int (length (filter (\<lambda>item. case item of
         JDict e \<Rightarrow> jtrue (jget e ''name'') | _ \<Rightarrow> False) env)))),
      (''literal_env_count'', JInt (int (length (filter (\<lambda>item. case item of
         JDict e \<Rightarrow> value_source e = JStr ''literal'' | _ \<Rightarrow> False) env)))),
      (''configmap_refs_used'', JList (map JStr (sources_used show ''configmap_key_ref'' env))),
      (''secret_refs_used'', JList (map JStr (sources_used show ''secret_key_ref'' env)))]"

section \<open>Manifests\<close>

text \<open>The names of the secrets that the environment holds as literals.\<close>

definition literal_secrets :: "json list \<Rightarrow> json list" where
  "literal_secrets env = map env_name (filter (\<lambda>item. case item of
     JDict e \<Rightarrow> env_var_is_secret item \<and> jget e ''value'' \<noteq> JNull | _ \<Rightarrow> False) env)"

definition ingress_host :: "kube \<Rightarrow> nat \<Rightarrow> exn + string option" where
  "ingress_host k did = (if \<not> kb_ingress_enabled k then Inr None
     else (case alphabetic_id did of Inl e \<Rightarrow> Inl e
       | Inr number \<Rightarrow> Inr (Some (''paas-deployment-'' @ number @ ''.'' @ kb_ingress_base_domain k))))"

definition deployment_resource ::
    "(json \<Rightarrow> string) \<Rightarrow> kube \<Rightarrow> dict \<Rightarrow> json list \<Rightarrow> build \<Rightarrow> string \<Rightarrow> dict \<Rightarrow> json" where
  "deployment_resource show k spec env b deployment_name labels =
     (let container = [(''name'', JStr ''app''), (''image'', jopt (b_image_ref b)),
            (''ports'', JList [JDict [(''name'', JStr ''http''), (''containerPort'', jget spec ''port'')]]),
            (''env'', JList (kubernetes_env_vars show env)), (''resources'', JDict (resource_requests show spec)),
            (''securityContext'', JDict [(''allowPrivilegeEscalation'', JBool False)])];
          pod_spec = [(''automountServiceAccountToken'', JBool False),
            (''securityContext'', JDict [(''seccompProfile'', JDict [(''type'', JStr ''RuntimeDefault'')])]),
            (''containers'', JList [JDict (jmerge container (manifest_health_probes show spec))])]
            @ (if truthy (kb_image_pull_secret k)
               then [(''imagePullSecrets'', JList [JDict [(''name'', jopt (kb_image_pull_secret k))]])] else [])
      in JDict [(''apiVersion'', JStr ''apps/v1''), (''kind'', JStr ''Deployment''),
           (''metadata'', JDict [(''name'', JStr deployment_name), (''namespace'', JStr (kb_namespace k)), (''labels'', JDict labels)]),
           (''spec'', JDict [(''replicas'', JInt 1), (''selector'', JDict [(''matchLabels'', JDict labels)]),
              (''template'', JDict [(''metadata'', JDict [(''labels'', JDict labels)]), (''spec'', JDict pod_spec)])])])"

definition service_resource :: "kube \<Rightarrow> dict \<Rightarrow> string \<Rightarrow> dict \<Rightarrow> json" where
  "service_resource k spec service_name labels =
     JDict [(''apiVersion'', JStr ''v1''), (''kind'', JStr ''Service''),
       (''metadata'', JDict [(''name'', JStr service_name), (''namespace'', JStr (kb_namespace k)), (''labels'', JDict labels)]),
       (''spec'', JDict [(''selector'', JDict labels),
          (''ports'', JList [JDict [(''name'', JStr ''http''), (''port'', jget spec ''port''), (''targetPort'', jget spec ''port'')]]),
          (''type'', JStr ''ClusterIP'')])]"

definition ingress_resource :: "kube \<Rightarrow> dict \<Rightarrow> string option \<Rightarrow> string \<Rightarrow> string \<Rightarrow> dict \<Rightarrow> json" where
  "ingress_resource k spec host deployment_name service_name labels =
     (let backend = JDict [(''service'', JDict [(''name'', JStr service_name), (''port'', JDict [(''number'', jget spec ''port'')])])];
          ingress_spec = [(''rules'', JList [JDict [(''host'', jopt host), (''http'', JDict [(''paths'', JList
              [JDict [(''path'', JStr ''/''), (''pathType'', JStr ''Prefix''), (''backend'', backend)]])])]])]
            @ (if kb_ingress_class_name k \<noteq> [] then [(''ingressClassName'', JStr (kb_ingress_class_name k))] else [])
      in JDict [(''apiVersion'', JStr ''networking.k8s.io/v1''), (''kind'', JStr ''Ingress''),
           (''metadata'', JDict [(''name'', JStr deployment_name), (''namespace'', JStr (kb_namespace k)), (''labels'', JDict labels)]),
           (''spec'', JDict ingress_spec)])"

definition manifest ::
    "(json \<Rightarrow> string) \<Rightarrow> kube \<Rightarrow> world \<Rightarrow> deployment \<Rightarrow> build \<Rightarrow> string \<Rightarrow> string \<Rightarrow> exn + json" where
  "manifest show k w d b deployment_name service_name =
     (let spec = project_for_deployment w d;
          labels = [(''app.kubernetes.io/name'', JStr (workload_name (spec_or_empty show spec ''name'') MAX_DNS_LABEL_LENGTH)),
            (''app.kubernetes.io/managed-by'', JStr ''autodeploy-control-plane''),
            (''app.kubernetes.io/instance'', JStr deployment_name)];
          env = resolved_workload_environment w d b;
          secret_names = literal_secrets env
      in if secret_names \<noteq> []
         then Inl (ExecError ''deploy.kubernetes.manifest''
                ''Kubernetes deployments require secret_key_ref for secret env vars''
                [(''secret_env_var_names'', JList (map JStr (sort (map (str_of_json show) (filter jtrue secret_names)))))]
                None [])
         else (case ingress_host k (d_id d) of
             Inl e \<Rightarrow> Inl e
           | Inr host \<Rightarrow> Inr (JDict [(''apiVersion'', JStr ''v1''), (''kind'', JStr ''List''), (''items'', JList
               ([deployment_resource show k spec env b deployment_name labels, service_resource k spec service_name labels]
                @ (if kb_ingress_enabled k then [ingress_resource k spec host deployment_name service_name labels] else [])))])))"

section \<open>Chart values\<close>

definition split_tagged_image_ref :: "string \<Rightarrow> (string \<times> string) option" where
  "split_tagged_image_ref ref =
     (let tag = rev (takeWhile (\<lambda>c. c \<noteq> CHR '':'') (rev ref))
      in if CHR '':'' \<notin> set ref \<or> CHR ''/'' \<in> set tag \<or> tag = [] then None
         else Some (take (length ref - length tag - 1) ref, tag))"

definition clean_text :: "string option \<Rightarrow> string option" where
  "clean_text v = (case v of None \<Rightarrow> None | Some s \<Rightarrow> strip_opt s)"

definition image_repository_and_tag :: "build \<Rightarrow> string \<times> string" where
  "image_repository_and_tag b =
     (let image_ref = clean_text (b_image_ref b);
          tag = or_str (clean_text (b_image_tag b)) ''latest'';
          registry = clean_text (b_registry b);
          image_name = clean_text (b_image_name b);
          by_name = (case (registry, image_name) of
              (Some r, Some n) \<Rightarrow> (rstrip_where (\<lambda>c. c = CHR ''/'') r @ ''/'' @ dropWhile (\<lambda>c. c = CHR ''/'') n, tag)
            | (None, Some n) \<Rightarrow> (n, tag)
            | (_, None) \<Rightarrow> (or_str image_ref [], tag))
      in case image_ref of
           None \<Rightarrow> by_name
         | Some ref \<Rightarrow>
             if CHR 0x40 \<in> set ref then (takeWhile (\<lambda>c. c \<noteq> CHR 0x40) ref, tag)
             else (case split_tagged_image_ref ref of Some parsed \<Rightarrow> parsed | None \<Rightarrow> by_name))"

definition env_value :: "(json \<Rightarrow> string) \<Rightarrow> json \<Rightarrow> exn + json list" where
  "env_value show item = (case item of
     JDict e \<Rightarrow>
       let name = JStr (env_text show e ''name''); source = value_source e
       in if \<not> jtrue (jget e ''name'') then Inr []
          else if source = JStr ''literal'' \<and> jget e ''value'' \<noteq> JNull
          then (if env_var_is_secret item
                then Inl (OtherExn ''ValueError'' ''generic-web-app values require secret_key_ref for secret env vars'')
                else Inr [JDict [(''name'', name), (''value'', JStr (env_text show e ''value''))]])
          else if source = JStr ''configmap_key_ref'' \<and> has_ref e then Inr [key_ref show name ''configMapKeyRef'' e]
          else if source = JStr ''secret_key_ref'' \<and> has_ref e then Inr [key_ref show name ''secretKeyRef'' e]
          else Inr []
   | _ \<Rightarrow> Inr [])"

fun env_values :: "(json \<Rightarrow> string) \<Rightarrow> json list \<Rightarrow> exn + json list" where
  "env_values show [] = Inr []"
| "env_values show (item # env) = (case env_value show item of
     Inl e \<Rightarrow> Inl e
   | Inr vs \<Rightarrow> (case env_values show env of Inl e \<Rightarrow> Inl e | Inr rest \<Rightarrow> Inr (vs @ rest)))"

definition generic_web_app_values ::
    "(json \<Rightarrow> string) \<Rightarrow> kube \<Rightarrow> string option \<Rightarrow> world \<Rightarrow> deployment \<Rightarrow> build \<Rightarrow> exn + dict" where
  "generic_web_app_values show k host w d b =
     (let spec = project_for_deployment w d;
          (repository, tag) = image_repository_and_tag b;
          digest = drop 1 (dropWhile (\<lambda>c. c \<noteq> CHR 0x40) (or_str (b_image_ref b) []))
      in case env_values show (resolved_workload_environment w d b) of
           Inl e \<Rightarrow> Inl e
         | Inr env \<Rightarrow> Inr
             [(''image'', JDict [(''repository'', JStr repository), (''tag'', JStr tag), (''digest'', JStr digest),
                 (''pullPolicy'', JStr ''IfNotPresent''),
                 (''pullSecrets'', JList (case clean_text (kb_image_pull_secret k) of
                    None \<Rightarrow> [] | Some name \<Rightarrow> [JDict [(''name'', JStr name)]]))]),
              (''replicaCount'', JInt 1),
              (''container'', JDict [(''port'', jget spec ''port'')]),
              (''env'', JList env),
              (''envFrom'', JDict [(''configMaps'', JList []), (''secrets'', JList [])]),
              (''service'', JDict [(''type'', JStr ''ClusterIP''), (''port'', jget spec ''port''), (''targetPort'', JStr [])]),
              (''resources'', JDict (resource_requests show spec)),
              (''probes'', JDict (health_probes show spec)),
              (''ingress'', JDict (if kb_ingress_enabled k
                 then [(''enabled'', JBool True), (''className'', JStr (kb_ingress_class_name k)),
                       (''host'', JStr (or_str host [])), (''path'', JStr ''/''), (''tls'', JList [])]
                 else [(''enabled'', JBool False)]))])"

section \<open>Helm command lines\<close>

record helm_runner =
  hr_namespace :: string
  hr_binary :: string
  hr_chart_path :: string
  hr_timeout :: string
  hr_kubeconfig :: "string option"

definition new_helm_runner :: "kube \<Rightarrow> string \<Rightarrow> exn + helm_runner" where
  "new_helm_runner k namespace =
     (if strip namespace = [] then Inl (OtherExn ''ValueError'' ''namespace is required'')
      else Inr \<lparr>hr_namespace = strip namespace,
        hr_binary = or_str (Some (strip (or_str (Some (kb_helm_binary k)) ''helm''))) ''helm'',
        hr_chart_path = strip (kb_helm_chart_path k),
        hr_timeout = or_str (Some (strip (or_str (Some (kb_helm_timeout k)) ''180s''))) ''180s'',
        hr_kubeconfig = map_option strip (kb_kubeconfig k)\<rparr>)"

definition required_string :: "string \<Rightarrow> string \<Rightarrow> exn + string" where
  "required_string v field_name =
     (if strip v = [] then Inl (OtherExn ''ValueError'' (field_name @ '' is required'')) else Inr (strip v))"

definition kubeconfig_args :: "helm_runner \<Rightarrow> string list" where
  "kubeconfig_args h = (if truthy (hr_kubeconfig h) then [''--kubeconfig'', or_str (hr_kubeconfig h) []] else [])"

definition upgrade_install_args :: "helm_runner \<Rightarrow> string \<Rightarrow> string \<Rightarrow> exn + string list" where
  "upgrade_install_args h release values_file = (case required_string release ''release'' of
     Inl e \<Rightarrow> Inl e
   | Inr release \<Rightarrow> (case required_string values_file ''values_file'' of
       Inl e \<Rightarrow> Inl e
     | Inr values_file \<Rightarrow> (case required_string (hr_chart_path h) ''chart_path'' of
         Inl e \<Rightarrow> Inl e
       | Inr chart_path \<Rightarrow> Inr ([hr_binary h, ''upgrade'', ''--install'', release, chart_path, ''--namespace'', hr_namespace h]
           @ kubeconfig_args h @ [''--create-namespace'', ''-f'', values_file, ''--wait'', ''--timeout'', hr_timeout h]))))"

definition uninstall_args :: "helm_runner \<Rightarrow> string \<Rightarrow> exn + string list" where
  "uninstall_args h release = (case required_string release ''release'' of
     Inl e \<Rightarrow> Inl e
   | Inr release \<Rightarrow> Inr ([hr_binary h, ''uninstall'', release, ''--namespace'', hr_namespace h]
       @ kubeconfig_args h @ [''--wait'', ''--timeout'', hr_timeout h]))"

definition status_args :: "helm_runner \<Rightarrow> string \<Rightarrow> exn + string list" where
  "status_args h release = (case required_string release ''release'' of
     Inl e \<Rightarrow> Inl e
   | Inr release \<Rightarrow> Inr ([hr_binary h, ''status'', release, ''--namespace'', hr_namespace h]
       @ kubeconfig_args h @ [''--output'', ''json'']))"

section \<open>Secrets\<close>

text \<open>A secret variable with a value gets the value \<open>x\<close>.\<close>

definition with_secret :: "json \<Rightarrow> json \<Rightarrow> json" where
  "with_secret x item = (case item of
     JDict e \<Rightarrow> if env_var_is_secret item \<and> jget e ''value'' \<noteq> JNull then JDict (jset ''value'' x e) else item
   | _ \<Rightarrow> item)"

lemma mask_dict: "\<exists>e'. with_secret x (JDict e) = JDict e' \<and> (\<forall>key. key \<noteq> ''value'' \<longrightarrow> jget e' key = jget e key)
    \<and> (jget e' ''value'' = jget e ''value'' \<or> env_var_is_secret (JDict e) \<and> jget e ''value'' \<noteq> JNull \<and> jget e' ''value'' = x)"
  by (auto simp: with_secret_def)

lemma mask_other: "(\<And>e. item \<noteq> JDict e) \<Longrightarrow> with_secret x item = item"
  by (cases item) (auto simp: with_secret_def)

lemma masked_fields:
  assumes "with_secret x (JDict e) = JDict e'" "x \<noteq> JNull"
  shows "value_source e' = value_source e" "has_ref e' = has_ref e" "key_ref show name kind e' = key_ref show name kind e"
    "env_var_is_secret (JDict e') = env_var_is_secret (JDict e)" "(jget e' ''value'' = JNull) = (jget e ''value'' = JNull)"
    "jget e' ''name'' = jget e ''name''"
    "\<not> env_var_is_secret (JDict e) \<Longrightarrow> jget e' ''value'' = jget e ''value''"
proof -
  have other: "jget e' key = jget e key" if "key \<noteq> ''value''" for key using mask_dict [of x e] assms that by auto
  have val: "(jget e' ''value'' = JNull) = (jget e ''value'' = JNull)"
    "\<not> env_var_is_secret (JDict e) \<Longrightarrow> jget e' ''value'' = jget e ''value''"
    using mask_dict [of x e] assms by auto
  then show "value_source e' = value_source e" "has_ref e' = has_ref e" "key_ref show name kind e' = key_ref show name kind e"
    "env_var_is_secret (JDict e') = env_var_is_secret (JDict e)" "(jget e' ''value'' = JNull) = (jget e ''value'' = JNull)"
    "jget e' ''name'' = jget e ''name''"
    "\<not> env_var_is_secret (JDict e) \<Longrightarrow> jget e' ''value'' = jget e ''value''"
    by (simp_all add: value_source_def has_ref_def key_ref_def env_text_def other)
qed

lemma mask_is_dict: "(\<exists>e. with_secret x item = JDict e) \<longleftrightarrow> (\<exists>e. item = JDict e)"
  by (cases item) (auto simp: with_secret_def)

lemma env_value_mask:
  assumes "x \<noteq> JNull"
  shows "env_value show (with_secret x item) = env_value show item"
proof (cases item)
  case (JDict e)
  obtain e' where e': "with_secret x (JDict e) = JDict e'" using mask_dict by blast
  note same = masked_fields [OF e' assms]
  have "env_var_is_secret (JDict e) \<or> env_text show e' ''value'' = env_text show e ''value''"
    using same(7) unfolding env_text_def by metis
  moreover have "env_text show e' ''name'' = env_text show e ''name''" by (simp add: env_text_def same(6))
  ultimately show ?thesis
    unfolding JDict e' by (auto simp: env_value_def Let_def same simp del: env_var_is_secret.simps)
qed (simp_all add: with_secret_def)

lemma env_values_mask: "x \<noteq> JNull \<Longrightarrow> env_values show (map (with_secret x) env) = env_values show env"
  by (induction env) (simp_all add: env_value_mask cong: sum.case_cong)

lemma literal_secrets_mask:
  assumes "x \<noteq> JNull"
  shows "literal_secrets (map (with_secret x) env) = literal_secrets env"
proof -
  have item: "env_name (with_secret x item) = env_name item"
    "(case with_secret x item of JDict e \<Rightarrow> env_var_is_secret (with_secret x item) \<and> jget e ''value'' \<noteq> JNull | _ \<Rightarrow> False)
      = (case item of JDict e \<Rightarrow> env_var_is_secret item \<and> jget e ''value'' \<noteq> JNull | _ \<Rightarrow> False)" for item
  proof -
    show "env_name (with_secret x item) = env_name item"
      by (cases item) (auto simp: with_secret_def)
    show "(case with_secret x item of JDict e \<Rightarrow> env_var_is_secret (with_secret x item) \<and> jget e ''value'' \<noteq> JNull | _ \<Rightarrow> False)
      = (case item of JDict e \<Rightarrow> env_var_is_secret item \<and> jget e ''value'' \<noteq> JNull | _ \<Rightarrow> False)"
    proof (cases item)
      case (JDict e)
      obtain e' where "with_secret x (JDict e) = JDict e'" using mask_dict by blast
      then show ?thesis using masked_fields [OF _ assms] JDict by simp
    qed (simp_all add: with_secret_def)
  qed
  show ?thesis
    unfolding literal_secrets_def by (simp add: filter_map comp_def item)
qed

lemma no_literal_secrets: "literal_secrets env = [] \<Longrightarrow> map (with_secret x) env = env"
  unfolding literal_secrets_def by (induction env) (auto simp: with_secret_def split: json.splits if_splits)

text \<open>
  Two specifications agree but for the values of secrets: they are equal once the value of every
  secret variable that has one is replaced by the same text.
\<close>

definition same_but_secrets :: "dict \<Rightarrow> dict \<Rightarrow> bool" where
  "same_but_secrets spec spec' \<longleftrightarrow>
     (let hidden = (\<lambda>spec. jset ''env_vars'' (JList (map (with_secret (JStr [])) (spec_env_vars spec))) spec)
      in hidden spec' = hidden spec)"

lemma same_but_secretsD:
  assumes "same_but_secrets spec spec'"
  shows "map (with_secret (JStr [])) (spec_env_vars spec') = map (with_secret (JStr [])) (spec_env_vars spec)"
    and "key \<noteq> ''env_vars'' \<Longrightarrow> jget spec' key = jget spec key"
proof -
  let ?hidden = "\<lambda>spec. jset ''env_vars'' (JList (map (with_secret (JStr [])) (spec_env_vars spec))) spec"
  have same: "?hidden spec' = ?hidden spec" using assms by (simp add: same_but_secrets_def Let_def)
  have "jget (?hidden spec') ''env_vars'' = jget (?hidden spec) ''env_vars''" by (simp only: same)
  then show "map (with_secret (JStr [])) (spec_env_vars spec') = map (with_secret (JStr [])) (spec_env_vars spec)" by simp
  assume "key \<noteq> ''env_vars''"
  then have "jget (?hidden s) key = jget s key" for s by simp
  then show "jget spec' key = jget spec key" by (metis same)
qed

lemma resolved_mask:
  "map (with_secret x) (resolved_workload_environment w d b)
    = filter (\<lambda>item. env_name item \<notin> JStr ` set RESERVED_WORKLOAD_ENVIRONMENT_NAMES)
        (map (with_secret x) (spec_env_vars (project_for_deployment w d)))
      @ [env_literal ''APP_COMMIT_SHA'' (b_commit_sha b), env_literal ''APP_VERSION'' (or_str (b_image_tag b) [])]"
proof -
  have "env_name (with_secret x item) = env_name item" for item by (cases item) (auto simp: with_secret_def)
  then show ?thesis
    by (simp add: resolved_workload_environment_def filter_map comp_def) (simp add: with_secret_def env_literal_def)
qed

text \<open>Environments that agree but for the values of secrets are rendered or refused alike.\<close>

lemma same_masks:
  assumes "map (with_secret (JStr [])) env' = map (with_secret (JStr [])) env"
  shows "env_values show env' = env_values show env" "literal_secrets env' = literal_secrets env"
    "literal_secrets env = [] \<Longrightarrow> env' = env"
proof -
  show names: "literal_secrets env' = literal_secrets env"
    using literal_secrets_mask [of "JStr []" env] literal_secrets_mask [of "JStr []" env'] assms by simp
  show "env_values show env' = env_values show env"
    using env_values_mask [of "JStr []" _ env] env_values_mask [of "JStr []" _ env'] assms by simp
  assume "literal_secrets env = []"
  then show "env' = env"
    using no_literal_secrets [of env "JStr []"] no_literal_secrets [of env' "JStr []"] names assms by simp
qed

text \<open>
  C37: What the cluster gets does not depend on the values of secrets: for two deployments
  whose specifications (the snapshot of a deployment that has one, else the fields of its
  project) agree but for the values of their secret variables, the manifest of the same key or
  the refusal to make one, and the values of the Helm chart or their refusal, are the same.
\<close>

theorem rendering_ignores_secret_values:
  assumes "same_but_secrets (project_for_deployment w d) (project_for_deployment w' d')" "d_id d' = d_id d"
  shows "manifest show k w' d' b deployment_name service_name = manifest show k w d b deployment_name service_name
    \<and> generic_web_app_values show k host w' d' b = generic_web_app_values show k host w d b"
proof -
  let ?env = "resolved_workload_environment w d b" and ?env' = "resolved_workload_environment w' d' b"
  let ?spec = "project_for_deployment w d" and ?spec' = "project_for_deployment w' d'"
  note agree = same_but_secretsD [OF assms(1)]
  have "map (with_secret (JStr [])) ?env' = map (with_secret (JStr [])) ?env"
    unfolding resolved_mask agree(1) ..
  note env = same_masks [OF this]
  have probes: "manifest_health_probes show ?spec' = manifest_health_probes show ?spec"
      "health_probes show ?spec' = health_probes show ?spec"
      "resource_requests show ?spec' = resource_requests show ?spec"
      "spec_or_empty show ?spec' ''name'' = spec_or_empty show ?spec ''name''"
    by (simp_all add: manifest_health_probes_def health_probes_def resource_requests_def spec_or_empty_def agree(2))
  have same: "deployment_resource show k ?spec' = deployment_resource show k ?spec"
      "service_resource k ?spec' = service_resource k ?spec" "ingress_resource k ?spec' = ingress_resource k ?spec"
    by (intro ext, simp add: deployment_resource_def service_resource_def ingress_resource_def probes agree(2))+
  have "manifest show k w' d' b deployment_name service_name = manifest show k w d b deployment_name service_name"
  proof (cases "literal_secrets ?env = []")
    case True
    then show ?thesis unfolding manifest_def Let_def env(3) [OF True] assms(2) by (simp only: same probes)
  next
    case False
    then show ?thesis unfolding manifest_def Let_def env(2) by simp
  qed
  moreover have "generic_web_app_values show k host w' d' b = generic_web_app_values show k host w d b"
    unfolding generic_web_app_values_def Let_def env(1) by (simp add: probes agree(2) cong: sum.case_cong)
  ultimately show ?thesis by blast
qed

definition shop_env :: "string \<Rightarrow> json" where
  "shop_env v = JDict [(''name'', JStr ''KEY''), (''value_source'', JStr ''secret_key_ref''), (''source_name'', JStr ''s''),
     (''source_key'', JStr ''k''), (''value'', JStr v)]"

definition shop_dep :: "string \<Rightarrow> deployment" where
  "shop_dep v = (demo_dep 1 Pending None)\<lparr>d_spec_snapshot_json :=
     create_deployment_spec_snapshot (demo_project\<lparr>p_env_vars := [shop_env v]\<rparr>) None\<rparr>"

lemma shop_spec: "project_for_deployment w (shop_dep v) = project_spec (demo_project\<lparr>p_env_vars := [shop_env v]\<rparr>)"
  using snapshot_spec_create [of "shop_dep v" "demo_project\<lparr>p_env_vars := [shop_env v]\<rparr>" None]
  by (simp add: project_for_deployment_frozen shop_dep_def)

theorem rendering_ignores_secret_values_witness:
  "project_for_deployment (demo_world [] [] []) (shop_dep ''new'') \<noteq> project_for_deployment (demo_world [] [] []) (shop_dep ''old'')
    \<and> (\<forall>show k n svc host. manifest show k (demo_world [] [] []) (shop_dep ''new'') (demo_build 1 B_pending) n svc
        = manifest show k (demo_world [] [] []) (shop_dep ''old'') (demo_build 1 B_pending) n svc
      \<and> generic_web_app_values show k host (demo_world [] [] []) (shop_dep ''new'') (demo_build 1 B_pending)
        = generic_web_app_values show k host (demo_world [] [] []) (shop_dep ''old'') (demo_build 1 B_pending))"
proof -
  have same: "same_but_secrets (project_for_deployment (demo_world [] [] []) (shop_dep ''old''))
      (project_for_deployment (demo_world [] [] []) (shop_dep ''new''))"
    by (simp add: same_but_secrets_def shop_spec project_spec_def demo_project_def shop_env_def spec_env_vars_def
        with_secret_def jset_def jget_def)
  have "project_for_deployment (demo_world [] [] []) (shop_dep ''new'') \<noteq> project_for_deployment (demo_world [] [] []) (shop_dep ''old'')"
    by (simp add: shop_spec project_spec_def demo_project_def shop_env_def)
  moreover have "d_id (shop_dep ''new'') = d_id (shop_dep ''old'')" by (simp add: shop_dep_def)
  ultimately show ?thesis using rendering_ignores_secret_values [OF same] by blast
qed

text \<open>
  C38: Manifests and Helm values give a workload the same environment: when all variables have
  texts as names and no secret has a literal value, both render the same list.
\<close>

theorem modes_render_same_environment:
  assumes "literal_secrets env = []" "\<forall>e. JDict e \<in> set env \<longrightarrow> (\<exists>name. jget e ''name'' = JStr name)"
  shows "env_values show env = Inr (kubernetes_env_vars show env)"
  using assms
proof (induction env)
  case Nil
  then show ?case by (simp add: kubernetes_env_vars_def)
next
  case (Cons item env)
  have "literal_secrets env = []" using Cons.prems(1) by (simp add: literal_secrets_def split: if_splits)
  then have rest: "env_values show env = Inr (kubernetes_env_vars show env)" using Cons by simp
  have "env_value show item = Inr (kubernetes_env_var show item)"
  proof (cases item)
    case (JDict e)
    then obtain name where "jget e ''name'' = JStr name" using Cons.prems(2) by auto
    moreover have "\<not> (env_var_is_secret item \<and> jget e ''value'' \<noteq> JNull)"
      using Cons.prems(1) JDict by (auto simp: literal_secrets_def split: if_splits)
    ultimately show ?thesis
      using JDict unfolding env_value_def kubernetes_env_var_def Let_def
      by (auto simp: env_text_def str_of_json_def simp del: env_var_is_secret.simps)
  qed (simp_all add: env_value_def kubernetes_env_var_def)
  then show ?case using rest by (simp add: kubernetes_env_vars_def)
qed

theorem modes_render_same_environment_witness:
  "\<forall>show. env_values show [env_literal ''APP_VERSION'' ''v1''] = Inr (kubernetes_env_vars show [env_literal ''APP_VERSION'' ''v1''])"
  by (intro allI, rule modes_render_same_environment) (auto simp: literal_secrets_def env_literal_def)

end
