(* ===== verification/Kubernetes_Diagnostics.thy ===== *)
theory Kubernetes_Diagnostics
  imports Docker_Executor Workload_Rendering Reconcile
begin

text \<open>
  The command lines and names of \<open>worker/executors/kubernetes/executor.py\<close> and the evidence
  that \<open>kubernetes/diagnostics.py\<close> collects about the pods of a deployment. A call of
  \<open>kubectl\<close> is an external command of \<open>Command_Runner\<close>; what it prints as JSON may have any
  shape, and a field that is not there raises what Python raises.
\<close>

section \<open>Command lines and names\<close>

definition kubectl_in :: "kube \<Rightarrow> string \<Rightarrow> string list \<Rightarrow> string list" where
  "kubectl_in k namespace parts =
     [kb_kubectl_bin k]
     @ (if truthy (kb_kubeconfig k) then [''--kubeconfig'', or_str (kb_kubeconfig k) []] else [])
     @ [''--namespace'', or_str (Some namespace) (kb_namespace k)] @ parts"

definition kubectl_args :: "kube \<Rightarrow> string list \<Rightarrow> string list" where
  "kubectl_args k parts = kubectl_in k [] parts"

definition namespace_for_deployment :: "kube \<Rightarrow> world \<Rightarrow> deployment \<Rightarrow> string" where
  "namespace_for_deployment k w d = or_str (kubernetes_namespace w d) (kb_namespace k)"

definition k8s_deployment_name :: "(json \<Rightarrow> string) \<Rightarrow> world \<Rightarrow> deployment \<Rightarrow> string" where
  "k8s_deployment_name show w d = or_str (kubernetes_deployment_name w d)
     (manifest_deployment_name (spec_or_empty show (project_for_deployment w d) ''name'') (d_id d) MAX_DNS_LABEL_LENGTH)"

definition k8s_service_name :: "(json \<Rightarrow> string) \<Rightarrow> world \<Rightarrow> deployment \<Rightarrow> string" where
  "k8s_service_name show w d = or_str (kubernetes_service_name w d)
     (manifest_service_name (spec_or_empty show (project_for_deployment w d) ''name'') (d_id d) MAX_DNS_LABEL_LENGTH)"

definition k8s_ingress_name :: "(json \<Rightarrow> string) \<Rightarrow> world \<Rightarrow> deployment \<Rightarrow> string" where
  "k8s_ingress_name show w d = or_str (kubernetes_ingress_name w d) (k8s_deployment_name show w d)"

definition kubernetes_resource_identity :: "(json \<Rightarrow> string) \<Rightarrow> world \<Rightarrow> deployment \<Rightarrow> identity" where
  "kubernetes_resource_identity show w d =
     \<lparr>i_deployment_name = Some (k8s_deployment_name show w d),
      i_service_name = Some (k8s_service_name show w d),
      i_ingress_name = Some (k8s_ingress_name show w d)\<rparr>"

definition in_cluster_url :: "kube \<Rightarrow> string \<Rightarrow> string \<Rightarrow> string" where
  "in_cluster_url k service_name port =
     ''http://'' @ service_name @ ''.'' @ kb_namespace k @ ''.svc.cluster.local:'' @ port"

section \<open>Diagnostic commands\<close>

text \<open>\<open>str(exc)\<close> of a \<open>subprocess.TimeoutExpired\<close> for a timeout in milliseconds.\<close>

definition timeout_text :: "os \<Rightarrow> string list \<Rightarrow> int \<Rightarrow> string" where
  "timeout_text s args ms = ''Command '' @ [SINGLE] @ os_shown s (jtexts args) @ [SINGLE]
     @ '' timed out after '' @ str_of_int (ms div 1000) @ '' seconds''"

definition outcome_text :: "os \<Rightarrow> 'a settings_scheme \<Rightarrow> string list \<Rightarrow> outcome \<Rightarrow> string" where
  "outcome_text s st args r = (case r of
     Completed returncode stdout stderr \<Rightarrow> stdout @ stderr
   | Timed_out stdout stderr \<Rightarrow> timeout_text s args (st_command_timeout st)
   | Os_error e \<Rightarrow> e)"

definition run_diagnostic_command :: "os \<Rightarrow> 'a settings_scheme \<Rightarrow> string list \<Rightarrow> string \<Rightarrow> string act" where
  "run_diagnostic_command s st args file =
     mbind (file_op s (parent_dir file)) (\<lambda>_.
     mbind (execute_command s st False None None None args) (\<lambda>r.
     let output = outcome_text s st args r
     in mbind (write_log s [] file args output [] False) (\<lambda>_. mret output)))"

definition summary_entries :: "string \<Rightarrow> string \<Rightarrow> string \<Rightarrow> dict" where
  "summary_entries key file output =
     [(key @ ''_log_path'', JStr file), (key @ ''_summary'', jopt (summarize_output output)),
      (key @ ''_output_tail'', jtexts (tail_lines output))]"

text \<open>Every exception ends up in the text, also those of a heartbeat during the command.\<close>

definition capture_runtime_logs :: "os \<Rightarrow> kube \<Rightarrow> world \<Rightarrow> deployment \<Rightarrow> string \<Rightarrow> dict act" where
  "capture_runtime_logs s k w d deployment_name =
     (let file = log_at k d ''runtime.log'';
          args = kubectl_args k [''logs'', ''deployment/'' @ deployment_name, ''--all-containers=true'', ''--prefix=true'',
            ''--tail=200''];
          secrets = secret_values_from_env_vars (os_shown s) (spec_env_vars (project_for_deployment w d))
      in mbind (mcatch (mbind (execute_command s k False None None None args) (\<lambda>r. mret (outcome_text s k args r)))
             (\<lambda>e. mret (exn_text e))) (\<lambda>captured.
         let output = redact_text secrets captured
         in mbind (write_log s secrets file args output [] False) (\<lambda>_.
            mret [(''runtime_log_path'', JStr file), (''runtime_log_summary'', jopt (summarize_output output)),
                  (''runtime_output_tail'', jtexts (tail_lines output))])))"

section \<open>Pods\<close>

definition ebind :: "exn + 'a \<Rightarrow> ('a \<Rightarrow> exn + 'b) \<Rightarrow> exn + 'b" where
  "ebind r k = (case r of Inl e \<Rightarrow> Inl e | Inr x \<Rightarrow> k x)"

primrec emap :: "('a \<Rightarrow> exn + 'b) \<Rightarrow> 'a list \<Rightarrow> exn + 'b list" where
  "emap f [] = Inr []"
| "emap f (x # xs) = ebind (f x) (\<lambda>y. ebind (emap f xs) (\<lambda>ys. Inr (y # ys)))"

definition type_error :: exn where
  "type_error = OtherExn ''TypeError'' ''unsupported type of a value''"

text \<open>\<open>value.get\<close> of what should be a dictionary, and iteration over a value.\<close>

definition as_dict :: "json \<Rightarrow> exn + dict" where
  "as_dict v = (case v of JDict d \<Rightarrow> Inr d | _ \<Rightarrow> Inl (OtherExn ''AttributeError'' ''object has no attribute get''))"

definition elements :: "json \<Rightarrow> exn + json list" where
  "elements v = (case v of JList xs \<Rightarrow> Inr xs | JDict d \<Rightarrow> Inr (map (\<lambda>(key, _). JStr key) d)
     | JStr t \<Rightarrow> Inr (map (\<lambda>c. JStr [c]) t) | _ \<Rightarrow> Inl type_error)"

text \<open>\<open>items[:3]\<close>; a slice is no key of a dictionary.\<close>

definition first_items :: "json \<Rightarrow> exn + json list" where
  "first_items v = (case v of JList xs \<Rightarrow> Inr (take 3 xs) | JStr t \<Rightarrow> Inr (map (\<lambda>c. JStr [c]) (take 3 t))
     | JDict d \<Rightarrow> Inl (OtherExn ''KeyError'' ''slice'') | _ \<Rightarrow> Inl type_error)"

text \<open>A value as the key of a dictionary; True and 1 are the same key.\<close>

definition hashed :: "json \<Rightarrow> exn + json" where
  "hashed v = (case v of JList xs \<Rightarrow> Inl type_error | JDict d \<Rightarrow> Inl type_error
     | JBool b \<Rightarrow> Inr (JInt (if b then 1 else 0)) | _ \<Rightarrow> Inr v)"

definition int_of_json :: "json \<Rightarrow> exn + int" where
  "int_of_json v = (case v of JInt i \<Rightarrow> Inr i | JBool b \<Rightarrow> Inr (if b then 1 else 0)
     | JStr t \<Rightarrow> (case parse_int t of None \<Rightarrow> Inl (OtherExn ''ValueError'' ''invalid literal for int()'') | Some i \<Rightarrow> Inr i)
     | _ \<Rightarrow> Inl type_error)"

text \<open>The entry of \<open>containerStatuses\<close>, and one pod.\<close>

definition container_detail :: "(json \<times> json) list \<Rightarrow> json \<Rightarrow> exn + dict" where
  "container_detail containers_by_name status =
     ebind (as_dict status) (\<lambda>st.
     ebind (as_dict (jor (jget st ''state'') (JDict []))) (\<lambda>state.
     let found = find (\<lambda>(name, _). jtrue (jget state name))
           [(''waiting'', ''Waiting''), (''terminated'', ''Terminated''), (''running'', ''Running'')];
         state_detail = (case found of None \<Rightarrow> JDict [] | Some (name, _) \<Rightarrow> jget state name)
     in ebind (hashed (jget st ''name'')) (\<lambda>name.
        let spec_container = (case map_of (rev containers_by_name) name of None \<Rightarrow> [] | Some c \<Rightarrow> dict_of c)
        in ebind (int_of_json (jor (jget st ''restartCount'') (JInt 0))) (\<lambda>restarts.
        ebind (as_dict state_detail) (\<lambda>detail. Inr
          [(''name'', jget st ''name''), (''image'', jor (jget st ''image'') (jget spec_container ''image'')),
           (''ready'', JBool (jtrue (jget st ''ready''))), (''restart_count'', JInt restarts),
           (''reason'', jor (jget detail ''reason'') (jopt (map_option snd found)))])))))"

definition named_values :: "string \<Rightarrow> json list \<Rightarrow> exn + json list" where
  "named_values key items = ebind (emap as_dict items) (\<lambda>ds. Inr (filter jtrue (map (\<lambda>d. jget d key) ds)))"

definition pod_detail :: "json \<Rightarrow> exn + dict" where
  "pod_detail item =
     ebind (as_dict item) (\<lambda>pod.
     ebind (as_dict (jor (jget pod ''spec'') (JDict []))) (\<lambda>spec.
     ebind (elements (jor (jget spec ''containers'') (JList []))) (\<lambda>containers.
     ebind (emap (\<lambda>c. ebind (as_dict c) (\<lambda>e. ebind (hashed (jget e ''name'')) (\<lambda>name. Inr (name, c)))) containers)
       (\<lambda>containers_by_name.
     ebind (as_dict (jor (jget pod ''status'') (JDict []))) (\<lambda>status.
     ebind (elements (jor (jget status ''containerStatuses'') (JList []))) (\<lambda>statuses.
     ebind (emap (container_detail containers_by_name) statuses) (\<lambda>details.
     ebind (as_dict (jor (jget pod ''metadata'') (JDict []))) (\<lambda>metadata.
     ebind (named_values ''image'' containers) (\<lambda>images.
     ebind (elements (jor (jget spec ''imagePullSecrets'') (JList []))) (\<lambda>pull_secrets.
     ebind (named_values ''name'' pull_secrets) (\<lambda>secret_names. Inr
       [(''name'', jget metadata ''name''), (''phase'', jget status ''phase''),
        (''containers'', JList (map JDict details)), (''images'', JList images),
        (''image_pull_secrets'', JList secret_names)])))))))))))"

definition pod_runtime_metadata :: "json \<Rightarrow> string \<Rightarrow> string \<Rightarrow> exn + dict" where
  "pod_runtime_metadata items p file =
     ebind (first_items items) (\<lambda>first. ebind (emap pod_detail first) (\<lambda>pods.
       let primary = (case pods of [] \<Rightarrow> [] | pod # _ \<Rightarrow> pod);
           containers = map dict_of (list_of (jget primary ''containers''))
       in Inr [(p @ ''_pod_runtime_log_path'', JStr file), (p @ ''_pod_runtime'', JList (map JDict pods)),
            (p @ ''_pod_names'', JList (filter jtrue (map (\<lambda>pod. jget pod ''name'') pods))),
            (p @ ''_pod_phase'', jget primary ''phase''),
            (p @ ''_container_reason'', (case containers of [] \<Rightarrow> JNull | c # _ \<Rightarrow> jget c ''reason'')),
            (p @ ''_restart_count'', JInt (sum_list (map (\<lambda>c. case jget c ''restart_count'' of JInt i \<Rightarrow> i | _ \<Rightarrow> 0) containers))),
            (p @ ''_images'', JList (list_of (jget primary ''images''))),
            (p @ ''_image_pull_secrets'', JList (list_of (jget primary ''image_pull_secrets'')))]))"

definition selector_args :: "string option \<Rightarrow> string option \<Rightarrow> string list" where
  "selector_args deployment_name pod_selector =
     (if truthy pod_selector \<or> truthy deployment_name
      then [''-l'', or_str pod_selector (''app.kubernetes.io/instance='' @ or_str deployment_name [])] else [])"

text \<open>An exception of the command, whatever it is, leaves no metadata.\<close>

definition collect_pod_runtime_metadata ::
    "os \<Rightarrow> kube \<Rightarrow> deployment \<Rightarrow> string option \<Rightarrow> string \<Rightarrow> string option \<Rightarrow> dict act" where
  "collect_pod_runtime_metadata s k d deployment_name p pod_selector =
     (if \<not> truthy deployment_name then mret []
      else let file = log_at k d (''kubernetes-'' @ p @ ''-pods.json.log'')
        in mbind (mcatch (mbind (run_diagnostic_command s k
               (kubectl_args k ([''get'', ''pods''] @ selector_args deployment_name pod_selector @ [''-o'', ''json''])) file)
               (\<lambda>output. mret (Some output))) (\<lambda>e. mret None)) (\<lambda>printed. case printed of
             None \<Rightarrow> mret []
           | Some output \<Rightarrow>
               let items = (case os_loads s output of
                     Some (JDict payload) \<Rightarrow> if jhas payload ''items'' then jget payload ''items'' else JList []
                   | _ \<Rightarrow> JList [])
               in if \<not> jtrue items then mret [] else mlift (pod_runtime_metadata items p file)))"

definition after_slash :: "string \<Rightarrow> string" where
  "after_slash line = (if CHR ''/'' \<in> set line then tl (dropWhile (\<lambda>c. c \<noteq> CHR ''/'') line) else line)"

text \<open>The files and outputs of the three commands about one pod.\<close>

record pod_evidence =
  pe_pod :: string
  pe_describe_file :: string
  pe_describe :: string
  pe_logs_file :: string
  pe_logs :: string
  pe_previous_file :: string
  pe_previous :: string

definition inspect_pod :: "os \<Rightarrow> kube \<Rightarrow> deployment \<Rightarrow> string \<Rightarrow> string \<Rightarrow> pod_evidence act" where
  "inspect_pod s k d p pod_name =
     (let describe_file = log_at k d (''kubernetes-'' @ p @ ''-describe-'' @ pod_name @ ''.log'');
          logs_file = log_at k d (''kubernetes-'' @ p @ ''-logs-'' @ pod_name @ ''.log'');
          previous_file = log_at k d (''kubernetes-'' @ p @ ''-logs-previous-'' @ pod_name @ ''.log'');
          pod = ''pod/'' @ pod_name
      in mbind (run_diagnostic_command s k (kubectl_args k [''describe'', pod]) describe_file) (\<lambda>describe_output.
         mbind (run_diagnostic_command s k (kubectl_args k [''logs'', pod, ''--tail'', ''50'']) logs_file) (\<lambda>logs_output.
         mbind (run_diagnostic_command s k (kubectl_args k [''logs'', pod, ''--previous'', ''--tail'', ''50'']) previous_file)
           (\<lambda>previous_output. mret
             \<lparr>pe_pod = pod_name, pe_describe_file = describe_file, pe_describe = describe_output,
              pe_logs_file = logs_file, pe_logs = logs_output,
              pe_previous_file = previous_file, pe_previous = previous_output\<rparr>))))"

definition joined_summaries :: "(pod_evidence \<Rightarrow> string) \<Rightarrow> pod_evidence list \<Rightarrow> json" where
  "joined_summaries output evidence =
     (let summaries = concat (map (\<lambda>v. case summarize_output (output v) of
            None \<Rightarrow> [] | Some summary \<Rightarrow> [pe_pod v @ '': '' @ summary]) evidence)
      in if summaries = [] then JNull else JStr (take 1000 (join '' | '' summaries)))"

definition collect_pod_diagnostics ::
    "os \<Rightarrow> kube \<Rightarrow> deployment \<Rightarrow> string option \<Rightarrow> string \<Rightarrow> string option \<Rightarrow> dict act" where
  "collect_pod_diagnostics s k d deployment_name p pod_selector =
     (let names_file = log_at k d (''kubernetes-'' @ p @ ''-pod-names.log'')
      in mbind (run_diagnostic_command s k
           (kubectl_args k ([''get'', ''pods''] @ selector_args deployment_name pod_selector @ [''-o'', ''name''])) names_file)
           (\<lambda>names_output.
         let pod_names = take 3 (map after_slash (text_lines names_output))
         in mbind (mmap (inspect_pod s k d p) pod_names) (\<lambda>evidence.
            mbind (collect_pod_runtime_metadata s k d deployment_name p pod_selector) (\<lambda>runtime.
            mret (jmerge
              [(p @ ''_pod_names_log_path'', JStr names_file), (p @ ''_pod_names'', jtexts pod_names),
               (p @ ''_pod_describe_log_paths'', jtexts (map pe_describe_file evidence)),
               (p @ ''_pod_describe_summary'', joined_summaries pe_describe evidence),
               (p @ ''_pod_logs_log_paths'', jtexts (map pe_logs_file evidence)),
               (p @ ''_pod_logs_summary'', joined_summaries pe_logs evidence),
               (p @ ''_pod_previous_logs_log_paths'', jtexts (map pe_previous_file evidence)),
               (p @ ''_pod_previous_logs_summary'', joined_summaries pe_previous evidence)] runtime)))))"

section \<open>Evidence about a failed step\<close>

definition collect_rollout_diagnostics :: "os \<Rightarrow> kube \<Rightarrow> deployment \<Rightarrow> string \<Rightarrow> dict act" where
  "collect_rollout_diagnostics s k d deployment_name =
     (let pods_file = log_at k d ''kubernetes-rollout-pods.log'';
          describe_file = log_at k d ''kubernetes-rollout-describe.log''
      in mbind (run_diagnostic_command s k (kubectl_args k [''get'', ''pods'', ''-o'', ''wide'']) pods_file) (\<lambda>pods_output.
         mbind (run_diagnostic_command s k (kubectl_args k [''describe'', ''deployment/'' @ deployment_name]) describe_file)
           (\<lambda>describe_output.
         mbind (collect_pod_diagnostics s k d (Some deployment_name) ''rollout'' None) (\<lambda>pods.
         mret (jmerge (summary_entries ''rollout_pods'' pods_file pods_output
                 @ summary_entries ''rollout_describe'' describe_file describe_output) pods)))))"

text \<open>The pods here are not those of a deployment: there is no selector.\<close>

definition collect_apply_diagnostics :: "os \<Rightarrow> kube \<Rightarrow> deployment \<Rightarrow> dict act" where
  "collect_apply_diagnostics s k d =
     (let pods_file = log_at k d ''kubernetes-apply-pods.log'';
          services_file = log_at k d ''kubernetes-apply-services.log''
      in mbind (run_diagnostic_command s k (kubectl_args k [''get'', ''pods'', ''-o'', ''wide'']) pods_file) (\<lambda>pods_output.
         mbind (run_diagnostic_command s k (kubectl_args k [''get'', ''services'']) services_file) (\<lambda>services_output.
         mbind (collect_pod_diagnostics s k d None ''apply'' None) (\<lambda>pods.
         mret (jmerge (summary_entries ''apply_pods'' pods_file pods_output
                 @ summary_entries ''apply_services'' services_file services_output) pods)))))"

definition collect_healthcheck_diagnostics ::
    "os \<Rightarrow> kube \<Rightarrow> deployment \<Rightarrow> string \<Rightarrow> string \<Rightarrow> string option \<Rightarrow> dict act" where
  "collect_healthcheck_diagnostics s k d deployment_name service_name pod_selector =
     (let pods_file = log_at k d ''kubernetes-healthcheck-pods.log'';
          deployment_file = log_at k d ''kubernetes-healthcheck-describe-deployment.log'';
          service_file = log_at k d ''kubernetes-healthcheck-describe-service.log'';
          selector = or_str pod_selector (''app.kubernetes.io/instance='' @ deployment_name)
      in mbind (run_diagnostic_command s k
             (kubectl_args k [''get'', ''pods'', ''-l'', selector, ''-o'', ''wide'']) pods_file) (\<lambda>pods_output.
         mbind (run_diagnostic_command s k (kubectl_args k [''describe'', ''deployment/'' @ deployment_name]) deployment_file)
           (\<lambda>deployment_output.
         mbind (run_diagnostic_command s k (kubectl_args k [''describe'', ''service/'' @ service_name]) service_file)
           (\<lambda>service_output.
         mbind (collect_pod_diagnostics s k d (Some deployment_name) ''healthcheck'' pod_selector) (\<lambda>pods.
         mret (jmerge (summary_entries ''healthcheck_pods'' pods_file pods_output
                 @ summary_entries ''healthcheck_deployment'' deployment_file deployment_output
                 @ summary_entries ''healthcheck_service'' service_file service_output) pods))))))"

definition runtime_pod_diagnostics :: "os \<Rightarrow> kube \<Rightarrow> string \<Rightarrow> world \<Rightarrow> deployment \<Rightarrow> dict act" where
  "runtime_pod_diagnostics s k p w d = mbind (prepare_workspace s k d) (\<lambda>_.
     collect_pod_diagnostics s k d (Some (k8s_deployment_name (os_shown s) w d)) p None)"

section \<open>Invariants\<close>

lemma mkeeps_diagnostic: "quiet I s \<Longrightarrow> beats_keep I st \<Longrightarrow> mkeeps I (run_diagnostic_command s st args file)"
  unfolding run_diagnostic_command_def Let_def by (intro act_rules mkeeps_services mkeeps_write_log)

lemma mkeeps_runtime_logs: "quiet I s \<Longrightarrow> beats_keep I k \<Longrightarrow> mkeeps I (capture_runtime_logs s k w d name)"
  unfolding capture_runtime_logs_def Let_def by (intro act_rules mkeeps_services mkeeps_write_log)

lemma mkeeps_pod_metadata:
  "quiet I s \<Longrightarrow> beats_keep I k \<Longrightarrow> mkeeps I (collect_pod_runtime_metadata s k d name p sel)"
  unfolding collect_pod_runtime_metadata_def Let_def by (intro act_rules mkeeps_diagnostic)

lemma mkeeps_pods: "quiet I s \<Longrightarrow> beats_keep I k \<Longrightarrow> mkeeps I (collect_pod_diagnostics s k d name p sel)"
  unfolding collect_pod_diagnostics_def inspect_pod_def Let_def
  by (intro act_rules mkeeps_diagnostic mkeeps_pod_metadata)

lemma mkeeps_evidence:
  assumes "quiet I s" "beats_keep I k"
  shows "mkeeps I (collect_rollout_diagnostics s k d name)" "mkeeps I (collect_apply_diagnostics s k d)"
    "mkeeps I (collect_healthcheck_diagnostics s k d name service sel)" "mkeeps I (runtime_pod_diagnostics s k p w d)"
  unfolding collect_rollout_diagnostics_def collect_apply_diagnostics_def collect_healthcheck_diagnostics_def
    runtime_pod_diagnostics_def Let_def
  by (intro act_rules mkeeps_diagnostic mkeeps_pods mkeeps_services assms)+

lemmas mkeeps_diagnostics = mkeeps_diagnostic mkeeps_runtime_logs mkeeps_pod_metadata mkeeps_evidence

end
