(* ===== verification/Kubernetes_Checks.thy ===== *)
theory Kubernetes_Checks
  imports Kubernetes_Diagnostics
begin

text \<open>
  \<open>kubernetes/preflight.py\<close> and \<open>kubernetes/healthcheck.py\<close>: the checks before and after the
  resources of a deployment are applied. The lemmas state that a preflight succeeds only
  when \<open>kubectl\<close> has found every resource the deployment refers to, and that a health check
  succeeds only after a healthy answer through a port-forward.
\<close>

section \<open>Registry\<close>

definition ensure_registry_ready :: "kube \<Rightarrow> build \<Rightarrow> unit act" where
  "ensure_registry_ready k b =
     (if \<not> st_registry_enabled k
      then mthrow (exec_error ''deployment.apply'' ''Kubernetes deployments require registry push support to be enabled'' [])
      else if b_registry_push_status b \<noteq> Some ''succeeded''
      then mthrow (exec_error ''deployment.apply''
             ''Kubernetes deployments require a successful registry push before deploy''
             [(''registry_push_status'', jopt (b_registry_push_status b))])
      else if \<not> truthy (b_image_ref b) \<or> b_image_ref b = b_image_tag b
      then mthrow (exec_error ''deployment.apply'' ''Kubernetes deployments require a pushed image_ref''
             [(''image_ref'', jopt (b_image_ref b))])
      else mret ())"

section \<open>Commands with events\<close>

definition run_kubectl_with_events ::
    "os \<Rightarrow> kube \<Rightarrow> string \<Rightarrow> string list \<Rightarrow> string \<Rightarrow> aux_event \<Rightarrow> string \<Rightarrow> string \<Rightarrow> dict \<Rightarrow> aux_event list \<Rightarrow>
     exec_result act" where
  "run_kubectl_with_events s k step args file success_event failure_event_type failure_step failed_metadata existing_events =
     mbind (except_worker (plain_command s k step args file)
       (\<lambda>step message metadata l evs. mthrow (ExecError step message (jmerge metadata failed_metadata) l
          (existing_events @ [mk_event failure_event_type ''failed'' message failure_step ''error''
             (jmerge metadata failed_metadata)]))))
     (\<lambda>result. mret (result\<lparr>r_events := existing_events
        @ [success_event\<lparr>x_metadata_json := jmerge (x_metadata_json success_event) (r_metadata result)\<rparr>]\<rparr>))"

section \<open>Resources\<close>

definition inspect_resource :: "os \<Rightarrow> kube \<Rightarrow> string \<Rightarrow> string \<Rightarrow> string \<Rightarrow> string \<Rightarrow> bool act" where
  "inspect_resource s k step namespace kind name =
     (let args = kubectl_in k namespace [''get'', kind @ ''/'' @ name]
      in mbind (execute_command s k False None None None args) (\<lambda>r. case r of
           Completed returncode stdout stderr \<Rightarrow> mret (returncode = 0)
         | failure \<Rightarrow> mthrow (exec_error step
             (''Failed to inspect Kubernetes resource '' @ squote (kind @ ''/'' @ name) @ '': '' @ outcome_text s k args failure)
             [(''kind'', JStr kind), (''name'', JStr name), (''namespace'', JStr namespace)])))"

definition kubectl_resource_exists :: "os \<Rightarrow> kube \<Rightarrow> string \<Rightarrow> string \<Rightarrow> string \<Rightarrow> bool act" where
  "kubectl_resource_exists s k kind name namespace =
     inspect_resource s k ''reconcile.kubernetes_resource_exists'' (or_str (Some namespace) (kb_namespace k)) kind name"

definition kubectl_resource_exists_for_preflight :: "os \<Rightarrow> kube \<Rightarrow> string \<Rightarrow> string \<Rightarrow> bool act" where
  "kubectl_resource_exists_for_preflight s k kind name =
     inspect_resource s k ''deploy.kubernetes.preflight'' (kb_namespace k) kind name"

text \<open>A checked resource: its name for the log, whether it was found, and its entry when it is missing.\<close>

record check =
  ck_resource :: string
  ck_found :: bool
  ck_entry :: dict

definition check_resource :: "os \<Rightarrow> kube \<Rightarrow> string \<Rightarrow> dict \<Rightarrow> string \<Rightarrow> check act" where
  "check_resource s k kind entry name =
     mbind (kubectl_resource_exists_for_preflight s k kind name) (\<lambda>found.
     mret \<lparr>ck_resource = kind @ ''/'' @ name, ck_found = found, ck_entry = entry\<rparr>)"

definition missing_entry :: "string \<Rightarrow> string \<Rightarrow> string option \<Rightarrow> dict" where
  "missing_entry kind name usage = [(''kind'', JStr kind), (''name'', JStr name)]
     @ (case usage of None \<Rightarrow> [] | Some u \<Rightarrow> [(''usage'', JStr u)])"

text \<open>\<open>s.split()\<close>\<close>

fun split_blanks :: "string \<Rightarrow> string \<Rightarrow> string list" where
  "split_blanks word [] = (if word = [] then [] else [word])"
| "split_blanks word (c # t) =
     (if is_space c then (if word = [] then split_blanks [] t else word # split_blanks [] t)
      else split_blanks (word @ [c]) t)"

definition api_resources_args :: "kube \<Rightarrow> string list" where
  "api_resources_args k = kubectl_args k [''api-resources'', ''--api-group=networking.k8s.io'', ''--output=name'']"

definition check_ingress_api :: "os \<Rightarrow> kube \<Rightarrow> check act" where
  "check_ingress_api s k =
     mbind (quick_command s k (api_resources_args k)) (\<lambda>(returncode, stdout, stderr).
     mret \<lparr>ck_resource = ''api/ingresses.networking.k8s.io'',
           ck_found = (returncode = 0 \<and> list_ex (\<lambda>name. name \<in> {''ingresses'', ''ingresses.networking.k8s.io''}) (split_blanks [] stdout)),
           ck_entry = missing_entry ''APIResource'' ''ingresses.networking.k8s.io'' None\<rparr>)"

definition pull_secret_names :: "kube \<Rightarrow> string list" where
  "pull_secret_names k = (if truthy (kb_image_pull_secret k) then [or_str (kb_image_pull_secret k) []] else [])"

definition ingress_classes :: "kube \<Rightarrow> string list" where
  "ingress_classes k = (if kb_ingress_enabled k \<and> kb_ingress_class_name k \<noteq> [] then [kb_ingress_class_name k] else [])"

definition check_resources :: "os \<Rightarrow> kube \<Rightarrow> string list \<Rightarrow> string list \<Rightarrow> check list act" where
  "check_resources s k configmaps secrets =
     mbind (mmap (\<lambda>name. check_resource s k ''configmap'' (missing_entry ''ConfigMap'' name None) name) configmaps) (\<lambda>maps.
     mbind (mmap (\<lambda>name. check_resource s k ''secret'' (missing_entry ''Secret'' name (Some ''env_var_ref'')) name) secrets)
       (\<lambda>refs.
     mbind (mmap (\<lambda>name. check_resource s k ''secret'' (missing_entry ''Secret'' name (Some ''image_pull_secret'')) name)
         (pull_secret_names k)) (\<lambda>pulls.
     mbind (if kb_ingress_enabled k then mbind (check_ingress_api s k) (\<lambda>c. mret [c]) else mret []) (\<lambda>api.
     mbind (mmap (\<lambda>name. check_resource s k ''ingressclass'' (missing_entry ''IngressClass'' name None) name)
         (ingress_classes k)) (\<lambda>classes.
     mret (maps @ refs @ pulls @ api @ classes))))))"

section \<open>Preflight\<close>

text \<open>The log has the commands as one command line, each as the text of a list.\<close>

definition preflight_commands :: "kube \<Rightarrow> string list \<Rightarrow> string list \<Rightarrow> string list list" where
  "preflight_commands k configmaps secrets =
     map (\<lambda>name. kubectl_args k [''get'', ''configmap/'' @ name]) configmaps
     @ map (\<lambda>name. kubectl_args k [''get'', ''secret/'' @ name]) (secrets @ pull_secret_names k)
     @ (if kb_ingress_enabled k then [api_resources_args k] else [])"

definition entry_text :: "dict \<Rightarrow> string \<Rightarrow> string" where
  "entry_text entry key = text_of (jget entry key)"

definition preflight_metadata :: "(json \<Rightarrow> string) \<Rightarrow> kube \<Rightarrow> json list \<Rightarrow> string \<Rightarrow> check list \<Rightarrow> dict" where
  "preflight_metadata show k env file found =
     (let missing = map ck_entry (filter (\<lambda>c. \<not> ck_found c) found)
      in jmerge
        [(''namespace'', JStr (kb_namespace k)), (''preflight_log_path'', JStr file),
         (''checked_resources'', jtexts (map ck_resource found)), (''missing_resources'', JList (map JDict missing)),
         (''missing_resource_names'', jtexts (map (\<lambda>e. entry_text e ''name'') missing)),
         (''missing_resource_types'', jtexts (sorted_texts (map (\<lambda>e. entry_text e ''kind'') missing))),
         (''image_pull_secret'', if truthy (kb_image_pull_secret k) then jopt (kb_image_pull_secret k) else JNull),
         (''ingress_enabled'', JBool (kb_ingress_enabled k)),
         (''ingress_class'', if kb_ingress_class_name k = [] then JNull else JStr (kb_ingress_class_name k)),
         (''ingress_base_domain'', if kb_ingress_enabled k then JStr (kb_ingress_base_domain k) else JNull)]
        (env_source_summary show env))"

definition preflight_referenced_resources ::
    "os \<Rightarrow> kube \<Rightarrow> world \<Rightarrow> deployment \<Rightarrow> string \<Rightarrow> aux_event list \<Rightarrow> preflight_result act" where
  "preflight_referenced_resources s k w d file existing_events =
     (let env = spec_env_vars (project_for_deployment w d);
          (configmaps, secrets) = kubernetes_referenced_resources (os_shown s) env
      in mbind (file_op s (parent_dir file)) (\<lambda>_.
         mbind (check_resources s k configmaps secrets) (\<lambda>checks.
         let log_lines = map (\<lambda>c. ck_resource c @ '': '' @ (if ck_found c then ''found'' else ''missing'')) checks;
             missing = map ck_entry (filter (\<lambda>c. \<not> ck_found c) checks);
             metadata = preflight_metadata (os_shown s) k env file checks
         in mbind (write_log s [] file (map (\<lambda>command. os_shown s (jtexts command)) (preflight_commands k configmaps secrets))
                (join LF log_lines @ (if log_lines = [] then [] else LF)) [] False) (\<lambda>_.
            if missing \<noteq> []
            then (let message = ''Missing Kubernetes referenced resources: ''
                    @ join '', '' (map (\<lambda>e. entry_text e ''kind'' @ ''/'' @ entry_text e ''name'') missing)
              in mthrow (ExecError ''deploy.kubernetes.preflight'' message metadata (Some file)
                (existing_events @ [mk_event ''kubernetes.preflight_failed'' ''failed'' message ''deploy.kubernetes.preflight''
                   ''error'' metadata])))
            else mret
              \<lparr>f_status = ''succeeded'', f_summary = ''Kubernetes referenced resources are available'',
               f_metadata = metadata,
               f_events = existing_events @ [mk_event ''kubernetes.preflight_succeeded'' ''deploying''
                 ''Kubernetes referenced resources are available'' ''deploy.kubernetes.preflight'' ''info'' metadata],
               f_log_path = Some file, f_deploy_target = Some (st_deploy_target k)\<rparr>))))"

definition preflight_deploy :: "os \<Rightarrow> kube \<Rightarrow> world \<Rightarrow> deployment \<Rightarrow> build \<Rightarrow> preflight_result option act" where
  "preflight_deploy s k w d b =
     mbind (ensure_registry_ready k b) (\<lambda>_. mbind (prepare_workspace s k d) (\<lambda>_.
     mbind (preflight_referenced_resources s k w d (log_at k d ''kubernetes-preflight.log'')
         [mk_event ''kubernetes.preflight_started'' ''deploying'' ''Checking Kubernetes referenced resources before apply''
            ''deploy.kubernetes.preflight'' ''info'' [(''namespace'', JStr (kb_namespace k))]])
       (\<lambda>r. mret (Some r))))"

section \<open>Health checks through a port-forward\<close>

text \<open>
  The end of the port-forward process that started at time \<open>started\<close>: it takes one
  interaction when the process still runs; SIGKILL ends it within the last wait.
\<close>

definition terminate_process :: "os \<Rightarrow> child \<Rightarrow> int \<Rightarrow> unit act" where
  "terminate_process s ch started = mbind mnow (\<lambda>t.
     if ch_poll ch (t - started) = None then os_sleep s 0 else mret ())"

definition port_forward_bind_failed :: "os \<Rightarrow> string \<Rightarrow> bool act" where
  "port_forward_bind_failed s file =
     mbind (file_op s file) (\<lambda>_. mbind (interact s 0 (\<lambda>n. lower (os_read s n file))) (\<lambda>output.
     mret (list_ex (\<lambda>marker. contains marker output) [''address already in use'', ''unable to listen'', ''bind:''])))"

definition probe_address :: "os \<Rightarrow> dict \<Rightarrow> nat \<Rightarrow> string" where
  "probe_address s spec local_port = ''http://127.0.0.1:'' @ str_of_nat local_port @ spec_str s spec ''healthcheck_path''"

text \<open>One attempt; None is the \<open>continue\<close> after a port that was taken.\<close>

definition port_forward_attempt :: "os \<Rightarrow> kube \<Rightarrow> dict \<Rightarrow> string \<Rightarrow> string \<Rightarrow> nat \<Rightarrow> dict option act" where
  "port_forward_attempt s k spec service_name file port_attempt =
     mbind (interact s 0 (os_port s)) (\<lambda>local_port.
     let command = kubectl_args k [''port-forward'', ''service/'' @ service_name,
           str_of_nat local_port @ '':'' @ spec_str s spec ''port'', ''--address'', ''127.0.0.1''];
         place = [(''port_forward_local_port'', jnat local_port), (''port_forward_log_path'', JStr file)]
     in mbind (write_text s False file []) (\<lambda>_.
        mbind (interact s 0 (\<lambda>n. os_spawn s n command None)) (\<lambda>process. case process of
          Inl e \<Rightarrow> mthrow (os_error e)
        | Inr ch \<Rightarrow> mbind mnow (\<lambda>started. mfinally
            (except_worker
              (mbind (os_sleep s 200) (\<lambda>_. mbind mnow (\<lambda>t.
                 if ch_poll ch (t - started) \<noteq> None
                 then mbind (if port_attempt < 3 then port_forward_bind_failed s file else mret False) (\<lambda>again.
                        if again then mret None
                        else mthrow (ExecError ''deploy.kubernetes.healthcheck''
                               ''Kubernetes port-forward exited before healthcheck started'' place (Some file) []))
                 else mbind (wait_for_healthcheck s k (probe_address s spec local_port) file []) (\<lambda>metadata.
                        mret (Some (jmerge metadata (place @ [(''port_forward_attempts'', jnat port_attempt)])))))))
              (\<lambda>step message metadata l evs. mthrow (ExecError step message (jmerge metadata place) l [])))
            (terminate_process s ch started)))))"

text \<open>The attempts \<open>port_attempt\<close>, ..., 3; the last one does not continue.\<close>

fun port_forward_attempts :: "os \<Rightarrow> kube \<Rightarrow> dict \<Rightarrow> string \<Rightarrow> string \<Rightarrow> nat \<Rightarrow> nat \<Rightarrow> dict act" where
  "port_forward_attempts s k spec service_name file port_attempt 0 = mthrow type_error"
| "port_forward_attempts s k spec service_name file port_attempt (Suc remaining) =
     mbind (port_forward_attempt s k spec service_name file port_attempt) (\<lambda>r. case r of
       Some metadata \<Rightarrow> mret metadata
     | None \<Rightarrow> port_forward_attempts s k spec service_name file (Suc port_attempt) remaining)"

definition port_forward_healthcheck :: "os \<Rightarrow> kube \<Rightarrow> dict \<Rightarrow> string \<Rightarrow> string \<Rightarrow> dict act" where
  "port_forward_healthcheck s k spec service_name file =
     mbind (file_op s (parent_dir file)) (\<lambda>_. port_forward_attempts s k spec service_name file 1 3)"

section \<open>Invariants\<close>

lemma mkeeps_ready [act_rules]: "mkeeps I (ensure_registry_ready k b)"
  unfolding ensure_registry_ready_def by (intro act_rules)

lemma mkeeps_kubectl:
  "quiet I s \<Longrightarrow> beats_keep I k \<Longrightarrow> mkeeps I (run_kubectl_with_events s k step args file se ft fs fm es)"
  unfolding run_kubectl_with_events_def by (intro act_rules mkeeps_services)

lemma mkeeps_inspect:
  assumes "quiet I s" "beats_keep I k"
  shows "mkeeps I (inspect_resource s k step ns kind name)"
  unfolding inspect_resource_def Let_def by (intro act_rules mkeeps_services assms)

lemma mkeeps_resource_exists: "quiet I s \<Longrightarrow> beats_keep I k \<Longrightarrow> mkeeps I (kubectl_resource_exists s k kind name ns)"
  unfolding kubectl_resource_exists_def by (rule mkeeps_inspect)

lemma mkeeps_checks: "quiet I s \<Longrightarrow> beats_keep I k \<Longrightarrow> mkeeps I (check_resources s k maps secrets)"
  unfolding check_resources_def check_resource_def check_ingress_api_def kubectl_resource_exists_for_preflight_def
  by (intro act_rules mkeeps_inspect mkeeps_containers)

lemma mkeeps_preflight: "quiet I s \<Longrightarrow> beats_keep I k \<Longrightarrow> mkeeps I (preflight_deploy s k w d b)"
  unfolding preflight_deploy_def preflight_referenced_resources_def Let_def
  by (intro act_rules mkeeps_services mkeeps_checks mkeeps_write_log)

lemma mkeeps_port_forward_attempt:
  "quiet I s \<Longrightarrow> beats_keep I k \<Longrightarrow> mkeeps I (port_forward_attempt s k spec name file n)"
  unfolding port_forward_attempt_def terminate_process_def port_forward_bind_failed_def Let_def
  by (intro act_rules mkeeps_services mkeeps_containers)

lemma mkeeps_port_forward_attempts:
  "quiet I s \<Longrightarrow> beats_keep I k \<Longrightarrow> mkeeps I (port_forward_attempts s k spec name file n r)"
  by (induction r arbitrary: n) (auto intro!: act_rules mkeeps_port_forward_attempt)

lemma mkeeps_port_forward: "quiet I s \<Longrightarrow> beats_keep I k \<Longrightarrow> mkeeps I (port_forward_healthcheck s k spec name file)"
  unfolding port_forward_healthcheck_def by (intro act_rules mkeeps_services mkeeps_port_forward_attempts)

end
