(* ===== verification/Kubernetes_Manifest.thy ===== *)
theory Kubernetes_Manifest
  imports Kubernetes_Checks
begin

text \<open>
  \<open>kubernetes/manifest.py\<close>: a deployment whose resources are applied from a manifest, and
  their removal. The steps are apply, rollout with one recheck, and the health check
  through a port-forward; each failure carries the evidence of \<open>Kubernetes_Diagnostics\<close>.
\<close>

section \<open>Names and addresses\<close>

record target =
  tg_deployment :: string
  tg_service :: string
  tg_ingress :: "string option"
  tg_host :: "string option"
  tg_url :: "string option"
  tg_internal_url :: string
  tg_health_url :: string

definition ingress_url :: "string option \<Rightarrow> string option" where
  "ingress_url host = (if truthy host then Some (''http://'' @ or_str host []) else None)"

definition new_target :: "os \<Rightarrow> kube \<Rightarrow> dict \<Rightarrow> string \<Rightarrow> string \<Rightarrow> string \<Rightarrow> string option \<Rightarrow> target" where
  "new_target s k spec deployment_name service_name ingress_name host =
     (let internal = in_cluster_url k service_name (spec_str s spec ''port''); url = ingress_url host
      in \<lparr>tg_deployment = deployment_name, tg_service = service_name,
          tg_ingress = (if kb_ingress_enabled k then Some ingress_name else None),
          tg_host = host, tg_url = url, tg_internal_url = internal,
          tg_health_url = or_str url internal @ spec_str s spec ''healthcheck_path''\<rparr>)"

definition ingress_class :: "kube \<Rightarrow> json" where
  "ingress_class k = (if kb_ingress_class_name k = [] then JNull else JStr (kb_ingress_class_name k))"

text \<open>The dictionaries that events and errors of the health check hold, and of the resources.\<close>

definition target_metadata :: "kube \<Rightarrow> target \<Rightarrow> dict" where
  "target_metadata k g =
     [(''deployment_name'', JStr (tg_deployment g)), (''service_name'', JStr (tg_service g)),
      (''namespace'', JStr (kb_namespace k)), (''service_url'', jopt (tg_url g)),
      (''internal_service_url'', JStr (tg_internal_url g)), (''ingress_name'', jopt (tg_ingress g)),
      (''ingress_host'', jopt (tg_host g)), (''ingress_class'', ingress_class k),
      (''healthcheck_url'', JStr (tg_health_url g))]"

definition resource_metadata :: "kube \<Rightarrow> target \<Rightarrow> string \<Rightarrow> dict" where
  "resource_metadata k g manifest_file =
     [(''deployment_name'', JStr (tg_deployment g)), (''service_name'', JStr (tg_service g)),
      (''ingress_name'', jopt (tg_ingress g)), (''manifest_path'', JStr manifest_file),
      (''namespace'', JStr (kb_namespace k))]"

section \<open>Failures with evidence\<close>

text \<open>The last event gets the evidence too.\<close>

definition with_evidence :: "dict \<Rightarrow> aux_event list \<Rightarrow> aux_event list" where
  "with_evidence diagnostics es = (if es = [] then [] else
     butlast es @ [(last es)\<lparr>x_metadata_json := jmerge (x_metadata_json (last es)) diagnostics\<rparr>])"

definition failing_with :: "'a act \<Rightarrow> dict act \<Rightarrow> 'a act" where
  "failing_with a collect = except_worker a (\<lambda>step message metadata l evs.
     mbind collect (\<lambda>diagnostics. mthrow (ExecError step message (jmerge metadata diagnostics) l
       (with_evidence diagnostics evs))))"

definition is_rollout_condition_timeout :: "string \<Rightarrow> dict \<Rightarrow> bool" where
  "is_rollout_condition_timeout message metadata =
     (let text_or_empty = (\<lambda>v. if jtrue v then text_of v else []);
          text = join '' '' [message, text_or_empty (jget metadata ''summary''),
            join '' '' (map text_of (list_of (jget metadata ''output_tail'')))]
      in contains ''timed out waiting for the condition'' (lower text))"

definition run_manifest_rollout_status ::
    "os \<Rightarrow> kube \<Rightarrow> string \<Rightarrow> int \<Rightarrow> string \<Rightarrow> aux_event list \<Rightarrow> bool \<Rightarrow> exec_result act" where
  "run_manifest_rollout_status s k deployment_name timeout_seconds file existing_events grace_recheck =
     (let metadata = [(''deployment_name'', JStr deployment_name), (''namespace'', JStr (kb_namespace k)),
            (''grace_recheck'', JBool grace_recheck), (''timeout_seconds'', JInt timeout_seconds)]
      in run_kubectl_with_events s k ''deploy.kubernetes.rollout''
           (kubectl_args k [''rollout'', ''status'', ''deployment/'' @ deployment_name, ''--timeout'',
              str_of_int timeout_seconds @ ''s''])
           file
           (mk_event ''kubernetes.rollout_succeeded'' ''deploying''
              (if grace_recheck then ''Kubernetes rollout completed during grace recheck''
               else ''Kubernetes rollout completed successfully'') ''deploy.kubernetes.rollout'' ''info'' metadata)
           ''kubernetes.rollout_failed'' ''deploy.kubernetes.rollout'' metadata existing_events)"

definition rollout_with_recheck :: "os \<Rightarrow> kube \<Rightarrow> deployment \<Rightarrow> string \<Rightarrow> aux_event list \<Rightarrow> exec_result act" where
  "rollout_with_recheck s k d deployment_name es =
     failing_with
       (except_worker
         (run_manifest_rollout_status s k deployment_name (kb_rollout_timeout k div 1000)
            (log_at k d ''kubernetes-rollout.log'') es False)
         (\<lambda>step message metadata l evs.
            if \<not> is_rollout_condition_timeout message metadata then mthrow (ExecError step message metadata l evs)
            else run_manifest_rollout_status s k deployment_name 15
                   (log_at k d ''kubernetes-rollout-recheck.log'') es True))
       (collect_rollout_diagnostics s k d deployment_name)"

section \<open>Health check\<close>

text \<open>
  The part that both deployment modes share: the probe, the pods, the logs of the workload,
  and the error with its evidence. \<open>extra\<close> goes to the events, \<open>error_extra\<close> to the error.
\<close>

definition verify_workload ::
    "os \<Rightarrow> kube \<Rightarrow> world \<Rightarrow> deployment \<Rightarrow> target \<Rightarrow> string option \<Rightarrow> aux_event list \<Rightarrow> dict \<Rightarrow> dict \<Rightarrow> dict act" where
  "verify_workload s k w d g pod_selector es extra error_extra =
     except_worker
       (mbind (port_forward_healthcheck s k (project_for_deployment w d) (tg_service g)
            (log_at k d ''kubernetes-port-forward.log'')) (\<lambda>health.
        mbind (collect_pod_runtime_metadata s k d (Some (tg_deployment g)) ''healthcheck'' pod_selector) (\<lambda>pods.
        mbind (capture_runtime_logs s k w d (tg_deployment g)) (\<lambda>logs.
        mret (jmerge (jmerge health pods) logs)))))
       (\<lambda>step message metadata l evs.
          mbind (collect_healthcheck_diagnostics s k d (tg_deployment g) (tg_service g) pod_selector) (\<lambda>diagnostics.
          mthrow (ExecError step message (jmerge (jmerge metadata diagnostics) error_extra) l
            (es @ [mk_event ''kubernetes.healthcheck_failed'' ''failed'' message ''deploy.kubernetes.healthcheck'' ''error''
               (jmerge (jmerge metadata diagnostics) extra)]))))"

definition health_started :: "kube \<Rightarrow> target \<Rightarrow> aux_event" where
  "health_started k g = mk_event ''kubernetes.healthcheck_started'' ''deploying''
     (''Waiting for healthcheck on Service '' @ squote (tg_service g)) ''deploy.kubernetes.healthcheck'' ''info''
     [(''service_name'', JStr (tg_service g)), (''namespace'', JStr (kb_namespace k)),
      (''healthcheck_url'', JStr (tg_health_url g))]"

definition health_succeeded :: "dict \<Rightarrow> dict \<Rightarrow> aux_event" where
  "health_succeeded health extra = mk_event ''kubernetes.healthcheck_succeeded'' ''deploying''
     ''Kubernetes Service passed healthcheck'' ''deploy.kubernetes.healthcheck'' ''info'' (jmerge health extra)"

section \<open>Deployment\<close>

definition apply_manifest :: "os \<Rightarrow> kube \<Rightarrow> deployment \<Rightarrow> string \<Rightarrow> dict \<Rightarrow> aux_event list \<Rightarrow> exec_result act" where
  "apply_manifest s k d manifest_file metadata es =
     failing_with
       (run_kubectl_with_events s k ''deploy.kubernetes.apply'' (kubectl_args k [''apply'', ''-f'', manifest_file])
          (log_at k d ''kubernetes-apply.log'')
          (mk_event ''kubernetes.manifest_apply_succeeded'' ''deploying'' ''Kubernetes manifests applied successfully''
             ''deploy.kubernetes.apply'' ''info'' metadata)
          ''kubernetes.manifest_apply_failed'' ''deploy.kubernetes.apply'' metadata es)
       (collect_apply_diagnostics s k d)"

definition service_configured :: "kube \<Rightarrow> dict \<Rightarrow> target \<Rightarrow> aux_event" where
  "service_configured k spec g = mk_event ''kubernetes.service_configured'' ''deploying''
     (''Kubernetes Service '' @ squote (tg_service g) @ '' configured'') ''deploy.kubernetes.service'' ''info''
     [(''service_name'', JStr (tg_service g)), (''namespace'', JStr (kb_namespace k)), (''service_url'', jopt (tg_url g)),
      (''internal_service_url'', JStr (tg_internal_url g)), (''ingress_name'', jopt (tg_ingress g)),
      (''ingress_host'', jopt (tg_host g)), (''ingress_class'', ingress_class k), (''port'', jget spec ''port'')]"

definition rollout_started :: "kube \<Rightarrow> target \<Rightarrow> aux_event" where
  "rollout_started k g = mk_event ''kubernetes.rollout_started'' ''deploying''
     (''Waiting for rollout of Deployment '' @ squote (tg_deployment g)) ''deploy.kubernetes.rollout'' ''info''
     [(''deployment_name'', JStr (tg_deployment g)), (''namespace'', JStr (kb_namespace k))]"

definition manifest_result ::
    "os \<Rightarrow> kube \<Rightarrow> world \<Rightarrow> deployment \<Rightarrow> build \<Rightarrow> target \<Rightarrow> string \<Rightarrow> dict \<Rightarrow> aux_event list \<Rightarrow> exec_result" where
  "manifest_result s k w d b g manifest_file health es =
     (result0 ''Kubernetes Deployment rolled out and passed healthcheck.''
       (jmerge (jmerge
         ([(''executor'', JStr (st_deploy_target k)), (''deployment_name'', JStr (tg_deployment g)),
           (''service_name'', JStr (tg_service g)), (''namespace'', JStr (kb_namespace k)),
           (''manifest_path'', JStr manifest_file), (''service_url'', jopt (tg_url g)),
           (''internal_service_url'', JStr (tg_internal_url g)), (''ingress_name'', jopt (tg_ingress g)),
           (''ingress_host'', jopt (tg_host g)), (''ingress_class'', ingress_class k),
           (''healthcheck_url'', JStr (tg_health_url g)), (''image_ref'', jopt (b_image_ref b))])
         (env_source_summary (os_shown s) (spec_env_vars (project_for_deployment w d)))) health))
     \<lparr>r_events := es, r_log_path := Some (log_at k d ''kubernetes-rollout.log''), r_service_url := tg_url g,
      r_deploy_target := Some (st_deploy_target k), r_healthcheck_url := Some (tg_health_url g),
      r_runtime_log_path := jstr_opt (jget health ''runtime_log_path'')\<rparr>"

definition deploy_with_manifest :: "os \<Rightarrow> kube \<Rightarrow> world \<Rightarrow> deployment \<Rightarrow> build \<Rightarrow> exec_result act" where
  "deploy_with_manifest s k w d b =
     (let show = os_shown s; spec = project_for_deployment w d;
          manifest_file = log_at k d ''kubernetes-manifest.json'';
          deployment_name = k8s_deployment_name show w d; service_name = k8s_service_name show w d
      in mbind (prepare_workspace s k d) (\<lambda>_.
         mbind (mlift (ingress_host k (d_id d))) (\<lambda>host.
         mbind (mlift (manifest show k w d b deployment_name service_name)) (\<lambda>resources.
         let g = new_target s k spec deployment_name service_name (k8s_ingress_name show w d) host;
             metadata = resource_metadata k g manifest_file;
             started = [mk_event ''kubernetes.manifest_apply_started'' ''deploying''
               ''Applying Kubernetes Deployment and Service manifests'' ''deploy.kubernetes.apply'' ''info'' metadata]
         in mbind (write_text s False manifest_file (os_dumps s (Some 2) resources @ LF)) (\<lambda>_.
            mbind (apply_manifest s k d manifest_file metadata started) (\<lambda>apply_result.
            let es = started @ [last (r_events apply_result), service_configured k spec g, rollout_started k g]
            in mbind (rollout_with_recheck s k d deployment_name es) (\<lambda>rollout_result.
               let es = es @ [last (r_events rollout_result), health_started k g]
               in mbind (verify_workload s k w d g None es (target_metadata k g)
                      (target_metadata k g @ [(''manifest_path'', JStr manifest_file)])) (\<lambda>health.
                  mret (manifest_result s k w d b g manifest_file health
                    (es @ [health_succeeded health (target_metadata k g)]))))))))))"

section \<open>Removal\<close>

definition stop_with_manifest :: "os \<Rightarrow> kube \<Rightarrow> world \<Rightarrow> deployment \<Rightarrow> build \<Rightarrow> exec_result act" where
  "stop_with_manifest s k w d b =
     (let show = os_shown s; file = log_at k d ''kubernetes-delete.log''; namespace = namespace_for_deployment k w d;
          deployment_name = k8s_deployment_name show w d; service_name = k8s_service_name show w d;
          ingress_name = k8s_ingress_name show w d;
          metadata = [(''deployment_name'', JStr deployment_name), (''service_name'', JStr service_name),
            (''ingress_name'', JStr ingress_name), (''namespace'', JStr namespace)];
          start_event = mk_event ''kubernetes.resources_delete_started'' ''stopped''
            ''Deleting Kubernetes Deployment, Service, and Ingress resources'' ''deploy.kubernetes.delete'' ''info'' metadata
      in mbind (prepare_workspace s k d) (\<lambda>_.
         mbind (run_kubectl_with_events s k ''deploy.kubernetes.delete''
             (kubectl_in k namespace [''delete'', ''deployment/'' @ deployment_name, ''service/'' @ service_name,
                ''ingress/'' @ ingress_name, ''--ignore-not-found=true'', ''--wait=false''])
             file
             (mk_event ''kubernetes.resources_deleted'' ''stopped'' ''Kubernetes resources deleted successfully''
                ''deploy.kubernetes.delete'' ''info'' metadata)
             ''kubernetes.resources_delete_failed'' ''deploy.kubernetes.delete'' metadata [start_event]) (\<lambda>delete_result.
         mret ((result0 ''Kubernetes resources deleted successfully.''
               ((''executor'', JStr (st_deploy_target k)) # metadata @ [(''stopped'', JBool True)]))
             \<lparr>r_events := [start_event, last (r_events delete_result)], r_log_path := Some file,
              r_deploy_target := Some (st_deploy_target k)\<rparr>))))"

section \<open>Invariants\<close>

lemma mkeeps_failing [act_rules]: "mkeeps I a \<Longrightarrow> mkeeps I c \<Longrightarrow> mkeeps I (failing_with a c)"
  unfolding failing_with_def by (intro act_rules)

lemma mkeeps_verify: "quiet I s \<Longrightarrow> beats_keep I k \<Longrightarrow> mkeeps I (verify_workload s k w d g sel es x y)"
  unfolding verify_workload_def by (intro act_rules mkeeps_port_forward mkeeps_diagnostics)

lemma mkeeps_rollout: "quiet I s \<Longrightarrow> beats_keep I k \<Longrightarrow> mkeeps I (rollout_with_recheck s k d name es)"
  unfolding rollout_with_recheck_def run_manifest_rollout_status_def Let_def
  by (intro act_rules mkeeps_kubectl mkeeps_diagnostics)

lemma mkeeps_manifest:
  assumes "quiet I s" "beats_keep I k"
  shows "mkeeps I (deploy_with_manifest s k w d b)" "mkeeps I (stop_with_manifest s k w d b)"
  unfolding deploy_with_manifest_def stop_with_manifest_def apply_manifest_def Let_def
  by (intro act_rules mkeeps_services mkeeps_kubectl mkeeps_diagnostics mkeeps_verify mkeeps_rollout assms)+

end
