(* ===== verification/Helm_Diagnostics.thy ===== *)
theory Helm_Diagnostics
  imports Kubernetes_Manifest
begin

text \<open>
  \<open>kubernetes/helm_diagnostics.py\<close>: the snapshot of a workload whose Helm command failed. It
  has a budget of 30 seconds and at most twelve errors; a failing command is an error of the
  snapshot, an exception of the heartbeat ends it. The lemmas state the bound on the errors,
  together with the predicates on the database that a snapshot keeps.
\<close>

section \<open>Steps over a snapshot\<close>

text \<open>
  The object keeps what a step wrote to it before it raised, so the snapshot is part of the
  result of every step.
\<close>

record snapshot =
  sn_errors :: "(string \<times> string) list"
  sn_successes :: nat
  sn_metadata :: dict

type_synonym 'a sact = "snapshot \<Rightarrow> machine \<Rightarrow> (exn + 'a) \<times> snapshot \<times> machine"

definition sret :: "'a \<Rightarrow> 'a sact" where
  "sret x n m = (Inr x, n, m)"

definition sbind :: "'a sact \<Rightarrow> ('a \<Rightarrow> 'b sact) \<Rightarrow> 'b sact" where
  "sbind a f n m = (case a n m of (Inl e, n', m') \<Rightarrow> (Inl e, n', m') | (Inr x, n', m') \<Rightarrow> f x n' m')"

definition sdo :: "'a act \<Rightarrow> 'a sact" where
  "sdo a n m = (case a m of (r, m') \<Rightarrow> (r, n, m'))"

definition supdate :: "(snapshot \<Rightarrow> snapshot) \<Rightarrow> unit sact" where
  "supdate f n m = (Inr (), f n, m)"

primrec smap :: "('a \<Rightarrow> 'b sact) \<Rightarrow> 'a list \<Rightarrow> 'b list sact" where
  "smap f [] = sret []"
| "smap f (x # xs) = sbind (f x) (\<lambda>y. sbind (smap f xs) (\<lambda>ys. sret (y # ys)))"

definition snapshot_error :: "string \<Rightarrow> string \<Rightarrow> snapshot \<Rightarrow> snapshot" where
  "snapshot_error operation reason n =
     (if length (sn_errors n) < 12 then n\<lparr>sn_errors := sn_errors n @ [(operation, reason)]\<rparr> else n)"

definition note_error :: "string \<Rightarrow> string \<Rightarrow> unit sact" where
  "note_error operation reason = supdate (snapshot_error operation reason)"

definition count_success :: "unit sact" where
  "count_success = supdate (\<lambda>n. n\<lparr>sn_successes := Suc (sn_successes n)\<rparr>)"

definition put_metadata :: "dict \<Rightarrow> unit sact" where
  "put_metadata entries = supdate (\<lambda>n. n\<lparr>sn_metadata := jmerge (sn_metadata n) entries\<rparr>)"

section \<open>Commands\<close>

definition helm_secret_key :: "string \<Rightarrow> bool" where
  "helm_secret_key key \<longleftrightarrow> prefix ''CONTROL_PLANE_GIT_TOKEN_'' key \<or> prefix ''CONTROL_PLANE_API_TOKEN_'' key
     \<or> key \<in> {''CONTROL_PLANE_REGISTRY_PASSWORD'', ''CONTROL_PLANE_METRICS_TOKEN'', ''CONTROL_PLANE_GITHUB_WEBHOOK_SECRET''}"

definition helm_failure_secret_values :: "os \<Rightarrow> kube \<Rightarrow> world \<Rightarrow> deployment \<Rightarrow> string list" where
  "helm_failure_secret_values s k w d =
     secret_values_from_env_vars (os_shown s) (spec_env_vars (project_for_deployment w d))
     @ map snd (filter (\<lambda>(key, _). helm_secret_key key) (os_environ s))
     @ (if truthy (st_registry_password k) then [or_str (st_registry_password k) []] else [])"

definition caught_os_error :: "exn \<Rightarrow> bool" where
  "caught_os_error e = (case e of OtherExn name _ \<Rightarrow> name = ''OSError'' | _ \<Rightarrow> False)"

definition snapshot_write :: "os \<Rightarrow> kube \<Rightarrow> deployment \<Rightarrow> string list \<Rightarrow> string \<Rightarrow> string list \<Rightarrow> string \<Rightarrow> unit sact" where
  "snapshot_write s k d secrets operation args output =
     sbind (sdo (mcatch (mbind (write_log s secrets (log_at k d (''kubernetes-'' @ operation @ ''.log'')) args
           (redact_log_text secrets output) [] False) (\<lambda>_. mret True))
         (\<lambda>e. if caught_os_error e then mret False else mthrow e)))
       (\<lambda>written. if written then sret () else note_error operation ''log_write_failed'')"

definition failure_reason :: "string list \<Rightarrow> string \<Rightarrow> string" where
  "failure_reason parts output =
     (let low = lower output
      in if contains ''forbidden'' low \<or> contains ''unauthorized'' low then ''access_denied''
         else if ''--previous'' \<in> set parts \<and> contains ''container'' low then ''previous_logs_unavailable''
         else if contains ''notfound'' low \<or> contains ''not found'' low then ''resource_not_found''
         else ''command_failed'')"

text \<open>
  A command of the snapshot up to its output; None is a failure that was noted. The
  heartbeat runs before every command.
\<close>

definition snapshot_output ::
    "os \<Rightarrow> kube \<Rightarrow> deployment \<Rightarrow> string list \<Rightarrow> int \<Rightarrow> string \<Rightarrow> string list \<Rightarrow> string option sact" where
  "snapshot_output s k d secrets deadline operation parts =
     sbind (sdo (case st_heartbeat k of None \<Rightarrow> mret () | Some hb \<Rightarrow> beat hb)) (\<lambda>_.
     sbind (sdo mnow) (\<lambda>t.
     let remaining = deadline - t; args = kubectl_args k parts;
         failed = (\<lambda>reason. sbind (note_error operation reason) (\<lambda>_. sret None))
     in if remaining \<le> 0 then failed ''collection_budget_exhausted''
        else sbind (sdo (execute_command s k True None None (Some (min 5000 remaining)) args)) (\<lambda>r. case r of
             Timed_out stdout stderr \<Rightarrow> failed ''command_timed_out''
           | Os_error e \<Rightarrow> failed ''command_unavailable''
           | Completed returncode stdout stderr \<Rightarrow>
               if returncode \<noteq> 0
               then sbind (note_error operation (failure_reason parts (stderr @ stdout))) (\<lambda>_.
                    sbind (snapshot_write s k d secrets operation args (stderr @ stdout)) (\<lambda>_. sret None))
               else sret (Some stdout))))"

definition snapshot_command ::
    "os \<Rightarrow> kube \<Rightarrow> deployment \<Rightarrow> string list \<Rightarrow> int \<Rightarrow> string \<Rightarrow> string list \<Rightarrow> string option sact" where
  "snapshot_command s k d secrets deadline operation parts =
     sbind (snapshot_output s k d secrets deadline operation parts) (\<lambda>output. case output of
       None \<Rightarrow> sret None
     | Some text \<Rightarrow> sbind count_success (\<lambda>_. sbind (snapshot_write s k d secrets operation (kubectl_args k parts) text) (\<lambda>_.
         sret (Some (redact_log_text secrets text)))))"

text \<open>With \<open>json_output\<close>: the items of the list that the command printed.\<close>

definition snapshot_items ::
    "os \<Rightarrow> kube \<Rightarrow> deployment \<Rightarrow> string list \<Rightarrow> int \<Rightarrow> string \<Rightarrow> string list \<Rightarrow> json list option sact" where
  "snapshot_items s k d secrets deadline operation parts =
     sbind (snapshot_output s k d secrets deadline operation parts) (\<lambda>output.
       let invalid_response = sbind (note_error operation ''invalid_resource_response'') (\<lambda>_. sret None)
       in case output of
         None \<Rightarrow> sret None
       | Some text \<Rightarrow> (case os_loads s text of
           Some (JDict payload) \<Rightarrow> (case jget payload ''items'' of JList items \<Rightarrow> sret (Some items) | _ \<Rightarrow> invalid_response)
         | _ \<Rightarrow> invalid_response))"

section \<open>The collection\<close>

definition pod_name_char :: "char \<Rightarrow> bool" where
  "pod_name_char c \<longleftrightarrow> is_lower c \<or> is_digit c \<or> c = CHR ''.'' \<or> c = CHR ''-''"

definition safe_pod_name :: "string \<Rightarrow> bool" where
  "safe_pod_name name \<longleftrightarrow> name \<noteq> [] \<and> (is_lower (hd name) \<or> is_digit (hd name)) \<and> list_all pod_name_char name"

text \<open>The name of an item that belongs to the release, in the order of the conditions.\<close>

definition matching_pod :: "kube \<Rightarrow> string \<Rightarrow> string \<Rightarrow> json \<Rightarrow> exn + bool" where
  "matching_pod k label_key label_value item = (case item of
     JDict pod \<Rightarrow>
       ebind (as_dict (jor (jget pod ''metadata'') (JDict []))) (\<lambda>metadata.
       ebind (as_dict (jor (jget metadata ''labels'') (JDict []))) (\<lambda>labels.
         if jget labels label_key = JStr label_value
            \<and> (jhas metadata ''namespace'' \<longrightarrow> jget metadata ''namespace'' = JStr (kb_namespace k))
         then (if \<not> jhas metadata ''name'' then Inr False
               else (case jget metadata ''name'' of JStr name \<Rightarrow> Inr (safe_pod_name name) | _ \<Rightarrow> Inl type_error))
         else Inr False))
   | _ \<Rightarrow> Inr False)"

definition matching_pods :: "kube \<Rightarrow> string \<Rightarrow> string \<Rightarrow> json list \<Rightarrow> exn + json list" where
  "matching_pods k label_key label_value items =
     ebind (emap (matching_pod k label_key label_value) items) (\<lambda>flags.
       Inr (map fst (filter snd (zip items flags))))"

definition item_name :: "json \<Rightarrow> string" where
  "item_name item = text_of (jget (dict_of (jget (dict_of item) ''metadata'')) ''name'')"

text \<open>The items to inspect, from what the cluster listed.\<close>

definition select_pods :: "os \<Rightarrow> kube \<Rightarrow> deployment \<Rightarrow> string list \<Rightarrow> string \<Rightarrow> json list \<Rightarrow> json list sact" where
  "select_pods s k d secrets release listed =
     sbind (sdo (mlift (matching_pods k ''app.kubernetes.io/instance'' release listed))) (\<lambda>matching.
     sbind (if matching = [] then note_error ''helm-pods'' ''no_matching_pods'' else sret ()) (\<lambda>_.
     sbind (if length matching > 3 then note_error ''helm-pods'' ''pod_limit_reached'' else sret ()) (\<lambda>_.
     let items = take 3 matching
     in if items = [] then sret items
        else sbind count_success (\<lambda>_.
          sbind (sdo (mlift (pod_runtime_metadata (JList items) ''helm'' (log_at k d ''kubernetes-helm-pod-runtime.log''))))
            (\<lambda>runtime. sbind (put_metadata runtime) (\<lambda>_.
             sbind (snapshot_write s k d secrets ''helm-pod-runtime'' [] (os_dumps s None (JDict runtime))) (\<lambda>_. sret items)))))))"

definition last_chars :: "nat \<Rightarrow> string \<Rightarrow> string" where
  "last_chars n s = drop (length s - n) s"

definition last_lines :: "string \<Rightarrow> string" where
  "last_lines output = (let ls = splitlines output in join LF (map (take 240) (drop (length ls - 50) ls)))"

definition snapshot_chunk :: "string \<Rightarrow> (string \<Rightarrow> string) \<Rightarrow> string option \<Rightarrow> string list" where
  "snapshot_chunk name shorten output = (if truthy output then [name @ '':'' @ LF @ shorten (or_str output [])] else [])"

text \<open>The logs of a pod and of its previous container.\<close>

definition pod_log_chunks ::
    "os \<Rightarrow> kube \<Rightarrow> deployment \<Rightarrow> string list \<Rightarrow> int \<Rightarrow> string \<Rightarrow> (string list \<times> string list) sact" where
  "pod_log_chunks s k d secrets deadline name =
     sbind (snapshot_command s k d secrets deadline (''helm-pod_logs-'' @ name)
         [''logs'', ''pod/'' @ name, ''-c'', ''app'', ''--tail'', ''50'']) (\<lambda>logs.
     sbind (snapshot_command s k d secrets deadline (''helm-pod_previous_logs-'' @ name)
         [''logs'', ''pod/'' @ name, ''-c'', ''app'', ''--previous'', ''--tail'', ''50'']) (\<lambda>previous.
     sret (snapshot_chunk name last_lines logs, snapshot_chunk name last_lines previous)))"

definition pod_describe_chunk ::
    "os \<Rightarrow> kube \<Rightarrow> deployment \<Rightarrow> string list \<Rightarrow> int \<Rightarrow> string \<Rightarrow> string list sact" where
  "pod_describe_chunk s k d secrets deadline name =
     sbind (snapshot_command s k d secrets deadline (''helm-describe-'' @ name) [''describe'', ''pod/'' @ name])
       (\<lambda>output. sret (snapshot_chunk name (last_chars 4000) output))"

definition chunks_summary :: "string list \<Rightarrow> json" where
  "chunks_summary chunks = (let summary = take 4000 (join (LF @ LF) chunks) in if summary = [] then JNull else JStr summary)"

definition describe_object ::
    "os \<Rightarrow> kube \<Rightarrow> deployment \<Rightarrow> string list \<Rightarrow> int \<Rightarrow> string \<Rightarrow> string \<Rightarrow> unit sact" where
  "describe_object s k d secrets deadline kind name =
     sbind (snapshot_command s k d secrets deadline (''helm-describe-'' @ kind) [''describe'', kind @ ''/'' @ name])
       (\<lambda>output. put_metadata [(''helm_'' @ kind @ ''_summary'',
          if truthy output then JStr (last_chars 4000 (or_str output [])) else JNull)])"

definition collect_snapshot ::
    "os \<Rightarrow> kube \<Rightarrow> deployment \<Rightarrow> string list \<Rightarrow> int \<Rightarrow> string \<Rightarrow> string \<Rightarrow> string \<Rightarrow> unit sact" where
  "collect_snapshot s k d secrets deadline deployment_name service_name release =
     sbind (snapshot_items s k d secrets deadline ''helm-pods''
         [''get'', ''pods'', ''-l'', ''app.kubernetes.io/instance='' @ release, ''-o'', ''json'']) (\<lambda>listed.
     sbind (case listed of None \<Rightarrow> sret [] | Some items \<Rightarrow> select_pods s k d secrets release items) (\<lambda>items.
     sbind (smap (pod_log_chunks s k d secrets deadline) (map item_name items)) (\<lambda>logs.
     sbind (smap (pod_describe_chunk s k d secrets deadline) (map item_name items)) (\<lambda>described.
     sbind (put_metadata [(''helm_pod_logs_summary'', chunks_summary (concat (map fst logs))),
         (''helm_pod_previous_logs_summary'', chunks_summary (concat (map snd logs))),
         (''helm_pod_describe_summary'', chunks_summary (concat described))]) (\<lambda>_.
     sbind (describe_object s k d secrets deadline ''deployment'' deployment_name) (\<lambda>_.
     describe_object s k d secrets deadline ''service'' service_name))))))"

definition snapshot_finish :: "string list \<Rightarrow> snapshot \<Rightarrow> dict" where
  "snapshot_finish secrets n = redact_entries secrets (jmerge (sn_metadata n)
     [(''diagnostics_collection_status'', JStr
         (if sn_successes n = 0 then ''unavailable'' else if sn_errors n \<noteq> [] then ''partial'' else ''complete'')),
      (''diagnostics_collection_errors'', JList (map (\<lambda>(operation, reason).
         JDict [(''operation'', JStr operation), (''reason'', JStr reason)]) (sn_errors n)))])"

definition local_failure :: "exn \<Rightarrow> bool" where
  "local_failure e = (case e of OtherExn name _ \<Rightarrow>
     name \<in> {''OSError'', ''ValueError'', ''TypeError'', ''AttributeError'', ''KeyError''} | _ \<Rightarrow> False)"

definition collect_helm_failure_diagnostics ::
    "os \<Rightarrow> kube \<Rightarrow> world \<Rightarrow> deployment \<Rightarrow> string \<Rightarrow> string \<Rightarrow> string \<Rightarrow> dict act" where
  "collect_helm_failure_diagnostics s k w d deployment_name service_name release m =
     (let secrets = helm_failure_secret_values s k w d; t = m_ms m
      in case collect_snapshot s k d secrets (t + 30000) deployment_name service_name release
           \<lparr>sn_errors = [], sn_successes = 0, sn_metadata = [(''diagnostics_collected_at'', JTime t)]\<rparr> m of
         (Inr u, n, m') \<Rightarrow> (Inr (snapshot_finish secrets n), m')
       | (Inl e, n, m') \<Rightarrow> if local_failure e
           then (Inr (snapshot_finish secrets (snapshot_error ''helm-snapshot'' ''collection_failed'' n)), m')
           else (Inl e, m'))"

section \<open>Invariants\<close>

named_theorems snap_rules \<open>which predicates the steps over a snapshot keep\<close>

definition bounded :: "snapshot \<Rightarrow> bool" where
  "bounded n \<longleftrightarrow> length (sn_errors n) \<le> 12"

definition skeeps :: "(world \<Rightarrow> bool) \<Rightarrow> 'a sact \<Rightarrow> bool" where
  "skeeps I a \<longleftrightarrow> (\<forall>n m. I (m_world m) \<and> bounded n \<longrightarrow>
     (case a n m of (r, n', m') \<Rightarrow> I (m_world m') \<and> bounded n'))"

lemma skeepsD: "skeeps I a \<Longrightarrow> a n m = (r, n', m') \<Longrightarrow> I (m_world m) \<Longrightarrow> bounded n \<Longrightarrow> I (m_world m') \<and> bounded n'"
  unfolding skeeps_def by fastforce

lemma skeeps_ret [snap_rules]: "skeeps I (sret x)"
  by (simp add: skeeps_def sret_def)

lemma skeeps_do [snap_rules]: "mkeeps I a \<Longrightarrow> skeeps I (sdo a)"
  by (simp add: skeeps_def sdo_def mkeeps_def case_prod_beta)

lemma skeeps_bind [snap_rules]:
  assumes "skeeps I a" "\<And>x. skeeps I (f x)"
  shows "skeeps I (sbind a f)"
  unfolding skeeps_def
proof (intro allI impI)
  fix n and m :: machine assume start: "I (m_world m) \<and> bounded n"
  obtain r n' m' where a: "a n m = (r, n', m')" by (metis prod_cases3)
  note mid = skeepsD [OF assms(1) a]
  show "case sbind a f n m of (r, n', m') \<Rightarrow> I (m_world m') \<and> bounded n'"
  proof (cases r)
    case (Inl e)
    then show ?thesis using a mid start by (simp add: sbind_def)
  next
    case (Inr x)
    obtain q n2 m2 where "f x n' m' = (q, n2, m2)" by (metis prod_cases3)
    then show ?thesis using a Inr mid start skeepsD [OF assms(2)] by (simp add: sbind_def)
  qed
qed

lemma skeeps_map [snap_rules]: "(\<And>x. skeeps I (f x)) \<Longrightarrow> skeeps I (smap f xs)"
  by (induction xs) (auto intro!: snap_rules)

lemma skeeps_note [snap_rules]: "skeeps I (note_error operation reason)"
  by (simp add: skeeps_def note_error_def supdate_def snapshot_error_def bounded_def)

lemma skeeps_count [snap_rules]: "skeeps I count_success" "skeeps I (put_metadata md)"
  by (simp_all add: skeeps_def count_success_def put_metadata_def supdate_def bounded_def)

lemma skeeps_if [snap_rules]: "skeeps I x \<Longrightarrow> skeeps I y \<Longrightarrow> skeeps I (if c then x else y)"
  by simp

lemma skeeps_option [snap_rules]:
  "skeeps I x \<Longrightarrow> (\<And>v. skeeps I (y v)) \<Longrightarrow> skeeps I (case a of None \<Rightarrow> x | Some v \<Rightarrow> y v)"
  by (cases a) auto

lemma skeeps_outcome [snap_rules]:
  "(\<And>a b c. skeeps I (x a b c)) \<Longrightarrow> (\<And>a b. skeeps I (y a b)) \<Longrightarrow> (\<And>a. skeeps I (z a)) \<Longrightarrow>
    skeeps I (case r of Completed a b c \<Rightarrow> x a b c | Timed_out a b \<Rightarrow> y a b | Os_error a \<Rightarrow> z a)"
  by (cases r) auto

lemma skeeps_json [snap_rules]:
  "(\<And>v. skeeps I (x v)) \<Longrightarrow> skeeps I y \<Longrightarrow> skeeps I (case j of JList v \<Rightarrow> x v | _ \<Rightarrow> y)"
  "(\<And>v. skeeps I (u v)) \<Longrightarrow> skeeps I y \<Longrightarrow> skeeps I (case j of JDict v \<Rightarrow> u v | _ \<Rightarrow> y)"
  by (cases j; simp)+

lemma skeeps_write:
  assumes "quiet I s"
  shows "skeeps I (snapshot_write s k d secrets operation args output)"
  unfolding snapshot_write_def by (intro snap_rules act_rules mkeeps_write_log assms)

lemma mkeeps_snapshot_beat:
  assumes "beats_keep I k"
  shows "mkeeps I (case st_heartbeat k of None \<Rightarrow> mret () | Some hb \<Rightarrow> beat hb)"
  using assms by (cases "st_heartbeat k") (auto simp: beats_keep_def intro: act_rules mkeeps_beat)

lemma skeeps_output:
  assumes "quiet I s" "beats_keep I k"
  shows "skeeps I (snapshot_output s k d secrets deadline operation parts)"
  unfolding snapshot_output_def Let_def
  by (intro snap_rules mkeeps_snapshot_beat mkeeps_now mkeeps_execute skeeps_write assms)

lemma skeeps_command:
  assumes "quiet I s" "beats_keep I k"
  shows "skeeps I (snapshot_command s k d secrets deadline operation parts)"
  unfolding snapshot_command_def by (intro snap_rules skeeps_output skeeps_write assms)

lemma skeeps_collect:
  assumes "quiet I s" "beats_keep I k"
  shows "skeeps I (collect_snapshot s k d secrets deadline deployment_name service_name release)"
  unfolding collect_snapshot_def snapshot_items_def select_pods_def pod_log_chunks_def pod_describe_chunk_def
    describe_object_def Let_def
  by (intro snap_rules act_rules skeeps_output skeeps_command skeeps_write assms)

lemma mkeeps_snapshot:
  assumes "quiet I s" "beats_keep I k"
  shows "mkeeps I (collect_helm_failure_diagnostics s k w d deployment_name service_name release)"
  unfolding mkeeps_def
proof (intro allI impI)
  fix m :: machine assume m: "I (m_world m)"
  let ?secrets = "helm_failure_secret_values s k w d"
  let ?n = "\<lparr>sn_errors = [], sn_successes = 0, sn_metadata = [(''diagnostics_collected_at'', JTime (m_ms m))]\<rparr>"
  obtain r n' m' where run:
    "collect_snapshot s k d ?secrets (m_ms m + 30000) deployment_name service_name release ?n m = (r, n', m')"
    by (metis prod_cases3)
  have "I (m_world m')" using skeepsD [OF skeeps_collect [OF assms] run] m by (simp add: bounded_def)
  then show "I (m_world (snd (collect_helm_failure_diagnostics s k w d deployment_name service_name release m)))"
    by (cases r) (simp_all add: collect_helm_failure_diagnostics_def Let_def run)
qed

text \<open>The twelve errors: with the predicate that always holds.\<close>

lemma snapshot_errors_bounded:
  assumes "collect_snapshot s k d secrets deadline deployment_name service_name release n m = (r, n', m')"
    and "length (sn_errors n) \<le> 12"
  shows "length (sn_errors n') \<le> 12"
proof -
  have "quiet (\<lambda>_. True) s" "beats_keep (\<lambda>_. True) k" by (simp_all add: quiet_def beats_keep_def keeps_def)
  from skeepsD [OF skeeps_collect [OF this] assms(1)] assms(2) show ?thesis by (simp add: bounded_def)
qed

end
