(* ===== verification/Kubernetes_Helm.thy ===== *)
theory Kubernetes_Helm
  imports Helm_Diagnostics
begin

text \<open>
  \<open>kubernetes/helm.py\<close>: a deployment as a release of the bundled chart, its removal, and the
  status of the release, through \<open>HelmRunner._run\<close> of \<open>worker/helm/runner.py\<close>.
\<close>

section \<open>Helm commands\<close>

record helm_result =
  hl_args :: "string list"
  hl_returncode :: int
  hl_stdout :: string
  hl_stderr :: string

text \<open>
  \<open>HelmRunner._run\<close> with the runner \<open>_run_helm_command\<close>: a \<open>HelmCommandError\<close> is the left
  side, timeouts and operating-system errors are not caught.
\<close>

definition run_helm :: "os \<Rightarrow> kube \<Rightarrow> exn + string list \<Rightarrow> (helm_result + helm_result) act" where
  "run_helm s k command =
     mbind (mlift command) (\<lambda>args.
     mbind (execute_command s k True None None (Some (st_command_timeout k)) args) (\<lambda>r. case r of
       Timed_out stdout stderr \<Rightarrow> mthrow (OtherExn ''TimeoutExpired'' (timeout_text s args (st_command_timeout k)))
     | Os_error e \<Rightarrow> mthrow (os_error e)
     | Completed returncode stdout stderr \<Rightarrow>
         let result = \<lparr>hl_args = args, hl_returncode = returncode, hl_stdout = stdout, hl_stderr = stderr\<rparr>
         in mret (if returncode \<noteq> 0 then Inl result else Inr result)))"

definition helm_output :: "helm_result \<Rightarrow> string" where
  "helm_output r = join LF (filter (\<lambda>part. part \<noteq> []) [hl_stdout r, hl_stderr r])"

definition helm_result_entries :: "helm_result \<Rightarrow> dict" where
  "helm_result_entries r =
     [(''helm_args'', jtexts (hl_args r)), (''helm_returncode'', JInt (hl_returncode r)),
      (''helm_stdout_summary'', jopt (summarize_output (hl_stdout r))),
      (''helm_stderr_summary'', jopt (summarize_output (hl_stderr r)))]"

definition helm_release_not_found :: "string \<Rightarrow> bool" where
  "helm_release_not_found stderr =
     (let normalized = lower (strip stderr)
      in contains ''release: not found'' normalized \<or> contains ''release not loaded'' normalized)"

section \<open>Releases\<close>

definition new_release_name :: "(json \<Rightarrow> string) \<Rightarrow> dict \<Rightarrow> deployment \<Rightarrow> string" where
  "new_release_name show spec d = helm_release_name (spec_or_empty show spec ''name'') (spec_or_empty show spec ''id'')
     (d_environment d) MAX_HELM_RELEASE_LENGTH"

text \<open>The persisted name, else the one of the newest event that has one, else a new one.\<close>

fun recorded_release :: "(json \<Rightarrow> string) \<Rightarrow> event list \<Rightarrow> string option" where
  "recorded_release show [] = None"
| "recorded_release show (e # es) =
     (let release = jget (dict_of (e_metadata_json e)) ''helm_release_name''
      in if jtrue release then Some (str_of_json show release) else recorded_release show es)"

definition helm_release_name_for_deployment :: "(json \<Rightarrow> string) \<Rightarrow> world \<Rightarrow> deployment \<Rightarrow> string" where
  "helm_release_name_for_deployment show w d =
     (if truthy (d_helm_release_name d) then or_str (d_helm_release_name d) []
      else (case recorded_release show (rev (sort_key e_id (events_of w (d_id d)))) of
          Some release \<Rightarrow> release
        | None \<Rightarrow> new_release_name show (project_for_deployment w d) d))"

section \<open>Deployment\<close>

definition helm_failure ::
    "os \<Rightarrow> kube \<Rightarrow> world \<Rightarrow> deployment \<Rightarrow> string \<Rightarrow> target \<Rightarrow> dict \<Rightarrow> aux_event list \<Rightarrow> helm_result \<Rightarrow> 'a act" where
  "helm_failure s k w d release g metadata es r =
     (let file = log_at k d ''helm-upgrade-install.log'';
          secrets = helm_failure_secret_values s k w d;
          message = ''Helm release '' @ squote release @ '' failed to deploy''
      in mbind (mcatch (mbind (write_log s secrets file (hl_args r) (redact_log_text secrets (helm_output r)) [] False)
                 (\<lambda>_. mret JNull)) (\<lambda>e. if caught_os_error e then mret (JStr ''log_write_failed'') else mthrow e)) (\<lambda>log_error.
         mbind (collect_helm_failure_diagnostics s k w d (tg_deployment g) (tg_service g) release) (\<lambda>diagnostics.
         let failed = jmerge (jmerge metadata diagnostics)
               [(''deployment_name'', JStr (tg_deployment g)), (''service_name'', JStr (tg_service g)),
                (''helm_args'', jtexts (sanitize_args secrets (hl_args r))), (''helm_log_error'', log_error),
                (''helm_returncode'', JInt (hl_returncode r)),
                (''helm_stdout_summary'', jopt (summarize_output (redact_log_text secrets (hl_stdout r)))),
                (''helm_stderr_summary'', jopt (summarize_output (redact_log_text secrets (hl_stderr r)))),
                (''helm_log_path'', JStr file)]
         in mthrow (ExecError ''deploy.kubernetes.helm'' message failed (Some file)
              (es @ [mk_event ''kubernetes.helm_deploy_failed'' ''failed'' message ''deploy.kubernetes.helm'' ''error'' failed])))))"

definition helm_metadata_of :: "kube \<Rightarrow> string \<Rightarrow> string \<Rightarrow> target \<Rightarrow> dict" where
  "helm_metadata_of k release values_file g =
     [(''deployment_mode'', JStr ''helm''), (''helm_release_name'', JStr release), (''namespace'', JStr (kb_namespace k)),
      (''chart_path'', JStr (kb_helm_chart_path k)), (''values_path'', JStr values_file),
      (''internal_service_url'', JStr (tg_internal_url g)), (''ingress_name'', jopt (tg_ingress g)),
      (''ingress_host'', jopt (tg_host g)), (''ingress_class'', ingress_class k)]"

definition released_metadata :: "dict \<Rightarrow> string \<Rightarrow> target \<Rightarrow> helm_result \<Rightarrow> dict" where
  "released_metadata metadata file g r = jmerge (jmerge metadata (helm_result_entries r))
     [(''helm_log_path'', JStr file), (''service_name'', JStr (tg_service g)), (''deployment_name'', JStr (tg_deployment g)),
      (''service_url'', jopt (tg_url g)), (''internal_service_url'', JStr (tg_internal_url g)),
      (''healthcheck_url'', JStr (tg_health_url g))]"

definition helm_health_extra :: "dict \<Rightarrow> target \<Rightarrow> dict" where
  "helm_health_extra metadata g = metadata
     @ [(''deployment_name'', JStr (tg_deployment g)), (''service_name'', JStr (tg_service g)),
        (''service_url'', jopt (tg_url g)), (''healthcheck_url'', JStr (tg_health_url g))]"

definition helm_deploy_result ::
    "os \<Rightarrow> kube \<Rightarrow> world \<Rightarrow> deployment \<Rightarrow> build \<Rightarrow> target \<Rightarrow> dict \<Rightarrow> string \<Rightarrow> dict \<Rightarrow> aux_event list \<Rightarrow> exec_result" where
  "helm_deploy_result s k w d b g released file health es =
     (result0 ''Kubernetes Helm release deployed and passed healthcheck.''
       (jmerge (jmerge (jmerge [(''executor'', JStr (st_deploy_target k))] released)
          ((''image_ref'', jopt (b_image_ref b)) # env_source_summary (os_shown s) (spec_env_vars (project_for_deployment w d))))
          health))
     \<lparr>r_events := es, r_log_path := Some file, r_service_url := tg_url g,
      r_deploy_target := Some (st_deploy_target k), r_healthcheck_url := Some (tg_health_url g),
      r_runtime_log_path := jstr_opt (jget health ''runtime_log_path'')\<rparr>"

definition deploy_with_helm :: "os \<Rightarrow> kube \<Rightarrow> world \<Rightarrow> deployment \<Rightarrow> build \<Rightarrow> exec_result act" where
  "deploy_with_helm s k w d b =
     (let show = os_shown s; spec = project_for_deployment w d;
          values_file = log_at k d ''generic-web-app-values.yaml''; file = log_at k d ''helm-upgrade-install.log'';
          release = new_release_name show spec d; service_name = helm_resource_name release
      in mbind (prepare_workspace s k d) (\<lambda>_.
         mbind (mlift (ingress_host k (d_id d))) (\<lambda>host.
         mbind (mlift (generic_web_app_values show k host w d b)) (\<lambda>values.
         let g = new_target s k spec service_name service_name service_name host;
             metadata = helm_metadata_of k release values_file g;
             started = [mk_event ''kubernetes.helm_deploy_started'' ''deploying''
               (''Deploying Helm release '' @ squote release) ''deploy.kubernetes.helm'' ''info'' metadata]
         in mbind (write_text s False values_file (os_dumps s (Some 2) (JDict values) @ LF)) (\<lambda>_.
            mbind (mlift (new_helm_runner k (kb_namespace k))) (\<lambda>runner.
            mbind (run_helm s k (upgrade_install_args runner release values_file)) (\<lambda>r. case r of
              Inl failed \<Rightarrow> helm_failure s k w d release g metadata started failed
            | Inr done_result \<Rightarrow>
                let released = released_metadata metadata file g done_result; extra = helm_health_extra metadata g;
                    es = started @ [mk_event ''kubernetes.helm_deploy_succeeded'' ''deploying''
                      (''Helm release '' @ squote release @ '' deployed successfully'') ''deploy.kubernetes.helm'' ''info''
                      released, health_started k g]
                in mbind (write_log s [] file (hl_args done_result) (helm_output done_result) [] False) (\<lambda>_.
                   mbind (verify_workload s k w d g (Some (''app.kubernetes.io/instance='' @ release)) es extra extra)
                     (\<lambda>health. mret (helm_deploy_result s k w d b g released file health
                        (es @ [health_succeeded health extra])))))))))))"

section \<open>Removal\<close>

definition stop_with_helm :: "os \<Rightarrow> kube \<Rightarrow> world \<Rightarrow> deployment \<Rightarrow> build \<Rightarrow> exec_result act" where
  "stop_with_helm s k w d b =
     (let file = log_at k d ''helm-uninstall.log'';
          release = helm_release_name_for_deployment (os_shown s) w d; namespace = namespace_for_deployment k w d;
          metadata = [(''deployment_mode'', JStr ''helm''), (''helm_release_name'', JStr release),
            (''namespace'', JStr namespace), (''chart_path'', JStr (kb_helm_chart_path k)), (''helm_log_path'', JStr file)];
          uninstall_event = (\<lambda>event_type status message level md.
            mk_event event_type status message ''deploy.kubernetes.helm_uninstall'' level md);
          start_event = uninstall_event ''kubernetes.helm_uninstall_started'' ''stopped''
            (''Uninstalling Helm release '' @ squote release) ''info'' metadata;
          stopped = (\<lambda>message md ev. (result0 message md)\<lparr>r_events := [start_event, ev], r_log_path := Some file,
            r_deploy_target := Some (st_deploy_target k)\<rparr>)
      in mbind (prepare_workspace s k d) (\<lambda>_.
         mbind (mlift (new_helm_runner k namespace)) (\<lambda>runner.
         mbind (run_helm s k (uninstall_args runner release)) (\<lambda>r.
         let result = (case r of Inl failed \<Rightarrow> failed | Inr done_result \<Rightarrow> done_result);
             md = jmerge metadata (helm_result_entries result)
         in mbind (write_log s [] file (hl_args result) (helm_output result) [] False) (\<lambda>_. case r of
              Inl failed \<Rightarrow>
                if helm_release_not_found (hl_stderr failed)
                then (let message = ''Helm release '' @ squote release @ '' was already absent''
                  in mret (stopped (message @ ''.'')
                       (jmerge md [(''stopped'', JBool True), (''release_not_found'', JBool True)])
                       (uninstall_event ''kubernetes.helm_uninstall_not_found'' ''stopped'' message ''info''
                          (jmerge md [(''release_not_found'', JBool True)]))))
                else (let message = ''Helm release '' @ squote release @ '' failed to uninstall''
                  in mthrow (ExecError ''deploy.kubernetes.helm_uninstall'' message md (Some file)
                       [start_event, uninstall_event ''kubernetes.helm_uninstall_failed'' ''failed'' message ''error'' md]))
            | Inr done_result \<Rightarrow>
                let md = jmerge md [(''stopped'', JBool True)]
                in mret (stopped ''Helm release uninstalled successfully.'' md
                     (uninstall_event ''kubernetes.helm_uninstall_succeeded'' ''stopped''
                        (''Helm release '' @ squote release @ '' uninstalled successfully'') ''info'' md)))))))"

section \<open>Status\<close>

text \<open>\<open>json.loads(stdout).get("info", {}).get("status")\<close>; only text that is no JSON is caught.\<close>

definition release_status :: "os \<Rightarrow> string \<Rightarrow> exn + json" where
  "release_status s stdout = (if strip stdout = [] then Inr JNull
     else (case os_loads s stdout of
       None \<Rightarrow> Inr JNull
     | Some payload \<Rightarrow> ebind (as_dict payload) (\<lambda>p.
         ebind (as_dict (if jhas p ''info'' then jget p ''info'' else JDict [])) (\<lambda>info. Inr (jget info ''status'')))))"

definition runtime_helm_status :: "os \<Rightarrow> kube \<Rightarrow> world \<Rightarrow> deployment \<Rightarrow> dict act" where
  "runtime_helm_status s k w d =
     (let release = helm_release_name_for_deployment (os_shown s) w d; namespace = namespace_for_deployment k w d;
          place = [(''helm_release_name'', JStr release), (''namespace'', JStr namespace),
            (''chart_path'', JStr (kb_helm_chart_path k))]
      in mbind (mlift (new_helm_runner k namespace)) (\<lambda>runner.
         mbind (run_helm s k (status_args runner release)) (\<lambda>r. case r of
           Inl failed \<Rightarrow>
             if helm_release_not_found (hl_stderr failed)
             then mret ((''release_exists'', JBool False) # place @ helm_result_entries failed)
             else mthrow (exec_error ''reconcile.helm_status'' (''Failed to inspect Helm release '' @ squote release)
                    (place @ helm_result_entries failed))
         | Inr result \<Rightarrow> mbind (mlift (release_status s (hl_stdout result))) (\<lambda>status.
             mret ((''release_exists'', JBool True) # place @ [(''release_status'', status)] @ helm_result_entries result)))))"

section \<open>Invariants\<close>

lemma mkeeps_run_helm: "quiet I s \<Longrightarrow> beats_keep I k \<Longrightarrow> mkeeps I (run_helm s k command)"
  unfolding run_helm_def Let_def by (intro act_rules mkeeps_services)

lemma mkeeps_helm_failure:
  "quiet I s \<Longrightarrow> beats_keep I k \<Longrightarrow> mkeeps I (helm_failure s k w d release g metadata es r)"
  unfolding helm_failure_def Let_def by (intro act_rules mkeeps_write_log mkeeps_snapshot)

lemma mkeeps_helm:
  assumes "quiet I s" "beats_keep I k"
  shows "mkeeps I (deploy_with_helm s k w d b)" "mkeeps I (stop_with_helm s k w d b)" "mkeeps I (runtime_helm_status s k w d)"
  unfolding deploy_with_helm_def stop_with_helm_def runtime_helm_status_def Let_def
  by (intro act_rules mkeeps_services mkeeps_run_helm mkeeps_helm_failure mkeeps_write_log mkeeps_verify assms)+

end
