(* ===== verification/Kubernetes_Executor.thy ===== *)
theory Kubernetes_Executor
  imports Kubernetes_Helm
begin

text \<open>
  \<open>worker/executors/kubernetes/executor.py\<close>: the executor that deploys to a Kubernetes
  cluster, from its manifests or as a Helm release. The lemmas state what its constructor
  rejects, and that its calls keep what the heartbeat and the other processes keep.
\<close>

section \<open>Construction\<close>

definition normalize_deployment_mode :: "string \<Rightarrow> exn + string" where
  "normalize_deployment_mode v =
     (let normalized = lower (strip (or_str (Some v) ''manifest''))
      in if normalized \<notin> {''manifest'', ''helm''}
         then Inl (OtherExn ''ValueError'' ''CONTROL_PLANE_K8S_DEPLOYMENT_MODE must be one of: manifest, helm'')
         else Inr normalized)"

definition init_kube :: "kube \<Rightarrow> exn + kube" where
  "init_kube k = ebind (normalize_deployment_mode (kb_deployment_mode k)) (\<lambda>mode.
     let base_domain = strip_where (\<lambda>c. c = CHR ''.'') (strip (kb_ingress_base_domain k))
     in if kb_ingress_enabled k \<and> base_domain = []
        then Inl (OtherExn ''ValueError'' ''CONTROL_PLANE_K8S_INGRESS_BASE_DOMAIN is required when ingress is enabled'')
        else Inr ((init_settings k)\<lparr>st_deploy_target := ''kubernetes'',
          kb_namespace := or_str (Some (kb_namespace k)) ''default'',
          kb_image_pull_secret := strip_opt (or_str (kb_image_pull_secret k) []),
          kb_deployment_mode := mode, kb_ingress_class_name := strip (kb_ingress_class_name k),
          kb_ingress_base_domain := base_domain\<rparr>))"

section \<open>Operations\<close>

definition deploy_workload :: "os \<Rightarrow> kube \<Rightarrow> world \<Rightarrow> deployment \<Rightarrow> build \<Rightarrow> exec_result act" where
  "deploy_workload s k w d b =
     (if kb_deployment_mode k = ''helm'' then deploy_with_helm s k w d b else deploy_with_manifest s k w d b)"

definition stop_workload :: "os \<Rightarrow> kube \<Rightarrow> world \<Rightarrow> deployment \<Rightarrow> build \<Rightarrow> exec_result act" where
  "stop_workload s k w d b =
     (if or_str (kubernetes_deployment_mode w d) (kb_deployment_mode k) = ''helm''
      then stop_with_helm s k w d b else stop_with_manifest s k w d b)"

definition runtime_resource_status :: "os \<Rightarrow> kube \<Rightarrow> world \<Rightarrow> deployment \<Rightarrow> dict act" where
  "runtime_resource_status s k w d =
     (let namespace = namespace_for_deployment k w d; deployment_name = k8s_deployment_name (os_shown s) w d;
          service_name = k8s_service_name (os_shown s) w d; ingress_name = k8s_ingress_name (os_shown s) w d
      in mbind (kubectl_resource_exists s k ''deployment'' deployment_name namespace) (\<lambda>deployment_exists.
         mbind (kubectl_resource_exists s k ''service'' service_name namespace) (\<lambda>service_exists.
         mbind (kubectl_resource_exists s k ''ingress'' ingress_name namespace) (\<lambda>ingress_exists.
         mret [(''namespace'', JStr namespace), (''deployment_name'', JStr deployment_name),
               (''service_name'', JStr service_name), (''deployment_exists'', JBool deployment_exists),
               (''service_exists'', JBool service_exists), (''ingress_name'', JStr ingress_name),
               (''ingress_exists'', JBool ingress_exists)]))))"

section \<open>The executor\<close>

text \<open>
  Cloning, building, testing, tagging, pushing and verifying an image are those of the
  Docker executor, as is the look-up of a container.
\<close>

definition kubernetes_calls :: "os \<Rightarrow> kube \<Rightarrow> (nat \<Rightarrow> unit proc option) \<Rightarrow> executor" where
  "kubernetes_calls s k0 hb =
     (let k = (\<lambda>did. k0\<lparr>st_heartbeat := hb did\<rparr>); method = (\<lambda>g did. executing s (g s (k did)) did)
      in \<lparr>ex_deploy_target = Some ''kubernetes'', ex_deployment_mode = Some (kb_deployment_mode k0),
      ex_namespace = Some (kb_namespace k0),
      ex_identity = Some (\<lambda>w d. Inr (kubernetes_resource_identity (os_shown s) w d)),
      ex_clone_repo = method clone_repo,
      ex_build_image = method build_image,
      ex_run_tests = method run_tests,
      ex_tag_image = method tag_image,
      ex_push_image = method push_image,
      ex_verify_image = method verify_image,
      ex_preflight_deploy = (\<lambda>did. executing s (preflight_deploy s (k did)) did),
      ex_deploy = method deploy_workload,
      ex_stop = method stop_workload,
      ex_container_exists = (\<lambda>did. executing s (container_exists s (k did)) did),
      ex_runtime_resource_status = (\<lambda>did. executing s (\<lambda>w d b. runtime_resource_status s (k did) w d) did),
      ex_runtime_helm_status = (\<lambda>did. executing s
        (\<lambda>w d b. mbind (runtime_helm_status s (k did) w d) (\<lambda>status. mret (Some status))) did),
      ex_runtime_pod_diagnostics = (\<lambda>p did. executing s (\<lambda>w d b. runtime_pod_diagnostics s (k did) p w d) did)\<rparr>)"

text \<open>\<open>_build_kubernetes_executor\<close> for a deployment mode and a namespace.\<close>

definition build_kubernetes_executor ::
    "os \<Rightarrow> kube \<Rightarrow> (nat \<Rightarrow> unit proc option) \<Rightarrow> string \<Rightarrow> string \<Rightarrow> exn + executor" where
  "build_kubernetes_executor s k hb deployment_mode namespace =
     ebind (init_kube (k\<lparr>kb_deployment_mode := deployment_mode, kb_namespace := namespace\<rparr>))
       (\<lambda>k'. Inr (kubernetes_calls s k' hb))"

section \<open>Invariants\<close>

lemma mkeeps_kubernetes:
  assumes "quiet I s" "beats_keep I k"
  shows "mkeeps I (deploy_workload s k w d b)" "mkeeps I (stop_workload s k w d b)" "mkeeps I (runtime_resource_status s k w d)"
  unfolding deploy_workload_def stop_workload_def runtime_resource_status_def Let_def
  by (intro act_rules mkeeps_manifest mkeeps_helm mkeeps_resource_exists assms)+

lemma kubernetes_keeps:
  assumes "quiet I s" "hearts_keep I hb" "build_kubernetes_executor s k hb mode namespace = Inr ex"
  shows "executor_keeps I ex"
proof -
  obtain k' where ex: "ex = kubernetes_calls s k' hb"
    using assms(3) by (auto simp: build_kubernetes_executor_def ebind_def split: sum.splits)
  show ?thesis
    unfolding ex executor_keeps_def kubernetes_calls_def Let_def
    by (simp, intro conjI call_keeps_method mkeeps_source_build mkeeps_docker mkeeps_kubernetes mkeeps_preflight
        mkeeps_helm mkeeps_evidence act_rules assms beats_keep_update allI)
qed

end
