(* ===== verification/Kubernetes_Outcome.thy ===== *)
theory Kubernetes_Outcome
  imports Kubernetes_Executor
begin

text \<open>
  What a call of the Kubernetes executor that returns has seen: \<open>gives a Q\<close> says that every
  result of \<open>a\<close> satisfies \<open>Q\<close>, with rules for the steps of a call. A preflight that succeeds
  has found every resource; a deployment that succeeds was applied, rolled out and healthy.
\<close>

section \<open>Results of a step\<close>

definition gives :: "'a act \<Rightarrow> ('a \<Rightarrow> bool) \<Rightarrow> bool" where
  "gives a Q \<longleftrightarrow> (\<forall>m x m'. a m = (Inr x, m') \<longrightarrow> Q x)"

named_theorems give_rules \<open>what the results of a step satisfy\<close>

lemma givesD: "gives a Q \<Longrightarrow> a m = (Inr x, m') \<Longrightarrow> Q x"
  unfolding gives_def by blast

lemma gives_ret [give_rules]: "Q x \<Longrightarrow> gives (mret x) Q"
  by (simp add: gives_def mret_def)

lemma gives_throw [give_rules]: "gives (mthrow e) Q"
  by (simp add: gives_def mthrow_def)

lemma gives_lift: "(\<And>x. r = Inr x \<Longrightarrow> Q x) \<Longrightarrow> gives (mlift r) Q"
  by (simp add: gives_def mlift_def)

lemma gives_bind: "gives a P \<Longrightarrow> (\<And>x. P x \<Longrightarrow> gives (k x) Q) \<Longrightarrow> gives (mbind a k) Q"
  unfolding gives_def by (blast dest: mbind_Inr)

text \<open>A step whose result does not matter.\<close>

lemma gives_any: "(\<And>x. gives (k x) Q) \<Longrightarrow> gives (mbind a k) Q"
  by (rule gives_bind [where P = "\<lambda>_. True"]) (simp_all add: gives_def)

lemma gives_catch: "gives a Q \<Longrightarrow> (\<And>e. gives (h e) Q) \<Longrightarrow> gives (mcatch a h) Q"
  unfolding gives_def by (blast dest: mcatch_Inr)

lemma gives_except: "gives a Q \<Longrightarrow> (\<And>st msg md l es. gives (h st msg md l es) Q) \<Longrightarrow> gives (except_worker a h) Q"
  unfolding except_worker_def by (rule gives_catch) (auto split: exn.split intro: gives_throw)

lemma gives_finally:
  assumes "gives a Q"
  shows "gives (mfinally a b) Q"
proof -
  have "gives (mcatch (mbind a (\<lambda>x. mret (Inr x))) (\<lambda>e. mret (Inl e))) (\<lambda>r. \<forall>x. r = Inr x \<longrightarrow> Q x)"
    by (rule gives_catch, rule gives_bind [OF assms]) (auto intro: gives_ret)
  then show ?thesis
    unfolding mfinally_def by (rule gives_bind) (auto intro!: gives_any gives_lift)
qed

lemma gives_if: "(c \<Longrightarrow> gives x Q) \<Longrightarrow> (\<not> c \<Longrightarrow> gives y Q) \<Longrightarrow> gives (if c then x else y) Q"
  by simp

lemma gives_option: "(a = None \<Longrightarrow> gives x Q) \<Longrightarrow> (\<And>v. a = Some v \<Longrightarrow> gives (y v) Q) \<Longrightarrow>
    gives (case a of None \<Rightarrow> x | Some v \<Rightarrow> y v) Q"
  by (cases a) auto

lemma gives_sum: "(\<And>v. a = Inl v \<Longrightarrow> gives (x v) Q) \<Longrightarrow> (\<And>v. a = Inr v \<Longrightarrow> gives (y v) Q) \<Longrightarrow>
    gives (case a of Inl v \<Rightarrow> x v | Inr v \<Rightarrow> y v) Q"
  by (cases a) auto

lemma gives_map:
  assumes "\<And>x. gives (f x) (R x)"
  shows "gives (mmap f xs) (list_all2 R xs)"
  by (induction xs) (auto intro!: gives_ret gives_bind [OF assms] elim: gives_bind)

section \<open>Commands that succeeded\<close>

definition exited_ok :: "os \<Rightarrow> string list \<Rightarrow> bool" where
  "exited_ok s args \<longleftrightarrow> (\<exists>n env ch t. os_spawn s n args env = Inr ch \<and> ch_poll ch t = Some 0)"

lemma execute_gives:
  "gives (execute_command s st allow None env timeout args)
    (\<lambda>r. \<forall>out err. r = Completed 0 out err \<longrightarrow> exited_ok s args)"
  unfolding gives_def
proof (intro allI impI)
  fix m r m' out err
  assume run: "execute_command s st allow None env timeout args m = (Inr r, m')" and r: "r = Completed 0 out err"
  show "exited_ok s args"
  proof (cases "os_spawn s (m_step m) args env")
    case (Inl e)
    then show ?thesis using run r unfolding execute_polled [OF refl refl refl] by simp
  next
    case (Inr ch)
    then have "poll_end ch (m_ms (snd (interact s 0 (\<lambda>n. os_spawn s n args env) m)))
        (m_ms (snd (interact s 0 (\<lambda>n. os_spawn s n args env) m)) + (case timeout of None \<Rightarrow> st_command_timeout st | Some t \<Rightarrow> t))
        (snd (interact s 0 (\<lambda>n. os_spawn s n args env) m)) (Inr r) m'"
      using run unfolding execute_polled [OF refl refl refl] by (auto intro: poll_ends)
    then show ?thesis using Inr r unfolding poll_end_def exited_ok_def by auto
  qed
qed

lemma gives_outcome:
  "(\<And>c out err. r = Completed c out err \<Longrightarrow> gives (x c out err) Q) \<Longrightarrow>
    (\<And>out err. r = Timed_out out err \<Longrightarrow> gives (y out err) Q) \<Longrightarrow> (\<And>e. r = Os_error e \<Longrightarrow> gives (z e) Q) \<Longrightarrow>
    gives (case r of Completed c out err \<Rightarrow> x c out err | Timed_out out err \<Rightarrow> y out err | Os_error e \<Rightarrow> z e) Q"
  by (cases r) auto

lemma attempt_gives:
  "gives (run_attempt s st step args file None env redacted k n) (\<lambda>r. \<forall>x. r = Inr x \<longrightarrow> exited_ok s args)"
  unfolding run_attempt_def Let_def
  by (intro gives_any gives_bind [OF execute_gives] gives_outcome) (auto intro!: gives_any gives_ret)

lemma attempts_give:
  assumes "\<And>k. gives (once k) (\<lambda>r. \<forall>x. r = Inr x \<longrightarrow> P)"
  shows "gives (run_attempts s once k n) (\<lambda>_. P)"
proof (induction n arbitrary: k)
  case (Suc n)
  show ?case
    by (simp, rule gives_bind [OF assms]) (auto split: sum.split intro!: gives_ret gives_throw gives_any Suc.IH)
qed (simp add: gives_throw)

lemma plain_gives: "gives (plain_command s st step args file) (\<lambda>_. exited_ok s args)"
  unfolding plain_command_def run_step_command_def Let_def by (intro gives_any attempts_give attempt_gives)

lemma kubectl_gives: "gives (run_kubectl_with_events s k step args file se ft fs fm es) (\<lambda>_. exited_ok s args)"
  unfolding run_kubectl_with_events_def
  by (intro gives_bind [OF gives_except [OF plain_gives gives_throw]] gives_ret)

section \<open>Preflight\<close>

definition found_by_kubectl :: "os \<Rightarrow> kube \<Rightarrow> string \<Rightarrow> bool" where
  "found_by_kubectl s k resource \<longleftrightarrow> exited_ok s (kubectl_args k [''get'', resource])"

lemma kubectl_own_namespace: "kubectl_in k (kb_namespace k) parts = kubectl_args k parts"
  by (simp add: kubectl_in_def kubectl_args_def or_str_def)

lemma check_gives:
  "gives (check_resource s k kind entry name) (\<lambda>c. ck_found c \<longrightarrow> found_by_kubectl s k (kind @ ''/'' @ name))"
  unfolding check_resource_def kubectl_resource_exists_for_preflight_def inspect_resource_def Let_def
  by (rule gives_bind [where P = "\<lambda>found. found \<longrightarrow> found_by_kubectl s k (kind @ ''/'' @ name)"])
    (auto simp: kubectl_own_namespace found_by_kubectl_def intro!: gives_bind [OF execute_gives] gives_outcome gives_ret gives_throw)

text \<open>The resources that the deployment refers to and the settings of the executor name.\<close>

definition referenced_resources :: "os \<Rightarrow> kube \<Rightarrow> world \<Rightarrow> deployment \<Rightarrow> string list" where
  "referenced_resources s k w d =
     (let (configmaps, secrets) = kubernetes_referenced_resources (os_shown s) (spec_env_vars (project_for_deployment w d))
      in map (\<lambda>name. ''configmap/'' @ name) configmaps @ map (\<lambda>name. ''secret/'' @ name) (secrets @ pull_secret_names k)
         @ map (\<lambda>name. ''ingressclass/'' @ name) (ingress_classes k))"

lemma checks_give:
  "gives (check_resources s k configmaps secrets) (\<lambda>cs. list_all ck_found cs \<longrightarrow>
     (\<forall>name \<in> set configmaps. found_by_kubectl s k (''configmap/'' @ name))
     \<and> (\<forall>name \<in> set (secrets @ pull_secret_names k). found_by_kubectl s k (''secret/'' @ name))
     \<and> (\<forall>name \<in> set (ingress_classes k). found_by_kubectl s k (''ingressclass/'' @ name)))"
proof -
  have found: "\<forall>name \<in> set names. found_by_kubectl s k (kind @ ''/'' @ name)"
    if "list_all2 (\<lambda>name c. ck_found c \<longrightarrow> found_by_kubectl s k (kind @ ''/'' @ name)) names cs" "list_all ck_found cs"
    for kind names cs
    using that by (induction rule: list_all2_induct) auto
  show ?thesis
    unfolding check_resources_def
    by (rule gives_bind [OF gives_map [OF check_gives]] gives_any)+
      (auto intro!: gives_ret dest: found [where kind = "''configmap''", simplified]
        found [where kind = "''secret''", simplified] found [where kind = "''ingressclass''", simplified])
qed

lemma preflight_gives:
  "gives (preflight_deploy s k w d b) (\<lambda>_. st_registry_enabled k \<and> b_registry_push_status b = Some ''succeeded''
     \<and> truthy (b_image_ref b) \<and> b_image_ref b \<noteq> b_image_tag b
     \<and> (\<forall>resource \<in> set (referenced_resources s k w d). found_by_kubectl s k resource))"
proof -
  let ?pushed = "st_registry_enabled k \<and> b_registry_push_status b = Some ''succeeded''
     \<and> truthy (b_image_ref b) \<and> b_image_ref b \<noteq> b_image_tag b"
  have ready: "gives (ensure_registry_ready k b) (\<lambda>_. ?pushed)"
    unfolding ensure_registry_ready_def by (auto intro!: gives_ret gives_throw)
  have resources: "gives (preflight_referenced_resources s k w d l es)
      (\<lambda>_. \<forall>resource \<in> set (referenced_resources s k w d). found_by_kubectl s k resource)" for l es
  proof (cases "kubernetes_referenced_resources (os_shown s) (spec_env_vars (project_for_deployment w d))")
    case (Pair configmaps secrets)
    show ?thesis
      unfolding preflight_referenced_resources_def Let_def Pair prod.case referenced_resources_def
      by (rule gives_any, rule gives_bind [OF checks_give], rule gives_any, rule gives_if, rule gives_throw)
        (auto simp: list_all_iff filter_empty_conv intro!: gives_ret)
  qed
  show ?thesis
    unfolding preflight_deploy_def
    by (rule gives_bind [OF ready], rule gives_any, rule gives_bind [OF resources]) (auto intro!: gives_ret)
qed

section \<open>Health\<close>

definition healthy_address :: "os \<Rightarrow> string \<Rightarrow> bool" where
  "healthy_address s url \<longleftrightarrow> (\<exists>n status body. os_probe s n url = Inr (status, body) \<and> 200 \<le> status \<and> status < 300)"

definition forward_args :: "os \<Rightarrow> kube \<Rightarrow> dict \<Rightarrow> string \<Rightarrow> nat \<Rightarrow> string list" where
  "forward_args s k spec service_name local_port = kubectl_args k [''port-forward'', ''service/'' @ service_name,
     str_of_nat local_port @ '':'' @ spec_str s spec ''port'', ''--address'', ''127.0.0.1'']"

text \<open>A port-forward to the service ran, and its address was healthy.\<close>

definition served_healthy :: "os \<Rightarrow> kube \<Rightarrow> dict \<Rightarrow> string \<Rightarrow> bool" where
  "served_healthy s k spec service_name \<longleftrightarrow> (\<exists>local_port n ch t.
     os_spawn s n (forward_args s k spec service_name local_port) None = Inr ch \<and> ch_poll ch t = None
     \<and> healthy_address s (probe_address s spec local_port))"

lemma wait_gives: "beats_plain st \<Longrightarrow> gives (wait_for_healthcheck s st url f vs) (\<lambda>_. healthy_address s url)"
  unfolding gives_def healthy_address_def using wait_end(1) [unfolded found_healthy_def] by blast

lemma gives_interact: "(\<And>n. Q (f n)) \<Longrightarrow> gives (interact s t f) Q"
  by (auto simp: gives_def interact_def Let_def)

lemma forward_gives:
  assumes "beats_plain k"
  shows "gives (port_forward_attempt s k spec service file n) (\<lambda>r. r \<noteq> None \<longrightarrow> served_healthy s k spec service)"
proof -
  have spawned: "gives (interact s 0 (\<lambda>n. os_spawn s n args env))
      (\<lambda>p. \<forall>ch. p = Inr ch \<longrightarrow> (\<exists>n. os_spawn s n args env = Inr ch))" for args env
    by (rule gives_interact) blast
  show ?thesis
    unfolding port_forward_attempt_def Let_def forward_args_def [symmetric]
    by (intro gives_any gives_bind [OF spawned] gives_sum gives_throw gives_finally gives_except gives_if
        gives_bind [OF wait_gives [OF assms]] gives_ret)
      (auto simp: served_healthy_def)
qed

lemma port_forward_gives:
  assumes "beats_plain k"
  shows "gives (port_forward_healthcheck s k spec service file) (\<lambda>_. served_healthy s k spec service)"
proof -
  have "gives (port_forward_attempts s k spec service file i r) (\<lambda>_. served_healthy s k spec service)" for i r
  proof (induction r arbitrary: i)
    case (Suc r)
    show ?case
      by (simp, rule gives_bind [OF forward_gives [OF assms]]) (auto split: option.split intro!: gives_ret Suc.IH)
  qed (simp add: gives_throw)
  then show ?thesis unfolding port_forward_healthcheck_def by (intro gives_any)
qed

lemma verify_gives:
  "beats_plain k \<Longrightarrow> gives (verify_workload s k w d g sel es x y)
     (\<lambda>_. served_healthy s k (project_for_deployment w d) (tg_service g))"
  unfolding verify_workload_def
  by (intro gives_except gives_bind [OF port_forward_gives] gives_any gives_ret gives_throw)

section \<open>Deployment\<close>

definition rollout_args :: "kube \<Rightarrow> string \<Rightarrow> int \<Rightarrow> string list" where
  "rollout_args k deployment_name seconds = kubectl_args k [''rollout'', ''status'', ''deployment/'' @ deployment_name,
     ''--timeout'', str_of_int seconds @ ''s'']"

lemma failing_gives: "gives a Q \<Longrightarrow> gives (failing_with a c) Q"
  unfolding failing_with_def by (intro gives_except gives_any gives_throw)

lemma rollout_gives:
  "gives (rollout_with_recheck s k d name es) (\<lambda>_. \<exists>seconds. exited_ok s (rollout_args k name seconds))"
proof -
  have once: "gives (run_manifest_rollout_status s k name seconds l es g)
      (\<lambda>_. \<exists>seconds. exited_ok s (rollout_args k name seconds))" for seconds l g
  proof -
    have "gives (run_manifest_rollout_status s k name seconds l es g) (\<lambda>_. exited_ok s (rollout_args k name seconds))"
      unfolding run_manifest_rollout_status_def Let_def rollout_args_def by (rule kubectl_gives)
    then show ?thesis unfolding gives_def by blast
  qed
  show ?thesis
    unfolding rollout_with_recheck_def by (intro failing_gives gives_except once gives_if gives_throw)
qed

text \<open>What was sent to the cluster, and the service it is reached by.\<close>

definition applied :: "os \<Rightarrow> kube \<Rightarrow> world \<Rightarrow> deployment \<Rightarrow> bool" where
  "applied s k w d \<longleftrightarrow>
     exited_ok s (kubectl_args k [''apply'', ''-f'', log_at k d ''kubernetes-manifest.json''])
     \<and> (\<exists>seconds. exited_ok s (rollout_args k (k8s_deployment_name (os_shown s) w d) seconds))"

definition released :: "os \<Rightarrow> kube \<Rightarrow> world \<Rightarrow> deployment \<Rightarrow> bool" where
  "released s k w d \<longleftrightarrow> (\<exists>runner args. new_helm_runner k (kb_namespace k) = Inr runner
     \<and> upgrade_install_args runner (new_release_name (os_shown s) (project_for_deployment w d) d)
         (log_at k d ''generic-web-app-values.yaml'') = Inr args
     \<and> exited_ok s args)"

lemma manifest_gives:
  assumes "beats_plain k"
  shows "gives (deploy_with_manifest s k w d b) (\<lambda>_. applied s k w d
    \<and> served_healthy s k (project_for_deployment w d) (k8s_service_name (os_shown s) w d))"
  unfolding deploy_with_manifest_def apply_manifest_def Let_def applied_def
  by (rule gives_any gives_bind [OF failing_gives [OF kubectl_gives]] gives_bind [OF rollout_gives]
      gives_bind [OF verify_gives [OF assms]] gives_ret)+
    (simp add: new_target_def Let_def)

lemma helm_command_gives:
  "gives (run_helm s k command) (\<lambda>r. \<forall>x. r = Inr x \<longrightarrow> (\<exists>args. command = Inr args \<and> exited_ok s args))"
  unfolding run_helm_def Let_def
  by (rule gives_bind [where P = "\<lambda>args. command = Inr args"], rule gives_lift, simp,
      rule gives_bind [OF execute_gives], rule gives_outcome)
    (auto intro!: gives_throw gives_ret)

lemma helm_failure_gives: "gives (helm_failure s k w d release g md es r) Q"
  unfolding helm_failure_def Let_def by (intro gives_any gives_throw)

lemma helm_gives:
  assumes "beats_plain k"
  shows "gives (deploy_with_helm s k w d b) (\<lambda>_. released s k w d
    \<and> served_healthy s k (project_for_deployment w d)
        (helm_resource_name (new_release_name (os_shown s) (project_for_deployment w d) d)))"
proof -
  have runner: "gives (mlift (new_helm_runner k ns)) (\<lambda>h. new_helm_runner k ns = Inr h)" for ns
    by (rule gives_lift) simp
  show ?thesis
    unfolding deploy_with_helm_def Let_def
    by (rule gives_any, rule gives_any, rule gives_any, rule gives_any, rule gives_bind [OF runner],
        rule gives_bind [OF helm_command_gives], rule gives_sum, rule helm_failure_gives, rule gives_any,
        rule gives_bind [OF verify_gives [OF assms]], rule gives_ret)
      (auto simp: released_def new_target_def Let_def)
qed

end
