(* ===== verification/Executor_Properties.thy ===== *)
theory Executor_Properties
  imports Platform Kubernetes_Outcome
begin

text \<open>
  The properties of the Kubernetes executor on an example cluster, and what the platform
  needs of its executors: the factory of a worker whose Docker and Kubernetes executors are
  the ones of the code keeps what their heartbeats and the other processes keep.
\<close>

section \<open>An example cluster\<close>

definition running_child :: child where
  "running_child = \<lparr>ch_poll = (\<lambda>_. None), ch_stdout = (\<lambda>_. []), ch_stderr = (\<lambda>_. [])\<rparr>"

text \<open>Every command ends well, a port-forward keeps running.\<close>

definition cluster_os :: os where
  "cluster_os = example_os\<lparr>os_spawn := (\<lambda>_ args _. Inr (if ''port-forward'' \<in> set args then running_child else example_child))\<rparr>"

definition example_kube :: kube where
  "example_kube = \<lparr>st_workspace_root = ''/w'', st_command_timeout = 600000, st_retry_count = 1,
     st_heartbeat_interval = 30000, st_deploy_host = ''127.0.0.1'', st_healthcheck_timeout = 30000,
     st_healthcheck_interval = 1000, st_registry_enabled = True, st_registry_url = ''r.io'',
     st_registry_namespace = ''apps'', st_registry_username = None, st_registry_password = None,
     st_deploy_target = ''kubernetes'', st_heartbeat = None,
     kb_kubeconfig = Some ''/k'', kb_namespace = ''apps'', kb_kubectl_bin = ''kubectl'', kb_image_pull_secret = None,
     kb_deployment_mode = ''manifest'', kb_helm_chart_path = ''chart'', kb_helm_binary = ''helm'', kb_helm_timeout = ''180s'',
     kb_ingress_enabled = False, kb_ingress_class_name = [], kb_ingress_base_domain = [], kb_rollout_timeout = 120000\<rparr>"

definition pushed_build :: build where
  "pushed_build = (demo_build 1 B_succeeded)\<lparr>b_image_tag := Some ''web:1'', b_image_ref := Some ''r.io/apps/web:1'',
     b_registry_push_status := Some ''succeeded''\<rparr>"

definition example_spec :: dict where
  "example_spec = [(''id'', JInt 1), (''name'', JStr ''web''), (''port'', JInt 8080), (''healthcheck_path'', JStr ''/health''),
     (''env_vars'', JList [JDict [(''name'', JStr ''MODE''), (''value_source'', JStr ''configmap_key_ref''),
        (''source_name'', JStr ''settings''), (''source_key'', JStr ''mode'')]])]"

definition spec_dep :: deployment where
  "spec_dep = (demo_dep 1 Deploying None)\<lparr>d_spec_snapshot_json :=
     JDict [(''version'', JInt 1), (''project'', JDict example_spec)]\<rparr>"

lemma example_project: "project_for_deployment w spec_dep = example_spec"
  by (simp add: project_for_deployment_def snapshot_spec_def spec_dep_def DEPLOYMENT_SPEC_VERSION_def)

lemma example_env: "spec_env_vars example_spec = [JDict [(''name'', JStr ''MODE''), (''value_source'', JStr ''configmap_key_ref''),
        (''source_name'', JStr ''settings''), (''source_key'', JStr ''mode'')]]"
  by (simp add: spec_env_vars_def example_spec_def)

lemma example_references: "kubernetes_referenced_resources sh (spec_env_vars example_spec) = ([''settings''], [])"
  by (simp add: kubernetes_referenced_resources_def example_env sources_used_def sorted_texts_def env_text_def str_of_json_def)

section \<open>Preflight\<close>

text \<open>
  C33: A preflight for Kubernetes succeeds only for an image that was pushed to the registry
  under a reference of its own, and only after kubectl has found every ConfigMap and Secret
  that the environment of the project refers to, the pull secret and the ingress class of
  the platform.
\<close>

theorem preflight_finds_every_resource:
  assumes "preflight_deploy s k w d b m = (Inr r, m')"
  shows "st_registry_enabled k \<and> b_registry_push_status b = Some ''succeeded''
     \<and> truthy (b_image_ref b) \<and> b_image_ref b \<noteq> b_image_tag b
     \<and> (\<forall>resource \<in> set (referenced_resources s k w d). found_by_kubectl s k resource)"
  by (rule givesD [OF preflight_gives assms])

section \<open>Calls that return\<close>

text \<open>The example cluster answers every call; \<open>returns a Q\<close> says that \<open>a\<close> gives a result, in \<open>Q\<close>.\<close>

definition returns :: "'a act \<Rightarrow> ('a \<Rightarrow> bool) \<Rightarrow> bool" where
  "returns a Q \<longleftrightarrow> (\<forall>m. \<exists>x m'. a m = (Inr x, m') \<and> Q x)"

lemma returns_ret: "Q x \<Longrightarrow> returns (mret x) Q"
  by (simp add: returns_def mret_def)

lemma returns_bind: "returns a P \<Longrightarrow> (\<And>x. P x \<Longrightarrow> returns (k x) Q) \<Longrightarrow> returns (mbind a k) Q"
  unfolding returns_def mbind_def by (metis (no_types, lifting) old.prod.case sum.simps(6))

lemma mbind_mret [simp]: "mbind (mret x) k = k x"
  by (simp add: fun_eq_iff mbind_def mret_def)

lemma returns_any: "returns a (\<lambda>_. True) \<Longrightarrow> (\<And>x. returns (k x) Q) \<Longrightarrow> returns (mbind a k) Q"
  by (rule returns_bind)

lemma returns_lift: "r = Inr x \<Longrightarrow> Q x \<Longrightarrow> returns (mlift r) Q"
  by (simp add: returns_def mlift_def)

lemma returns_catch: "returns a Q \<Longrightarrow> returns (mcatch a h) Q"
  unfolding returns_def mcatch_def by (metis (no_types, lifting) old.prod.case sum.simps(6))

lemma returns_except: "returns a Q \<Longrightarrow> returns (except_worker a h) Q"
  unfolding except_worker_def by (rule returns_catch)

lemma returns_finally:
  assumes "returns a Q" "returns b (\<lambda>_. True)"
  shows "returns (mfinally a b) Q"
proof -
  have "returns (mcatch (mbind a (\<lambda>x. mret (Inr x))) (\<lambda>e. mret (Inl e))) (\<lambda>r. \<exists>x. r = Inr x \<and> Q x)"
    by (rule returns_catch, rule returns_bind [OF assms(1)]) (auto intro: returns_ret)
  then show ?thesis
    unfolding mfinally_def by (rule returns_bind) (auto intro!: returns_any assms(2) returns_lift)
qed

lemma returns_map: "(\<And>x. x \<in> set xs \<Longrightarrow> returns (f x) P) \<Longrightarrow> returns (mmap f xs) (list_all P)"
proof (induction xs)
  case (Cons x xs)
  show ?case
    by (simp, rule returns_bind [of "f x" P], simp add: Cons.prems,
        rule returns_bind [of "mmap f xs" "list_all P"])
      (use Cons in \<open>auto intro: returns_ret\<close>)
qed (simp add: returns_ret)

lemma returns_steps:
  "returns mnow (\<lambda>_. True)" "returns (interact s t f) (\<lambda>x. \<exists>n. x = f n)" "returns (os_sleep s t) (\<lambda>_. True)"
  by (auto simp: returns_def mnow_def interact_def os_sleep_def Let_def)

lemma cluster_files:
  "returns (file_op cluster_os file) (\<lambda>_. True)" "returns (write_text cluster_os appending file t) (\<lambda>_. True)"
  "returns (prepare_workspace cluster_os st d) (\<lambda>_. True)"
  by (auto simp: returns_def file_op_def write_text_def prepare_workspace_def mbind_def interact_def mret_def Let_def
      cluster_os_def example_os_def)

lemma cluster_log: "returns (write_log cluster_os vs file args output md appending) (\<lambda>_. True)"
  unfolding write_log_def Let_def by (rule cluster_files)

lemma cluster_command:
  assumes "''port-forward'' \<notin> set args"
  shows "returns (execute_command cluster_os example_kube allow None env None args) (\<lambda>r. r = Completed 0 ''pushed with s3cret'' [])"
  using assms unfolding returns_def
  by (simp add: execute_command_def cluster_os_def example_os_def example_child_def mbind_def mret_def mnow_def
      interact_def os_sleep_def heartbeat_if_due_def poll_loop.simps example_kube_def Let_def)

lemma cluster_step:
  assumes "''port-forward'' \<notin> set args"
  shows "returns (plain_command cluster_os example_kube step args file) (\<lambda>_. True)"
proof -
  have once: "returns (run_attempt cluster_os example_kube step args file None None vs k n) (\<lambda>r. \<exists>x. r = Inr x)" for vs k n
    unfolding run_attempt_def Let_def
    by (rule returns_any [OF returns_steps(1)], rule returns_bind [OF cluster_command [OF assms]],
        rule returns_any [OF returns_steps(1)])
      (auto intro!: returns_any cluster_log returns_ret)
  have "returns (run_attempts cluster_os (\<lambda>k. run_attempt cluster_os example_kube step args file None None vs k n) 1 (Suc r))
      (\<lambda>_. True)" for vs n r
    by (simp, rule returns_bind [OF once]) (auto intro: returns_ret)
  then show ?thesis
    unfolding plain_command_def run_step_command_def Let_def
    by (intro returns_any cluster_files) (cases "step \<in> set retryable_steps"; simp)
qed

lemma example_fields [simp]:
  "kb_namespace example_kube = ''apps''" "st_registry_enabled example_kube" "kb_image_pull_secret example_kube = None"
  "\<not> kb_ingress_enabled example_kube" "kb_ingress_class_name example_kube = []" "st_heartbeat example_kube = None"
  "kb_deployment_mode example_kube = ''manifest''"
  by (simp_all add: example_kube_def)

lemma example_kubectl: "kubectl_in example_kube ns parts
    = [''kubectl'', ''--kubeconfig'', ''/k'', ''--namespace'', or_str (Some ns) ''apps''] @ parts"
  by (simp add: kubectl_in_def example_kube_def or_str_def)

definition checked_example :: "(exn + preflight_result option) \<times> machine" where
  "checked_example = preflight_deploy cluster_os example_kube (demo_world [] [] []) spec_dep pushed_build example_machine"

lemma checked_example_runs: "\<exists>x. fst checked_example = Inr x"
proof -
  have inspected: "returns (check_resource cluster_os example_kube ''configmap'' entry ''settings'') ck_found" for entry
    unfolding check_resource_def kubectl_resource_exists_for_preflight_def inspect_resource_def Let_def
    by (rule returns_bind [of _ "\<lambda>found. found"], rule returns_bind [OF cluster_command])
      (auto simp: example_kubectl or_str_def intro!: returns_ret)
  have none: "pull_secret_names example_kube = []" "ingress_classes example_kube = []" "\<not> kb_ingress_enabled example_kube"
    by (simp_all add: pull_secret_names_def ingress_classes_def)
  have checks: "returns (check_resources cluster_os example_kube [''settings''] []) (list_all ck_found)"
    unfolding check_resources_def
    by (rule returns_bind [OF returns_map [where P = ck_found]]) (auto simp: none inspected intro: returns_ret)
  have ready: "ensure_registry_ready example_kube pushed_build = mret ()"
    by (simp add: ensure_registry_ready_def pushed_build_def)
  have "returns (preflight_referenced_resources cluster_os example_kube w spec_dep l es) (\<lambda>_. True)" for w l es
    unfolding preflight_referenced_resources_def Let_def example_project example_references prod.case
    by (rule returns_any [OF cluster_files(1)], rule returns_bind [OF checks], rule returns_any [OF cluster_log])
      (auto simp: list_all_iff filter_empty_conv intro!: returns_ret)
  then have "returns (preflight_deploy cluster_os example_kube w spec_dep pushed_build) (\<lambda>_. True)" for w
    unfolding preflight_deploy_def by (auto simp: ready intro!: returns_any cluster_files returns_ret)
  then show ?thesis unfolding checked_example_def returns_def by (metis fst_conv)
qed

theorem preflight_finds_every_resource_witness:
  "''configmap/settings'' \<in> set (referenced_resources cluster_os example_kube (demo_world [] [] []) spec_dep)
    \<and> found_by_kubectl cluster_os example_kube ''configmap/settings''"
proof -
  obtain x where "fst checked_example = Inr x" using checked_example_runs by blast
  then have run: "preflight_deploy cluster_os example_kube (demo_world [] [] []) spec_dep pushed_build example_machine
      = (Inr x, snd checked_example)"
    by (simp add: checked_example_def prod_eq_iff)
  have "''configmap/settings'' \<in> set (referenced_resources cluster_os example_kube (demo_world [] [] []) spec_dep)"
    by (simp add: referenced_resources_def example_project example_references)
  then show ?thesis using preflight_finds_every_resource [OF run] by blast
qed

section \<open>Deployment\<close>

text \<open>
  C32: A deployment to Kubernetes succeeds only after its manifests were applied and rolled out,
  or its Helm release was installed, by commands that ended with exit code 0, and after
  the health check of its service was answered with a status from 200 to 299 through a
  port-forward that was running.
\<close>

theorem kubernetes_deployed_only_when_healthy:
  assumes "deploy_workload s k w d b m = (Inr r, m')" "beats_plain k"
  shows "if kb_deployment_mode k = ''helm''
    then released s k w d \<and> served_healthy s k (project_for_deployment w d)
           (helm_resource_name (new_release_name (os_shown s) (project_for_deployment w d) d))
    else applied s k w d \<and> served_healthy s k (project_for_deployment w d) (k8s_service_name (os_shown s) w d)"
  using assms(1) givesD [OF helm_gives [OF assms(2)]] givesD [OF manifest_gives [OF assms(2)]]
  by (simp add: deploy_workload_def split: if_splits)

lemma cluster_health: "returns (wait_for_healthcheck cluster_os example_kube url l vs) (\<lambda>_. True)"
  by (simp add: returns_def wait_for_healthcheck_def health_loop.simps heartbeat_if_due_def health_attempt_def
      default_health_probe_def write_text_def file_op_def mbind_def mret_def mnow_def interact_def cluster_os_def
      example_os_def Let_def) (simp add: example_kube_def)

lemma cluster_forward:
  "returns (port_forward_healthcheck cluster_os example_kube spec service l) (\<lambda>_. True)"
proof -
  let ?spawn = "\<lambda>n port. os_spawn cluster_os n (forward_args cluster_os example_kube spec service port) None"
  have spawned: "returns (interact cluster_os 0 (\<lambda>n. ?spawn n port)) (\<lambda>c. c = Inr running_child)" for port
    by (auto simp: returns_def interact_def Let_def cluster_os_def forward_args_def kubectl_args_def example_kubectl)
  have port: "returns (interact cluster_os 0 (os_port cluster_os)) (\<lambda>_. True)"
    by (auto simp: returns_def interact_def Let_def)
  have runs: "ch_poll running_child t = None" for t by (simp add: running_child_def)
  have "returns (port_forward_attempt cluster_os example_kube spec service l 1) (\<lambda>r. r \<noteq> None)"
    unfolding port_forward_attempt_def Let_def forward_args_def [symmetric]
    by (rule returns_any [OF port], rule returns_any [OF cluster_files(2)], rule returns_bind [OF spawned])
      (auto simp: runs terminate_process_def intro!: returns_any returns_finally returns_except returns_steps
        cluster_health returns_ret)
  then have "returns (port_forward_attempts cluster_os example_kube spec service l 1 (Suc r)) (\<lambda>_. True)" for r
    unfolding port_forward_attempts.simps by (rule returns_bind) (auto intro: returns_ret)
  from this [of "Suc (Suc 0)"] show ?thesis
    unfolding port_forward_healthcheck_def numeral_3_eq_3 by (intro returns_any cluster_files)
qed

definition deployed_example :: "(exn + exec_result) \<times> machine" where
  "deployed_example = deploy_workload cluster_os example_kube (demo_world [] [] []) spec_dep pushed_build example_machine"

lemma deployed_example_runs: "\<exists>x. fst deployed_example = Inr x"
proof -
  have host: "ingress_host example_kube n = Inr None" for n by (simp add: ingress_host_def)
  have command: "returns (run_kubectl_with_events cluster_os example_kube step (kubectl_args example_kube parts) l se ft fs fm es) (\<lambda>_. True)"
    if "''port-forward'' \<notin> set parts" for step parts l se ft fs fm es
    unfolding run_kubectl_with_events_def
    by (rule returns_bind [OF returns_except [OF cluster_step]])
      (use that in \<open>auto simp: kubectl_args_def example_kubectl or_str_def intro: returns_ret\<close>)
  have logs: "returns (capture_runtime_logs cluster_os example_kube w d name) (\<lambda>_. True)" for w d name
    unfolding capture_runtime_logs_def Let_def
    by (rule returns_any, rule returns_catch, rule returns_bind [OF cluster_command])
      (auto simp: kubectl_args_def example_kubectl or_str_def intro!: returns_ret returns_any cluster_log)
  have listed: "returns (run_diagnostic_command cluster_os example_kube (kubectl_args example_kube parts) l) (\<lambda>_. True)"
    if "''port-forward'' \<notin> set parts" for parts l
    unfolding run_diagnostic_command_def Let_def
    by (rule returns_any [OF cluster_files(1)], rule returns_bind [OF cluster_command])
      (use that in \<open>auto simp: kubectl_args_def example_kubectl or_str_def intro!: returns_any cluster_log returns_ret\<close>)
  have loads: "os_loads cluster_os t = None" for t by (simp add: cluster_os_def example_os_def)
  have pods: "returns (collect_pod_runtime_metadata cluster_os example_kube d (Some name) p None) (\<lambda>_. True)" for d name p
    unfolding collect_pod_runtime_metadata_def Let_def
    by (auto simp: selector_args_def loads or_str_def split: option.split intro!: returns_ret returns_any returns_catch listed)
  have verified: "returns (verify_workload cluster_os example_kube w d g None es x y) (\<lambda>_. True)" for w d g es x y
    unfolding verify_workload_def by (intro returns_except returns_any cluster_forward pods logs returns_ret TrueI)
  have rolled: "returns (rollout_with_recheck cluster_os example_kube d name es) (\<lambda>_. True)" for d name es
    unfolding rollout_with_recheck_def failing_with_def run_manifest_rollout_status_def Let_def
    by (intro returns_except command) simp
  have file_name: "log_at example_kube spec_dep ''kubernetes-manifest.json'' \<noteq> ''port-forward''" by code_simp
  have resources: "returns (mlift (manifest sh example_kube w spec_dep pushed_build dn sn)) (\<lambda>_. True)" for sh w dn sn
    by (simp add: returns_def mlift_def manifest_def Let_def host resolved_workload_environment_def example_project example_env literal_secrets_def
        env_literal_def)
  have "returns (deploy_with_manifest cluster_os example_kube w spec_dep pushed_build) (\<lambda>_. True)" for w
    unfolding deploy_with_manifest_def apply_manifest_def failing_with_def Let_def host example_project
    by (intro returns_any cluster_files returns_except command rolled verified returns_ret resources)
      (auto simp: file_name [symmetric] intro!: returns_lift)
  then show ?thesis unfolding deployed_example_def deploy_workload_def returns_def by simp (metis fst_conv)
qed

theorem kubernetes_deployed_only_when_healthy_witness:
  "applied cluster_os example_kube (demo_world [] [] []) spec_dep
    \<and> served_healthy cluster_os example_kube (project_for_deployment (demo_world [] [] []) spec_dep)
        (k8s_service_name (os_shown cluster_os) (demo_world [] [] []) spec_dep)"
proof -
  obtain x where "fst deployed_example = Inr x" using deployed_example_runs by blast
  then have run: "deploy_workload cluster_os example_kube (demo_world [] [] []) spec_dep pushed_build example_machine
      = (Inr x, snd deployed_example)"
    by (simp add: deployed_example_def prod_eq_iff)
  have "beats_plain example_kube" by (simp add: beats_plain_def)
  from kubernetes_deployed_only_when_healthy [OF run this] show ?thesis by simp
qed

section \<open>The executors of a worker\<close>

text \<open>
  The hypothesis \<open>factory_keeps\<close> of the platform, for a worker with the executors of the code:
  \<open>hb\<close> is the heartbeat that the processing attaches for a deployment, of its claim or of
  the claim of a command; both are transactions that keep every such predicate.
\<close>

lemma worker_executors:
  assumes "quiet I s" "hearts_keep I hb"
    and "local_docker_executor c = Inr (local_docker s st hb)" "kubernetes_executor c = build_kubernetes_executor s k hb"
  shows "create_executor_for_name c n = Inr ex \<Longrightarrow> executor_keeps I ex"
    and "create_executor_for_deployment c w d = Inr ex \<Longrightarrow> executor_keeps I ex"
proof -
  have named: "create_executor_for_name c n = Inr ex \<Longrightarrow> executor_keeps I ex" for n
    using local_docker_keeps [OF assms(1,2)] kubernetes_keeps [OF assms(1,2)] fake_keeps
    by (auto simp: create_executor_for_name_def Let_def assms(3,4) split: if_splits)
  then show "create_executor_for_name c n = Inr ex \<Longrightarrow> executor_keeps I ex" .
  show "create_executor_for_deployment c w d = Inr ex \<Longrightarrow> executor_keeps I ex"
    using named kubernetes_keeps [OF assms(1,2)]
    by (auto simp: create_executor_for_deployment_def Let_def assms(3,4) split: if_splits)
qed

lemma worker_factory_keeps:
  assumes "quiet I s" "hearts_keep I hb"
    and "local_docker_executor c = Inr (local_docker s st hb)" "kubernetes_executor c = build_kubernetes_executor s k hb"
  shows "factory_keeps I c"
  unfolding factory_keeps_def create_executor_def using worker_executors [OF assms] by blast

lemma heartbeats_keep:
  assumes "\<And>did h. hb did = Some h \<Longrightarrow>
    (\<exists>i expected. h = claim_heartbeat c i expected) \<or> (\<exists>cid expected. h = command_heartbeat cid expected)"
  shows "hearts_keep (platform_safe D w0) hb"
  unfolding hearts_keep_def using assms psafe.keeps_heartbeat psafe.keeps_command_heartbeat by metis

end
