(* ===== verification/Deployment_Views.thy ===== *)
theory Deployment_Views
  imports Routes Kubernetes_Diagnostics
begin

text \<open>
  \<open>application/deployments/read_models.py\<close>: what operators see of one deployment, assembled
  from its rows, its events and its log files, and the routes of \<open>api/projects.py\<close> that
  answer with it. The file system is the record \<open>log_files\<close>; \<open>sh\<close> is \<open>str()\<close> of a JSON value.
  A view is a value or the exception it raises. The lemmas say which files the log routes
  read and what a log tail shows.
\<close>

text \<open>
  \<open>l_roots\<close> are the resolved workspace root and instance path; paths resolve to lists of
  parts. \<open>l_read\<close> is the text of a file after the decoding and the translation of line ends.
\<close>

record log_files =
  l_roots :: "string list list"
  l_resolve :: "string \<Rightarrow> string list option"
  l_is_file :: "string \<Rightarrow> bool"
  l_read :: "string \<Rightarrow> string option"

section \<open>Events\<close>

definition oldest_events :: "world \<Rightarrow> deployment \<Rightarrow> event list" where
  "oldest_events w d = sort_key e_created_at (sort_key e_id (events_of w (d_id d)))"

definition newest_events :: "world \<Rightarrow> deployment \<Rightarrow> event list" where
  "newest_events w d = rev (oldest_events w d)"

definition event_metadata :: "event \<Rightarrow> exn + dict" where
  "event_metadata e = (if jtrue (e_metadata_json e) then as_dict (e_metadata_json e) else Inr [])"

text \<open>The first value of a key that is set, or None; the loop reads no event after it.\<close>

fun first_recorded :: "string \<Rightarrow> event list \<Rightarrow> exn + json" where
  "first_recorded key [] = Inr JNull"
| "first_recorded key (e # es) = ebind (event_metadata e) (\<lambda>metadata.
     if jtrue (jget metadata key) then Inr (jget metadata key) else first_recorded key es)"

definition recent_deployment_events :: "world \<Rightarrow> deployment \<Rightarrow> nat \<Rightarrow> event list" where
  "recent_deployment_events w d limit = take limit (newest_events w d)"

definition latest_meaningful_event :: "world \<Rightarrow> deployment \<Rightarrow> event option" where
  "latest_meaningful_event w d = find (\<lambda>e. \<not> list_ex (\<lambda>p. prefix p (e_event_type e)) [''claim_'', ''reconcile.''])
     (newest_events w d)"

definition latest_of :: "world \<Rightarrow> deployment \<Rightarrow> string list \<Rightarrow> event option" where
  "latest_of w d event_types = find (\<lambda>e. e_event_type e \<in> set event_types) (newest_events w d)"

definition latest_push_event :: "world \<Rightarrow> deployment \<Rightarrow> event option" where
  "latest_push_event w d = latest_of w d [''image.push_succeeded'', ''image.push.failed'']"

definition creation_fields :: "string list" where
  "creation_fields = [''creation_action'', ''source_deployment_id'', ''configuration_source'']"

definition deployment_creation_context :: "world \<Rightarrow> deployment \<Rightarrow> exn + dict" where
  "deployment_creation_context w d =
     (case find (\<lambda>e. e_event_type e = ''deployment.created'') (oldest_events w d) of
        None \<Rightarrow> Inr (map (\<lambda>key. (key, JNull)) creation_fields)
      | Some e \<Rightarrow> ebind (event_metadata e) (\<lambda>metadata. Inr (map (\<lambda>key. (key, jget metadata key)) creation_fields)))"

section \<open>Log files\<close>

definition as_path :: "json \<Rightarrow> exn + string option" where
  "as_path v = (case v of JStr s \<Rightarrow> Inr (Some (path_text s)) | _ \<Rightarrow> if jtrue v then Inl type_error else Inr None)"

definition get_runtime_log_path :: "world \<Rightarrow> deployment \<Rightarrow> exn + string option" where
  "get_runtime_log_path w d = ebind (first_recorded ''runtime_log_path'' (newest_events w d))
     (\<lambda>v. if jtrue v then as_path v else Inr None)"

definition get_build_log_path :: "world \<Rightarrow> deployment \<Rightarrow> build \<Rightarrow> exn + string option" where
  "get_build_log_path w d b =
     ebind (if truthy (b_build_log_path b) then Inr (jopt (b_build_log_path b))
            else first_recorded ''log_path'' (filter (\<lambda>e. e_event_type e = ''image.build_succeeded'') (newest_events w d)))
       (\<lambda>v. if jtrue v then as_path v
            else Inr (if truthy (b_log_path b) then map_option path_text (b_log_path b) else None))"

text \<open>\<open>resolve\<close> raises for a loop of links.\<close>

definition is_safe_log_path :: "log_files \<Rightarrow> string \<Rightarrow> exn + bool" where
  "is_safe_log_path fs p = (case l_resolve fs p of
     None \<Rightarrow> Inl (OtherExn ''OSError'' ''resolve'')
   | Some resolved \<Rightarrow> Inr (list_ex (\<lambda>root. prefix root resolved) (l_roots fs)))"

definition log_available :: "log_files \<Rightarrow> exn + string option \<Rightarrow> exn + bool" where
  "log_available fs log_path = ebind log_path (\<lambda>p. case p of
     None \<Rightarrow> Inr False
   | Some p \<Rightarrow> ebind (is_safe_log_path fs p) (\<lambda>safe. Inr (safe \<and> l_is_file fs p)))"

definition build_log_available :: "log_files \<Rightarrow> world \<Rightarrow> deployment \<Rightarrow> build \<Rightarrow> exn + bool" where
  "build_log_available fs w d b = log_available fs (get_build_log_path w d b)"

definition runtime_log_available :: "log_files \<Rightarrow> world \<Rightarrow> deployment \<Rightarrow> exn + bool" where
  "runtime_log_available fs w d = log_available fs (get_runtime_log_path w d)"

text \<open>\<open>artifact in (value or [])\<close>.\<close>

definition listed :: "string \<Rightarrow> json \<Rightarrow> exn + bool" where
  "listed artifact v = (if \<not> jtrue v then Inr False
     else case v of JList xs \<Rightarrow> Inr (JStr artifact \<in> set xs) | JDict d \<Rightarrow> Inr (jhas d artifact)
        | JStr t \<Rightarrow> Inr (contains artifact t) | _ \<Rightarrow> Inl type_error)"

fun removed_by_retention :: "string \<Rightarrow> event list \<Rightarrow> exn + bool" where
  "removed_by_retention artifact [] = Inr False"
| "removed_by_retention artifact (e # es) =
     (if e_event_type e \<noteq> ''observability.artifacts_removed'' then removed_by_retention artifact es
      else ebind (event_metadata e) (\<lambda>metadata. ebind (listed artifact (jget metadata ''removed_artifacts'')) (\<lambda>found.
             if found then Inr True else removed_by_retention artifact es)))"

definition artifact_state :: "log_files \<Rightarrow> world \<Rightarrow> deployment \<Rightarrow> build \<Rightarrow> string \<Rightarrow> exn + string" where
  "artifact_state fs w d b artifact =
     ebind (if artifact = ''build_log'' then build_log_available fs w d b else runtime_log_available fs w d) (\<lambda>available.
     if available then Inr ''available''
     else ebind (removed_by_retention artifact (newest_events w d)) (\<lambda>removed.
            Inr (if removed then ''retention_removed'' else ''not_produced'')))"

text \<open>The lines of a text file without their ends, and the last ones with their secrets redacted.\<close>

definition file_lines :: "string \<Rightarrow> string list" where
  "file_lines t = (let ls = split_on (CHR 0x0A) t in if last ls = [] then butlast ls else ls)"

definition read_log_tail :: "string list \<Rightarrow> nat \<Rightarrow> string \<Rightarrow> dict" where
  "read_log_tail secrets n t =
     (let ls = file_lines t
      in [(''content'', JStr (join LF (map (redact_text secrets) (drop (length ls - n) ls)))),
          (''line_count'', jnat (length ls)), (''truncated'', JBool (length ls > n))])"

definition log_view :: "log_files \<Rightarrow> (json \<Rightarrow> string) \<Rightarrow> world \<Rightarrow> deployment \<Rightarrow> dict \<Rightarrow> string \<Rightarrow> nat \<Rightarrow> exn + dict" where
  "log_view fs sh w d own p n = (case l_read fs p of
     None \<Rightarrow> Inl (OtherExn ''OSError'' ''open'')
   | Some t \<Rightarrow> Inr (jmerge (own @ [(''path'', JStr p), (''tail_lines'', jnat n)])
       (read_log_tail (shown_secrets sh w d) n t)))"

definition serialize_runtime_log_payload ::
    "log_files \<Rightarrow> (json \<Rightarrow> string) \<Rightarrow> world \<Rightarrow> deployment \<Rightarrow> string \<Rightarrow> nat \<Rightarrow> exn + dict" where
  "serialize_runtime_log_payload fs sh w d p n = log_view fs sh w d [(''deployment_id'', jnat (d_id d))] p n"

definition serialize_build_log_payload ::
    "log_files \<Rightarrow> (json \<Rightarrow> string) \<Rightarrow> world \<Rightarrow> deployment \<Rightarrow> build \<Rightarrow> string \<Rightarrow> nat \<Rightarrow> exn + dict" where
  "serialize_build_log_payload fs sh w d b p n =
     log_view fs sh w d [(''deployment_id'', jnat (d_id d)), (''build_id'', jnat (b_id b))] p n"

section \<open>Preflight\<close>

text \<open>A summary of None is shown as the text of None, as \<open>redact_text\<close> begins with \<open>str\<close>.\<close>

definition deployment_preflight_record :: "(json \<Rightarrow> string) \<Rightarrow> world \<Rightarrow> deployment \<Rightarrow> dict option" where
  "deployment_preflight_record sh w d =
     (let secrets = shown_secrets sh w d
      in if \<not> truthy (d_preflight_status d) then None
         else Some [(''status'', jopt (d_preflight_status d)),
           (''summary'', JStr (redact_text secrets (case d_preflight_summary d of None \<Rightarrow> ''None'' | Some t \<Rightarrow> t))),
           (''metadata'', redact_sensitive_data secrets (jor (d_preflight_metadata_json d) (JDict []))),
           (''completed_at'', jtime_opt (d_preflight_completed_at d))])"

text \<open>\<open>kind/name\<close> of the entries of \<open>missing_resources\<close> that have both.\<close>

definition missing_resource :: "(json \<Rightarrow> string) \<Rightarrow> json \<Rightarrow> exn + string list" where
  "missing_resource sh item = ebind (as_dict item) (\<lambda>i. Inr
     (if jtrue (jget i ''kind'') \<and> jtrue (jget i ''name'') then [sh (jget i ''kind'') @ ''/'' @ sh (jget i ''name'')] else []))"

definition missing_summary :: "(json \<Rightarrow> string) \<Rightarrow> json \<Rightarrow> exn + string" where
  "missing_summary sh missing = ebind (if jtrue missing then elements missing else Inr []) (\<lambda>items.
     ebind (emap (missing_resource sh) items) (\<lambda>names. Inr (join '', '' (concat names))))"

section \<open>Kubernetes failures\<close>

definition FAILURE_EVENTS :: "string list" where
  "FAILURE_EVENTS = [''kubernetes.preflight_failed'', ''kubernetes.manifest_apply_failed'', ''kubernetes.rollout_failed'',
     ''kubernetes.healthcheck_failed'']"

text \<open>The stage of a failure event after the preflight, and where its summary is looked for.\<close>

definition failure_sources :: "string \<Rightarrow> (string \<times> string list) option" where
  "failure_sources event_type = map_of
     [(''kubernetes.manifest_apply_failed'', ''manifest_apply'',
         [''apply_pod_logs_summary'', ''apply_pod_describe_summary'', ''apply_services_summary'', ''apply_pods_summary'']),
      (''kubernetes.rollout_failed'', ''rollout'',
         [''rollout_pod_logs_summary'', ''rollout_pod_describe_summary'', ''rollout_describe_summary'', ''rollout_pods_summary'']),
      (''kubernetes.healthcheck_failed'', ''healthcheck'',
         [''healthcheck_pod_logs_summary'', ''healthcheck_pod_describe_summary'', ''healthcheck_service_summary'',
          ''healthcheck_deployment_summary'', ''healthcheck_pods_summary''])] event_type"

definition first_set :: "dict \<Rightarrow> string list \<Rightarrow> json \<Rightarrow> json" where
  "first_set metadata keys fallback = foldr (\<lambda>key rest. jor (jget metadata key) rest) keys fallback"

text \<open>Stage, summary and missing resources of a failure event whose metadata are \<open>metadata\<close>.\<close>

definition failure_of :: "(json \<Rightarrow> string) \<Rightarrow> event \<Rightarrow> dict \<Rightarrow> exn + json \<times> json \<times> json" where
  "failure_of sh e metadata =
     (if e_event_type e = ''kubernetes.preflight_failed''
      then ebind (missing_summary sh (jget metadata ''missing_resources'')) (\<lambda>t.
             Inr (JStr ''preflight'', jor (JStr t) (jopt (e_message e)), jget metadata ''missing_resources''))
      else case failure_sources (e_event_type e) of
        Some (stage, keys) \<Rightarrow> Inr (JStr stage, first_set metadata keys (jopt (e_message e)), JNull)
      | None \<Rightarrow> Inr (JNull, JNull, JNull))"

definition preflight_failure :: "(json \<Rightarrow> string) \<Rightarrow> dict \<Rightarrow> dict \<Rightarrow> exn + json \<times> json \<times> json" where
  "preflight_failure sh record metadata = ebind (missing_summary sh (jget metadata ''missing_resources'')) (\<lambda>t.
     Inr (JStr ''preflight'', jor (JStr t) (jget record ''summary''), jget metadata ''missing_resources''))"

definition record_fields :: "dict option \<Rightarrow> exn + dict" where
  "record_fields record = (case record of None \<Rightarrow> Inr [] | Some r \<Rightarrow> as_dict (jget r ''metadata''))"

definition preflight_failed :: "dict option \<Rightarrow> bool" where
  "preflight_failed record = (case record of None \<Rightarrow> False | Some r \<Rightarrow> jget r ''status'' = JStr ''failed'')"

definition shown_metadata :: "string list \<Rightarrow> event option \<Rightarrow> exn + dict" where
  "shown_metadata secrets e = as_dict (redact_sensitive_data secrets
     (case e of None \<Rightarrow> JDict [] | Some e \<Rightarrow> jor (e_metadata_json e) (JDict [])))"

definition SUMMARY_FIELDS :: "string list" where
  "SUMMARY_FIELDS = [''kubernetes_deployment_mode'', ''kubernetes_namespace'', ''kubernetes_deployment_name'',
     ''kubernetes_service_name'', ''kubernetes_ingress_name'', ''kubernetes_ingress_host'', ''kubernetes_ingress_class'',
     ''internal_service_url'', ''last_kubernetes_failure_stage'', ''last_kubernetes_failure_summary'',
     ''last_kubernetes_failure_missing_resources'']"

definition kubernetes_summary_fields :: "(json \<Rightarrow> string) \<Rightarrow> world \<Rightarrow> deployment \<Rightarrow> exn + dict" where
  "kubernetes_summary_fields sh w d =
     (let record = deployment_preflight_record sh w d;
          apply_event = latest_of w d [''deployment.apply_succeeded'', ''kubernetes.healthcheck_succeeded'',
                ''kubernetes.healthcheck_failed''];
          failure_event = latest_of w d FAILURE_EVENTS
      in if d_deploy_target d \<noteq> Some ''kubernetes'' then Inr (map (\<lambda>key. (key, JNull)) SUMMARY_FIELDS)
         else
           ebind (shown_metadata (shown_secrets sh w d) (if failure_event = None then apply_event else failure_event)) (\<lambda>own.
           ebind (record_fields record) (\<lambda>before.
           let metadata = (if jtrue (jget before ''namespace'') then jmerge before own else own)
           in ebind (if preflight_failed record then preflight_failure sh (the record) before
                     else case failure_event of None \<Rightarrow> Inr (JNull, JNull, JNull) | Some e \<Rightarrow> failure_of sh e metadata)
                (\<lambda>(stage, failure_summary, missing). Inr
                  [(''kubernetes_deployment_mode'', jopt (kubernetes_deployment_mode w d)),
                   (''kubernetes_namespace'', jor (jopt (kubernetes_namespace w d)) (jget metadata ''namespace'')),
                   (''kubernetes_deployment_name'', jor (jopt (d_kubernetes_deployment_name d)) (jget metadata ''deployment_name'')),
                   (''kubernetes_service_name'', jor (jopt (d_kubernetes_service_name d)) (jget metadata ''service_name'')),
                   (''kubernetes_ingress_name'', jor (jopt (d_kubernetes_ingress_name d)) (jget metadata ''ingress_name'')),
                   (''kubernetes_ingress_host'', jget metadata ''ingress_host''),
                   (''kubernetes_ingress_class'', jget metadata ''ingress_class''),
                   (''internal_service_url'', jget metadata ''internal_service_url''),
                   (''last_kubernetes_failure_stage'', stage),
                   (''last_kubernetes_failure_summary'', failure_summary),
                   (''last_kubernetes_failure_missing_resources'', missing)]))))"

definition helm_summary_fields :: "deployment \<Rightarrow> dict" where
  "helm_summary_fields d = [(''helm_release_name'', jopt (d_helm_release_name d)),
     (''helm_namespace'', jopt (d_helm_namespace d)), (''helm_chart_path'', jopt (d_helm_chart_path d))]"

definition latest_kubernetes_failure_event :: "world \<Rightarrow> deployment \<Rightarrow> event option" where
  "latest_kubernetes_failure_event w d =
     (if d_preflight_status d = Some ''failed'' then None else latest_of w d FAILURE_EVENTS)"

definition HELM_DIAGNOSTIC_EVENTS :: "string list" where
  "HELM_DIAGNOSTIC_EVENTS = [''kubernetes.helm_deploy_failed'', ''kubernetes.helm_uninstall_failed'',
     ''reconcile.helm_release_missing'', ''reconcile.helm_cleanup_failed'']"

definition latest_helm_diagnostic_event :: "world \<Rightarrow> deployment \<Rightarrow> event option" where
  "latest_helm_diagnostic_event w d = latest_of w d HELM_DIAGNOSTIC_EVENTS"

definition helm_failure_summary :: "event \<Rightarrow> dict \<Rightarrow> json" where
  "helm_failure_summary e metadata = first_set metadata
     [''helm_stderr_summary'', ''helm_stdout_summary'', ''error_message'', ''summary''] (jopt (e_message e))"

definition kubernetes_failure_stage_and_summary ::
    "(json \<Rightarrow> string) \<Rightarrow> world \<Rightarrow> deployment \<Rightarrow> event option \<Rightarrow> exn + json \<times> json" where
  "kubernetes_failure_stage_and_summary sh w d failure_event = (case failure_event of
     None \<Rightarrow> Inr (JNull, JNull)
   | Some e \<Rightarrow> ebind (shown_metadata (shown_secrets sh w d) (Some e)) (\<lambda>metadata.
       ebind (failure_of sh e metadata) (\<lambda>(stage, failure_summary, missing). Inr (stage, failure_summary))))"

definition helm_diagnostic_fields :: "deployment \<Rightarrow> dict \<Rightarrow> dict" where
  "helm_diagnostic_fields d metadata =
     [(''helm_release_name'', jor (jget metadata ''helm_release_name'') (jopt (d_helm_release_name d))),
      (''helm_namespace'', jor (jget metadata ''namespace'') (jopt (d_helm_namespace d))),
      (''helm_chart_path'', jor (jget metadata ''chart_path'') (jopt (d_helm_chart_path d))),
      (''helm_returncode'', jget metadata ''helm_returncode''),
      (''helm_stdout_summary'', jget metadata ''helm_stdout_summary''),
      (''helm_stderr_summary'', jget metadata ''helm_stderr_summary''),
      (''helm_log_path'', jget metadata ''helm_log_path''),
      (''helm_release_status'', jget metadata ''release_status'')]"

section \<open>Kubernetes diagnostics\<close>

definition copied :: "dict \<Rightarrow> string list \<Rightarrow> dict" where
  "copied metadata keys = map (\<lambda>key. (key, jget metadata key)) keys"

text \<open>The diagnostics of a deployment whose preflight failed.\<close>

definition preflight_diagnostics :: "(json \<Rightarrow> string) \<Rightarrow> deployment \<Rightarrow> dict \<Rightarrow> exn + dict" where
  "preflight_diagnostics sh d record = ebind (as_dict (jget record ''metadata'')) (\<lambda>metadata.
     ebind (preflight_failure sh record metadata) (\<lambda>(stage, failure_summary, missing). Inr (jmerge
       ([(''deployment_id'', jnat (d_id d)), (''deploy_target'', jopt (d_deploy_target d)),
         (''namespace'', jor (jget metadata ''namespace'') (jopt (d_helm_namespace d)))]
        @ copied metadata [''deployment_name'', ''service_name'']
        @ [(''failure_stage'', stage), (''failure_summary'', failure_summary),
           (''failure_event_type'', JStr ''deployment.preflight_failed''),
           (''failure_event_at'', jget record ''completed_at''), (''diagnostics_snapshot_at'', jget record ''completed_at''),
           (''missing_resources'', missing)]
        @ copied metadata [''checked_resources'', ''configmap_refs_used'', ''secret_refs_used'', ''image_pull_secret'']
        @ [(''pod_names'', JNull), (''pod_describe_summary'', JNull), (''pod_logs_summary'', JNull),
           (''diagnostics'', JDict metadata)])
       (helm_diagnostic_fields d metadata))))"

definition not_before :: "event \<Rightarrow> event \<Rightarrow> bool" where
  "not_before e e' \<longleftrightarrow> e_created_at e' < e_created_at e \<or> (e_created_at e = e_created_at e' \<and> e_id e' \<le> e_id e)"

text \<open>The failure event, the event whose metadata are shown, the metadata, stage and summary.\<close>

definition diagnostics_source ::
    "(json \<Rightarrow> string) \<Rightarrow> world \<Rightarrow> deployment \<Rightarrow> exn + event option \<times> event option \<times> dict \<times> json \<times> json" where
  "diagnostics_source sh w d =
     (let failure_event = latest_kubernetes_failure_event w d;
          secrets = shown_secrets sh w d
      in ebind (kubernetes_failure_stage_and_summary sh w d failure_event) (\<lambda>(stage, failure_summary).
         case latest_helm_diagnostic_event w d of
           Some helm_event \<Rightarrow>
             if failure_event = None \<or> not_before helm_event (the failure_event)
             then ebind (shown_metadata secrets (Some helm_event)) (\<lambda>metadata.
                    Inr (Some helm_event, Some helm_event, metadata, JStr ''helm'', helm_failure_summary helm_event metadata))
             else ebind (shown_metadata secrets failure_event) (\<lambda>metadata.
                    Inr (failure_event, failure_event, metadata, stage, failure_summary))
         | None \<Rightarrow>
             let source = (if failure_event = None then latest_of w d [''kubernetes.healthcheck_succeeded''] else failure_event)
             in ebind (shown_metadata secrets source) (\<lambda>metadata. Inr (failure_event, source, metadata, stage, failure_summary))))"

definition stage_field :: "dict \<Rightarrow> string \<Rightarrow> string \<times> string \<Rightarrow> string \<times> json" where
  "stage_field metadata stage = (\<lambda>(key, suffix). (key, jget metadata (stage @ ''_'' @ suffix)))"

definition POD_FIELDS :: "(string \<times> string) list" where
  "POD_FIELDS = [(''deployment_describe_summary'', ''deployment_summary''), (''service_describe_summary'', ''service_summary''),
     (''pod_names'', ''pod_names''), (''pod_phase'', ''pod_phase''), (''container_reason'', ''container_reason''),
     (''restart_count'', ''restart_count''), (''images'', ''images''), (''image_pull_secrets'', ''image_pull_secrets''),
     (''pod_runtime'', ''pod_runtime'')]"

definition FAILED_POD_FIELDS :: "string list" where
  "FAILED_POD_FIELDS = [''pod_describe_summary'', ''pod_logs_summary'', ''pod_previous_logs_summary'']"

definition POD_STAGES :: "string list" where
  "POD_STAGES = [''manifest_apply'', ''rollout'', ''healthcheck'', ''helm'']"

definition event_diagnostics ::
    "deployment \<Rightarrow> event option \<times> event option \<times> dict \<times> json \<times> json \<Rightarrow> dict" where
  "event_diagnostics d = (\<lambda>(failure_event, source, metadata, stage, failure_summary).
     let known = stage \<in> JStr ` set POD_STAGES;
         pod_stage = (if known then text_of stage else ''healthcheck'');
         snapshot_at = jor (jget metadata ''diagnostics_collected_at'') (jtime_opt (map_option e_created_at source))
     in jmerge
       ([(''deployment_id'', jnat (d_id d)), (''deploy_target'', jopt (d_deploy_target d)),
         (''namespace'', jor (jget metadata ''namespace'') (jopt (d_helm_namespace d)))]
        @ copied metadata [''deployment_name'', ''service_name'', ''ingress_name'', ''ingress_host'', ''ingress_class'',
            ''internal_service_url'']
        @ [(''failure_stage'', stage), (''failure_summary'', failure_summary),
           (''failure_event_type'', jopt (map_option e_event_type failure_event)),
           (''failure_event_at'', jtime_opt (map_option e_created_at failure_event)),
           (''diagnostics_snapshot_at'', snapshot_at)]
        @ copied metadata [''missing_resources'', ''checked_resources'', ''configmap_refs_used'', ''secret_refs_used'',
            ''image_pull_secret'', ''diagnostics_collected_at'', ''diagnostics_collection_status'']
        @ [(''diagnostics_collection_errors'',
              if jhas metadata ''diagnostics_collection_errors'' then jget metadata ''diagnostics_collection_errors''
              else JList [])]
        @ map (stage_field metadata pod_stage) POD_FIELDS
        @ map (\<lambda>key. if known then stage_field metadata pod_stage (key, key) else (key, JNull)) FAILED_POD_FIELDS
        @ [(''diagnostics'', JDict metadata)])
       (helm_diagnostic_fields d metadata))"

definition serialize_kubernetes_diagnostics :: "(json \<Rightarrow> string) \<Rightarrow> world \<Rightarrow> deployment \<Rightarrow> exn + dict option" where
  "serialize_kubernetes_diagnostics sh w d =
     (let record = deployment_preflight_record sh w d
      in if d_deploy_target d \<noteq> Some ''kubernetes'' then Inr None
         else if preflight_failed record
         then ebind (preflight_diagnostics sh d (the record)) (\<lambda>diagnostics. Inr (Some diagnostics))
         else ebind (diagnostics_source sh w d) (\<lambda>source. Inr (Some (event_diagnostics d source))))"

section \<open>Summaries\<close>

definition shown_event :: "string list \<Rightarrow> event option \<Rightarrow> json" where
  "shown_event secrets e = (case e of None \<Rightarrow> JNull | Some e \<Rightarrow> JDict
     [(''event_type'', JStr (e_event_type e)), (''step'', jopt (e_step e)), (''status'', JStr (e_status e)),
      (''message'', shown_text secrets (e_message e)), (''created_at'', JTime (e_created_at e))])"

definition current_step :: "world \<Rightarrow> deployment \<Rightarrow> string" where
  "current_step w d = or_str (case latest_meaningful_event w d of None \<Rightarrow> None | Some e \<Rightarrow> e_step e)
     (dep_status_name (d_status d))"

definition push_fields :: "string list \<Rightarrow> event option \<Rightarrow> exn + dict" where
  "push_fields secrets e = as_dict (redact_sensitive_data secrets
     (case e of None \<Rightarrow> JDict [] | Some e \<Rightarrow> e_metadata_json e))"

definition serialize_deployment_summary ::
    "log_files \<Rightarrow> (json \<Rightarrow> string) \<Rightarrow> world \<Rightarrow> deployment \<Rightarrow> build \<Rightarrow> json \<Rightarrow> exn + dict" where
  "serialize_deployment_summary fs sh w d b branch =
     (let secrets = shown_secrets sh w d
      in ebind (push_fields secrets (latest_push_event w d)) (\<lambda>push.
         ebind (build_log_available fs w d b) (\<lambda>build_available.
         ebind (runtime_log_available fs w d) (\<lambda>runtime_available.
         ebind (artifact_state fs w d b ''build_log'') (\<lambda>build_state.
         ebind (artifact_state fs w d b ''runtime_log'') (\<lambda>runtime_state.
         ebind (deployment_creation_context w d) (\<lambda>context.
         ebind (kubernetes_summary_fields sh w d) (\<lambda>kubernetes. Inr (jmerge (jmerge (jmerge
           [(''deployment_id'', jnat (d_id d)), (''deployment_status'', JStr (dep_status_name (d_status d))),
            (''build_id'', jnat (b_id b)), (''build_status'', JStr (build_status_name (b_status b))),
            (''current_step'', JStr (current_step w d)),
            (''last_meaningful_event'', shown_event secrets (latest_meaningful_event w d)),
            (''last_error'', shown_text secrets (or_else (d_last_error d) (b_last_error b))),
            (''branch'', branch), (''commit_sha'', JStr (b_commit_sha b)), (''image_tag'', jopt (b_image_tag b)),
            (''image_ref'', jopt (b_image_ref b)), (''registry_push_status'', jopt (b_registry_push_status b)),
            (''push_log_available'', JBool (jtrue (jget push ''push_log_available''))),
            (''last_push_error_summary'', jor (jget push ''error_message'') (jget push ''push_summary'')),
            (''service_url'', jopt (d_service_url d)), (''deploy_target'', jopt (d_deploy_target d)),
            (''build_log_available'', JBool build_available), (''runtime_log_available'', JBool runtime_available),
            (''build_log_state'', JStr build_state), (''runtime_log_state'', JStr runtime_state),
            (''started_at'', jtime_opt (d_started_at d)), (''finished_at'', jtime_opt (d_finished_at d)),
            (''created_at'', JTime (d_created_at d)), (''updated_at'', JTime (d_updated_at d)),
            (''events'', JList (map (\<lambda>e. JDict (event_to_dict sh w e)) (rev (recent_deployment_events w d 5))))]
           context) kubernetes) (helm_summary_fields d)))))))))) "

section \<open>Routes\<close>

definition viewed :: "exn + 'a \<Rightarrow> ('a \<Rightarrow> response proc) \<Rightarrow> response proc" where
  "viewed view k = bind (lift view) k"

text \<open>
  The two log routes, for \<open>kind\<close> runtime or build: the path is checked before the file is
  asked for, and the file before the query argument.
\<close>

definition log_route ::
    "log_files \<Rightarrow> string \<Rightarrow> string option \<Rightarrow> exn + string option \<Rightarrow> (string \<Rightarrow> nat \<Rightarrow> exn + dict) \<Rightarrow> response proc" where
  "log_route fs kind tail_arg log_path payload = viewed log_path (\<lambda>p. case p of
     None \<Rightarrow> ret (404, [(''error'', JStr (''No '' @ kind @ '' log is available for this deployment''))])
   | Some p \<Rightarrow> viewed (is_safe_log_path fs p) (\<lambda>safe.
       if \<not> safe then ret (409, [(''error'', JStr (capitalize kind @ '' log path is outside allowed log roots''))])
       else if \<not> l_is_file fs p
       then ret (404, [(''error'', JStr (capitalize kind @ '' log file does not exist'')), (''path'', JStr p)])
       else case parse_limit_arg tail_arg ''tail_lines'' 200 1 2000 of
           Inl e \<Rightarrow> ret e
         | Inr n \<Rightarrow> viewed (payload p (nat n)) (\<lambda>shown. ret (200, shown))))"

definition get_project_deployment_runtime_log ::
    "log_files \<Rightarrow> http \<Rightarrow> nat \<Rightarrow> nat \<Rightarrow> string option \<Rightarrow> response proc" where
  "get_project_deployment_runtime_log fs r pid did tail_arg = with_deployment pid did (\<lambda>d b.
     bind (query (\<lambda>w. w)) (\<lambda>w. log_route fs ''runtime'' tail_arg (get_runtime_log_path w d)
       (serialize_runtime_log_payload fs (t_shown r) w d)))"

definition get_project_deployment_build_log ::
    "log_files \<Rightarrow> http \<Rightarrow> nat \<Rightarrow> nat \<Rightarrow> string option \<Rightarrow> response proc" where
  "get_project_deployment_build_log fs r pid did tail_arg = with_deployment pid did (\<lambda>d b.
     bind (query (\<lambda>w. w)) (\<lambda>w. log_route fs ''build'' tail_arg (get_build_log_path w d b)
       (serialize_build_log_payload fs (t_shown r) w d b)))"

definition get_project_deployment_summary :: "log_files \<Rightarrow> http \<Rightarrow> nat \<Rightarrow> nat \<Rightarrow> response proc" where
  "get_project_deployment_summary fs r pid did = with_deployment pid did (\<lambda>d b.
     bind (query (\<lambda>w. serialize_deployment_summary fs (t_shown r) w d b (get_deployment_branch w d)))
       (\<lambda>view. viewed view (\<lambda>shown. ret (200, shown))))"

definition get_project_deployment_kubernetes_diagnostics :: "http \<Rightarrow> nat \<Rightarrow> nat \<Rightarrow> response proc" where
  "get_project_deployment_kubernetes_diagnostics r pid did = with_deployment pid did (\<lambda>d b.
     bind (query (\<lambda>w. serialize_kubernetes_diagnostics (t_shown r) w d)) (\<lambda>view. viewed view (\<lambda>shown. case shown of
       None \<Rightarrow> ret (404, [(''error'', JStr ''Deployment does not use the Kubernetes target'')])
     | Some diagnostics \<Rightarrow> ret (200, diagnostics))))"

section \<open>Lemmas\<close>

text \<open>
  \<open>same_inside fs fs'\<close>: the two file systems resolve paths alike and agree on every path that
  resolves to an allowed root or to something below it; elsewhere they may differ.
\<close>

definition same_inside :: "log_files \<Rightarrow> log_files \<Rightarrow> bool" where
  "same_inside fs fs' \<longleftrightarrow> l_roots fs' = l_roots fs \<and> l_resolve fs' = l_resolve fs
     \<and> (\<forall>p root below. root \<in> set (l_roots fs) \<longrightarrow> l_resolve fs p = Some (root @ below) \<longrightarrow>
          l_is_file fs' p = l_is_file fs p \<and> l_read fs' p = l_read fs p)"

lemma same_inside_safe: "same_inside fs fs' \<Longrightarrow> is_safe_log_path fs' p = is_safe_log_path fs p"
  unfolding same_inside_def is_safe_log_path_def by (simp split: option.splits)

lemma safe_log_path:
  assumes "is_safe_log_path fs p = Inr True"
  obtains root below where "root \<in> set (l_roots fs)" "l_resolve fs p = Some (root @ below)"
  using assms by (auto simp: is_safe_log_path_def list_ex_iff prefix_def split: option.splits)

lemma log_route_inside:
  assumes "same_inside fs fs'" "\<And>p n. l_read fs' p = l_read fs p \<Longrightarrow> payload' p n = payload p n"
  shows "log_route fs' kind arg log_path payload' = log_route fs kind arg log_path payload"
proof -
  have agree: "l_is_file fs' p = l_is_file fs p \<and> payload' p = payload p" if "is_safe_log_path fs p = Inr True" for p
    using safe_log_path [OF that] assms unfolding same_inside_def by (metis ext)
  show ?thesis
  proof (cases log_path)
    case (Inr q)
    show ?thesis
    proof (cases q)
      case (Some p)
      then show ?thesis using Inr agree [of p]
        by (cases "is_safe_log_path fs p")
          (auto simp: log_route_def viewed_def bind_def lift_def fun_eq_iff same_inside_safe [OF assms(1)] split: sum.split)
    qed (simp add: Inr log_route_def viewed_def bind_def lift_def fun_eq_iff)
  qed (simp add: log_route_def viewed_def bind_def lift_def fun_eq_iff)
qed

lemma log_view_inside: "l_read fs' p = l_read fs p \<Longrightarrow> log_view fs' sh w d own p n = log_view fs sh w d own p n"
  by (simp add: log_view_def)

text \<open>A text without line ends occurs in a join of lines only inside a line.\<close>

lemma contains_join:
  assumes "c \<notin> set v" "v \<noteq> []"
  shows "contains v (join [c] ls) \<Longrightarrow> \<exists>l \<in> set ls. contains v l"
proof (induction "[c]" ls rule: join.induct)
  case (3 x y ys)
  then show ?case using contains_apart [OF assms, of x "join [c] (y # ys)"] by auto
qed (use assms in auto)

lemma redact_text_hides:
  assumes "v \<in> set secrets" "v \<noteq> []" "avoids v REDACTED"
  shows "\<forall>l \<in> set (map (redact_text secrets) ls). \<not> contains v l"
  using redact_text_removes_secret [OF assms] by auto

text \<open>A line stays one line when it is redacted, and joining lines adds the line ends between them.\<close>

lemma redact_text_one_line: "CHR 0x0A \<notin> set l \<Longrightarrow> CHR 0x0A \<notin> set (redact_text secrets l)"
proof -
  have one: "contains [CHR 0x0A] t \<longleftrightarrow> CHR 0x0A \<in> set t" for t
    by (auto simp: contains_iff in_set_conv_decomp)
  show "CHR 0x0A \<notin> set l \<Longrightarrow> CHR 0x0A \<notin> set (redact_text secrets l)"
    using redact_text_keeps_absent [of "[CHR 0x0A]" l secrets] by (simp add: one avoids_def REDACTED_def)
qed

lemma file_lines_one_line: "l \<in> set (file_lines t) \<Longrightarrow> CHR 0x0A \<notin> set l"
  by (auto simp: file_lines_def Let_def dest: in_set_butlastD split_on_no_sep split: if_splits)

lemma count_join: "\<forall>l \<in> set ls. c \<notin> set l \<Longrightarrow> count_list (join [c] ls) c = length ls - 1"
  by (induction "[c]" ls rule: join.induct) (auto simp: count_notin)

lemma log_view_hides:
  assumes "log_view fs sh w d own p n = Inr out"
    and "v \<in> set (shown_secrets sh w d)" "v \<noteq> []" "CHR 0x0A \<notin> set v" "avoids v REDACTED"
  shows "\<exists>content. jget out ''content'' = JStr content \<and> count_list content (CHR 0x0A) \<le> n - 1
    \<and> \<not> contains v content"
proof -
  obtain t where out: "out = jmerge (own @ [(''path'', JStr p), (''tail_lines'', jnat n)])
      (read_log_tail (shown_secrets sh w d) n t)"
    using assms(1) by (auto simp: log_view_def split: option.splits)
  let ?ls = "map (redact_text (shown_secrets sh w d)) (drop (length (file_lines t) - n) (file_lines t))"
  have "jget out ''content'' = JStr (join LF ?ls)"
    by (simp add: out jget_jmerge read_log_tail_def Let_def)
  moreover have "\<not> contains v (join LF ?ls)"
    using contains_join [OF assms(4,3)] redact_text_hides [OF assms(2,3,5)] unfolding LF_def by blast
  moreover have "\<forall>l \<in> set ?ls. CHR 0x0A \<notin> set l"
    using redact_text_one_line file_lines_one_line in_set_dropD by fastforce
  then have "count_list (join LF ?ls) (CHR 0x0A) \<le> n - 1"
    unfolding LF_def by (subst count_join) auto
  ultimately show ?thesis by blast
qed

text \<open>The event that a view takes is the newest of its kinds.\<close>

lemma insort_key_keeps_order:
  assumes "sorted_wrt (\<lambda>x y. f x < f y \<or> (f x = f y \<and> g x \<le> g y)) ys" "\<forall>y \<in> set ys. g x \<le> g y"
  shows "sorted_wrt (\<lambda>x y. f x < (f y :: int) \<or> (f x = f y \<and> g x \<le> (g y :: nat))) (insort_key f x ys)"
  using assms by (induction ys) (force simp: set_insort_key)+

lemma sort_key_keeps_order:
  "sorted_wrt (\<lambda>x y. g x \<le> g y) xs \<Longrightarrow>
    sorted_wrt (\<lambda>x y. f x < (f y :: int) \<or> (f x = f y \<and> g x \<le> (g y :: nat))) (sort_key f xs)"
  by (induction xs) (simp_all add: insort_key_keeps_order)

lemma newest_events_sorted: "sorted_wrt not_before (newest_events w d)"
proof -
  have "sorted_wrt (\<lambda>x y. e_id x \<le> e_id y) (sort_key e_id (events_of w (d_id d)))"
    using sorted_sort_key [of e_id "events_of w (d_id d)"] by (simp add: sorted_map)
  from sort_key_keeps_order [OF this, of e_created_at] show ?thesis
    by (auto simp: newest_events_def oldest_events_def sorted_wrt_rev not_before_def elim!: sorted_wrt_mono_rel [rotated])
qed

lemma find_sorted:
  assumes "find P xs = Some x" "sorted_wrt R xs" "y \<in> set xs" "P y" "R x x"
  shows "R x y"
  using assms by (induction xs) (auto split: if_splits)

lemma newest_events_set: "set (newest_events w d) = set (events_of w (d_id d))"
  by (simp add: newest_events_def oldest_events_def)

lemma latest_of_newest:
  assumes "latest_of w d types = Some e"
  shows "e \<in> set (events_of w (d_id d)) \<and> e_event_type e \<in> set types
    \<and> (\<forall>e' \<in> set (events_of w (d_id d)). e_event_type e' \<in> set types \<longrightarrow> not_before e e')"
proof -
  have "not_before e e" by (simp add: not_before_def)
  then show ?thesis using assms find_sorted [OF assms [unfolded latest_of_def] newest_events_sorted]
    unfolding latest_of_def find_Some_iff newest_events_set [symmetric] by (metis nth_mem)
qed

lemma latest_of_None:
  "latest_of w d types = None \<longleftrightarrow> (\<forall>e \<in> set (events_of w (d_id d)). e_event_type e \<notin> set types)"
  by (auto simp: latest_of_def find_None_iff newest_events_set)

lemma event_diagnostics_event:
  "jget (event_diagnostics d (Some e, source, metadata, stage, failure_summary)) ''failure_event_type'' = JStr (e_event_type e)"
  "jget (event_diagnostics d (Some e, source, metadata, stage, failure_summary)) ''failure_event_at'' = JTime (e_created_at e)"
  by (simp_all add: event_diagnostics_def Let_def jget_jmerge helm_diagnostic_fields_def copied_def jopt_def jtime_opt_def)

definition failure_kinds :: "string list" where
  "failure_kinds = FAILURE_EVENTS @ HELM_DIAGNOSTIC_EVENTS"

definition latest_failure :: "world \<Rightarrow> deployment \<Rightarrow> event \<Rightarrow> bool" where
  "latest_failure w d e \<longleftrightarrow> e \<in> set (events_of w (d_id d)) \<and> e_event_type e \<in> set failure_kinds
     \<and> (\<forall>e' \<in> set (events_of w (d_id d)). e_event_type e' \<in> set failure_kinds \<longrightarrow> not_before e e')"

lemma not_before_trans: "not_before x y \<Longrightarrow> not_before y z \<Longrightarrow> not_before x z"
  by (auto simp: not_before_def)

lemma not_before_total: "not_before x y \<or> not_before y x"
  by (auto simp: not_before_def)

lemma later_failure:
  assumes "latest_of w d kinds = Some e" "set failure_kinds = set kinds \<union> set other"
    and "\<And>e'. e' \<in> set (events_of w (d_id d)) \<Longrightarrow> e_event_type e' \<in> set other \<Longrightarrow> not_before e e'"
  shows "latest_failure w d e"
  using latest_of_newest [OF assms(1)] assms(2,3) unfolding latest_failure_def by blast

lemma diagnostics_source_latest:
  assumes "diagnostics_source sh w d = Inr (failure_event, rest)" "d_preflight_status d \<noteq> Some ''failed''"
    and "e \<in> set (events_of w (d_id d))" "e_event_type e \<in> set failure_kinds"
  shows "\<exists>e'. failure_event = Some e' \<and> latest_failure w d e'"
proof -
  let ?f = "latest_of w d FAILURE_EVENTS" and ?h = "latest_of w d HELM_DIAGNOSTIC_EVENTS"
  have kinds: "set failure_kinds = set FAILURE_EVENTS \<union> set HELM_DIAGNOSTIC_EVENTS"
    "set failure_kinds = set HELM_DIAGNOSTIC_EVENTS \<union> set FAILURE_EVENTS" by (auto simp: failure_kinds_def)
  have chosen: "failure_event = (case ?h of None \<Rightarrow> ?f
      | Some h \<Rightarrow> if ?f = None \<or> not_before h (the ?f) then Some h else ?f)"
    using assms(1,2) by (cases ?f; cases ?h) (auto simp: diagnostics_source_def Let_def ebind_def latest_kubernetes_failure_event_def
        latest_helm_diagnostic_event_def split: sum.splits option.splits if_splits)
  show ?thesis
  proof (cases ?h)
    case None
    then obtain f where f: "?f = Some f" using assms(3,4) kinds latest_of_None by (metis UnE not_None_eq)
    then have "latest_failure w d f" using None later_failure [OF f kinds(1)] latest_of_None by metis
    then show ?thesis using None f chosen by simp
  next
    case (Some h)
    note h = latest_of_newest [OF Some]
    show ?thesis
    proof (cases ?f)
      case None
      then have "latest_failure w d h" using later_failure [OF Some kinds(2)] latest_of_None by metis
      then show ?thesis using None Some chosen by simp
    next
      case f: (Some f)
      note newest = latest_of_newest [OF f]
      have "not_before h f \<Longrightarrow> latest_failure w d h"
        using later_failure [OF Some kinds(2)] newest not_before_trans by metis
      moreover have "\<not> not_before h f \<Longrightarrow> latest_failure w d f"
        using later_failure [OF f kinds(1)] h not_before_trans not_before_total by metis
      ultimately show ?thesis using Some f chosen by auto
    qed
  qed
qed

text \<open>A failed preflight is reported before any event.\<close>

lemma failed_preflight_reported:
  assumes "serialize_kubernetes_diagnostics sh w d = Inr (Some out)" "d_preflight_status d = Some ''failed''"
  shows "jget out ''failure_event_type'' = JStr ''deployment.preflight_failed''
    \<and> jget out ''failure_event_at'' = jtime_opt (d_preflight_completed_at d)"
proof -
  obtain before where before: "deployment_preflight_record sh w d = Some before"
      "jget before ''status'' = JStr ''failed''" "jget before ''completed_at'' = jtime_opt (d_preflight_completed_at d)"
    using assms(2) by (simp add: deployment_preflight_record_def Let_def jopt_def)
  then have "preflight_diagnostics sh d before = Inr out"
    using assms(1) by (auto simp: serialize_kubernetes_diagnostics_def preflight_failed_def Let_def ebind_def
        split: sum.splits if_splits)
  then show ?thesis
    using before(3) by (auto simp: preflight_diagnostics_def ebind_def jget_jmerge helm_diagnostic_fields_def
        copied_def split: sum.splits)
qed

end
