(* ===== verification/Project_Views.thy ===== *)
theory Project_Views
  imports Deployment_Views
begin

text \<open>
  \<open>application/projects/read_models.py\<close>: the status of the platform and of a project, and
  the feeds of recent deployments and webhook deliveries, with the routes of
  \<open>api/projects.py\<close> that answer with them. A query is a filter of the rows with its order
  and limit; \<open>sh\<close> is \<open>str()\<close> of a JSON value. Every key of the configuration is set, as
  \<open>config.py\<close> does. The lemmas say in which order a feed lists the rows, and that following
  its cursor shows all of them.
\<close>

section \<open>Status of the platform\<close>

definition current_executor_name :: "api \<Rightarrow> string" where
  "current_executor_name a = lower (strip (or_str (v_executor (api_venv a)) []))"

definition local_repo_paths_allowed :: "api \<Rightarrow> bool" where
  "local_repo_paths_allowed a \<longleftrightarrow> lower (strip (config_text a ''CONTROL_PLANE_ENV'')) = ''development''"

definition registry_missing_settings :: "api \<Rightarrow> string list" where
  "registry_missing_settings a = filter (\<lambda>key. strip (config_text a key) = [])
     [''CONTROL_PLANE_REGISTRY_URL'', ''CONTROL_PLANE_REGISTRY_NAMESPACE'']"

text \<open>\<open>as_dict\<close> of the contract of each executor class; a field that is not given has its default.\<close>

definition contract_as_dict ::
    "string \<Rightarrow> string \<Rightarrow> string \<Rightarrow> string \<Rightarrow> bool \<Rightarrow> bool \<Rightarrow> bool \<Rightarrow> string list \<Rightarrow> string list \<Rightarrow> string list \<Rightarrow> dict" where
  "contract_as_dict name deploy_target runtime strategy push logs reconciliation resources required optional =
     [(''name'', JStr name), (''deploy_target'', JStr deploy_target), (''runtime'', JStr runtime),
      (''healthcheck_strategy'', JStr strategy), (''requires_registry_push'', JBool push),
      (''supports_runtime_logs'', JBool logs), (''supports_runtime_reconciliation'', JBool reconciliation),
      (''managed_resources'', JList (map JStr resources)), (''required_config'', JList (map JStr required)),
      (''optional_config'', JList (map JStr optional))]"

definition fake_contract :: dict where
  "fake_contract = contract_as_dict ''fake'' ''fake'' ''simulated'' ''simulated'' False False False [] [] []"

definition local_docker_contract :: dict where
  "local_docker_contract = contract_as_dict ''local-docker'' ''local-docker'' ''container'' ''direct-http'' False True True
     [''docker-image'', ''docker-container''] []
     [''CONTROL_PLANE_REGISTRY_ENABLED'', ''CONTROL_PLANE_REGISTRY_URL'', ''CONTROL_PLANE_REGISTRY_NAMESPACE'',
      ''CONTROL_PLANE_REGISTRY_USERNAME'', ''CONTROL_PLANE_REGISTRY_PASSWORD'', ''CONTROL_PLANE_DEPLOY_HOST'',
      ''CONTROL_PLANE_HEALTHCHECK_TIMEOUT_SECONDS'', ''CONTROL_PLANE_HEALTHCHECK_INTERVAL_SECONDS'',
      ''CONTROL_PLANE_CLAIM_REFRESH_INTERVAL_SECONDS'']"

definition kubernetes_contract :: dict where
  "kubernetes_contract = contract_as_dict ''kubernetes'' ''kubernetes'' ''kubernetes'' ''service-port-forward'' True True True
     [''docker-image'', ''kubernetes-deployment'', ''kubernetes-service'', ''kubernetes-ingress'']
     [''CONTROL_PLANE_REGISTRY_ENABLED=true'', ''CONTROL_PLANE_REGISTRY_URL'', ''CONTROL_PLANE_REGISTRY_NAMESPACE'',
      ''CONTROL_PLANE_KUBECONFIG'']
     [''CONTROL_PLANE_K8S_NAMESPACE'', ''CONTROL_PLANE_K8S_IMAGE_PULL_SECRET'', ''CONTROL_PLANE_K8S_DEPLOYMENT_MODE'',
      ''CONTROL_PLANE_K8S_HELM_CHART_PATH'', ''CONTROL_PLANE_K8S_HELM_BINARY'', ''CONTROL_PLANE_K8S_HELM_TIMEOUT'',
      ''CONTROL_PLANE_K8S_INGRESS_ENABLED'', ''CONTROL_PLANE_K8S_INGRESS_CLASS_NAME'', ''CONTROL_PLANE_K8S_INGRESS_BASE_DOMAIN'',
      ''CONTROL_PLANE_REGISTRY_USERNAME'', ''CONTROL_PLANE_REGISTRY_PASSWORD'', ''CONTROL_PLANE_HEALTHCHECK_TIMEOUT_SECONDS'', ''CONTROL_PLANE_HEALTHCHECK_INTERVAL_SECONDS'', ''CONTROL_PLANE_CLAIM_REFRESH_INTERVAL_SECONDS'']"

text \<open>The contract that \<open>executor_contract_for_name\<close> finds, in full.\<close>

definition full_contract :: "contract \<Rightarrow> dict" where
  "full_contract k = (if k_name k = ''fake'' then fake_contract
     else if k_name k = ''local-docker'' then local_docker_contract else kubernetes_contract)"

definition kubernetes_deployment_prereq_missing_settings :: "venv \<Rightarrow> string + string list" where
  "kubernetes_deployment_prereq_missing_settings e = (case kubernetes_project_validation_enabled e of
     Inl err \<Rightarrow> Inl err
   | Inr enabled \<Rightarrow> if enabled then executor_deployment_prereq_missing_settings e (Some ''kubernetes'') else Inr [])"

text \<open>An unsupported executor raises RuntimeError.\<close>

definition checked_config :: "string + 'a \<Rightarrow> exn + 'a" where
  "checked_config v = (case v of Inl e \<Rightarrow> Inl (OtherExn ''RuntimeError'' e) | Inr x \<Rightarrow> Inr x)"

definition configured_api_roles :: "token_config list \<Rightarrow> role list" where
  "configured_api_roles ks = filter (\<lambda>role. role \<in> tk_role ` set ks) roles"

definition or_null :: "string \<Rightarrow> json" where
  "or_null s = (if s = [] then JNull else JStr s)"

definition setting :: "api \<Rightarrow> string \<Rightarrow> string" where
  "setting a key = strip (config_text a key)"

definition kubernetes_settings :: "api \<Rightarrow> string list \<Rightarrow> dict" where
  "kubernetes_settings a missing =
     [(''selected'', JBool (current_executor_name a = ''kubernetes'')),
      (''namespace'', or_null (setting a ''CONTROL_PLANE_K8S_NAMESPACE'')),
      (''deployment_mode'', or_null (setting a ''CONTROL_PLANE_K8S_DEPLOYMENT_MODE'')),
      (''kubeconfig_configured'', JBool (setting a ''CONTROL_PLANE_KUBECONFIG'' \<noteq> [])),
      (''image_pull_secret_configured'', JBool (setting a ''CONTROL_PLANE_K8S_IMAGE_PULL_SECRET'' \<noteq> [])),
      (''helm_chart_path'', or_null (setting a ''CONTROL_PLANE_K8S_HELM_CHART_PATH'')),
      (''helm_binary'', or_null (setting a ''CONTROL_PLANE_K8S_HELM_BINARY'')),
      (''helm_timeout'', or_null (setting a ''CONTROL_PLANE_K8S_HELM_TIMEOUT'')),
      (''deployment_prereqs_ready'', JBool (missing = [])),
      (''missing_deployment_prereqs'', JList (map JStr missing))]"

definition api_auth_status :: "api \<Rightarrow> token_config list \<Rightarrow> dict" where
  "api_auth_status a ks =
     [(''enabled'', JBool (ks \<noteq> [])),
      (''configured_roles'', JList (map (\<lambda>role. JStr (role_name role)) (configured_api_roles ks))),
      (''auth_disabled_allowed'', JBool (api_auth_disabled_allowed_for_config (v_config (api_venv a)))),
      (''token_transport'', JStr ''bearer''),
      (''public_routes'', JList [JStr ''/health'', JStr ''/health/ready'']),
      (''protected_health_routes'', JList (map JStr [''/health/db'', ''/health/platform'', ''/health/activity'',
          ''/health/observability''])),
      (''webhook_auth_mode'', JStr ''github_signature'')]"

definition platform_status_payload :: "api \<Rightarrow> (string \<Rightarrow> json option) \<Rightarrow> exn + dict" where
  "platform_status_payload a loads =
     (let e = api_venv a; executor = current_executor_name a
      in ebind (checked_config (executor_contract_for_name (Some executor))) (\<lambda>contract.
         ebind (checked_config (kubernetes_deployment_prereq_missing_settings e)) (\<lambda>kubernetes_missing.
         ebind (checked_config (kubernetes_deployment_prereq_error e)) (\<lambda>prereq_error.
         ebind (api_token_configs_from_config loads (v_config e)) (\<lambda>ks.
         let registry_missing = registry_missing_settings a
         in Inr
          [(''status'', JStr (if prereq_error = None then ''ok'' else ''degraded'')),
           (''environment'', or_null (lower (setting a ''CONTROL_PLANE_ENV''))), (''executor'', JStr executor),
           (''executor_contract'', JDict (full_contract contract)),
           (''local_repo_paths_allowed'', JBool (local_repo_paths_allowed a)),
           (''deployment_creation_ready'', JBool (prereq_error = None)),
           (''deployment_creation_error'', jopt prereq_error), (''api_auth'', JDict (api_auth_status a ks)),
           (''registry'', JDict
             [(''enabled'', JBool (jtrue (v_config e ''CONTROL_PLANE_REGISTRY_ENABLED''))),
              (''required_for_current_executor'', jget (full_contract contract) ''requires_registry_push''),
              (''configured'', JBool (registry_missing = [])),
              (''missing_settings'', JList (map JStr registry_missing))]),
           (''kubernetes'', JDict (kubernetes_settings a kubernetes_missing))])))))"

section \<open>Rows of the feeds\<close>

definition serialize_platform_activity_deployment :: "(json \<Rightarrow> string) \<Rightarrow> world \<Rightarrow> deployment \<Rightarrow> exn + dict" where
  "serialize_platform_activity_deployment sh w d =
     (case (get_build w (d_build_id d), get_project w (d_project_id d)) of
        (Some b, Some p) \<Rightarrow>
          let secrets = secret_values_from_env_vars sh (p_env_vars p)
          in Inr
            [(''deployment_id'', jnat (d_id d)), (''project_id'', jnat (p_id p)), (''project_name'', JStr (p_name p)),
             (''status'', JStr (dep_status_name (d_status d))), (''build_status'', JStr (build_status_name (b_status b))),
             (''deploy_target'', jopt (d_deploy_target d)), (''service_url'', jopt (d_service_url d)),
             (''last_error'', shown_text secrets (or_else (d_last_error d) (b_last_error b))),
             (''commit_sha'', JStr (b_commit_sha b)), (''image_ref'', jopt (b_image_ref b)),
             (''created_at'', JTime (d_created_at d)), (''updated_at'', JTime (d_updated_at d)),
             (''started_at'', jtime_opt (d_started_at d)), (''finished_at'', jtime_opt (d_finished_at d))]
      | _ \<Rightarrow> Inl (OtherExn ''AttributeError'' ''None has no attribute''))"

definition serialize_platform_activity_webhook_delivery :: "delivery \<Rightarrow> dict" where
  "serialize_platform_activity_webhook_delivery v =
     [(''delivery_id'', JStr (w_delivery_id v)), (''event_type'', JStr (w_event_type v)),
      (''repository_url'', jopt (w_repository_url v)), (''branch'', jopt (w_branch v)),
      (''commit_sha'', jopt (w_commit_sha v)), (''status'', JStr (w_status v)), (''reason'', jopt (w_reason v)),
      (''deployment_id'', jnat_opt (w_deployment_id v)), (''received_at'', JTime (w_received_at v))]"

definition normalize_activity_repository_url :: "string option \<Rightarrow> string option" where
  "normalize_activity_repository_url v =
     (let candidate = strip (or_str v []);
          normalized = rstrip_where (\<lambda>c. c = CHR ''/'') candidate
      in if candidate = [] then None
         else if prefix ''https://github.com/'' candidate
         then Some (lower (if suffix ''.git'' normalized then take (length normalized - 4) normalized else normalized))
         else Some normalized)"

definition serialize_project_identity :: "project \<Rightarrow> dict" where
  "serialize_project_identity p = [(''id'', jnat (p_id p)), (''name'', JStr (p_name p)), (''branch'', JStr (p_branch p)),
     (''trigger'', JStr (p_trigger p)), (''repo_url'', JStr (p_repo_url p))]"

section \<open>Queries\<close>

definition build_deployment_activity_query ::
    "world \<Rightarrow> nat option \<Rightarrow> string list \<Rightarrow> int option \<Rightarrow> deployment list" where
  "build_deployment_activity_query w pid statuses before_id = filter (\<lambda>d.
     (case pid of None \<Rightarrow> True | Some i \<Rightarrow> d_project_id d = i)
     \<and> (statuses = [] \<or> dep_status_name (d_status d) \<in> set statuses)
     \<and> (case before_id of None \<Rightarrow> True | Some i \<Rightarrow> int (d_id d) < i)) (deployments w)"

definition recently_updated :: "deployment list \<Rightarrow> deployment list" where
  "recently_updated ds = rev (sort_key d_updated_at (sort_key d_id ds))"

text \<open>\<open>wanted & (statuses or all_statuses)\<close>; a status that no row has stands for the empty set.\<close>

definition section_statuses :: "string list \<Rightarrow> string list \<Rightarrow> string list" where
  "section_statuses wanted statuses =
     (let kept = filter (\<lambda>st. st \<in> set (if statuses = [] then map dep_status_name dep_statuses else statuses)) wanted
      in if kept = [] then [''__none__''] else kept)"

definition build_webhook_activity_items ::
    "world \<Rightarrow> string list \<Rightarrow> string option \<Rightarrow> int option \<Rightarrow> delivery list" where
  "build_webhook_activity_items w statuses repo_url before_id = filter (\<lambda>v.
     w_status v \<in> set statuses
     \<and> (case before_id of None \<Rightarrow> True | Some i \<Rightarrow> int (w_id v) < i)
     \<and> (case repo_url of None \<Rightarrow> True | Some url \<Rightarrow> normalize_activity_repository_url (w_repository_url v) = Some url))
     (rev (sort_key w_received_at (sort_key w_id (deliveries w))))"

definition last_id :: "('a \<Rightarrow> nat) \<Rightarrow> 'a list \<Rightarrow> json" where
  "last_id key rows = (if rows = [] then JNull else jnat (key (last rows)))"

definition least_id :: "nat list \<Rightarrow> json" where
  "least_id ids = (case ids of [] \<Rightarrow> JNull | i # is \<Rightarrow> jnat (fold min is i))"

definition first_created :: "deployment list \<Rightarrow> json" where
  "first_created ds = (case ds of [] \<Rightarrow> JNull | d # _ \<Rightarrow> JTime (d_created_at d))"

definition shown_rows :: "(json \<Rightarrow> string) \<Rightarrow> world \<Rightarrow> deployment list \<Rightarrow> exn + json" where
  "shown_rows sh w ds = ebind (emap (serialize_platform_activity_deployment sh w) ds) (\<lambda>xs. Inr (JList (map JDict xs)))"

definition shown_row :: "(json \<Rightarrow> string) \<Rightarrow> world \<Rightarrow> deployment list \<Rightarrow> exn + json" where
  "shown_row sh w ds = (case ds of [] \<Rightarrow> Inr JNull
     | d # _ \<Rightarrow> ebind (serialize_platform_activity_deployment sh w d) (\<lambda>x. Inr (JDict x)))"

definition shown_deliveries :: "delivery list \<Rightarrow> json" where
  "shown_deliveries vs = JList (map (\<lambda>v. JDict (serialize_platform_activity_webhook_delivery v)) vs)"

section \<open>Feeds\<close>

text \<open>The keyword arguments of \<open>platform_activity_payload\<close>.\<close>

record activity_args =
  q_latest_limit :: nat
  q_active_limit :: nat
  q_failed_limit :: nat
  q_ignored_webhook_limit :: nat
  q_accepted_webhook_limit :: nat
  q_deployment_statuses :: "string list"
  q_webhook_statuses :: "string list"
  q_project_id :: "nat option"
  q_before_deployment_id :: "int option"
  q_before_webhook_delivery_id :: "int option"

text \<open>One kind of deliveries; for a project that does not exist there is no URL to compare.\<close>

definition webhook_section :: "world \<Rightarrow> activity_args \<Rightarrow> string \<Rightarrow> nat \<Rightarrow> delivery list" where
  "webhook_section w q kind limit =
     (let project = (case q_project_id q of None \<Rightarrow> None | Some pid \<Rightarrow> get_project w pid);
          repo_url = (case project of None \<Rightarrow> None | Some p \<Rightarrow> normalize_activity_repository_url (Some (p_repo_url p)))
      in if q_webhook_statuses q = [] \<or> kind \<in> set (q_webhook_statuses q)
         then take limit (build_webhook_activity_items w [kind] repo_url (q_before_webhook_delivery_id q))
         else [])"

definition platform_activity_payload :: "(json \<Rightarrow> string) \<Rightarrow> world \<Rightarrow> activity_args \<Rightarrow> exn + dict" where
  "platform_activity_payload sh w q =
     (let statuses = q_deployment_statuses q;
          chosen = (\<lambda>sts. build_deployment_activity_query w (q_project_id q) sts (q_before_deployment_id q));
          latest = take (q_latest_limit q) (newest_first (chosen statuses));
          active = take (q_active_limit q) (newest_first (chosen (section_statuses [''pending'', ''running''] statuses)));
          failed = take (q_failed_limit q) (recently_updated (chosen (section_statuses [''failed''] statuses)));
          ignored = webhook_section w q ''ignored'' (q_ignored_webhook_limit q);
          accepted = webhook_section w q ''accepted'' (q_accepted_webhook_limit q);
          next_delivery = least_id (map w_id (ignored @ accepted))
      in ebind (shown_rows sh w latest) (\<lambda>latest_rows. ebind (shown_rows sh w active) (\<lambda>active_rows.
         ebind (shown_rows sh w failed) (\<lambda>failed_rows. Inr
          [(''status'', JStr ''ok''),
           (''project'', case q_project_id q of None \<Rightarrow> JNull | Some pid \<Rightarrow> (case get_project w pid of
              None \<Rightarrow> JNull | Some p \<Rightarrow> JDict (serialize_project_identity p))),
           (''latest_deployment_at'', first_created latest),
           (''active_deployment_count'', jnat (length active)), (''failed_deployment_count'', jnat (length failed)),
           (''recent_webhook_delivery_count'', jnat (length ignored + length accepted)),
           (''next_before_deployment_id'', last_id d_id latest), (''next_before_webhook_delivery_id'', next_delivery),
           (''pagination'', JDict
             [(''latest_limit'', jnat (q_latest_limit q)), (''active_limit'', jnat (q_active_limit q)),
              (''failed_limit'', jnat (q_failed_limit q)), (''ignored_webhook_limit'', jnat (q_ignored_webhook_limit q)),
              (''accepted_webhook_limit'', jnat (q_accepted_webhook_limit q)),
              (''next_before_deployment_id'', last_id d_id latest), (''next_before_webhook_delivery_id'', next_delivery)]),
           (''latest_deployments'', latest_rows), (''active_deployments'', active_rows), (''failed_deployments'', failed_rows),
           (''ignored_webhook_deliveries'', shown_deliveries ignored),
           (''accepted_webhook_deliveries'', shown_deliveries accepted)]))))"

text \<open>The keyword arguments of \<open>project_activity_payload\<close>.\<close>

record feed_args =
  f_latest_limit :: nat
  f_webhook_limit :: nat
  f_deployment_statuses :: "string list"
  f_webhook_statuses :: "string list"
  f_active_only :: bool
  f_include_latest_failed :: bool
  f_include_webhooks :: bool
  f_before_deployment_id :: "int option"
  f_before_webhook_delivery_id :: "int option"

definition latest_page :: "world \<Rightarrow> project \<Rightarrow> feed_args \<Rightarrow> deployment list" where
  "latest_page w p f = take (f_latest_limit f) (newest_first (filter (\<lambda>d.
      (f_active_only f \<longrightarrow> d_status d \<in> {Pending, Running})
      \<and> (f_deployment_statuses f = [] \<or> dep_status_name (d_status d) \<in> set (f_deployment_statuses f)))
     (build_deployment_activity_query w (Some (p_id p)) [] (f_before_deployment_id f))))"

definition project_deliveries :: "world \<Rightarrow> project \<Rightarrow> feed_args \<Rightarrow> delivery list" where
  "project_deliveries w p f = (case normalize_activity_repository_url (Some (p_repo_url p)) of
     Some url \<Rightarrow>
       if f_include_webhooks f \<and> p_trigger p = ''github_push'' \<and> url \<noteq> []
       then take (f_webhook_limit f) (build_webhook_activity_items w
              (if f_webhook_statuses f = [] then [''accepted'', ''ignored''] else f_webhook_statuses f)
              (Some url) (f_before_webhook_delivery_id f))
       else []
   | None \<Rightarrow> [])"

definition project_activity_payload :: "(json \<Rightarrow> string) \<Rightarrow> world \<Rightarrow> project \<Rightarrow> feed_args \<Rightarrow> exn + dict" where
  "project_activity_payload sh w p f =
     (let statuses = f_deployment_statuses f;
          chosen = (\<lambda>wanted. build_deployment_activity_query w (Some (p_id p)) (section_statuses wanted statuses)
            (f_before_deployment_id f));
          latest = latest_page w p f;
          active = newest_first (chosen [''pending'', ''running'']);
          failed = recently_updated (chosen [''failed'']);
          received = project_deliveries w p f
      in ebind (shown_rows sh w latest) (\<lambda>latest_rows. ebind (shown_row sh w active) (\<lambda>active_row.
         ebind (if f_include_latest_failed f then shown_row sh w failed else Inr JNull) (\<lambda>failed_row. Inr
          [(''status'', JStr ''ok''), (''project'', JDict (serialize_project_identity p)),
           (''latest_deployment_at'', first_created latest),
           (''active_deployment_count'', jnat (if active = [] then 0 else 1)),
           (''failed_deployment_count'', jnat (if failed = [] then 0 else 1)),
           (''recent_webhook_delivery_count'', jnat (length received)),
           (''next_before_deployment_id'', last_id d_id latest),
           (''next_before_webhook_delivery_id'', last_id w_id received),
           (''pagination'', JDict
             [(''latest_limit'', jnat (f_latest_limit f)), (''webhook_limit'', jnat (f_webhook_limit f)),
              (''next_before_deployment_id'', last_id d_id latest),
              (''next_before_webhook_delivery_id'', last_id w_id received)]),
           (''latest_deployments'', latest_rows), (''active_deployment'', active_row),
           (''latest_failed_deployment'', failed_row), (''recent_webhook_deliveries'', shown_deliveries received)]))))"

definition project_status_payload :: "api \<Rightarrow> (json \<Rightarrow> string) \<Rightarrow> world \<Rightarrow> project \<Rightarrow> exn + dict" where
  "project_status_payload a sh w p =
     (let own = filter (\<lambda>d. d_project_id d = p_id p) (deployments w);
          latest = newest_first own;
          active = newest_first (filter (\<lambda>d. d_status d \<in> {Pending, Running}) own);
          failed = recently_updated (filter (\<lambda>d. d_status d = Failed) own)
      in ebind (checked_config (kubernetes_deployment_prereq_error (api_venv a))) (\<lambda>prereq_error.
         ebind (shown_row sh w latest) (\<lambda>latest_row. ebind (shown_row sh w active) (\<lambda>active_row.
         ebind (shown_row sh w failed) (\<lambda>failed_row. Inr
          [(''status'', JStr ''ok''), (''project'', JDict (serialize_project_identity p)),
           (''deployment_creation_ready'', JBool (prereq_error = None)), (''deployment_creation_error'', jopt prereq_error),
           (''latest_deployment_at'', first_created latest),
           (''active_deployment_count'', jnat (if active = [] then 0 else 1)),
           (''failed_deployment_count'', jnat (if failed = [] then 0 else 1)),
           (''latest_deployment'', latest_row), (''active_deployment'', active_row),
           (''latest_failed_deployment'', failed_row)])))))"

section \<open>Routes\<close>

text \<open>\<open>arg name\<close> is the query argument; a parser that fails ends the route with its answer.\<close>

definition parsed :: "response + 'a \<Rightarrow> ('a \<Rightarrow> response proc) \<Rightarrow> response proc" where
  "parsed v k = (case v of Inl response \<Rightarrow> ret response | Inr x \<Rightarrow> k x)"

definition get_project_status :: "api \<Rightarrow> http \<Rightarrow> nat \<Rightarrow> response proc" where
  "get_project_status a r pid = with_project pid (\<lambda>p.
     bind (query (\<lambda>w. project_status_payload a (t_shown r) w p)) (\<lambda>view. viewed view (\<lambda>shown. ret (200, shown))))"

definition get_project_activity :: "http \<Rightarrow> nat \<Rightarrow> (string \<Rightarrow> string option) \<Rightarrow> response proc" where
  "get_project_activity r pid arg = with_project pid (\<lambda>p.
     parsed (parse_limit_arg (arg ''latest_limit'') ''latest_limit'' 10 1 100) (\<lambda>latest_limit.
     parsed (parse_limit_arg (arg ''webhook_limit'') ''webhook_limit'' 10 1 100) (\<lambda>webhook_limit.
     parsed (parse_status_filter_arg (arg ''deployment_status'') ''deployment_status'' (map dep_status_name dep_statuses))
       (\<lambda>deployment_statuses.
     parsed (parse_status_filter_arg (arg ''webhook_status'') ''webhook_status'' [''accepted'', ''ignored''])
       (\<lambda>webhook_statuses.
     parsed (parse_bool_arg (arg ''active_only'') ''active_only'') (\<lambda>active_only.
     parsed (parse_bool_arg (arg ''include_latest_failed'') ''include_latest_failed'') (\<lambda>include_latest_failed.
     parsed (parse_bool_arg (arg ''include_webhooks'') ''include_webhooks'') (\<lambda>include_webhooks.
     parsed (parse_optional_int_arg (arg ''before_deployment_id'') ''before_deployment_id'' 1) (\<lambda>before_deployment_id.
     parsed (parse_optional_int_arg (arg ''before_webhook_delivery_id'') ''before_webhook_delivery_id'' 1)
       (\<lambda>before_webhook_delivery_id.
     bind (query (\<lambda>w. project_activity_payload (t_shown r) w p
        \<lparr>f_latest_limit = nat latest_limit, f_webhook_limit = nat webhook_limit,
         f_deployment_statuses = deployment_statuses, f_webhook_statuses = webhook_statuses,
         f_active_only = (active_only = Some True), f_include_latest_failed = (include_latest_failed \<noteq> Some False),
         f_include_webhooks = (include_webhooks \<noteq> Some False), f_before_deployment_id = before_deployment_id,
         f_before_webhook_delivery_id = before_webhook_delivery_id\<rparr>))
       (\<lambda>view. viewed view (\<lambda>shown. ret (200, shown)))))))))))))"

section \<open>Lemmas\<close>

text \<open>
  Keys in the order of creation: a later key has no earlier time. Where the rows are so, the
  order of a feed is that of the keys, and its cursor \<open>before_deployment_id\<close> continues it.
\<close>

definition created_in_order :: "deployment list \<Rightarrow> bool" where
  "created_in_order ds \<longleftrightarrow> distinct (map d_id ds)
     \<and> (\<forall>d \<in> set ds. \<forall>d' \<in> set ds. d_id d < d_id d' \<longrightarrow> d_created_at d \<le> d_created_at d')"

lemma created_in_order_filter: "created_in_order ds \<Longrightarrow> created_in_order (filter P ds)"
  by (auto simp: created_in_order_def distinct_map_filter)

lemma sort_key_by_id:
  assumes "created_in_order ds"
  shows "sort_key d_created_at (sort_key d_id ds) = sort_key d_id ds"
proof (rule sort_key_id_if_sorted)
  let ?xs = "sort_key d_id ds"
  have ids: "sorted (map d_id ?xs)" "distinct (map d_id ?xs)" "set ?xs = set ds"
    using assms by (simp_all add: created_in_order_def distinct_map)
  have "d_created_at (?xs ! i) \<le> d_created_at (?xs ! j)" if "i < j" "j < length ?xs" for i j
  proof -
    have "d_id (?xs ! i) < d_id (?xs ! j)"
      using ids(1,2) that by (simp add: sorted_iff_nth_mono_less distinct_conv_nth le_neq_implies_less)
    moreover have "?xs ! i \<in> set ds" "?xs ! j \<in> set ds" using that ids(3) nth_mem by (metis less_trans)+
    ultimately show ?thesis using assms unfolding created_in_order_def by blast
  qed
  then show "sorted (map d_created_at ?xs)" by (simp add: sorted_iff_nth_mono_less)
qed

lemma newest_first_descends:
  assumes "created_in_order ds"
  shows "sorted_wrt (\<lambda>d d'. d_id d' < d_id d) (newest_first ds)"
proof -
  have "sorted_wrt (<) (map d_id (sort_key d_id ds))"
    using assms by (simp add: strict_sorted_iff created_in_order_def distinct_map)
  then show ?thesis by (simp add: newest_first_def sort_key_by_id [OF assms] sorted_wrt_rev sorted_wrt_map)
qed

lemma newest_first_filter:
  "newest_first (filter P ds) = filter P (newest_first ds)"
  by (simp add: newest_first_def filter_sort [symmetric] rev_filter)

lemma cursor_drops:
  assumes "sorted_wrt (\<lambda>x y. key y < (key x :: nat)) xs" "take n xs \<noteq> []"
  shows "filter (\<lambda>x. key x < key (last (take n xs))) xs = drop n xs"
proof -
  have parts: "sorted_wrt (\<lambda>x y. key y < key x) (take n xs @ drop n xs)" using assms(1) by simp
  obtain ys y where ys: "take n xs = ys @ [y]" using assms(2) by (metis rev_exhaust)
  have "\<forall>x \<in> set (take n xs). \<not> key x < key y" using parts unfolding ys by (auto simp: sorted_wrt_append)
  moreover have "\<forall>x \<in> set (drop n xs). key x < key y" using parts unfolding ys by (auto simp: sorted_wrt_append)
  ultimately have "filter (\<lambda>x. key x < key y) (take n xs) = []" "filter (\<lambda>x. key x < key y) (drop n xs) = drop n xs"
    by (simp_all add: filter_empty_conv filter_id_conv)
  then have "filter (\<lambda>x. key x < key y) xs = drop n xs" by (metis append_Nil append_take_drop_id filter_append)
  then show ?thesis by (simp add: ys)
qed

text \<open>A page and the one its cursor asks for are a page of the double length.\<close>

lemma pages_join:
  assumes "created_in_order ds" "take n (newest_first ds) \<noteq> []"
  shows "take n (newest_first ds) @ take n (newest_first (filter (\<lambda>d. d_id d < d_id (last (take n (newest_first ds)))) ds))
    = take (2 * n) (newest_first ds)"
  using cursor_drops [OF newest_first_descends [OF assms(1)] assms(2)]
  by (simp add: newest_first_filter mult_2 take_add)

definition feed_row :: "project \<Rightarrow> feed_args \<Rightarrow> deployment \<Rightarrow> bool" where
  "feed_row p f d \<longleftrightarrow> d_project_id d = p_id p \<and> (f_active_only f \<longrightarrow> d_status d \<in> {Pending, Running})
     \<and> (f_deployment_statuses f = [] \<or> dep_status_name (d_status d) \<in> set (f_deployment_statuses f))
     \<and> (case f_before_deployment_id f of None \<Rightarrow> True | Some i \<Rightarrow> int (d_id d) < i)"

lemma latest_page_rows:
  "latest_page w p f = take (f_latest_limit f) (newest_first (filter (feed_row p f) (deployments w)))"
  by (simp add: latest_page_def build_deployment_activity_query_def feed_row_def [abs_def] conj_commute conj_left_commute)

lemma feed_row_cursor:
  assumes "feed_row p f d"
  shows "feed_row p (f\<lparr>f_before_deployment_id := Some (int (d_id d))\<rparr>) d' \<longleftrightarrow> feed_row p f d' \<and> d_id d' < d_id d"
  using assms by (auto simp: feed_row_def split: option.splits)

lemma feed_pages_join:
  assumes "created_in_order (deployments w)" "latest_page w p f \<noteq> []"
  shows "latest_page w p f @ latest_page w p (f\<lparr>f_before_deployment_id := Some (int (d_id (last (latest_page w p f))))\<rparr>)
    = latest_page w p (f\<lparr>f_latest_limit := 2 * f_latest_limit f\<rparr>)"
proof -
  let ?ds = "filter (feed_row p f) (deployments w)" and ?d = "last (latest_page w p f)"
  have "?d \<in> set (latest_page w p f)" using assms(2) by simp
  then have "feed_row p f ?d" by (auto simp: latest_page_rows newest_first_def dest: in_set_takeD)
  then have next_rows: "filter (feed_row p (f\<lparr>f_before_deployment_id := Some (int (d_id ?d))\<rparr>)) (deployments w)
      = filter (\<lambda>d. d_id d < d_id ?d) ?ds"
    by (simp add: feed_row_cursor conj_commute cong: filter_cong)
  have "feed_row p (f\<lparr>f_latest_limit := 2 * f_latest_limit f\<rparr>) = feed_row p f" by (simp add: feed_row_def fun_eq_iff)
  then show ?thesis
    using pages_join [OF created_in_order_filter [OF assms(1), of "feed_row p f"], of "f_latest_limit f"] assms(2) next_rows
    by (simp add: latest_page_rows)
qed

end
