(* ===== verification/View_Properties.thy ===== *)
theory View_Properties
  imports Project_Views Demo
begin

text \<open>
  The properties of the views: which files they read, what they show of secrets, which
  failure they report, and that the pages of a feed are complete.
\<close>

section \<open>Log files\<close>

text \<open>
  C27: What a reader gets from the two log routes depends only on the files inside the
  allowed roots, whatever paths the events and builds of the deployment name. Two file systems
  that resolve paths alike, and agree on every path that resolves to a root or to something
  below one, give the same answer, whatever else they hold.
\<close>

theorem log_routes_stay_inside_roots:
  assumes "same_inside fs fs'"
  shows "get_project_deployment_runtime_log fs' r pid did tail_arg = get_project_deployment_runtime_log fs r pid did tail_arg
    \<and> get_project_deployment_build_log fs' r pid did tail_arg = get_project_deployment_build_log fs r pid did tail_arg"
  unfolding get_project_deployment_runtime_log_def get_project_deployment_build_log_def
    serialize_runtime_log_payload_def serialize_build_log_payload_def
  by (simp add: log_route_inside [OF assms log_view_inside])

definition log_disk :: "string \<Rightarrow> log_files" where
  "log_disk outside = \<lparr>l_roots = [[''w'']], l_resolve = (\<lambda>p. Some (path_parts p)), l_is_file = (\<lambda>p. True),
     l_read = (\<lambda>p. Some (if prefix [''w''] (path_parts p) then ''started'' else outside))\<rparr>"

theorem log_routes_stay_inside_roots_witness:
  "\<forall>r. get_project_deployment_runtime_log (log_disk ''root:x:0'') r 1 1 None
     = get_project_deployment_runtime_log (log_disk []) r 1 1 None"
proof
  fix r
  have "same_inside (log_disk []) (log_disk ''root:x:0'')"
    by (auto simp: same_inside_def log_disk_def)
  then show "get_project_deployment_runtime_log (log_disk ''root:x:0'') r 1 1 None
     = get_project_deployment_runtime_log (log_disk []) r 1 1 None"
    using log_routes_stay_inside_roots by blast
qed

text \<open>
  C28: The tail that a log route shows has at most the lines that were asked for (for \<open>n\<close> lines,
  no more than \<open>n - 1\<close> line ends), and a secret value of the deployment does not occur in it if
  the value is not empty, has no line end (the log is redacted line by line) and does not
  overlap the marker of redaction.
\<close>

theorem log_tails_hide_secrets:
  assumes "serialize_runtime_log_payload fs sh w d p n = Inr out \<or> serialize_build_log_payload fs sh w d b p n = Inr out"
    and "v \<in> set (shown_secrets sh w d)" "v \<noteq> []" "CHR 0x0A \<notin> set v" "avoids v REDACTED"
  shows "\<exists>content. jget out ''content'' = JStr content \<and> count_list content (CHR 0x0A) \<le> n - 1
    \<and> \<not> contains v content"
  using assms(1) log_view_hides [OF _ assms(2-5)]
  unfolding serialize_runtime_log_payload_def serialize_build_log_payload_def by blast

definition secret_dep :: deployment where
  "secret_dep = (demo_dep 1 Running None)\<lparr>d_spec_snapshot_json := JDict [(''version'', JInt 1), (''project'', JDict
     [(''env_vars'', JList [JDict [(''name'', JStr ''TOKEN''), (''value'', JStr ''hunter2''), (''is_secret'', JBool True)]])])]\<rparr>"

fun plain_text :: "json \<Rightarrow> string" where
  "plain_text (JStr s) = s" | "plain_text _ = []"

lemma secret_shown: "shown_secrets plain_text (demo_world [] [] []) secret_dep = [''hunter2'']"
  by code_simp

theorem log_tails_hide_secrets_witness:
  "\<exists>out. serialize_runtime_log_payload (log_disk ''login hunter2'') plain_text (demo_world [] [] []) secret_dep ''/tmp/run.log'' 5 = Inr out
     \<and> (\<exists>content. jget out ''content'' = JStr content \<and> count_list content (CHR 0x0A) \<le> 5 - 1
          \<and> \<not> contains ''hunter2'' content)"
proof -
  obtain out where out: "serialize_runtime_log_payload (log_disk ''login hunter2'') plain_text (demo_world [] [] []) secret_dep ''/tmp/run.log'' 5 = Inr out"
    by (simp add: serialize_runtime_log_payload_def log_view_def log_disk_def)
  have "\<exists>content. jget out ''content'' = JStr content \<and> count_list content (CHR 0x0A) \<le> 5 - 1
      \<and> \<not> contains ''hunter2'' content"
    by (rule log_tails_hide_secrets [OF disjI1 [OF out]]) (simp_all add: secret_shown avoids_def REDACTED_def)
  then show ?thesis using out by blast
qed

section \<open>Pages\<close>

text \<open>
  C30: The cursor of the activity feed of a project continues it: a page and the page after its
  \<open>next_before_deployment_id\<close> are together the page of the double length, so no deployment
  is skipped or shown twice, provided later deployments were not created at earlier times.
\<close>

theorem cursor_continues_feed:
  assumes "created_in_order (deployments w)"
    and "project_activity_payload sh w p f = Inr out" "jget out ''next_before_deployment_id'' = jnat c"
  shows "latest_page w p f @ latest_page w p (f\<lparr>f_before_deployment_id := Some (int c)\<rparr>)
    = latest_page w p (f\<lparr>f_latest_limit := 2 * f_latest_limit f\<rparr>)"
proof -
  have cursor: "last_id d_id (latest_page w p f) = jnat c"
    using assms(2,3) by (auto simp: project_activity_payload_def ebind_def Let_def split: sum.splits)
  then have "latest_page w p f \<noteq> []" "c = d_id (last (latest_page w p f))"
    by (auto simp: last_id_def jnat_def split: if_splits)
  then show ?thesis using feed_pages_join [OF assms(1)] by simp
qed

definition feed_world :: world where
  "feed_world = demo_world [demo_dep 1 Running None, demo_dep 2 Pending None, demo_dep 3 Pending None]
     [demo_build 1 B_succeeded, demo_build 2 B_pending, demo_build 3 B_pending] []"

definition feed :: feed_args where
  "feed = \<lparr>f_latest_limit = 1, f_webhook_limit = 10, f_deployment_statuses = [], f_webhook_statuses = [], f_active_only = False,
     f_include_latest_failed = True, f_include_webhooks = True, f_before_deployment_id = None,
     f_before_webhook_delivery_id = None\<rparr>"

lemma feed_cursor: "case project_activity_payload plain_text feed_world demo_project feed of
    Inl e \<Rightarrow> False | Inr out \<Rightarrow> jget out ''next_before_deployment_id'' = jnat 3"
  by code_simp

theorem cursor_continues_feed_witness:
  "latest_page feed_world demo_project feed @ latest_page feed_world demo_project (feed\<lparr>f_before_deployment_id := Some (int 3)\<rparr>)
    = latest_page feed_world demo_project (feed\<lparr>f_latest_limit := 2 * f_latest_limit feed\<rparr>)"
proof -
  obtain out where "project_activity_payload plain_text feed_world demo_project feed = Inr out"
      "jget out ''next_before_deployment_id'' = jnat 3"
    using feed_cursor by (auto split: sum.splits)
  moreover have "created_in_order (deployments feed_world)"
    by (auto simp: created_in_order_def feed_world_def demo_defs)
  ultimately show ?thesis by (metis cursor_continues_feed)
qed

section \<open>Diagnostics\<close>

text \<open>
  C29: The diagnostics of a Kubernetes deployment with a failed preflight report that failure,
  even if later events failed. Without one they report, of all the failure events and Helm
  events of the deployment, the one that no other follows by time and then by key.
\<close>

theorem diagnostics_report_latest_failure:
  assumes "serialize_kubernetes_diagnostics sh w d = Inr (Some out)"
    and "e \<in> set (events_of w (d_id d))" "e_event_type e \<in> set failure_kinds"
  shows "if d_preflight_status d = Some ''failed''
    then jget out ''failure_event_type'' = JStr ''deployment.preflight_failed''
      \<and> jget out ''failure_event_at'' = jtime_opt (d_preflight_completed_at d)
    else \<exists>e'. latest_failure w d e' \<and> jget out ''failure_event_type'' = JStr (e_event_type e')
      \<and> jget out ''failure_event_at'' = JTime (e_created_at e')"
proof (cases "d_preflight_status d = Some ''failed''")
  case True
  then show ?thesis using failed_preflight_reported [OF assms(1)] by simp
next
  case False
  then have "\<not> preflight_failed (deployment_preflight_record sh w d)"
    by (auto simp: preflight_failed_def deployment_preflight_record_def Let_def jopt_def split: option.splits if_splits)
  then obtain failure_event source metadata stage failure_summary
    where source: "diagnostics_source sh w d = Inr (failure_event, source, metadata, stage, failure_summary)"
      and out: "out = event_diagnostics d (failure_event, source, metadata, stage, failure_summary)"
    using assms(1) by (auto simp: serialize_kubernetes_diagnostics_def Let_def ebind_def split: sum.splits if_splits)
  show ?thesis
    using diagnostics_source_latest [OF source False assms(2,3)] False by (auto simp: out event_diagnostics_event)
qed

definition failed_event :: "nat \<Rightarrow> string \<Rightarrow> int \<Rightarrow> event" where
  "failed_event i event_type t = \<lparr>e_id = i, e_deployment_id = 1, e_event_type = event_type, e_step = None, e_level = ''error'',
     e_status = ''failed'', e_message = Some ''failed'', e_metadata_json = JDict [], e_created_at = t\<rparr>"

definition failed_world :: world where
  "failed_world = (demo_world [] [] [])\<lparr>events := [failed_event 1 ''kubernetes.rollout_failed'' 10,
     failed_event 2 ''kubernetes.helm_deploy_failed'' 20]\<rparr>"

definition failed_dep :: deployment where
  "failed_dep = (demo_dep 1 Failed None)\<lparr>d_deploy_target := Some ''kubernetes''\<rparr>"

lemma failed_diagnostics: "case serialize_kubernetes_diagnostics plain_text failed_world failed_dep of
    Inr (Some out) \<Rightarrow> jget out ''failure_stage'' = JStr ''helm'' | _ \<Rightarrow> False"
  by code_simp

theorem diagnostics_report_latest_failure_witness:
  "\<exists>out e'. serialize_kubernetes_diagnostics plain_text failed_world failed_dep = Inr (Some out)
    \<and> latest_failure failed_world failed_dep e' \<and> jget out ''failure_event_type'' = JStr (e_event_type e')"
proof -
  obtain out where out: "serialize_kubernetes_diagnostics plain_text failed_world failed_dep = Inr (Some out)"
    using failed_diagnostics by (auto split: sum.splits option.splits)
  have "if d_preflight_status failed_dep = Some ''failed''
    then jget out ''failure_event_type'' = JStr ''deployment.preflight_failed''
      \<and> jget out ''failure_event_at'' = jtime_opt (d_preflight_completed_at failed_dep)
    else \<exists>e'. latest_failure failed_world failed_dep e' \<and> jget out ''failure_event_type'' = JStr (e_event_type e')
      \<and> jget out ''failure_event_at'' = JTime (e_created_at e')"
    by (rule diagnostics_report_latest_failure [OF out, where e = "failed_event 1 ''kubernetes.rollout_failed'' 10"])
      (simp_all add: failed_dep_def failed_world_def demo_defs events_of_def failed_event_def failure_kinds_def FAILURE_EVENTS_def)
  then show ?thesis using out by (auto simp: failed_dep_def demo_defs)
qed

end
