(* ===== verification/Health_Views.thy ===== *)
theory Health_Views
  imports Project_Views
begin

text \<open>
  \<open>api/health.py\<close>, \<open>api/metrics.py\<close>, \<open>api/live_health.py\<close>, \<open>api/audit.py\<close> and the ids of requests: the health of
  the process, the database and the platform, the counters in Prometheus text, the probe of a
  running deployment and the page of the audit trail. The database answers \<open>SELECT 1\<close> or not
  (\<open>db_ok\<close>); the HTTP client of the probe is the parameter \<open>opener\<close>. The lemmas say who
  gets the counters, that they count every row, and what is probed.
\<close>

section \<open>Health\<close>

text \<open>\<open>require_api_role\<close> alone, on routes that have no check before it.\<close>

definition reader_only :: "api \<Rightarrow> http \<Rightarrow> response proc \<Rightarrow> response proc" where
  "reader_only a r view = bind (authorize_request a r Read_only None) (\<lambda>allowed. case allowed of
     Inl response \<Rightarrow> ret response | Inr actor \<Rightarrow> view)"

definition health_check :: response where
  "health_check = (200, [(''status'', JStr ''ok'')])"

definition readiness_health_check :: "bool \<Rightarrow> response" where
  "readiness_health_check db_ok = (if db_ok then (200, [(''status'', JStr ''ok'')])
     else (503, [(''status'', JStr ''error''), (''error_code'', JStr ''not_ready'')]))"

definition database_health_check :: "api \<Rightarrow> http \<Rightarrow> bool \<Rightarrow> response proc" where
  "database_health_check a r db_ok = reader_only a r (ret
     (if db_ok then (200, [(''status'', JStr ''ok''), (''database'', JStr ''reachable'')])
      else (503, [(''status'', JStr ''error''), (''database'', JStr ''unreachable''),
             (''error_code'', JStr ''database_unreachable'')])))"

definition platform_health_check :: "api \<Rightarrow> http \<Rightarrow> response proc" where
  "platform_health_check a r = reader_only a r
     (viewed (platform_status_payload a (t_loads r)) (\<lambda>shown. ret (200, shown)))"

definition observability_health_check :: "api \<Rightarrow> http \<Rightarrow> response proc" where
  "observability_health_check a r = reader_only a r
     (let log_format = lower (setting a ''CONTROL_PLANE_LOG_FORMAT'')
      in ret (200,
          [(''status'', JStr ''ok''),
           (''metrics'', JDict [(''enabled'', JBool (jtrue (v_config (api_venv a) ''CONTROL_PLANE_METRICS_ENABLED''))),
              (''endpoint'', JStr ''/metrics''), (''authentication'', JStr ''dedicated_bearer_token'')]),
           (''logging'', JDict [(''format'', JStr (if log_format = [] then ''text'' else log_format)),
              (''structured'', JBool (log_format = ''json'')), (''destination'', JStr ''stdout'')]),
           (''request_correlation'', JDict [(''enabled'', JBool True), (''header'', JStr ''X-Request-ID'')])]))"

definition platform_activity_health_check :: "api \<Rightarrow> http \<Rightarrow> (string \<Rightarrow> string option) \<Rightarrow> response proc" where
  "platform_activity_health_check a r arg = reader_only a r
     (let limit = (\<lambda>key. parse_limit_arg (arg key) key 10 1 100); cursor = (\<lambda>key. parse_optional_int_arg (arg key) key 1)
      in parsed (limit ''latest_limit'') (\<lambda>latest_limit. parsed (limit ''active_limit'') (\<lambda>active_limit.
         parsed (limit ''failed_limit'') (\<lambda>failed_limit. parsed (limit ''ignored_webhook_limit'') (\<lambda>ignored_limit.
         parsed (limit ''accepted_webhook_limit'') (\<lambda>accepted_limit.
         parsed (parse_status_filter_arg (arg ''deployment_status'') ''deployment_status'' (map dep_status_name dep_statuses))
           (\<lambda>deployment_statuses.
         parsed (parse_status_filter_arg (arg ''webhook_status'') ''webhook_status'' [''accepted'', ''ignored''])
           (\<lambda>webhook_statuses.
         parsed (cursor ''project_id'') (\<lambda>project_id. parsed (cursor ''before_deployment_id'') (\<lambda>before_deployment_id.
         parsed (cursor ''before_webhook_delivery_id'') (\<lambda>before_webhook_delivery_id.
         bind (query (\<lambda>w. platform_activity_payload (t_shown r) w
           \<lparr>q_latest_limit = nat latest_limit, q_active_limit = nat active_limit, q_failed_limit = nat failed_limit,
            q_ignored_webhook_limit = nat ignored_limit, q_accepted_webhook_limit = nat accepted_limit,
            q_deployment_statuses = deployment_statuses, q_webhook_statuses = webhook_statuses,
            q_project_id = map_option nat project_id, q_before_deployment_id = before_deployment_id,
            q_before_webhook_delivery_id = before_webhook_delivery_id\<rparr>))
           (\<lambda>view. viewed view (\<lambda>shown. ret (200, shown))))))))))))))"

definition get_audit_events :: "api \<Rightarrow> http \<Rightarrow> (string \<Rightarrow> string option) \<Rightarrow> response proc" where
  "get_audit_events a r arg = reader_only a r
     (parsed (parse_limit_arg (arg ''limit'') ''limit'' 20 1 100) (\<lambda>limit.
      parsed (parse_optional_int_arg (arg ''before_id'') ''before_id'' 1) (\<lambda>before_id.
      bind (query (\<lambda>w. serialize_audit_events_page (list_audit_events w (nat limit) (map_option nat before_id)) (nat limit)))
        (\<lambda>page. ret (200, page)))))"

text \<open>The correlation id of a request: the one it carries, or a generated one.\<close>

definition normalize_request_id :: "string \<Rightarrow> string option \<Rightarrow> string" where
  "normalize_request_id generated v =
     (let candidate = strip (or_str v [])
      in if candidate = [] \<or> length candidate > 128 \<or> \<not> is_ascii_alnum (hd candidate)
            \<or> \<not> list_all (\<lambda>c. is_ascii_alnum c \<or> c \<in> set ''._:/-'') candidate
         then generated else candidate)"

section \<open>Counters\<close>

definition metric_family :: "string \<Rightarrow> string \<Rightarrow> string list" where
  "metric_family name help_text = [''# HELP '' @ name @ '' '' @ help_text, ''# TYPE '' @ name @ '' gauge'']"

definition count_rows :: "('a \<Rightarrow> string) \<Rightarrow> 'a list \<Rightarrow> string \<Rightarrow> nat" where
  "count_rows key rows v = length (filter (\<lambda>x. key x = v) rows)"

definition counter_lines :: "string \<Rightarrow> string \<Rightarrow> ('a \<Rightarrow> string) \<Rightarrow> 'a list \<Rightarrow> string list \<Rightarrow> string list" where
  "counter_lines name label key rows values' = map (\<lambda>v. name @ ''{'' @ label @ ''='' @ [CHR 0x22] @ v @ [CHR 0x22] @ ''} ''
     @ str_of_nat (count_rows key rows v)) values'"

definition latest_update :: "world \<Rightarrow> int" where
  "latest_update w = (case map d_updated_at (deployments w) of [] \<Rightarrow> 0 | t # ts \<Rightarrow> fold max ts t)"

text \<open>Times are whole seconds here, so the three digits after the point are zeros.\<close>

definition render_metrics :: "world \<Rightarrow> string" where
  "render_metrics w = join LF
     (metric_family ''control_plane_deployments'' ''Current deployments by status.''
      @ counter_lines ''control_plane_deployments'' ''status'' (\<lambda>d. dep_status_name (d_status d)) (deployments w)
          (map dep_status_name dep_statuses)
      @ metric_family ''control_plane_builds'' ''Current builds by status.''
      @ counter_lines ''control_plane_builds'' ''status'' (\<lambda>b. build_status_name (b_status b)) (builds w)
          (map build_status_name build_statuses)
      @ metric_family ''control_plane_webhook_deliveries'' ''Recorded webhook deliveries by result.''
      @ counter_lines ''control_plane_webhook_deliveries'' ''result'' w_status (deliveries w) [''accepted'', ''ignored'']
      @ metric_family ''control_plane_deployment_events'' ''Recorded deployment events by level.''
      @ counter_lines ''control_plane_deployment_events'' ''level'' e_level (events w) [''info'', ''warning'', ''error'']
      @ metric_family ''control_plane_claimed_deployments'' ''Deployments currently owned by a worker.''
      @ [''control_plane_claimed_deployments '' @ str_of_nat (length (filter (\<lambda>d. d_claimed_at d \<noteq> None) (deployments w)))]
      @ metric_family ''control_plane_latest_deployment_update_timestamp_seconds''
          ''Unix timestamp of the most recent deployment update, or zero when no deployment exists.''
      @ [''control_plane_latest_deployment_update_timestamp_seconds '' @ str_of_int (latest_update w) @ ''.000'']) @ LF"

definition metrics_bearer_token :: "string option \<Rightarrow> string option" where
  "metrics_bearer_token authorization =
     (let header = strip (or_str authorization []);
          scheme = takeWhile (\<lambda>c. \<not> is_space c) header;
          rest = strip (dropWhile (\<lambda>c. \<not> is_space c) header)
      in if rest = [] \<or> lower scheme \<noteq> ''bearer'' then None else Some rest)"

text \<open>A refusal, or the text of the counters; a token that is not configured is no text to compare.\<close>

definition metrics :: "api \<Rightarrow> http \<Rightarrow> world \<Rightarrow> exn + (response + string)" where
  "metrics a r w =
     (if \<not> jtrue (v_config (api_venv a) ''CONTROL_PLANE_METRICS_ENABLED'') then Inr (Inl (404, error_payload a ''Not found''))
      else case metrics_bearer_token (t_authorization r) of
        None \<Rightarrow> Inr (Inl (401, error_payload a ''Invalid or missing metrics bearer token''))
      | Some supplied \<Rightarrow> (case v_config (api_venv a) ''CONTROL_PLANE_METRICS_TOKEN'' of
          JStr token \<Rightarrow> ebind (compare_digest supplied token) (\<lambda>same. Inr
            (if same then Inr (render_metrics w)
             else Inl (401, error_payload a ''Invalid or missing metrics bearer token'')))
        | _ \<Rightarrow> Inl type_error))"

section \<open>The probe of a deployment\<close>

text \<open>\<open>urlsplit\<close>: scheme, network location, path, query and fragment, and the host and port of a location.\<close>

definition urlsplit :: "(string \<Rightarrow> bool) \<Rightarrow> string \<Rightarrow> (string \<times> string \<times> string \<times> string \<times> string) option" where
  "urlsplit bracketed_ok raw =
     (let (scheme, s1) = split_scheme (url_clean raw);
          (netloc, s2) = split_netloc s1;
          opening = CHR ''['' \<in> set netloc; closing = CHR '']'' \<in> set netloc;
          s3 = before (CHR ''#'') s2
      in if opening \<noteq> closing \<or> (opening \<and> closing \<and> \<not> bracketed_ok netloc) then None
         else Some (scheme, netloc, before (CHR ''?'') s3, after (CHR ''?'') s3, after (CHR ''#'') s2))"

definition host_and_port :: "string \<Rightarrow> string \<times> string" where
  "host_and_port netloc =
     (if CHR ''['' \<in> set netloc
      then let bracketed = after (CHR ''['') netloc
           in (before (CHR '']'') bracketed, after (CHR '':'') (after (CHR '']'') bracketed))
      else (before (CHR '':'') netloc, after (CHR '':'') netloc))"

definition port_allowed :: "string \<Rightarrow> bool" where
  "port_allowed port \<longleftrightarrow> port = [] \<or> (list_all is_digit port
     \<and> (case parse_int port of None \<Rightarrow> False | Some n \<Rightarrow> 1 \<le> n \<and> n \<le> 65535))"

text \<open>
  A user part makes the location unusable, so the host is that of a location without one.
  \<open>urlsplit\<close> raises for unbalanced brackets.
\<close>

definition deployment_healthcheck_url :: "venv \<Rightarrow> (json \<Rightarrow> string) \<Rightarrow> world \<Rightarrow> deployment \<Rightarrow> exn + string option" where
  "deployment_healthcheck_url e sh w d =
     (let service_url = rstrip_where (\<lambda>c. c = CHR ''/'') (strip (or_str (d_service_url d) []));
          recorded = jget (project_for_deployment w d) ''healthcheck_path'';
          health_path = strip (if jtrue recorded then text_of recorded else ''/'');
          rooted = (if prefix ''/'' health_path then health_path else CHR ''/'' # health_path)
      in case urlsplit (v_bracketed_ok e) service_url of
           None \<Rightarrow> Inl (OtherExn ''ValueError'' ''Invalid IPv6 URL'')
         | Some (scheme, netloc, path', query', fragment) \<Rightarrow>
             (let (host, port) = host_and_port netloc
              in Inr (if service_url = [] \<or> scheme \<notin> {''http'', ''https''} \<or> CHR ''@'' \<in> set netloc \<or> host = []
                    \<or> query' \<noteq> [] \<or> fragment \<noteq> [] \<or> path' \<notin> {[], ''/''} \<or> \<not> port_allowed port
                 then None else Some (service_url @ rooted))))"

text \<open>What the opener does with a URL; the exceptions that are no OSError leave the route.\<close>

datatype opened_url = Answered int | Refused int | Unreachable | Raised exn

definition health_report :: "string \<Rightarrow> string \<Rightarrow> json \<Rightarrow> int \<Rightarrow> dict" where
  "health_report status message http_status t =
     [(''status'', JStr status), (''message'', JStr message), (''http_status'', http_status), (''checked_at'', JTime t)]"

definition probe_deployment_health ::
    "venv \<Rightarrow> (json \<Rightarrow> string) \<Rightarrow> (string \<Rightarrow> opened_url) \<Rightarrow> world \<Rightarrow> deployment \<Rightarrow> int \<Rightarrow> exn + dict" where
  "probe_deployment_health e sh opener w d t = ebind (deployment_healthcheck_url e sh w d) (\<lambda>url.
     if d_status d \<noteq> Running
     then Inr (health_report ''unavailable'' ''Live health is checked only for running deployments.'' JNull t)
     else case url of
       None \<Rightarrow> Inr (health_report ''unavailable'' ''No public healthcheck URL is available.'' JNull t)
     | Some u \<Rightarrow> (case opener u of
         Answered n \<Rightarrow> Inr (if 200 \<le> n \<and> n < 300
           then health_report ''healthy'' (''Workload healthcheck returned HTTP '' @ str_of_int n @ ''.'') (JInt n) t
           else health_report ''unhealthy'' (''Workload healthcheck returned unexpected HTTP '' @ str_of_int n @ ''.'') (JInt n) t)
       | Refused n \<Rightarrow> Inr (health_report ''unhealthy'' (''Workload healthcheck returned HTTP '' @ str_of_int n @ ''.'') (JInt n) t)
       | Unreachable \<Rightarrow> Inr (health_report ''unhealthy'' ''Workload healthcheck is unreachable.'' JNull t)
       | Raised ex \<Rightarrow> Inl ex))"

definition get_project_deployment_live_health ::
    "api \<Rightarrow> http \<Rightarrow> (string \<Rightarrow> opened_url) \<Rightarrow> nat \<Rightarrow> nat \<Rightarrow> response proc" where
  "get_project_deployment_live_health a r opener pid did = with_deployment pid did (\<lambda>d b.
     bind now (\<lambda>t. bind (query (\<lambda>w. probe_deployment_health (api_venv a) (t_shown r) opener w d t))
       (\<lambda>view. viewed view (\<lambda>shown. ret (200, shown)))))"

section \<open>Lemmas\<close>

lemma metrics_need_token:
  assumes "metrics a r w = Inr (Inr t)"
  shows "\<exists>token. v_config (api_venv a) ''CONTROL_PLANE_METRICS_TOKEN'' = JStr token
    \<and> metrics_bearer_token (t_authorization r) = Some token \<and> t = render_metrics w"
  using assms by (auto simp: metrics_def ebind_def compare_digest_def split: if_splits option.splits json.splits sum.splits)

lemma count_rows_all:
  assumes "distinct values'" "key ` set rows \<subseteq> set values'"
  shows "sum_list (map (count_rows key rows) values') = length rows"
  using assms(2)
proof (induction rows)
  case (Cons x rows)
  have "count_rows key (x # rows) = (\<lambda>v. (if v = key x then 1 else 0) + count_rows key rows v)"
    by (auto simp: count_rows_def)
  moreover have "sum_list (map (\<lambda>v. if v = key x then 1 else 0 :: nat) values') = 1"
    using assms(1) Cons.prems by (simp add: sum_list_distinct_conv_sum_set sum.If_cases Int_absorb1)
  ultimately show ?case using Cons by (simp add: sum_list_addf)
qed (simp add: count_rows_def)

lemma deployment_counters_add_up:
  "sum_list (map (count_rows (\<lambda>d. dep_status_name (d_status d)) (deployments w)) (map dep_status_name dep_statuses))
    = length (deployments w)"
proof (rule count_rows_all)
  show "distinct (map dep_status_name dep_statuses)" by code_simp
  have "dep_status_name st \<in> set (map dep_status_name dep_statuses)" for st by (cases st) (simp_all add: dep_statuses_def)
  then show "(\<lambda>d. dep_status_name (d_status d)) ` set (deployments w) \<subseteq> set (map dep_status_name dep_statuses)" by blast
qed

lemma probe_stays_with_service:
  assumes "probe_deployment_health e sh opener w d t = Inr out" "jget out ''status'' = JStr ''healthy''"
  shows "d_status d = Running \<and> (\<exists>u n. deployment_healthcheck_url e sh w d = Inr (Some u) \<and> opener u = Answered n \<and> 200 \<le> n \<and> n < 300)"
  using assms by (auto simp: probe_deployment_health_def ebind_def health_report_def
      split: sum.splits option.splits if_splits opened_url.splits)

end
