(* ===== verification/Configuration.thy ===== *)
theory Configuration
  imports Health_Views Complex_Main
begin

text \<open>
  \<open>config.py\<close>, the start of a process (\<open>create_app\<close>), the frontend route of
  \<open>control_plane/__init__.py\<close> and the readiness check of \<open>worker/cli.py\<close>. The environment is a
  map of strings. Integer, boolean and text settings are JSON values, floats are exact
  rationals, infinities or NaN; \<open>to_float\<close> is the conversion of a text. The lemmas say what
  holds of every process that starts.
\<close>

datatype number = Finite rat | Plus_infinity | Minus_infinity | Nan

record app_config =
  g_config :: "string \<Rightarrow> json"
  g_float :: "string \<Rightarrow> number"

text \<open>The comparisons \<open>x <= 0\<close> and \<open>x >= n\<close> of a float with an integer; NaN makes them false.\<close>

fun not_positive :: "number \<Rightarrow> bool" where
  "not_positive (Finite q) = (q \<le> 0)" | "not_positive Minus_infinity = True" | "not_positive _ = False"

fun negative :: "number \<Rightarrow> bool" where
  "negative (Finite q) = (q < 0)" | "negative Minus_infinity = True" | "negative _ = False"

fun at_least :: "number \<Rightarrow> int \<Rightarrow> bool" where
  "at_least (Finite q) n = (of_int n \<le> q)" | "at_least Plus_infinity n = True" | "at_least _ n = False"

section \<open>The environment\<close>

type_synonym environ = "string \<Rightarrow> string option"

definition env_bool :: "environ \<Rightarrow> string \<Rightarrow> bool" where
  "env_bool env name = (case env name of None \<Rightarrow> False | Some v \<Rightarrow> lower (strip v) \<in> {''1'', ''true'', ''yes'', ''on''})"

definition TEXT_SETTINGS :: "(string \<times> string option) list" where
  "TEXT_SETTINGS =
     [(''CONTROL_PLANE_EXECUTOR'', Some ''fake''), (''CONTROL_PLANE_WORKSPACE_ROOT'', Some ''/tmp/paas-workspaces''),
      (''CONTROL_PLANE_LOCAL_REPO_ROOT'', Some ''/tmp/paas-local-repos''), (''CONTROL_PLANE_REGISTRY_URL'', None),
      (''CONTROL_PLANE_REGISTRY_NAMESPACE'', None), (''CONTROL_PLANE_REGISTRY_USERNAME'', None),
      (''CONTROL_PLANE_REGISTRY_PASSWORD'', None), (''CONTROL_PLANE_API_TOKEN_READ_ONLY'', None),
      (''CONTROL_PLANE_API_TOKEN_DEPLOYER'', None), (''CONTROL_PLANE_API_TOKEN_ADMIN'', None),
      (''CONTROL_PLANE_API_TOKENS_JSON'', None), (''CONTROL_PLANE_GITHUB_WEBHOOK_SECRET'', None),
      (''CONTROL_PLANE_METRICS_TOKEN'', None), (''CONTROL_PLANE_LOG_FORMAT'', Some ''json''),
      (''CONTROL_PLANE_COMPONENT'', Some ''api''), (''CONTROL_PLANE_KUBECONFIG'', None),
      (''CONTROL_PLANE_K8S_NAMESPACE'', Some ''default''), (''CONTROL_PLANE_K8S_IMAGE_PULL_SECRET'', None),
      (''CONTROL_PLANE_K8S_DEPLOYMENT_MODE'', Some ''manifest''),
      (''CONTROL_PLANE_K8S_HELM_CHART_PATH'', Some ''deploy/helm/generic-web-app''),
      (''CONTROL_PLANE_K8S_HELM_BINARY'', Some ''helm''), (''CONTROL_PLANE_K8S_HELM_TIMEOUT'', Some ''180s''),
      (''CONTROL_PLANE_K8S_INGRESS_CLASS_NAME'', Some []),
      (''CONTROL_PLANE_K8S_INGRESS_BASE_DOMAIN'', Some ''127.0.0.1.nip.io''), (''CONTROL_PLANE_DEPLOY_HOST'', Some ''127.0.0.1'')]"

definition BOOL_SETTINGS :: "string list" where
  "BOOL_SETTINGS = [''CONTROL_PLANE_REGISTRY_ENABLED'', ''CONTROL_PLANE_ALLOW_AUTH_DISABLED'',
     ''CONTROL_PLANE_METRICS_ENABLED'', ''CONTROL_PLANE_K8S_INGRESS_ENABLED'']"

definition INT_SETTINGS :: "(string \<times> string) list" where
  "INT_SETTINGS =
     [(''MAX_CONTENT_LENGTH'', ''2097152''), (''CONTROL_PLANE_COMMAND_TIMEOUT_SECONDS'', ''600''),
      (''CONTROL_PLANE_COMMAND_RETRY_COUNT'', ''1''), (''CONTROL_PLANE_TRUSTED_PROXY_COUNT'', ''0''),
      (''CONTROL_PLANE_HEALTHCHECK_TIMEOUT_SECONDS'', ''30''), (''CONTROL_PLANE_K8S_ROLLOUT_TIMEOUT_SECONDS'', ''120''),
      (''CONTROL_PLANE_CLAIM_TTL_SECONDS'', ''300'')]"

definition FLOAT_SETTINGS :: "(string \<times> string) list" where
  "FLOAT_SETTINGS =
     [(''CONTROL_PLANE_HEALTHCHECK_INTERVAL_SECONDS'', ''1''), (''CONTROL_PLANE_WORKER_POLL_INTERVAL_SECONDS'', ''5''),
      (''CONTROL_PLANE_RECONCILER_POLL_INTERVAL_SECONDS'', ''60''), (''CONTROL_PLANE_CLAIM_REFRESH_INTERVAL_SECONDS'', ''30'')]"

definition variable_name :: "string \<Rightarrow> string" where
  "variable_name name = (if name = ''SQLALCHEMY_DATABASE_URI'' then ''CONTROL_PLANE_DATABASE_URL''
     else if name = ''MAX_CONTENT_LENGTH'' then ''CONTROL_PLANE_MAX_CONTENT_LENGTH'' else name)"

definition env_or :: "environ \<Rightarrow> string \<Rightarrow> string option \<Rightarrow> string option" where
  "env_or env name dflt = (case env (variable_name name) of None \<Rightarrow> dflt | v \<Rightarrow> v)"

definition numeric_error :: "string \<Rightarrow> exn" where
  "numeric_error name = OtherExn ''ValueError'' (''invalid literal: '' @ name)"

definition parsed_settings ::
    "environ \<Rightarrow> (string \<Rightarrow> 'a option) \<Rightarrow> (string \<times> string) list \<Rightarrow> exn + (string \<times> 'a) list" where
  "parsed_settings env convert = emap (\<lambda>(name, dflt). case env_or env name (Some dflt) of
     None \<Rightarrow> Inl (numeric_error name)
   | Some s \<Rightarrow> (case convert s of None \<Rightarrow> Inl (numeric_error name) | Some x \<Rightarrow> Inr (name, x)))"

text \<open>\<open>process_name\<close> is \<open>hostname:pid\<close>. A number that cannot be read raises, whichever comes first.\<close>

definition from_env :: "(string \<Rightarrow> number option) \<Rightarrow> string \<Rightarrow> environ \<Rightarrow> exn + app_config" where
  "from_env to_float process_name env =
     ebind (parsed_settings env parse_int INT_SETTINGS) (\<lambda>ints.
     ebind (parsed_settings env to_float FLOAT_SETTINGS) (\<lambda>floats. Inr
       \<lparr>g_config = (\<lambda>name.
          if name = ''SQLALCHEMY_DATABASE_URI'' then jopt (env_or env name None)
          else if name = ''CONTROL_PLANE_ENV'' then JStr (lower (strip (the (env_or env name (Some [])))))
          else if name = ''CONTROL_PLANE_WORKER_ID'' then jopt (env_or env name (Some process_name))
          else if name \<in> set BOOL_SETTINGS then JBool (env_bool env name)
          else case map_of ints name of Some i \<Rightarrow> JInt i
             | None \<Rightarrow> (case map_of TEXT_SETTINGS name of Some dflt \<Rightarrow> jopt (env_or env name dflt) | None \<Rightarrow> JNull)),
        g_float = (\<lambda>name. case map_of floats name of Some x \<Rightarrow> x | None \<Rightarrow> Nan)\<rparr>))"

section \<open>Validation at the start\<close>

definition int_setting :: "app_config \<Rightarrow> string \<Rightarrow> int" where
  "int_setting g name = (case g_config g name of JInt i \<Rightarrow> i | _ \<Rightarrow> 0)"

definition POSITIVE_SETTINGS :: "(bool \<times> string) list" where
  "POSITIVE_SETTINGS = [(True, ''MAX_CONTENT_LENGTH''), (True, ''CONTROL_PLANE_COMMAND_TIMEOUT_SECONDS''),
     (True, ''CONTROL_PLANE_HEALTHCHECK_TIMEOUT_SECONDS''), (True, ''CONTROL_PLANE_K8S_ROLLOUT_TIMEOUT_SECONDS''),
     (False, ''CONTROL_PLANE_HEALTHCHECK_INTERVAL_SECONDS''), (False, ''CONTROL_PLANE_WORKER_POLL_INTERVAL_SECONDS''),
     (False, ''CONTROL_PLANE_RECONCILER_POLL_INTERVAL_SECONDS''), (True, ''CONTROL_PLANE_CLAIM_TTL_SECONDS'')]"

definition setting_positive :: "app_config \<Rightarrow> bool \<times> string \<Rightarrow> bool" where
  "setting_positive g = (\<lambda>(is_int, name). if is_int then int_setting g name > 0 else \<not> not_positive (g_float g name))"

definition startup_error :: "string \<Rightarrow> exn" where
  "startup_error message = OtherExn ''RuntimeError'' message"

definition validate_numeric_config :: "app_config \<Rightarrow> exn option" where
  "validate_numeric_config g =
     (let refresh = g_float g ''CONTROL_PLANE_CLAIM_REFRESH_INTERVAL_SECONDS''
      in case find (\<lambda>x. \<not> setting_positive g x) POSITIVE_SETTINGS of
        Some (is_int, name) \<Rightarrow> Some (startup_error (name @ '' must be greater than zero''))
      | None \<Rightarrow>
          if int_setting g ''CONTROL_PLANE_COMMAND_RETRY_COUNT'' < 0
          then Some (startup_error ''CONTROL_PLANE_COMMAND_RETRY_COUNT cannot be negative'')
          else if negative refresh
          then Some (startup_error ''CONTROL_PLANE_CLAIM_REFRESH_INTERVAL_SECONDS cannot be negative'')
          else if at_least refresh (int_setting g ''CONTROL_PLANE_CLAIM_TTL_SECONDS'')
          then Some (startup_error
             ''CONTROL_PLANE_CLAIM_REFRESH_INTERVAL_SECONDS must be less than CONTROL_PLANE_CLAIM_TTL_SECONDS'')
          else None)"

text \<open>\<open>instance_db\<close> is the resolved path of the database file in the instance directory.\<close>

definition resolve_database_url :: "environ \<Rightarrow> string \<Rightarrow> exn + string" where
  "resolve_database_url env instance_db =
     (let app_env = lower (strip (or_str (env ''CONTROL_PLANE_ENV'') []))
      in if truthy (env ''CONTROL_PLANE_DATABASE_URL'') then Inr (or_str (env ''CONTROL_PLANE_DATABASE_URL'') [])
         else if app_env \<in> {''local'', ''development'', ''test''} then Inr (''sqlite:///'' @ instance_db)
         else Inl (startup_error (''CONTROL_PLANE_DATABASE_URL must be set when CONTROL_PLANE_ENV is ''
           @ squote (if app_env = [] then ''unset'' else app_env))))"

definition set_config :: "string \<Rightarrow> json \<Rightarrow> app_config \<Rightarrow> app_config" where
  "set_config name v g = g\<lparr>g_config := (g_config g)(name := v)\<rparr>"

definition metrics_token_checked :: "app_config \<Rightarrow> exn + app_config" where
  "metrics_token_checked g =
     (if g_config g ''CONTROL_PLANE_COMPONENT'' = JStr ''api'' \<and> jtrue (g_config g ''CONTROL_PLANE_METRICS_ENABLED'')
      then case g_config g ''CONTROL_PLANE_METRICS_TOKEN'' of
          JStr token \<Rightarrow>
            if strip token \<noteq> [] then Inr (set_config ''CONTROL_PLANE_METRICS_TOKEN'' (JStr (strip token)) g)
            else Inl (startup_error ''CONTROL_PLANE_METRICS_TOKEN must be set when CONTROL_PLANE_METRICS_ENABLED is true'')
        | _ \<Rightarrow> Inl (startup_error ''CONTROL_PLANE_METRICS_TOKEN must be set when CONTROL_PLANE_METRICS_ENABLED is true'')
      else Inr g)"

definition api_protected :: "(string \<Rightarrow> json option) \<Rightarrow> app_config \<Rightarrow> exn + app_config" where
  "api_protected loads g =
     (if g_config g ''CONTROL_PLANE_COMPONENT'' \<noteq> JStr ''api'' then Inr g
      else ebind (api_token_configs_from_config loads (g_config g)) (\<lambda>ks.
        if ks = [] \<and> \<not> api_auth_disabled_allowed_for_config (g_config g)
        then Inl (startup_error (''API bearer tokens must be configured unless CONTROL_PLANE_ALLOW_AUTH_DISABLED=true ''
          @ ''is explicitly set for a local development or test environment''))
        else Inr g))"

definition raising :: "exn option \<Rightarrow> 'a \<Rightarrow> exn + 'a" where
  "raising e x = (case e of Some ex \<Rightarrow> Inl ex | None \<Rightarrow> Inr x)"

definition proxies_checked :: "app_config \<Rightarrow> exn + app_config" where
  "proxies_checked g = (if int_setting g ''CONTROL_PLANE_TRUSTED_PROXY_COUNT'' < 0
     then Inl (startup_error ''CONTROL_PLANE_TRUSTED_PROXY_COUNT cannot be negative'') else Inr g)"

definition init_app :: "(string \<Rightarrow> json option) \<Rightarrow> environ \<Rightarrow> string \<Rightarrow> app_config \<Rightarrow> exn + app_config" where
  "init_app loads env instance_db g =
     ebind (if jtrue (g_config g ''SQLALCHEMY_DATABASE_URI'') then Inr g
            else ebind (resolve_database_url env instance_db) (\<lambda>url.
                   Inr (set_config ''SQLALCHEMY_DATABASE_URI'' (JStr url) g))) (\<lambda>g.
     ebind (raising (validate_numeric_config g) g) (\<lambda>g.
     ebind (proxies_checked g) (\<lambda>g.
     ebind (metrics_token_checked g) (api_protected loads))))"

text \<open>The configuration a process runs with, and whether it may serve without tokens.\<close>

definition create_app ::
    "(string \<Rightarrow> json option) \<Rightarrow> (string \<Rightarrow> number option) \<Rightarrow> string \<Rightarrow> string \<Rightarrow> environ \<Rightarrow> exn + app_config \<times> bool" where
  "create_app loads to_float process_name instance_db env =
     ebind (from_env to_float process_name env) (\<lambda>g.
     ebind (init_app loads env instance_db g) (\<lambda>g.
     ebind (raising (validate_numeric_config g) g) (\<lambda>g.
     ebind (proxies_checked g) (\<lambda>g.
     Inr (g, api_auth_disabled_allowed_for_config (g_config g))))))"

section \<open>The frontend and the readiness of a worker\<close>

datatype page = Json_404 string | File string

text \<open>\<open>found\<close> says which files \<open>send_from_directory\<close> finds below the built frontend, which has an index.\<close>

definition serve_frontend :: "(string \<Rightarrow> bool) \<Rightarrow> bool \<Rightarrow> string \<Rightarrow> page" where
  "serve_frontend found built p =
     (if p = ''health'' \<or> prefix ''api/'' p \<or> prefix ''health/'' p then Json_404 ''Not found''
      else if p \<noteq> [] \<and> found p then File p
      else if built then File ''index.html''
      else Json_404 ''Frontend build not available'')"

definition check_worker_readiness :: "bool \<Rightarrow> api \<Rightarrow> (string \<Rightarrow> json option) \<Rightarrow> string option" where
  "check_worker_readiness db_ok a loads =
     (if \<not> db_ok then Some ''worker database is unreachable''
      else case platform_status_payload a loads of
        Inl e \<Rightarrow> Some ''worker executor configuration is not ready''
      | Inr status \<Rightarrow> if jtrue (jget status ''deployment_creation_ready'') then None
          else Some ''worker executor configuration is not ready'')"

section \<open>Lemmas\<close>

lemma ebind_Inr: "ebind r k = Inr y \<longleftrightarrow> (\<exists>x. r = Inr x \<and> k x = Inr y)"
  by (cases r) (simp_all add: ebind_def)

lemma raising_Inr: "raising e x = Inr y \<longleftrightarrow> e = None \<and> y = x"
  by (cases e) (auto simp: raising_def)

lemma find_bad: "find (\<lambda>x. \<not> P x) xs = None \<longleftrightarrow> (\<forall>x \<in> set xs. P x)"
  by (auto simp: find_None_iff)

lemma numeric_config_valid:
  "validate_numeric_config g = None \<longleftrightarrow> (\<forall>x \<in> set POSITIVE_SETTINGS. setting_positive g x)
     \<and> 0 \<le> int_setting g ''CONTROL_PLANE_COMMAND_RETRY_COUNT''
     \<and> \<not> negative (g_float g ''CONTROL_PLANE_CLAIM_REFRESH_INTERVAL_SECONDS'')
     \<and> \<not> at_least (g_float g ''CONTROL_PLANE_CLAIM_REFRESH_INTERVAL_SECONDS'') (int_setting g ''CONTROL_PLANE_CLAIM_TTL_SECONDS'')"
  unfolding validate_numeric_config_def Let_def find_bad [symmetric] by (auto split: option.splits)

lemma set_config_fields [simp]:
  "g_config (set_config name v g) = (g_config g)(name := v)" "g_float (set_config name v g) = g_float g"
  by (simp_all add: set_config_def)

lemma api_protected_keeps: "api_protected loads g = Inr g' \<Longrightarrow> g' = g"
  by (auto simp: api_protected_def ebind_Inr split: if_splits)

lemma metrics_token_set:
  assumes "metrics_token_checked g = Inr g'"
  shows "g_config g' ''CONTROL_PLANE_COMPONENT'' = JStr ''api'' \<longrightarrow> jtrue (g_config g' ''CONTROL_PLANE_METRICS_ENABLED'')
    \<longrightarrow> (\<exists>token. token \<noteq> [] \<and> g_config g' ''CONTROL_PLANE_METRICS_TOKEN'' = JStr token)"
  using assms by (auto simp: metrics_token_checked_def split: if_splits json.splits)

lemma started_numbers:
  assumes "create_app loads to_float process_name instance_db env = Inr (g, allowed)"
  shows "validate_numeric_config g = None"
  using assms by (auto simp: create_app_def ebind_Inr raising_Inr proxies_checked_def split: if_splits)

lemma started_api:
  assumes "create_app loads to_float process_name instance_db env = Inr (g, allowed)" "g_config g ''CONTROL_PLANE_COMPONENT'' = JStr ''api''"
  shows "(\<exists>ks. api_token_configs_from_config loads (g_config g) = Inr ks \<and> (ks \<noteq> [] \<or> allowed))
    \<and> (jtrue (g_config g ''CONTROL_PLANE_METRICS_ENABLED'') \<longrightarrow>
         (\<exists>token. token \<noteq> [] \<and> g_config g ''CONTROL_PLANE_METRICS_TOKEN'' = JStr token))"
proof -
  obtain g1 where metrics: "metrics_token_checked g1 = Inr g" and protected: "api_protected loads g = Inr g"
    and allowed: "allowed = api_auth_disabled_allowed_for_config (g_config g)"
    using assms(1) by (auto simp: create_app_def init_app_def ebind_Inr raising_Inr proxies_checked_def
        dest: api_protected_keeps split: if_splits)
  show ?thesis
    using protected metrics_token_set [OF metrics] assms(2) allowed
    by (auto simp: api_protected_def ebind_Inr split: if_splits)
qed

section \<open>Every process that starts\<close>

text \<open>The environment that \<open>create_app\<close> reads is the one that its configuration names.\<close>

lemma ENV_kept:
  "metrics_token_checked g = Inr g' \<Longrightarrow> g_config g' ''CONTROL_PLANE_ENV'' = g_config g ''CONTROL_PLANE_ENV''"
  by (auto simp: metrics_token_checked_def split: if_splits json.splits)

lemma proxies_checked_keeps: "proxies_checked g = Inr g' \<Longrightarrow> g' = g"
  by (auto simp: proxies_checked_def split: if_splits)

lemma init_app_ENV:
  assumes "init_app loads env instance_db g = Inr g'"
  shows "g_config g' ''CONTROL_PLANE_ENV'' = g_config g ''CONTROL_PLANE_ENV''"
proof -
  obtain g1 g2 where g1: "(if jtrue (g_config g ''SQLALCHEMY_DATABASE_URI'') then Inr g
       else ebind (resolve_database_url env instance_db) (\<lambda>url.
         Inr (set_config ''SQLALCHEMY_DATABASE_URI'' (JStr url) g))) = Inr g1"
    and g2: "metrics_token_checked g1 = Inr g2" "api_protected loads g2 = Inr g'"
    using assms unfolding init_app_def ebind_Inr raising_Inr by (blast dest: proxies_checked_keeps)
  have "g_config g1 ''CONTROL_PLANE_ENV'' = g_config g ''CONTROL_PLANE_ENV''"
    using g1 by (auto simp: ebind_Inr split: if_splits)
  then show ?thesis using ENV_kept [OF g2(1)] api_protected_keeps [OF g2(2)] by simp
qed

lemma from_env_ENV:
  assumes "from_env to_float process_name env = Inr g"
  shows "g_config g ''CONTROL_PLANE_ENV'' = JStr (lower (strip (or_str (env ''CONTROL_PLANE_ENV'') [])))"
proof -
  obtain ints floats where "g = \<lparr>g_config = (\<lambda>name.
          if name = ''SQLALCHEMY_DATABASE_URI'' then jopt (env_or env name None)
          else if name = ''CONTROL_PLANE_ENV'' then JStr (lower (strip (the (env_or env name (Some [])))))
          else if name = ''CONTROL_PLANE_WORKER_ID'' then jopt (env_or env name (Some process_name))
          else if name \<in> set BOOL_SETTINGS then JBool (env_bool env name)
          else case map_of ints name of Some i \<Rightarrow> JInt i
             | None \<Rightarrow> (case map_of TEXT_SETTINGS name of Some dflt \<Rightarrow> jopt (env_or env name dflt) | None \<Rightarrow> JNull)),
        g_float = (\<lambda>name. case map_of floats name of Some x \<Rightarrow> x | None \<Rightarrow> Nan)\<rparr>"
    using assms unfolding from_env_def ebind_Inr by blast
  then show ?thesis by (simp add: env_or_def variable_name_def or_str_def split: option.split)
qed

lemma started_parts:
  assumes "create_app loads to_float process_name instance_db env = Inr (g, allowed)"
  shows "\<exists>g0. from_env to_float process_name env = Inr g0 \<and> init_app loads env instance_db g0 = Inr g
    \<and> allowed = api_auth_disabled_allowed_for_config (g_config g)"
  using assms unfolding create_app_def ebind_Inr raising_Inr by (blast dest: proxies_checked_keeps)

lemma started_environment:
  assumes "create_app loads to_float process_name instance_db env = Inr (g, allowed)"
  shows "g_config g ''CONTROL_PLANE_ENV'' = JStr (lower (strip (or_str (env ''CONTROL_PLANE_ENV'') [])))"
  using started_parts [OF assms] init_app_ENV from_env_ENV by metis

lemma is_space_lower [simp]: "is_space (lower_char c) = is_space c"
  unfolding is_space_def code_lower_char by (auto split: if_splits)

lemma lower_strip_again [simp]: "lower (strip (lower (strip s))) = lower (strip s)"
proof -
  let ?t = "lower (strip s)"
  have "?t = [] \<or> \<not> is_space (hd ?t) \<and> \<not> is_space (last ?t)"
    using hd_strip_where [of is_space s] last_strip_where [of is_space s]
    by (cases "strip s = []") (simp_all add: strip_def lower_def hd_map last_map)
  then have "strip ?t = ?t" unfolding strip_def by (rule strip_where_fixed)
  then show ?thesis by (simp add: lower_idem)
qed

definition whole :: "string \<Rightarrow> number option" where
  "whole s = map_option (\<lambda>n. Finite (of_int n)) (parse_int s)"

definition production_env :: environ where
  "production_env = [''CONTROL_PLANE_ENV'' \<mapsto> ''production'', ''CONTROL_PLANE_DATABASE_URL'' \<mapsto> ''postgresql://db'',
     ''CONTROL_PLANE_API_TOKEN_ADMIN'' \<mapsto> ''t0ken'']"

definition anonymous :: http where
  "anonymous = \<lparr>t_method = ''GET'', t_path = ''/api/projects'', t_ip = None, t_authorization = None, t_body = [], t_json = None,
     t_loads = (\<lambda>_. None), t_auth_disabled_at_startup = False, t_audit_ok = True, t_shown = (\<lambda>_. [])\<rparr>"

lemma production_starts:
  "case create_app (t_loads anonymous) whole ''api:1'' ''/app/instance/control_plane.db'' production_env of Inl e \<Rightarrow> False
     | Inr (g, allowed) \<Rightarrow> g_config g ''CONTROL_PLANE_COMPONENT'' = JStr ''api'' \<and> \<not> allowed"
  by code_simp

text \<open>
  C3: An API process that starts outside a development or test environment lets no request
  pass a route that asks for a role unless it carries a bearer token: every other request is
  answered 401 and changes nothing but the audit trail.
\<close>

theorem production_api_needs_token:
  assumes "create_app (t_loads r) to_float process_name instance_db env = Inr (g, t_auth_disabled_at_startup r)"
    and "g_config g ''CONTROL_PLANE_COMPONENT'' = JStr ''api''" "v_config (api_venv a) = g_config g"
    and "lower (strip (or_str (env ''CONTROL_PLANE_ENV'') [])) \<notin> {''development'', ''local'', ''test''}"
    and "\<forall>token. extract_bearer_token (t_authorization r) \<noteq> Token_present token"
  shows "\<exists>s' answer. with_role a r required view s = (Inr (401, answer), s') \<and> same_but_audits s s'"
proof -
  have "\<not> t_auth_disabled_at_startup r"
    using assms(4) started_environment [OF assms(1)] started_parts [OF assms(1)]
    by (auto simp: api_auth_disabled_allowed_for_config_def)
  then obtain ks where ks: "api_token_configs_from_config (t_loads r) (v_config (api_venv a)) = Inr ks" "ks \<noteq> []"
    using started_api [OF assms(1,2)] assms(3) by auto
  have "\<exists>s' answer. authorize_request a r Read_only None s = (Inr (Inl (401, answer)), s') \<and> same_but_audits s s'"
    using assms(5) ks denied_run [of a r _ Read_only None 401 _ s]
    by (cases "extract_bearer_token (t_authorization r)") (fastforce simp: authorize_request_def bind_def lift_def Let_def)+
  then show ?thesis by (auto simp: with_role_def bind_def ret_def)
qed

theorem production_api_needs_token_witness:
  "\<exists>g. create_app (t_loads anonymous) whole ''api:1'' ''/app/instance/control_plane.db'' production_env = Inr (g, False)
     \<and> (\<forall>s. \<exists>s' answer. with_role (reader_api\<lparr>api_venv := (api_venv reader_api)\<lparr>v_config := g_config g\<rparr>\<rparr>) anonymous Admin
          (\<lambda>_. ret health_check) s = (Inr (401, answer), s') \<and> same_but_audits s s')"
proof -
  obtain g where g: "create_app (t_loads anonymous) whole ''api:1'' ''/app/instance/control_plane.db'' production_env
      = Inr (g, t_auth_disabled_at_startup anonymous)" "g_config g ''CONTROL_PLANE_COMPONENT'' = JStr ''api''"
    using production_starts by (auto simp: anonymous_def split: sum.splits)
  have "\<exists>s' answer. with_role (reader_api\<lparr>api_venv := (api_venv reader_api)\<lparr>v_config := g_config g\<rparr>\<rparr>) anonymous Admin
      (\<lambda>_. ret health_check) s = (Inr (401, answer), s') \<and> same_but_audits s s'" for s
  proof (rule production_api_needs_token [OF g])
    show "lower (strip (or_str (production_env ''CONTROL_PLANE_ENV'') [])) \<notin> {''development'', ''local'', ''test''}" by code_simp
  qed (simp_all add: anonymous_def extract_bearer_token_def or_str_def strip_def strip_where_def)
  then show ?thesis using g by (auto simp: anonymous_def)
qed

text \<open>
  C39: A process that starts has positive limits and a number of retries that is not negative,
  and refreshes the claims of its deployments at intervals below their time to live: the
  interval is a number from 0 to that time, or NaN, which no check refuses.
\<close>

theorem started_process_has_sound_times:
  assumes "create_app loads to_float process_name instance_db env = Inr (g, allowed)"
  shows "0 < int_setting g ''MAX_CONTENT_LENGTH'' \<and> 0 < int_setting g ''CONTROL_PLANE_COMMAND_TIMEOUT_SECONDS''
    \<and> 0 \<le> int_setting g ''CONTROL_PLANE_COMMAND_RETRY_COUNT'' \<and> 0 < int_setting g ''CONTROL_PLANE_CLAIM_TTL_SECONDS''
    \<and> (g_float g ''CONTROL_PLANE_CLAIM_REFRESH_INTERVAL_SECONDS'' = Nan
       \<or> (\<exists>q. g_float g ''CONTROL_PLANE_CLAIM_REFRESH_INTERVAL_SECONDS'' = Finite q \<and> 0 \<le> q
            \<and> q < of_int (int_setting g ''CONTROL_PLANE_CLAIM_TTL_SECONDS'')))"
proof -
  have valid: "validate_numeric_config g = None" by (rule started_numbers [OF assms])
  show ?thesis using valid unfolding numeric_config_valid
    by (cases "g_float g ''CONTROL_PLANE_CLAIM_REFRESH_INTERVAL_SECONDS''")
      (simp_all add: POSITIVE_SETTINGS_def setting_positive_def not_less not_le)
qed

theorem started_process_has_sound_times_witness:
  "\<exists>g. create_app (t_loads anonymous) whole ''api:1'' ''/app/instance/control_plane.db'' production_env = Inr (g, False)
     \<and> 0 < int_setting g ''CONTROL_PLANE_CLAIM_TTL_SECONDS''"
proof -
  obtain g where "create_app (t_loads anonymous) whole ''api:1'' ''/app/instance/control_plane.db'' production_env = Inr (g, False)"
    using production_starts by (auto split: sum.splits)
  then show ?thesis using started_process_has_sound_times by blast
qed

end
