(* ===== verification/Spec2Isabelle.thy ===== *)
theory Spec2Isabelle
  imports Examples Payload_Validation Request_Properties Retention Platform Executor_Properties View_Properties Configuration
begin

text \<open>
  A model of the deployment platform in \<open>src/control_plane\<close> and \<open>src/worker\<close>: an API that
  stores projects, deployment requests and operator commands in a database, and worker and
  reconciler processes that take that work and run it through an executor (Docker,
  Kubernetes or a fake one). The processes share nothing but the database.

  \<^bold>\<open>State.\<close> \<open>Models\<close> has one record per table (projects, builds, deployments, commands, events,
  webhook deliveries, audit events) and the database \<open>world\<close>, a record of tables. A process
  works in a \<open>session\<close> (theory \<open>Session\<close>): the committed database \<open>com\<close>, its own view \<open>cur\<close> with
  the writes that are still pending, and the clock of the database in seconds. Operations
  are steps on sessions that return a value or an exception; \<open>commit\<close> publishes \<open>cur\<close>,
  \<open>rollback\<close> returns to \<open>com\<close>, as SQLAlchemy does. Statuses are datatypes with the
  transition tables of the models (\<open>Status\<close>). JSON values and Python strings are in \<open>Json\<close> and
  \<open>Prelude\<close>; a string is a sequence of the code points 0 to 255.

  \<^bold>\<open>The machine of a worker.\<close> An executor runs commands, waits, and reads and writes files.
  \<open>Machine\<close> has the operating system as a record of functions (\<open>os\<close>: processes, sockets, HTTP,
  files, JSON), the \<open>machine\<close> with its clock in milliseconds and the number of interactions so
  far, and actions on it that return or raise. Every interaction may take time and may let
  other processes commit to the database, heartbeats included.

  \<^bold>\<open>Other processes.\<close> A call of an executor is a function of the database and the time, which
  it may change: it stands for the external tool and for everything that other processes
  commit while it runs. The pipeline is proved for any such call; its theorems state what
  they need of it (\<open>calm_executor\<close>: the claim is kept, the statuses of the attempt are left alone
  and no stop is requested; \<open>clean_executor\<close>: no error is recorded on its rows; \<open>call_keeps\<close>: an
  invariant is kept). The
  Docker and Kubernetes executors below are instances (\<open>local_docker\<close>,
  \<open>build_kubernetes_executor\<close>). In the requests of the API, \<open>others\<close> is what other transactions
  commit between the first lookup and the flush, where a unique constraint decides a race and
  a foreign key refuses rows of a deployment that was deleted meanwhile.

  \<^bold>\<open>Parts.\<close>
  \<^item> \<open>Security\<close> and \<open>Log_Redaction\<close> (\<open>security.py\<close>, \<open>logging_config.py\<close>), \<open>Spec_Snapshot\<close>
    (\<open>deployment_spec.py\<close>), \<open>Runtime_Metadata\<close> (\<open>deployment_runtime_metadata.py\<close>), \<open>Execution\<close>
    (the interface of executors, the fake one, the factory and the workload environment),
    \<open>Retention\<close> (\<open>retention.py\<close>), \<open>Configuration\<close> (\<open>config.py\<close>, the start of a process).
  \<^item> The worker: \<open>Lease\<close> and \<open>Claims\<close> (\<open>processing/claims.py\<close>, \<open>events.py\<close>), \<open>Lifecycle\<close>, \<open>Pipeline\<close>
    (\<open>process_deployment\<close>, one definition per stage), \<open>Commands\<close> (\<open>command_processor.py\<close>,
    \<open>helm/ownership.py\<close>), and \<open>Invariants\<close> for the polling loops of \<open>cli.py\<close>.
  \<^item> The reconciler: \<open>Reconcile\<close> (\<open>worker/reconciliation\<close>, every rule and the pass).
  \<^item> The executors: \<open>Command_Runner\<close> (\<open>command_runner.py\<close>), \<open>Source_Build\<close> (clone, build, test, tag,
    push, verify), \<open>Docker_Executor\<close> (\<open>docker_runtime.py\<close>, \<open>local_docker.py\<close>, \<open>healthcheck.py\<close>), \<open>Names\<close> and
    \<open>Workload_Rendering\<close> (names, manifests, chart values), \<open>Kubernetes_Diagnostics\<close>,
    \<open>Kubernetes_Checks\<close> (preflight, health check), \<open>Kubernetes_Manifest\<close>, \<open>Helm_Diagnostics\<close>,
    \<open>Kubernetes_Helm\<close> (\<open>helm.py\<close>, \<open>helm/runner.py\<close>) and \<open>Kubernetes_Executor\<close>.
  \<^item> The control plane: \<open>Command_Validation\<close>, \<open>Urls\<close>, \<open>Field_Validation\<close>, \<open>Payload_Validation\<close>
    (\<open>command_validation.py\<close>, \<open>projects/validation.py\<close>), \<open>Orchestration\<close>
    (\<open>deployments/orchestration.py\<close>), \<open>Requests\<close> (\<open>command_requests.py\<close>, \<open>deployments/service.py\<close>,
    \<open>projects/service.py\<close>), \<open>Serialize\<close> (\<open>to_dict\<close> and the response serializers), \<open>Webhooks\<close>
    (\<open>api/webhooks.py\<close>), \<open>Auth\<close> (\<open>api/auth.py\<close>, \<open>audit_service.py\<close>), \<open>Routes\<close> (\<open>api/projects.py\<close>,
    \<open>request_parsing.py\<close>).
  \<^item> The views: \<open>Deployment_Views\<close> and \<open>Project_Views\<close> (the two \<open>read_models.py\<close> and their routes),
    \<open>Health_Views\<close> (\<open>health.py\<close>, \<open>metrics.py\<close>, \<open>live_health.py\<close>, \<open>audit.py\<close>).
  \<^item> The whole: \<open>Platform\<close> lets work items, reconciler passes, requests (project deletion
    included), webhooks and retention runs follow one another in any order on one database.
    \<open>Executor_Properties\<close> has the properties of the Kubernetes executor and shows that the
    executors of the code, with the heartbeats of their claims, are workers of that platform.

  \<^bold>\<open>Lemmas.\<close> \<open>Pipeline_Outcome\<close>, \<open>Command_Outcome\<close>, \<open>Reconcile_Outcome\<close>, \<open>Interruption\<close>,
  \<open>Request_Outcome\<close> and \<open>Webhook_Outcome\<close> compute what each operation leaves behind, with
  triples over sessions for the worker, whose executor is arbitrary (\<open>Clean_Attempt\<close>: the errors
  that its rows record); \<open>Kubernetes_Outcome\<close> does so for the actions of the Kubernetes executor. Invariants go through the locale
  \<open>world_invariant\<close> (\<open>Session\<close>): a predicate on databases that the writes of the components keep
  is kept by every step, commit and rollback included. It is interpreted on the history of
  the rows and on the uniqueness of active commands; \<open>growing\<close> extends it with the rows that
  requests add. The locales \<open>table\<close>, \<open>status_machine\<close> and the one of \<open>Lease\<close> are the interfaces of
  tables, transition tables and claims. \<open>Demo\<close> and \<open>Examples\<close> have the small platform of the
  concrete instances. The properties that span components are below and in
  \<open>Request_Properties\<close>, \<open>View_Properties\<close> and \<open>Executor_Properties\<close>, those of one component at the
  end of its theory.

  \<^bold>\<open>Bounds.\<close> The polling loops run until a signal stops them; their bound is the number of
  rounds that start, and the invariants hold for every bound. The loops of the executors
  are bounded as in the code: a container start tries 3 ports and a port-forward is started
  3 times (fuel 3 each), a polled command ends because every round takes at least 51
  milliseconds of its timeout, a diagnostic snapshot ends after 30 seconds. No other
  definition uses fuel. The database that an executor call reads is that of its start.

  \<^bold>\<open>Not modelled.\<close> The text of log lines and response headers; Flask wiring, the click commands
  and signal handlers; the reading of executor settings from the configuration; the hooks
  that only tests inject into executors; floats in JSON values; migrations. git, docker,
  kubectl, helm and the HTTP client are the operating system; the HMAC digest of webhooks,
  \<open>ipaddress\<close>, the parser of JSON bodies and the conversion of text to floats are parameters.
  A status outside of its table, which no validated request can store, is not
  representable.

  \<^bold>\<open>Granularity.\<close> The code takes no row lock and its rows have no version: between reading a
  status and writing it, another process may commit. The model has such a commit inside an
  executor call and at the flush of a command, a delivery and a webhook's deployments
  (\<open>others\<close>), and nowhere else: the remaining code of a work item, a reconciler pass and a
  request is one step of \<open>Platform\<close>. A killed process is assumed to be gone within the 5
  seconds that the command runner waits for it after a failed heartbeat.
\<close>

section \<open>The outcome of an attempt\<close>

text \<open>
  C5: A worker processes a pending deployment that it has claimed. Its executor may raise
  anything; while a call runs, the row keeps the claim, nobody changes the status of the
  deployment or of its build (as a cancellation of the build would) and nobody requests a
  stop. Then the worker always returns, with the attempt committed either as running
  (deployment running, build succeeded) or as failed (both failed, with an error), and in
  both cases the claim is released.
\<close>

theorem process_deployment_completes:
  assumes "calm_executor plain_exn (\<lambda>_ _. False) c did ex" "identity_raises plain_exn c ex"
    and "held c did Pending B_pending (cur s)" "com s = cur s"
  shows "\<exists>s'. process_deployment c did (Some ex) s = (Inr (Some did), s')
    \<and> (Committed did running_end s' \<or> Committed did failed_end s')"
proof -
  have "triple (At c did Pending B_pending) (process_deployment c did (Some ex))
      (\<lambda>r s. r = Some did \<and> (Committed did running_end s \<or> Committed did failed_end s)) (\<lambda>e s. False)"
    by (rule process_triple [OF assms(1) _ assms(2)]) (simp_all add: interrupting_def triple_def)
  moreover have "At c did Pending B_pending s"
    using assms(3,4) unfolding At_def failable_def by auto
  ultimately show ?thesis by (rule triple_returned)
qed

theorem process_deployment_completes_witness:
  "let s = at_rest (demo_world [demo_dep 3 Pending (Some (''w1'', 990))] [demo_build 3 B_pending] [])
   in \<exists>s'. process_deployment demo_cfg 3 (Some (fake_executor demo_cfg)) s = (Inr (Some 3), s')
    \<and> (Committed 3 running_end s' \<or> Committed 3 failed_end s')"
  unfolding Let_def
  by (rule process_deployment_completes) (simp_all add: fake_calm fake_identity demo_held)

text \<open>
  C6: When no call of the executor raises, and while the calls run the row keeps the claim,
  nobody changes a status of the attempt, requests a stop or records an error on its rows,
  then the attempt ends running, committed: deployment running, build succeeded, finished,
  the claim released, and neither row has an error, whatever error the rows carried
  before.
\<close>

theorem process_deployment_succeeds:
  assumes "calm_executor (\<lambda>_. False) (\<lambda>_ _. False) c did ex" "identity_raises (\<lambda>_. False) c ex"
    and "clean_executor did ex"
    and "held c did Pending B_pending (cur s)" "com s = cur s"
  shows "\<exists>s'. process_deployment c did (Some ex) s = (Inr (Some did), s')
    \<and> Committed did running_end s' \<and> error_free did (com s')"
proof -
  have start: "At c did Pending B_pending s"
    using assms(4,5) unfolding At_def failable_def by auto
  have "triple (At c did Pending B_pending) (process_deployment c did (Some ex))
      (\<lambda>r s. r = Some did \<and> Committed did running_end s) (\<lambda>e s. False)"
    by (rule process_triple [OF assms(1) _ assms(2)]) (simp_all add: interrupting_def triple_def)
  from triple_returned [OF this start]
  obtain s' where run: "process_deployment c did (Some ex) s = (Inr (Some did), s')"
      "Committed did running_end s'" by (elim exE conjE) auto
  moreover have "error_free did (cur s')"
    by (rule successful_attempt_error_free [OF assms(1,2,3) start run(1)])
  ultimately show ?thesis by (auto simp: Committed_def)
qed

theorem process_deployment_succeeds_witness:
  "let s = at_rest (demo_world [(demo_dep 3 Pending (Some (''w1'', 990)))\<lparr>d_last_error := Some ''timeout''\<rparr>]
         [(demo_build 3 B_pending)\<lparr>b_last_error := Some ''timeout''\<rparr>] [])
   in \<exists>s'. process_deployment demo_cfg 3 (Some (fake_executor demo_cfg)) s = (Inr (Some 3), s')
    \<and> Committed 3 running_end s' \<and> error_free 3 (com s')"
  unfolding Let_def
  by (rule process_deployment_succeeds)
    (simp_all add: fake_calm fake_identity fake_clean held_def demo_reads demo_defs active_stop_def)

text \<open>
  C7: When another worker takes the deployment over while a call of the executor runs
  (leaving it as the rows \<open>d1\<close>, \<open>b1\<close>), the worker writes nothing of its own attempt over it,
  whatever the call returned or raised: it appends one \<open>claim_lost\<close> event to the database it
  found at the return of the call and leaves every row as it is.
\<close>

theorem lost_claim_writes_one_event:
  assumes "cut_off (handed_over c did d1 b1) c did ex"
    and "held c did Pending B_pending (cur s)" "com s = cur s"
  shows "\<exists>s'. process_deployment c did (Some ex) s = (Inr (Some did), s')
    \<and> (\<exists>w e. handed_over c did d1 b1 e w \<and> Lost_end did w s')"
proof -
  have "triple (At c did Pending B_pending) (process_deployment c did (Some ex))
      (\<lambda>r s. r = Some did \<and> (\<exists>w e. handed_over c did d1 b1 e w
         \<and> (if True then Lost_end did w s else Stop_end did w s))) (\<lambda>e s. False)"
    by (rule cut_off_triple [OF assms(1) handed_over_interrupting blocked_triple])
      (auto simp: handed_over_def)
  moreover have "At c did Pending B_pending s"
    using assms(2,3) unfolding At_def failable_def by auto
  ultimately show ?thesis using triple_returned by fastforce
qed

theorem lost_claim_writes_one_event_witness:
  "let s = at_rest (demo_world [demo_dep 3 Pending (Some (''w1'', 990))] [demo_build 3 B_pending] []);
       d1 = demo_dep 3 Cloning (Some (''w2'', 1900)); b1 = demo_build 3 B_cloning
   in \<exists>s'. process_deployment demo_cfg 3 (Some (returning_in taken_over)) s = (Inr (Some 3), s')
    \<and> (\<exists>w e. handed_over demo_cfg 3 d1 b1 e w \<and> Lost_end 3 w s')"
  unfolding Let_def
  by (rule lost_claim_writes_one_event)
    (simp_all add: cut_off_returning taken_over_lost demo_held)

text \<open>
  C8: When an operator requests a stop while a call of the executor runs, the worker writes
  nothing more of its attempt, whatever the call returned or raised: it appends one
  acknowledgement to the database it found and releases its claim, so that the command can
  be claimed.
\<close>

theorem stop_request_releases_claim:
  assumes "cut_off (stop_requested c did d1 b1) c did ex"
    and "held c did Pending B_pending (cur s)" "com s = cur s"
  shows "\<exists>s'. process_deployment c did (Some ex) s = (Inr (Some did), s')
    \<and> (\<exists>w e. stop_requested c did d1 b1 e w \<and> Stop_end did w s')"
proof -
  have "triple (At c did Pending B_pending) (process_deployment c did (Some ex))
      (\<lambda>r s. r = Some did \<and> (\<exists>w e. stop_requested c did d1 b1 e w
         \<and> (if False then Lost_end did w s else Stop_end did w s))) (\<lambda>e s. False)"
    by (rule cut_off_triple [OF assms(1) stop_requested_interrupting blocked_triple])
      (auto simp: stop_requested_def)
  moreover have "At c did Pending B_pending s"
    using assms(2,3) unfolding At_def failable_def by auto
  ultimately show ?thesis using triple_returned by fastforce
qed

theorem stop_request_releases_claim_witness:
  "let s = at_rest (demo_world [demo_dep 3 Pending (Some (''w1'', 990))] [demo_build 3 B_pending] []);
       d1 = demo_dep 3 Deploying (Some (''w1'', 1900)); b1 = demo_build 3 B_succeeded
   in \<exists>s'. process_deployment demo_cfg 3 (Some (returning_in stop_asked)) s = (Inr (Some 3), s')
    \<and> (\<exists>w e. stop_requested demo_cfg 3 d1 b1 e w \<and> Stop_end 3 w s')"
  unfolding Let_def
  by (rule stop_request_releases_claim)
    (simp_all add: cut_off_returning stop_asked_stop demo_held)

section \<open>Histories\<close>

text \<open>
  Whatever a worker loop does in any number of rounds, with any executor and any other
  processes that respect histories themselves: no row disappears, the status of every
  deployment and build only moves along its transition table, a deployment keeps its
  project, build, environment and specification, a finished command stays finished, and
  the timeline is only appended to.
\<close>

theorem worker_loop_history:
  assumes "factory_keeps (history w0) c" "idle_keeps (history w0) idle"
    and "com s = w0" "cur s = w0" "run_worker_loop c idle n s = (r, s')"
  shows "history w0 (com s') \<and> history w0 (cur s')"
  by (rule keepsD [OF hist.keeps_worker_loop [OF assms(1,2)] _ _ assms(5)])
    (simp_all add: assms(3,4) history_refl)

theorem worker_loop_history_witness:
  "let w0 = demo_world [demo_dep 3 Pending None] [demo_build 3 B_pending] [];
       s' = snd (run_worker_loop demo_cfg (\<lambda>n w. w) 2 (at_rest w0))
   in history w0 (com s') \<and> history w0 (cur s')"
  unfolding Let_def
  by (rule worker_loop_history [OF demo_factory_keeps idle_keeps_still at_rest(1,2) prod.collapse [symmetric]])

text \<open>
  The same holds of the reconciler loop.
\<close>

theorem reconciler_loop_history:
  assumes "factory_keeps (history w0) c" "idle_keeps (history w0) idle"
    and "com s = w0" "cur s = w0" "run_reconciler_loop c idle n s = (r, s')"
  shows "history w0 (com s') \<and> history w0 (cur s')"
  by (rule keepsD [OF hist.keeps_reconciler_loop [OF assms(1,2)] _ _ assms(5)])
    (simp_all add: assms(3,4) history_refl)

theorem reconciler_loop_history_witness:
  "let w0 = demo_world [demo_dep 3 Cloning (Some (''w2'', 1))] [demo_build 3 B_cloning] [];
       s' = snd (run_reconciler_loop demo_cfg (\<lambda>n w. w) 2 (at_rest w0))
   in history w0 (com s') \<and> history w0 (cur s')"
  unfolding Let_def
  by (rule reconciler_loop_history [OF demo_factory_keeps idle_keeps_still at_rest(1,2) prod.collapse [symmetric]])

text \<open>
  Active commands stay consistent under a worker loop: a command carries the active key
  exactly while it is pending or claimed, and a deployment never has two active commands of
  one type.
\<close>

theorem worker_loop_active_commands:
  assumes "factory_keeps active_commands_ok c" "idle_keeps active_commands_ok idle"
    and "active_commands_ok (com s)" "active_commands_ok (cur s)" "run_worker_loop c idle n s = (r, s')"
  shows "active_commands_ok (com s')"
  using keepsD [OF actv.keeps_worker_loop [OF assms(1,2)] assms(3,4,5)] by simp

theorem worker_loop_active_commands_witness:
  "active_commands_ok (com (snd (run_worker_loop demo_cfg (\<lambda>n w. w) 2 (at_rest stop_asked))))"
  by (rule worker_loop_active_commands [OF demo_factory_keeps idle_keeps_still _ _ prod.collapse [symmetric]])
    (simp_all add: stop_asked_def demo_defs active_commands_ok_def commands_ok_def)

section \<open>Claims\<close>

text \<open>
  C9: A worker that asks for work claims the oldest deployment that is pending and whose
  claim is free or expired; it commits its claim on that row with one event, and no other
  row of any table changes.
\<close>

theorem claim_takes_oldest_claimable:
  assumes "wf_deps (cur s)" "d \<in> set (deployments (cur s))" "claimable (clock s - claim_ttl c) d"
  shows "\<exists>d0 ev s'. claim_next_pending_deployment c None None s = (Inr (Some (d_id d0)), s')
    \<and> d0 \<in> set (deployments (cur s)) \<and> claimable (clock s - claim_ttl c) d0
    \<and> d_created_at d0 \<le> d_created_at d \<and> cur s' = com s'
    \<and> com s' = add_events [ev] (upd_dep (d_id d0)
          (guarded (claim_update (worker_id c) (clock s - claim_ttl c) (clock s))) (cur s))
    \<and> e_event_type ev = ''claim_acquired'' \<and> e_deployment_id ev = d_id d0"
proof -
  let ?stale = "clock s - claim_ttl c"
  have "find (claimable ?stale) (pending_rows (cur s)) \<noteq> None"
    using assms(2,3) pending_rows_find_None [of ?stale "cur s"] by auto
  then obtain d0 where d0: "find (claimable ?stale) (pending_rows (cur s)) = Some d0" by auto
  note facts = pending_rows_find [OF d0]
  have rows: "\<forall>d \<in> set (pending_rows (cur s)). get_dep (cur s) (d_id d) = Some d"
    using get_dep_member [OF assms(1)] by (simp add: pending_rows_def)
  show ?thesis
    using facts assms(2,3) d0
    by (simp add: claim_next_run [OF assms(1)] claim_first_run [OF rows] or_str_def Let_def add_events_def)
      (rule exI [of _ d0], simp, rule exI, rule conjI, rule refl, simp)
qed

theorem claim_takes_oldest_claimable_witness:
  "let w = demo_world [demo_dep 9 Pending (Some (''w2'', 100)), demo_dep 4 Running None, demo_dep 3 Pending None]
         [demo_build 3 B_pending] [];
       d = demo_dep 9 Pending (Some (''w2'', 100)); s = at_rest w
   in \<exists>d0 ev s'. claim_next_pending_deployment demo_cfg None None s = (Inr (Some (d_id d0)), s')
    \<and> d0 \<in> set (deployments (cur s)) \<and> claimable (clock s - claim_ttl demo_cfg) d0
    \<and> d_created_at d0 \<le> d_created_at d \<and> cur s' = com s'
    \<and> com s' = add_events [ev] (upd_dep (d_id d0)
          (guarded (claim_update (worker_id demo_cfg) (clock s - claim_ttl demo_cfg) (clock s))) (cur s))
    \<and> e_event_type ev = ''claim_acquired'' \<and> e_deployment_id ev = d_id d0"
  unfolding Let_def
  by (rule claim_takes_oldest_claimable)
    (simp_all add: demo_defs wf_deps_def claimable_def unclaimed_or_stale_def)

text \<open>
  The ownership check that precedes every important write passes exactly when the
  worker's name and a time are on the row and no stop command of the deployment is active.
\<close>

theorem ownership_check_exact:
  "(\<exists>t. ensure_claim_owned c did None s = (Inr t, s)) \<longleftrightarrow>
    owned c (cur s) did \<and> active_stop (cur s) did = None"
  by (rule ensure_ok_iff)

text \<open>
  C10: A claim is exclusive: once a worker holds a deployment and refreshes in time, no
  sequence of claims, refreshes and finishing transactions (a refresh and the release in one
  transaction) of other workers takes it away. Nobody must write the release without such a
  check: the acknowledgement of a stop does, after a rollback and without looking at the
  owner again, and so do the repairs of the reconciler.
\<close>

theorem claim_is_exclusive:
  assumes "claim_holder d = Some (wk, u)" "in_time wk ttl u ops"
  shows "\<exists>u'. claim_holder (claim_run ttl ops d) = Some (wk, u')"
  unfolding claim_run_def by (rule dlease.run_keeps_holder [OF assms])

theorem claim_is_exclusive_witness:
  "\<exists>u'. claim_holder (claim_run 300 [Acquire ''w2'' 1200, Finish ''w2'' 1210, Refresh ''w1'' 1250,
      Refresh ''w2'' 1260, Acquire ''w2'' 1500] (demo_dep 3 Pending (Some (''w1'', 1000)))) = Some (''w1'', u')"
  by (rule claim_is_exclusive [where u = 1000]) (simp_all add: claim_holder_def demo_defs)

text \<open>
  Of two workers that read the same claimable row, one gets it: after the first one's
  guarded update, the second one's matches no row.
\<close>

theorem second_claim_fails:
  assumes "claim_update wk1 stale1 t1 d = Some d1" "stale2 \<le> t1"
  shows "claim_update wk2 stale2 t2 d1 = None"
  by (rule dlease.second_acquire_fails [OF assms])

theorem second_claim_fails_witness:
  "claim_update ''w2'' 701 1001 (demo_dep 3 Pending (Some (''w1'', 1000))\<lparr>d_updated_at := 1000\<rparr>) = None"
  by (rule second_claim_fails [of "''w1''" 700 1000 "demo_dep 3 Pending None"])
    (simp_all add: claim_update_def claimable_def unclaimed_or_stale_def demo_defs)

section \<open>Operator commands\<close>

text \<open>
  C11: A worker runs a stop or cleanup command that it has claimed, on a deployment whose
  Helm release, if any, no newer deployment owns. When the call of the executor returns, and while it
  runs nobody changes the row of the command (its claim is kept), the row of the deployment or a build,
  the run ends with the deployment stopped and without runtime data, an
  unfinished build cancelled (by a stop), and the command succeeded with its claim and
  active key cleared, all committed.
\<close>

theorem command_succeeds:
  assumes "command_ready (cur s) cid k d b wk" "quiet_stop ex (c_deployment_id k) cid r"
  shows "\<exists>s'. process_deployment_command c cid (Some ex) s = (Inr (Some (c_deployment_id k)), s')
    \<and> CDone (c_deployment_id k) cid (stopped_end (c_command_type k) (b_status b)) s'"
  by (rule command_success_run [OF assms])

theorem command_succeeds_witness:
  "let k = demo_cmd 3 ''stop'' C_claimed (Some (''w1'', 990));
       ex = (fake_executor demo_cfg)\<lparr>ex_stop := (\<lambda>did s. (Inr (result0 ''Stopped'' []), s))\<rparr>;
       s = at_rest (demo_world [demo_dep 3 Cloning None] [demo_build 3 B_cloning] [k])
   in \<exists>s'. process_deployment_command demo_cfg 5 (Some ex) s = (Inr (Some (c_deployment_id k)), s')
    \<and> CDone (c_deployment_id k) 5 (stopped_end (c_command_type k) (b_status (demo_build 3 B_cloning))) s'"
  unfolding Let_def
  by (rule command_succeeds [where d = "demo_dep 3 Cloning None" and wk = "''w1''" and r = "result0 ''Stopped'' []"])
    (simp_all add: command_ready_def quiet_stop_def cmd_held_def shadowed_def demo_reads demo_defs)

text \<open>
  C12: A stop or cleanup of a deployment whose Helm release a newer deployment of the same
  project and environment owns never reaches the executor: whatever the executor would
  do, the command ends skipped, and the deployment's row is unchanged.
\<close>

theorem helm_guard_protects_newer_owner:
  assumes "get_cmd (cur s) cid = Some k" "cmd_held wk k" "wk \<noteq> []"
    and "get_dep (cur s) (c_deployment_id k) = Some d" "shadowed (cur s) d k"
  shows "\<exists>s'. (\<forall>executor. process_deployment_command c cid executor s = (Inr (Some (c_deployment_id k)), s'))
    \<and> cur s' = com s' \<and> get_dep (com s') (c_deployment_id k) = Some d
    \<and> get_cmd (com s') cid = Some (finish_command C_skipped None (clock s) k)"
  by (rule shadowed_command_run [OF assms])

theorem helm_guard_protects_newer_owner_witness:
  "let k = demo_cmd 3 ''cleanup'' C_claimed (Some (''w1'', 990));
       d = (demo_dep 3 Running None)\<lparr>d_deploy_target := Some ''kubernetes'', d_helm_release_name := Some ''shop''\<rparr>;
       s = at_rest (demo_world [d, demo_dep 4 Running None] [demo_build 3 B_succeeded] [k])
   in \<exists>s'. (\<forall>executor. process_deployment_command demo_cfg 5 executor s = (Inr (Some (c_deployment_id k)), s'))
    \<and> cur s' = com s' \<and> get_dep (com s') (c_deployment_id k) = Some d
    \<and> get_cmd (com s') 5 = Some (finish_command C_skipped None (clock s) k)"
  unfolding Let_def
  by (rule helm_guard_protects_newer_owner [where wk = "''w1''"])
    (simp_all add: cmd_held_def shadowed_def newer_owners_def deployment_has_helm_release_metadata_def
      demo_reads demo_defs)

text \<open>
  A worker that asks for a command gets the first active one, in order of request, that
  is unclaimed or expired and whose deployment no live worker holds; only that row changes,
  and when there is none nothing changes.
\<close>

theorem command_claim_exact:
  "claim_next_pending_command c None None s =
     (case find (cmd_eligible (clock s - claim_ttl c) (cur s)) (active_command_ids (cur s)) of
        None \<Rightarrow> (Inr None, s\<lparr>cur := com s\<rparr>)
      | Some cid \<Rightarrow>
          let w = upd_cmd cid (\<lambda>k. k\<lparr>c_status := C_claimed, c_claimed_by := Some (worker_id c),
                    c_claimed_at := Some (clock s)\<rparr>) (cur s)
          in (Inr (Some cid), s\<lparr>com := w, cur := w\<rparr>))"
  by (simp add: claim_next_command_run claim_first_command_run or_str_def)

section \<open>Reconciliation of claims\<close>

text \<open>
  C13: An expired claim of an unfinished attempt whose build was not cancelled is recovered:
  deployment and build become failed with an error, the claim is released, and the repair
  is committed.
\<close>

theorem stale_attempt_recovered:
  assumes "get_dep (cur s) did = Some d" "get_build (cur s) (d_build_id d) = Some b"
    and "stale_claim c (clock s) d" "d_status d \<in> set IN_PROGRESS_STATUSES" "b_status b \<noteq> B_cancelled"
  shows "\<exists>s'. reconcile_stale_claim c did s = (Inr True, s') \<and> Committed did failed_end s'"
  by (rule stale_in_progress_run [OF assms])

theorem stale_attempt_recovered_witness:
  "\<exists>s'. reconcile_stale_claim demo_cfg 3 (at_rest (demo_world [demo_dep 3 Testing (Some (''w2'', 600))]
      [demo_build 3 B_testing] [])) = (Inr True, s') \<and> Committed 3 failed_end s'"
  by (rule stale_attempt_recovered [where d = "demo_dep 3 Testing (Some (''w2'', 600))" and b = "demo_build 3 B_testing"])
    (simp_all add: demo_reads demo_defs stale_claim_def IN_PROGRESS_STATUSES_def)

text \<open>
  An expired claim on a deployment that is pending or finished is released; its status
  and its build stay as they are, so a pending deployment can be claimed again.
\<close>

theorem stale_idle_claim_released:
  assumes "get_dep (cur s) did = Some d" "get_build (cur s) (d_build_id d) = Some b"
    and "stale_claim c (clock s) d" "d_status d \<notin> set IN_PROGRESS_STATUSES"
  shows "\<exists>s'. reconcile_stale_claim c did s = (Inr True, s')
    \<and> Committed did (\<lambda>d' b'. unclaimed d' \<and> d_status d' = d_status d \<and> b' = b) s'"
  by (rule stale_other_run [OF assms])

theorem stale_idle_claim_released_witness:
  "let d = demo_dep 3 Pending (Some (''w2'', 600)); b = demo_build 3 B_pending
   in \<exists>s'. reconcile_stale_claim demo_cfg 3 (at_rest (demo_world [d] [b] [])) = (Inr True, s')
    \<and> Committed 3 (\<lambda>d' b'. unclaimed d' \<and> d_status d' = d_status d \<and> b' = b) s'"
  unfolding Let_def
  by (rule stale_idle_claim_released)
    (simp_all add: demo_reads demo_defs stale_claim_def IN_PROGRESS_STATUSES_def)

text \<open>
  A claim that has not expired is left alone: the rule changes nothing.
\<close>

theorem fresh_claim_kept:
  assumes "get_dep (cur s) did = Some d" "\<not> stale_claim c (clock s) d"
  shows "reconcile_stale_claim c did s = (Inr False, s)"
  by (rule fresh_claim_untouched [OF assms])

theorem fresh_claim_kept_witness:
  "let s = at_rest (demo_world [demo_dep 3 Testing (Some (''w2'', 700))] [demo_build 3 B_testing] [])
   in reconcile_stale_claim demo_cfg 3 s = (Inr False, s)"
  unfolding Let_def
  by (rule fresh_claim_kept [where d = "demo_dep 3 Testing (Some (''w2'', 700))"])
    (simp_all add: demo_reads demo_defs stale_claim_def)

text \<open>
  C14: The repair of an expired claim of an unfinished deployment whose build an operator
  has cancelled raises \<open>ValueError\<close>, because a cancelled build cannot become failed, and
  commits nothing. A pass of the reconciler rolls the repair back and goes on with the next
  deployment: the expired claim and the status of the deployment stay.
\<close>

theorem cancelled_build_blocks_recovery:
  assumes "get_dep (com s) did = Some d" "get_build (com s) (d_build_id d) = Some b" "cur s = com s"
    and "stale_claim c (clock s) d" "d_status d \<in> set IN_PROGRESS_STATUSES" "b_status b = B_cancelled"
  shows "(\<exists>s'. reconcile_stale_claim c did s = (Inl (OtherExn ''ValueError''
        ''Invalid build transition from cancelled to failed''), s') \<and> com s' = com s)
    \<and> reconcile_each c (did # dids) n s = reconcile_each c dids n s"
proof
  show "\<exists>s'. reconcile_stale_claim c did s = (Inl (OtherExn ''ValueError''
      ''Invalid build transition from cancelled to failed''), s') \<and> com s' = com s"
    using stale_cancelled_raises [of s did d b c] assms by auto
  show "reconcile_each c (did # dids) n s = reconcile_each c dids n s"
    by (rule stuck_pass [OF assms])
qed

theorem cancelled_build_blocks_recovery_witness:
  "let s = at_rest (demo_world [demo_dep 3 Testing (Some (''w2'', 600))] [demo_build 3 B_cancelled] [])
   in (\<exists>s'. reconcile_stale_claim demo_cfg 3 s = (Inl (OtherExn ''ValueError''
        ''Invalid build transition from cancelled to failed''), s') \<and> com s' = com s)
    \<and> reconcile_each demo_cfg [3] 0 s = reconcile_each demo_cfg [] 0 s"
  unfolding Let_def
  by (rule cancelled_build_blocks_recovery
      [where d = "demo_dep 3 Testing (Some (''w2'', 600))" and b = "demo_build 3 B_cancelled"])
    (simp_all add: demo_reads demo_defs stale_claim_def IN_PROGRESS_STATUSES_def)

section \<open>Frozen inputs of a deployment\<close>

text \<open>
  A retry of a deployment gets exactly the specification the first attempt was created
  with: copying the snapshot that was taken of a project returns that snapshot, whatever
  the project has become since.
\<close>

theorem retry_copies_snapshot:
  assumes "d_spec_snapshot_json d = create_deployment_spec_snapshot p branch" "d_project_id d = p_id p"
  shows "copy_deployment_spec_snapshot d (p_id p) = Inr (create_deployment_spec_snapshot p branch)"
  using copy_of_create [OF assms] assms(1) by simp

theorem retry_copies_snapshot_witness:
  "let j = create_deployment_spec_snapshot demo_project (Some ''release'')
   in copy_deployment_spec_snapshot ((demo_dep 3 Failed None)\<lparr>d_spec_snapshot_json := j\<rparr>) (p_id demo_project) = Inr j"
  unfolding Let_def
  by (rule retry_copies_snapshot) (simp_all add: demo_defs demo_project_def)

text \<open>
  A snapshot that is accepted for a retry is complete and belongs to the project; the
  others are refused with an error.
\<close>

theorem accepted_snapshot_complete:
  assumes "copy_deployment_spec_snapshot d pid = Inr j"
  shows "j = d_spec_snapshot_json d \<and> d_project_id d = pid
    \<and> (\<exists>spec. snapshot_spec d = Some spec \<and> (\<forall>field \<in> set PROJECT_SPEC_FIELDS. jhas spec field))"
  using copy_sound [OF assms] by blast

theorem accepted_snapshot_complete_witness:
  "let d = (demo_dep 3 Failed None)\<lparr>d_spec_snapshot_json := create_deployment_spec_snapshot demo_project None\<rparr>
   in d_spec_snapshot_json d = d_spec_snapshot_json d \<and> d_project_id d = 1
    \<and> (\<exists>spec. snapshot_spec d = Some spec \<and> (\<forall>field \<in> set PROJECT_SPEC_FIELDS. jhas spec field))"
  unfolding Let_def
proof (rule accepted_snapshot_complete)
  let ?d = "(demo_dep 3 Failed None)\<lparr>d_spec_snapshot_json := create_deployment_spec_snapshot demo_project None\<rparr>"
  have "p_id demo_project = 1" by (simp add: demo_project_def)
  then show "copy_deployment_spec_snapshot ?d 1 = Inr (d_spec_snapshot_json ?d)"
    using copy_of_create [of ?d demo_project None] by (simp add: demo_defs)
qed

text \<open>
  A worker deploys the specification of the snapshot: once a deployment has one, what is
  read for it does not depend on the tables, so no later edit of the project is seen.
\<close>

theorem snapshot_hides_later_edits:
  assumes "d_spec_snapshot_json d = create_deployment_spec_snapshot p branch"
  shows "project_for_deployment w d = (case branch of None \<Rightarrow> project_spec p
    | Some b \<Rightarrow> jset ''branch'' (JStr b) (project_spec p))"
  using project_for_deployment_frozen [OF snapshot_spec_create [OF assms]] .

theorem snapshot_hides_later_edits_witness:
  "let d = (demo_dep 3 Pending None)\<lparr>d_spec_snapshot_json := create_deployment_spec_snapshot demo_project (Some ''hotfix'')\<rparr>
   in project_for_deployment (demo_world [] [] []) d = (case Some ''hotfix'' of None \<Rightarrow> project_spec demo_project
    | Some b \<Rightarrow> jset ''branch'' (JStr b) (project_spec demo_project))"
  unfolding Let_def by (rule snapshot_hides_later_edits) simp

text \<open>
  C15: The Kubernetes mode and namespace that are persisted before the first side effect are
  what every later read returns, and neither a second attempt nor Helm metadata changes
  them.
\<close>

theorem runtime_identity_frozen:
  assumes "nonempty_string (Some mode) = Some mode" "mode \<in> set VALID_KUBERNETES_DEPLOYMENT_MODES"
    and "nonempty_string (Some ns) = Some ns"
    and "nonempty_string (d_kubernetes_deployment_mode d) = None"
    and "nonempty_string (d_kubernetes_namespace d) = None"
  shows "let d1 = freeze_identity mode ns ident d;
             d2 = helm_metadata disp md (freeze_identity mode' ns' ident' d1)
         in kubernetes_deployment_mode w d1 = Some mode \<and> kubernetes_namespace w d1 = Some ns
            \<and> kubernetes_deployment_mode w d2 = Some mode \<and> kubernetes_namespace w d2 = Some ns"
proof -
  let ?d1 = "freeze_identity mode ns ident d" let ?d2 = "freeze_identity mode' ns' ident' ?d1"
  let ?d3 = "helm_metadata disp md ?d2"
  have 1: "d_kubernetes_deployment_mode ?d1 = Some mode" "d_kubernetes_namespace ?d1 = Some ns"
    using assms by (simp_all add: freeze_identity_def keep_or_def)
  then have 2: "d_kubernetes_deployment_mode ?d2 = Some mode" "d_kubernetes_namespace ?d2 = Some ns"
    using assms(1,3) by (simp_all add: freeze_identity_def keep_or_def)
  then have 3: "d_kubernetes_deployment_mode ?d3 = Some mode" "d_kubernetes_namespace ?d3 = Some ns"
    using assms(1,3) helm_metadata_keeps_identity [of ?d2 disp md] by simp_all
  have "nonempty_string (d_kubernetes_deployment_mode x) = Some mode \<Longrightarrow> kubernetes_deployment_mode w x = Some mode" for x
    using assms(2) by (simp add: kubernetes_deployment_mode_def Let_def)
  moreover have "nonempty_string (d_kubernetes_namespace x) = Some ns \<Longrightarrow> kubernetes_namespace w x = Some ns" for x
    using assms(3) nonempty_string_SomeD [of "Some ns" ns] by (simp add: kubernetes_namespace_def or_else_def)
  ultimately show ?thesis using 1 3 assms(1,3) by (simp add: Let_def)
qed

theorem runtime_identity_frozen_witness:
  "let d1 = freeze_identity ''helm'' ''apps'' no_identity (demo_dep 3 Deploying None);
       d2 = helm_metadata (\<lambda>j. []) [] (freeze_identity ''manifest'' ''other'' no_identity d1)
   in kubernetes_deployment_mode (demo_world [] [] []) d1 = Some ''helm''
     \<and> kubernetes_namespace (demo_world [] [] []) d1 = Some ''apps''
     \<and> kubernetes_deployment_mode (demo_world [] [] []) d2 = Some ''helm''
     \<and> kubernetes_namespace (demo_world [] [] []) d2 = Some ''apps''"
  by (rule runtime_identity_frozen)
    (code_simp, simp add: VALID_KUBERNETES_DEPLOYMENT_MODES_def, code_simp,
      simp_all add: demo_defs nonempty_string_def)

section \<open>Secrets and reserved names\<close>

text \<open>
  No secret value survives the redaction of a text, wherever it occurs in it and
  whatever the other secrets are, provided it does not overlap the marker itself.
\<close>

theorem redaction_removes_secrets:
  assumes "v \<in> set secrets" "v \<noteq> []" "avoids v REDACTED"
  shows "\<not> contains v (redact_text secrets text)"
  by (rule redact_text_removes_secret [OF assms])

theorem redaction_removes_secrets_witness:
  "\<not> contains ''hunter2'' (redact_text [''x'', ''hunter2''] ''login hunter2hunter2 failed'')"
  by (rule redaction_removes_secrets) (simp_all add: avoids_def REDACTED_def)

text \<open>
  A project cannot set the names reserved for the platform: in the environment of a
  workload they carry the commit and the image tag of the build.
\<close>

theorem reserved_environment_names:
  assumes "item \<in> set (resolved_workload_environment w d b)"
    and "env_name item \<in> JStr ` set RESERVED_WORKLOAD_ENVIRONMENT_NAMES"
  shows "item = env_literal ''APP_COMMIT_SHA'' (b_commit_sha b)
    \<or> item = env_literal ''APP_VERSION'' (or_str (b_image_tag b) [])"
  by (rule reserved_only_platform [OF assms])

theorem reserved_environment_names_witness:
  "let b = demo_build 3 B_succeeded
   in env_literal ''APP_COMMIT_SHA'' (b_commit_sha b) = env_literal ''APP_COMMIT_SHA'' (b_commit_sha b)
    \<or> env_literal ''APP_COMMIT_SHA'' (b_commit_sha b) = env_literal ''APP_VERSION'' (or_str (b_image_tag b) [])"
  unfolding Let_def
  by (rule reserved_environment_names [where w = "demo_world [] [] []" and d = "demo_dep 3 Pending None"])
    (simp_all add: resolved_workload_environment_def env_literal_def RESERVED_WORKLOAD_ENVIRONMENT_NAMES_def)

text \<open>
  The transition tables have no cycle: a deployment or build that leaves a status never
  comes back to it, and stopped deployments and finished builds stay.
\<close>

theorem statuses_never_return:
  "(path dep_next a b \<and> path dep_next b a \<longrightarrow> a = b) \<and> (path dep_next Stopped b \<longrightarrow> b = Stopped)
   \<and> (path build_next x y \<and> path build_next y x \<longrightarrow> x = y)
   \<and> (path build_next B_failed y \<longrightarrow> y = B_failed) \<and> (path build_next B_cancelled y \<longrightarrow> y = B_cancelled)"
  using dep_machine.path_antisym dep_machine.path_terminal [of Stopped b]
    build_machine.path_antisym build_machine.path_terminal [of B_failed y]
    build_machine.path_terminal [of B_cancelled y] by auto

theorem statuses_never_return_witness:
  "path dep_next Pending Cloning \<and> \<not> path dep_next Cloning Pending \<and> \<not> path build_next B_failed B_pending"
  using statuses_never_return [of Pending Cloning] statuses_never_return [where y = B_pending]
    path_one [of Cloning dep_next Pending] by auto

end
